(* ===== verification/Prelude.thy ===== *)
theory Prelude
  imports Complex_Main
begin

text \<open>
  Shared vocabulary of the development.

  \<^item> \<open>('e, 'a) outcome\<close>: what a Rust call can do, return \<open>Ok\<close>, return \<open>Err\<close> or panic.
    \<open>bind_out\<close> is the question-mark operator: it stops at the first error or panic.
  \<^item> \<open>dec\<close>: a \<open>rust_decimal::Decimal\<close> as the rational number it denotes.  Equality and
    ordering of that type are numeric, so comparison, \<open>min\<close>, \<open>max\<close>, negation and \<open>abs\<close>
    are those of \<^typ>\<open>rat\<close>.  The four arithmetic operations round (or overflow), and the
    crate is not part of this repository: they are a parameter, a record \<^typ>\<open>rat\<close> operations
    \<open>dec_ops\<close>, passed to every definition that computes with decimals.  The one thing the
    proofs assume about it, where they assume anything, is the locale \<open>decimal_arith\<close>:
    an operation whose exact result is a representable decimal returns that result.
    (An overflow, which panics in the crate, never has a representable result.)
  \<^item> \<open>instant\<close>, \<open>duration\<close>, \<open>unix_time\<close>: clock readings as integers; every function
    that reads a clock takes the reading as an argument.
\<close>

section \<open>Rule collections\<close>

named_theorems outcome_simps \<open>unfolding of outcome combinators\<close>
named_theorems dec_simps \<open>the concrete decimal arithmetic used in witnesses\<close>

section \<open>Outcomes of a call\<close>

datatype ('e, 'a) outcome = Ok 'a | Err 'e | Panic

primrec bind_out :: "('e, 'a) outcome \<Rightarrow> ('a \<Rightarrow> ('e, 'b) outcome) \<Rightarrow> ('e, 'b) outcome" where
  "bind_out (Ok a) f = f a"
| "bind_out (Err e) f = Err e"
| "bind_out Panic f = Panic"

primrec is_ok :: "('e, 'a) outcome \<Rightarrow> bool" where
  "is_ok (Ok a) = True"
| "is_ok (Err e) = False"
| "is_ok Panic = False"

lemma bind_out_Ok_iff [outcome_simps]:
  "bind_out r f = Ok b \<longleftrightarrow> (\<exists>a. r = Ok a \<and> f a = Ok b)"
  by (cases r) auto

lemma bind_out_Panic_iff [outcome_simps]:
  "bind_out r f = Panic \<longleftrightarrow> r = Panic \<or> (\<exists>a. r = Ok a \<and> f a = Panic)"
  by (cases r) auto

lemma is_ok_iff [outcome_simps]: "is_ok r \<longleftrightarrow> (\<exists>a. r = Ok a)"
  by (cases r) auto

section \<open>Clock readings\<close>

type_synonym instant = int
type_synonym duration = int
type_synonym unix_time = int

text \<open>\<open>Instant::duration_since\<close> saturates at zero.\<close>

definition duration_since :: "instant \<Rightarrow> instant \<Rightarrow> duration" where
  "duration_since now t = max 0 (now - t)"

text \<open>
  \<open>Instant::checked_sub\<close>: \<open>None\<close> below the smallest instant \<open>lo\<close> the platform can
  represent.
\<close>

definition instant_checked_sub :: "instant \<Rightarrow> instant \<Rightarrow> duration \<Rightarrow> instant option" where
  "instant_checked_sub lo t d = (if lo \<le> t - d then Some (t - d) else None)"

lemma duration_since_le_iff: "0 \<le> d \<Longrightarrow> duration_since now t \<le> d \<longleftrightarrow> now - t \<le> d"
  by (auto simp: duration_since_def)

section \<open>Decimals\<close>

type_synonym dec = rat

record dec_ops =
  dadd :: "dec \<Rightarrow> dec \<Rightarrow> dec"
  dsub :: "dec \<Rightarrow> dec \<Rightarrow> dec"
  dmul :: "dec \<Rightarrow> dec \<Rightarrow> dec"
  ddiv :: "dec \<Rightarrow> dec \<Rightarrow> dec"

text \<open>
  The documented value set of \<open>Decimal\<close>: \<open>m / 10 ^ e\<close> with \<open>\<bar>m\<bar> < 2 ^ 96\<close> and \<open>e \<le> 28\<close>.
\<close>

definition is_dec :: "rat \<Rightarrow> bool" where
  "is_dec r \<longleftrightarrow>
     (\<exists>e \<in> {..28::nat}. snd (quotient_of (r * 10 ^ e)) = 1 \<and> \<bar>fst (quotient_of (r * 10 ^ e))\<bar> < 2 ^ 96)"

locale decimal_arith =
  fixes D :: dec_ops
  assumes add_exact: "is_dec x \<Longrightarrow> is_dec y \<Longrightarrow> is_dec (x + y) \<Longrightarrow> dadd D x y = x + y"
    and sub_exact: "is_dec x \<Longrightarrow> is_dec y \<Longrightarrow> is_dec (x - y) \<Longrightarrow> dsub D x y = x - y"
    and mul_exact: "is_dec x \<Longrightarrow> is_dec y \<Longrightarrow> is_dec (x * y) \<Longrightarrow> dmul D x y = x * y"
    and div_exact: "is_dec x \<Longrightarrow> is_dec y \<Longrightarrow> y \<noteq> 0 \<Longrightarrow> is_dec (x / y) \<Longrightarrow> ddiv D x y = x / y"

text \<open>
  A concrete instance: unbounded exact arithmetic, which agrees with the crate on every
  operation whose result is representable.
\<close>

definition exact_ops :: dec_ops where
  "exact_ops = \<lparr>dadd = (+), dsub = (-), dmul = (*), ddiv = (/)\<rparr>"

lemma exact_ops_simps [simp, dec_simps]:
  "dadd exact_ops = (+)" "dsub exact_ops = (-)" "dmul exact_ops = (*)" "ddiv exact_ops = (/)"
  by (simp_all add: exact_ops_def)

interpretation exact_ops: decimal_arith exact_ops
  by unfold_locales simp_all

text \<open>
  An instance that rounds the way a fixed-scale decimal does: results that are no decimals are
  rounded to the 28 digits the type has after the point.
\<close>

definition round_dec :: "rat \<Rightarrow> dec" where
  "round_dec r = (if is_dec r then r else of_int (round (r * 10 ^ 28)) / 10 ^ 28)"

definition rounding_ops :: dec_ops where
  "rounding_ops =
     \<lparr>dadd = (\<lambda>x y. round_dec (x + y)), dsub = (\<lambda>x y. round_dec (x - y)),
      dmul = (\<lambda>x y. round_dec (x * y)), ddiv = (\<lambda>x y. round_dec (x / y))\<rparr>"

interpretation rounding_ops: decimal_arith rounding_ops
  by unfold_locales (simp_all add: rounding_ops_def round_dec_def)

subsection \<open>Which rationals are decimals\<close>

lemma quotient_of_int_iff:
  "snd (quotient_of r) = 1 \<and> fst (quotient_of r) = m \<longleftrightarrow> r = of_int m"
proof
  assume "snd (quotient_of r) = 1 \<and> fst (quotient_of r) = m"
  then have "quotient_of r = (m, 1)" by (cases "quotient_of r") auto
  from quotient_of_div [OF this] show "r = of_int m" by simp
next
  assume "r = of_int m"
  then show "snd (quotient_of r) = 1 \<and> fst (quotient_of r) = m" by simp
qed

lemma is_dec_iff:
  "is_dec r \<longleftrightarrow> (\<exists>e m. e \<le> 28 \<and> \<bar>m\<bar> < 2 ^ 96 \<and> r = of_int m / 10 ^ e)"
proof
  assume "is_dec r"
  then obtain e where e: "e \<le> 28" "snd (quotient_of (r * 10 ^ e)) = 1"
    "\<bar>fst (quotient_of (r * 10 ^ e))\<bar> < 2 ^ 96"
    by (auto simp: is_dec_def)
  let ?m = "fst (quotient_of (r * 10 ^ e))"
  from e(2) have "r * 10 ^ e = of_int ?m" using quotient_of_int_iff by blast
  then have "r = of_int ?m / 10 ^ e" by (simp add: field_simps)
  with e show "\<exists>e m. e \<le> 28 \<and> \<bar>m\<bar> < 2 ^ 96 \<and> r = of_int m / 10 ^ e" by blast
next
  assume "\<exists>e m. e \<le> 28 \<and> \<bar>m\<bar> < 2 ^ 96 \<and> r = of_int m / 10 ^ e"
  then obtain e :: nat and m where em: "e \<le> 28" "\<bar>m\<bar> < 2 ^ 96" "r = of_int m / 10 ^ e" by blast
  then have "r * 10 ^ e = of_int m" by simp
  then have "quotient_of (r * 10 ^ e) = (m, 1)" by simp
  with em show "is_dec r" unfolding is_dec_def by (intro bexI [of _ e]) auto
qed

lemma is_dec_of_int: "\<bar>m\<bar> < 2 ^ 96 \<Longrightarrow> is_dec (of_int m)"
  unfolding is_dec_iff by (intro exI [of _ 0] exI [of _ m]) simp

lemma is_dec_zero [simp]: "is_dec 0"
  using is_dec_of_int [of 0] by simp

lemma is_dec_one [simp]: "is_dec 1"
  using is_dec_of_int [of 1] by simp

lemma is_dec_numeral: "(numeral n :: int) < 2 ^ 96 \<Longrightarrow> is_dec (numeral n)"
  using is_dec_of_int [of "numeral n"] by simp

lemma is_dec_uminus [simp]: "is_dec (- x) \<longleftrightarrow> is_dec x"
proof -
  have "is_dec (- x)" if "is_dec x" for x
    using that unfolding is_dec_iff
    by (metis abs_minus_cancel minus_divide_left of_int_minus)
  from this [of x] this [of "- x"] show ?thesis by auto
qed

text \<open>
  Amounts quoted on a common grid of \<open>10 ^ -s\<close> stay on it under addition and subtraction,
  and a grid value of bounded magnitude is a decimal.
\<close>

definition on_grid :: "nat \<Rightarrow> rat \<Rightarrow> bool" where
  "on_grid s x \<longleftrightarrow> (\<exists>m::int. x = of_int m / 10 ^ s)"

lemma on_grid_zero [simp]: "on_grid s 0"
  unfolding on_grid_def by (intro exI [of _ 0]) simp

lemma on_grid_add: "on_grid s x \<Longrightarrow> on_grid s y \<Longrightarrow> on_grid s (x + y)"
  unfolding on_grid_def by (metis add_divide_distrib of_int_add)

lemma on_grid_diff: "on_grid s x \<Longrightarrow> on_grid s y \<Longrightarrow> on_grid s (x - y)"
  unfolding on_grid_def by (metis diff_divide_distrib of_int_diff)

lemma on_grid_min: "on_grid s x \<Longrightarrow> on_grid s y \<Longrightarrow> on_grid s (min x y)"
  by (simp add: min_def)

lemma on_grid_is_dec:
  assumes "on_grid s x" "s \<le> 28" "\<bar>x\<bar> * 10 ^ s < 2 ^ 96"
  shows "is_dec x"
proof -
  from assms(1) obtain m :: int where m: "x = of_int m / 10 ^ s" by (auto simp: on_grid_def)
  with assms(3) have "\<bar>of_int m :: rat\<bar> < 2 ^ 96" by (simp add: abs_div)
  then have "(of_int \<bar>m\<bar> :: rat) < of_int (2 ^ 96)" by simp
  then have "\<bar>m\<bar> < 2 ^ 96" by (simp only: of_int_less_iff)
  with m assms(2) show ?thesis unfolding is_dec_iff by blast
qed

end
