(* ===== verification/Signals.thy ===== *)
theory Signals
  imports Prelude
begin

text \<open>
  The data every other component passes around: asset symbols and pairs
  (\<open>core/types.rs\<close>, \<open>core/assets.rs\<close>), venues (\<open>inventory/types.rs\<close>) and the signal record
  with its validity test (\<open>strategy/signal.rs\<close>).

  Strings are byte strings; \<open>to_uppercase\<close> is modelled on ASCII letters, which is where asset
  tickers live.  A \<open>DateTime\<close> is a number of nanoseconds.  The random part of a signal id and
  the clock are arguments.
\<close>

section \<open>Symbols and pairs\<close>

definition upper_char :: "char \<Rightarrow> char" where
  "upper_char c = (if 97 \<le> (of_char c :: nat) \<and> (of_char c :: nat) \<le> 122
                   then char_of ((of_char c :: nat) - 32) else c)"

definition to_uppercase :: "string \<Rightarrow> string" where
  "to_uppercase s = map upper_char s"

definition lower_char :: "char \<Rightarrow> char" where
  "lower_char c = (if 65 \<le> (of_char c :: nat) \<and> (of_char c :: nat) \<le> 90
                   then char_of ((of_char c :: nat) + 32) else c)"

definition lower :: "string \<Rightarrow> string" where
  "lower s = map lower_char s"

text \<open>\<open>str::split\<close> on one character: one part more than there are separators.\<close>

fun split_on :: "char \<Rightarrow> string \<Rightarrow> string list" where
  "split_on c [] = [[]]"
| "split_on c (x # xs) =
     (if x = c then [] # split_on c xs
      else (case split_on c xs of [] \<Rightarrow> [[x]] | p # ps \<Rightarrow> (x # p) # ps))"

datatype core_error =
    InvalidAddress string
  | InvalidTokenAmount string
  | TokenDecimalsMismatch nat nat
  | InvalidTransactionRequest string
  | InvalidPair string
  | InvalidReceipt string
  | InvalidSerialization string
  | MathError string

definition split_pair_symbols :: "string \<Rightarrow> core_error + (string \<times> string)" where
  "split_pair_symbols pair =
     (case split_on (CHR ''/'') pair of
        base # quote # rest \<Rightarrow>
          (if base = [] \<or> quote = [] \<or> rest \<noteq> [] then Inl (InvalidPair pair) else Inr (base, quote))
      | _ \<Rightarrow> Inl (InvalidPair pair))"

definition canonicalize_asset :: "string \<Rightarrow> string" where
  "canonicalize_asset asset =
     (let u = to_uppercase asset in
      if u = ''ETH'' then ''WETH'' else if u = ''USDC.E'' then ''USDC'' else u)"

definition get_equivalent_assets :: "string \<Rightarrow> string list" where
  "get_equivalent_assets asset =
     (let u = to_uppercase asset in
      if u = ''ETH'' \<or> u = ''WETH'' then [''ETH'', ''WETH'']
      else if u = ''USDC'' \<or> u = ''USDC.E'' then [''USDC'', ''USDC.E'']
      else [u])"

definition are_assets_equivalent :: "string \<Rightarrow> string \<Rightarrow> bool" where
  "are_assets_equivalent a b =
     (if to_uppercase a = to_uppercase b then True
      else list_ex (\<lambda>e. e = to_uppercase b) (get_equivalent_assets a))"

section \<open>Venues and directions\<close>

datatype venue = Binance | Bybit | Wallet

definition is_cex :: "venue \<Rightarrow> bool" where
  "is_cex v \<longleftrightarrow> v = Binance \<or> v = Bybit"

datatype direction = BuyCexSellDex | BuyDexSellCex

fun buy_venue :: "direction \<Rightarrow> venue" where
  "buy_venue BuyCexSellDex = Binance"
| "buy_venue BuyDexSellCex = Wallet"

fun sell_venue :: "direction \<Rightarrow> venue" where
  "sell_venue BuyCexSellDex = Wallet"
| "sell_venue BuyDexSellCex = Binance"

section \<open>Signals\<close>

type_synonym date_time = int

record signal =
  signal_id :: string
  sig_pair :: string
  sig_direction :: direction
  cex_price :: dec
  dex_price :: dec
  spread_bps :: dec
  sig_size :: dec
  notional_quote :: dec
  notional_usd :: dec
  expected_gross_pnl :: dec
  expected_fees :: dec
  expected_net_pnl :: dec
  score :: dec
  timestamp :: date_time
  expiry :: date_time
  inventory_ok :: bool
  within_limits :: bool

record signal_params =
  sp_pair :: string
  sp_direction :: direction
  sp_cex_price :: dec
  sp_dex_price :: dec
  sp_spread_bps :: dec
  sp_size :: dec
  sp_notional_usd :: dec
  sp_expected_gross_pnl :: dec
  sp_expected_fees :: dec
  sp_expected_net_pnl :: dec
  sp_ttl :: int
  sp_inventory_ok :: bool
  sp_within_limits :: bool

text \<open>The four random bytes of \<open>generate_id\<close> arrive as their hex text.\<close>

definition generate_id :: "string \<Rightarrow> string \<Rightarrow> string" where
  "generate_id rnd pair = filter (\<lambda>c. c \<noteq> CHR ''/'') pair @ ''_'' @ rnd"

definition signal_new :: "dec_ops \<Rightarrow> string \<Rightarrow> date_time \<Rightarrow> signal_params \<Rightarrow> signal" where
  "signal_new D rnd now p =
     \<lparr>signal_id = generate_id rnd (sp_pair p),
      sig_pair = sp_pair p,
      sig_direction = sp_direction p,
      cex_price = sp_cex_price p,
      dex_price = sp_dex_price p,
      spread_bps = sp_spread_bps p,
      sig_size = sp_size p,
      notional_quote = dmul D (sp_size p) (sp_cex_price p),
      notional_usd = sp_notional_usd p,
      expected_gross_pnl = sp_expected_gross_pnl p,
      expected_fees = sp_expected_fees p,
      expected_net_pnl = sp_expected_net_pnl p,
      score = 0,
      timestamp = now,
      expiry = now + sp_ttl p,
      inventory_ok = sp_inventory_ok p,
      within_limits = sp_within_limits p\<rparr>"

definition is_valid :: "signal \<Rightarrow> date_time \<Rightarrow> bool" where
  "is_valid s now \<longleftrightarrow>
     now < expiry s \<and> inventory_ok s \<and> within_limits s \<and> expected_net_pnl s > 0 \<and> score s > 0"

text \<open>
  \<open>num_milliseconds\<close> truncates toward zero; the quotient by 1000 is taken exactly (the code
  takes it in \<open>f64\<close>).
\<close>

definition num_milliseconds :: "int \<Rightarrow> int" where
  "num_milliseconds ns = sgn ns * (\<bar>ns\<bar> div 1000000)"

definition age_seconds :: "signal \<Rightarrow> date_time \<Rightarrow> rat" where
  "age_seconds s now = of_int (num_milliseconds (now - timestamp s)) / 1000"

text \<open>A concrete signal, for the witnesses of this development.\<close>

definition sample_signal :: signal where
  "sample_signal =
     \<lparr>signal_id = ''ETHUSDT_0a1b2c3d'', sig_pair = ''ETH/USDT'', sig_direction = BuyCexSellDex,
      cex_price = 2, dex_price = 3, spread_bps = 100, sig_size = 2, notional_quote = 4,
      notional_usd = 4, expected_gross_pnl = 2, expected_fees = 1, expected_net_pnl = 1,
      score = 80, timestamp = 0, expiry = 5000000000, inventory_ok = True, within_limits = True\<rparr>"

section \<open>Lemmas\<close>

lemma split_on_not_Nil [simp]: "split_on c s \<noteq> []"
  by (cases s) (auto split: list.splits)

lemma split_on_no_sep: "c \<notin> set s \<Longrightarrow> split_on c s = [s]"
  by (induction s) auto

lemma split_on_append_sep: "c \<notin> set b \<Longrightarrow> split_on c (b @ c # q) = b # split_on c q"
  by (induction b) auto

lemma split_on_parts: "p \<in> set (split_on c s) \<Longrightarrow> c \<notin> set p"
  by (induction s arbitrary: p) (fastforce split: if_splits list.splits)+

lemma split_on_two: "split_on c s = [b, q] \<Longrightarrow> s = b @ c # q"
proof (induction s arbitrary: b)
  case Nil
  then show ?case by simp
next
  case (Cons x xs)
  show ?case
  proof (cases "x = c")
    case True
    with Cons.prems have "b = []" "split_on c xs = [q]" by auto
    moreover from \<open>split_on c xs = [q]\<close> have "xs = q"
    proof (induction xs arbitrary: q)
      case Nil
      then show ?case by simp
    next
      case (Cons y ys)
      then show ?case by (fastforce split: if_splits list.splits)
    qed
    ultimately show ?thesis using True by simp
  next
    case False
    with Cons.prems obtain b' where b': "b = x # b'" "split_on c xs = [b', q]"
      by (auto split: list.splits)
    from Cons.IH [OF b'(2)] b'(1) show ?thesis by simp
  qed
qed

text \<open>
  Pair symbols parse and print.  \<open>split_pair_symbols\<close> accepts exactly the strings
  BASE/QUOTE whose two parts are non-empty and contain no slash, and returns those two parts;
  every other string is an \<open>InvalidPair\<close>.
\<close>

lemma split_pair_symbols_iff:
  "split_pair_symbols pair = Inr (base, quote) \<longleftrightarrow>
     pair = base @ ''/'' @ quote \<and> base \<noteq> [] \<and> quote \<noteq> []
     \<and> CHR ''/'' \<notin> set base \<and> CHR ''/'' \<notin> set quote"
proof
  assume "split_pair_symbols pair = Inr (base, quote)"
  then have s: "split_on (CHR ''/'') pair = [base, quote]" and ne: "base \<noteq> []" "quote \<noteq> []"
    by (auto simp: split_pair_symbols_def split: list.splits if_splits)
  from split_on_two [OF s] split_on_parts [of _ "CHR ''/''" pair] s ne
  show "pair = base @ ''/'' @ quote \<and> base \<noteq> [] \<and> quote \<noteq> []
     \<and> CHR ''/'' \<notin> set base \<and> CHR ''/'' \<notin> set quote" by auto
next
  assume "pair = base @ ''/'' @ quote \<and> base \<noteq> [] \<and> quote \<noteq> []
     \<and> CHR ''/'' \<notin> set base \<and> CHR ''/'' \<notin> set quote"
  then show "split_pair_symbols pair = Inr (base, quote)"
    by (simp add: split_pair_symbols_def split_on_append_sep split_on_no_sep)
qed

lemma buy_sell_venue_distinct [simp]: "buy_venue d \<noteq> sell_venue d" "sell_venue d \<noteq> buy_venue d"
  by (cases d; simp)+

lemma get_equivalent_assets_distinct [simp]: "distinct (get_equivalent_assets a)"
  by (simp add: get_equivalent_assets_def Let_def)

lemma get_equivalent_assets_cases:
  "get_equivalent_assets a = [to_uppercase a]
   \<or> (\<exists>b. get_equivalent_assets a = [to_uppercase a, b] \<or> get_equivalent_assets a = [b, to_uppercase a])"
  by (auto simp: get_equivalent_assets_def Let_def)

lemma get_equivalent_assets_self: "to_uppercase a \<in> set (get_equivalent_assets a)"
  by (auto simp: get_equivalent_assets_def Let_def)

end
