(* ===== verification/Recovery.thy ===== *)
theory Recovery
  imports Signals
begin

text \<open>
  \<open>executor/recovery.rs\<close>: the failure-count circuit breaker, the daily profit-and-loss breaker
  and the replay guard with its optional SQLite journal.

  The \<open>*_at\<close> methods of the source take the clock as an argument and so does every function
  here.  The journal's two SQL statements are modelled on the table they define (a map from
  signal id to expiry second); whether a statement succeeds is decided by SQLite and is an
  argument \<open>ok\<close>.  Logging is left out.
\<close>

section \<open>Circuit breaker\<close>

record circuit_breaker_config =
  failure_threshold :: nat
  window :: duration
  cooldown :: duration

definition circuit_breaker_config_default :: circuit_breaker_config where
  "circuit_breaker_config_default =
     \<lparr>failure_threshold = 3, window = 300 * 1000000000, cooldown = 600 * 1000000000\<rparr>"

record circuit_breaker =
  cb_config :: circuit_breaker_config
  failures :: "instant list"
  tripped_at :: "instant option"

definition circuit_breaker_new :: "circuit_breaker_config \<Rightarrow> circuit_breaker" where
  "circuit_breaker_new c = \<lparr>cb_config = c, failures = [], tripped_at = None\<rparr>"

text \<open>The \<open>while let\<close> loop that pops expired failures from the front of the queue.\<close>

fun pop_expired :: "instant \<Rightarrow> instant list \<Rightarrow> instant list" where
  "pop_expired cutoff [] = []"
| "pop_expired cutoff (t # ts) = (if t \<le> cutoff then pop_expired cutoff ts else t # ts)"

definition record_failure_at :: "instant \<Rightarrow> instant \<Rightarrow> circuit_breaker \<Rightarrow> circuit_breaker" where
  "record_failure_at lo now b =
     (let fs = failures b @ [now];
          fs' = (case instant_checked_sub lo now (window (cb_config b)) of
                   Some cutoff \<Rightarrow> pop_expired cutoff fs
                 | None \<Rightarrow> fs);
          b' = b\<lparr>failures := fs'\<rparr>
      in if length fs' \<ge> failure_threshold (cb_config b) \<and> tripped_at b = None
         then b'\<lparr>tripped_at := Some now\<rparr> else b')"

definition record_success :: "circuit_breaker \<Rightarrow> circuit_breaker" where
  "record_success b = b"

definition failure_count :: "circuit_breaker \<Rightarrow> nat" where
  "failure_count b = length (failures b)"

definition is_open_at :: "instant \<Rightarrow> circuit_breaker \<Rightarrow> circuit_breaker \<times> bool" where
  "is_open_at now b =
     (case tripped_at b of
        None \<Rightarrow> (b, False)
      | Some t \<Rightarrow>
          (if duration_since now t > cooldown (cb_config b)
           then (b\<lparr>tripped_at := None, failures := []\<rparr>, False)
           else (b, True)))"

definition time_until_reset :: "instant \<Rightarrow> circuit_breaker \<Rightarrow> duration" where
  "time_until_reset now b =
     (case tripped_at b of
        None \<Rightarrow> 0
      | Some t \<Rightarrow> max 0 (cooldown (cb_config b) - duration_since now t))"

subsection \<open>Runs\<close>

text \<open>
  A run is a list of timed events.  The clock is monotonic and never below the smallest
  representable instant, so the times of a run do not decrease.
\<close>

datatype breaker_event = Failure | Success | Query

fun breaker_step :: "instant \<Rightarrow> circuit_breaker \<Rightarrow> instant \<times> breaker_event \<Rightarrow> circuit_breaker" where
  "breaker_step lo b (now, Failure) = record_failure_at lo now b"
| "breaker_step lo b (now, Success) = record_success b"
| "breaker_step lo b (now, Query) = fst (is_open_at now b)"

definition breaker_run :: "instant \<Rightarrow> circuit_breaker_config \<Rightarrow> (instant \<times> breaker_event) list \<Rightarrow> circuit_breaker" where
  "breaker_run lo c evs = foldl (breaker_step lo) (circuit_breaker_new c) evs"

definition timed :: "instant \<Rightarrow> (instant \<times> breaker_event) list \<Rightarrow> bool" where
  "timed lo evs \<longleftrightarrow> sorted (map fst evs) \<and> (\<forall>e \<in> set evs. lo \<le> fst e)"

text \<open>The state a breaker must be in after a run whose last event was at time \<open>now\<close>.\<close>

definition breaker_inv :: "instant \<Rightarrow> instant \<Rightarrow> circuit_breaker_config \<Rightarrow> circuit_breaker \<Rightarrow> bool" where
  "breaker_inv lo now c b \<longleftrightarrow>
     cb_config b = c \<and> sorted (failures b) \<and> (\<forall>t \<in> set (failures b). lo \<le> t \<and> t \<le> now)
     \<and> (tripped_at b = None \<longrightarrow> length (failures b) < failure_threshold c)
     \<and> (\<forall>t. tripped_at b = Some t \<longrightarrow> lo \<le> t \<and> t \<le> now)"

subsection \<open>Lemmas\<close>

lemma pop_expired_eq_filter: "sorted ts \<Longrightarrow> pop_expired cutoff ts = filter (\<lambda>t. cutoff < t) ts"
proof (induction ts)
  case Nil
  then show ?case by simp
next
  case (Cons t ts)
  show ?case
  proof (cases "t \<le> cutoff")
    case True
    with Cons show ?thesis by auto
  next
    case False
    with Cons.prems have "\<forall>u \<in> set ts. cutoff < u" by auto
    with False show ?thesis by (auto simp: filter_id_conv)
  qed
qed

text \<open>
  The queue after a failure is the set of failures of the last window, whether or not the
  platform can represent the start of that window.
\<close>

lemma failures_record:
  assumes "sorted (failures b)" and "\<forall>t \<in> set (failures b). lo \<le> t \<and> t \<le> now" and "lo \<le> now"
    and "0 < window (cb_config b)"
  shows "failures (record_failure_at lo now b)
         = filter (\<lambda>t. now - window (cb_config b) < t) (failures b @ [now])"
proof -
  have s: "sorted (failures b @ [now])" using assms(1,2) by (auto simp: sorted_append)
  show ?thesis
  proof (cases "lo \<le> now - window (cb_config b)")
    case True
    with s show ?thesis
      by (simp add: record_failure_at_def instant_checked_sub_def pop_expired_eq_filter Let_def)
  next
    case False
    with assms(2,3) have "\<forall>t \<in> set (failures b @ [now]). now - window (cb_config b) < t" by force
    then have "filter (\<lambda>t. now - window (cb_config b) < t) (failures b @ [now]) = failures b @ [now]"
      by (simp only: filter_id_conv)
    with False show ?thesis
      by (simp add: record_failure_at_def instant_checked_sub_def Let_def)
  qed
qed

lemma record_failure_tripped:
  "tripped_at (record_failure_at lo now b) =
     (if failure_threshold (cb_config b) \<le> length (failures (record_failure_at lo now b)) \<and> tripped_at b = None
      then Some now else tripped_at b)"
  by (simp add: record_failure_at_def Let_def)

lemma record_failure_config [simp]: "cb_config (record_failure_at lo now b) = cb_config b"
  by (simp add: record_failure_at_def Let_def)

lemma breaker_inv_new: "0 < failure_threshold c \<Longrightarrow> breaker_inv lo now c (circuit_breaker_new c)"
  by (simp add: breaker_inv_def circuit_breaker_new_def)

lemma breaker_inv_failure:
  assumes inv: "breaker_inv lo t0 c b" and "t0 \<le> now" "lo \<le> now" "0 < window c"
  shows "breaker_inv lo now c (record_failure_at lo now b)"
proof -
  from assms have fs: "failures (record_failure_at lo now b)
      = filter (\<lambda>t. now - window c < t) (failures b @ [now])"
    by (subst failures_record) (auto simp: breaker_inv_def)
  have sorted: "sorted (failures b @ [now])"
    using inv \<open>t0 \<le> now\<close> by (force simp: breaker_inv_def sorted_append)
  from inv assms(2-4) sorted show ?thesis
    unfolding breaker_inv_def record_failure_tripped fs
    by (auto simp: sorted_filter [of id, simplified] simp del: filter_append split: if_splits)
qed

lemma breaker_inv_query:
  assumes "breaker_inv lo t0 c b" "t0 \<le> now" "0 < failure_threshold c"
  shows "breaker_inv lo now c (fst (is_open_at now b))"
  using assms by (fastforce simp: breaker_inv_def is_open_at_def split: option.splits)

lemma breaker_inv_step:
  assumes "breaker_inv lo t0 c b" "t0 \<le> now" "lo \<le> now" "0 < failure_threshold c" "0 < window c"
  shows "breaker_inv lo now c (breaker_step lo b (now, e))"
proof (cases e)
  case Failure
  with assms show ?thesis by (simp add: breaker_inv_failure)
next
  case Success
  with assms show ?thesis by (fastforce simp: breaker_inv_def record_success_def)
next
  case Query
  with assms show ?thesis by (simp add: breaker_inv_query)
qed

lemma breaker_inv_run:
  assumes "timed lo evs" "0 < failure_threshold c" "0 < window c" "evs \<noteq> []"
  shows "breaker_inv lo (fst (last evs)) c (breaker_run lo c evs)"
  using assms
proof (induction evs rule: rev_induct)
  case Nil
  then show ?case by simp
next
  case (snoc ev evs)
  obtain now e where ev: "ev = (now, e)" by (cases ev)
  from snoc.prems have "lo \<le> now" by (auto simp: timed_def ev)
  have "\<exists>t0 \<le> now. breaker_inv lo t0 c (breaker_run lo c evs)"
  proof (cases "evs = []")
    case True
    with snoc.prems show ?thesis by (auto simp: breaker_run_def intro: breaker_inv_new)
  next
    case False
    with snoc have "breaker_inv lo (fst (last evs)) c (breaker_run lo c evs)"
      by (auto simp: timed_def sorted_append)
    moreover have "fst (last evs) \<le> now"
      using snoc.prems(1) False by (auto simp: timed_def ev sorted_append)
    ultimately show ?thesis by blast
  qed
  then obtain t0 where "t0 \<le> now" "breaker_inv lo t0 c (breaker_run lo c evs)" by blast
  from breaker_inv_step [OF this(2,1) \<open>lo \<le> now\<close> snoc.prems(2,3), of e]
  show ?case by (simp add: breaker_run_def ev)
qed


text \<open>What the queue and the trip time are, for a run of failures only.\<close>

lemma failure_run:
  assumes "timed lo (map (\<lambda>t. (t, Failure)) ts)" "0 < failure_threshold c" "0 < window c"
  shows "failures (breaker_run lo c (map (\<lambda>t. (t, Failure)) ts))
           = (if ts = [] then [] else filter (\<lambda>t. last ts - window c < t) ts)
         \<and> (tripped_at (breaker_run lo c (map (\<lambda>t. (t, Failure)) ts)) \<noteq> None
            \<longleftrightarrow> (\<exists>k < length ts. failure_threshold c
                   \<le> length (filter (\<lambda>t. ts ! k - window c < t) (take (Suc k) ts))))"
  using assms
proof (induction ts rule: rev_induct)
  case Nil
  then show ?case by (simp add: breaker_run_def circuit_breaker_new_def)
next
  case (snoc now ts)
  let ?evs = "map (\<lambda>t. (t, Failure)) ts"
  let ?b = "breaker_run lo c ?evs"
  from snoc.prems have tm: "timed lo ?evs" and s: "sorted (ts @ [now])" and lo: "lo \<le> now"
    by (auto simp: timed_def sorted_append comp_def)
  note IH = snoc.IH [OF tm snoc.prems(2,3)]
  have inv: "\<exists>t0 \<le> now. breaker_inv lo t0 c ?b"
  proof (cases "ts = []")
    case True
    then show ?thesis using snoc.prems by (auto simp: breaker_run_def intro: breaker_inv_new)
  next
    case False
    with s have "last ts \<le> now" by (auto simp: sorted_append)
    moreover from False have "fst (last ?evs) = last ts" by (simp add: last_map)
    ultimately show ?thesis using breaker_inv_run [OF tm snoc.prems(2,3)] False by auto
  qed
  then have cfg: "cb_config ?b = c" and srt: "sorted (failures ?b)"
    and bd: "\<forall>t \<in> set (failures ?b). lo \<le> t \<and> t \<le> now"
    by (force simp: breaker_inv_def)+
  have run: "breaker_run lo c (map (\<lambda>t. (t, Failure)) (ts @ [now])) = record_failure_at lo now ?b"
    by (simp add: breaker_run_def)
  have fs: "failures (record_failure_at lo now ?b) = filter (\<lambda>t. now - window c < t) (ts @ [now])"
  proof -
    have "filter (\<lambda>t. now - window c < t) (failures ?b) = filter (\<lambda>t. now - window c < t) ts"
    proof (cases "ts = []")
      case True with IH show ?thesis by simp
    next
      case False
      with s have "last ts \<le> now" by (auto simp: sorted_append)
      then have "(\<lambda>t. last ts - window c < t \<and> now - window c < t) = (\<lambda>t. now - window c < t)" by auto
      with False IH show ?thesis by (simp add: conj_commute)
    qed
    with failures_record [OF srt bd lo] snoc.prems(3) cfg show ?thesis by simp
  qed
  have "(\<exists>k < length (ts @ [now]). failure_threshold c
            \<le> length (filter (\<lambda>t. (ts @ [now]) ! k - window c < t) (take (Suc k) (ts @ [now]))))
        \<longleftrightarrow> (\<exists>k < length ts. failure_threshold c
            \<le> length (filter (\<lambda>t. ts ! k - window c < t) (take (Suc k) ts)))
          \<or> failure_threshold c \<le> length (filter (\<lambda>t. now - window c < t) (ts @ [now]))"
    unfolding length_append_singleton Ex_less_Suc
    by (auto simp: nth_append simp del: filter_append)
  with IH fs show ?case
    unfolding run record_failure_tripped by (auto simp: cfg simp del: filter_append)
qed

text \<open>
  C21: the sliding queue of the circuit breaker counts exactly.  After a run of failures at
  non-decreasing times the breaker has tripped if and only if at some failure of the run at
  least \<open>failure_threshold\<close> failures lay within the window that ends there, and the queue holds
  exactly the failures of the window that ends at the last one.
\<close>

theorem breaker_trips_iff_window_full:
  assumes "timed lo (map (\<lambda>t. (t, Failure)) ts)" "0 < failure_threshold c" "0 < window c" "ts \<noteq> []"
  shows "failures (breaker_run lo c (map (\<lambda>t. (t, Failure)) ts)) = filter (\<lambda>t. last ts - window c < t) ts
         \<and> (tripped_at (breaker_run lo c (map (\<lambda>t. (t, Failure)) ts)) \<noteq> None
            \<longleftrightarrow> (\<exists>k < length ts. failure_threshold c
                   \<le> length (filter (\<lambda>t. ts ! k - window c < t) (take (Suc k) ts))))"
  using failure_run [OF assms(1-3)] assms(4) by simp

theorem breaker_trips_iff_window_full_witness:
  "failures (breaker_run 0 \<lparr>failure_threshold = 2, window = 10, cooldown = 5\<rparr>
      (map (\<lambda>t. (t, Failure)) [3, 20, 29])) = [20, 29]
   \<and> tripped_at (breaker_run 0 \<lparr>failure_threshold = 2, window = 10, cooldown = 5\<rparr>
      (map (\<lambda>t. (t, Failure)) [3, 20, 29])) \<noteq> None"
proof -
  let ?c = "\<lparr>failure_threshold = 2, window = 10, cooldown = 5\<rparr>"
  have "timed 0 (map (\<lambda>t. (t, Failure)) [3, 20, 29])" by (simp add: timed_def)
  from breaker_trips_iff_window_full [OF this, of ?c] show ?thesis
    by (simp add: numeral_2_eq_2 Ex_less_Suc2)
qed

lemma tripped_sticky:
  assumes "tripped_at b = Some t" "\<forall>(u, e) \<in> set evs. u - t \<le> cooldown (cb_config b)" "0 \<le> cooldown (cb_config b)"
  shows "tripped_at (foldl (breaker_step lo) b evs) = Some t
         \<and> cb_config (foldl (breaker_step lo) b evs) = cb_config b"
  using assms
proof (induction evs arbitrary: b)
  case Nil
  then show ?case by simp
next
  case (Cons ev evs)
  obtain u e where ev: "ev = (u, e)" by (cases ev)
  with Cons.prems have "tripped_at (breaker_step lo b ev) = Some t
      \<and> cb_config (breaker_step lo b ev) = cb_config b"
    by (cases e) (auto simp: record_failure_tripped record_success_def is_open_at_def duration_since_def)
  with Cons show ?case by simp
qed


text \<open>
  Once tripped at \<open>t\<close> the breaker answers \<open>open\<close> to every query up to and including
  \<open>t + cooldown\<close>, whatever failures, successes and queries happen in between; the first later
  query closes it and forgets every failure, so a tripped breaker never stays open past its
  cooldown.
\<close>

lemma breaker_open_exactly_for_cooldown:
  assumes "tripped_at b = Some t" "t \<le> now" "0 \<le> cooldown (cb_config b)"
    and "\<forall>(u, e) \<in> set evs. u \<le> t + cooldown (cb_config b)"
  shows "(snd (is_open_at now (foldl (breaker_step lo) b evs)) \<longleftrightarrow> now \<le> t + cooldown (cb_config b))
         \<and> (t + cooldown (cb_config b) < now \<longrightarrow>
            fst (is_open_at now (foldl (breaker_step lo) b evs)) = circuit_breaker_new (cb_config b))"
proof -
  from assms(4) have "\<forall>(u, e) \<in> set evs. u - t \<le> cooldown (cb_config b)" by auto
  from tripped_sticky [OF assms(1) this assms(3), of lo] assms(2,3) show ?thesis
    by (auto simp: is_open_at_def duration_since_def circuit_breaker_new_def)
qed

lemma breaker_open_exactly_for_cooldown_witness:
  "let b = breaker_run 0 \<lparr>failure_threshold = 1, window = 10, cooldown = 5\<rparr> [(3, Failure)];
       b' = foldl (breaker_step 0) b [(4, Failure), (8, Query)]
   in snd (is_open_at 8 b') \<and> \<not> snd (is_open_at 9 b')"
proof -
  let ?c = "\<lparr>failure_threshold = 1, window = 10, cooldown = 5\<rparr>"
  let ?b = "breaker_run 0 ?c [(3, Failure)]"
  have b: "tripped_at ?b = Some 3" "cb_config ?b = ?c"
    by (simp_all add: breaker_run_def circuit_breaker_new_def record_failure_at_def instant_checked_sub_def)
  show ?thesis
    using breaker_open_exactly_for_cooldown [of ?b 3 8 "[(4, Failure), (8, Query)]" 0]
      breaker_open_exactly_for_cooldown [of ?b 3 9 "[(4, Failure), (8, Query)]" 0] b
    by (simp add: Let_def)
qed

section \<open>Daily profit-and-loss breaker\<close>

text \<open>A UTC date is a day number.\<close>

record pnl_breaker =
  max_daily_loss_usd :: dec
  cumulative_pnl :: dec
  pb_day :: int
  halted :: bool

definition pnl_breaker_new :: "dec \<Rightarrow> int \<Rightarrow> pnl_breaker" where
  "pnl_breaker_new max_loss today =
     \<lparr>max_daily_loss_usd = max_loss, cumulative_pnl = 0, pb_day = today, halted = False\<rparr>"

definition maybe_reset_day_at :: "int \<Rightarrow> pnl_breaker \<Rightarrow> pnl_breaker" where
  "maybe_reset_day_at today p =
     (if today \<noteq> pb_day p then p\<lparr>pb_day := today, cumulative_pnl := 0, halted := False\<rparr> else p)"

definition record_pnl_at :: "dec_ops \<Rightarrow> dec \<Rightarrow> int \<Rightarrow> pnl_breaker \<Rightarrow> pnl_breaker" where
  "record_pnl_at D net_pnl today p =
     (let p1 = maybe_reset_day_at today p;
          p2 = p1\<lparr>cumulative_pnl := dadd D (cumulative_pnl p1) net_pnl\<rparr>
      in if \<not> halted p2 \<and> cumulative_pnl p2 < - max_daily_loss_usd p2
         then p2\<lparr>halted := True\<rparr> else p2)"

definition is_halted :: "pnl_breaker \<Rightarrow> bool" where
  "is_halted p = halted p"

definition record_day :: "dec_ops \<Rightarrow> int \<Rightarrow> dec list \<Rightarrow> pnl_breaker \<Rightarrow> pnl_breaker" where
  "record_day D today pnls p = foldl (\<lambda>p x. record_pnl_at D x today p) p pnls"

lemma record_day_same:
  assumes "pb_day p = today" "\<not> halted p" "cumulative_pnl p = 0"
  shows "pb_day (record_day D today pnls p) = today
         \<and> max_daily_loss_usd (record_day D today pnls p) = max_daily_loss_usd p
         \<and> cumulative_pnl (record_day D today pnls p) = foldl (dadd D) 0 pnls
         \<and> (halted (record_day D today pnls p)
            \<longleftrightarrow> (\<exists>k < length pnls. foldl (dadd D) 0 (take (Suc k) pnls) < - max_daily_loss_usd p))"
proof (induction pnls rule: rev_induct)
  case Nil
  with assms show ?case by (simp add: record_day_def)
next
  case (snoc x xs)
  have run: "record_day D today (xs @ [x]) p = record_pnl_at D x today (record_day D today xs p)"
    by (simp add: record_day_def)
  show ?case using snoc
    unfolding run length_append_singleton Ex_less_Suc
    by (auto simp: record_pnl_at_def maybe_reset_day_at_def Let_def)
qed

text \<open>
  On the first observation of a new day the loss breaker starts from zero, whatever state the
  previous day left; within the day it is halted exactly when the running sum of the day's
  realised results has been below \<open>- max_daily_loss_usd\<close> at some point, so a later win never
  re-opens trading that day.
\<close>

lemma pnl_breaker_halts_iff_drawdown:
  assumes "pb_day p \<noteq> today" "pnls \<noteq> []"
  shows "cumulative_pnl (record_day D today pnls p) = foldl (dadd D) 0 pnls
         \<and> (is_halted (record_day D today pnls p)
            \<longleftrightarrow> (\<exists>k < length pnls. foldl (dadd D) 0 (take (Suc k) pnls) < - max_daily_loss_usd p))"
proof -
  let ?q = "maybe_reset_day_at today p"
  have "record_day D today pnls p = record_day D today pnls ?q"
    using assms(2)
    by (cases pnls) (simp_all add: record_day_def record_pnl_at_def maybe_reset_day_at_def)
  moreover have "pb_day ?q = today" "\<not> halted ?q" "cumulative_pnl ?q = 0"
    "max_daily_loss_usd ?q = max_daily_loss_usd p"
    using assms(1) by (simp_all add: maybe_reset_day_at_def)
  ultimately show ?thesis
    using record_day_same [of ?q today D pnls] by (simp add: is_halted_def)
qed

lemma pnl_breaker_halts_iff_drawdown_witness:
  "is_halted (record_day exact_ops 8 [-60, -50, 200] (pnl_breaker_new 100 7))
   \<and> \<not> is_halted (record_day exact_ops 8 [-60, 50, -90] (pnl_breaker_new 100 7))"
  using pnl_breaker_halts_iff_drawdown [of "pnl_breaker_new 100 7" 8 "[-60, -50, 200]" exact_ops]
    pnl_breaker_halts_iff_drawdown [of "pnl_breaker_new 100 7" 8 "[-60, 50, -90]" exact_ops]
  by (simp add: pnl_breaker_new_def Ex_less_Suc2)

section \<open>Replay protection\<close>

text \<open>The journal's table \<open>replay_seen\<close>: signal id to expiry in unix seconds.\<close>

type_synonym replay_table = "string \<rightharpoonup> unix_time"

definition upsert :: "bool \<Rightarrow> string \<Rightarrow> unix_time \<Rightarrow> replay_table \<Rightarrow> replay_table" where
  "upsert ok sid expires_at tbl = (if ok then tbl(sid \<mapsto> expires_at) else tbl)"

definition prune_expired_at :: "bool \<Rightarrow> unix_time \<Rightarrow> replay_table \<Rightarrow> replay_table" where
  "prune_expired_at ok now_unix tbl =
     (if ok then (\<lambda>k. case tbl k of Some e \<Rightarrow> if e \<le> now_unix then None else Some e | None \<Rightarrow> None)
      else tbl)"

record replay_protection =
  executed :: "string \<rightharpoonup> instant"
  ttl :: duration
  journal :: "replay_table option"

definition replay_protection_new :: "duration \<Rightarrow> replay_protection" where
  "replay_protection_new d = \<lparr>executed = Map.empty, ttl = d, journal = None\<rparr>"

definition as_secs :: "duration \<Rightarrow> int" where
  "as_secs d = d div 1000000000"

definition i64_max :: int where
  "i64_max = 2 ^ 63 - 1"

text \<open>The instant a loaded journal row is taken to have been seen at.\<close>

definition seen_at_instant :: "instant \<Rightarrow> duration \<Rightarrow> unix_time \<Rightarrow> instant \<Rightarrow> unix_time \<Rightarrow> instant" where
  "seen_at_instant lo d now_u now_i expires_at =
     (let seen_at_unix = expires_at - as_secs d;
          age_secs = max 0 (now_u - seen_at_unix)
      in case instant_checked_sub lo now_i (age_secs * 1000000000) of Some t \<Rightarrow> t | None \<Rightarrow> now_i)"

datatype persistence_error = Persistence

text \<open>
  The table a restart finds is the argument \<open>tbl\<close>; \<open>ok_open\<close>, \<open>ok_prune\<close> and \<open>ok_read\<close> tell
  which SQL steps succeed (a failed prune is only logged).  \<open>open_u\<close> is the clock of the prune,
  \<open>now_u\<close> and \<open>now_i\<close> are the two clocks read for loading.
\<close>

definition with_journal ::
  "bool \<Rightarrow> bool \<Rightarrow> bool \<Rightarrow> instant \<Rightarrow> duration \<Rightarrow> unix_time \<Rightarrow> unix_time \<Rightarrow> instant \<Rightarrow> replay_table
     \<Rightarrow> (persistence_error, replay_protection) outcome" where
  "with_journal ok_open ok_prune ok_read lo d open_u now_u now_i tbl =
     (if \<not> ok_open then Err Persistence
      else let tbl' = prune_expired_at ok_prune open_u tbl
      in if \<not> ok_read then Err Persistence
      else Ok \<lparr>executed = (\<lambda>k. case tbl' k of
                   Some e \<Rightarrow> if e > now_u then Some (seen_at_instant lo d now_u now_i e) else None
                 | None \<Rightarrow> None),
               ttl = d, journal = Some tbl'\<rparr>)"

definition cleanup :: "bool \<Rightarrow> instant \<Rightarrow> unix_time \<Rightarrow> replay_protection \<Rightarrow> replay_protection" where
  "cleanup ok now now_u r =
     r\<lparr>executed := (\<lambda>k. case executed r k of
            Some t \<Rightarrow> if duration_since now t \<le> ttl r then Some t else None
          | None \<Rightarrow> None),
       journal := map_option (prune_expired_at ok now_u) (journal r)\<rparr>"

definition is_duplicate :: "bool \<Rightarrow> instant \<Rightarrow> unix_time \<Rightarrow> string \<Rightarrow> replay_protection \<Rightarrow> replay_protection \<times> bool" where
  "is_duplicate ok now now_u sid r =
     (let r' = cleanup ok now now_u r in (r', executed r' sid \<noteq> None))"

definition mark_executed :: "bool \<Rightarrow> instant \<Rightarrow> unix_time \<Rightarrow> string \<Rightarrow> replay_protection \<Rightarrow> replay_protection" where
  "mark_executed ok now now_u sid r =
     r\<lparr>executed := (executed r)(sid \<mapsto> now),
       journal := map_option (upsert ok sid (min i64_max (now_u + as_secs (ttl r)))) (journal r)\<rparr>"

subsection \<open>Runs and their specification\<close>

text \<open>
  An event is a call with both clock readings and the verdict of the SQL statement it issues.
\<close>

datatype replay_op = Mark string | Ask string

record replay_call =
  rc_ok :: bool
  rc_now :: instant
  rc_unix :: unix_time
  rc_op :: replay_op

definition replay_step :: "replay_protection \<Rightarrow> replay_call \<Rightarrow> replay_protection" where
  "replay_step r c =
     (case rc_op c of
        Mark sid \<Rightarrow> mark_executed (rc_ok c) (rc_now c) (rc_unix c) sid r
      | Ask sid \<Rightarrow> fst (is_duplicate (rc_ok c) (rc_now c) (rc_unix c) sid r))"

text \<open>The specification: when was a signal id last marked?\<close>

fun last_mark :: "string \<Rightarrow> replay_call list \<Rightarrow> instant option" where
  "last_mark sid [] = None"
| "last_mark sid (c # cs) =
     (case last_mark sid cs of
        Some t \<Rightarrow> Some t
      | None \<Rightarrow> (if rc_op c = Mark sid then Some (rc_now c) else None))"

lemma last_mark_snoc:
  "last_mark sid (cs @ [c]) = (if rc_op c = Mark sid then Some (rc_now c) else last_mark sid cs)"
  by (induction cs) auto

lemma last_mark_mem: "last_mark sid cs = Some t \<Longrightarrow> \<exists>c \<in> set cs. t = rc_now c"
  by (induction cs) (auto split: option.splits if_splits)

lemma ttl_replay_step [simp]: "ttl (replay_step r c) = ttl r"
  by (auto simp: replay_step_def mark_executed_def is_duplicate_def cleanup_def Let_def
      split: replay_op.splits)

lemma ttl_replay_run [simp]: "ttl (foldl replay_step r cs) = ttl r"
  by (induction cs arbitrary: r) simp_all

text \<open>
  Clean-up may have removed an entry, but only one too old to matter at any time from \<open>now\<close> on.
\<close>

lemma replay_run_executed:
  assumes "sorted (map rc_now cs)" "\<forall>c \<in> set cs. rc_now c \<le> now" "0 \<le> d" "executed r = Map.empty" "ttl r = d"
  shows "(case executed (foldl replay_step r cs) sid of
            Some t \<Rightarrow> last_mark sid cs = Some t
          | None \<Rightarrow> (\<forall>t. last_mark sid cs = Some t \<longrightarrow> d < now - t))"
  using assms
proof (induction cs arbitrary: now rule: rev_induct)
  case Nil
  then show ?case by simp
next
  case (snoc c cs)
  let ?r = "foldl replay_step r cs"
  from snoc.prems have le: "rc_now c \<le> now" by simp
  have IH: "case executed ?r sid of
            Some t \<Rightarrow> last_mark sid cs = Some t
          | None \<Rightarrow> (\<forall>t. last_mark sid cs = Some t \<longrightarrow> d < rc_now c - t)"
    using snoc by (intro snoc.IH) (auto simp: sorted_append)
  have "ttl ?r = d" using snoc.prems by simp
  show ?case
  proof (cases "rc_op c")
    case (Mark k)
    have "executed (foldl replay_step r (cs @ [c])) sid = (if sid = k then Some (rc_now c) else executed ?r sid)"
      by (simp add: replay_step_def mark_executed_def Mark)
    with IH le Mark show ?thesis by (auto simp: last_mark_snoc split: option.splits)
  next
    case (Ask k)
    have "executed (foldl replay_step r (cs @ [c])) sid = (case executed ?r sid of
        Some t \<Rightarrow> if duration_since (rc_now c) t \<le> d then Some t else None | None \<Rightarrow> None)"
      using snoc.prems(5)
      by (simp add: replay_step_def is_duplicate_def cleanup_def Ask Let_def split: option.split)
    with IH le Ask \<open>0 \<le> d\<close> show ?thesis
      by (auto simp: last_mark_snoc duration_since_def split: option.splits)
  qed
qed

text \<open>
  C22: the replay guard implements its specification.  Starting from a fresh guard (with or
  without a journal), after any sequence of \<open>mark_executed\<close> and \<open>is_duplicate\<close> calls at
  non-decreasing times, a signal id is reported as a duplicate exactly when its last mark is at
  most \<open>ttl\<close> old: clean-up never forgets an id early, and failing journal statements change
  nothing in memory.
\<close>

theorem replay_guard_correct:
  assumes "sorted (map rc_now cs)" "\<forall>c \<in> set cs. rc_now c \<le> now" "0 \<le> d"
    and "executed r = Map.empty" "ttl r = d"
  shows "snd (is_duplicate ok now now_u sid (foldl replay_step r cs))
         \<longleftrightarrow> (\<exists>t. last_mark sid cs = Some t \<and> now - t \<le> d)"
  using replay_run_executed [OF assms, of sid] assms(3,5)
  by (auto simp: is_duplicate_def cleanup_def Let_def duration_since_def split: option.splits)

theorem replay_guard_correct_witness:
  "let r = foldl replay_step (replay_protection_new 10)
             [\<lparr>rc_ok = False, rc_now = 1, rc_unix = 0, rc_op = Mark ''a''\<rparr>,
              \<lparr>rc_ok = True, rc_now = 3, rc_unix = 0, rc_op = Ask ''b''\<rparr>]
   in snd (is_duplicate True 11 0 ''a'' r) \<and> \<not> snd (is_duplicate True 12 0 ''a'' r)"
  using replay_guard_correct [of "[\<lparr>rc_ok = False, rc_now = 1, rc_unix = 0, rc_op = Mark ''a''\<rparr>,
              \<lparr>rc_ok = True, rc_now = 3, rc_unix = 0, rc_op = Ask ''b''\<rparr>]" 11 10 "replay_protection_new 10" True 0 "''a''"]
    replay_guard_correct [of "[\<lparr>rc_ok = False, rc_now = 1, rc_unix = 0, rc_op = Mark ''a''\<rparr>,
              \<lparr>rc_ok = True, rc_now = 3, rc_unix = 0, rc_op = Ask ''b''\<rparr>]" 12 10 "replay_protection_new 10" True 0 "''a''"]
  by (simp add: replay_protection_new_def Let_def)

text \<open>
  A restart does not release a recently executed signal.  If a mark at unix second \<open>u\<close>
  reached the journal and the process restarts from that journal while \<open>u + ttl\<close> is still in the
  future, then the new guard reports the id as a duplicate for as long as the time since the
  mark, measured in whole seconds up to the restart plus the time elapsed since, is at most the
  \<open>ttl\<close>.
\<close>

lemma restart_keeps_replay_block:
  assumes "journal r = Some tbl" "0 \<le> ttl r" "u + as_secs (ttl r) \<le> i64_max"
    and "journal (mark_executed True t u sid r) = Some tbl'"
    and "open_u \<le> now_u" "u \<le> now_u" "now_u < u + as_secs (ttl r)"
    and "with_journal True ok_prune True lo (ttl r) open_u now_u now_i tbl' = Ok r'"
    and "now_i \<le> now" "(now_u - u) * 1000000000 + (now - now_i) \<le> ttl r"
  shows "snd (is_duplicate ok now nu sid r')"
proof -
  from assms(1,3,4) have tbl': "tbl' sid = Some (u + as_secs (ttl r))"
    by (auto simp: mark_executed_def upsert_def)
  from assms(5,7) tbl' have p: "prune_expired_at ok_prune open_u tbl' sid = Some (u + as_secs (ttl r))"
    by (simp add: prune_expired_at_def)
  from assms(8) p assms(7) have "executed r' sid = Some (seen_at_instant lo (ttl r) now_u now_i (u + as_secs (ttl r)))"
    "ttl r' = ttl r"
    by (auto simp: with_journal_def Let_def)
  then show ?thesis
    using assms(2,6,9,10)
    by (auto simp: is_duplicate_def cleanup_def Let_def seen_at_instant_def instant_checked_sub_def
        duration_since_def)
qed

lemma restart_keeps_replay_block_witness:
  "\<exists>r'. with_journal True False True 0 60000000000 130 140 50000000000 [''a'' \<mapsto> 160] = Ok r'
        \<and> snd (is_duplicate True 55000000000 145 ''a'' r')"
proof -
  let ?r = "\<lparr>executed = Map.empty, ttl = 60000000000, journal = Some Map.empty\<rparr>"
  obtain r' where r': "with_journal True False True 0 60000000000 130 140 50000000000 [''a'' \<mapsto> 160] = Ok r'"
    by (simp add: with_journal_def Let_def)
  have "snd (is_duplicate True 55000000000 145 ''a'' r')"
    by (rule restart_keeps_replay_block [of ?r Map.empty 100 7 "''a''" "[''a'' \<mapsto> 160]" 130 140 False 0 50000000000])
      (simp_all add: r' as_secs_def i64_max_def mark_executed_def upsert_def)
  with r' show ?thesis by blast
qed

end
