(* ===== verification/Reconcile.thy ===== *)
theory Reconcile
  imports Recovery
begin

text \<open>
  \<open>executor/reconcile.rs\<close>: the table of leg-2 timeouts awaiting reconciliation and the worker that
  polls it.

  The SQLite table is a list of rows in insertion order.  A row keeps the columns of the schema;
  the payload column holds the entry itself instead of its JSON text, and the serialised size is
  the decimal.  \<open>ORDER BY started_at\<close> is a stable sort.  Whether a statement succeeds, what the
  receipt provider answers and what the clock reads are arguments.
\<close>

section \<open>Entries and rows\<close>

datatype reconcile_status = Pending | Resolved | Reverted | Expired | Errored

record pending_reconcile =
  pr_signal_id :: string
  pr_tx_hash :: string
  pr_pair :: string
  pr_direction :: direction
  pr_leg1_venue :: string
  pr_leg1_fill_size :: dec
  pr_started_at_unix :: unix_time

datatype resolution = Leg2RevertedOnChain | MaxAgeExceeded

record reconcile_row =
  row_signal_id :: string
  row_tx_hash :: string
  row_payload :: pending_reconcile
  row_started_at :: unix_time
  row_status :: reconcile_status
  row_resolution :: "resolution option"
  row_resolved_at :: "unix_time option"

type_synonym reconcile_store = "reconcile_row list"

datatype reconcile_error = RPersistence | RSerde | RChain

fun as_str :: "reconcile_status \<Rightarrow> string" where
  "as_str Pending = ''pending''"
| "as_str Resolved = ''resolved''"
| "as_str Reverted = ''reverted''"
| "as_str Expired = ''expired''"
| "as_str Errored = ''errored''"

definition status_from_str :: "string \<Rightarrow> reconcile_status" where
  "status_from_str s =
     (if s = ''pending'' then Pending else if s = ''resolved'' then Resolved
      else if s = ''reverted'' then Reverted else if s = ''expired'' then Expired
      else if s = ''errored'' then Errored else Pending)"

section \<open>The store\<close>

definition row_of :: "pending_reconcile \<Rightarrow> reconcile_row" where
  "row_of e = \<lparr>row_signal_id = pr_signal_id e, row_tx_hash = pr_tx_hash e, row_payload = e,
     row_started_at = pr_started_at_unix e, row_status = Pending, row_resolution = None, row_resolved_at = None\<rparr>"

definition store_add :: "bool \<Rightarrow> pending_reconcile \<Rightarrow> reconcile_store \<Rightarrow> reconcile_store \<times> (reconcile_error, unit) outcome" where
  "store_add ok e rows =
     (if \<not> ok then (rows, Err RPersistence)
      else if list_ex (\<lambda>r. row_signal_id r = pr_signal_id e) rows
      then (map (\<lambda>r. if row_signal_id r = pr_signal_id e then row_of e else r) rows, Ok ())
      else (rows @ [row_of e], Ok ()))"

definition list_pending :: "bool \<Rightarrow> reconcile_store \<Rightarrow> (reconcile_error, pending_reconcile list) outcome" where
  "list_pending ok rows =
     (if \<not> ok then Err RPersistence
      else Ok (map row_payload (sort_key row_started_at (filter (\<lambda>r. row_status r = Pending) rows))))"

definition mark ::
  "bool \<Rightarrow> unix_time \<Rightarrow> string \<Rightarrow> reconcile_status \<Rightarrow> resolution option \<Rightarrow> reconcile_store
     \<Rightarrow> reconcile_store \<times> (reconcile_error, unit) outcome" where
  "mark ok now sid st res rows =
     (if \<not> ok then (rows, Err RPersistence)
      else (map (\<lambda>r. if row_signal_id r = sid
                     then r\<lparr>row_status := st, row_resolution := res, row_resolved_at := Some now\<rparr> else r) rows, Ok ()))"

definition status_of :: "string \<Rightarrow> reconcile_store \<Rightarrow> reconcile_status option" where
  "status_of sid rows = map_option row_status (find (\<lambda>r. row_signal_id r = sid) rows)"

section \<open>The worker\<close>

datatype tick_outcome = StillPending | ReceiptSuccess | ReceiptReverted | TickExpired

text \<open>
  What the \<open>i\<close>-th iteration of a tick sees: the provider's answer (the status flag of a mined
  transaction), the clock of the age test, and the verdict and clock of the update statement.
\<close>

record tick_env =
  te_receipt :: "nat \<Rightarrow> string \<Rightarrow> (reconcile_error, bool option) outcome"
  te_clock :: "nat \<Rightarrow> unix_time"
  te_mark_ok :: "nat \<Rightarrow> bool"
  te_mark_clock :: "nat \<Rightarrow> unix_time"

definition inspect :: "duration \<Rightarrow> tick_env \<Rightarrow> nat \<Rightarrow> pending_reconcile \<Rightarrow> (reconcile_error, tick_outcome) outcome" where
  "inspect max_age env i e =
     bind_out (te_receipt env i (pr_tx_hash e)) (\<lambda>receipt.
       case receipt of
         Some status \<Rightarrow> Ok (if status then ReceiptSuccess else ReceiptReverted)
       | None \<Rightarrow>
           (let age = te_clock env i - pr_started_at_unix e
            in Ok (if age \<ge> as_secs max_age then TickExpired else StillPending)))"

fun tick_loop ::
  "duration \<Rightarrow> tick_env \<Rightarrow> nat \<Rightarrow> pending_reconcile list \<Rightarrow> (pending_reconcile \<times> tick_outcome) list \<Rightarrow> reconcile_store
     \<Rightarrow> reconcile_store \<times> (reconcile_error, (pending_reconcile \<times> tick_outcome) list) outcome" where
  "tick_loop max_age env i [] out rows = (rows, Ok out)"
| "tick_loop max_age env i (e # es) out rows =
     (let marked = (\<lambda>st res oc.
            case mark (te_mark_ok env i) (te_mark_clock env i) (pr_signal_id e) st res rows of
              (rows', Ok _) \<Rightarrow> tick_loop max_age env (Suc i) es (out @ [(e, oc)]) rows'
            | (rows', Err err) \<Rightarrow> (rows', Err err)
            | (rows', Panic) \<Rightarrow> (rows', Panic))
      in case inspect max_age env i e of
           Ok ReceiptSuccess \<Rightarrow> marked Resolved None ReceiptSuccess
         | Ok ReceiptReverted \<Rightarrow> marked Reverted (Some Leg2RevertedOnChain) ReceiptReverted
         | Ok TickExpired \<Rightarrow> marked Expired (Some MaxAgeExceeded) TickExpired
         | Ok StillPending \<Rightarrow> tick_loop max_age env (Suc i) es (out @ [(e, StillPending)]) rows
         | Err _ \<Rightarrow> tick_loop max_age env (Suc i) es (out @ [(e, StillPending)]) rows
         | Panic \<Rightarrow> (rows, Panic))"

definition tick_once ::
  "duration \<Rightarrow> bool \<Rightarrow> tick_env \<Rightarrow> reconcile_store
     \<Rightarrow> reconcile_store \<times> (reconcile_error, (pending_reconcile \<times> tick_outcome) list) outcome" where
  "tick_once max_age ok_list env rows =
     (case list_pending ok_list rows of
        Ok entries \<Rightarrow> tick_loop max_age env 0 entries [] rows
      | Err e \<Rightarrow> (rows, Err e)
      | Panic \<Rightarrow> (rows, Panic))"

section \<open>Specification of a tick\<close>

definition outcome_of :: "duration \<Rightarrow> tick_env \<Rightarrow> nat \<Rightarrow> pending_reconcile \<Rightarrow> tick_outcome" where
  "outcome_of max_age env i e = (case inspect max_age env i e of Ok oc \<Rightarrow> oc | _ \<Rightarrow> StillPending)"

fun terminal_status :: "tick_outcome \<Rightarrow> reconcile_status" where
  "terminal_status StillPending = Pending"
| "terminal_status ReceiptSuccess = Resolved"
| "terminal_status ReceiptReverted = Reverted"
| "terminal_status TickExpired = Expired"

fun tick_spec :: "duration \<Rightarrow> tick_env \<Rightarrow> nat \<Rightarrow> pending_reconcile list \<Rightarrow> (pending_reconcile \<times> tick_outcome) list" where
  "tick_spec max_age env i [] = []"
| "tick_spec max_age env i (e # es) = (e, outcome_of max_age env i e) # tick_spec max_age env (Suc i) es"

text \<open>The provider never panics.\<close>

definition provider_ok :: "tick_env \<Rightarrow> bool" where
  "provider_ok env \<longleftrightarrow> (\<forall>i tx. te_receipt env i tx \<noteq> Panic)"

text \<open>Primary key, and columns that agree with the payload.\<close>

definition store_inv :: "reconcile_store \<Rightarrow> bool" where
  "store_inv rows \<longleftrightarrow> distinct (map row_signal_id rows)
     \<and> (\<forall>r \<in> set rows. row_signal_id r = pr_signal_id (row_payload r)
          \<and> row_started_at r = pr_started_at_unix (row_payload r))"

definition pending_entries :: "reconcile_store \<Rightarrow> pending_reconcile list" where
  "pending_entries rows = map row_payload (sort_key row_started_at (filter (\<lambda>r. row_status r = Pending) rows))"

lemma map_row_signal_id_update:
  "(\<And>r. row_signal_id (f r) = row_signal_id r) \<Longrightarrow> map row_signal_id (map f rows) = map row_signal_id rows"
  by (induction rows) auto

lemma store_inv_add: "store_inv rows \<Longrightarrow> store_inv (fst (store_add ok e rows))"
proof -
  assume inv: "store_inv rows"
  have "map row_signal_id (map (\<lambda>r. if row_signal_id r = pr_signal_id e then row_of e else r) rows)
      = map row_signal_id rows"
    by (rule map_row_signal_id_update) (simp add: row_of_def)
  then have "distinct (map row_signal_id (map (\<lambda>r. if row_signal_id r = pr_signal_id e then row_of e else r) rows))"
    using inv by (simp only: store_inv_def)
  with inv show ?thesis
    by (auto simp: store_add_def store_inv_def row_of_def list_ex_iff simp del: map_map)
qed

lemma store_inv_mark: "store_inv rows \<Longrightarrow> store_inv (fst (mark ok now sid st res rows))"
  by (auto simp: mark_def store_inv_def comp_def if_distrib [of row_signal_id] cong: if_cong)

lemma pending_entries_mark:
  assumes "store_inv rows" "st \<noteq> Pending"
  shows "pending_entries (fst (mark True now sid st res rows)) = filter (\<lambda>e. pr_signal_id e \<noteq> sid) (pending_entries rows)"
proof -
  let ?u = "\<lambda>r. if row_signal_id r = sid
       then r\<lparr>row_status := st, row_resolution := res, row_resolved_at := Some now\<rparr> else r"
  have "filter (\<lambda>r. row_status r = Pending) (map ?u rows)
      = filter (\<lambda>r. row_signal_id r \<noteq> sid) (filter (\<lambda>r. row_status r = Pending) rows)"
    using assms(2) by (induction rows) auto
  moreover have "filter (\<lambda>r. row_signal_id r \<noteq> sid) xs = filter (\<lambda>r. pr_signal_id (row_payload r) \<noteq> sid) xs"
    if "set xs \<subseteq> set rows" for xs
    using that assms(1) by (intro filter_cong) (auto simp: store_inv_def)
  moreover note this [OF filter_is_subset [of "\<lambda>r. row_status r = Pending" rows]]
  ultimately have "filter (\<lambda>r. row_status r = Pending) (map ?u rows)
      = filter (\<lambda>r. pr_signal_id (row_payload r) \<noteq> sid) (filter (\<lambda>r. row_status r = Pending) rows)"
    by simp
  then show ?thesis
    by (simp add: mark_def pending_entries_def filter_sort [symmetric] filter_map comp_def)
qed

lemma status_of_mark:
  "status_of sid (fst (mark True now sid' st res rows)) =
     (if sid = sid' \<and> status_of sid rows \<noteq> None then Some st else status_of sid rows)"
  by (induction rows) (auto simp: mark_def status_of_def)


lemma sort_key_payload: "set (pending_entries rows) = row_payload ` {r \<in> set rows. row_status r = Pending}"
  by (auto simp: pending_entries_def)

lemma distinct_pending: "store_inv rows \<Longrightarrow> distinct (map pr_signal_id (pending_entries rows))"
proof -
  assume inv: "store_inv rows"
  let ?rs = "sort_key row_started_at (filter (\<lambda>r. row_status r = Pending) rows)"
  have "map (pr_signal_id \<circ> row_payload) ?rs = map row_signal_id ?rs"
    using inv by (intro map_cong) (auto simp: store_inv_def)
  moreover have "distinct (map row_signal_id ?rs)"
    using inv by (auto simp: store_inv_def distinct_map inj_on_def)
  ultimately show ?thesis unfolding pending_entries_def map_map by (simp only:)
qed

lemma tick_spec_fst [simp]: "map fst (tick_spec max_age env i es) = es"
  by (induction es arbitrary: i) auto

text \<open>One iteration, when the update statement succeeds.\<close>

lemma tick_loop_Cons:
  assumes "te_mark_ok env i" "provider_ok env"
  shows "\<exists>rows1. tick_loop max_age env i (e # es) out rows
             = tick_loop max_age env (Suc i) es (out @ [(e, outcome_of max_age env i e)]) rows1
           \<and> (if outcome_of max_age env i e = StillPending then rows1 = rows
              else \<exists>now res. rows1 = fst (mark True now (pr_signal_id e) (terminal_status (outcome_of max_age env i e)) res rows))"
proof -
  have np: "inspect max_age env i e \<noteq> Panic"
    using assms(2) by (auto simp: inspect_def provider_ok_def bind_out_Panic_iff Let_def split: option.splits)
  then consider oc where "inspect max_age env i e = Ok oc" | err where "inspect max_age env i e = Err err"
    by (cases "inspect max_age env i e") auto
  then show ?thesis
  proof cases
    case (1 oc)
    with assms(1) show ?thesis
      by (cases oc) (auto simp: outcome_of_def mark_def Let_def)
  next
    case 2
    then show ?thesis by (simp add: outcome_of_def)
  qed
qed

definition settled :: "(pending_reconcile \<times> tick_outcome) list \<Rightarrow> string \<Rightarrow> bool" where
  "settled out sid \<longleftrightarrow> (\<exists>(e, oc) \<in> set out. pr_signal_id e = sid \<and> oc \<noteq> StillPending)"

lemma terminal_status_Pending [simp]: "terminal_status oc = Pending \<longleftrightarrow> oc = StillPending"
  by (cases oc) auto

lemma tick_loop_spec:
  assumes "\<forall>i. te_mark_ok env i" "provider_ok env" "store_inv rows"
  shows "\<exists>rows'. tick_loop max_age env i es out rows = (rows', Ok (out @ tick_spec max_age env i es))
           \<and> store_inv rows'
           \<and> pending_entries rows' = filter (\<lambda>e. \<not> settled (tick_spec max_age env i es) (pr_signal_id e)) (pending_entries rows)
           \<and> (\<forall>sid. \<not> settled (tick_spec max_age env i es) sid \<longrightarrow> status_of sid rows' = status_of sid rows)"
  using assms(3)
proof (induction es arbitrary: i out rows)
  case Nil
  then show ?case by (simp add: settled_def)
next
  case (Cons e es)
  let ?oc = "outcome_of max_age env i e"
  obtain rows1 where r1: "tick_loop max_age env i (e # es) out rows
        = tick_loop max_age env (Suc i) es (out @ [(e, ?oc)]) rows1"
    "if ?oc = StillPending then rows1 = rows
     else \<exists>now res. rows1 = fst (mark True now (pr_signal_id e) (terminal_status ?oc) res rows)"
    using tick_loop_Cons [of env i] assms(1,2) by blast
  have inv1: "store_inv rows1" using r1(2) Cons.prems store_inv_mark by (auto split: if_splits)
  have p1: "pending_entries rows1 = filter (\<lambda>x. \<not> (?oc \<noteq> StillPending \<and> pr_signal_id x = pr_signal_id e)) (pending_entries rows)"
    using r1(2) pending_entries_mark [OF Cons.prems] by (auto split: if_splits)
  have s1: "status_of sid rows1 = status_of sid rows" if "\<not> (?oc \<noteq> StillPending \<and> sid = pr_signal_id e)" for sid
    using r1(2) that by (auto simp: status_of_mark split: if_splits)
  from Cons.IH [OF inv1, of "Suc i" "out @ [(e, ?oc)]"] r1(1) p1 s1 show ?case
    by (auto simp: settled_def conj_commute intro!: filter_cong)
qed

lemma settled_iff_terminal:
  assumes "distinct (map (pr_signal_id \<circ> fst) out)"
  shows "filter (\<lambda>e. \<not> settled out (pr_signal_id e)) (map fst out) = map fst (filter (\<lambda>p. snd p = StillPending) out)"
proof -
  have "settled out (pr_signal_id (fst p)) \<longleftrightarrow> snd p \<noteq> StillPending" if "p \<in> set out" for p
    using that assms by (force simp: settled_def distinct_map inj_on_def)
  then have "filter (\<lambda>p. \<not> settled out (pr_signal_id (fst p))) out = filter (\<lambda>p. snd p = StillPending) out"
    by (intro filter_cong) auto
  then show ?thesis by (simp add: filter_map comp_def)
qed


definition sample_entry :: "string \<Rightarrow> unix_time \<Rightarrow> pending_reconcile" where
  "sample_entry sid t = \<lparr>pr_signal_id = sid, pr_tx_hash = ''0x'' @ sid, pr_pair = ''ETH/USDT'',
     pr_direction = BuyCexSellDex, pr_leg1_venue = ''cex'', pr_leg1_fill_size = 1, pr_started_at_unix = t\<rparr>"

definition sample_env :: "(nat \<Rightarrow> bool) \<Rightarrow> tick_env" where
  "sample_env ok = \<lparr>te_receipt = (\<lambda>i tx. Ok (Some (tx \<noteq> ''0xa''))), te_clock = (\<lambda>i. 100),
     te_mark_ok = ok, te_mark_clock = (\<lambda>i. 100)\<rparr>"


text \<open>
  What a failing tick forgets.  The first failing update statement aborts the whole tick
  with an error, although earlier entries may already be marked.  Here an entry whose transaction
  reverted is marked \<open>Reverted\<close> in the store, the update of the next entry fails, the caller gets
  the error instead of the outcome, and no later tick lists the reverted entry again: the unwind
  that the outcome should trigger never happens.
\<close>

lemma failed_tick_loses_revert:
  "\<exists>rows'. tick_once 600000000000 True (sample_env (\<lambda>i. i = 0)) [row_of (sample_entry ''a'' 10), row_of (sample_entry ''b'' 20)]
       = (rows', Err RPersistence)
     \<and> status_of ''a'' rows' = Some Reverted
     \<and> pending_entries rows' = [sample_entry ''b'' 20]"
  by (simp add: tick_once_def list_pending_def inspect_def sample_env_def mark_def row_of_def sample_entry_def
      status_of_def pending_entries_def Let_def)

end
