(* ===== verification/Order_Book.thy ===== *)
theory Order_Book
  imports Prelude
begin

text \<open>
  \<open>exchange/orderbook.rs\<close>: simulated fills through the levels of an order book snapshot, depth
  within a price band and effective spread.  A level is a (price, quantity) pair.  The
  \<open>imbalance\<close> indicator is an \<open>f64\<close> and is not modelled.
\<close>

section \<open>Data\<close>

type_synonym level = "dec \<times> dec"

record order_book_snapshot =
  book_symbol :: string
  book_timestamp :: nat
  bids :: "level list"
  asks :: "level list"
  best_bid :: "level option"
  best_ask :: "level option"
  mid_price :: "dec option"
  book_spread_bps :: "dec option"

record fill_level =
  fl_price :: dec
  fl_qty :: dec
  fl_cost :: dec

record walk_result =
  avg_price :: dec
  total_cost :: dec
  slippage_bps :: dec
  levels_consumed :: nat
  fully_filled :: bool
  fills :: "fill_level list"

text \<open>The variants of \<open>ExchangeError\<close>; wrapped errors of other crates are their messages.\<close>

record order_result =
  or_id :: string
  or_symbol :: string
  or_side :: string
  or_order_type :: string
  or_time_in_force :: string
  or_amount_requested :: dec
  or_amount_filled :: dec
  or_avg_fill_price :: dec
  or_fee :: dec
  or_fee_asset :: string
  or_status :: string
  or_timestamp :: nat

datatype exchange_error =
    Network string
  | Auth string
  | RateLimit string
  | OrderRejected string
  | InsufficientFunds string
  | InvalidSymbol string
  | Api int string
  | ConfigError string
  | JsonParse string
  | HttpError string
  | DecimalParse string
  | ConnectionCheck string

definition BPS_SCALE :: dec where
  "BPS_SCALE = 10000"

section \<open>Walking the book\<close>

text \<open>The locals of the loop.\<close>

record walk_state =
  w_remaining :: dec
  w_total_cost :: dec
  w_total_qty :: dec
  w_fills :: "fill_level list"
  w_levels :: nat

fun walk_levels :: "dec_ops \<Rightarrow> level list \<Rightarrow> walk_state \<Rightarrow> walk_state" where
  "walk_levels D [] s = s"
| "walk_levels D ((price, avail) # ls) s =
     (if w_remaining s \<le> 0 then s
      else let fill_qty = min (w_remaining s) avail;
               cost = dmul D fill_qty price
           in walk_levels D ls
                \<lparr>w_remaining = dsub D (w_remaining s) fill_qty,
                 w_total_cost = dadd D (w_total_cost s) cost,
                 w_total_qty = dadd D (w_total_qty s) fill_qty,
                 w_fills = w_fills s @ [\<lparr>fl_price = price, fl_qty = fill_qty, fl_cost = cost\<rparr>],
                 w_levels = w_levels s + 1\<rparr>)"

definition walk_start :: "dec \<Rightarrow> walk_state" where
  "walk_start qty = \<lparr>w_remaining = qty, w_total_cost = 0, w_total_qty = 0, w_fills = [], w_levels = 0\<rparr>"

definition walk_finish :: "dec_ops \<Rightarrow> string \<Rightarrow> dec option \<Rightarrow> walk_state \<Rightarrow> walk_result" where
  "walk_finish D side best s =
     (let avg = (if w_total_qty s > 0 then ddiv D (w_total_cost s) (w_total_qty s) else 0);
          slip = (case best of
                    Some bp \<Rightarrow>
                      (if bp > 0 \<and> side = ''buy'' then dmul D (ddiv D (dsub D avg bp) bp) BPS_SCALE
                       else if bp > 0 \<and> side = ''sell'' then dmul D (ddiv D (dsub D bp avg) bp) BPS_SCALE
                       else 0)
                  | None \<Rightarrow> 0)
      in \<lparr>avg_price = avg, total_cost = w_total_cost s, slippage_bps = max slip 0,
          levels_consumed = w_levels s, fully_filled = (w_remaining s \<le> 0), fills = w_fills s\<rparr>)"

definition walk_the_book :: "dec_ops \<Rightarrow> order_book_snapshot \<Rightarrow> string \<Rightarrow> dec \<Rightarrow> (exchange_error, walk_result) outcome" where
  "walk_the_book D ob side qty =
     (if side = ''buy'' then
        Ok (walk_finish D side (map_option fst (best_ask ob)) (walk_levels D (asks ob) (walk_start qty)))
      else if side = ''sell'' then
        Ok (walk_finish D side (map_option fst (best_bid ob)) (walk_levels D (bids ob) (walk_start qty)))
      else Err (OrderRejected side))"

fun depth_loop :: "dec_ops \<Rightarrow> (dec \<Rightarrow> dec) \<Rightarrow> dec \<Rightarrow> level list \<Rightarrow> dec \<Rightarrow> dec" where
  "depth_loop D diff threshold [] acc = acc"
| "depth_loop D diff threshold ((price, qty) # ls) acc =
     (if diff price \<le> threshold then depth_loop D diff threshold ls (dadd D acc qty) else acc)"

definition depth_at_bps :: "dec_ops \<Rightarrow> order_book_snapshot \<Rightarrow> string \<Rightarrow> dec \<Rightarrow> (exchange_error, dec) outcome" where
  "depth_at_bps D ob side bps =
     (if side \<noteq> ''bid'' \<and> side \<noteq> ''ask'' then Err (OrderRejected side)
      else case map_option fst (if side = ''bid'' then best_bid ob else best_ask ob) of
        None \<Rightarrow> Ok 0
      | Some best_price \<Rightarrow>
          (if best_price \<le> 0 then Ok 0
           else let threshold = ddiv D (dmul D best_price bps) BPS_SCALE
                in Ok (depth_loop D
                     (if side = ''bid'' then (\<lambda>price. dsub D best_price price) else (\<lambda>price. dsub D price best_price))
                     threshold (if side = ''bid'' then bids ob else asks ob) 0)))"

definition effective_spread :: "dec_ops \<Rightarrow> order_book_snapshot \<Rightarrow> dec \<Rightarrow> (exchange_error, dec) outcome" where
  "effective_spread D ob qty =
     bind_out (walk_the_book D ob ''buy'' qty) (\<lambda>buy_walk.
     bind_out (walk_the_book D ob ''sell'' qty) (\<lambda>sell_walk.
       let avg_ask = avg_price buy_walk; avg_bid = avg_price sell_walk
       in case mid_price ob of
            Some m \<Rightarrow> (if m > 0 \<and> avg_ask > 0 \<and> avg_bid > 0
                        then Ok (dmul D (ddiv D (dsub D avg_ask avg_bid) m) BPS_SCALE) else Ok 0)
          | None \<Rightarrow> Ok 0))"

section \<open>What a walk fills\<close>

text \<open>
  The reference: fill the requested quantity greedily, level after level.
\<close>

fun greedy_fill :: "rat \<Rightarrow> level list \<Rightarrow> rat list" where
  "greedy_fill r [] = []"
| "greedy_fill r ((p, q) # ls) = (if r \<le> 0 then [] else min r q # greedy_fill (r - min r q) ls)"

definition depth :: "level list \<Rightarrow> rat" where
  "depth ls = sum_list (map snd ls)"

lemma greedy_fill_sum:
  assumes "\<forall>l \<in> set ls. 0 \<le> snd l" "0 \<le> r"
  shows "sum_list (greedy_fill r ls) = min r (depth ls)"
  using assms
proof (induction ls arbitrary: r)
  case Nil
  then show ?case by (simp add: depth_def)
next
  case (Cons l ls)
  obtain p q where l: "l = (p, q)" by (cases l)
  have d: "0 \<le> depth ls" unfolding depth_def using Cons.prems(1) by (intro sum_list_nonneg) auto
  have dl: "depth (l # ls) = q + depth ls" by (simp add: depth_def l)
  show ?case
  proof (cases "r = 0")
    case True
    with Cons.prems d dl l show ?thesis by simp
  next
    case False
    have "sum_list (greedy_fill (r - min r q) ls) = min (r - min r q) (depth ls)"
      using Cons.prems l by (intro Cons.IH) auto
    with False Cons.prems d dl l show ?thesis by (auto simp: min_def)
  qed
qed

definition book_grid :: "nat \<Rightarrow> rat \<Rightarrow> level list \<Rightarrow> bool" where
  "book_grid s B ls \<longleftrightarrow> (\<forall>l \<in> set ls. on_grid s (snd l) \<and> 0 \<le> snd l \<and> snd l \<le> B)"

context decimal_arith
begin

lemma walk_levels_greedy:
  assumes "s \<le> 28" "B * 10 ^ s < 2 ^ 96" "book_grid s B ls" "on_grid s (w_remaining st)"
    "0 \<le> w_remaining st" "w_remaining st \<le> B"
  shows "map fl_qty (w_fills (walk_levels D ls st)) = map fl_qty (w_fills st) @ greedy_fill (w_remaining st) ls
       \<and> w_remaining (walk_levels D ls st) = w_remaining st - sum_list (greedy_fill (w_remaining st) ls)
       \<and> w_levels (walk_levels D ls st) = w_levels st + length (greedy_fill (w_remaining st) ls)"
  using assms(3-)
proof (induction ls arbitrary: st)
  case Nil
  then show ?case by simp
next
  case (Cons l ls)
  obtain p q where l: "l = (p, q)" by (cases l)
  show ?case
  proof (cases "w_remaining st \<le> 0")
    case True
    then show ?thesis by (simp add: l)
  next
    case False
    let ?r = "w_remaining st" let ?f = "min ?r q"
    have q: "on_grid s q" "0 \<le> q" "q \<le> B" using Cons.prems(1) by (auto simp: book_grid_def l)
    have dec: "is_dec x" if "on_grid s x" "0 \<le> x" "x \<le> B" for x
      using that assms(1,2) by (intro on_grid_is_dec [of s]) (auto intro: le_less_trans [OF mult_right_mono])
    have g: "on_grid s ?f" "on_grid s (?r - ?f)" using q Cons.prems by (simp_all add: on_grid_min on_grid_diff)
    have e: "dsub D ?r ?f = ?r - ?f"
      using q Cons.prems False g by (intro sub_exact dec) (auto simp: min_def)
    define st' where "st' = \<lparr>w_remaining = dsub D ?r ?f, w_total_cost = dadd D (w_total_cost st) (dmul D ?f p),
      w_total_qty = dadd D (w_total_qty st) ?f,
      w_fills = w_fills st @ [\<lparr>fl_price = p, fl_qty = ?f, fl_cost = dmul D ?f p\<rparr>], w_levels = w_levels st + 1\<rparr>"
    have step: "walk_levels D (l # ls) st = walk_levels D ls st'"
      using False by (simp add: l st'_def Let_def)
    have r': "w_remaining st' = ?r - ?f" by (simp add: st'_def e)
    have "book_grid s B ls" using Cons.prems(1) by (simp add: book_grid_def)
    from Cons.IH [OF this, of st'] g q Cons.prems False show ?thesis
      unfolding step r' by (simp add: l st'_def)
  qed
qed

end

definition sample_book :: order_book_snapshot where
  "sample_book = \<lparr>book_symbol = ''ETH/USDT'', book_timestamp = 0, bids = [(99, 1)],
     asks = [(100, 2), (101, 3)], best_bid = Some (99, 1), best_ask = Some (100, 2),
     mid_price = Some (199 / 2), book_spread_bps = None\<rparr>"

text \<open>
  The fill simulation is exact.  On a book whose quantities lie on a common grid, walking
  either side for a quantity on that grid fills level by level, greedily and in book order: the
  filled quantities sum to the smaller of the requested quantity and the whole depth of the side,
  \<open>fully_filled\<close> is set exactly when the depth covers the request, and one fill is reported per
  consumed level.
\<close>

lemma walk_the_book_fills_min:
  assumes "decimal_arith D" "s \<le> 28" "B * 10 ^ s < 2 ^ 96"
    and "(side, ls) \<in> {(''buy'', asks ob), (''sell'', bids ob)}" "book_grid s B ls"
    and "on_grid s qty" "0 \<le> qty" "qty \<le> B"
  shows "\<exists>w. walk_the_book D ob side qty = Ok w
           \<and> map fl_qty (fills w) = greedy_fill qty ls
           \<and> sum_list (map fl_qty (fills w)) = min qty (depth ls)
           \<and> (fully_filled w \<longleftrightarrow> qty \<le> depth ls)
           \<and> levels_consumed w = length (fills w)"
proof -
  let ?st = "walk_levels D ls (walk_start qty)"
  from decimal_arith.walk_levels_greedy [OF assms(1-3,5), of "walk_start qty"] assms(6-)
  have w: "map fl_qty (w_fills ?st) = greedy_fill qty ls"
    "w_remaining ?st = qty - sum_list (greedy_fill qty ls)" "w_levels ?st = length (greedy_fill qty ls)"
    by (simp_all add: walk_start_def)
  have sum: "sum_list (greedy_fill qty ls) = min qty (depth ls)"
    using assms(5,7) by (intro greedy_fill_sum) (auto simp: book_grid_def)
  have len: "length (w_fills ?st) = length (greedy_fill qty ls)"
    using w(1) by (metis length_map)
  obtain b where "walk_the_book D ob side qty = Ok (walk_finish D side b ?st)"
    using assms(4) by (auto simp: walk_the_book_def)
  then show ?thesis
    by (rule_tac exI [of _ "walk_finish D side b ?st"]) (auto simp: walk_finish_def Let_def w sum len)
qed

lemma walk_the_book_fills_min_witness:
  "\<exists>w. walk_the_book exact_ops sample_book ''buy'' 4 = Ok w \<and> map fl_qty (fills w) = [2, 2] \<and> fully_filled w"
proof -
  have g: "on_grid 0 2" "on_grid 0 3" "on_grid 0 4"
    unfolding on_grid_def by (auto intro: exI [of _ 2] exI [of _ 3] exI [of _ 4])
  have b: "book_grid 0 100 (asks sample_book)" "greedy_fill 4 (asks sample_book) = [2, 2]" "4 \<le> depth (asks sample_book)"
    by (simp_all add: book_grid_def g sample_book_def depth_def)
  obtain w where "walk_the_book exact_ops sample_book ''buy'' 4 = Ok w"
    "map fl_qty (fills w) = greedy_fill 4 (asks sample_book)" "fully_filled w \<longleftrightarrow> 4 \<le> depth (asks sample_book)"
    using walk_the_book_fills_min [OF exact_ops.decimal_arith_axioms _ _ _ b(1) g(3), of "''buy''" sample_book]
    by force
  with b show ?thesis by metis
qed

end
