(* ===== verification/Fees.thy ===== *)
theory Fees
  imports Order_Book
begin

text \<open>\<open>strategy/fees.rs\<close>: the fee model, in basis points except for the flat gas cost.\<close>

record fee_structure =
  cex_taker_bps :: dec
  dex_swap_bps :: dec
  gas_cost_usd :: dec

record fee_breakdown =
  cex_fee_usd :: dec
  dex_fee_usd :: dec
  gas_fee_usd :: dec
  total_fee_usd :: dec
  fb_total_fee_bps :: dec

text \<open>\<open>Decimal::MAX\<close>.\<close>

definition DECIMAL_MAX :: dec where
  "DECIMAL_MAX = 2 ^ 96 - 1"

definition fee_structure_default :: fee_structure where
  "fee_structure_default = \<lparr>cex_taker_bps = 10, dex_swap_bps = 30, gas_cost_usd = 5\<rparr>"

definition total_fee_bps :: "dec_ops \<Rightarrow> fee_structure \<Rightarrow> dec \<Rightarrow> dec" where
  "total_fee_bps D f trade_value_usd =
     (if trade_value_usd \<le> 0 then DECIMAL_MAX
      else let gas_bps = dmul D (ddiv D (gas_cost_usd f) trade_value_usd) BPS_SCALE
           in dadd D (dadd D (cex_taker_bps f) (dex_swap_bps f)) gas_bps)"

definition breakdown :: "dec_ops \<Rightarrow> fee_structure \<Rightarrow> dec \<Rightarrow> fee_breakdown" where
  "breakdown D f trade_value_usd =
     (if trade_value_usd \<le> 0
      then \<lparr>cex_fee_usd = 0, dex_fee_usd = 0, gas_fee_usd = gas_cost_usd f,
            total_fee_usd = gas_cost_usd f, fb_total_fee_bps = DECIMAL_MAX\<rparr>
      else let cex_fee = dmul D (ddiv D (cex_taker_bps f) BPS_SCALE) trade_value_usd;
               dex_fee = dmul D (ddiv D (dex_swap_bps f) BPS_SCALE) trade_value_usd;
               fee = dadd D (dadd D cex_fee dex_fee) (gas_cost_usd f)
           in \<lparr>cex_fee_usd = cex_fee, dex_fee_usd = dex_fee, gas_fee_usd = gas_cost_usd f,
               total_fee_usd = fee, fb_total_fee_bps = dmul D (ddiv D fee trade_value_usd) BPS_SCALE\<rparr>)"

definition breakeven_spread_bps :: "dec_ops \<Rightarrow> fee_structure \<Rightarrow> dec \<Rightarrow> dec" where
  "breakeven_spread_bps D f v = total_fee_bps D f v"

definition net_profit_usd :: "dec_ops \<Rightarrow> fee_structure \<Rightarrow> dec \<Rightarrow> dec \<Rightarrow> dec" where
  "net_profit_usd D f spread trade_value_usd =
     (if trade_value_usd \<le> 0 then 0
      else dsub D (dmul D (ddiv D spread BPS_SCALE) trade_value_usd) (total_fee_usd (breakdown D f trade_value_usd)))"

end
