(* ===== verification/Engine.thy ===== *)
theory Engine
  imports Reconcile Fees
begin

text \<open>
  \<open>executor/engine.rs\<close>: the two-leg execution state machine.

  The leg backend (\<open>dyn LegExecutor\<close>: an exchange client and an on-chain swapper, or the simulator)
  is a parameter \<open>legs\<close>: a record of functions that map the history of the execution so far and the
  arguments of the call to an answer.  A leg call under \<open>tokio::time::timeout\<close> either completes
  with a fill, fails with an error, or is dropped at the deadline, when the order handle may or may
  not have reached the sink.  Every state change and every backend call is appended to the history,
  so that the order of calls can be reasoned about.  Clock readings and the verdicts of the SQL
  statements are the record \<open>exec_io\<close>.  Log lines, events and metrics are left out; error strings
  are constructors.
\<close>

section \<open>States and fills\<close>

datatype executor_state =
    Idle | Validating | Leg1Pending | Leg1Filled | Leg1Partial | Leg1Cancelling | Leg2Pending
  | Leg2Reverted | Leg2Timeout | Done | Failed | Unwinding | Rejected

definition is_terminal :: "executor_state \<Rightarrow> bool" where
  "is_terminal s \<longleftrightarrow> s \<in> {Done, Failed, Rejected, Leg2Reverted, Leg2Timeout}"

definition is_filled :: "executor_state \<Rightarrow> bool" where
  "is_filled s \<longleftrightarrow> s = Done"

datatype leg_outcome = Accepted | LegRejected | LegReverted

record leg_fill =
  lf_outcome :: leg_outcome
  lf_price :: dec
  lf_filled :: dec
  lf_handle :: "string option"
  lf_error :: "string option"
  lf_fee :: dec
  lf_fee_asset :: "string option"
  lf_onchain_gas_used :: "nat option"
  lf_onchain_gas_fee_wei :: "nat option"

definition leg_fill_new :: "leg_outcome \<Rightarrow> dec \<Rightarrow> dec \<Rightarrow> string option \<Rightarrow> string option \<Rightarrow> leg_fill" where
  "leg_fill_new oc p f h e = \<lparr>lf_outcome = oc, lf_price = p, lf_filled = f, lf_handle = h, lf_error = e,
     lf_fee = 0, lf_fee_asset = None, lf_onchain_gas_used = None, lf_onchain_gas_fee_wei = None\<rparr>"

definition with_fee :: "dec \<Rightarrow> string \<Rightarrow> leg_fill \<Rightarrow> leg_fill" where
  "with_fee f a l = l\<lparr>lf_fee := f, lf_fee_asset := Some a\<rparr>"

definition with_onchain_gas :: "nat \<Rightarrow> nat \<Rightarrow> leg_fill \<Rightarrow> leg_fill" where
  "with_onchain_gas u w l = l\<lparr>lf_onchain_gas_used := Some u, lf_onchain_gas_fee_wei := Some w\<rparr>"

datatype cancel_outcome = Cancelled | RaceFilled leg_fill | PartiallyFilled leg_fill | CancelUnknown string

datatype pending_swap_cancel_outcome =
  SwapCancelled string | OriginalMined string bool | SwapUnknown string

text \<open>The status string that \<open>log_unwind\<close> contributes to a message.\<close>

datatype unwind_status = Unwound | UnwindFailed

datatype exec_error =
    CircuitBreakerOpen | DuplicateSignal | SignalInvalid
  | CexError string | CexTimeoutNoHandle | CexTimeoutCancelled
  | RaceOnCancelPartial unwind_status | CancelStateUnknown string | CancelCexError string
  | CexRejected string | CexReportedRevert | Leg1PartialUnwound dec dec unwind_status
  | CexPartialBelowThreshold dec dec
  | DexError unwind_status string | DexTimeoutCancelled string unwind_status
  | DexTimeoutOriginalMined | DexRevertedDuringCancel unwind_status | DexTimeoutUnknown
  | MissingLeg1Fill | DexPartialBelow unwind_status | DexReverted unwind_status string
  | DexRejected unwind_status string
  | DexLeg1Error string | DexLeg1Timeout | DexLeg1NotExecuted string | DexLeg1PartialBelow dec dec
  | CexErrorAfterDex unwind_status string | CexLeg2Timeout | CexPartialBelow unwind_status
  | CexFailedAfterDex bool unwind_status string

section \<open>Execution context\<close>

record execution_context =
  ctx_signal :: signal
  ctx_state :: executor_state
  leg1_venue :: string
  leg1_handle :: "string option"
  leg1_fill_price :: "dec option"
  leg1_fill_size :: "dec option"
  leg1_fee :: dec
  leg1_fee_asset :: "string option"
  leg2_venue :: string
  leg2_handle :: "string option"
  leg2_fill_price :: "dec option"
  leg2_fill_size :: "dec option"
  leg2_fee :: dec
  leg2_fee_asset :: "string option"
  started_at :: instant
  finished_at :: "instant option"
  actual_net_pnl :: "dec option"
  actual_gross_pnl_usd :: "dec option"
  actual_fees_usd :: "dec option"
  actual_cex_fee_usd :: "dec option"
  actual_onchain_gas_fee_usd :: "dec option"
  onchain_gas_used :: "nat option"
  onchain_gas_fee_wei :: "nat option"
  ctx_error :: "exec_error option"

definition execution_context_new :: "instant \<Rightarrow> signal \<Rightarrow> execution_context" where
  "execution_context_new now s =
     \<lparr>ctx_signal = s, ctx_state = Idle, leg1_venue = '''', leg1_handle = None, leg1_fill_price = None,
      leg1_fill_size = None, leg1_fee = 0, leg1_fee_asset = None, leg2_venue = '''', leg2_handle = None,
      leg2_fill_price = None, leg2_fill_size = None, leg2_fee = 0, leg2_fee_asset = None,
      started_at = now, finished_at = None, actual_net_pnl = None, actual_gross_pnl_usd = None,
      actual_fees_usd = None, actual_cex_fee_usd = None, actual_onchain_gas_fee_usd = None,
      onchain_gas_used = None, onchain_gas_fee_wei = None, ctx_error = None\<rparr>"

definition reject :: "instant \<Rightarrow> exec_error \<Rightarrow> execution_context \<Rightarrow> execution_context" where
  "reject now msg c = c\<lparr>ctx_state := Rejected, ctx_error := Some msg, finished_at := Some now\<rparr>"

definition fail :: "instant \<Rightarrow> exec_error \<Rightarrow> execution_context \<Rightarrow> execution_context" where
  "fail now msg c = c\<lparr>ctx_state := Failed, ctx_error := Some msg, finished_at := Some now\<rparr>"

definition leg2_timeout :: "instant \<Rightarrow> exec_error \<Rightarrow> execution_context \<Rightarrow> execution_context" where
  "leg2_timeout now msg c = c\<lparr>ctx_state := Leg2Timeout, ctx_error := Some msg, finished_at := Some now\<rparr>"

definition leg2_reverted :: "instant \<Rightarrow> exec_error \<Rightarrow> execution_context \<Rightarrow> execution_context" where
  "leg2_reverted now msg c = c\<lparr>ctx_state := Leg2Reverted, ctx_error := Some msg, finished_at := Some now\<rparr>"

definition complete_with_actuals ::
  "dec_ops \<Rightarrow> instant \<Rightarrow> dec \<times> dec \<times> dec \<times> dec \<times> nat option \<times> nat option \<Rightarrow> execution_context \<Rightarrow> execution_context" where
  "complete_with_actuals D now = (\<lambda>(gross, fees, cex_fee, gas_fee, gas_used, gas_fee_wei) c.
     c\<lparr>actual_net_pnl := Some (dsub D gross fees), actual_gross_pnl_usd := Some gross, actual_fees_usd := Some fees,
       actual_cex_fee_usd := Some cex_fee, actual_onchain_gas_fee_usd := Some gas_fee,
       onchain_gas_used := gas_used, onchain_gas_fee_wei := gas_fee_wei,
       ctx_state := Done, finished_at := Some now\<rparr>)"

definition is_profitable :: "execution_context \<Rightarrow> bool" where
  "is_profitable c = (case actual_net_pnl c of Some pnl \<Rightarrow> pnl > 0 | None \<Rightarrow> False)"

section \<open>Backend and history\<close>

datatype event =
    Enter executor_state
  | ExecCex dec
  | ExecDex dec
  | CancelCex string
  | CancelDex string
  | Unwind string "dec option"
  | UsdPrice string

type_synonym history = "event list"

datatype leg_result = Completed leg_fill | LegError string | TimedOut "string option"

record legs =
  execute_cex :: "history \<Rightarrow> signal \<Rightarrow> dec \<Rightarrow> leg_result"
  execute_dex :: "history \<Rightarrow> signal \<Rightarrow> dec \<Rightarrow> leg_result"
  cancel_cex :: "history \<Rightarrow> string \<Rightarrow> string + cancel_outcome"
  cancel_dex :: "history \<Rightarrow> string \<Rightarrow> string + pending_swap_cancel_outcome"
  unwind :: "history \<Rightarrow> execution_context \<Rightarrow> bool"
  get_usd_price :: "history \<Rightarrow> string \<Rightarrow> dec option"

text \<open>Assigning a state to the context.\<close>

definition enter :: "executor_state \<Rightarrow> execution_context \<times> history \<Rightarrow> execution_context \<times> history" where
  "enter s = (\<lambda>(c, h). (c\<lparr>ctx_state := s\<rparr>, h @ [Enter s]))"

definition log_unwind :: "legs \<Rightarrow> execution_context \<times> history \<Rightarrow> history \<times> unwind_status" where
  "log_unwind B = (\<lambda>(c, h).
     (h @ [Unwind (leg1_venue c) (leg1_fill_size c)], if unwind B h c then Unwound else UnwindFailed))"

section \<open>Configuration\<close>

record executor_config =
  leg1_timeout_cfg :: duration
  leg2_timeout_cfg :: duration
  min_fill_ratio :: dec
  partial_proceed_min_ratio :: dec
  partial_dust_ratio :: dec
  use_flashbots :: bool

datatype fill_class = Full | ProceedReduced | AbortUnwind | Dust

definition classify_fill :: "dec_ops \<Rightarrow> executor_config \<Rightarrow> dec \<Rightarrow> dec \<Rightarrow> fill_class" where
  "classify_fill D cfg filled requested =
     (if requested \<le> 0 then Dust
      else let ratio = ddiv D filled requested
           in if ratio \<ge> min_fill_ratio cfg then Full
              else if ratio \<ge> partial_proceed_min_ratio cfg then ProceedReduced
              else if ratio \<ge> partial_dust_ratio cfg then AbortUnwind
              else Dust)"

definition meets_min_fill :: "dec_ops \<Rightarrow> executor_config \<Rightarrow> dec \<Rightarrow> dec \<Rightarrow> bool" where
  "meets_min_fill D cfg filled requested \<longleftrightarrow> classify_fill D cfg filled requested = Full"

datatype leg_label = Leg1 | Leg2

definition apply_leg_fill_metadata :: "leg_label \<Rightarrow> leg_fill \<Rightarrow> execution_context \<Rightarrow> execution_context" where
  "apply_leg_fill_metadata leg f c =
     (let c' = (case leg of
                  Leg1 \<Rightarrow> c\<lparr>leg1_fee := lf_fee f, leg1_fee_asset := lf_fee_asset f\<rparr>
                | Leg2 \<Rightarrow> c\<lparr>leg2_fee := lf_fee f, leg2_fee_asset := lf_fee_asset f\<rparr>)
      in if lf_onchain_gas_used f \<noteq> None \<or> lf_onchain_gas_fee_wei f \<noteq> None
         then c'\<lparr>onchain_gas_used := lf_onchain_gas_used f, onchain_gas_fee_wei := lf_onchain_gas_fee_wei f\<rparr>
         else c')"

section \<open>Realised profit\<close>

text \<open>
  \<open>Decimal::from_str_exact\<close> fails beyond 96 bits; \<open>10u64.pow\<close> overflows beyond 19.
\<close>

definition u256_to_decimal_scaled :: "dec_ops \<Rightarrow> nat \<Rightarrow> nat \<Rightarrow> (unit, dec) outcome" where
  "u256_to_decimal_scaled D v decimals =
     (if v \<ge> 2 ^ 96 then Err ()
      else if decimals > 19 then Panic
      else Ok (ddiv D (of_nat v) (10 ^ decimals)))"

definition actual_cex_fee ::
  "dec_ops \<Rightarrow> legs \<Rightarrow> dec \<Rightarrow> dec \<Rightarrow> execution_context \<times> history \<Rightarrow> history \<times> dec" where
  "actual_cex_fee D B quote_usd_price configured_cex_fee = (\<lambda>(c, h).
     if leg1_venue c = ''cex'' \<and> leg1_fee c > 0 then
       (let asset = (case leg1_fee_asset c of Some a \<Rightarrow> a | None \<Rightarrow> ''USDT'');
            price = (case get_usd_price B h asset of Some p \<Rightarrow> p | None \<Rightarrow> quote_usd_price)
        in (h @ [UsdPrice asset], dmul D (leg1_fee c) price))
     else if leg2_venue c = ''cex'' \<and> leg2_fee c > 0 then
       (let asset = (case leg2_fee_asset c of Some a \<Rightarrow> a | None \<Rightarrow> ''USDT'');
            price = (case get_usd_price B h asset of Some p \<Rightarrow> p | None \<Rightarrow> quote_usd_price)
        in (h @ [UsdPrice asset], dmul D (leg2_fee c) price))
     else (h, configured_cex_fee))"

definition gas_fee_estimate :: "dec_ops \<Rightarrow> fee_structure \<Rightarrow> dec \<Rightarrow> signal \<Rightarrow> dec" where
  "gas_fee_estimate D f trade_value s =
     (let configured_dex_fee = dmul D (ddiv D (dex_swap_bps f) BPS_SCALE) trade_value;
          configured_non_cex_fee = dadd D configured_dex_fee (gas_cost_usd f);
          signal_cex_fee = dmul D (ddiv D (cex_taker_bps f) BPS_SCALE) (notional_usd s);
          signal_non_cex_fee = max (dsub D (expected_fees s) signal_cex_fee) 0;
          quote_asset = (case split_pair_symbols (sig_pair s) of Inr (_, q) \<Rightarrow> q | Inl _ \<Rightarrow> '''')
      in if quote_asset \<notin> {''USD'', ''USDC'', ''USDC.E'', ''USDT''} \<and> signal_non_cex_fee > 0
         then signal_non_cex_fee else configured_non_cex_fee)"

definition calc_actual_pnl ::
  "dec_ops \<Rightarrow> legs \<Rightarrow> fee_structure \<Rightarrow> execution_context \<times> history
     \<Rightarrow> history \<times> (dec \<times> dec \<times> dec \<times> dec \<times> nat option \<times> nat option)" where
  "calc_actual_pnl D B f = (\<lambda>(c, h).
     case (leg1_fill_price c, leg1_fill_size c, leg2_fill_price c) of
       (Some leg1_price, Some leg1_size, Some leg2_price) \<Rightarrow>
         (let (cex_p, dex_p) = (if leg1_venue c = ''cex'' then (leg1_price, leg2_price) else (leg2_price, leg1_price));
              gross_quote = (case sig_direction (ctx_signal c) of
                  BuyCexSellDex \<Rightarrow> dmul D (dsub D dex_p cex_p) leg1_size
                | BuyDexSellCex \<Rightarrow> dmul D (dsub D cex_p dex_p) leg1_size);
              expected_quote_value = dmul D (sig_size (ctx_signal c)) (cex_price (ctx_signal c));
              quote_usd_price = (if expected_quote_value > 0
                  then ddiv D (notional_usd (ctx_signal c)) expected_quote_value else 1);
              gross = dmul D gross_quote quote_usd_price;
              trade_value = dmul D (dmul D leg1_size cex_p) quote_usd_price;
              configured_cex_fee = dmul D (ddiv D (cex_taker_bps f) BPS_SCALE) trade_value;
              (h1, cex_fee) = actual_cex_fee D B quote_usd_price configured_cex_fee (c, h);
              (h2, gas_fee) = (case onchain_gas_fee_wei c of
                  Some fee_wei \<Rightarrow>
                    (let fee_dec = (case u256_to_decimal_scaled D fee_wei 18 of Ok x \<Rightarrow> x | _ \<Rightarrow> 0);
                         eth_price = (case get_usd_price B h1 ''ETH'' of Some p \<Rightarrow> p | None \<Rightarrow> quote_usd_price)
                     in (h1 @ [UsdPrice ''ETH''], dmul D fee_dec eth_price))
                | None \<Rightarrow> (h1, gas_fee_estimate D f trade_value (ctx_signal c)));
              fees = dadd D cex_fee gas_fee
          in (h2, (gross, fees, cex_fee, gas_fee, onchain_gas_used c, onchain_gas_fee_wei c)))
     | _ \<Rightarrow> (h, (0, 0, 0, 0, None, None)))"

section \<open>Executor\<close>

record executor =
  ex_config :: executor_config
  ex_breaker :: circuit_breaker
  ex_replay :: replay_protection
  ex_store :: "reconcile_store option"
  ex_fees :: fee_structure

text \<open>The clock readings of one \<open>execute\<close> call and the verdicts of its SQL statements.\<close>

record exec_io =
  io_lo :: instant
  io_started :: instant
  io_breaker :: instant
  io_replay_now :: instant
  io_replay_unix :: unix_time
  io_replay_ok :: bool
  io_valid :: date_time
  io_finished :: instant
  io_reconcile_unix :: unix_time
  io_reconcile_ok :: bool
  io_mark_now :: instant
  io_mark_unix :: unix_time
  io_mark_ok :: bool
  io_record :: instant
  io_query :: instant

text \<open>A transition into a terminal state, and the unwind that may precede it.\<close>

definition close :: "(execution_context \<Rightarrow> execution_context) \<Rightarrow> execution_context \<times> history \<Rightarrow> execution_context \<times> history" where
  "close f = (\<lambda>(c, h). (f c, h @ [Enter (ctx_state (f c))]))"

definition unwind_and_close ::
  "legs \<Rightarrow> (unwind_status \<Rightarrow> execution_context \<Rightarrow> execution_context) \<Rightarrow> execution_context \<times> history
     \<Rightarrow> execution_context \<times> history" where
  "unwind_and_close B f ch =
     (let (c, h) = enter Unwinding ch;
          (h', st) = log_unwind B (c, h)
      in close (f st) (c, h'))"

definition set_leg1_fill :: "leg_fill \<Rightarrow> execution_context \<Rightarrow> execution_context" where
  "set_leg1_fill f c = apply_leg_fill_metadata Leg1 f
     (c\<lparr>leg1_fill_price := Some (lf_price f), leg1_fill_size := Some (lf_filled f)\<rparr>)"

definition set_leg2_fill :: "leg_fill \<Rightarrow> execution_context \<Rightarrow> execution_context" where
  "set_leg2_fill f c = apply_leg_fill_metadata Leg2 f
     (c\<lparr>leg2_fill_price := Some (lf_price f), leg2_fill_size := Some (lf_filled f)\<rparr>)"

definition err_or_default :: "leg_fill \<Rightarrow> string" where
  "err_or_default f = (case lf_error f of Some e \<Rightarrow> e | None \<Rightarrow> [])"

definition maybe_push_reconcile :: "exec_io \<Rightarrow> execution_context \<Rightarrow> reconcile_store option \<Rightarrow> reconcile_store option" where
  "maybe_push_reconcile io c st =
     (case st of
        None \<Rightarrow> None
      | Some rows \<Rightarrow>
          (case (leg2_handle c, leg1_fill_size c) of
             (Some tx_hash, Some leg1_size) \<Rightarrow>
               Some (fst (store_add (io_reconcile_ok io)
                 \<lparr>pr_signal_id = signal_id (ctx_signal c), pr_tx_hash = tx_hash, pr_pair = sig_pair (ctx_signal c),
                  pr_direction = sig_direction (ctx_signal c), pr_leg1_venue = leg1_venue c,
                  pr_leg1_fill_size = leg1_size, pr_started_at_unix = io_reconcile_unix io\<rparr> rows))
           | _ \<Rightarrow> Some rows))"

subsection \<open>CEX first\<close>

text \<open>
  Leg 1 on the exchange: either the execution ends here (\<open>Inl\<close>) or a fill is available (\<open>Inr\<close>).
\<close>

definition cex_leg1_timeout ::
  "dec_ops \<Rightarrow> legs \<Rightarrow> executor_config \<Rightarrow> exec_io \<Rightarrow> string option \<Rightarrow> execution_context \<times> history
     \<Rightarrow> (execution_context \<times> history) + (leg_fill \<times> execution_context \<times> history)" where
  "cex_leg1_timeout D B cfg io captured ch =
     (case captured of
        None \<Rightarrow> Inl (close (reject (io_finished io) CexTimeoutNoHandle) (enter Leg1Cancelling ch))
      | Some handle \<Rightarrow>
          (let (c0, h0) = enter Leg1Cancelling ch;
               c = c0\<lparr>leg1_handle := Some handle\<rparr>;
               h = h0 @ [CancelCex handle]
           in case cancel_cex B h0 handle of
                Inr Cancelled \<Rightarrow> Inl (close (reject (io_finished io) CexTimeoutCancelled) (c, h))
              | Inr (RaceFilled fill) \<Rightarrow> Inr (fill, c, h)
              | Inr (PartiallyFilled fill) \<Rightarrow>
                  (if classify_fill D cfg (lf_filled fill) (sig_size (ctx_signal c)) \<in> {Full, ProceedReduced}
                   then Inr (fill, c, h)
                   else Inl (unwind_and_close B (\<lambda>st. fail (io_finished io) (RaceOnCancelPartial st))
                               (set_leg1_fill fill c, h)))
              | Inr (CancelUnknown msg) \<Rightarrow> Inl (close (fail (io_finished io) (CancelStateUnknown msg)) (c, h))
              | Inl e \<Rightarrow> Inl (close (fail (io_finished io) (CancelCexError e)) (c, h))))"

definition cex_leg1 ::
  "dec_ops \<Rightarrow> legs \<Rightarrow> executor_config \<Rightarrow> exec_io \<Rightarrow> execution_context \<times> history
     \<Rightarrow> (execution_context \<times> history) + (leg_fill \<times> execution_context \<times> history)" where
  "cex_leg1 D B cfg io ch =
     (let (c0, h0) = enter Leg1Pending ch;
          c = c0\<lparr>leg1_venue := ''cex''\<rparr>;
          h = h0 @ [ExecCex (sig_size (ctx_signal c))]
      in case execute_cex B h0 (ctx_signal c) (sig_size (ctx_signal c)) of
           Completed f \<Rightarrow> Inr (f, c, h)
         | LegError e \<Rightarrow> Inl (close (reject (io_finished io) (CexError e)) (c, h))
         | TimedOut captured \<Rightarrow> cex_leg1_timeout D B cfg io captured (c, h))"

text \<open>Best-effort cancellation of the unfilled remainder; its answer is only logged.\<close>

definition cancel_remainder :: "leg_fill \<Rightarrow> execution_context \<times> history \<Rightarrow> execution_context \<times> history" where
  "cancel_remainder f = (\<lambda>(c, h). (case lf_handle f of Some handle \<Rightarrow> (c, h @ [CancelCex handle]) | None \<Rightarrow> (c, h)))"

definition cancelling_remainder :: "leg_fill \<Rightarrow> execution_context \<times> history \<Rightarrow> execution_context \<times> history" where
  "cancelling_remainder f ch =
     (case lf_handle f of Some _ \<Rightarrow> cancel_remainder f (enter Leg1Cancelling ch) | None \<Rightarrow> ch)"

definition cex_leg1_classified ::
  "dec_ops \<Rightarrow> legs \<Rightarrow> executor_config \<Rightarrow> exec_io \<Rightarrow> leg_fill \<times> execution_context \<times> history
     \<Rightarrow> (execution_context \<times> history) + (execution_context \<times> history)" where
  "cex_leg1_classified D B cfg io = (\<lambda>(leg1, c0, h).
     let c = c0\<lparr>leg1_handle := lf_handle leg1\<rparr>
     in case lf_outcome leg1 of
          LegRejected \<Rightarrow> Inl (close (reject (io_finished io) (CexRejected (err_or_default leg1))) (c, h))
        | LegReverted \<Rightarrow> Inl (close (reject (io_finished io) CexReportedRevert) (c, h))
        | Accepted \<Rightarrow>
            (case classify_fill D cfg (lf_filled leg1) (sig_size (ctx_signal c)) of
               Full \<Rightarrow> Inr (enter Leg1Filled (set_leg1_fill leg1 c, h))
             | ProceedReduced \<Rightarrow>
                 Inr (cancel_remainder leg1 (enter Leg1Partial (set_leg1_fill leg1 c, h)))
             | AbortUnwind \<Rightarrow>
                 (let (c1, h1) = cancelling_remainder leg1 (c, h)
                  in Inl (unwind_and_close B
                       (\<lambda>st. fail (io_finished io) (Leg1PartialUnwound (lf_filled leg1) (sig_size (ctx_signal c)) st))
                       (set_leg1_fill leg1 c1, h1)))
             | Dust \<Rightarrow>
                 Inl (close (reject (io_finished io)
                        (CexPartialBelowThreshold (lf_filled leg1) (sig_size (ctx_signal c))))
                      (cancelling_remainder leg1 (c, h)))))"

definition finalize_cex_first_leg2 ::
  "dec_ops \<Rightarrow> legs \<Rightarrow> executor_config \<Rightarrow> fee_structure \<Rightarrow> exec_io \<Rightarrow> leg_fill \<Rightarrow> execution_context \<times> history
     \<Rightarrow> execution_context \<times> history" where
  "finalize_cex_first_leg2 D B cfg fees io leg2 = (\<lambda>(c0, h).
     let c = c0\<lparr>leg2_handle := lf_handle leg2\<rparr>
     in case lf_outcome leg2 of
          Accepted \<Rightarrow>
            (case leg1_fill_size c of
               None \<Rightarrow> close (fail (io_finished io) MissingLeg1Fill) (c, h)
             | Some leg1_size \<Rightarrow>
                 (if \<not> meets_min_fill D cfg (lf_filled leg2) leg1_size
                  then unwind_and_close B (\<lambda>st. fail (io_finished io) (DexPartialBelow st)) (c, h)
                  else let c' = set_leg2_fill leg2 c;
                           (h', actuals) = calc_actual_pnl D B fees (c', h)
                       in close (complete_with_actuals D (io_finished io) actuals) (c', h')))
        | LegReverted \<Rightarrow>
            unwind_and_close B (\<lambda>st. leg2_reverted (io_finished io) (DexReverted st (err_or_default leg2))) (c, h)
        | LegRejected \<Rightarrow>
            unwind_and_close B (\<lambda>st. fail (io_finished io) (DexRejected st (err_or_default leg2))) (c, h))"

text \<open>The transaction may still land: record the timeout and hand it to the reconciler.\<close>

definition timed_out ::
  "exec_io \<Rightarrow> exec_error \<Rightarrow> reconcile_store option \<Rightarrow> execution_context \<times> history
     \<Rightarrow> (execution_context \<times> history) \<times> reconcile_store option" where
  "timed_out io msg rs ch =
     (let r = close (leg2_timeout (io_finished io) msg) ch in (r, maybe_push_reconcile io (fst r) rs))"

definition dex_leg2_timeout ::
  "legs \<Rightarrow> exec_io \<Rightarrow> string option \<Rightarrow> reconcile_store option \<Rightarrow> execution_context \<times> history
     \<Rightarrow> (execution_context \<times> history) \<times> reconcile_store option" where
  "dex_leg2_timeout B io captured rs = (\<lambda>(c0, h0).
     let c = c0\<lparr>leg2_handle := captured\<rparr>
     in case captured of
          None \<Rightarrow> timed_out io DexTimeoutUnknown rs (c, h0)
        | Some handle \<Rightarrow>
            (let h = h0 @ [CancelDex handle]
             in case cancel_dex B h0 handle of
                  Inr (SwapCancelled cancel_tx) \<Rightarrow>
                    (unwind_and_close B (\<lambda>st. fail (io_finished io) (DexTimeoutCancelled cancel_tx st)) (c, h), rs)
                | Inr (OriginalMined tx success) \<Rightarrow>
                    (if success then timed_out io DexTimeoutOriginalMined rs (c, h)
                     else (unwind_and_close B (\<lambda>st. leg2_reverted (io_finished io) (DexRevertedDuringCancel st)) (c, h), rs))
                | Inr (SwapUnknown reason) \<Rightarrow> timed_out io DexTimeoutUnknown rs (c, h)
                | Inl e \<Rightarrow> timed_out io DexTimeoutUnknown rs (c, h)))"

definition cex_first_leg2 ::
  "dec_ops \<Rightarrow> legs \<Rightarrow> executor_config \<Rightarrow> fee_structure \<Rightarrow> exec_io \<Rightarrow> reconcile_store option \<Rightarrow> dec
     \<Rightarrow> execution_context \<times> history \<Rightarrow> (execution_context \<times> history) \<times> reconcile_store option" where
  "cex_first_leg2 D B cfg fees io rs leg1_filled ch =
     (let (c0, h0) = enter Leg2Pending ch;
          c = c0\<lparr>leg2_venue := ''dex''\<rparr>;
          h = h0 @ [ExecDex leg1_filled]
      in case execute_dex B h0 (ctx_signal c) leg1_filled of
           Completed leg2 \<Rightarrow> (finalize_cex_first_leg2 D B cfg fees io leg2 (c, h), rs)
         | LegError e \<Rightarrow> (unwind_and_close B (\<lambda>st. fail (io_finished io) (DexError st e)) (c, h), rs)
         | TimedOut captured \<Rightarrow> dex_leg2_timeout B io captured rs (c, h))"

definition execute_cex_first ::
  "dec_ops \<Rightarrow> legs \<Rightarrow> executor_config \<Rightarrow> fee_structure \<Rightarrow> exec_io \<Rightarrow> reconcile_store option
     \<Rightarrow> execution_context \<times> history \<Rightarrow> (execution_context \<times> history) \<times> reconcile_store option" where
  "execute_cex_first D B cfg fees io rs ch =
     (case cex_leg1 D B cfg io ch of
        Inl r \<Rightarrow> (r, rs)
      | Inr (leg1, c, h) \<Rightarrow>
          (case cex_leg1_classified D B cfg io (leg1, c, h) of
             Inl r \<Rightarrow> (r, rs)
           | Inr ch' \<Rightarrow> cex_first_leg2 D B cfg fees io rs (lf_filled leg1) ch'))"

subsection \<open>DEX first\<close>

definition finalize_dex_first_leg2 ::
  "dec_ops \<Rightarrow> legs \<Rightarrow> executor_config \<Rightarrow> fee_structure \<Rightarrow> exec_io \<Rightarrow> leg_fill \<Rightarrow> execution_context \<times> history
     \<Rightarrow> execution_context \<times> history" where
  "finalize_dex_first_leg2 D B cfg fees io leg2 = (\<lambda>(c0, h).
     let c = c0\<lparr>leg2_handle := lf_handle leg2\<rparr>
     in case lf_outcome leg2 of
          Accepted \<Rightarrow>
            (case leg1_fill_size c of
               None \<Rightarrow> close (fail (io_finished io) MissingLeg1Fill) (c, h)
             | Some leg1_size \<Rightarrow>
                 (if \<not> meets_min_fill D cfg (lf_filled leg2) leg1_size
                  then unwind_and_close B (\<lambda>st. fail (io_finished io) (CexPartialBelow st)) (c, h)
                  else let c' = set_leg2_fill leg2 c;
                           (h', actuals) = calc_actual_pnl D B fees (c', h)
                       in close (complete_with_actuals D (io_finished io) actuals) (c', h')))
        | _ \<Rightarrow>
            unwind_and_close B (\<lambda>st. fail (io_finished io)
                (CexFailedAfterDex (lf_outcome leg2 = LegReverted) st (err_or_default leg2))) (c, h))"

definition dex_leg1 ::
  "dec_ops \<Rightarrow> legs \<Rightarrow> executor_config \<Rightarrow> exec_io \<Rightarrow> execution_context \<times> history
     \<Rightarrow> (execution_context \<times> history) + (leg_fill \<times> execution_context \<times> history)" where
  "dex_leg1 D B cfg io ch =
     (let (c0, h0) = enter Leg1Pending ch;
          c1 = c0\<lparr>leg1_venue := ''dex''\<rparr>;
          h = h0 @ [ExecDex (sig_size (ctx_signal c1))]
      in case execute_dex B h0 (ctx_signal c1) (sig_size (ctx_signal c1)) of
           LegError e \<Rightarrow> Inl (close (reject (io_finished io) (DexLeg1Error e)) (c1, h))
         | TimedOut _ \<Rightarrow> Inl (close (reject (io_finished io) DexLeg1Timeout) (c1, h))
         | Completed leg1 \<Rightarrow>
             (let c = c1\<lparr>leg1_handle := lf_handle leg1\<rparr>
              in if lf_outcome leg1 \<noteq> Accepted
                 then Inl (close (reject (io_finished io) (DexLeg1NotExecuted (err_or_default leg1))) (c, h))
                 else if \<not> meets_min_fill D cfg (lf_filled leg1) (sig_size (ctx_signal c))
                 then Inl (close (reject (io_finished io)
                        (DexLeg1PartialBelow (lf_filled leg1) (sig_size (ctx_signal c)))) (c, h))
                 else Inr (leg1, enter Leg1Filled (set_leg1_fill leg1 c, h))))"

definition dex_first_leg2 ::
  "dec_ops \<Rightarrow> legs \<Rightarrow> executor_config \<Rightarrow> fee_structure \<Rightarrow> exec_io \<Rightarrow> dec \<Rightarrow> execution_context \<times> history
     \<Rightarrow> execution_context \<times> history" where
  "dex_first_leg2 D B cfg fees io leg1_filled ch =
     (let (c0, h0) = enter Leg2Pending ch;
          c = c0\<lparr>leg2_venue := ''cex''\<rparr>;
          h = h0 @ [ExecCex leg1_filled]
      in case execute_cex B h0 (ctx_signal c) leg1_filled of
           Completed leg2 \<Rightarrow> finalize_dex_first_leg2 D B cfg fees io leg2 (c, h)
         | LegError e \<Rightarrow> unwind_and_close B (\<lambda>st. fail (io_finished io) (CexErrorAfterDex st e)) (c, h)
         | TimedOut _ \<Rightarrow> close (leg2_timeout (io_finished io) CexLeg2Timeout) (c, h))"

definition execute_dex_first ::
  "dec_ops \<Rightarrow> legs \<Rightarrow> executor_config \<Rightarrow> fee_structure \<Rightarrow> exec_io \<Rightarrow> execution_context \<times> history
     \<Rightarrow> execution_context \<times> history" where
  "execute_dex_first D B cfg fees io ch =
     (case dex_leg1 D B cfg io ch of
        Inl r \<Rightarrow> r
      | Inr (leg1, c, h) \<Rightarrow> dex_first_leg2 D B cfg fees io (lf_filled leg1) (c, h))"

subsection \<open>The whole execution\<close>

text \<open>What \<open>execute\<close> does between the pre-flight checks and the bookkeeping.\<close>

definition run_legs ::
  "dec_ops \<Rightarrow> legs \<Rightarrow> exec_io \<Rightarrow> executor \<Rightarrow> execution_context \<times> history
     \<Rightarrow> (execution_context \<times> history) \<times> reconcile_store option" where
  "run_legs D B io ex ch =
     (if use_flashbots (ex_config ex)
      then (execute_dex_first D B (ex_config ex) (ex_fees ex) io ch, ex_store ex)
      else execute_cex_first D B (ex_config ex) (ex_fees ex) io (ex_store ex) ch)"

text \<open>The breaker after a finished execution.\<close>

definition feed_breaker :: "exec_io \<Rightarrow> execution_context \<Rightarrow> circuit_breaker \<Rightarrow> circuit_breaker" where
  "feed_breaker io c b =
     (if ctx_state c = Done \<and> (case actual_net_pnl c of Some pnl \<Rightarrow> pnl < 0 | None \<Rightarrow> False)
      then record_failure_at (io_lo io) (io_record io) b
      else if ctx_state c = Done then record_success b
      else if ctx_state c = Rejected then b
      else record_failure_at (io_lo io) (io_record io) b)"

definition execute ::
  "dec_ops \<Rightarrow> legs \<Rightarrow> exec_io \<Rightarrow> signal \<Rightarrow> executor \<Rightarrow> executor \<times> execution_context \<times> history" where
  "execute D B io s ex =
     (let c0 = execution_context_new (io_started io) s;
          (cb, is_open) = is_open_at (io_breaker io) (ex_breaker ex);
          ex1 = ex\<lparr>ex_breaker := cb\<rparr>
      in if is_open then (ex1, close (reject (io_finished io) CircuitBreakerOpen) (c0, []))
      else let (rp, dup) = is_duplicate (io_replay_ok io) (io_replay_now io) (io_replay_unix io) (signal_id s) (ex_replay ex1);
               ex2 = ex1\<lparr>ex_replay := rp\<rparr>
      in if dup then (ex2, close (reject (io_finished io) DuplicateSignal) (c0, []))
      else let ch = enter Validating (c0, [])
      in if \<not> is_valid s (io_valid io) then (ex2, close (reject (io_finished io) SignalInvalid) ch)
      else let ((c, h), rs) = run_legs D B io ex2 ch;
               rp' = mark_executed (io_mark_ok io) (io_mark_now io) (io_mark_unix io) (signal_id (ctx_signal c)) (ex_replay ex2);
               cb' = fst (is_open_at (io_query io) (feed_breaker io c (ex_breaker ex2)))
      in (ex2\<lparr>ex_replay := rp', ex_breaker := cb', ex_store := rs\<rparr>, c, h))"

end
