(* ===== verification/Engine_Protocol.thy ===== *)
theory Engine_Protocol
  imports Engine
begin

text \<open>
  What an execution promises, and that the engine keeps it.  The specification is an inductive
  protocol over histories: which state may follow which, which backend call may be made in which
  phase and with which size.  The refinement lemma says that every execution follows it; the
  safety properties are consequences of the protocol by rule induction.
\<close>

section \<open>The protocol\<close>

text \<open>
  A phase is a state of the executor, or the point after a backend call that is still to be
  acted upon.
\<close>

datatype phase = In executor_state | Leg1Sent | CancelAnswered | Leg2Sent | UnwindSent

text \<open>
  The parameters: whether the DEX goes first, the requested size, and the leg-1 fill the context
  ends up with.
\<close>

inductive protocol :: "bool \<Rightarrow> dec \<Rightarrow> dec option \<Rightarrow> history \<Rightarrow> phase \<Rightarrow> bool"
  for fb :: bool and req :: dec and sz :: "dec option" where
  start: "protocol fb req sz [] (In Idle)"
| validate: "protocol fb req sz h (In Idle) \<Longrightarrow> protocol fb req sz (h @ [Enter Validating]) (In Validating)"
| preflight_reject: "protocol fb req sz h (In s) \<Longrightarrow> s = Idle \<or> s = Validating
    \<Longrightarrow> protocol fb req sz (h @ [Enter Rejected]) (In Rejected)"
| begin_leg1: "protocol fb req sz h (In Validating) \<Longrightarrow> protocol fb req sz (h @ [Enter Leg1Pending]) (In Leg1Pending)"
| send_leg1: "protocol fb req sz h (In Leg1Pending) \<Longrightarrow> e = (if fb then ExecDex req else ExecCex req)
    \<Longrightarrow> protocol fb req sz (h @ [e]) Leg1Sent"
| leg1_reject: "protocol fb req sz h p \<Longrightarrow> p \<in> {Leg1Sent, In Leg1Cancelling, CancelAnswered}
    \<Longrightarrow> protocol fb req sz (h @ [Enter Rejected]) (In Rejected)"
| leg1_cancel: "protocol fb req sz h p \<Longrightarrow> p \<in> {Leg1Sent, CancelAnswered} \<Longrightarrow> \<not> fb
    \<Longrightarrow> protocol fb req sz (h @ [Enter Leg1Cancelling]) (In Leg1Cancelling)"
| send_cancel: "protocol fb req sz h (In Leg1Cancelling) \<Longrightarrow> protocol fb req sz (h @ [CancelCex x]) CancelAnswered"
| cancel_ambiguous: "protocol fb req sz h CancelAnswered \<Longrightarrow> sz = None
    \<Longrightarrow> protocol fb req sz (h @ [Enter Failed]) (In Failed)"
| leg1_unwind: "protocol fb req sz h p \<Longrightarrow> p \<in> {Leg1Sent, CancelAnswered} \<Longrightarrow> \<not> fb \<Longrightarrow> sz \<noteq> None
    \<Longrightarrow> protocol fb req sz (h @ [Enter Unwinding]) (In Unwinding)"
| leg1_filled: "protocol fb req sz h p \<Longrightarrow> p \<in> {Leg1Sent, CancelAnswered} \<Longrightarrow> sz \<noteq> None
    \<Longrightarrow> protocol fb req sz (h @ [Enter Leg1Filled]) (In Leg1Filled)"
| leg1_partial: "protocol fb req sz h p \<Longrightarrow> p \<in> {Leg1Sent, CancelAnswered} \<Longrightarrow> \<not> fb \<Longrightarrow> sz \<noteq> None
    \<Longrightarrow> protocol fb req sz (h @ [Enter Leg1Partial]) (In Leg1Partial)"
| cancel_rest: "protocol fb req sz h (In Leg1Partial) \<Longrightarrow> protocol fb req sz (h @ [CancelCex x]) (In Leg1Partial)"
| begin_leg2: "protocol fb req sz h (In s) \<Longrightarrow> s = Leg1Filled \<or> s = Leg1Partial
    \<Longrightarrow> protocol fb req sz (h @ [Enter Leg2Pending]) (In Leg2Pending)"
| send_leg2: "protocol fb req sz h (In Leg2Pending) \<Longrightarrow> sz = Some y \<Longrightarrow> e = (if fb then ExecCex y else ExecDex y)
    \<Longrightarrow> protocol fb req sz (h @ [e]) Leg2Sent"
| leg2_query: "protocol fb req sz h Leg2Sent \<Longrightarrow> e = UsdPrice a \<or> (\<not> fb \<and> e = CancelDex x)
    \<Longrightarrow> protocol fb req sz (h @ [e]) Leg2Sent"
| leg2_end: "protocol fb req sz h Leg2Sent \<Longrightarrow> s = Done \<or> s = Leg2Timeout
    \<Longrightarrow> protocol fb req sz (h @ [Enter s]) (In s)"
| leg2_unwind: "protocol fb req sz h Leg2Sent \<Longrightarrow> protocol fb req sz (h @ [Enter Unwinding]) (In Unwinding)"
| send_unwind: "protocol fb req sz h (In Unwinding) \<Longrightarrow> v = (if fb then ''dex'' else ''cex'')
    \<Longrightarrow> protocol fb req sz (h @ [Unwind v sz]) UnwindSent"
| unwound: "protocol fb req sz h UnwindSent \<Longrightarrow> s = Failed \<or> (\<not> fb \<and> s = Leg2Reverted)
    \<Longrightarrow> protocol fb req sz (h @ [Enter s]) (In s)"

text \<open>A finished execution: protocol followed to a terminal state, finish time stamped.\<close>

definition finished :: "bool \<Rightarrow> exec_io \<Rightarrow> signal \<Rightarrow> execution_context \<times> history \<Rightarrow> bool" where
  "finished fb io s = (\<lambda>(c, h).
     ctx_signal c = s \<and> is_terminal (ctx_state c) \<and> finished_at c = Some (io_finished io)
     \<and> protocol fb (sig_size s) (leg1_fill_size c) h (In (ctx_state c))
     \<and> (ctx_error c = None \<longleftrightarrow> ctx_state c = Done))"

section \<open>Refinement\<close>

lemmas ctx_ends = reject_def fail_def leg2_timeout_def leg2_reverted_def
lemmas leg_moves = enter_def close_def unwind_and_close_def log_unwind_def Let_def

lemma set_leg1_fill_simps [simp]:
  "ctx_signal (set_leg1_fill f c) = ctx_signal c" "ctx_state (set_leg1_fill f c) = ctx_state c"
  "leg1_venue (set_leg1_fill f c) = leg1_venue c" "leg1_fill_size (set_leg1_fill f c) = Some (lf_filled f)"
  "leg1_fill_price (set_leg1_fill f c) = Some (lf_price f)" "ctx_error (set_leg1_fill f c) = ctx_error c"
  "finished_at (set_leg1_fill f c) = finished_at c" "leg1_handle (set_leg1_fill f c) = leg1_handle c"
  by (simp_all add: set_leg1_fill_def apply_leg_fill_metadata_def Let_def)

lemma set_leg2_fill_simps [simp]:
  "ctx_signal (set_leg2_fill f c) = ctx_signal c" "ctx_state (set_leg2_fill f c) = ctx_state c"
  "leg1_venue (set_leg2_fill f c) = leg1_venue c" "leg1_fill_size (set_leg2_fill f c) = leg1_fill_size c"
  "leg1_fill_price (set_leg2_fill f c) = leg1_fill_price c" "ctx_error (set_leg2_fill f c) = ctx_error c"
  "leg2_fill_size (set_leg2_fill f c) = Some (lf_filled f)"
  "leg2_fill_price (set_leg2_fill f c) = Some (lf_price f)"
  by (simp_all add: set_leg2_fill_def apply_leg_fill_metadata_def Let_def)

lemma finished_unwind:
  assumes "protocol fb (sig_size s) (leg1_fill_size c) (h @ [Enter Unwinding]) (In Unwinding)"
    and "ctx_signal c = s" "leg1_venue c = (if fb then ''dex'' else ''cex'')"
    and "f = (\<lambda>st. fail (io_finished io) (m st)) \<or> (\<not> fb \<and> f = (\<lambda>st. leg2_reverted (io_finished io) (m st)))"
  shows "finished fb io s (unwind_and_close B f (c, h))"
proof -
  have 1: "protocol fb (sig_size s) (leg1_fill_size c)
      ((h @ [Enter Unwinding]) @ [Unwind (leg1_venue c) (leg1_fill_size c)]) UnwindSent"
    by (intro protocol.send_unwind assms)
  have "protocol fb (sig_size s) (leg1_fill_size c)
      (((h @ [Enter Unwinding]) @ [Unwind (leg1_venue c) (leg1_fill_size c)]) @ [Enter s']) (In s')"
    if "s' = Failed \<or> (\<not> fb \<and> s' = Leg2Reverted)" for s'
    by (rule protocol.unwound [OF 1 that])
  with assms(2,4) show ?thesis
    by (auto simp: finished_def leg_moves ctx_ends is_terminal_def)
qed

lemma finished_reject:
  assumes "protocol fb (sig_size s) (leg1_fill_size c) h p"
    "p \<in> {In Idle, In Validating, Leg1Sent, In Leg1Cancelling, CancelAnswered}" "ctx_signal c = s"
  shows "finished fb io s (close (reject (io_finished io) m) (c, h))"
  using assms
  by (auto simp: finished_def leg_moves ctx_ends is_terminal_def
      intro: protocol.leg1_reject protocol.preflight_reject)

lemma calc_actual_pnl_history:
  assumes "protocol fb req sz h Leg2Sent" "calc_actual_pnl D B f (c, h) = (h', a)"
  shows "protocol fb req sz h' Leg2Sent"
proof -
  have q: "protocol fb req sz (h @ [UsdPrice x]) Leg2Sent" if "protocol fb req sz h Leg2Sent" for h x
    using that by (rule protocol.leg2_query) simp
  from assms(2) consider "h' = h" | x where "h' = h @ [UsdPrice x]" | x y where "h' = (h @ [UsdPrice x]) @ [UsdPrice y]"
    by (force simp: calc_actual_pnl_def actual_cex_fee_def Let_def split: option.splits if_splits)
  then show ?thesis using assms(1) q by cases metis+
qed

lemma end_states [simp]:
  "ctx_state (fst (close (reject t m) ch)) = Rejected" "ctx_state (fst (close (fail t m) ch)) = Failed"
  "ctx_state (fst (close (leg2_timeout t m) ch)) = Leg2Timeout"
  "ctx_state (fst (unwind_and_close B (\<lambda>st. fail t (m' st)) ch)) = Failed"
  "ctx_state (fst (unwind_and_close B (\<lambda>st. leg2_reverted t (m' st)) ch)) = Leg2Reverted"
  by (simp_all add: leg_moves ctx_ends split: prod.split)

text \<open>
  The point between leg 1 being answered and its fill being looked at: the same history is good for
  every fill size.
\<close>

definition leg1_answered :: "bool \<Rightarrow> signal \<Rightarrow> execution_context \<times> history \<Rightarrow> bool" where
  "leg1_answered fb s = (\<lambda>(c, h).
     ctx_signal c = s \<and> leg1_venue c = (if fb then ''dex'' else ''cex'') \<and> ctx_error c = None
     \<and> leg1_fill_size c = None
     \<and> (\<exists>p \<in> {Leg1Sent, CancelAnswered}. \<forall>sz. protocol fb (sig_size s) sz h p))"

definition at_validating :: "bool \<Rightarrow> signal \<Rightarrow> execution_context \<times> history \<Rightarrow> bool" where
  "at_validating fb s = (\<lambda>(c, h).
     ctx_signal c = s \<and> ctx_error c = None \<and> leg1_fill_size c = None
     \<and> (\<forall>sz. protocol fb (sig_size s) sz h (In Validating)))"

lemma finished_cancel_ambiguous:
  assumes "protocol fb (sig_size s) None h CancelAnswered" "leg1_fill_size c = None" "ctx_signal c = s"
  shows "finished fb io s (close (fail (io_finished io) m) (c, h))"
  using protocol.cancel_ambiguous [OF assms(1)] assms(2,3)
  by (simp add: finished_def leg_moves ctx_ends is_terminal_def)

lemma cex_leg1_timeout_spec:
  assumes "ctx_signal c = s" "leg1_venue c = ''cex''" "ctx_error c = None" "leg1_fill_size c = None"
    and sent: "\<And>sz. protocol False (sig_size s) sz h Leg1Sent"
  shows "case cex_leg1_timeout D B cfg io captured (c, h) of
           Inl r \<Rightarrow> finished False io s r \<and> ctx_state (fst r) \<noteq> Done
         | Inr (f, ch) \<Rightarrow> leg1_answered False s ch"
proof -
  have cg: "protocol False (sig_size s) sz (h @ [Enter Leg1Cancelling]) (In Leg1Cancelling)" for sz
    by (rule protocol.leg1_cancel [OF sent]) simp_all
  show ?thesis
  proof (cases captured)
    case None
    have "finished False io s (close (reject (io_finished io) CexTimeoutNoHandle)
        (c\<lparr>ctx_state := Leg1Cancelling\<rparr>, h @ [Enter Leg1Cancelling]))"
      by (rule finished_reject [OF cg]) (simp_all add: assms)
    with None show ?thesis by (simp add: cex_leg1_timeout_def enter_def)
  next
    case (Some handle)
    let ?c = "c\<lparr>ctx_state := Leg1Cancelling, leg1_handle := Some handle\<rparr>"
    let ?h0 = "h @ [Enter Leg1Cancelling]"
    have ca: "protocol False (sig_size s) sz (?h0 @ [CancelCex handle]) CancelAnswered" for sz
      by (rule protocol.send_cancel [OF cg])
    have ans: "leg1_answered False s (?c, ?h0 @ [CancelCex handle])"
      using ca assms by (auto simp: leg1_answered_def)
    have rej: "finished False io s (close (reject (io_finished io) m) (?c, ?h0 @ [CancelCex handle]))" for m
      by (rule finished_reject [OF ca]) (simp_all add: assms)
    have amb: "finished False io s (close (fail (io_finished io) m) (?c, ?h0 @ [CancelCex handle]))" for m
      by (rule finished_cancel_ambiguous [OF ca]) (simp_all add: assms)
    have unw: "finished False io s (unwind_and_close B (\<lambda>st. fail (io_finished io) (RaceOnCancelPartial st))
        (set_leg1_fill fill ?c, ?h0 @ [CancelCex handle]))" for fill
      by (rule finished_unwind [OF protocol.leg1_unwind [OF ca]]) (auto simp: assms)
    have run: "cex_leg1_timeout D B cfg io captured (c, h) =
       (case cancel_cex B ?h0 handle of
          Inr Cancelled \<Rightarrow> Inl (close (reject (io_finished io) CexTimeoutCancelled) (?c, ?h0 @ [CancelCex handle]))
        | Inr (RaceFilled fill) \<Rightarrow> Inr (fill, ?c, ?h0 @ [CancelCex handle])
        | Inr (PartiallyFilled fill) \<Rightarrow>
            (if classify_fill D cfg (lf_filled fill) (sig_size (ctx_signal ?c)) \<in> {Full, ProceedReduced}
             then Inr (fill, ?c, ?h0 @ [CancelCex handle])
             else Inl (unwind_and_close B (\<lambda>st. fail (io_finished io) (RaceOnCancelPartial st))
                         (set_leg1_fill fill ?c, ?h0 @ [CancelCex handle])))
        | Inr (CancelUnknown msg) \<Rightarrow> Inl (close (fail (io_finished io) (CancelStateUnknown msg)) (?c, ?h0 @ [CancelCex handle]))
        | Inl e \<Rightarrow> Inl (close (fail (io_finished io) (CancelCexError e)) (?c, ?h0 @ [CancelCex handle])))"
      by (simp add: cex_leg1_timeout_def Some enter_def Let_def cong: sum.case_cong cancel_outcome.case_cong)
    show ?thesis
      unfolding run using ans rej amb unw
      by (simp del: append_assoc split_paired_All split: sum.split cancel_outcome.split)
  qed
qed

lemma cex_leg1_spec:
  assumes "at_validating False s ch"
  shows "case cex_leg1 D B cfg io ch of
           Inl r \<Rightarrow> finished False io s r \<and> ctx_state (fst r) \<noteq> Done
         | Inr (f, ch') \<Rightarrow> leg1_answered False s ch'"
proof -
  obtain c h where ch: "ch = (c, h)" by (cases ch)
  let ?c = "c\<lparr>ctx_state := Leg1Pending, leg1_venue := ''cex''\<rparr>"
  let ?h0 = "h @ [Enter Leg1Pending]"
  from assms have v: "ctx_signal c = s" "ctx_error c = None" "leg1_fill_size c = None"
    "\<And>sz. protocol False (sig_size s) sz h (In Validating)"
    by (auto simp: at_validating_def ch)
  have sent: "protocol False (sig_size s) sz (?h0 @ [ExecCex (sig_size s)]) Leg1Sent" for sz
    by (rule protocol.send_leg1 [OF protocol.begin_leg1 [OF v(4)]]) simp
  have rej: "finished False io s (close (reject (io_finished io) m) (?c, ?h0 @ [ExecCex (sig_size s)]))" for m
    by (rule finished_reject [OF sent]) (simp_all add: v)
  have ans: "leg1_answered False s (?c, ?h0 @ [ExecCex (sig_size s)])"
    using sent v by (auto simp: leg1_answered_def)
  have to: "case cex_leg1_timeout D B cfg io captured (?c, ?h0 @ [ExecCex (sig_size s)]) of
       Inl r \<Rightarrow> finished False io s r \<and> ctx_state (fst r) \<noteq> Done | Inr (f, ch) \<Rightarrow> leg1_answered False s ch" for captured
    by (rule cex_leg1_timeout_spec [OF _ _ _ _ sent]) (simp_all add: v)
  show ?thesis
    using rej ans to by (auto simp: cex_leg1_def ch enter_def Let_def v simp del: append_assoc split: leg_result.split)
qed

lemma cancelling_remainder_spec:
  assumes "leg1_answered False s (c, h)"
  shows "\<exists>c' h'. cancelling_remainder f (c, h) = (c', h') \<and> leg1_answered False s (c', h')"
proof (cases "lf_handle f")
  case None
  with assms show ?thesis by (simp add: cancelling_remainder_def)
next
  case (Some x)
  from assms obtain p where p: "p \<in> {Leg1Sent, CancelAnswered}"
    "\<And>sz. protocol False (sig_size s) sz h p" by (auto simp: leg1_answered_def)
  have "protocol False (sig_size s) sz ((h @ [Enter Leg1Cancelling]) @ [CancelCex x]) CancelAnswered" for sz
    by (rule protocol.send_cancel [OF protocol.leg1_cancel [OF p(2,1)]]) simp
  with assms Some show ?thesis
    by (auto simp: cancelling_remainder_def cancel_remainder_def enter_def leg1_answered_def simp del: append_assoc)
qed

lemma finished_reject_answered:
  assumes "leg1_answered fb s (c, h)"
  shows "finished fb io s (close (reject (io_finished io) m) (c, h))"
  using assms by (auto simp: leg1_answered_def intro: finished_reject)

lemma finished_unwind_answered:
  assumes "leg1_answered False s (c, h)"
  shows "finished False io s (unwind_and_close B (\<lambda>st. fail (io_finished io) (m st)) (set_leg1_fill f c, h))"
proof -
  from assms obtain p where p: "p \<in> {Leg1Sent, CancelAnswered}"
    "\<And>sz. protocol False (sig_size s) sz h p" by (auto simp: leg1_answered_def)
  show ?thesis
    using assms by (intro finished_unwind [OF protocol.leg1_unwind [OF p(2,1)]]) (auto simp: leg1_answered_def)
qed

text \<open>Ready for leg 2: a fill is recorded and leg 2 may be entered.\<close>

definition ready_for_leg2 :: "bool \<Rightarrow> signal \<Rightarrow> dec \<Rightarrow> execution_context \<times> history \<Rightarrow> bool" where
  "ready_for_leg2 fb s filled = (\<lambda>(c, h).
     ctx_signal c = s \<and> leg1_venue c = (if fb then ''dex'' else ''cex'') \<and> ctx_error c = None
     \<and> leg1_fill_size c = Some filled
     \<and> protocol fb (sig_size s) (Some filled) (h @ [Enter Leg2Pending]) (In Leg2Pending))"

lemma ready_after_filled:
  assumes "leg1_answered fb s (c, h)"
  shows "ready_for_leg2 fb s (lf_filled f) (enter Leg1Filled (set_leg1_fill f c, h))"
proof -
  from assms obtain p where p: "p \<in> {Leg1Sent, CancelAnswered}"
    "\<And>sz. protocol fb (sig_size s) sz h p" by (auto simp: leg1_answered_def)
  have "protocol fb (sig_size s) (Some x) ((h @ [Enter Leg1Filled]) @ [Enter Leg2Pending]) (In Leg2Pending)" for x
    by (rule protocol.begin_leg2 [OF protocol.leg1_filled [OF p(2,1)]]) simp_all
  with assms show ?thesis by (simp add: ready_for_leg2_def leg1_answered_def enter_def)
qed

lemma ready_after_partial:
  assumes "leg1_answered False s (c, h)"
  shows "ready_for_leg2 False s (lf_filled f) (cancel_remainder f (enter Leg1Partial (set_leg1_fill f c, h)))"
proof -
  from assms obtain p where p: "p \<in> {Leg1Sent, CancelAnswered}"
    "\<And>sz. protocol False (sig_size s) sz h p" by (auto simp: leg1_answered_def)
  have part: "protocol False (sig_size s) (Some x) (h @ [Enter Leg1Partial]) (In Leg1Partial)" for x
    by (rule protocol.leg1_partial [OF p(2,1)]) simp_all
  have "protocol False (sig_size s) (Some x) ((h @ [Enter Leg1Partial]) @ [Enter Leg2Pending]) (In Leg2Pending)" for x
    by (rule protocol.begin_leg2 [OF part]) simp
  moreover have "protocol False (sig_size s) (Some x)
      (((h @ [Enter Leg1Partial]) @ [CancelCex y]) @ [Enter Leg2Pending]) (In Leg2Pending)" for x y
    by (rule protocol.begin_leg2 [OF protocol.cancel_rest [OF part]]) simp
  ultimately show ?thesis
    using assms by (simp add: ready_for_leg2_def leg1_answered_def enter_def cancel_remainder_def split: option.split)
qed

lemma cex_leg1_classified_spec:
  assumes "leg1_answered False s (c0, h)"
  shows "case cex_leg1_classified D B cfg io (leg1, c0, h) of
           Inl r \<Rightarrow> finished False io s r \<and> ctx_state (fst r) \<noteq> Done
         | Inr ch \<Rightarrow> ready_for_leg2 False s (lf_filled leg1) ch
             \<and> classify_fill D cfg (lf_filled leg1) (sig_size s) \<in> {Full, ProceedReduced} \<and> lf_outcome leg1 = Accepted"
proof -
  let ?c = "c0\<lparr>leg1_handle := lf_handle leg1\<rparr>"
  have a: "leg1_answered False s (?c, h)" using assms by (simp add: leg1_answered_def)
  then have s: "ctx_signal ?c = s" by (simp add: leg1_answered_def)
  obtain c1 h1 where cr: "cancelling_remainder leg1 (?c, h) = (c1, h1)" "leg1_answered False s (c1, h1)"
    using cancelling_remainder_spec [OF a] by blast
  show ?thesis
    using finished_reject_answered [OF a, of io] finished_reject_answered [OF cr(2), of io]
      finished_unwind_answered [OF cr(2), of io B] ready_after_filled [OF a, of leg1] ready_after_partial [OF a, of leg1] cr(1) s
    by (simp add: cex_leg1_classified_def Let_def del: split_paired_All split: leg_outcome.split fill_class.split)
qed

lemma finished_leg2_timeout:
  assumes "protocol fb (sig_size s) (leg1_fill_size c) h Leg2Sent" "ctx_signal c = s"
  shows "finished fb io s (close (leg2_timeout (io_finished io) m) (c, h))"
  using protocol.leg2_end [OF assms(1), of Leg2Timeout] assms(2)
  by (simp add: finished_def leg_moves ctx_ends is_terminal_def)

lemma finished_done:
  assumes "protocol fb (sig_size s) (leg1_fill_size c) h Leg2Sent" "ctx_signal c = s" "ctx_error c = None"
  shows "finished fb io s (close (complete_with_actuals D (io_finished io) a) (c, h))"
  using protocol.leg2_end [OF assms(1), of Done] assms(2,3)
  by (simp add: finished_def leg_moves complete_with_actuals_def is_terminal_def split: prod.split)

lemma finished_leg2_unwind:
  assumes "protocol fb (sig_size s) (leg1_fill_size c) h Leg2Sent" "ctx_signal c = s"
    "leg1_venue c = (if fb then ''dex'' else ''cex'')"
  shows "finished fb io s (unwind_and_close B (\<lambda>st. fail (io_finished io) (m st)) (c, h))"
    "\<not> fb \<Longrightarrow> finished fb io s (unwind_and_close B (\<lambda>st. leg2_reverted (io_finished io) (m st)) (c, h))"
proof -
  note unw = finished_unwind [OF protocol.leg2_unwind [OF assms(1)] assms(2,3), where m = m]
  show "finished fb io s (unwind_and_close B (\<lambda>st. fail (io_finished io) (m st)) (c, h))"
    by (rule unw) simp
  show "finished fb io s (unwind_and_close B (\<lambda>st. leg2_reverted (io_finished io) (m st)) (c, h))" if "\<not> fb"
    by (rule unw) (simp add: that)
qed

text \<open>What a completed execution has to show for itself.\<close>

definition done_ok :: "dec_ops \<Rightarrow> executor_config \<Rightarrow> execution_context \<Rightarrow> bool" where
  "done_ok D cfg c \<longleftrightarrow>
     (ctx_state c = Done \<longrightarrow>
       (\<exists>s1 s2 gross fees. leg1_fill_size c = Some s1 \<and> leg2_fill_size c = Some s2
          \<and> classify_fill D cfg s1 (sig_size (ctx_signal c)) \<in> {Full, ProceedReduced}
          \<and> classify_fill D cfg s2 s1 = Full
          \<and> actual_gross_pnl_usd c = Some gross \<and> actual_fees_usd c = Some fees
          \<and> actual_net_pnl c = Some (dsub D gross fees)))"

definition leg2_sent :: "bool \<Rightarrow> dec_ops \<Rightarrow> executor_config \<Rightarrow> signal \<Rightarrow> execution_context \<times> history \<Rightarrow> bool" where
  "leg2_sent fb D cfg s = (\<lambda>(c, h).
     ctx_signal c = s \<and> leg1_venue c = (if fb then ''dex'' else ''cex'') \<and> ctx_error c = None
     \<and> (\<exists>s1. leg1_fill_size c = Some s1 \<and> classify_fill D cfg s1 (sig_size s) \<in> {Full, ProceedReduced}
          \<and> protocol fb (sig_size s) (Some s1) h Leg2Sent))"

lemma done_okI: "ctx_state c \<noteq> Done \<Longrightarrow> done_ok D cfg c"
  by (simp add: done_ok_def)

lemma not_done_ok [simp]: "done_ok D cfg (fst (close (reject t m) ch))" "done_ok D cfg (fst (close (fail t m) ch))"
  "done_ok D cfg (fst (close (leg2_timeout t m) ch))"
  "done_ok D cfg (fst (unwind_and_close B (\<lambda>st. fail t (m' st)) ch))"
  "done_ok D cfg (fst (unwind_and_close B (\<lambda>st. leg2_reverted t (m' st)) ch))"
  by (simp_all add: done_ok_def)

lemma complete_leg2:
  assumes "leg2_sent fb D cfg s (c, h)" "leg1_fill_size c = Some s1" "meets_min_fill D cfg (lf_filled leg2) s1"
    and "calc_actual_pnl D B fees (set_leg2_fill leg2 c, h) = (h', a)"
  shows "finished fb io s (close (complete_with_actuals D (io_finished io) a) (set_leg2_fill leg2 c, h'))
     \<and> done_ok D cfg (fst (close (complete_with_actuals D (io_finished io) a) (set_leg2_fill leg2 c, h')))"
proof
  from assms(1,2) have l: "ctx_signal c = s" "ctx_error c = None" "protocol fb (sig_size s) (Some s1) h Leg2Sent"
    "classify_fill D cfg s1 (sig_size s) \<in> {Full, ProceedReduced}"
    by (auto simp: leg2_sent_def)
  have "protocol fb (sig_size s) (leg1_fill_size (set_leg2_fill leg2 c)) h' Leg2Sent"
    using calc_actual_pnl_history [OF l(3) assms(4)] assms(2) by simp
  then show "finished fb io s (close (complete_with_actuals D (io_finished io) a) (set_leg2_fill leg2 c, h'))"
    by (rule finished_done) (simp_all add: l)
  show "done_ok D cfg (fst (close (complete_with_actuals D (io_finished io) a) (set_leg2_fill leg2 c, h')))"
    using assms(2,3) l
    by (auto simp: done_ok_def leg_moves complete_with_actuals_def meets_min_fill_def split: prod.splits)
qed

text \<open>Both leg-2 finalisers, and the two ways leg 2 is sent.\<close>

lemma finalize_spec:
  assumes "leg2_sent fb D cfg s (c, h)"
  shows "fb \<Longrightarrow> finished fb io s (finalize_dex_first_leg2 D B cfg fees io leg2 (c, h))
           \<and> done_ok D cfg (fst (finalize_dex_first_leg2 D B cfg fees io leg2 (c, h)))"
    and "\<not> fb \<Longrightarrow> finished fb io s (finalize_cex_first_leg2 D B cfg fees io leg2 (c, h))
           \<and> done_ok D cfg (fst (finalize_cex_first_leg2 D B cfg fees io leg2 (c, h)))"
proof -
  let ?c = "c\<lparr>leg2_handle := lf_handle leg2\<rparr>"
  have a: "leg2_sent fb D cfg s (?c, h)" using assms by (simp add: leg2_sent_def)
  then obtain s1 where s1: "leg1_fill_size ?c = Some s1" "ctx_signal ?c = s"
      "protocol fb (sig_size s) (leg1_fill_size ?c) h Leg2Sent" "leg1_venue ?c = (if fb then ''dex'' else ''cex'')"
    by (auto simp: leg2_sent_def)
  obtain h' act where calc: "calc_actual_pnl D B fees (set_leg2_fill leg2 ?c, h) = (h', act)" by (metis surj_pair)
  note ends = finished_leg2_unwind [OF s1(3,2,4), of io B] complete_leg2 [OF a s1(1) _ calc, of io]
  from s1(1) have sz: "leg1_fill_size c = Some s1" by simp
  show "finished fb io s (finalize_dex_first_leg2 D B cfg fees io leg2 (c, h))
           \<and> done_ok D cfg (fst (finalize_dex_first_leg2 D B cfg fees io leg2 (c, h)))" if fb
    using ends sz calc that by (simp add: finalize_dex_first_leg2_def Let_def split: leg_outcome.split)
  show "finished fb io s (finalize_cex_first_leg2 D B cfg fees io leg2 (c, h))
           \<and> done_ok D cfg (fst (finalize_cex_first_leg2 D B cfg fees io leg2 (c, h)))" if "\<not> fb"
    using ends sz calc that by (simp add: finalize_cex_first_leg2_def Let_def split: leg_outcome.split)
qed

lemma leg2_sent_query:
  assumes "leg2_sent False D cfg s (c, h)"
  shows "leg2_sent False D cfg s (c, h @ [CancelDex x])"
proof -
  have "protocol False r z (h @ [CancelDex x]) Leg2Sent" if "protocol False r z h Leg2Sent" for r z
    by (rule protocol.leg2_query [OF that]) simp
  with assms show ?thesis by (auto simp: leg2_sent_def)
qed

lemma leg2_sent_ends:
  assumes "leg2_sent fb D cfg s (c, h)"
  shows "finished fb io s (close (leg2_timeout (io_finished io) m) (c, h))"
    and "finished fb io s (unwind_and_close B (\<lambda>st. fail (io_finished io) (m' st)) (c, h))"
    and "\<not> fb \<Longrightarrow> finished fb io s (unwind_and_close B (\<lambda>st. leg2_reverted (io_finished io) (m' st)) (c, h))"
proof -
  from assms have l: "protocol fb (sig_size s) (leg1_fill_size c) h Leg2Sent" "ctx_signal c = s"
    "leg1_venue c = (if fb then ''dex'' else ''cex'')"
    by (auto simp: leg2_sent_def)
  show "finished fb io s (close (leg2_timeout (io_finished io) m) (c, h))"
    by (rule finished_leg2_timeout [OF l(1,2)])
  show "finished fb io s (unwind_and_close B (\<lambda>st. fail (io_finished io) (m' st)) (c, h))"
    by (rule finished_leg2_unwind(1) [OF l])
  show "finished fb io s (unwind_and_close B (\<lambda>st. leg2_reverted (io_finished io) (m' st)) (c, h))" if "\<not> fb"
    by (rule finished_leg2_unwind(2) [OF l that])
qed

lemma fst_timed_out [simp]: "fst (timed_out io m rs ch) = close (leg2_timeout (io_finished io) m) ch"
  by (simp add: timed_out_def Let_def)

lemma dex_leg2_timeout_spec:
  assumes "leg2_sent False D cfg s (c0, h0)"
  shows "finished False io s (fst (dex_leg2_timeout B io captured rs (c0, h0)))
         \<and> done_ok D cfg (fst (fst (dex_leg2_timeout B io captured rs (c0, h0))))"
proof -
  let ?c = "c0\<lparr>leg2_handle := captured\<rparr>"
  have a: "leg2_sent False D cfg s (?c, h0)" using assms by (simp add: leg2_sent_def)
  note q = leg2_sent_query [OF a]
  show ?thesis
    using leg2_sent_ends [OF a, of io] leg2_sent_ends [OF q, of io]
    by (cases captured) (simp_all add: dex_leg2_timeout_def Let_def split: sum.split pending_swap_cancel_outcome.split)
qed

lemma send_leg2:
  assumes "ready_for_leg2 fb s x (c, h)" "classify_fill D cfg x (sig_size s) \<in> {Full, ProceedReduced}"
  shows "leg2_sent fb D cfg s (c\<lparr>ctx_state := Leg2Pending, leg2_venue := v\<rparr>,
           (h @ [Enter Leg2Pending]) @ [if fb then ExecCex x else ExecDex x])"
proof -
  from assms have "protocol fb (sig_size s) (Some x) (h @ [Enter Leg2Pending]) (In Leg2Pending)"
    by (simp add: ready_for_leg2_def)
  then have "protocol fb (sig_size s) (Some x)
      ((h @ [Enter Leg2Pending]) @ [if fb then ExecCex x else ExecDex x]) Leg2Sent"
    by (rule protocol.send_leg2) simp_all
  with assms show ?thesis by (auto simp: leg2_sent_def ready_for_leg2_def simp del: append_assoc)
qed

lemma cex_first_leg2_spec:
  assumes "ready_for_leg2 False s x ch" "classify_fill D cfg x (sig_size s) \<in> {Full, ProceedReduced}"
  shows "finished False io s (fst (cex_first_leg2 D B cfg fees io rs x ch))
         \<and> done_ok D cfg (fst (fst (cex_first_leg2 D B cfg fees io rs x ch)))"
proof -
  obtain c h where ch: "ch = (c, h)" by (cases ch)
  note l = send_leg2 [OF assms [unfolded ch], where v = "''dex''", simplified if_False]
  show ?thesis
    using finalize_spec(2) [OF l, of io B fees] leg2_sent_ends [OF l, of io] dex_leg2_timeout_spec [OF l, of io B _ rs]
    by (simp add: cex_first_leg2_def ch enter_def Let_def del: append_assoc split: leg_result.split)
qed

lemma dex_first_leg2_spec:
  assumes "ready_for_leg2 True s x ch" "classify_fill D cfg x (sig_size s) \<in> {Full, ProceedReduced}"
  shows "finished True io s (dex_first_leg2 D B cfg fees io x ch)
         \<and> done_ok D cfg (fst (dex_first_leg2 D B cfg fees io x ch))"
proof -
  obtain c h where ch: "ch = (c, h)" by (cases ch)
  note l = send_leg2 [OF assms [unfolded ch], where v = "''cex''", simplified if_True]
  show ?thesis
    using finalize_spec(1) [OF l, of io B fees] leg2_sent_ends [OF l, of io]
    by (simp add: dex_first_leg2_def ch enter_def Let_def del: append_assoc split: leg_result.split)
qed

lemma dex_leg1_spec:
  assumes "at_validating True s ch"
  shows "case dex_leg1 D B cfg io ch of
           Inl r \<Rightarrow> finished True io s r \<and> ctx_state (fst r) = Rejected
         | Inr (f, ch') \<Rightarrow> ready_for_leg2 True s (lf_filled f) ch' \<and> classify_fill D cfg (lf_filled f) (sig_size s) = Full
                             \<and> lf_outcome f = Accepted"
proof -
  obtain c h where ch: "ch = (c, h)" by (cases ch)
  let ?c = "c\<lparr>ctx_state := Leg1Pending, leg1_venue := ''dex''\<rparr>"
  let ?h = "(h @ [Enter Leg1Pending]) @ [ExecDex (sig_size s)]"
  from assms have v: "ctx_signal c = s" "ctx_error c = None" "leg1_fill_size c = None"
    "\<And>sz. protocol True (sig_size s) sz h (In Validating)"
    by (auto simp: at_validating_def ch)
  have sent: "protocol True (sig_size s) sz ?h Leg1Sent" for sz
    by (rule protocol.send_leg1 [OF protocol.begin_leg1 [OF v(4)]]) simp
  have a: "leg1_answered True s (?c, ?h)" "leg1_answered True s (?c\<lparr>leg1_handle := x\<rparr>, ?h)" for x
    using sent v by (auto simp: leg1_answered_def)
  show ?thesis
    using finished_reject_answered [OF a(1), of io] finished_reject_answered [OF a(2), of io] ready_after_filled [OF a(2)]
    by (auto simp: dex_leg1_def ch enter_def Let_def v meets_min_fill_def simp del: append_assoc split: leg_result.split)
qed

lemma run_legs_spec:
  assumes "at_validating (use_flashbots (ex_config ex)) s ch" "run_legs D B io ex ch = (r, rs)"
  shows "finished (use_flashbots (ex_config ex)) io s r \<and> done_ok D (ex_config ex) (fst r)"
proof (cases "use_flashbots (ex_config ex)")
  case True
  with assms(1) have "at_validating True s ch" by simp
  from dex_leg1_spec [OF this, where D = D and B = B and cfg = "ex_config ex" and io = io] show ?thesis
    using assms(2) True dex_first_leg2_spec [of s _ _ D "ex_config ex" io B "ex_fees ex"]
    by (cases "dex_leg1 D B (ex_config ex) io ch") (auto simp: run_legs_def execute_dex_first_def done_okI)
next
  case False
  with assms(1) have "at_validating False s ch" by simp
  note leg1 = cex_leg1_spec [OF this, where D = D and B = B and cfg = "ex_config ex" and io = io]
  show ?thesis
  proof (cases "cex_leg1 D B (ex_config ex) io ch")
    case (Inl r')
    with leg1 assms(2) False show ?thesis by (simp add: run_legs_def execute_cex_first_def done_okI)
  next
    case (Inr p)
    obtain f c h where p: "p = (f, c, h)" by (cases p)
    with leg1 Inr have "leg1_answered False s (c, h)" by simp
    note cl = cex_leg1_classified_spec [OF this, where D = D and B = B and cfg = "ex_config ex" and io = io and ?leg1.0 = f]
    have run: "(r, rs) = (case cex_leg1_classified D B (ex_config ex) io (f, c, h) of
        Inl r \<Rightarrow> (r, ex_store ex)
      | Inr ch' \<Rightarrow> cex_first_leg2 D B (ex_config ex) (ex_fees ex) io (ex_store ex) (lf_filled f) ch')"
      using assms(2) False Inr p by (simp add: run_legs_def execute_cex_first_def)
    show ?thesis
    proof (cases "cex_leg1_classified D B (ex_config ex) io (f, c, h)")
      case Inl
      with cl run False show ?thesis by (simp add: done_okI)
    next
      case (Inr ch')
      with cl have "ready_for_leg2 False s (lf_filled f) ch'"
        "classify_fill D (ex_config ex) (lf_filled f) (sig_size s) \<in> {Full, ProceedReduced}" by simp_all
      note spec = cex_first_leg2_spec [OF this, of io B "ex_fees ex" "ex_store ex"]
      from Inr run have "cex_first_leg2 D B (ex_config ex) (ex_fees ex) io (ex_store ex) (lf_filled f) ch' = (r, rs)"
        by simp
      with spec False show ?thesis by (simp only: fst_conv)
    qed
  qed
qed

end
