(* ===== verification/Engine_Safety.thy ===== *)
theory Engine_Safety
  imports Engine_Protocol
begin

text \<open>
  The guarantees of \<open>Executor::execute\<close>, for every backend, every decimal arithmetic, every
  configuration and every clock: refinement of the protocol, and its consequences for leg calls,
  unwinds, pre-flight checks, replay protection, reconciliation and profit accounting.
\<close>

section \<open>Concrete instances\<close>

text \<open>
  A backend that fills the CEX leg in full and treats the DEX leg as told, an executor with a fresh
  breaker, and clocks that stand still.
\<close>

definition sample_legs :: "leg_result \<Rightarrow> legs" where
  "sample_legs dex =
     \<lparr>execute_cex = (\<lambda>h s x. Completed (leg_fill_new Accepted 2 x (Some ''o1'') None)),
      execute_dex = (\<lambda>h s x. dex),
      cancel_cex = (\<lambda>h x. Inr Cancelled), cancel_dex = (\<lambda>h x. Inr (SwapUnknown ''rpc'')),
      unwind = (\<lambda>h c. True), get_usd_price = (\<lambda>h a. Some 1)\<rparr>"

definition sample_executor :: "bool \<Rightarrow> executor" where
  "sample_executor fb =
     \<lparr>ex_config = \<lparr>leg1_timeout_cfg = 10, leg2_timeout_cfg = 60, min_fill_ratio = 4 / 5,
        partial_proceed_min_ratio = 1 / 2, partial_dust_ratio = 1 / 10, use_flashbots = fb\<rparr>,
      ex_breaker = circuit_breaker_new circuit_breaker_config_default,
      ex_replay = replay_protection_new 60000000000,
      ex_store = Some [], ex_fees = fee_structure_default\<rparr>"

definition sample_io :: exec_io where
  "sample_io = \<lparr>io_lo = 0, io_started = 10, io_breaker = 10, io_replay_now = 10, io_replay_unix = 1,
     io_replay_ok = True, io_valid = 20, io_finished = 30, io_reconcile_unix = 1, io_reconcile_ok = True,
     io_mark_now = 30, io_mark_unix = 1, io_mark_ok = True, io_record = 30, io_query = 30\<rparr>"

section \<open>The shape of an execution\<close>

text \<open>The executor after the two pre-flight queries.\<close>

definition after_preflight :: "exec_io \<Rightarrow> signal \<Rightarrow> executor \<Rightarrow> executor" where
  "after_preflight io s ex =
     ex\<lparr>ex_breaker := fst (is_open_at (io_breaker io) (ex_breaker ex)),
        ex_replay := fst (is_duplicate (io_replay_ok io) (io_replay_now io) (io_replay_unix io) (signal_id s) (ex_replay ex))\<rparr>"

definition preflight_ok :: "exec_io \<Rightarrow> signal \<Rightarrow> executor \<Rightarrow> bool" where
  "preflight_ok io s ex \<longleftrightarrow>
     \<not> snd (is_open_at (io_breaker io) (ex_breaker ex))
     \<and> \<not> snd (is_duplicate (io_replay_ok io) (io_replay_now io) (io_replay_unix io) (signal_id s) (ex_replay ex))
     \<and> is_valid s (io_valid io)"

definition validated :: "exec_io \<Rightarrow> signal \<Rightarrow> execution_context \<times> history" where
  "validated io s = enter Validating (execution_context_new (io_started io) s, [])"

lemma execute_ok:
  assumes "preflight_ok io s ex" "run_legs D B io (after_preflight io s ex) (validated io s) = ((c, h), rs)"
  shows "execute D B io s ex =
     ((after_preflight io s ex)
        \<lparr>ex_replay := mark_executed (io_mark_ok io) (io_mark_now io) (io_mark_unix io) (signal_id (ctx_signal c))
             (ex_replay (after_preflight io s ex)),
         ex_breaker := fst (is_open_at (io_query io) (feed_breaker io c (ex_breaker (after_preflight io s ex)))),
         ex_store := rs\<rparr>, c, h)"
  using assms
  by (simp add: execute_def preflight_ok_def after_preflight_def validated_def Let_def case_prod_beta)

lemma execute_rejected:
  assumes "\<not> preflight_ok io s ex"
  shows "\<exists>ex' m h. execute D B io s ex = (ex', reject (io_finished io) m (execution_context_new (io_started io) s), h)
           \<and> h \<in> {[Enter Rejected], [Enter Validating, Enter Rejected]}
           \<and> ex_store ex' = ex_store ex \<and> ex_config ex' = ex_config ex
           \<and> ex_breaker ex' = fst (is_open_at (io_breaker io) (ex_breaker ex))
           \<and> (ex_replay ex' = ex_replay ex \<or> ex_replay ex' = ex_replay (after_preflight io s ex))"
  using assms
  by (auto simp: execute_def preflight_ok_def after_preflight_def Let_def case_prod_beta close_def enter_def
      reject_def execution_context_new_def)

lemma ex_config_after [simp]: "ex_config (after_preflight io s ex) = ex_config ex"
  by (simp add: after_preflight_def)

lemma at_validating_start: "at_validating fb s (validated io s)"
proof -
  have "protocol fb (sig_size s) sz ([] @ [Enter Validating]) (In Validating)" for sz
    by (rule protocol.validate [OF protocol.start])
  then show ?thesis
    by (simp add: at_validating_def validated_def enter_def execution_context_new_def)
qed

lemma finished_preflight_reject:
  assumes "h \<in> {[Enter Rejected], [Enter Validating, Enter Rejected]}"
  shows "finished fb io s (reject (io_finished io) m (execution_context_new (io_started io) s), h)"
proof -
  have 1: "protocol fb r z ([] @ [Enter Rejected]) (In Rejected)" for r z
    by (rule protocol.preflight_reject [OF protocol.start]) simp
  have "protocol fb r z (([] @ [Enter Validating]) @ [Enter Rejected]) (In Rejected)" for r z
    by (rule protocol.preflight_reject [OF protocol.validate [OF protocol.start]]) simp
  with 1 assms show ?thesis
    by (auto simp: finished_def reject_def execution_context_new_def is_terminal_def)
qed

lemma execute_finished:
  assumes "execute D B io s ex = (ex', c, h)"
  shows "finished (use_flashbots (ex_config ex)) io s (c, h) \<and> done_ok D (ex_config ex) c"
proof (cases "preflight_ok io s ex")
  case True
  obtain c1 h1 rs where r: "run_legs D B io (after_preflight io s ex) (validated io s) = ((c1, h1), rs)"
    by (metis surj_pair)
  from execute_ok [OF True r] assms have "c = c1" "h = h1" by simp_all
  with run_legs_spec [OF _ r, of s] at_validating_start show ?thesis by simp
next
  case False
  from execute_rejected [OF False, of D B] assms
  obtain m where "c = reject (io_finished io) m (execution_context_new (io_started io) s)"
    "h \<in> {[Enter Rejected], [Enter Validating, Enter Rejected]}" by auto
  with finished_preflight_reject show ?thesis by (auto simp: done_ok_def reject_def)
qed

text \<open>
  C1: refinement.  Whatever the backend answers, \<open>execute\<close> ends in a terminal state with the finish
  time stamped, its history (state changes and backend calls in order) is one the protocol allows,
  ending in that state, and an error is recorded exactly when the state is not \<open>Done\<close>.
\<close>

theorem execute_refines_protocol:
  "case execute D B io s ex of (ex', c, h) \<Rightarrow>
     is_terminal (ctx_state c) \<and> finished_at c = Some (io_finished io) \<and> ctx_signal c = s
     \<and> protocol (use_flashbots (ex_config ex)) (sig_size s) (leg1_fill_size c) h (In (ctx_state c))
     \<and> (ctx_error c = None \<longleftrightarrow> ctx_state c = Done)"
  using execute_finished by (fastforce simp: finished_def split: prod.split)

lemma sample_preflight: "preflight_ok sample_io sample_signal (sample_executor fb)"
  by (simp add: preflight_ok_def sample_io_def sample_executor_def sample_signal_def is_valid_def
      circuit_breaker_new_def is_open_at_def replay_protection_new_def is_duplicate_def cleanup_def Let_def)

lemmas sample_run = execute_def sample_io_def sample_executor_def sample_signal_def sample_legs_def is_valid_def
  circuit_breaker_new_def is_open_at_def replay_protection_new_def is_duplicate_def cleanup_def Let_def
  run_legs_def execute_cex_first_def cex_leg1_def cex_leg1_classified_def cex_first_leg2_def enter_def
  execution_context_new_def leg_fill_new_def classify_fill_def set_leg1_fill_def apply_leg_fill_metadata_def
  finalize_cex_first_leg2_def meets_min_fill_def dex_leg2_timeout_def

section \<open>Consequences of the protocol\<close>

definition unwinds :: "history \<Rightarrow> (string \<times> dec option) list" where
  "unwinds h = List.map_filter (\<lambda>e. case e of Unwind v z \<Rightarrow> Some (v, z) | _ \<Rightarrow> None) h"

datatype leg_call = OnCex dec | OnDex dec

definition leg_calls :: "history \<Rightarrow> leg_call list" where
  "leg_calls h = List.map_filter (\<lambda>e. case e of ExecCex x \<Rightarrow> Some (OnCex x) | ExecDex x \<Rightarrow> Some (OnDex x) | _ \<Rightarrow> None) h"

lemma unwinds_snoc [simp]:
  "unwinds [] = []" "unwinds (h @ [e]) = unwinds h @ (case e of Unwind v z \<Rightarrow> [(v, z)] | _ \<Rightarrow> [])"
  by (simp_all add: unwinds_def map_filter_def split: event.split)

lemma leg_calls_snoc [simp]:
  "leg_calls [] = []"
  "leg_calls (h @ [e]) = leg_calls h @ (case e of ExecCex x \<Rightarrow> [OnCex x] | ExecDex x \<Rightarrow> [OnDex x] | _ \<Rightarrow> [])"
  by (simp_all add: leg_calls_def map_filter_def split: event.split)

text \<open>Which fills, unwinds and leg calls a phase implies.\<close>

fun has_fill :: "phase \<Rightarrow> bool" where
  "has_fill (In s) = (s \<in> {Leg1Filled, Leg1Partial, Leg2Pending, Leg2Timeout, Leg2Reverted, Done, Unwinding})"
| "has_fill Leg2Sent = True"
| "has_fill UnwindSent = True"
| "has_fill _ = False"

fun has_unwound :: "dec option \<Rightarrow> phase \<Rightarrow> bool" where
  "has_unwound sz (In s) = (s = Leg2Reverted \<or> s = Failed \<and> sz \<noteq> None)"
| "has_unwound sz UnwindSent = True"
| "has_unwound sz _ = False"

definition venue_label :: "bool \<Rightarrow> string" where
  "venue_label fb = (if fb then ''dex'' else ''cex'')"

lemma protocol_fill: "protocol fb req sz h p \<Longrightarrow> has_fill p \<Longrightarrow> sz \<noteq> None"
  by (induction rule: protocol.induct) auto

lemma protocol_unwinds:
  assumes "protocol fb req sz h p"
  shows "unwinds h = (if has_unwound sz p then [(venue_label fb, sz)] else [])"
  using assms
proof (induction rule: protocol.induct)
  case (unwound h s)
  from protocol_fill [OF unwound.hyps(1)] unwound show ?case by auto
qed (auto simp: venue_label_def)

definition leg1_call :: "bool \<Rightarrow> dec \<Rightarrow> leg_call" where
  "leg1_call fb x = (if fb then OnDex x else OnCex x)"

definition leg2_call :: "bool \<Rightarrow> dec \<Rightarrow> leg_call" where
  "leg2_call fb x = (if fb then OnCex x else OnDex x)"

text \<open>How many of the two leg calls a phase allows.\<close>

fun calls_ok :: "nat \<Rightarrow> phase \<Rightarrow> bool" where
  "calls_ok n (In s) =
     (if s \<in> {Idle, Validating, Leg1Pending} then n = 0
      else if s \<in> {Leg1Filled, Leg1Partial, Leg1Cancelling, Leg2Pending} then n = 1
      else if s = Rejected then n \<le> 1
      else if s \<in> {Unwinding, Failed, Leg2Reverted} then n = 1 \<or> n = 2
      else n = 2)"
| "calls_ok n Leg1Sent = (n = 1)"
| "calls_ok n CancelAnswered = (n = 1)"
| "calls_ok n Leg2Sent = (n = 2)"
| "calls_ok n UnwindSent = (n = 1 \<or> n = 2)"

lemma protocol_leg_calls:
  assumes "protocol fb req sz h p"
  shows "leg_calls h \<in> {[], [leg1_call fb req], [leg1_call fb req, leg2_call fb (the sz)]}
         \<and> calls_ok (length (leg_calls h)) p"
  using assms by (induction rule: protocol.induct) (auto simp: leg1_call_def leg2_call_def)

lemma execute_protocol:
  "execute D B io s ex = (ex', c, h) \<Longrightarrow>
     protocol (use_flashbots (ex_config ex)) (sig_size s) (leg1_fill_size c) h (In (ctx_state c)) \<and> is_terminal (ctx_state c)"
  using execute_finished [of D B io s ex] by (auto simp: finished_def)





text \<open>
  C6: the pre-flight checks gate everything.  With an open breaker, a signal id marked within the
  ttl, or a signal that is not valid at the time of the check, \<open>execute\<close> rejects without a single
  backend call; the breaker is left as the query left it, the reconcile store is untouched and the
  signal is not marked as executed.
\<close>

theorem preflight_blocks_execution:
  assumes "\<not> preflight_ok io s ex" "execute D B io s ex = (ex', c, h)"
  shows "ctx_state c = Rejected \<and> h \<in> {[Enter Rejected], [Enter Validating, Enter Rejected]}
         \<and> ex_store ex' = ex_store ex
         \<and> ex_breaker ex' = fst (is_open_at (io_breaker io) (ex_breaker ex))
         \<and> (ex_replay ex' = ex_replay ex \<or> ex_replay ex' = ex_replay (after_preflight io s ex))"
  using execute_rejected [OF assms(1), of D B] assms(2) by (auto simp: reject_def)

theorem preflight_blocks_execution_witness:
  "\<exists>ex' c h. execute exact_ops (sample_legs (TimedOut None)) sample_io (sample_signal\<lparr>score := 0\<rparr>) (sample_executor False) = (ex', c, h)
     \<and> ctx_state c = Rejected"
proof -
  obtain ex' c h where e: "execute exact_ops (sample_legs (TimedOut None)) sample_io (sample_signal\<lparr>score := 0\<rparr>)
      (sample_executor False) = (ex', c, h)" by (metis surj_pair)
  have "\<not> preflight_ok sample_io (sample_signal\<lparr>score := 0\<rparr>) (sample_executor False)"
    by (simp add: preflight_ok_def is_valid_def)
  from preflight_blocks_execution [OF this e] e show ?thesis by blast
qed

text \<open>
  C5: what \<open>Done\<close> means.  In a completed execution leg 1 filled at least the proceed ratio of the
  signal's size, leg 2 filled at least the minimum ratio of what leg 1 filled, and the recorded net
  result is gross minus fees.
\<close>

theorem done_means_both_filled:
  assumes "execute D B io s ex = (ex', c, h)" "ctx_state c = Done"
  shows "\<exists>s1 s2 gross fees. leg1_fill_size c = Some s1 \<and> leg2_fill_size c = Some s2
          \<and> classify_fill D (ex_config ex) s1 (sig_size s) \<in> {Full, ProceedReduced}
          \<and> min_fill_ratio (ex_config ex) \<le> ddiv D s2 s1 \<and> 0 < s1
          \<and> actual_gross_pnl_usd c = Some gross \<and> actual_fees_usd c = Some fees
          \<and> actual_net_pnl c = Some (dsub D gross fees)"
proof -
  have "classify_fill D cfg x y = Full \<Longrightarrow> min_fill_ratio cfg \<le> ddiv D x y \<and> 0 < y" for cfg x y
    by (auto simp: classify_fill_def Let_def not_le split: if_splits)
  with execute_finished [OF assms(1)] assms(2) show ?thesis
    unfolding done_ok_def finished_def by (simp del: insert_iff) metis
qed

theorem done_means_both_filled_witness:
  "\<exists>ex' c h s1 s2. execute exact_ops (sample_legs (Completed (leg_fill_new Accepted 3 2 None None))) sample_io sample_signal
       (sample_executor False) = (ex', c, h)
     \<and> leg1_fill_size c = Some s1 \<and> leg2_fill_size c = Some s2 \<and> 4 / 5 \<le> s2 / s1"
proof -
  let ?B = "sample_legs (Completed (leg_fill_new Accepted 3 2 None None))"
  obtain ex' c h where e: "execute exact_ops ?B sample_io sample_signal (sample_executor False) = (ex', c, h)"
    by (metis surj_pair)
  have "ctx_state (fst (snd (execute exact_ops ?B sample_io sample_signal (sample_executor False)))) = Done"
    by (simp add: sample_run close_def complete_with_actuals_def split: prod.split)
  with e have "ctx_state c = Done" by simp
  from done_means_both_filled [OF e this] e show ?thesis by (auto simp: sample_executor_def)
qed

section \<open>Bookkeeping\<close>

lemma execute_bookkeeping:
  assumes "preflight_ok io s ex" "execute D B io s ex = (ex', c, h)"
  shows "ex_replay ex' = mark_executed (io_mark_ok io) (io_mark_now io) (io_mark_unix io) (signal_id s) (ex_replay (after_preflight io s ex))
    \<and> ex_breaker ex' = fst (is_open_at (io_query io) (feed_breaker io c (ex_breaker (after_preflight io s ex))))
    \<and> ex_config ex' = ex_config ex"
proof -
  obtain c1 h1 rs where r: "run_legs D B io (after_preflight io s ex) (validated io s) = ((c1, h1), rs)"
    by (metis surj_pair)
  have "ctx_signal c = s" using execute_finished [OF assms(2)] by (simp add: finished_def)
  with execute_ok [OF assms(1) r] assms(2) show ?thesis by auto
qed



text \<open>
  What counts as a failure.  An execution that passed the pre-flight checks feeds the breaker
  exactly one failure when it ends \<open>Failed\<close>, \<open>Leg2Reverted\<close> or \<open>Leg2Timeout\<close>, or \<open>Done\<close> at a loss; a
  profitable completion or a rejection leaves the breaker's failures alone.  (The query that follows
  for the metrics may reset a breaker whose cooldown has passed.)
\<close>

lemma breaker_fed_on_failure_only:
  assumes "preflight_ok io s ex" "execute D B io s ex = (ex', c, h)"
  shows "\<exists>b. ex_breaker ex' = fst (is_open_at (io_query io) b)
     \<and> b = (if ctx_state c \<in> {Failed, Leg2Reverted, Leg2Timeout}
              \<or> ctx_state c = Done \<and> (\<exists>pnl. actual_net_pnl c = Some pnl \<and> pnl < 0)
            then record_failure_at (io_lo io) (io_record io) (fst (is_open_at (io_breaker io) (ex_breaker ex)))
            else fst (is_open_at (io_breaker io) (ex_breaker ex)))"
proof -
  have b: "ex_breaker (after_preflight io s ex) = fst (is_open_at (io_breaker io) (ex_breaker ex))"
    by (simp add: after_preflight_def)
  have "is_terminal (ctx_state c)" using execute_protocol [OF assms(2)] by simp
  then have "feed_breaker io c b =
       (if ctx_state c \<in> {Failed, Leg2Reverted, Leg2Timeout}
              \<or> ctx_state c = Done \<and> (\<exists>pnl. actual_net_pnl c = Some pnl \<and> pnl < 0)
        then record_failure_at (io_lo io) (io_record io) b else b)" for b
    by (auto simp: feed_breaker_def is_terminal_def record_success_def split: option.splits)
  with execute_bookkeeping [OF assms] b show ?thesis by simp
qed

lemma breaker_fed_on_failure_only_witness:
  "\<exists>ex' c h. execute exact_ops (sample_legs (Completed (leg_fill_new LegReverted 0 0 None None))) sample_io sample_signal
       (sample_executor False) = (ex', c, h)
     \<and> ctx_state c = Leg2Reverted \<and> failure_count (ex_breaker ex') = 1"
proof -
  let ?B = "sample_legs (Completed (leg_fill_new LegReverted 0 0 None None))"
  obtain ex' c h where e: "execute exact_ops ?B sample_io sample_signal (sample_executor False) = (ex', c, h)"
    by (metis surj_pair)
  have "ctx_state (fst (snd (execute exact_ops ?B sample_io sample_signal (sample_executor False)))) = Leg2Reverted"
    by (simp add: sample_run unwind_and_close_def log_unwind_def close_def ctx_ends)
  with e have st: "ctx_state c = Leg2Reverted" by simp
  from breaker_fed_on_failure_only [OF sample_preflight e] st
  have "failure_count (ex_breaker ex') = 1"
    by (simp add: sample_executor_def sample_io_def circuit_breaker_new_def circuit_breaker_config_default_def
        is_open_at_def record_failure_at_def instant_checked_sub_def failure_count_def)
  with st e show ?thesis by blast
qed

section \<open>Reconciliation\<close>

lemma timed_out_store:
  "snd (timed_out io m rs ch) = maybe_push_reconcile io (fst (fst (timed_out io m rs ch))) rs"
  by (simp add: timed_out_def Let_def)

lemma dex_leg2_timeout_store:
  "snd (dex_leg2_timeout B io captured rs ch)
     = (if ctx_state (fst (fst (dex_leg2_timeout B io captured rs ch))) = Leg2Timeout
        then maybe_push_reconcile io (fst (fst (dex_leg2_timeout B io captured rs ch))) rs else rs)"
  by (cases ch; cases captured)
    (simp_all add: dex_leg2_timeout_def Let_def timed_out_store split: sum.split pending_swap_cancel_outcome.split)

lemma complete_state [simp]: "ctx_state (fst (close (complete_with_actuals D t a) ch)) = Done"
  by (simp add: close_def complete_with_actuals_def split: prod.split)

lemma finalize_not_timeout:
  "ctx_state (fst (finalize_cex_first_leg2 D B cfg fees io leg2 ch)) \<noteq> Leg2Timeout"
  by (cases ch) (simp add: finalize_cex_first_leg2_def Let_def case_prod_beta split: leg_outcome.split option.split)

lemma cex_first_leg2_store:
  "snd (cex_first_leg2 D B cfg fees io rs x ch)
     = (if ctx_state (fst (fst (cex_first_leg2 D B cfg fees io rs x ch))) = Leg2Timeout
        then maybe_push_reconcile io (fst (fst (cex_first_leg2 D B cfg fees io rs x ch))) rs else rs)"
  using finalize_not_timeout
  by (simp add: cex_first_leg2_def Let_def case_prod_beta dex_leg2_timeout_store split: leg_result.split)

lemma leg1_end_not_timeout:
  "cex_leg1 D B cfg io ch = Inl r \<Longrightarrow> ctx_state (fst r) \<noteq> Leg2Timeout"
  "cex_leg1_classified D B cfg io (f, c, h) = Inl r \<Longrightarrow> ctx_state (fst r) \<noteq> Leg2Timeout"
  by (auto simp: cex_leg1_def cex_leg1_timeout_def cex_leg1_classified_def Let_def case_prod_beta
      split: leg_result.splits option.splits sum.splits cancel_outcome.splits if_splits leg_outcome.splits fill_class.splits)

lemma execute_cex_first_store:
  "snd (execute_cex_first D B cfg fees io rs ch)
     = (if ctx_state (fst (fst (execute_cex_first D B cfg fees io rs ch))) = Leg2Timeout
        then maybe_push_reconcile io (fst (fst (execute_cex_first D B cfg fees io rs ch))) rs else rs)"
  using leg1_end_not_timeout cex_first_leg2_store
  by (simp add: execute_cex_first_def split: sum.split prod.split)

lemma store_add_pending:
  assumes "store_inv rows"
  shows "status_of (pr_signal_id e) (fst (store_add True e rows)) = Some Reconcile.Pending
         \<and> e \<in> set (pending_entries (fst (store_add True e rows)))"
proof -
  have "status_of (pr_signal_id e) (map (\<lambda>r. if row_signal_id r = pr_signal_id e then row_of e else r) rows) = Some Reconcile.Pending"
    if "list_ex (\<lambda>r. row_signal_id r = pr_signal_id e) rows"
    using that by (induction rows) (auto simp: status_of_def row_of_def)
  moreover have "status_of (pr_signal_id e) (rows @ [row_of e]) = Some Reconcile.Pending"
    if "\<not> list_ex (\<lambda>r. row_signal_id r = pr_signal_id e) rows"
    using that by (induction rows) (auto simp: status_of_def row_of_def)
  moreover have "row_of e \<in> set (fst (store_add True e rows))"
    by (auto simp: store_add_def list_ex_iff)
  then have "e \<in> set (pending_entries (fst (store_add True e rows)))"
    unfolding sort_key_payload by (intro image_eqI [of _ _ "row_of e"]) (simp_all add: row_of_def)
  ultimately show ?thesis by (simp add: store_add_def)
qed



end
