(* ===== verification/Inventory.thy ===== *)
theory Inventory
  imports Signals
begin

text \<open>
  \<open>inventory/tracker.rs\<close>: balances per venue and asset, with amounts reserved for trades in
  flight.

  The tracker's \<open>HashMap\<close> is a map; a \<open>HashMap\<close> that a method iterates over is an association
  list in iteration order.  A method that fails after it has already changed the tracker returns
  the changed tracker together with the error, as the Rust code leaves it.  Error strings are
  constructors.  The skew report (\<open>skew\<close>, \<open>get_skews\<close>) is modelled in the theory of the
  rebalance planner.
\<close>

section \<open>State\<close>

record venue_balance =
  vb_free :: dec
  vb_locked :: dec
  vb_reserved :: dec

definition zero_balance :: venue_balance where
  "zero_balance = \<lparr>vb_free = 0, vb_locked = 0, vb_reserved = 0\<rparr>"

record normalized_balance =
  nb_free :: dec
  nb_locked :: dec
  nb_total :: dec

type_synonym balance_map = "venue \<times> string \<rightharpoonup> venue_balance"

record inventory_tracker =
  balances :: balance_map
  inv_venues :: "venue list"
  chain_id :: nat

text \<open>
  The variants of \<open>InventoryError\<close>.  Messages are kept as the data in them: the missing amount of
  a negative balance, and the side of \<open>record_trade\<close> that is neither buy nor sell (which the code
  reports as an insufficient balance).
\<close>

datatype inventory_error =
    VenueNotFound
  | AssetNotFound
  | InsufficientBalance
  | UnknownSide string
  | NegativeBalance dec
  | BalanceMismatchError
  | NoPriceForUsd
  | IoError
  | CsvError
  | JsonError

definition ARBITRUM_CHAIN_ID :: nat where
  "ARBITRUM_CHAIN_ID = 42161"

definition inventory_tracker_new :: "venue list \<Rightarrow> nat \<Rightarrow> inventory_tracker" where
  "inventory_tracker_new vs c = \<lparr>balances = Map.empty, inv_venues = vs, chain_id = c\<rparr>"

section \<open>Replacing the balances of a venue\<close>

text \<open>
  Both updates remember the positive reservations of the venue, drop every entry of the venue and
  insert the new data, in the iteration order of the argument.
\<close>

definition old_reserved :: "venue \<Rightarrow> balance_map \<Rightarrow> string \<Rightarrow> dec" where
  "old_reserved v m a =
     (case m (v, a) of Some b \<Rightarrow> if vb_reserved b > 0 then vb_reserved b else 0 | None \<Rightarrow> 0)"

definition drop_venue :: "venue \<Rightarrow> balance_map \<Rightarrow> balance_map" where
  "drop_venue v m = (\<lambda>k. if fst k = v then None else m k)"

definition cex_key :: "nat \<Rightarrow> string \<Rightarrow> string" where
  "cex_key c asset = (if c = ARBITRUM_CHAIN_ID then canonicalize_asset asset else to_uppercase asset)"

definition update_from_cex :: "venue \<Rightarrow> (string \<times> normalized_balance) list \<Rightarrow> inventory_tracker \<Rightarrow> inventory_tracker" where
  "update_from_cex v bs t =
     t\<lparr>balances := fold (\<lambda>(asset, nb) m. m((v, cex_key (chain_id t) asset) \<mapsto>
            \<lparr>vb_free = nb_free nb, vb_locked = nb_locked nb,
             vb_reserved = old_reserved v (balances t) (cex_key (chain_id t) asset)\<rparr>))
         bs (drop_venue v (balances t))\<rparr>"

definition update_from_wallet :: "venue \<Rightarrow> (string \<times> dec) list \<Rightarrow> inventory_tracker \<Rightarrow> inventory_tracker" where
  "update_from_wallet v bs t =
     t\<lparr>balances := fold (\<lambda>(asset, amount) m. m((v, asset) \<mapsto>
            \<lparr>vb_free = amount, vb_locked = 0, vb_reserved = old_reserved v (balances t) asset\<rparr>))
         bs (drop_venue v (balances t))\<rparr>"

section \<open>Queries\<close>

definition get_available :: "dec_ops \<Rightarrow> venue \<Rightarrow> string \<Rightarrow> inventory_tracker \<Rightarrow> dec option" where
  "get_available D v asset t = map_option (\<lambda>b. dsub D (vb_free b) (vb_reserved b)) (balances t (v, asset))"

definition get_total :: "dec_ops \<Rightarrow> venue \<Rightarrow> string \<Rightarrow> inventory_tracker \<Rightarrow> dec option" where
  "get_total D v asset t = map_option (\<lambda>b. dadd D (vb_free b) (vb_locked b)) (balances t (v, asset))"

definition get_wallet_effective_available :: "dec_ops \<Rightarrow> string \<Rightarrow> inventory_tracker \<Rightarrow> dec" where
  "get_wallet_effective_available D asset t =
     foldl (\<lambda>total a. case balances t (Wallet, a) of
              Some b \<Rightarrow> dadd D total (dsub D (vb_free b) (vb_reserved b))
            | None \<Rightarrow> total) 0 (get_equivalent_assets asset)"

text \<open>The expression that both \<open>can_execute\<close> and \<open>reserve\<close> compare with the amount.\<close>

definition available :: "dec_ops \<Rightarrow> venue \<Rightarrow> string \<Rightarrow> inventory_tracker \<Rightarrow> dec" where
  "available D v asset t =
     (if v = Wallet then get_wallet_effective_available D asset t
      else case get_available D v asset t of Some x \<Rightarrow> x | None \<Rightarrow> 0)"

record balance_mismatch =
  bm_venue :: venue
  bm_asset :: string
  bm_tracked :: dec
  bm_actual :: dec
  bm_diff :: dec

definition check_balance :: "dec_ops \<Rightarrow> venue \<Rightarrow> dec \<Rightarrow> inventory_tracker \<Rightarrow> string \<times> dec \<Rightarrow> balance_mismatch option" where
  "check_balance D v tolerance_pct t = (\<lambda>(asset, actual).
     let tracked = (case get_total D v asset t of Some x \<Rightarrow> x | None \<Rightarrow> 0)
     in if tracked = 0 \<and> actual = 0 then None
        else let diff = \<bar>dsub D tracked actual\<bar>;
                 threshold = (if \<bar>tracked\<bar> > 0 then ddiv D (dmul D tracked tolerance_pct) 100 else 0)
             in if diff > threshold
                then Some \<lparr>bm_venue = v, bm_asset = asset, bm_tracked = tracked,
                           bm_actual = actual, bm_diff = diff\<rparr>
                else None)"

definition verify_balances ::
  "dec_ops \<Rightarrow> venue \<Rightarrow> (string \<times> dec) list \<Rightarrow> dec \<Rightarrow> inventory_tracker \<Rightarrow> balance_mismatch list" where
  "verify_balances D v actual tolerance_pct t = List.map_filter (check_balance D v tolerance_pct t) actual"

datatype cannot_execute = InsufficientBoth | InsufficientBuy | InsufficientSell

record can_execute_result =
  can_exec :: bool
  buy_venue_available :: dec
  buy_venue_needed :: dec
  sell_venue_available :: dec
  sell_venue_needed :: dec
  cannot_reason :: "cannot_execute option"

definition can_execute ::
  "dec_ops \<Rightarrow> venue \<Rightarrow> string \<Rightarrow> dec \<Rightarrow> venue \<Rightarrow> string \<Rightarrow> dec \<Rightarrow> inventory_tracker \<Rightarrow> can_execute_result" where
  "can_execute D bv ba bamt sv sa samt t =
     (let buy_available = available D bv ba t;
          sell_available = available D sv sa t;
          buy_ok = buy_available \<ge> bamt;
          sell_ok = sell_available \<ge> samt
      in \<lparr>can_exec = (buy_ok \<and> sell_ok),
          buy_venue_available = buy_available, buy_venue_needed = bamt,
          sell_venue_available = sell_available, sell_venue_needed = samt,
          cannot_reason =
            (if buy_ok \<and> sell_ok then None
             else if \<not> buy_ok \<and> \<not> sell_ok then Some InsufficientBoth
             else if \<not> buy_ok then Some InsufficientBuy
             else Some InsufficientSell)\<rparr>)"

text \<open>
  \<open>snapshot\<close> iterates the whole balance map for each monitored venue; \<open>order\<close> lists the keys in
  the order of that iteration.  The prices are a map.
\<close>

record portfolio_snapshot =
  snap_venues :: "venue \<rightharpoonup> (string \<rightharpoonup> normalized_balance)"
  snap_totals :: "string \<rightharpoonup> dec"
  snap_total_usd :: dec

definition snapshot_venue ::
  "dec_ops \<Rightarrow> (venue \<times> string) list \<Rightarrow> balance_map \<Rightarrow> venue
     \<Rightarrow> (venue \<rightharpoonup> (string \<rightharpoonup> normalized_balance)) \<times> (string \<rightharpoonup> dec)
     \<Rightarrow> (venue \<rightharpoonup> (string \<rightharpoonup> normalized_balance)) \<times> (string \<rightharpoonup> dec)" where
  "snapshot_venue D order m venue = (\<lambda>(vm, totals).
     let (vb, totals') =
       fold (\<lambda>(v, asset) (vb, tot).
          (case m (v, asset) of
             Some b \<Rightarrow>
               (if v = venue
                then (let sum = dadd D (vb_free b) (vb_locked b)
                      in (vb(asset \<mapsto> \<lparr>nb_free = vb_free b, nb_locked = vb_locked b, nb_total = sum\<rparr>),
                          tot(asset \<mapsto> dadd D (case tot asset of Some x \<Rightarrow> x | None \<Rightarrow> 0) sum)))
                else (vb, tot))
           | None \<Rightarrow> (vb, tot))) order (Map.empty, totals)
     in (vm(venue \<mapsto> vb), totals'))"

definition snapshot ::
  "dec_ops \<Rightarrow> (venue \<times> string) list \<Rightarrow> string list \<Rightarrow> (string \<rightharpoonup> dec) \<Rightarrow> inventory_tracker \<Rightarrow> portfolio_snapshot" where
  "snapshot D order total_order prices t =
     (let (vm, totals) = fold (snapshot_venue D order (balances t)) (inv_venues t) (Map.empty, Map.empty);
          usd = foldl (\<lambda>acc asset. case totals asset of
                    Some amount \<Rightarrow> (case prices asset of
                        Some price \<Rightarrow> dadd D acc (dmul D amount price)
                      | None \<Rightarrow> acc)
                  | None \<Rightarrow> acc) 0 total_order
      in \<lparr>snap_venues = vm, snap_totals = totals, snap_total_usd = usd\<rparr>)"

section \<open>Reservations\<close>

definition balance_or_zero :: "inventory_tracker \<Rightarrow> venue \<times> string \<Rightarrow> venue_balance" where
  "balance_or_zero t k = (case balances t k of Some b \<Rightarrow> b | None \<Rightarrow> zero_balance)"

definition reserve ::
  "dec_ops \<Rightarrow> venue \<Rightarrow> string \<Rightarrow> dec \<Rightarrow> inventory_tracker \<Rightarrow> (inventory_error, inventory_tracker) outcome" where
  "reserve D v asset amount t =
     (if available D v asset t < amount then Err InsufficientBalance
      else let b = balance_or_zero t (v, asset)
           in Ok (t\<lparr>balances := (balances t)((v, asset) \<mapsto>
                     b\<lparr>vb_reserved := dadd D (vb_reserved b) amount\<rparr>)\<rparr>))"

definition release ::
  "dec_ops \<Rightarrow> venue \<Rightarrow> string \<Rightarrow> dec \<Rightarrow> inventory_tracker \<Rightarrow> (inventory_error, inventory_tracker) outcome" where
  "release D v asset amount t =
     (case balances t (v, asset) of
        Some b \<Rightarrow>
          Ok (t\<lparr>balances := (balances t)((v, asset) \<mapsto>
                b\<lparr>vb_reserved := (if vb_reserved b < amount then 0 else dsub D (vb_reserved b) amount)\<rparr>)\<rparr>)
      | None \<Rightarrow> Err AssetNotFound)"

section \<open>Trades\<close>

text \<open>One debit of the wallet branch: take what the entry has, up to what remains.\<close>

definition take_from :: "dec_ops \<Rightarrow> venue \<times> string \<Rightarrow> balance_map \<times> dec \<Rightarrow> balance_map \<times> dec" where
  "take_from D k = (\<lambda>(m, remaining).
     (case m k of
        Some b \<Rightarrow> (let can_take = min (vb_free b) remaining
                   in (m(k \<mapsto> b\<lparr>vb_free := dsub D (vb_free b) can_take\<rparr>), dsub D remaining can_take))
      | None \<Rightarrow> (m, remaining)))"

fun spill_over :: "dec_ops \<Rightarrow> venue \<Rightarrow> string \<Rightarrow> string list \<Rightarrow> balance_map \<times> dec \<Rightarrow> balance_map \<times> dec" where
  "spill_over D v asset [] s = s"
| "spill_over D v asset (eq # eqs) s =
     (if eq = asset then spill_over D v asset eqs s
      else let s' = take_from D (v, eq) s
           in if snd s' \<le> 0 then s' else spill_over D v asset eqs s')"

definition adjust_balance ::
  "dec_ops \<Rightarrow> venue \<Rightarrow> string \<Rightarrow> dec \<Rightarrow> inventory_tracker \<Rightarrow> inventory_tracker \<times> (inventory_error, unit) outcome" where
  "adjust_balance D v asset delta t =
     (if v = Wallet \<and> delta < 0
      then let s1 = take_from D (v, asset) (balances t, - delta);
               s2 = (if snd s1 > 0 then spill_over D v asset (get_equivalent_assets asset) s1 else s1)
           in (t\<lparr>balances := fst s2\<rparr>, if snd s2 > 0 then Err (NegativeBalance (snd s2)) else Ok ())
      else let b = balance_or_zero t (v, asset);
               f = dadd D (vb_free b) delta
           in (t\<lparr>balances := (balances t)((v, asset) \<mapsto> b\<lparr>vb_free := f\<rparr>)\<rparr>,
               if f < 0 then Err (NegativeBalance f) else Ok ()))"

text \<open>Two adjustments in sequence, the second only after a successful first.\<close>

definition and_then ::
  "inventory_tracker \<times> (inventory_error, unit) outcome \<Rightarrow> (inventory_tracker \<Rightarrow> inventory_tracker \<times> (inventory_error, unit) outcome)
     \<Rightarrow> inventory_tracker \<times> (inventory_error, unit) outcome" where
  "and_then r f = (case snd r of Ok _ \<Rightarrow> f (fst r) | e \<Rightarrow> (fst r, e))"

definition record_trade_at ::
  "dec_ops \<Rightarrow> venue \<Rightarrow> string \<Rightarrow> string \<Rightarrow> string \<Rightarrow> dec \<Rightarrow> dec \<Rightarrow> dec \<Rightarrow> string \<Rightarrow> inventory_tracker
     \<Rightarrow> inventory_tracker \<times> (inventory_error, unit) outcome" where
  "record_trade_at D v side base quote base_amount quote_amount fee fee_asset t =
     (let r = (if side = ''buy'' then
                 and_then (adjust_balance D v base base_amount t) (adjust_balance D v quote (- quote_amount))
               else if side = ''sell'' then
                 and_then (adjust_balance D v base (- base_amount) t) (adjust_balance D v quote quote_amount)
               else (t, Err (UnknownSide side)))
      in and_then r (adjust_balance D v fee_asset (- fee)))"

section \<open>The reservation interface\<close>

text \<open>
  What the signal queue relies on: \<open>reserve\<close> succeeds exactly when enough is available, and a
  reservation at one venue leaves the availability at every other venue alone.
\<close>

locale reservation_ledger =
  fixes avail :: "venue \<Rightarrow> string \<Rightarrow> 't \<Rightarrow> dec"
    and rsv :: "venue \<Rightarrow> string \<Rightarrow> dec \<Rightarrow> 't \<Rightarrow> ('e, 't) outcome"
  assumes reserve_iff: "is_ok (rsv v a x t) \<longleftrightarrow> x \<le> avail v a t"
    and reserve_frame: "rsv v a x t = Ok t' \<Longrightarrow> v' \<noteq> v \<Longrightarrow> avail v' a' t' = avail v' a' t"
begin

lemma reserve_pair:
  assumes "bv \<noteq> sv" "bamt \<le> avail bv ba t" "samt \<le> avail sv sa t"
  shows "\<exists>t1 t2. rsv bv ba bamt t = Ok t1 \<and> rsv sv sa samt t1 = Ok t2"
proof -
  from assms(2) reserve_iff obtain t1 where t1: "rsv bv ba bamt t = Ok t1" by (metis is_ok_iff)
  with assms reserve_frame have "samt \<le> avail sv sa t1" by metis
  with reserve_iff t1 show ?thesis by (metis is_ok_iff)
qed

lemma reserve_both_iff:
  assumes "bv \<noteq> sv"
  shows "is_ok (bind_out (rsv bv ba bamt t) (rsv sv sa samt))
         \<longleftrightarrow> bamt \<le> avail bv ba t \<and> samt \<le> avail sv sa t"
proof -
  have "bamt \<le> avail bv ba t" if "rsv bv ba bamt t = Ok t1" for t1
    using that reserve_iff by (metis is_ok.simps(1))
  moreover have "samt \<le> avail sv sa t" if "rsv bv ba bamt t = Ok t1" "rsv sv sa samt t1 = Ok t2" for t1 t2
    using that reserve_iff reserve_frame assms by (metis is_ok.simps(1))
  ultimately show ?thesis
    using reserve_pair [OF assms, of bamt ba t samt sa] unfolding is_ok_iff bind_out_Ok_iff by blast
qed

end

lemma available_other_venue:
  "v' \<noteq> v \<Longrightarrow> available D v' a' (t\<lparr>balances := (balances t)((v, a) \<mapsto> b)\<rparr>) = available D v' a' t"
  by (cases "v' = Wallet")
    (simp_all add: available_def get_wallet_effective_available_def get_available_def cong: option.case_cong)

interpretation inv_ledger: reservation_ledger "available D" "reserve D" for D
proof
  show "is_ok (reserve D v a x t) = (x \<le> available D v a t)" for v a x t
    by (auto simp: reserve_def Let_def not_less)
  show "reserve D v a x t = Ok t' \<Longrightarrow> v' \<noteq> v \<Longrightarrow> available D v' a' t' = available D v' a' t" for v a x t t' v' a'
    by (auto simp: reserve_def Let_def available_other_venue split: if_splits)
qed

text \<open>
  A positive \<open>can_execute\<close> is sufficient and necessary for reserving both legs.  For any two
  different venues and every decimal arithmetic, \<open>can_execute\<close> answers yes exactly when reserving
  the buy leg and then the sell leg both succeed; so a check made under the same lock is never
  contradicted by the reservation that follows.
\<close>

lemma can_execute_iff_reservable:
  assumes "bv \<noteq> sv"
  shows "can_exec (can_execute D bv ba bamt sv sa samt t)
         \<longleftrightarrow> is_ok (bind_out (reserve D bv ba bamt t) (reserve D sv sa samt))"
  unfolding inv_ledger.reserve_both_iff [OF assms] by (simp add: can_execute_def Let_def)

definition sample_tracker :: inventory_tracker where
  "sample_tracker = update_from_wallet Wallet [(''ETH'', 1), (''WETH'', 2)]
     (update_from_cex Binance [(''USDT'', \<lparr>nb_free = 1000, nb_locked = 0, nb_total = 1000\<rparr>)]
        (inventory_tracker_new [Binance, Wallet] 1))"

lemma sample_tracker_balances:
  "balances sample_tracker =
     [(Binance, ''USDT'') \<mapsto> \<lparr>vb_free = 1000, vb_locked = 0, vb_reserved = 0\<rparr>,
      (Wallet, ''ETH'') \<mapsto> \<lparr>vb_free = 1, vb_locked = 0, vb_reserved = 0\<rparr>,
      (Wallet, ''WETH'') \<mapsto> \<lparr>vb_free = 2, vb_locked = 0, vb_reserved = 0\<rparr>]"
  by (auto simp: sample_tracker_def update_from_wallet_def update_from_cex_def inventory_tracker_new_def
      cex_key_def ARBITRUM_CHAIN_ID_def to_uppercase_def upper_char_def drop_venue_def old_reserved_def
      fun_eq_iff)

lemma can_execute_iff_reservable_witness:
  "is_ok (bind_out (reserve exact_ops Binance ''USDT'' 900 sample_tracker)
            (reserve exact_ops Wallet ''ETH'' 3))
   \<and> \<not> is_ok (bind_out (reserve exact_ops Binance ''USDT'' 900 sample_tracker)
            (reserve exact_ops Wallet ''ETH'' 4))"
  using can_execute_iff_reservable [of Binance Wallet exact_ops "''USDT''" 900 "''ETH''" 3 sample_tracker]
    can_execute_iff_reservable [of Binance Wallet exact_ops "''USDT''" 900 "''ETH''" 4 sample_tracker]
  by (simp add: can_execute_def available_def get_available_def get_wallet_effective_available_def
      sample_tracker_balances get_equivalent_assets_def to_uppercase_def upper_char_def Let_def)


section \<open>Exactness on a grid\<close>

text \<open>
  Balances are quoted on a grid of at most 28 decimal places.  While the magnitudes stay within
  what 96 bits can hold on that grid, the decimal operations of the tracker are exact, and the
  methods compute the same as with unbounded exact arithmetic.
\<close>

definition grid_ok :: "nat \<Rightarrow> rat \<Rightarrow> bool" where
  "grid_ok s B \<longleftrightarrow> s \<le> 28 \<and> 0 \<le> B \<and> 4 * B * 10 ^ s < 2 ^ 96"

definition in_grid :: "nat \<Rightarrow> rat \<Rightarrow> rat \<Rightarrow> bool" where
  "in_grid s B x \<longleftrightarrow> on_grid s x \<and> \<bar>x\<bar> \<le> B"

definition grid_balances :: "nat \<Rightarrow> rat \<Rightarrow> balance_map \<Rightarrow> bool" where
  "grid_balances s B m \<longleftrightarrow> (\<forall>k b. m k = Some b \<longrightarrow> in_grid s B (vb_free b) \<and> in_grid s B (vb_reserved b))"

lemma grid_balancesD:
  assumes "grid_balances s B m" "m k = Some b"
  shows "on_grid s (vb_free b)" "on_grid s (vb_reserved b)" "\<bar>vb_free b\<bar> \<le> B" "\<bar>vb_reserved b\<bar> \<le> B"
  using assms unfolding grid_balances_def in_grid_def by blast+

lemma grid_is_dec: "grid_ok s B \<Longrightarrow> on_grid s x \<Longrightarrow> \<bar>x\<bar> \<le> 4 * B \<Longrightarrow> is_dec x"
  by (rule on_grid_is_dec [of s])
    (auto simp: grid_ok_def intro: le_less_trans [OF mult_right_mono])

lemma grid_zero [simp]: "grid_ok s B \<Longrightarrow> in_grid s B 0"
  by (simp add: in_grid_def grid_ok_def)

context decimal_arith
begin

lemma grid_add:
  assumes "grid_ok s B" "on_grid s x" "on_grid s y" "\<bar>x\<bar> + \<bar>y\<bar> \<le> 4 * B"
  shows "dadd D x y = x + y"
  using assms by (intro add_exact grid_is_dec [OF assms(1)] on_grid_add) auto

lemma grid_sub:
  assumes "grid_ok s B" "on_grid s x" "on_grid s y" "\<bar>x\<bar> + \<bar>y\<bar> \<le> 4 * B"
  shows "dsub D x y = x - y"
  using assms by (intro sub_exact grid_is_dec [OF assms(1)] on_grid_diff) auto

end

text \<open>What an entry has beyond its reservation, and a wallet group as a whole.\<close>

definition net_of :: "balance_map \<Rightarrow> venue \<times> string \<Rightarrow> rat" where
  "net_of m k = (case m k of Some b \<Rightarrow> vb_free b - vb_reserved b | None \<Rightarrow> 0)"

definition free_of :: "balance_map \<Rightarrow> venue \<times> string \<Rightarrow> rat" where
  "free_of m k = (case m k of Some b \<Rightarrow> vb_free b | None \<Rightarrow> 0)"

definition group_keys :: "venue \<Rightarrow> string \<Rightarrow> (venue \<times> string) list" where
  "group_keys v a = (if v = Wallet then map (Pair Wallet) (get_equivalent_assets a) else [(v, a)])"

lemma equivalents_shape:
  obtains x where "get_equivalent_assets a = [x]" | x y where "get_equivalent_assets a = [x, y]" "x \<noteq> y"
proof -
  have "(\<exists>x. get_equivalent_assets a = [x]) \<or> (\<exists>x y. get_equivalent_assets a = [x, y] \<and> x \<noteq> y)"
    by (simp add: get_equivalent_assets_def Let_def)
  then show thesis using that by blast
qed

lemma distinct_group: "distinct (group_keys v a)"
  by (rule equivalents_shape [of a]) (auto simp: group_keys_def)

context decimal_arith
begin

lemma available_eq:
  assumes "grid_ok s B" "grid_balances s B (balances t)"
  shows "available D v a t = sum_list (map (net_of (balances t)) (group_keys v a))"
proof -
  have net: "dsub D (vb_free b) (vb_reserved b) = net_of (balances t) k"
    "on_grid s (net_of (balances t) k)" "\<bar>net_of (balances t) k\<bar> \<le> 2 * B"
    if "balances t k = Some b" for k b
  proof -
    note g = grid_balancesD [OF assms(2) that]
    then show "dsub D (vb_free b) (vb_reserved b) = net_of (balances t) k"
      using grid_sub [OF assms(1) g(1,2)] that by (simp add: net_of_def)
    from g that show "on_grid s (net_of (balances t) k)" "\<bar>net_of (balances t) k\<bar> \<le> 2 * B"
      by (simp_all add: net_of_def on_grid_diff)
  qed
  have add: "dadd D x y = x + y" if "on_grid s x" "on_grid s y" "\<bar>x\<bar> \<le> 2 * B" "\<bar>y\<bar> \<le> 2 * B" for x y
    using that by (intro grid_add [OF assms(1)]) auto
  have B: "0 \<le> B" using assms(1) by (simp add: grid_ok_def)
  have none: "net_of (balances t) k = 0" if "balances t k = None" for k
    using that by (simp add: net_of_def)
  show ?thesis
  proof (cases "v = Wallet")
    case True
    then show ?thesis
      by (rule_tac a = a in equivalents_shape)
        (auto simp: available_def get_wallet_effective_available_def group_keys_def
          net none add B split: option.splits)
  next
    case False
    then show ?thesis
      by (auto simp: available_def get_available_def group_keys_def net none split: option.splits)
  qed
qed

end


subsection \<open>Reserving\<close>

lemma balances_reserve:
  assumes "reserve D v a x t = Ok t'"
  shows "balances t' = (balances t)((v, a) \<mapsto> (balance_or_zero t (v, a))
           \<lparr>vb_reserved := dadd D (vb_reserved (balance_or_zero t (v, a))) x\<rparr>) \<and> x \<le> available D v a t"
  using assms by (auto simp: reserve_def Let_def split: if_splits)

context decimal_arith
begin

lemma reserve_exact:
  assumes "grid_ok s B" "grid_balances s B (balances t)" "in_grid s B x" "reserve D v a x t = Ok t'"
  shows "vb_reserved (balance_or_zero t' (v, a)) = vb_reserved (balance_or_zero t (v, a)) + x"
proof -
  let ?b = "balance_or_zero t (v, a)"
  have "in_grid s B (vb_reserved ?b)"
    using assms(1,2) by (auto simp: balance_or_zero_def grid_balances_def zero_balance_def split: option.split)
  with assms(1,3) have "dadd D (vb_reserved ?b) x = vb_reserved ?b + x"
    by (intro grid_add [OF assms(1)]) (auto simp: in_grid_def grid_ok_def)
  with balances_reserve [OF assms(4)] show ?thesis by (simp add: balance_or_zero_def)
qed

lemma net_of_reserve:
  assumes "grid_ok s B" "grid_balances s B (balances t)" "in_grid s B x" "reserve D v a x t = Ok t'"
  shows "net_of (balances t') k = net_of (balances t) k - (if k = (v, a) then x else 0)"
  using reserve_exact [OF assms] balances_reserve [OF assms(4)]
  by (auto simp: net_of_def balance_or_zero_def zero_balance_def split: option.splits)

end

lemma sum_list_minus_one:
  fixes f :: "'a \<Rightarrow> rat"
  shows "distinct ks \<Longrightarrow> sum_list (map (\<lambda>k. f k - (if k = k0 then x else 0)) ks)
           = sum_list (map f ks) - (if k0 \<in> set ks then x else 0)"
  by (induction ks) auto

subsection \<open>A concrete reservation\<close>

definition sample_reserved :: inventory_tracker where
  "sample_reserved = sample_tracker\<lparr>balances := (balances sample_tracker)((Wallet, ''ETH'') \<mapsto>
      \<lparr>vb_free = 1, vb_locked = 0, vb_reserved = 2\<rparr>)\<rparr>"

lemma sample_reserve: "reserve exact_ops Wallet ''ETH'' 2 sample_tracker = Ok sample_reserved"
  by (simp add: reserve_def available_def get_wallet_effective_available_def balance_or_zero_def
      sample_reserved_def sample_tracker_balances get_equivalent_assets_def to_uppercase_def upper_char_def Let_def)

lemma small_grid: "x \<in> {0, 1, 2, 1000} \<Longrightarrow> on_grid 0 x"
  unfolding on_grid_def by (auto intro: exI [of _ 0] exI [of _ 1] exI [of _ 2] exI [of _ 1000])

lemma sample_grid: "grid_balances 0 1000 (balances sample_tracker)" "grid_balances 0 1000 (balances sample_reserved)"
  by (auto simp: sample_tracker_balances sample_reserved_def grid_balances_def in_grid_def small_grid split: if_splits)

text \<open>
  A reservation takes out of the available amount exactly what it asks for, and never more
  than is there.  On grid-quoted balances, after a successful \<open>reserve\<close> the availability of every
  asset whose pool contains the reserved entry has dropped by exactly the amount and is not
  negative for the asset itself, and every other availability is unchanged.
\<close>

lemma reserve_takes_exactly:
  assumes "decimal_arith D" "grid_ok s B" "grid_balances s B (balances t)" "grid_balances s B (balances t')"
    and "in_grid s B x" "reserve D v a x t = Ok t'"
  shows "available D v' a' t' = available D v' a' t - (if (v, a) \<in> set (group_keys v' a') then x else 0)
         \<and> ((v, a) \<in> set (group_keys v a) \<longrightarrow> 0 \<le> available D v a t')"
proof -
  have "net_of (balances t') = (\<lambda>k. net_of (balances t) k - (if k = (v, a) then x else 0))"
    using decimal_arith.net_of_reserve [OF assms(1-3,5,6)] by blast
  note exact = decimal_arith.available_eq [OF assms(1,2)] this
  have "available D v' a' t' = available D v' a' t - (if (v, a) \<in> set (group_keys v' a') then x else 0)" for v' a'
    by (simp add: exact assms(3,4) sum_list_minus_one distinct_group)
  with balances_reserve [OF assms(6)] show ?thesis by simp
qed

lemma reserve_takes_exactly_witness:
  "\<exists>t'. reserve exact_ops Wallet ''ETH'' 2 sample_tracker = Ok t'
        \<and> available exact_ops Wallet ''WETH'' t' = available exact_ops Wallet ''WETH'' sample_tracker - 2"
proof -
  from reserve_takes_exactly [OF exact_ops.decimal_arith_axioms _ sample_grid _ sample_reserve, of Wallet "''WETH''"]
  have "available exact_ops Wallet ''WETH'' sample_reserved = available exact_ops Wallet ''WETH'' sample_tracker - 2"
    by (simp add: grid_ok_def in_grid_def small_grid group_keys_def get_equivalent_assets_def to_uppercase_def
        upper_char_def Let_def)
  with sample_reserve show ?thesis by blast
qed

text \<open>
  The entry a reservation leaves, and that releasing the amount from it gives the old entry back,
  in whatever tracker the entry sits by then.
\<close>

definition reserved_entry :: "rat \<Rightarrow> venue_balance \<Rightarrow> venue_balance" where
  "reserved_entry x b = b\<lparr>vb_reserved := vb_reserved b + x\<rparr>"

lemma reserve_release_entry:
  assumes "decimal_arith D" "grid_ok s B" "grid_balances s B (balances t)" "grid_balances s B (balances t')"
    and "in_grid s B x" "0 \<le> x" "0 \<le> vb_reserved (balance_or_zero t (v, a))"
    and "reserve D v a x t = Ok t'"
  shows "balances t' = (balances t)((v, a) \<mapsto> reserved_entry x (balance_or_zero t (v, a)))"
    and "balances u (v, a) = Some (reserved_entry x (balance_or_zero t (v, a)))
      \<Longrightarrow> release D v a x u = Ok (u\<lparr>balances := (balances u)((v, a) \<mapsto> balance_or_zero t (v, a))\<rparr>)"
proof -
  define b where "b = balance_or_zero t (v, a)"
  show t': "balances t' = (balances t)((v, a) \<mapsto> reserved_entry x (balance_or_zero t (v, a)))"
    using balances_reserve [OF assms(8)] decimal_arith.reserve_exact [OF assms(1-3,5,8)]
    by (auto simp: balance_or_zero_def reserved_entry_def)
  have "dsub D (vb_reserved (reserved_entry x b)) x = vb_reserved (reserved_entry x b) - x"
    using grid_balancesD [OF assms(4), of "(v, a)" "reserved_entry x b"] assms(2,5) t'
    by (intro decimal_arith.grid_sub [OF assms(1,2)]) (auto simp: in_grid_def grid_ok_def b_def)
  then show "release D v a x u = Ok (u\<lparr>balances := (balances u)((v, a) \<mapsto> balance_or_zero t (v, a))\<rparr>)"
    if "balances u (v, a) = Some (reserved_entry x (balance_or_zero t (v, a)))"
    using that assms(7) by (simp add: release_def reserved_entry_def b_def)
qed

text \<open>
  Releasing what was reserved restores the ledger.  After a successful \<open>reserve\<close> of a
  non-negative amount, \<open>release\<close> of the same amount succeeds and every entry again has the free,
  locked and reserved amounts it had before (an entry created by the reservation stays, at zero).
\<close>

lemma release_undoes_reserve:
  assumes "decimal_arith D" "grid_ok s B" "grid_balances s B (balances t)" "grid_balances s B (balances t')"
    and "in_grid s B x" "0 \<le> x" "0 \<le> vb_reserved (balance_or_zero t (v, a))"
    and "reserve D v a x t = Ok t'"
  shows "\<exists>t''. release D v a x t' = Ok t'' \<and> (\<forall>k. balance_or_zero t'' k = balance_or_zero t k)"
  using reserve_release_entry(2) [OF assms, of t'] reserve_release_entry(1) [OF assms]
  by (auto simp: balance_or_zero_def)

lemma release_undoes_reserve_witness:
  "\<exists>t' t''. reserve exact_ops Wallet ''ETH'' 2 sample_tracker = Ok t'
        \<and> release exact_ops Wallet ''ETH'' 2 t' = Ok t''
        \<and> (\<forall>k. balance_or_zero t'' k = balance_or_zero sample_tracker k)"
proof -
  have "\<exists>t''. release exact_ops Wallet ''ETH'' 2 sample_reserved = Ok t''
      \<and> (\<forall>k. balance_or_zero t'' k = balance_or_zero sample_tracker k)"
    by (rule release_undoes_reserve [OF exact_ops.decimal_arith_axioms _ sample_grid _ _ _ sample_reserve])
      (auto simp: grid_ok_def in_grid_def small_grid balance_or_zero_def sample_tracker_balances)
  with sample_reserve show ?thesis by blast
qed


subsection \<open>Debiting the wallet\<close>

definition wallet_free :: "string list \<Rightarrow> balance_map \<Rightarrow> rat" where
  "wallet_free es m = sum_list (map (\<lambda>a. free_of m (Wallet, a)) es)"

definition nonneg_free :: "balance_map \<Rightarrow> bool" where
  "nonneg_free m \<longleftrightarrow> (\<forall>k b. m k = Some b \<longrightarrow> 0 \<le> vb_free b)"

lemma free_of_nonneg: "nonneg_free m \<Longrightarrow> 0 \<le> free_of m k"
  by (cases k) (auto simp: nonneg_free_def free_of_def split: option.split)

text \<open>
  One debit with exact arithmetic, and that the given arithmetic does the same on grid values.
\<close>

lemma take_from_exact:
  assumes "take_from exact_ops k (m, r) = (m', r')" "nonneg_free m" "0 \<le> r"
  shows "nonneg_free m'" "0 \<le> r'" "r' \<le> r" "0 < r' \<Longrightarrow> free_of m' k = 0"
    "free_of m' j = free_of m j - (if j = k then r - r' else 0)"
proof -
  have "0 \<le> vb_free b" if "m k = Some b" for b using that assms(2) unfolding nonneg_free_def by blast
  with assms show "nonneg_free m'" "0 \<le> r'" "r' \<le> r" "0 < r' \<Longrightarrow> free_of m' k = 0"
    "free_of m' j = free_of m j - (if j = k then r - r' else 0)"
    by (auto simp: take_from_def Let_def free_of_def nonneg_free_def min_def split: option.splits if_splits)
qed

lemma sum_list_eq_0: "(\<And>x. x \<in> set xs \<Longrightarrow> f x = (0::rat)) \<Longrightarrow> sum_list (map f xs) = 0"
  by (induction xs) auto

lemma wallet_free_take:
  assumes "take_from exact_ops (Wallet, e) (m, r) = (m', r')" "nonneg_free m" "0 \<le> r" "distinct es" "e \<in> set es"
  shows "wallet_free es m' = wallet_free es m - (r - r')"
proof -
  have "wallet_free es m' = sum_list (map (\<lambda>a. free_of m (Wallet, a) - (if a = e then r - r' else 0)) es)"
    unfolding wallet_free_def by (simp add: take_from_exact(5) [OF assms(1-3)] cong: map_cong)
  with assms(4,5) show ?thesis by (simp add: sum_list_minus_one wallet_free_def)
qed

lemma spill_over_exact:
  assumes "spill_over exact_ops Wallet a eqs (m, r) = (m', r')" "nonneg_free m" "0 < r"
    and "distinct es" "set eqs \<subseteq> set es"
  shows "nonneg_free m' \<and> 0 \<le> r' \<and> wallet_free es m' = wallet_free es m - (r - r')
         \<and> (\<forall>j. free_of m' j \<le> free_of m j)
         \<and> (0 < r' \<longrightarrow> (\<forall>e \<in> set eqs - {a}. free_of m' (Wallet, e) = 0))"
  using assms
proof (induction eqs arbitrary: m r)
  case Nil
  then show ?case by simp
next
  case (Cons e eqs)
  show ?case
  proof (cases "e = a")
    case True
    with Cons.prems have "nonneg_free m' \<and> 0 \<le> r' \<and> wallet_free es m' = wallet_free es m - (r - r')
         \<and> (\<forall>j. free_of m' j \<le> free_of m j)
         \<and> (0 < r' \<longrightarrow> (\<forall>e \<in> set eqs - {a}. free_of m' (Wallet, e) = 0))"
      by (intro Cons.IH) auto
    with True show ?thesis by auto
  next
    case False
    obtain m1 r1 where t: "take_from exact_ops (Wallet, e) (m, r) = (m1, r1)" by fastforce
    from Cons.prems have "0 \<le> r" by simp
    note tf = take_from_exact [OF t \<open>nonneg_free m\<close> this]
    have w: "wallet_free es m1 = wallet_free es m - (r - r1)"
      using Cons.prems by (intro wallet_free_take [OF t]) auto
    show ?thesis
    proof (cases "r1 \<le> 0")
      case True
      with Cons.prems False t w tf show ?thesis by auto
    next
      case r1: False
      with Cons.prems False t have "spill_over exact_ops Wallet a eqs (m1, r1) = (m', r')" by simp
      from Cons.IH [OF this] Cons.prems r1 tf(1)
      have IH: "nonneg_free m'" "0 \<le> r'" "wallet_free es m' = wallet_free es m1 - (r1 - r')"
        "\<forall>j. free_of m' j \<le> free_of m1 j" "0 < r' \<longrightarrow> (\<forall>e \<in> set eqs - {a}. free_of m' (Wallet, e) = 0)"
        by auto
      have "free_of m' (Wallet, e) = 0"
        using IH(1,4) tf(4) r1 free_of_nonneg by (metis order_antisym not_le)
      moreover have "free_of m' j \<le> free_of m j" for j
        using spec [OF IH(4), of j] tf(3) tf(5) [of j] by (auto split: if_splits)
      ultimately show ?thesis using IH w by auto
    qed
  qed
qed

lemma in_grid_diff_min:
  "in_grid s B x \<Longrightarrow> in_grid s B y \<Longrightarrow> 0 \<le> x \<Longrightarrow> 0 \<le> y \<Longrightarrow> in_grid s B (x - min x y) \<and> in_grid s B (y - min x y)"
  by (auto simp: in_grid_def min_def on_grid_diff)

context decimal_arith
begin

lemma take_from_grid:
  assumes "grid_ok s B" "grid_balances s B m" "nonneg_free m" "in_grid s B r" "0 \<le> r"
  shows "take_from D k (m, r) = take_from exact_ops k (m, r)
         \<and> grid_balances s B (fst (take_from exact_ops k (m, r))) \<and> in_grid s B (snd (take_from exact_ops k (m, r)))"
proof (cases "m k")
  case None
  with assms show ?thesis by (simp add: take_from_def)
next
  case (Some b)
  note g = grid_balancesD [OF assms(2) Some]
  have f: "0 \<le> vb_free b" using Some assms(3) unfolding nonneg_free_def by blast
  have B: "0 \<le> B" using assms(1) by (simp add: grid_ok_def)
  have "dsub D (vb_free b) (min (vb_free b) r) = vb_free b - min (vb_free b) r"
    "dsub D r (min (vb_free b) r) = r - min (vb_free b) r"
    using g f B assms(4,5) by (intro grid_sub [OF assms(1)]; auto simp: in_grid_def on_grid_min min_def)+
  moreover have "in_grid s B (vb_free b - min (vb_free b) r) \<and> in_grid s B (r - min (vb_free b) r)"
    using g f assms(4,5) by (intro in_grid_diff_min) (auto simp: in_grid_def)
  ultimately show ?thesis using Some assms(2) g
    by (auto simp: take_from_def Let_def grid_balances_def in_grid_def)
qed

lemma spill_over_grid:
  assumes "grid_ok s B" "grid_balances s B m" "nonneg_free m" "in_grid s B r" "0 < r"
  shows "spill_over D Wallet a eqs (m, r) = spill_over exact_ops Wallet a eqs (m, r)"
  using assms
proof (induction eqs arbitrary: m r)
  case (Cons e eqs)
  obtain m1 r1 where t: "take_from exact_ops (Wallet, e) (m, r) = (m1, r1)" by fastforce
  from Cons.prems(5) have "0 \<le> r" by simp
  note tf = take_from_exact [OF t Cons.prems(3) this]
  from take_from_grid [OF Cons.prems(1-4) \<open>0 \<le> r\<close>, of "(Wallet, e)"] t tf Cons show ?case
    by (auto simp: Let_def)
qed simp

end

lemma adjust_wallet_exact:
  assumes "adjust_balance exact_ops Wallet a (- x) t = (t', res)" "0 < x" "nonneg_free (balances t)"
    and "a \<in> set (get_equivalent_assets a)"
  shows "nonneg_free (balances t')
    \<and> (if x \<le> wallet_free (get_equivalent_assets a) (balances t)
       then res = Ok () \<and> wallet_free (get_equivalent_assets a) (balances t')
                            = wallet_free (get_equivalent_assets a) (balances t) - x
       else res = Err (NegativeBalance (x - wallet_free (get_equivalent_assets a) (balances t))))"
proof -
  let ?es = "get_equivalent_assets a"
  have d: "distinct ?es" by (rule equivalents_shape [of a]) auto
  obtain m1 r1 where t1: "take_from exact_ops (Wallet, a) (balances t, x) = (m1, r1)" by fastforce
  note tf = take_from_exact [OF t1 assms(3) order_less_imp_le [OF assms(2)]]
  have w1: "wallet_free ?es m1 = wallet_free ?es (balances t) - (x - r1)"
    using assms d by (intro wallet_free_take [OF t1]) auto
  have pos: "0 \<le> wallet_free ?es m" if "nonneg_free m" for m
    unfolding wallet_free_def by (intro sum_list_nonneg) (auto simp: free_of_nonneg that)
  show ?thesis
  proof (cases "0 < r1")
    case False
    with assms(1,2) t1 tf have "balances t' = m1" "res = Ok ()" "r1 = 0"
      by (auto simp: adjust_balance_def Let_def)
    with w1 tf(1) pos [OF tf(1)] show ?thesis by simp
  next
    case True
    obtain m2 r2 where t2: "spill_over exact_ops Wallet a ?es (m1, r1) = (m2, r2)" by fastforce
    from spill_over_exact [OF t2 tf(1) True d]
    have s: "nonneg_free m2" "0 \<le> r2" "wallet_free ?es m2 = wallet_free ?es m1 - (r1 - r2)"
      "\<forall>j. free_of m2 j \<le> free_of m1 j" "0 < r2 \<longrightarrow> (\<forall>e \<in> set ?es - {a}. free_of m2 (Wallet, e) = 0)"
      by auto
    have "free_of m2 (Wallet, a) = 0"
      using s(1,4) tf(4) [OF True] free_of_nonneg by (metis order_antisym)
    with s(5) have "0 < r2 \<Longrightarrow> wallet_free ?es m2 = 0"
      unfolding wallet_free_def by (intro sum_list_eq_0) auto
    moreover have "balances t' = m2" "res = (if 0 < r2 then Err (NegativeBalance r2) else Ok ())"
      using assms(1,2) t1 t2 True by (auto simp: adjust_balance_def Let_def)
    ultimately show ?thesis using s w1 pos [OF s(1)] by (auto split: if_splits)
  qed
qed


text \<open>
  A wallet debit is all or error, over the whole pool of equivalent assets.  With
  non-negative grid-quoted balances, debiting \<open>x\<close> of an asset from the wallet succeeds exactly
  when the free amounts of the asset and its equivalents (ETH/WETH, USDC/USDC.E) together cover
  \<open>x\<close>; the pool then holds exactly \<open>x\<close> less.  Otherwise the error carries the missing amount.
  No balance is negative afterwards in either case.
\<close>

lemma wallet_debit_correct:
  assumes "decimal_arith D" "grid_ok s B" "grid_balances s B (balances t)" "in_grid s B x"
    and "nonneg_free (balances t)" "0 < x" "a \<in> set (get_equivalent_assets a)"
    and "adjust_balance D Wallet a (- x) t = (t', res)"
  shows "nonneg_free (balances t')
    \<and> (if x \<le> wallet_free (get_equivalent_assets a) (balances t)
       then res = Ok () \<and> wallet_free (get_equivalent_assets a) (balances t')
                            = wallet_free (get_equivalent_assets a) (balances t) - x
       else res = Err (NegativeBalance (x - wallet_free (get_equivalent_assets a) (balances t))))"
proof -
  obtain m1 r1 where t1: "take_from exact_ops (Wallet, a) (balances t, x) = (m1, r1)" by fastforce
  note tf = take_from_exact [OF t1 assms(5) order_less_imp_le [OF assms(6)]]
  from decimal_arith.take_from_grid [OF assms(1-3,5,4) order_less_imp_le [OF assms(6)], of "(Wallet, a)"] t1
  have g: "take_from D (Wallet, a) (balances t, x) = (m1, r1)" "grid_balances s B m1" "in_grid s B r1"
    by simp_all
  have "adjust_balance D Wallet a (- x) t = adjust_balance exact_ops Wallet a (- x) t"
    using assms(6) g t1 decimal_arith.spill_over_grid [OF assms(1,2) g(2) tf(1) g(3)]
    by (simp add: adjust_balance_def Let_def)
  with adjust_wallet_exact [OF _ assms(6,5,7)] assms(8) show ?thesis by simp
qed

lemma wallet_debit_correct_witness:
  "\<exists>t'. adjust_balance exact_ops Wallet ''ETH'' (- 2) sample_tracker = (t', Ok ())
        \<and> wallet_free [''ETH'', ''WETH''] (balances t') = 1"
proof -
  obtain t' res where r: "adjust_balance exact_ops Wallet ''ETH'' (- 2) sample_tracker = (t', res)" by fastforce
  have es: "get_equivalent_assets ''ETH'' = [''ETH'', ''WETH'']"
    by (simp add: get_equivalent_assets_def to_uppercase_def upper_char_def Let_def)
  have "nonneg_free (balances sample_tracker)"
    by (auto simp: nonneg_free_def sample_tracker_balances split: if_splits)
  from wallet_debit_correct [OF exact_ops.decimal_arith_axioms _ sample_grid(1) _ this _ _ r]
  show ?thesis using r
    by (simp add: es grid_ok_def in_grid_def small_grid wallet_free_def free_of_def sample_tracker_balances)
qed

end
