(* ===== verification/Signal_Queue.thy ===== *)
theory Signal_Queue
  imports Engine_Safety Inventory "HOL-Library.Multiset"
begin

text \<open>
  \<open>executor/queue.rs\<close>: the bounded priority queue of signals and the worker that claims inventory
  for a popped signal, executes it and gives the inventory back.

  The binary heap is a list used as a bag: \<open>pop\<close> removes an element of greatest rank, the eviction
  scan one of least rank.  Each iteration of \<open>pop_valid\<close> reads both clocks, so the readings are a
  function of the iteration.  The worker's loop is modelled by its two steps, taking a signal and
  completing an execution; with several permits these steps of different signals interleave.
\<close>

section \<open>Prioritised signals\<close>

record prioritized_signal =
  ps_signal :: signal
  ps_priority :: dec
  ps_enqueued_at :: instant

definition prioritized_signal_new :: "instant \<Rightarrow> signal \<Rightarrow> prioritized_signal" where
  "prioritized_signal_new now s = \<lparr>ps_signal = s, ps_priority = score s, ps_enqueued_at = now\<rparr>"

text \<open>\<open>Ord::cmp\<close>: by priority, the older entry being the greater one on ties.\<close>

definition ps_le :: "prioritized_signal \<Rightarrow> prioritized_signal \<Rightarrow> bool" where
  "ps_le a b \<longleftrightarrow> ps_priority a < ps_priority b
      \<or> (ps_priority a = ps_priority b \<and> ps_enqueued_at b \<le> ps_enqueued_at a)"

record queue_config =
  max_size :: nat
  max_age :: duration

section \<open>The queue\<close>

text \<open>\<open>Iterator::min_by\<close> returns the first of several least elements.\<close>

fun weakest :: "prioritized_signal list \<Rightarrow> prioritized_signal option" where
  "weakest [] = None"
| "weakest (x # xs) = (case weakest xs of None \<Rightarrow> Some x | Some y \<Rightarrow> Some (if ps_le x y then x else y))"

fun strongest :: "prioritized_signal list \<Rightarrow> prioritized_signal option" where
  "strongest [] = None"
| "strongest (x # xs) = (case strongest xs of None \<Rightarrow> Some x | Some y \<Rightarrow> Some (if ps_le y x then x else y))"

definition push :: "queue_config \<Rightarrow> instant \<Rightarrow> signal \<Rightarrow> prioritized_signal list \<Rightarrow> prioritized_signal list \<times> bool" where
  "push cfg now s q =
     (let incoming = prioritized_signal_new now s
      in if length q < max_size cfg then (incoming # q, True)
         else case weakest q of
                None \<Rightarrow> (incoming # q, True)
              | Some w \<Rightarrow>
                  (if ps_priority incoming \<le> ps_priority w then (q, False)
                   else (incoming # remove1 w q, True)))"

lemma strongest_mem: "strongest q = Some x \<Longrightarrow> x \<in> set q"
  by (induction q arbitrary: x) (auto split: option.splits if_splits)

lemma length_remove_strongest: "strongest q = Some x \<Longrightarrow> length (remove1 x q) < length q"
  using strongest_mem [of q x] by (cases "length q") (auto simp: length_remove1)

definition stale :: "queue_config \<Rightarrow> instant \<times> date_time \<Rightarrow> prioritized_signal \<Rightarrow> bool" where
  "stale cfg = (\<lambda>(now_i, now) p. duration_since now_i (ps_enqueued_at p) > max_age cfg \<or> \<not> is_valid (ps_signal p) now)"

function pop_valid ::
  "queue_config \<Rightarrow> (nat \<Rightarrow> instant \<times> date_time) \<Rightarrow> nat \<Rightarrow> prioritized_signal list
     \<Rightarrow> prioritized_signal list \<times> prioritized_signal option" where
  "pop_valid cfg clk i q =
     (case strongest q of
        None \<Rightarrow> (q, None)
      | Some best \<Rightarrow>
          (if stale cfg (clk i) best then pop_valid cfg clk (Suc i) (remove1 best q)
           else (remove1 best q, Some best)))"
  by pat_completeness auto
termination
  by (relation "measure (\<lambda>(cfg, clk, i, q). length q)") (auto intro: length_remove_strongest)

declare pop_valid.simps [simp del]

subsection \<open>Order\<close>

lemma ps_le_refl [simp]: "ps_le a a"
  by (simp add: ps_le_def)

lemma ps_le_trans: "ps_le a b \<Longrightarrow> ps_le b c \<Longrightarrow> ps_le a c"
  by (auto simp: ps_le_def)

lemma ps_le_total: "ps_le a b \<or> ps_le b a"
  by (auto simp: ps_le_def)

lemma weakest_None [simp]: "weakest q = None \<longleftrightarrow> q = []"
  by (cases q) (auto split: option.splits)

lemma strongest_None [simp]: "strongest q = None \<longleftrightarrow> q = []"
  by (cases q) (auto split: option.splits)

lemma not_ps_le: "\<not> ps_le a b \<Longrightarrow> ps_le b a"
  using ps_le_total by blast

lemma weakest_spec: "weakest q = Some w \<Longrightarrow> w \<in> set q \<and> (\<forall>x \<in> set q. ps_le w x)"
  by (induction q arbitrary: w) (auto split: option.splits if_splits dest: ps_le_trans not_ps_le)

lemma strongest_spec: "strongest q = Some t \<Longrightarrow> t \<in> set q \<and> (\<forall>x \<in> set q. ps_le x t)"
  by (induction q arbitrary: t) (auto split: option.splits if_splits dest: ps_le_trans not_ps_le)

text \<open>
  The queue stays bounded and keeps the best.  A push adds the new entry, evicts at most one
  entry, and what is evicted (possibly the new entry itself) has a priority not above that of any
  entry kept; \<open>push\<close> answers \<open>True\<close> exactly when the new entry is kept.  The queue never holds more
  than \<open>max_size\<close> entries (one, for a \<open>max_size\<close> of zero) unless it did so before.
\<close>

lemma push_keeps_best:
  assumes "push cfg now s q = (q', kept)"
  shows "let inc = prioritized_signal_new now s
         in (mset q' = add_mset inc (mset q) \<and> kept \<and> (length q < max_size cfg \<or> q = [])
             \<or> (\<exists>e. add_mset e (mset q') = add_mset inc (mset q) \<and> (\<forall>x \<in> set q'. ps_priority e \<le> ps_priority x)
                    \<and> (kept \<longrightarrow> inc \<in> set q') \<and> (\<not> kept \<longrightarrow> e = inc) \<and> max_size cfg \<le> length q))
            \<and> length q' \<le> max (length q) (max 1 (max_size cfg))"
proof (cases "length q < max_size cfg \<or> q = []")
  case True
  with assms show ?thesis by (auto simp: push_def Let_def split: if_splits)
next
  case False
  then obtain w where w: "weakest q = Some w" by (cases "weakest q") auto
  note ws = weakest_spec [OF w]
  have pr: "ps_priority w \<le> ps_priority x" if "x \<in> set q" for x
    using ws that by (force simp: ps_le_def)
  let ?inc = "prioritized_signal_new now s"
  show ?thesis
  proof (cases "ps_priority ?inc \<le> ps_priority w")
    case True
    with False w assms have "q' = q" "\<not> kept" by (auto simp: push_def Let_def)
    with True pr False show ?thesis by (force simp: Let_def)
  next
    case le: False
    with False w assms have "q' = ?inc # remove1 w q" "kept" by (auto simp: push_def Let_def)
    moreover have "add_mset w (mset (remove1 w q)) = mset q" using ws by simp
    moreover have "ps_priority w \<le> ps_priority x" if "x \<in> set (?inc # remove1 w q)" for x
      using that pr le set_remove1_subset [of w q] by auto
    moreover have "length (?inc # remove1 w q) = length q"
      using ws length_pos_if_in_set [of w q] by (simp add: length_remove1)
    ultimately show ?thesis using False by (auto simp: Let_def intro!: exI [of _ w])
  qed
qed

definition sample_queue :: "prioritized_signal list" where
  "sample_queue = [prioritized_signal_new 1 (sample_signal\<lparr>score := 50\<rparr>), prioritized_signal_new 2 (sample_signal\<lparr>score := 90\<rparr>)]"

lemma push_keeps_best_witness:
  "\<exists>q' kept. push \<lparr>max_size = 2, max_age = 100\<rparr> 3 sample_signal sample_queue = (q', kept)
     \<and> kept \<and> length q' \<le> 2"
proof -
  let ?cfg = "\<lparr>max_size = 2, max_age = 100\<rparr>"
  obtain q' kept where p: "push ?cfg 3 sample_signal sample_queue = (q', kept)" by fastforce
  have "kept"
    using p by (auto simp: push_def sample_queue_def ps_le_def prioritized_signal_new_def sample_signal_def Let_def)
  moreover have "length q' \<le> 2"
    using push_keeps_best [OF p] by (simp add: sample_queue_def Let_def)
  ultimately show ?thesis using p by blast
qed

text \<open>
  What \<open>pop_valid\<close> returns.  It terminates; a returned signal was valid and young enough at the
  reading that admitted it, and no entry left in the queue ranks above it; the entries it dropped on
  the way all rank at least as high and were stale when dropped.  It returns nothing only after the
  whole queue was found stale.
\<close>

lemma pop_valid_correct:
  "case pop_valid cfg clk i q of (q', r) \<Rightarrow>
     \<exists>dropped. (\<forall>d \<in> set dropped. \<exists>k \<ge> i. stale cfg (clk k) d)
       \<and> (case r of
            Some t \<Rightarrow> mset q = mset dropped + add_mset t (mset q') \<and> (\<exists>k \<ge> i. \<not> stale cfg (clk k) t)
                \<and> (\<forall>x \<in> set q'. ps_le x t) \<and> (\<forall>d \<in> set dropped. ps_le t d)
          | None \<Rightarrow> q' = [] \<and> mset q = mset dropped)"
proof (induction cfg clk i q rule: pop_valid.induct)
  case (1 cfg clk i q)
  show ?case
  proof (cases "strongest q")
    case None
    then have "pop_valid cfg clk i q = ([], None)" by (subst pop_valid.simps) simp
    with None show ?thesis by simp
  next
    case (Some best)
    note st = strongest_spec [OF Some]
    have rest: "ps_le x best" if "x \<in> set (remove1 best q)" for x
      using st that set_remove1_subset [of best q] by blast
    show ?thesis
    proof (cases "stale cfg (clk i) best")
      case False
      then have "pop_valid cfg clk i q = (remove1 best q, Some best)"
        by (simp add: pop_valid.simps [of cfg clk i q] Some)
      moreover have "\<exists>k \<ge> i. \<not> stale cfg (clk k) best" using False by blast
      ultimately show ?thesis
        using st rest by (simp add: exI [of _ "[]"])
    next
      case True
      obtain q' r where r: "pop_valid cfg clk (Suc i) (remove1 best q) = (q', r)" by fastforce
      have run: "pop_valid cfg clk i q = (q', r)"
        using True r by (subst pop_valid.simps) (simp add: Some)
      from "1.IH" [OF Some True] r obtain ds where ds:
        "\<forall>d \<in> set ds. \<exists>k \<ge> Suc i. stale cfg (clk k) d"
        "case r of Some t \<Rightarrow> mset (remove1 best q) = mset ds + add_mset t (mset q') \<and> (\<exists>k \<ge> Suc i. \<not> stale cfg (clk k) t)
                \<and> (\<forall>x \<in> set q'. ps_le x t) \<and> (\<forall>d \<in> set ds. ps_le t d)
          | None \<Rightarrow> q' = [] \<and> mset (remove1 best q) = mset ds"
        by auto
      have drop: "\<forall>d \<in> set (best # ds). \<exists>k \<ge> i. stale cfg (clk k) d"
        using True ds(1) Suc_leD by (metis order_refl set_ConsD)
      have ms: "mset q = add_mset best (mset (remove1 best q))" using st by simp
      show ?thesis
      proof (cases r)
        case None
        with ds(2) have d: "q' = []" "mset (remove1 best q) = mset ds" by (simp_all del: mset_remove1)
        have "mset q = mset (best # ds)" by (simp only: ms d mset.simps)
        with None drop run d(1) show ?thesis
          by (simp only: prod.case option.case) (blast intro: exI [of _ "best # ds"])
      next
        case (Some t)
        with ds(2) have t: "mset (remove1 best q) = mset ds + add_mset t (mset q')" "\<exists>k \<ge> Suc i. \<not> stale cfg (clk k) t"
          "\<forall>x \<in> set q'. ps_le x t" "\<forall>d \<in> set ds. ps_le t d" by (simp_all del: mset_remove1)
        have "t \<in># mset (remove1 best q)" unfolding t(1) by simp
        then have "t \<in> set (remove1 best q)" by (simp only: set_mset_mset)
        with rest t(4) have "\<forall>d \<in> set (best # ds). ps_le t d" by simp
        moreover have "mset q = mset (best # ds) + add_mset t (mset q')" by (simp only: ms t(1) mset.simps union_mset_add_mset_left)
        moreover have "\<exists>k \<ge> i. \<not> stale cfg (clk k) t" using t(2) Suc_leD by blast
        ultimately show ?thesis using run Some drop t(3)
          by (simp only: prod.case option.case) (blast intro: exI [of _ "best # ds"])
      qed
    qed
  qed
qed

lemma pop_valid_correct_witness:
  "case pop_valid \<lparr>max_size = 2, max_age = 100\<rparr> (\<lambda>_. (10, 20)) 0 sample_queue of
     (q', r) \<Rightarrow> \<exists>t. r = Some t \<and> (\<exists>k \<ge> 0. \<not> stale \<lparr>max_size = 2, max_age = 100\<rparr> ((\<lambda>_. (10, 20)) (k::nat)) t)"
proof -
  let ?cfg = "\<lparr>max_size = 2, max_age = 100\<rparr>" let ?clk = "\<lambda>_::nat. (10::instant, 20::date_time)"
  obtain q' r where p: "pop_valid ?cfg ?clk 0 sample_queue = (q', r)" by fastforce
  have ns: "\<not> stale ?cfg (10, 20) d" if "d \<in> set sample_queue" for d
    using that by (auto simp: stale_def sample_queue_def prioritized_signal_new_def sample_signal_def
        duration_since_def is_valid_def)
  show ?thesis
  proof (cases r)
    case None
    with pop_valid_correct [where cfg = ?cfg and clk = ?clk and i = 0 and q = sample_queue] p obtain dropped where
      "\<forall>d \<in> set dropped. stale ?cfg (10, 20) d" "mset sample_queue = mset dropped" by auto
    then have False using ns mset_eq_setD [of sample_queue dropped] by (auto simp: sample_queue_def)
    then show ?thesis ..
  next
    case (Some t)
    with pop_valid_correct [where cfg = ?cfg and clk = ?clk and i = 0 and q = sample_queue] p show ?thesis by auto
  qed
qed

section \<open>Worker\<close>

record inventory_reservation =
  ir_venue :: venue
  ir_asset :: string
  ir_amount :: dec

datatype claim_failure =
    InvalidSignalPair core_error
  | InsufficientInventory "cannot_execute option"
  | ReserveBuyFailed inventory_error
  | ReserveSellFailed inventory_error

text \<open>Which venue has to provide which asset, and how much.\<close>

definition claim_legs :: "dec_ops \<Rightarrow> signal \<Rightarrow> string \<Rightarrow> string \<Rightarrow> inventory_reservation \<times> inventory_reservation" where
  "claim_legs D s base quote =
     (case sig_direction s of
        BuyCexSellDex \<Rightarrow>
          (\<lparr>ir_venue = Binance, ir_asset = quote, ir_amount = dmul D (sig_size s) (cex_price s)\<rparr>,
           \<lparr>ir_venue = Wallet, ir_asset = base, ir_amount = sig_size s\<rparr>)
      | BuyDexSellCex \<Rightarrow>
          (\<lparr>ir_venue = Wallet, ir_asset = quote, ir_amount = dmul D (sig_size s) (dex_price s)\<rparr>,
           \<lparr>ir_venue = Binance, ir_asset = base, ir_amount = sig_size s\<rparr>))"

definition reserve_ir :: "dec_ops \<Rightarrow> inventory_reservation \<Rightarrow> inventory_tracker \<Rightarrow> (inventory_error, inventory_tracker) outcome" where
  "reserve_ir D r = reserve D (ir_venue r) (ir_asset r) (ir_amount r)"

text \<open>\<open>let _ = tracker.release(..)\<close>: an error is ignored and leaves the tracker alone.\<close>

definition release_ir :: "dec_ops \<Rightarrow> inventory_reservation \<Rightarrow> inventory_tracker \<Rightarrow> inventory_tracker" where
  "release_ir D r t = (case release D (ir_venue r) (ir_asset r) (ir_amount r) t of Ok t' \<Rightarrow> t' | _ \<Rightarrow> t)"

text \<open>
  The claim of a popped signal, under the tracker's write lock.  \<open>reserve\<close> returns \<open>Ok\<close> or \<open>Err\<close>
  only; the panic branches complete the case analysis and are never taken.
\<close>

definition claim ::
  "dec_ops \<Rightarrow> signal \<Rightarrow> inventory_tracker \<Rightarrow> inventory_tracker \<times> (claim_failure + inventory_reservation list)" where
  "claim D s t =
     (case split_pair_symbols (sig_pair s) of
        Inl e \<Rightarrow> (t, Inl (InvalidSignalPair e))
      | Inr (base, quote) \<Rightarrow>
          (let (b, sl) = claim_legs D s base quote;
               chk = can_execute D (ir_venue b) (ir_asset b) (ir_amount b) (ir_venue sl) (ir_asset sl) (ir_amount sl) t
           in if \<not> can_exec chk then (t, Inl (InsufficientInventory (cannot_reason chk)))
              else case reserve_ir D b t of
                     Ok t1 \<Rightarrow>
                       (case reserve_ir D sl t1 of
                          Ok t2 \<Rightarrow> (t2, Inr [b, sl])
                        | Err e \<Rightarrow> (release_ir D b t1, Inl (ReserveSellFailed e))
                        | Panic \<Rightarrow> (t1, Inl (ReserveSellFailed AssetNotFound)))
                   | Err e \<Rightarrow> (t, Inl (ReserveBuyFailed e))
                   | Panic \<Rightarrow> (t, Inl (ReserveBuyFailed AssetNotFound))))"

text \<open>
  The worker's state: queue, tracker (if inventory locking is on), claimed signals whose
  execution has not completed, and what was sent to the completion sink (a finished context, or
  a signal turned away with the reason).
\<close>

datatype sink_message = SinkRejected signal claim_failure | SinkCompleted execution_context

record worker =
  wk_queue :: "prioritized_signal list"
  wk_inventory :: "inventory_tracker option"
  wk_in_flight :: "(signal \<times> inventory_reservation list) list"
  wk_sink :: "sink_message list"

definition worker_take :: "dec_ops \<Rightarrow> queue_config \<Rightarrow> (nat \<Rightarrow> instant \<times> date_time) \<Rightarrow> worker \<Rightarrow> worker" where
  "worker_take D cfg clk w =
     (case pop_valid cfg clk 0 (wk_queue w) of
        (q, None) \<Rightarrow> w\<lparr>wk_queue := q\<rparr>
      | (q, Some p) \<Rightarrow>
          (case wk_inventory w of
             None \<Rightarrow> w\<lparr>wk_queue := q, wk_in_flight := wk_in_flight w @ [(ps_signal p, [])]\<rparr>
           | Some t \<Rightarrow>
               (case claim D (ps_signal p) t of
                  (t', Inl e) \<Rightarrow>
                    w\<lparr>wk_queue := q, wk_inventory := Some t', wk_sink := wk_sink w @ [SinkRejected (ps_signal p) e]\<rparr>
                | (t', Inr rs) \<Rightarrow>
                    w\<lparr>wk_queue := q, wk_inventory := Some t', wk_in_flight := wk_in_flight w @ [(ps_signal p, rs)]\<rparr>)))"

definition release_all :: "dec_ops \<Rightarrow> inventory_reservation list \<Rightarrow> inventory_tracker \<Rightarrow> inventory_tracker" where
  "release_all D rs t = fold (release_ir D) rs t"

definition worker_complete ::
  "dec_ops \<Rightarrow> legs \<Rightarrow> exec_io \<Rightarrow> nat \<Rightarrow> worker \<times> executor \<Rightarrow> worker \<times> executor" where
  "worker_complete D B io i = (\<lambda>(w, ex).
     if i < length (wk_in_flight w)
     then (let (s, rs) = wk_in_flight w ! i;
               (ex', c, h) = execute D B io s ex
           in (w\<lparr>wk_in_flight := take i (wk_in_flight w) @ drop (Suc i) (wk_in_flight w),
                 wk_inventory := map_option (release_all D rs) (wk_inventory w),
                 wk_sink := wk_sink w @ [SinkCompleted c]\<rparr>, ex'))
     else (w, ex))"

subsection \<open>Claims are all or nothing\<close>

lemma claim_legs_venues: "claim_legs D s base quote = (b, sl) \<Longrightarrow> ir_venue b \<noteq> ir_venue sl"
  by (auto simp: claim_legs_def split: direction.splits)

lemma claim_reserves:
  assumes "ir_venue b \<noteq> ir_venue sl"
    "can_exec (can_execute D (ir_venue b) (ir_asset b) (ir_amount b) (ir_venue sl) (ir_asset sl) (ir_amount sl) t)"
  shows "\<exists>t1 t2. reserve_ir D b t = Ok t1 \<and> reserve_ir D sl t1 = Ok t2"
  using inv_ledger.reserve_pair [OF assms(1)] assms(2)
  by (simp add: reserve_ir_def can_execute_def Let_def)

text \<open>
  C25: claiming inventory is all or nothing.  For a popped signal the worker either turns it away
  and leaves the tracker exactly as it was, because the pair is malformed or because one of the two
  legs is not covered, or it holds both reservations.  The two branches for a reservation that
  fails after a successful check are never taken.
\<close>

theorem claim_all_or_nothing:
  "case claim D s t of
     (t', Inl e) \<Rightarrow> t' = t \<and> (\<exists>x. e = InvalidSignalPair x \<or> (\<exists>y. e = InsufficientInventory y))
   | (t', Inr rs) \<Rightarrow>
       (\<exists>base quote b sl t1. split_pair_symbols (sig_pair s) = Inr (base, quote)
          \<and> claim_legs D s base quote = (b, sl) \<and> rs = [b, sl]
          \<and> reserve_ir D b t = Ok t1 \<and> reserve_ir D sl t1 = Ok t')"
proof (cases "split_pair_symbols (sig_pair s)")
  case (Inl e)
  then show ?thesis by (simp add: claim_def)
next
  case (Inr p)
  obtain base quote where p: "p = (base, quote)" by (cases p)
  obtain b sl where l: "claim_legs D s base quote = (b, sl)" by fastforce
  note v = claim_legs_venues [OF l]
  show ?thesis
  proof (cases "can_exec (can_execute D (ir_venue b) (ir_asset b) (ir_amount b) (ir_venue sl) (ir_asset sl) (ir_amount sl) t)")
    case True
    from claim_reserves [OF v True] Inr p l True show ?thesis by (auto simp: claim_def)
  next
    case False
    with Inr p l show ?thesis by (auto simp: claim_def Let_def)
  qed
qed

text \<open>
  Completing an execution gives the inventory back.  On grid-quoted balances with
  non-negative reservations, claiming a signal and releasing its reservations afterwards restores
  every entry of the tracker, whatever the outcome of the execution in between.
\<close>

lemma claim_then_release_restores:
  assumes "decimal_arith D" "grid_ok g B" "grid_balances g B (balances t)" "grid_balances g B (balances t')"
    and "\<forall>k. 0 \<le> vb_reserved (balance_or_zero t k)"
    and "claim D s t = (t', Inr rs)" "\<forall>r \<in> set rs. in_grid g B (ir_amount r) \<and> 0 \<le> ir_amount r"
  shows "\<forall>k. balance_or_zero (release_all D rs t') k = balance_or_zero t k"
proof -
  from assms(6) obtain base quote b sl t1 where c: "claim_legs D s base quote = (b, sl)" "rs = [b, sl]"
    "reserve_ir D b t = Ok t1" "reserve_ir D sl t1 = Ok t'"
    by (auto simp: claim_def Let_def split: sum.splits prod.splits if_splits outcome.splits)
  note v = claim_legs_venues [OF c(1)]
  let ?kb = "(ir_venue b, ir_asset b)" let ?ks = "(ir_venue sl, ir_asset sl)"
  have amt: "in_grid g B (ir_amount b)" "0 \<le> ir_amount b" "in_grid g B (ir_amount sl)" "0 \<le> ir_amount sl"
    using assms(7) c(2) by auto
  have rb: "reserve D (ir_venue b) (ir_asset b) (ir_amount b) t = Ok t1"
    and rs: "reserve D (ir_venue sl) (ir_asset sl) (ir_amount sl) t1 = Ok t'"
    using c(3,4) by (simp_all add: reserve_ir_def)
  have g1: "grid_balances g B (balances t1)"
    using assms(3,4) v balances_reserve [OF rb] balances_reserve [OF rs]
    unfolding grid_balances_def by (metis fst_conv fun_upd_apply)
  have z1: "balance_or_zero t1 ?ks = balance_or_zero t ?ks"
    using balances_reserve [OF rb] v by (auto simp: balance_or_zero_def)
  note eb = reserve_release_entry [OF assms(1-3) g1 amt(1,2) _ rb, simplified assms(5)]
  note es = reserve_release_entry [OF assms(1,2) g1 assms(4) amt(3,4) _ rs, simplified z1 assms(5)]
  have "release_all D rs t' = t'\<lparr>balances := (balances t')(?kb \<mapsto> balance_or_zero t ?kb, ?ks \<mapsto> balance_or_zero t ?ks)\<rparr>"
    using v assms(5) by (simp add: c(2) release_all_def release_ir_def eb es)
  then show ?thesis
    using v assms(5) by (simp add: es eb balance_or_zero_def)
qed

lemma claim_then_release_restores_witness:
  "\<exists>t' rs. claim exact_ops sample_signal sample_tracker = (t', Inr rs)
     \<and> (\<forall>k. balance_or_zero (release_all exact_ops rs t') k = balance_or_zero sample_tracker k)"
proof -
  let ?b = "\<lparr>ir_venue = Binance, ir_asset = ''USDT'', ir_amount = 4\<rparr>"
  let ?s = "\<lparr>ir_venue = Wallet, ir_asset = ''ETH'', ir_amount = 2\<rparr>"
  let ?m = "(balances sample_tracker)((Binance, ''USDT'') \<mapsto> \<lparr>vb_free = 1000, vb_locked = 0, vb_reserved = 4\<rparr>,
      (Wallet, ''ETH'') \<mapsto> \<lparr>vb_free = 1, vb_locked = 0, vb_reserved = 2\<rparr>)"
  have c: "claim exact_ops sample_signal sample_tracker = (sample_tracker\<lparr>balances := ?m\<rparr>, Inr [?b, ?s])"
    by (simp add: claim_def claim_legs_def sample_signal_def split_pair_symbols_def can_execute_def available_def
        get_available_def get_wallet_effective_available_def reserve_ir_def reserve_def balance_or_zero_def
        sample_tracker_balances get_equivalent_assets_def to_uppercase_def upper_char_def Let_def)
  have g: "x \<in> {0, 1, 2, 4, 1000} \<Longrightarrow> on_grid 0 x" for x
    unfolding on_grid_def by (auto intro: exI [of _ 0] exI [of _ 1] exI [of _ 2] exI [of _ 4] exI [of _ 1000])
  have "grid_balances 0 1000 (balances (sample_tracker\<lparr>balances := ?m\<rparr>))"
    by (auto simp: sample_tracker_balances grid_balances_def in_grid_def g split: if_splits)
  from claim_then_release_restores [OF exact_ops.decimal_arith_axioms _ sample_grid(1) this _ c] c
  show ?thesis
    by (fastforce simp: grid_ok_def in_grid_def g balance_or_zero_def zero_balance_def sample_tracker_balances split: option.splits)
qed

end
