(* ===== verification/Safety.thy ===== *)
theory Safety
  imports Signals
begin

text \<open>
  The pre-trade guards: \<open>safety/killswitch.rs\<close> (absolute limits), \<open>safety/limits.rs\<close> (the
  risk manager) and \<open>safety/validator.rs\<close> (signal sanity).

  \<open>SafetyDecision::Blocked\<close> carries a formatted message; the model carries one constructor per
  message with the values it prints.  Counters are naturals: reaching the bound of their \<open>u32\<close>
  type is outside the model.  A method that reads the clock takes the reading \<open>now\<close>.
\<close>

section \<open>Absolute limits\<close>

datatype block_reason =
    TradeExceedsAbsoluteMax dec
  | AbsoluteDailyLoss
  | CapitalBelowMinimum dec
  | AbsoluteHourlyLimit
  | TradeExceedsMax dec dec
  | TradeExceedsCapitalPct dec dec
  | OpenPositionLimit nat
  | DailyLossLimit dec
  | DrawdownLimit dec
  | ConsecutiveLossLimit nat
  | HourlyTradeLimit
  | HourlyTradeLimitResumes nat nat int
  | InvalidCexPrice
  | InvalidDexPrice
  | InvalidTradeSize
  | SpreadTooHigh dec
  | SignalExpired
  | SignalTooOld rat
  | NetPnlNotPositive
  | InventoryCheckFailed
  | OutsideLimits

datatype safety_decision = Allowed | Blocked block_reason

definition allowed :: "safety_decision \<Rightarrow> bool" where
  "allowed d \<longleftrightarrow> d = Allowed"

definition ABSOLUTE_MAX_TRADE_USD :: dec where "ABSOLUTE_MAX_TRADE_USD = 25"
definition ABSOLUTE_MAX_DAILY_LOSS :: dec where "ABSOLUTE_MAX_DAILY_LOSS = 20"
definition ABSOLUTE_MIN_CAPITAL :: dec where "ABSOLUTE_MIN_CAPITAL = 50"
definition ABSOLUTE_MAX_TRADES_PER_HOUR :: nat where "ABSOLUTE_MAX_TRADES_PER_HOUR = 30"

lemmas absolute_limits =
  ABSOLUTE_MAX_TRADE_USD_def ABSOLUTE_MAX_DAILY_LOSS_def
  ABSOLUTE_MIN_CAPITAL_def ABSOLUTE_MAX_TRADES_PER_HOUR_def

definition safety_check :: "dec \<Rightarrow> dec \<Rightarrow> dec \<Rightarrow> nat \<Rightarrow> safety_decision" where
  "safety_check trade_usd daily total_capital trades =
     (if trade_usd > ABSOLUTE_MAX_TRADE_USD then Blocked (TradeExceedsAbsoluteMax trade_usd)
      else if daily \<le> - ABSOLUTE_MAX_DAILY_LOSS then Blocked AbsoluteDailyLoss
      else if total_capital < ABSOLUTE_MIN_CAPITAL then Blocked (CapitalBelowMinimum total_capital)
      else if trades \<ge> ABSOLUTE_MAX_TRADES_PER_HOUR then Blocked AbsoluteHourlyLimit
      else Allowed)"

section \<open>The risk manager\<close>

record risk_limits =
  max_trade_usd :: dec
  max_trade_pct :: dec
  max_position_per_token :: dec
  max_open_positions :: nat
  max_loss_per_trade :: dec
  max_daily_loss :: dec
  max_drawdown_pct :: dec
  max_trades_per_hour :: nat
  consecutive_loss_limit :: nat

definition risk_limits_default :: "dec_ops \<Rightarrow> risk_limits" where
  "risk_limits_default D =
     \<lparr>max_trade_usd = 5,
      max_trade_pct = ddiv D 2000 10000,
      max_position_per_token = 30,
      max_open_positions = 1,
      max_loss_per_trade = 5,
      max_daily_loss = 10,
      max_drawdown_pct = ddiv D 2000 10000,
      max_trades_per_hour = 20,
      consecutive_loss_limit = 3\<rparr>"

record risk_manager =
  limits :: risk_limits
  initial_capital :: dec
  peak_capital :: dec
  current_capital :: dec
  daily_pnl :: dec
  trades_this_hour :: nat
  hour_started_at :: date_time
  consecutive_losses :: nat
  open_positions :: nat

definition risk_manager_new :: "risk_limits \<Rightarrow> dec \<Rightarrow> date_time \<Rightarrow> risk_manager" where
  "risk_manager_new l cap now =
     \<lparr>limits = l, initial_capital = cap, peak_capital = cap, current_capital = cap,
      daily_pnl = 0, trades_this_hour = 0, hour_started_at = now,
      consecutive_losses = 0, open_positions = 0\<rparr>"

definition ONE_HOUR :: int where "ONE_HOUR = 3600 * 1000000000"

definition reset_hour_if_needed :: "date_time \<Rightarrow> risk_manager \<Rightarrow> risk_manager" where
  "reset_hour_if_needed now m =
     (if now - hour_started_at m \<ge> ONE_HOUR
      then m\<lparr>trades_this_hour := 0, hour_started_at := now\<rparr> else m)"

definition drawdown_pct :: "dec_ops \<Rightarrow> risk_manager \<Rightarrow> dec" where
  "drawdown_pct D m =
     (if peak_capital m \<le> 0 then 0
      else ddiv D (dsub D (peak_capital m) (current_capital m)) (peak_capital m))"

definition check_pre_trade ::
    "dec_ops \<Rightarrow> signal \<Rightarrow> date_time \<Rightarrow> risk_manager \<Rightarrow> risk_manager \<times> safety_decision" where
  "check_pre_trade D sig now m0 =
     (let m = reset_hour_if_needed now m0;
          trade_value = notional_usd sig;
          l = limits m;
          drawdown = drawdown_pct D m
      in (m,
          if trade_value > max_trade_usd l
            then Blocked (TradeExceedsMax trade_value (max_trade_usd l))
          else if trade_value > dmul D (current_capital m) (max_trade_pct l)
            then Blocked (TradeExceedsCapitalPct trade_value (max_trade_pct l))
          else if open_positions m \<ge> max_open_positions l
            then Blocked (OpenPositionLimit (open_positions m))
          else if daily_pnl m \<le> - max_daily_loss l
            then Blocked (DailyLossLimit (daily_pnl m))
          else if drawdown \<ge> max_drawdown_pct l
            then Blocked (DrawdownLimit drawdown)
          else if consecutive_losses m \<ge> consecutive_loss_limit l
            then Blocked (ConsecutiveLossLimit (consecutive_losses m))
          else if trades_this_hour m \<ge> max_trades_per_hour l
            then Blocked HourlyTradeLimit
          else safety_check trade_value (daily_pnl m) (current_capital m) (trades_this_hour m)))"

definition num_seconds :: "int \<Rightarrow> int" where
  "num_seconds ns = sgn ns * (\<bar>ns\<bar> div 1000000000)"

definition trading_pause ::
    "dec_ops \<Rightarrow> date_time \<Rightarrow> risk_manager \<Rightarrow> risk_manager \<times> safety_decision" where
  "trading_pause D now m0 =
     (let m = reset_hour_if_needed now m0;
          l = limits m;
          drawdown = drawdown_pct D m
      in (m,
          if open_positions m \<ge> max_open_positions l
            then Blocked (OpenPositionLimit (open_positions m))
          else if daily_pnl m \<le> - max_daily_loss l
            then Blocked (DailyLossLimit (daily_pnl m))
          else if drawdown \<ge> max_drawdown_pct l
            then Blocked (DrawdownLimit drawdown)
          else if consecutive_losses m \<ge> consecutive_loss_limit l
            then Blocked (ConsecutiveLossLimit (consecutive_losses m))
          else if trades_this_hour m \<ge> max_trades_per_hour l
            then (let remaining = ONE_HOUR - (now - hour_started_at m)
                  in Blocked (HourlyTradeLimitResumes (trades_this_hour m) (max_trades_per_hour l)
                                (max 0 (num_seconds remaining))))
          else safety_check 0 (daily_pnl m) (current_capital m) (trades_this_hour m)))"

definition record_trade_started :: "date_time \<Rightarrow> risk_manager \<Rightarrow> risk_manager" where
  "record_trade_started now m0 =
     (let m = reset_hour_if_needed now m0
      in m\<lparr>trades_this_hour := trades_this_hour m + 1, open_positions := open_positions m + 1\<rparr>)"

definition record_trade_result :: "dec_ops \<Rightarrow> dec \<Rightarrow> risk_manager \<Rightarrow> risk_manager" where
  "record_trade_result D pnl m =
     (let cur = dadd D (current_capital m) pnl
      in m\<lparr>daily_pnl := dadd D (daily_pnl m) pnl,
           current_capital := cur,
           peak_capital := (if cur > peak_capital m then cur else peak_capital m),
           open_positions := open_positions m - 1,
           consecutive_losses := (if pnl < 0 then consecutive_losses m + 1 else 0)\<rparr>)"

definition record_trade :: "dec_ops \<Rightarrow> dec \<Rightarrow> date_time \<Rightarrow> risk_manager \<Rightarrow> risk_manager" where
  "record_trade D pnl now m = record_trade_result D pnl (record_trade_started now m)"

definition record_trade_cancelled :: "risk_manager \<Rightarrow> risk_manager" where
  "record_trade_cancelled m = m\<lparr>open_positions := open_positions m - 1\<rparr>"

definition record_trade_not_started :: "risk_manager \<Rightarrow> risk_manager" where
  "record_trade_not_started m =
     m\<lparr>trades_this_hour := trades_this_hour m - 1, open_positions := open_positions m - 1\<rparr>"

definition reset_daily :: "date_time \<Rightarrow> risk_manager \<Rightarrow> risk_manager" where
  "reset_daily now m =
     m\<lparr>daily_pnl := 0, trades_this_hour := 0, consecutive_losses := 0, hour_started_at := now\<rparr>"

definition is_below_absolute_min_capital :: "risk_manager \<Rightarrow> bool" where
  "is_below_absolute_min_capital m \<longleftrightarrow> current_capital m < ABSOLUTE_MIN_CAPITAL"

section \<open>The pre-trade validator\<close>

record pre_trade_validator =
  max_spread_bps :: dec
  max_age_seconds :: rat

definition pre_trade_validator_default :: pre_trade_validator where
  "pre_trade_validator_default = \<lparr>max_spread_bps = 500, max_age_seconds = 5\<rparr>"

definition validate_signal :: "pre_trade_validator \<Rightarrow> signal \<Rightarrow> date_time \<Rightarrow> safety_decision" where
  "validate_signal v s now =
     (if cex_price s \<le> 0 then Blocked InvalidCexPrice
      else if dex_price s \<le> 0 then Blocked InvalidDexPrice
      else if sig_size s \<le> 0 then Blocked InvalidTradeSize
      else if spread_bps s > max_spread_bps v then Blocked (SpreadTooHigh (spread_bps s))
      else if now \<ge> expiry s then Blocked SignalExpired
      else if age_seconds s now > max_age_seconds v then Blocked (SignalTooOld (age_seconds s now))
      else if expected_net_pnl s \<le> 0 then Blocked NetPnlNotPositive
      else if \<not> inventory_ok s then Blocked InventoryCheckFailed
      else if \<not> within_limits s then Blocked OutsideLimits
      else Allowed)"

section \<open>Runs of the trade protocol\<close>

text \<open>
  How the bot drives the risk manager (\<open>bin/arb_bot.rs\<close>).  The tick task asks
  \<open>check_pre_trade\<close>, and only when it was allowed, and after some awaits, calls
  \<open>record_trade_started\<close>; a signal the queue refuses is rolled back.  Meanwhile the completion
  task records results and cancellations at any moment, also between the check and the start.
  The flag of a protocol state says that the last check was allowed and its trade has not
  started yet.
\<close>

type_synonym risk_state = "risk_manager \<times> bool"

inductive risk_step :: "dec_ops \<Rightarrow> risk_state \<Rightarrow> risk_state \<Rightarrow> bool" for D where
  check: "check_pre_trade D sig now m = (m', d) \<Longrightarrow> risk_step D (m, a) (m', allowed d)"
| start: "risk_step D (m, True) (record_trade_started now m, False)"
| skip: "risk_step D (m, a) (m, False)"
| pause: "trading_pause D now m = (m', d) \<Longrightarrow> risk_step D (m, a) (m', a)"
| result: "risk_step D (m, a) (record_trade_result D pnl m, a)"
| cancelled: "risk_step D (m, a) (record_trade_cancelled m, a)"
| not_started: "risk_step D (m, a) (record_trade_not_started m, a)"
| daily: "risk_step D (m, a) (reset_daily now m, a)"

inductive risk_reach :: "dec_ops \<Rightarrow> risk_limits \<Rightarrow> dec \<Rightarrow> risk_state \<Rightarrow> bool" for D l cap where
  init: "risk_reach D l cap (risk_manager_new l cap now, False)"
| step: "risk_reach D l cap s \<Longrightarrow> risk_step D s s' \<Longrightarrow> risk_reach D l cap s'"

inductive_cases risk_stepE: "risk_step D (m, a) s'"

text \<open>
  The protocol invariant: the configured limits never change, the counters respect both the
  configured and the absolute limits, a pending start still has room for its trade, and the
  peak is a running maximum of the capital.
\<close>

definition risk_inv :: "risk_limits \<Rightarrow> risk_state \<Rightarrow> bool" where
  "risk_inv l s \<longleftrightarrow>
     limits (fst s) = l
     \<and> trades_this_hour (fst s) \<le> min (max_trades_per_hour l) ABSOLUTE_MAX_TRADES_PER_HOUR
     \<and> open_positions (fst s) \<le> max_open_positions l
     \<and> (snd s \<longrightarrow> trades_this_hour (fst s) < min (max_trades_per_hour l) ABSOLUTE_MAX_TRADES_PER_HOUR
               \<and> open_positions (fst s) < max_open_positions l)
     \<and> current_capital (fst s) \<le> peak_capital (fst s)
     \<and> initial_capital (fst s) \<le> peak_capital (fst s)"

lemmas risk_ops =
  reset_hour_if_needed_def record_trade_started_def record_trade_result_def
  record_trade_cancelled_def record_trade_not_started_def reset_daily_def

lemma check_pre_trade_state: "fst (check_pre_trade D sig now m) = reset_hour_if_needed now m"
  by (simp add: check_pre_trade_def Let_def)

lemma trading_pause_state: "fst (trading_pause D now m) = reset_hour_if_needed now m"
  by (simp add: trading_pause_def Let_def)

text \<open>What an allowed decision establishes, limit by limit.\<close>

lemma safety_check_Allowed_iff:
  "safety_check t p c n = Allowed \<longleftrightarrow>
     t \<le> ABSOLUTE_MAX_TRADE_USD \<and> - ABSOLUTE_MAX_DAILY_LOSS < p \<and> ABSOLUTE_MIN_CAPITAL \<le> c
     \<and> n < ABSOLUTE_MAX_TRADES_PER_HOUR"
  by (auto simp: safety_check_def not_le not_less)

lemma check_pre_trade_Allowed_iff:
  "check_pre_trade D sig now m0 = (m, Allowed) \<longleftrightarrow>
     m = reset_hour_if_needed now m0
     \<and> notional_usd sig \<le> min (max_trade_usd (limits m)) ABSOLUTE_MAX_TRADE_USD
     \<and> notional_usd sig \<le> dmul D (current_capital m) (max_trade_pct (limits m))
     \<and> open_positions m < max_open_positions (limits m)
     \<and> - max_daily_loss (limits m) < daily_pnl m \<and> - ABSOLUTE_MAX_DAILY_LOSS < daily_pnl m
     \<and> drawdown_pct D m < max_drawdown_pct (limits m)
     \<and> consecutive_losses m < consecutive_loss_limit (limits m)
     \<and> trades_this_hour m < min (max_trades_per_hour (limits m)) ABSOLUTE_MAX_TRADES_PER_HOUR
     \<and> ABSOLUTE_MIN_CAPITAL \<le> current_capital m"
  by (auto simp: check_pre_trade_def Let_def safety_check_Allowed_iff not_le not_less split: if_splits)

lemma risk_inv_new: "risk_inv l (risk_manager_new l cap now, False)"
  by (simp add: risk_inv_def risk_manager_new_def)

lemma reset_hour_inv: "risk_inv l (m, a) \<Longrightarrow> risk_inv l (reset_hour_if_needed now m, a)"
  by (auto simp: risk_inv_def risk_ops)

lemma check_inv:
  assumes "risk_inv l (m, a)" and "check_pre_trade D sig now m = (m', d)"
  shows "risk_inv l (m', allowed d)"
proof -
  from assms(2) have m': "m' = reset_hour_if_needed now m"
    using check_pre_trade_state [of D sig now m] by simp
  with assms(1) have inv: "risk_inv l (m', a)" by (simp add: reset_hour_inv)
  show ?thesis
  proof (cases d)
    case Allowed
    with assms(2) inv show ?thesis
      by (auto simp: check_pre_trade_Allowed_iff risk_inv_def allowed_def)
  next
    case (Blocked r)
    with inv show ?thesis by (simp add: risk_inv_def allowed_def)
  qed
qed

lemma risk_step_inv: "risk_step D s s' \<Longrightarrow> risk_inv l s \<Longrightarrow> risk_inv l s'"
proof (induction rule: risk_step.induct)
  case (check sig now m m' d a)
  then show ?case by (blast intro: check_inv)
next
  case (start m now)
  then show ?case by (auto simp: risk_inv_def risk_ops Let_def)
next
  case (pause now m m' d a)
  then show ?case using trading_pause_state [of D now m] by (simp add: reset_hour_inv)
next
  case (result m a pnl)
  then show ?case by (auto simp: risk_inv_def record_trade_result_def Let_def)
qed (auto simp: risk_inv_def risk_ops)

lemma risk_reach_inv: "risk_reach D l cap s \<Longrightarrow> risk_inv l s"
  by (induction rule: risk_reach.induct) (auto intro: risk_inv_new risk_step_inv)

text \<open>
  C20: in every run of the trade protocol, with completions interleaved anywhere, the number of
  trades in the current hour never exceeds the configured or the absolute hourly limit, the
  number of open positions never exceeds the configured limit, the limits in force are the
  configured ones, and the recorded peak bounds the current and the initial capital.
\<close>

theorem risk_limits_respected:
  assumes "risk_reach D l cap (m, armed)"
  shows "limits m = l
    \<and> trades_this_hour m \<le> max_trades_per_hour l \<and> trades_this_hour m \<le> 30
    \<and> open_positions m \<le> max_open_positions l
    \<and> current_capital m \<le> peak_capital m \<and> initial_capital m \<le> peak_capital m"
  using risk_reach_inv [OF assms] by (auto simp: risk_inv_def absolute_limits)


definition sample_limits :: risk_limits where
  "sample_limits = risk_limits_default exact_ops"

lemma sample_limits_fields [simp]:
  "max_trade_usd sample_limits = 5" "max_trade_pct sample_limits = 1 / 5"
  "max_open_positions sample_limits = 1" "max_daily_loss sample_limits = 10"
  "max_drawdown_pct sample_limits = 1 / 5" "max_trades_per_hour sample_limits = 20"
  "consecutive_loss_limit sample_limits = 3"
  by (simp_all add: sample_limits_def risk_limits_default_def)

lemma sample_check_allowed:
  "check_pre_trade exact_ops sample_signal 0 (risk_manager_new sample_limits 100 0)
     = (risk_manager_new sample_limits 100 0, Allowed)"
  by (simp add: check_pre_trade_Allowed_iff reset_hour_if_needed_def risk_manager_new_def
      sample_signal_def absolute_limits drawdown_pct_def ONE_HOUR_def)

theorem risk_limits_respected_witness:
  "risk_reach exact_ops sample_limits 100
      (record_trade_started 1 (risk_manager_new sample_limits 100 0), False)
   \<and> trades_this_hour (record_trade_started 1 (risk_manager_new sample_limits 100 0)) = 1
   \<and> trades_this_hour (record_trade_started 1 (risk_manager_new sample_limits 100 0)) \<le> 30"
proof -
  let ?m = "risk_manager_new sample_limits 100 0"
  have "risk_reach exact_ops sample_limits 100 (?m, allowed Allowed)"
    by (rule risk_reach.step [OF risk_reach.init risk_step.check [OF sample_check_allowed]])
  then have "risk_reach exact_ops sample_limits 100 (?m, True)" by (simp add: allowed_def)
  then have r: "risk_reach exact_ops sample_limits 100 (record_trade_started 1 ?m, False)"
    by (rule risk_reach.step) (rule risk_step.start)
  have "trades_this_hour (record_trade_started 1 ?m) = 1"
    by (simp add: record_trade_started_def reset_hour_if_needed_def risk_manager_new_def ONE_HOUR_def)
  with r risk_limits_respected [OF r] show ?thesis by blast
qed

section \<open>Loss streaks and accounting\<close>

lemma consecutive_losses_result:
  "consecutive_losses (record_trade_result D pnl m) = (if pnl < 0 then consecutive_losses m + 1 else 0)"
  by (simp add: record_trade_result_def Let_def)

lemma totals_result [simp]:
  "current_capital (record_trade_result D pnl m) = dadd D (current_capital m) pnl"
  "daily_pnl (record_trade_result D pnl m) = dadd D (daily_pnl m) pnl"
  by (simp_all add: record_trade_result_def Let_def)

lemma limits_result [simp]: "limits (record_trade_result D pnl m) = limits m"
  by (simp add: record_trade_result_def Let_def)

lemma limits_fold_result [simp]: "limits (fold (record_trade_result D) pnls m) = limits m"
  by (induction pnls arbitrary: m) simp_all

lemma all_losing_streak:
  "\<forall>p \<in> set pnls. p < (0::dec) \<Longrightarrow> length (takeWhile (\<lambda>p. p < 0) (rev pnls)) = length pnls"
  by (subst takeWhile_eq_all_conv [THEN iffD2]) auto

lemma consecutive_losses_fold:
  "consecutive_losses (fold (record_trade_result D) pnls m) =
     (if (\<forall>p \<in> set pnls. p < 0) then consecutive_losses m + length pnls
      else length (takeWhile (\<lambda>p. p < 0) (rev pnls)))"
proof (induction pnls rule: rev_induct)
  case Nil
  then show ?case by simp
next
  case (snoc p ps)
  then show ?case using all_losing_streak [of ps] by (auto simp: consecutive_losses_result)
qed

text \<open>
  The loss streak.  Whatever the arithmetic, after recording any sequence of results on a
  fresh manager the counter is the length of the longest losing suffix of that sequence, and as
  soon as that suffix is as long as the configured limit every signal is refused.
\<close>

lemma loss_streak_blocks:
  fixes D :: dec_ops
  defines "after pnls l cap t0 \<equiv> fold (record_trade_result D) pnls (risk_manager_new l cap t0)"
  shows "consecutive_losses (after pnls l cap t0) = length (takeWhile (\<lambda>p. p < 0) (rev pnls))
    \<and> (consecutive_loss_limit l \<le> length (takeWhile (\<lambda>p. p < 0) (rev pnls))
        \<longrightarrow> \<not> allowed (snd (check_pre_trade D sig now (after pnls l cap t0))))"
proof -
  let ?m = "after pnls l cap t0"
  have streak: "consecutive_losses ?m = length (takeWhile (\<lambda>p. p < 0) (rev pnls))"
  proof (cases "\<forall>p \<in> set pnls. p < 0")
    case True
    with all_losing_streak [OF True] show ?thesis
      unfolding after_def by (simp add: consecutive_losses_fold risk_manager_new_def)
  next
    case False
    then show ?thesis unfolding after_def by (auto simp: consecutive_losses_fold)
  qed
  have lim: "limits ?m = l" unfolding after_def by (simp add: risk_manager_new_def)
  have "\<not> allowed (snd (check_pre_trade D sig now ?m))"
    if "consecutive_loss_limit l \<le> consecutive_losses ?m"
  proof
    assume "allowed (snd (check_pre_trade D sig now ?m))"
    then have "check_pre_trade D sig now ?m = (fst (check_pre_trade D sig now ?m), Allowed)"
      by (metis allowed_def prod.collapse)
    then have "consecutive_losses (reset_hour_if_needed now ?m)
                 < consecutive_loss_limit (limits (reset_hour_if_needed now ?m))"
      unfolding check_pre_trade_Allowed_iff by auto
    with that lim show False by (auto simp: reset_hour_if_needed_def split: if_splits)
  qed
  with streak show ?thesis by auto
qed

lemma loss_streak_blocks_witness:
  "\<not> allowed (snd (check_pre_trade exact_ops sample_signal 0
      (fold (record_trade_result exact_ops) [1, - 1, - 1, - 1] (risk_manager_new sample_limits 100 0))))"
  using loss_streak_blocks [of exact_ops "[1, - 1, - 1, - 1]" sample_limits 100 0 sample_signal 0] by simp

text \<open>
  The two limits \<open>max_position_per_token\<close> and \<open>max_loss_per_trade\<close> are read by no operation:
  changing them changes no decision.
\<close>

text \<open>
  Two configured limits are not enforced.  The decision of \<open>check_pre_trade\<close> is the same
  for every value of \<open>max_position_per_token\<close> and \<open>max_loss_per_trade\<close>.
\<close>

lemma unused_limits_ignored:
  "snd (check_pre_trade D sig now
      (m\<lparr>limits := (limits m)\<lparr>max_position_per_token := x, max_loss_per_trade := y\<rparr>\<rparr>))
   = snd (check_pre_trade D sig now m)"
  by (simp add: check_pre_trade_def reset_hour_if_needed_def drawdown_pct_def Let_def)

text \<open>
  Exact accounting.  On a run of results whose running totals stay representable, the manager's
  capital is the initial capital plus the sum of the results, and its daily figure is the sum.
\<close>

definition partial_sums :: "dec list \<Rightarrow> dec list" where
  "partial_sums pnls = map (\<lambda>n. sum_list (take n pnls)) [0..<Suc (length pnls)]"

lemma sum_list_in_partial_sums: "n \<le> length pnls \<Longrightarrow> sum_list (take n pnls) \<in> set (partial_sums pnls)"
  by (auto simp: partial_sums_def simp del: upt_Suc)

lemma partial_sums_snoc: "set (partial_sums ps) \<subseteq> set (partial_sums (ps @ [p]))"
proof
  fix s
  assume "s \<in> set (partial_sums ps)"
  then obtain n where "n \<le> length ps" "s = sum_list (take n ps)"
    by (auto simp: partial_sums_def less_Suc_eq_le simp del: upt_Suc)
  then show "s \<in> set (partial_sums (ps @ [p]))"
    using sum_list_in_partial_sums [of n "ps @ [p]"] by simp
qed

context decimal_arith
begin

lemma accounting:
  assumes "\<And>p. p \<in> set pnls \<Longrightarrow> is_dec p"
    and "\<And>s. s \<in> set (partial_sums pnls) \<Longrightarrow> is_dec s"
    and "\<And>s. s \<in> set (partial_sums pnls) \<Longrightarrow> is_dec (cap + s)"
    and "current_capital m = cap" and "daily_pnl m = 0"
  shows "current_capital (fold (record_trade_result D) pnls m) = cap + sum_list pnls
       \<and> daily_pnl (fold (record_trade_result D) pnls m) = sum_list pnls"
  using assms
proof (induction pnls rule: rev_induct)
  case Nil
  then show ?case by simp
next
  case (snoc p ps)
  let ?m = "fold (record_trade_result D) ps m"
  from snoc.prems partial_sums_snoc [of ps p]
  have IH: "current_capital ?m = cap + sum_list ps \<and> daily_pnl ?m = sum_list ps"
    by (intro snoc.IH) auto
  have here: "sum_list ps \<in> set (partial_sums (ps @ [p]))"
    and next_sum: "sum_list ps + p \<in> set (partial_sums (ps @ [p]))"
    using sum_list_in_partial_sums [of "length ps" "ps @ [p]"]
      sum_list_in_partial_sums [of "Suc (length ps)" "ps @ [p]"] by simp_all
  from snoc.prems have p: "is_dec p" by simp
  from snoc.prems(3) [OF here] snoc.prems(3) [OF next_sum] p
  have cap_eq: "dadd D (cap + sum_list ps) p = cap + (sum_list ps + p)"
    by (simp add: add_exact add.assoc)
  from snoc.prems(2) [OF here] snoc.prems(2) [OF next_sum] p
  have day_eq: "dadd D (sum_list ps) p = sum_list ps + p" by (simp add: add_exact)
  from IH cap_eq day_eq show ?case by simp
qed

end

text \<open>
  Exact accounting.  For every decimal arithmetic that is exact on representable results, if
  every running total of a sequence of results is representable then the tracked capital is the
  initial capital plus the sum of the results and the daily figure is their sum.
\<close>

lemma risk_accounting_exact:
  assumes "decimal_arith D"
    and "\<forall>p \<in> set pnls. is_dec p"
    and "\<forall>s \<in> set (partial_sums pnls). is_dec s \<and> is_dec (cap + s)"
  shows "current_capital (fold (record_trade_result D) pnls (risk_manager_new l cap now)) = cap + sum_list pnls
    \<and> daily_pnl (fold (record_trade_result D) pnls (risk_manager_new l cap now)) = sum_list pnls"
  using assms(2,3) by (intro decimal_arith.accounting [OF assms(1)]) (auto simp: risk_manager_new_def)

lemma risk_accounting_exact_witness:
  "current_capital (fold (record_trade_result exact_ops) [3, - 5] (risk_manager_new sample_limits 100 0))
     = 98"
proof -
  have d: "is_dec 3" "is_dec 5" "is_dec 2" "is_dec 98" "is_dec 100" "is_dec 103"
    by (simp_all add: is_dec_numeral)
  have "partial_sums [3, - 5] = [0, 3, - 2]" by (simp add: partial_sums_def)
  with d have "current_capital (fold (record_trade_result exact_ops) [3, - 5]
      (risk_manager_new sample_limits 100 0)) = 100 + sum_list [3, - 5]"
    by (intro conjunct1 [OF risk_accounting_exact] exact_ops.decimal_arith_axioms) auto
  then show ?thesis by simp
qed

text \<open>
  The validator and the executor agree.  A signal that the pre-trade validator accepts, and
  that the scorer gives a positive score, passes the executor's own validity test at that moment;
  its prices and size are positive and its spread is within the configured bound.
\<close>

lemma validated_signal_is_valid:
  assumes "validate_signal v s now = Allowed"
  shows "(is_valid (s\<lparr>score := sc\<rparr>) now \<longleftrightarrow> 0 < sc)
    \<and> 0 < cex_price s \<and> 0 < dex_price s \<and> 0 < sig_size s \<and> spread_bps s \<le> max_spread_bps v"
  using assms by (auto simp: validate_signal_def is_valid_def not_le not_less split: if_splits)

lemma validated_signal_is_valid_witness:
  "validate_signal pre_trade_validator_default sample_signal 1000000000 = Allowed
   \<and> is_valid (sample_signal\<lparr>score := 70\<rparr>) 1000000000"
proof -
  have v: "validate_signal pre_trade_validator_default sample_signal 1000000000 = Allowed"
    by (simp add: validate_signal_def pre_trade_validator_default_def sample_signal_def
        age_seconds_def num_milliseconds_def)
  with validated_signal_is_valid [OF v, of 70] show ?thesis by simp
qed

end
