(* ===== verification/Rounding.thy ===== *)
theory Rounding
  imports Prelude
begin

text \<open>
  The two number types whose operations round, \<open>Decimal\<close> and \<open>f64\<close>, and the law the proofs use when an
  exact result is not representable: a rounded result never leaves an interval whose two ends are
  representable and that contains the exact result.
\<close>

section \<open>Decimals\<close>

locale decimal_faithful =
  fixes D :: dec_ops
  assumes add_between: "is_dec lo \<Longrightarrow> is_dec hi \<Longrightarrow> lo \<le> x + y \<Longrightarrow> x + y \<le> hi \<Longrightarrow> lo \<le> dadd D x y \<and> dadd D x y \<le> hi"
    and sub_between: "is_dec lo \<Longrightarrow> is_dec hi \<Longrightarrow> lo \<le> x - y \<Longrightarrow> x - y \<le> hi \<Longrightarrow> lo \<le> dsub D x y \<and> dsub D x y \<le> hi"
    and mul_between: "is_dec lo \<Longrightarrow> is_dec hi \<Longrightarrow> lo \<le> x * y \<Longrightarrow> x * y \<le> hi \<Longrightarrow> lo \<le> dmul D x y \<and> dmul D x y \<le> hi"
    and div_between: "is_dec lo \<Longrightarrow> is_dec hi \<Longrightarrow> y \<noteq> 0 \<Longrightarrow> lo \<le> x / y \<Longrightarrow> x / y \<le> hi \<Longrightarrow> lo \<le> ddiv D x y \<and> ddiv D x y \<le> hi"
begin

lemma add_within: "is_dec (a + c) \<Longrightarrow> is_dec (b + d) \<Longrightarrow> a \<le> x \<Longrightarrow> x \<le> b \<Longrightarrow> c \<le> y \<Longrightarrow> y \<le> d
   \<Longrightarrow> a + c \<le> dadd D x y \<and> dadd D x y \<le> b + d"
  by (intro add_between) auto

lemma sub_within: "is_dec (a - d) \<Longrightarrow> is_dec (b - c) \<Longrightarrow> a \<le> x \<Longrightarrow> x \<le> b \<Longrightarrow> c \<le> y \<Longrightarrow> y \<le> d
   \<Longrightarrow> a - d \<le> dsub D x y \<and> dsub D x y \<le> b - c"
  by (intro sub_between) auto

lemma mul_within: "is_dec (a * c) \<Longrightarrow> is_dec (b * d) \<Longrightarrow> 0 \<le> a \<Longrightarrow> 0 \<le> c \<Longrightarrow> a \<le> x \<Longrightarrow> x \<le> b \<Longrightarrow> c \<le> y \<Longrightarrow> y \<le> d
   \<Longrightarrow> a * c \<le> dmul D x y \<and> dmul D x y \<le> b * d"
  by (intro mul_between) (auto intro!: mult_mono)

lemma fraction_within:
  assumes "0 \<le> x" "x \<le> y" "0 < y"
  shows "0 \<le> ddiv D x y \<and> ddiv D x y \<le> 1"
  using assms by (intro div_between) auto

lemma mul_exact_dec: "is_dec (x * y) \<Longrightarrow> dmul D x y = x * y"
  using mul_between [of "x * y" "x * y"] by (auto intro: antisym)

lemma add_exact_dec: "is_dec (x + y) \<Longrightarrow> dadd D x y = x + y"
  using add_between [of "x + y" "x + y"] by (auto intro: antisym)

lemma sub_exact_dec: "is_dec (x - y) \<Longrightarrow> dsub D x y = x - y"
  using sub_between [of "x - y" "x - y"] by (auto intro: antisym)

lemma div_exact_dec: "y \<noteq> 0 \<Longrightarrow> is_dec (x / y) \<Longrightarrow> ddiv D x y = x / y"
  using div_between [of "x / y" "x / y" y x] by (auto intro: antisym)

end

sublocale decimal_faithful \<subseteq> decimal_arith
  by unfold_locales (auto simp: mul_exact_dec add_exact_dec sub_exact_dec div_exact_dec)

interpretation exact_ops: decimal_faithful exact_ops
  by unfold_locales simp_all

text \<open>The rounding instance is faithful: every decimal is a multiple of \<open>10 ^ -28\<close>.\<close>

lemma is_dec_scaled:
  assumes "is_dec r"
  shows "\<exists>m::int. r * 10 ^ 28 = of_int m"
proof -
  from assms obtain e m where em: "e \<le> 28" "r = of_int m / 10 ^ e" by (auto simp: is_dec_iff)
  have "(10::rat) ^ 28 = 10 ^ (28 - e) * 10 ^ e" using em(1) by (simp flip: power_add)
  then have "r * 10 ^ 28 = of_int m / 10 ^ e * (10 ^ (28 - e) * 10 ^ e)" using em(2) by (simp only:)
  then have "r * 10 ^ 28 = of_int (m * 10 ^ (28 - e))" by simp
  then show ?thesis by blast
qed

lemma round_dec_between:
  assumes "is_dec lo" "is_dec hi" "lo \<le> r" "r \<le> hi"
  shows "lo \<le> round_dec r \<and> round_dec r \<le> hi"
proof -
  from is_dec_scaled assms obtain a b :: int where ab: "lo * 10 ^ 28 = of_int a" "hi * 10 ^ 28 = of_int b" by meson
  have "lo * 10 ^ 28 \<le> r * 10 ^ 28" "r * 10 ^ 28 \<le> hi * 10 ^ 28"
    using assms by (auto intro!: mult_right_mono)
  then have "a \<le> round (r * 10 ^ 28)" "round (r * 10 ^ 28) \<le> b"
    using round_mono ab by (metis round_of_int)+
  then have "lo * 10 ^ 28 \<le> of_int (round (r * 10 ^ 28))" "of_int (round (r * 10 ^ 28)) \<le> hi * 10 ^ 28"
    using ab by (metis of_int_le_iff)+
  then have "lo \<le> of_int (round (r * 10 ^ 28)) / 10 ^ 28" "of_int (round (r * 10 ^ 28)) / 10 ^ 28 \<le> hi"
    by (simp_all add: pos_le_divide_eq pos_divide_le_eq)
  with assms show ?thesis by (simp add: round_dec_def)
qed

interpretation rounding_ops: decimal_faithful rounding_ops
  by unfold_locales (simp_all add: rounding_ops_def round_dec_between)

section \<open>Doubles\<close>

text \<open>
  Binary floating point, for the few places that leave \<open>Decimal\<close>: the operations, and the conversions
  to \<open>Decimal\<close> (\<open>from_f64_retain\<close> and \<open>from_f64\<close>) and from it (\<open>to_f64\<close>), which may fail.  \<open>is_f64\<close> holds of rationals that are finite doubles: a
  53-bit mantissa over a power of two (large and subnormal exponents are left out, so the law below is
  used for fewer values than IEEE 754 gives it).
\<close>

record f64_ops =
  fadd :: "rat \<Rightarrow> rat \<Rightarrow> rat"
  fmul :: "rat \<Rightarrow> rat \<Rightarrow> rat"
  fdiv :: "rat \<Rightarrow> rat \<Rightarrow> rat"
  fsub :: "rat \<Rightarrow> rat \<Rightarrow> rat"
  f_of_int :: "int \<Rightarrow> rat"
  dec_of_f64 :: "rat \<Rightarrow> dec option"
  dec_from_f64 :: "rat \<Rightarrow> dec option"
  f64_of_dec :: "dec \<Rightarrow> rat option"

definition is_f64 :: "rat \<Rightarrow> bool" where
  "is_f64 r \<longleftrightarrow> (\<exists>(m::int) e. \<bar>m\<bar> < 2 ^ 53 \<and> e \<le> 1000 \<and> r = of_int m / 2 ^ e)"

locale f64_faithful =
  fixes F :: f64_ops
  assumes fmul_between: "is_f64 lo \<Longrightarrow> is_f64 hi \<Longrightarrow> lo \<le> x * y \<Longrightarrow> x * y \<le> hi \<Longrightarrow> lo \<le> fmul F x y \<and> fmul F x y \<le> hi"
    and fdiv_between: "is_f64 lo \<Longrightarrow> is_f64 hi \<Longrightarrow> y \<noteq> 0 \<Longrightarrow> lo \<le> x / y \<Longrightarrow> x / y \<le> hi \<Longrightarrow> lo \<le> fdiv F x y \<and> fdiv F x y \<le> hi"
    and fsub_between: "is_f64 lo \<Longrightarrow> is_f64 hi \<Longrightarrow> lo \<le> x - y \<Longrightarrow> x - y \<le> hi \<Longrightarrow> lo \<le> fsub F x y \<and> fsub F x y \<le> hi"
    and of_int_between: "is_f64 lo \<Longrightarrow> is_f64 hi \<Longrightarrow> lo \<le> of_int n \<Longrightarrow> of_int n \<le> hi \<Longrightarrow> lo \<le> f_of_int F n \<and> f_of_int F n \<le> hi"
    and retain_between: "is_dec lo \<Longrightarrow> is_dec hi \<Longrightarrow> lo \<le> x \<Longrightarrow> x \<le> hi \<Longrightarrow> dec_of_f64 F x = Some d \<Longrightarrow> lo \<le> d \<and> d \<le> hi"

definition exact_f64 :: f64_ops where
  "exact_f64 = \<lparr>fadd = (+), fmul = (*), fdiv = (/), fsub = (-), f_of_int = of_int, dec_of_f64 = Some, dec_from_f64 = Some, f64_of_dec = Some\<rparr>"

lemma exact_f64_simps [simp, dec_simps]:
  "fadd exact_f64 = (+)" "fmul exact_f64 = (*)" "fdiv exact_f64 = (/)" "fsub exact_f64 = (-)" "f_of_int exact_f64 = of_int"
  "dec_of_f64 exact_f64 = Some" "dec_from_f64 exact_f64 = Some" "f64_of_dec exact_f64 = Some"
  by (simp_all add: exact_f64_def)

interpretation exact_f64: f64_faithful exact_f64
  by unfold_locales simp_all

lemma is_f64_of_int: "\<bar>m\<bar> < 2 ^ 53 \<Longrightarrow> is_f64 (of_int m)"
  unfolding is_f64_def by (intro exI [of _ m] exI [of _ 0]) simp

lemma is_f64_zero [simp]: "is_f64 0"
  using is_f64_of_int [of 0] by simp

lemma is_f64_one [simp]: "is_f64 1"
  using is_f64_of_int [of 1] by simp

end
