(* ===== verification/Generator.thy ===== *)
theory Generator
  imports Rounding Fees Signal_Queue
begin

text \<open>
  \<open>strategy/generator.rs\<close>: from venue prices to a sized, checked signal.  The price source is a
  trait and the inventory is shared: each call of \<open>fetch_prices\<close> and each read of the tracker may see
  a different world.  Call 0 is the probe, call \<open>i\<close> the one of grid point \<open>i\<close>; the environment
  answers by call number.  A decimal division by zero is a panic.
\<close>

section \<open>Data\<close>

text \<open>
  The variants of \<open>StrategyError\<close>; the two messages that \<open>generate\<close> wraps into \<open>Pricing\<close> are kept as
  the data in them.
\<close>

datatype strategy_error =
    ExchangeFailed exchange_error
  | Pricing string
  | MissingUsdPrice string string strategy_error
  | InvalidUsdPrice string dec
  | InvalidPairSymbol string
  | UnknownToken string
  | EmptyOrderBook string

record venue_prices =
  vp_cex_bid :: dec
  vp_cex_ask :: dec
  vp_dex_buy :: dec
  vp_dex_sell :: dec

record generator_config =
  gc_min_spread_bps :: dec
  gc_min_profit_usd :: dec
  gc_max_position_usd :: dec
  gc_signal_ttl :: int
  gc_cooldown :: int

definition DEFAULT_SIGNAL_TTL_SECS :: int where "DEFAULT_SIGNAL_TTL_SECS = 5"
definition DEFAULT_COOLDOWN_SECS :: int where "DEFAULT_COOLDOWN_SECS = 2"

definition generator_config_default :: generator_config where
  "generator_config_default =
     \<lparr>gc_min_spread_bps = 50, gc_min_profit_usd = 5, gc_max_position_usd = 10000,
      gc_signal_ttl = DEFAULT_SIGNAL_TTL_SECS * 1000000000, gc_cooldown = DEFAULT_COOLDOWN_SECS * 1000000000\<rparr>"

record signal_generator =
  sg_fees :: fee_structure
  sg_config :: generator_config
  last_signal_time :: "string \<rightharpoonup> instant"

definition signal_generator_new :: "fee_structure \<Rightarrow> generator_config \<Rightarrow> signal_generator" where
  "signal_generator_new f c = \<lparr>sg_fees = f, sg_config = c, last_signal_time = Map.empty\<rparr>"

definition set_fees :: "fee_structure \<Rightarrow> signal_generator \<Rightarrow> signal_generator" where
  "set_fees f g = g\<lparr>sg_fees := f\<rparr>"

record market_state =
  ms_cex_bid :: dec
  ms_cex_ask :: dec
  ms_dex_buy :: dec
  ms_dex_sell :: dec
  ms_spread_buy_cex_bps :: dec
  ms_spread_buy_dex_bps :: dec
  ms_size :: dec
  ms_quote_usd_price :: dec

text \<open>What the outside answers during one call of \<open>generate\<close>.\<close>

record gen_env =
  fetch_prices :: "nat \<Rightarrow> string \<Rightarrow> dec \<Rightarrow> (strategy_error, venue_prices) outcome"
  get_latest_price :: "string \<Rightarrow> (strategy_error, dec) outcome"
  inventory_at :: "nat \<Rightarrow> inventory_tracker"
  random_id :: "nat \<Rightarrow> string"
  utc_now :: "nat \<Rightarrow> date_time"
  call_time :: instant
  emit_time :: instant

section \<open>Checks\<close>

definition div_or_panic :: "dec_ops \<Rightarrow> dec \<Rightarrow> dec \<Rightarrow> ('e, dec) outcome" where
  "div_or_panic D x y = (if y = 0 then Panic else Ok (ddiv D x y))"

definition split_pair :: "string \<Rightarrow> (strategy_error, string \<times> string) outcome" where
  "split_pair pair = (case split_pair_symbols pair of Inr bq \<Rightarrow> Ok bq | Inl _ \<Rightarrow> Err (InvalidPairSymbol pair))"

definition get_effective_balance :: "dec_ops \<Rightarrow> inventory_tracker \<Rightarrow> venue \<Rightarrow> string \<Rightarrow> dec" where
  "get_effective_balance D t v asset =
     foldl (\<lambda>total eq. dadd D total (case get_available D v eq t of Some x \<Rightarrow> x | None \<Rightarrow> 0))
       0 (get_equivalent_assets asset)"

definition get_effective_wallet_balance :: "dec_ops \<Rightarrow> inventory_tracker \<Rightarrow> string \<Rightarrow> dec" where
  "get_effective_wallet_balance D t asset = get_effective_balance D t Wallet asset"

definition get_effective_cex_balance :: "dec_ops \<Rightarrow> inventory_tracker \<Rightarrow> string \<Rightarrow> dec" where
  "get_effective_cex_balance D t asset = get_effective_balance D t Binance asset"

definition in_cooldown :: "instant \<Rightarrow> string \<Rightarrow> signal_generator \<Rightarrow> bool" where
  "in_cooldown now pair g =
     (case last_signal_time g pair of
        Some t \<Rightarrow> duration_since now t < gc_cooldown (sg_config g)
      | None \<Rightarrow> False)"

text \<open>The safety buffer \<open>Decimal::new(101, 2)\<close>.\<close>

definition buffer :: dec where "buffer = 101 / 100"

definition check_inventory ::
  "dec_ops \<Rightarrow> inventory_tracker \<Rightarrow> string \<Rightarrow> direction \<Rightarrow> dec \<Rightarrow> dec \<Rightarrow> (strategy_error, bool) outcome" where
  "check_inventory D t pair dir sz price =
     bind_out (split_pair pair) (\<lambda>(base, quote).
       let quote_needed = dmul D (dmul D sz price) buffer
       in case dir of
            BuyCexSellDex \<Rightarrow>
              Ok (get_effective_cex_balance D t quote \<ge> quote_needed \<and> get_effective_wallet_balance D t base \<ge> sz)
          | BuyDexSellCex \<Rightarrow>
              Ok (get_effective_wallet_balance D t quote \<ge> quote_needed \<and> get_effective_cex_balance D t base \<ge> sz))"

text \<open>\<open>chrono::Duration::from_std\<close> fails above \<open>i64::MAX\<close> milliseconds.\<close>

definition signal_ttl_or_default :: "int \<Rightarrow> int" where
  "signal_ttl_or_default d = (if d \<le> i64_max * 1000000 then d else DEFAULT_SIGNAL_TTL_SECS * 1000000000)"

section \<open>One grid point\<close>

definition spread_of :: "dec_ops \<Rightarrow> dec \<Rightarrow> dec \<Rightarrow> dec" where
  "spread_of D sell buy = dmul D (ddiv D (dsub D sell buy) buy) BPS_SCALE"

text \<open>The choice of direction: the better spread, if it reaches the minimum.\<close>

definition choose_direction :: "dec_ops \<Rightarrow> generator_config \<Rightarrow> venue_prices \<Rightarrow> (direction \<times> dec \<times> dec \<times> dec) option" where
  "choose_direction D c p =
     (let buy_cex = (if vp_cex_ask p > 0 then spread_of D (vp_dex_sell p) (vp_cex_ask p) else 0);
          buy_dex = (if vp_dex_buy p > 0 then spread_of D (vp_cex_bid p) (vp_dex_buy p) else 0)
      in if buy_cex > buy_dex \<and> buy_cex \<ge> gc_min_spread_bps c
         then Some (BuyCexSellDex, buy_cex, vp_cex_ask p, vp_dex_sell p)
         else if buy_dex \<ge> gc_min_spread_bps c
         then Some (BuyDexSellCex, buy_dex, vp_cex_bid p, vp_dex_buy p)
         else None)"

definition evaluate_size ::
  "dec_ops \<Rightarrow> gen_env \<Rightarrow> signal_generator \<Rightarrow> nat \<Rightarrow> string \<Rightarrow> dec \<Rightarrow> dec \<Rightarrow> (strategy_error, signal option) outcome" where
  "evaluate_size D E g i pair sz quote_usd_price =
     bind_out (fetch_prices E i pair sz) (\<lambda>p.
       if vp_cex_bid p \<le> 0 \<or> vp_cex_ask p \<le> 0 then Err (EmptyOrderBook pair)
       else case choose_direction D (sg_config g) p of
              None \<Rightarrow> Ok None
            | Some (dir, spread, cprice, dprice) \<Rightarrow>
                (let trade_value = dmul D (dmul D sz cprice) quote_usd_price;
                     gross = dmul D (ddiv D spread BPS_SCALE) trade_value;
                     fees_usd = total_fee_usd (breakdown D (sg_fees g) trade_value);
                     net = dsub D gross fees_usd
                 in if net < gc_min_profit_usd (sg_config g) then Ok None
                    else bind_out (check_inventory D (inventory_at E i) pair dir sz cprice) (\<lambda>inv_ok.
                      Ok (Some (signal_new D (random_id E i) (utc_now E i)
                        \<lparr>sp_pair = pair, sp_direction = dir, sp_cex_price = cprice, sp_dex_price = dprice,
                         sp_spread_bps = spread, sp_size = sz, sp_notional_usd = trade_value,
                         sp_expected_gross_pnl = gross, sp_expected_fees = fees_usd, sp_expected_net_pnl = net,
                         sp_ttl = signal_ttl_or_default (gc_signal_ttl (sg_config g)),
                         sp_inventory_ok = inv_ok, sp_within_limits = (trade_value \<le> gc_max_position_usd (sg_config g))\<rparr>)))))"

section \<open>Sizing and grid search\<close>

definition stable_quotes :: "string list" where
  "stable_quotes = [''USDC'', ''USDT'', ''USD'', ''DAI'']"

definition quote_usd :: "gen_env \<Rightarrow> string \<Rightarrow> (strategy_error, dec) outcome" where
  "quote_usd E quote =
     bind_out
       (if quote \<in> set stable_quotes then Ok 1
        else let conv = (if quote = ''WETH'' then ''ETH/USDC'' else quote @ ''/USDC'')
             in case get_latest_price E conv of
                  Ok x \<Rightarrow> Ok x
                | Err e \<Rightarrow> Err (MissingUsdPrice quote conv e)
                | Panic \<Rightarrow> Panic)
       (\<lambda>x. if x \<le> 0 then Err (InvalidUsdPrice quote x) else Ok x)"

text \<open>The largest size that inventory (with its buffer), risk limit and command line allow.\<close>

definition inventory_bound :: "dec_ops \<Rightarrow> dec \<Rightarrow> dec \<Rightarrow> dec \<Rightarrow> (strategy_error, dec) outcome" where
  "inventory_bound D price quote_have base_have =
     (if price > 0
      then bind_out (div_or_panic D quote_have (dmul D price buffer)) (\<lambda>x. Ok (min x base_have))
      else Ok 0)"

definition max_inventory_size ::
  "dec_ops \<Rightarrow> inventory_tracker \<Rightarrow> venue_prices \<Rightarrow> string \<Rightarrow> string \<Rightarrow> (strategy_error, dec) outcome" where
  "max_inventory_size D t p base quote =
     bind_out (inventory_bound D (vp_cex_ask p) (get_effective_cex_balance D t quote) (get_effective_wallet_balance D t base))
       (\<lambda>buy_cex.
     bind_out (inventory_bound D (vp_dex_buy p) (get_effective_wallet_balance D t quote) (get_effective_cex_balance D t base))
       (\<lambda>buy_dex. Ok (max buy_cex buy_dex)))"

definition cap_size :: "dec \<Rightarrow> dec \<Rightarrow> dec \<Rightarrow> dec" where
  "cap_size max_inv max_risk cli =
     (let m = min max_inv max_risk;
          m' = (if cli > 0 then min m cli else m)
      in if m' \<le> 0 then (if cli > 0 then min cli max_risk else max_risk) else m')"

fun grid_search ::
  "dec_ops \<Rightarrow> gen_env \<Rightarrow> signal_generator \<Rightarrow> string \<Rightarrow> dec \<Rightarrow> dec \<Rightarrow> nat list \<Rightarrow> signal option \<times> dec
     \<Rightarrow> (strategy_error, signal option) outcome" where
  "grid_search D E g pair step q [] b = Ok (fst b)"
| "grid_search D E g pair step q (i # is) b =
     (case evaluate_size D E g i pair (dmul D step (of_nat i)) q of
        Ok (Some s) \<Rightarrow>
          grid_search D E g pair step q is
            (if expected_net_pnl s > snd b \<and> inventory_ok s \<and> within_limits s then (Some s, expected_net_pnl s) else b)
      | Ok None \<Rightarrow> grid_search D E g pair step q is b
      | Err e \<Rightarrow> grid_search D E g pair step q is b
      | Panic \<Rightarrow> Panic)"

definition grid_points :: "nat list" where
  "grid_points = [1, 2, 3, 4, 5, 6, 7, 8, 9, 10]"

text \<open>
  Everything before the grid search: the probe, the conversion price and the size bound.  The result is
  the market state to report; its size is not positive when there is nothing to search.
\<close>

definition size_market ::
  "dec_ops \<Rightarrow> gen_env \<Rightarrow> signal_generator \<Rightarrow> string \<Rightarrow> dec \<Rightarrow> venue_prices \<Rightarrow> (strategy_error, market_state) outcome" where
  "size_market D E g pair cli p =
     (if vp_cex_bid p \<le> 0 \<or> vp_cex_ask p \<le> 0 then Err (EmptyOrderBook pair)
      else if vp_dex_buy p = 0 then Panic
      else bind_out (split_pair pair) (\<lambda>(base, quote).
           bind_out (quote_usd E quote) (\<lambda>q.
             let mid = ddiv D (dadd D (vp_cex_bid p) (vp_cex_ask p)) 2;
                 usd = dmul D mid q;
                 max_risk = (if usd > 0 then ddiv D (gc_max_position_usd (sg_config g)) usd else 0)
             in bind_out (max_inventory_size D (inventory_at E 0) p base quote) (\<lambda>max_inv.
                  Ok \<lparr>ms_cex_bid = vp_cex_bid p, ms_cex_ask = vp_cex_ask p, ms_dex_buy = vp_dex_buy p,
                      ms_dex_sell = vp_dex_sell p,
                      ms_spread_buy_cex_bps = spread_of D (vp_dex_sell p) (vp_cex_ask p),
                      ms_spread_buy_dex_bps = spread_of D (vp_cex_bid p) (vp_dex_buy p),
                      ms_size = cap_size max_inv max_risk cli, ms_quote_usd_price = q\<rparr>))))"

definition probe_size :: dec where "probe_size = 1 / 1000"

definition generate ::
  "dec_ops \<Rightarrow> gen_env \<Rightarrow> string \<Rightarrow> dec \<Rightarrow> signal_generator
     \<Rightarrow> signal_generator \<times> (strategy_error, signal option \<times> market_state option) outcome" where
  "generate D E pair cli g =
     (if in_cooldown (call_time E) pair g then (g, Ok (None, None))
      else case fetch_prices E 0 pair probe_size of
             Err e \<Rightarrow> (g, Ok (None, None))
           | Panic \<Rightarrow> (g, Panic)
           | Ok p \<Rightarrow>
               (case size_market D E g pair cli p of
                  Err e \<Rightarrow> (g, Err e)
                | Panic \<Rightarrow> (g, Panic)
                | Ok m \<Rightarrow>
                    (if ms_size m \<le> 0 then (g, Ok (None, Some m))
                     else case grid_search D E g pair (ddiv D (ms_size m) 10) (ms_quote_usd_price m) grid_points (None, 0) of
                            Ok (Some s) \<Rightarrow>
                              (g\<lparr>last_signal_time := (last_signal_time g)(pair \<mapsto> emit_time E)\<rparr>, Ok (Some s, Some m))
                          | Ok None \<Rightarrow> (g, Ok (None, Some m))
                          | Err e \<Rightarrow> (g, Err e)
                          | Panic \<Rightarrow> (g, Panic))))"

section \<open>The stub price source\<close>

text \<open>\<open>StubPriceSource\<close>: order books from the exchange, DEX prices as fixed multiples of their mid.\<close>

type_synonym book_source = "string \<Rightarrow> nat \<Rightarrow> (strategy_error, order_book_snapshot) outcome"

definition DEFAULT_ORDERBOOK_DEPTH :: nat where "DEFAULT_ORDERBOOK_DEPTH = 20"
definition ESTIMATE_PRICE_DEPTH :: nat where "ESTIMATE_PRICE_DEPTH = 5"

definition best_price :: "string \<Rightarrow> level option \<Rightarrow> (strategy_error, dec) outcome" where
  "best_price pair l = (case l of Some (p, q) \<Rightarrow> Ok p | None \<Rightarrow> Err (EmptyOrderBook pair))"

definition stub_fetch_prices :: "dec_ops \<Rightarrow> book_source \<Rightarrow> string \<Rightarrow> dec \<Rightarrow> (strategy_error, venue_prices) outcome" where
  "stub_fetch_prices D books pair sz =
     bind_out (books pair DEFAULT_ORDERBOOK_DEPTH) (\<lambda>ob.
     bind_out (best_price pair (best_bid ob)) (\<lambda>bid.
     bind_out (best_price pair (best_ask ob)) (\<lambda>ask.
       let mid = ddiv D (dadd D bid ask) 2
       in Ok \<lparr>vp_cex_bid = bid, vp_cex_ask = ask, vp_dex_buy = dmul D mid (1005 / 1000),
              vp_dex_sell = dmul D mid (1008 / 1000)\<rparr>)))"

definition stub_latest_price :: "dec_ops \<Rightarrow> book_source \<Rightarrow> string \<Rightarrow> (strategy_error, dec) outcome" where
  "stub_latest_price D books pair =
     bind_out (books pair ESTIMATE_PRICE_DEPTH) (\<lambda>ob.
     bind_out (best_price pair (best_bid ob)) (\<lambda>bid.
     bind_out (best_price pair (best_ask ob)) (\<lambda>ask. Ok (ddiv D (dadd D bid ask) 2))))"

section \<open>Lemmas\<close>

lemma generator_config_kept [simp]:
  "sg_config (fst (generate D E pair cli g)) = sg_config g"
  by (auto simp: generate_def split: outcome.splits option.splits)

text \<open>The buy venue holds the buffered quote amount, the sell venue the base amount.\<close>

definition legs_covered :: "dec_ops \<Rightarrow> inventory_tracker \<Rightarrow> signal \<Rightarrow> string \<Rightarrow> string \<Rightarrow> bool" where
  "legs_covered D t s base quote \<longleftrightarrow>
     dmul D (dmul D (sig_size s) (cex_price s)) buffer \<le> get_effective_balance D t (buy_venue (sig_direction s)) quote
     \<and> sig_size s \<le> get_effective_balance D t (sell_venue (sig_direction s)) base"

lemma check_inventory_iff:
  "check_inventory D t pair (sig_direction s) (sig_size s) (cex_price s) = Ok r \<longleftrightarrow>
     (\<exists>base quote. split_pair_symbols pair = Inr (base, quote) \<and> r = legs_covered D t s base quote)"
  by (cases "split_pair_symbols pair"; cases "sig_direction s")
    (auto simp: check_inventory_def split_pair_def legs_covered_def Let_def
      get_effective_cex_balance_def get_effective_wallet_balance_def)

text \<open>The quoted prices of the chosen direction, its spread and its profitability.\<close>

definition priced_by :: "dec_ops \<Rightarrow> signal_generator \<Rightarrow> venue_prices \<Rightarrow> dec \<Rightarrow> signal \<Rightarrow> bool" where
  "priced_by D g p q s \<longleftrightarrow>
     (case sig_direction s of
        BuyCexSellDex \<Rightarrow> cex_price s = vp_cex_ask p \<and> dex_price s = vp_dex_sell p
          \<and> spread_bps s = spread_of D (vp_dex_sell p) (vp_cex_ask p)
      | BuyDexSellCex \<Rightarrow> cex_price s = vp_cex_bid p \<and> dex_price s = vp_dex_buy p
          \<and> spread_bps s = (if vp_dex_buy p > 0 then spread_of D (vp_cex_bid p) (vp_dex_buy p) else 0))
     \<and> cex_price s > 0 \<and> gc_min_spread_bps (sg_config g) \<le> spread_bps s
     \<and> notional_usd s = dmul D (dmul D (sig_size s) (cex_price s)) q
     \<and> expected_gross_pnl s = dmul D (ddiv D (spread_bps s) BPS_SCALE) (notional_usd s)
     \<and> expected_fees s = total_fee_usd (breakdown D (sg_fees g) (notional_usd s))
     \<and> expected_net_pnl s = dsub D (expected_gross_pnl s) (expected_fees s)
     \<and> gc_min_profit_usd (sg_config g) \<le> expected_net_pnl s"

lemma choose_direction_cases:
  assumes "choose_direction D c p = Some (dir, spread, cprice, dprice)"
  shows "gc_min_spread_bps c \<le> spread"
    "dir = BuyCexSellDex \<and> cprice = vp_cex_ask p \<and> dprice = vp_dex_sell p
       \<and> spread = (if vp_cex_ask p > 0 then spread_of D (vp_dex_sell p) (vp_cex_ask p) else 0)
     \<or> dir = BuyDexSellCex \<and> cprice = vp_cex_bid p \<and> dprice = vp_dex_buy p
       \<and> spread = (if vp_dex_buy p > 0 then spread_of D (vp_cex_bid p) (vp_dex_buy p) else 0)"
  using assms by (auto simp: choose_direction_def Let_def split: if_splits)

lemma evaluate_size_some:
  assumes "evaluate_size D E g i pair x q = Ok (Some s)"
  obtains p base quote where "fetch_prices E i pair x = Ok p" "split_pair_symbols pair = Inr (base, quote)"
    "sig_pair s = pair" "sig_size s = x" "priced_by D g p q s"
    "inventory_ok s = legs_covered D (inventory_at E i) s base quote"
    "within_limits s = (notional_usd s \<le> gc_max_position_usd (sg_config g))"
proof -
  from assms obtain p dir spread cprice dprice where p: "fetch_prices E i pair x = Ok p"
    "0 < vp_cex_bid p" "0 < vp_cex_ask p" "choose_direction D (sg_config g) p = Some (dir, spread, cprice, dprice)"
    by (auto simp: evaluate_size_def outcome_simps Let_def not_le split: if_splits option.splits)
  with assms obtain r where r: "check_inventory D (inventory_at E i) pair dir x cprice = Ok r"
    and s: "sig_pair s = pair" "sig_size s = x" "sig_direction s = dir" "cex_price s = cprice" "inventory_ok s = r"
    and w: "within_limits s = (notional_usd s \<le> gc_max_position_usd (sg_config g))"
    and pr: "priced_by D g p q s"
    using choose_direction_cases [OF p(4)]
    by (auto simp: evaluate_size_def outcome_simps Let_def signal_new_def priced_by_def not_less split: if_splits)
  from r s obtain base quote where "split_pair_symbols pair = Inr (base, quote)"
    "r = legs_covered D (inventory_at E i) s base quote"
    using check_inventory_iff by metis
  with that p(1) s w pr show ?thesis by blast
qed

text \<open>A grid point is viable when the loop may take it.\<close>

definition viable :: "dec_ops \<Rightarrow> gen_env \<Rightarrow> signal_generator \<Rightarrow> string \<Rightarrow> dec \<Rightarrow> dec \<Rightarrow> nat \<Rightarrow> signal \<Rightarrow> bool" where
  "viable D E g pair step q i s \<longleftrightarrow>
     evaluate_size D E g i pair (dmul D step (of_nat i)) q = Ok (Some s)
     \<and> inventory_ok s \<and> within_limits s \<and> 0 < expected_net_pnl s"

primrec pnl_or_zero :: "signal option \<Rightarrow> dec" where
  "pnl_or_zero None = 0"
| "pnl_or_zero (Some s) = expected_net_pnl s"

lemma grid_search_bound:
  assumes "grid_search D E g pair step q is b = Ok r" "snd b = pnl_or_zero (fst b)"
  shows "snd b \<le> pnl_or_zero r \<and> (\<forall>i \<in> set is. \<forall>s. viable D E g pair step q i s \<longrightarrow> expected_net_pnl s \<le> pnl_or_zero r)"
  using assms
proof (induction "is" arbitrary: b)
  case (Cons i "is")
  obtain b' where b': "grid_search D E g pair step q is b' = Ok r" "snd b' = pnl_or_zero (fst b')" "snd b \<le> snd b'"
    "\<And>s. viable D E g pair step q i s \<Longrightarrow> expected_net_pnl s \<le> snd b'"
  proof (cases "evaluate_size D E g i pair (dmul D step (of_nat i)) q")
    case (Ok e)
    then show ?thesis
      using Cons.prems that by (cases e) (auto simp: viable_def not_less split: if_splits)
  qed (use Cons.prems that in \<open>auto simp: viable_def\<close>)
  from Cons.IH [OF b'(1,2)] b'(3,4) show ?case by (auto intro: order_trans)
qed simp

lemma grid_search_source:
  assumes "grid_search D E g pair step q is b = Ok (Some s)" "0 \<le> snd b"
  shows "fst b = Some s \<or> (\<exists>i \<in> set is. viable D E g pair step q i s)"
  using assms
proof (induction "is" arbitrary: b)
  case (Cons i "is")
  show ?case
  proof (cases "evaluate_size D E g i pair (dmul D step (of_nat i)) q")
    case (Ok e)
    show ?thesis
    proof (cases e)
      case (Some s')
      let ?better = "expected_net_pnl s' > snd b \<and> inventory_ok s' \<and> within_limits s'"
      have "grid_search D E g pair step q is (if ?better then (Some s', expected_net_pnl s') else b) = Ok (Some s)"
        using Cons.prems(1) Ok Some by simp
      from Cons.IH [OF this] Cons.prems(2) Ok Some show ?thesis
        by (cases ?better) (auto simp: viable_def)
    qed (use Cons.IH [of b] Cons.prems Ok in auto)
  qed (use Cons.IH [of b] Cons.prems in auto)
qed simp

lemma generate_some:
  assumes "generate D E pair cli g = (g', Ok (Some s, ms))"
  obtains p m where "\<not> in_cooldown (call_time E) pair g" "fetch_prices E 0 pair probe_size = Ok p"
    "size_market D E g pair cli p = Ok m" "ms = Some m" "0 < ms_size m"
    "grid_search D E g pair (ddiv D (ms_size m) 10) (ms_quote_usd_price m) grid_points (None, 0) = Ok (Some s)"
    "g' = g\<lparr>last_signal_time := (last_signal_time g)(pair \<mapsto> emit_time E)\<rparr>"
  using assms by (auto simp: generate_def not_le split: if_splits outcome.splits option.splits)

lemma cap_size_bound:
  assumes "cap_size max_inv max_risk cli = x" "0 < x"
  shows "x \<le> max_risk" "0 < cli \<Longrightarrow> x \<le> cli"
  using assms by (auto simp: cap_size_def Let_def split: if_splits)

text \<open>What a reported signal satisfies, with the market state it was sized by.\<close>

definition sound_signal ::
  "dec_ops \<Rightarrow> gen_env \<Rightarrow> signal_generator \<Rightarrow> string \<Rightarrow> market_state \<Rightarrow> signal \<Rightarrow> bool" where
  "sound_signal D E g pair m s \<longleftrightarrow>
     (\<exists>i \<in> {1..10}. \<exists>p base quote.
        split_pair_symbols pair = Inr (base, quote) \<and> sig_pair s = pair
        \<and> sig_size s = dmul D (ddiv D (ms_size m) 10) (of_nat i)
        \<and> fetch_prices E i pair (sig_size s) = Ok p \<and> priced_by D g p (ms_quote_usd_price m) s
        \<and> legs_covered D (inventory_at E i) s base quote)
     \<and> 0 < expected_net_pnl s \<and> notional_usd s \<le> gc_max_position_usd (sg_config g)
     \<and> inventory_ok s \<and> within_limits s"

lemma grid_points_set: "set grid_points = {1..10}"
  by (rule set_eqI) (simp add: grid_points_def, presburger)

lemma viable_sound:
  assumes "viable D E g pair (ddiv D (ms_size m) 10) (ms_quote_usd_price m) i s" "i \<in> {1..10}"
  shows "sound_signal D E g pair m s"
proof -
  from assms(1) have e: "evaluate_size D E g i pair (dmul D (ddiv D (ms_size m) 10) (of_nat i)) (ms_quote_usd_price m) = Ok (Some s)"
    by (simp add: viable_def)
  from e show ?thesis
    by (rule evaluate_size_some) (use assms in \<open>auto simp: sound_signal_def viable_def\<close>)
qed

lemma generated_is_sound:
  assumes "generate D E pair cli g = (g', Ok (Some s, ms))"
  shows "\<exists>m. ms = Some m \<and> 0 < ms_size m \<and> sound_signal D E g pair m s"
proof -
  from assms obtain m where m: "ms = Some m" "0 < ms_size m"
    "grid_search D E g pair (ddiv D (ms_size m) 10) (ms_quote_usd_price m) grid_points (None, 0) = Ok (Some s)"
    by (rule generate_some)
  from grid_search_source [OF m(3)] obtain i where "i \<in> set grid_points"
    "viable D E g pair (ddiv D (ms_size m) 10) (ms_quote_usd_price m) i s" by auto
  with m show ?thesis using viable_sound grid_points_set by metis
qed

section \<open>A sample market\<close>

text \<open>
  For the witnesses: ETH costs 100 on the exchange and sells for 120 on the DEX; the exchange holds quote,
  the wallet holds base.
\<close>

definition sample_inventory :: inventory_tracker where
  "sample_inventory = \<lparr>balances = (\<lambda>k.
     if k = (Binance, ''USDT'') then Some \<lparr>vb_free = 20000, vb_locked = 0, vb_reserved = 0\<rparr>
     else if k = (Wallet, ''LINK'') then Some \<lparr>vb_free = 10, vb_locked = 0, vb_reserved = 0\<rparr>
     else None), inv_venues = [Binance, Wallet], chain_id = 1\<rparr>"

definition sample_gen_env :: "instant \<Rightarrow> gen_env" where
  "sample_gen_env now =
     \<lparr>fetch_prices = (\<lambda>i pair sz. Ok \<lparr>vp_cex_bid = 99, vp_cex_ask = 100, vp_dex_buy = 125, vp_dex_sell = 120\<rparr>),
      get_latest_price = (\<lambda>pair. Err (UnknownToken pair)),
      inventory_at = (\<lambda>i. sample_inventory), random_id = (\<lambda>i. ''00000000''), utc_now = (\<lambda>i. 0),
      call_time = now, emit_time = now\<rparr>"

definition sample_generator :: "(string \<rightharpoonup> instant) \<Rightarrow> signal_generator" where
  "sample_generator l = (signal_generator_new fee_structure_default generator_config_default)\<lparr>last_signal_time := l\<rparr>"

definition sample_point :: "dec \<Rightarrow> signal" where
  "sample_point x =
     \<lparr>signal_id = ''LINKUSDT_00000000'', sig_pair = ''LINK/USDT'', sig_direction = BuyCexSellDex,
      cex_price = 100, dex_price = 120, spread_bps = 2000, sig_size = x, notional_quote = x * 100,
      notional_usd = x * 100, expected_gross_pnl = 20 * x, expected_fees = 2 * x / 5 + 5, expected_net_pnl = 98 * x / 5 - 5,
      score = 0, timestamp = 0, expiry = 5000000000, inventory_ok = True, within_limits = True\<rparr>"

lemma sample_point_simps [simp]:
  "expected_net_pnl (sample_point x) = 98 * x / 5 - 5" "inventory_ok (sample_point x)" "within_limits (sample_point x)"
  "sig_size (sample_point x) = x" "cex_price (sample_point x) = 100" "dex_price (sample_point x) = 120"
  "sig_direction (sample_point x) = BuyCexSellDex"
  by (simp_all add: sample_point_def)

lemma sample_split [simp]: "split_pair_symbols ''LINK/USDT'' = Inr (''LINK'', ''USDT'')"
  by (simp add: split_pair_symbols_def)

lemma sample_balances [simp]:
  "get_effective_balance exact_ops sample_inventory Binance ''USDT'' = 20000"
  "get_effective_balance exact_ops sample_inventory Wallet ''LINK'' = 10"
  "get_effective_balance exact_ops sample_inventory Wallet ''USDT'' = 0"
  "get_effective_balance exact_ops sample_inventory Binance ''LINK'' = 0"
  by (simp_all add: get_effective_balance_def get_equivalent_assets_def to_uppercase_def upper_char_def Let_def
      get_available_def sample_inventory_def)

lemma sample_evaluate:
  assumes "1 \<le> x" "x \<le> 10"
  shows "evaluate_size exact_ops (sample_gen_env now) (sample_generator l) i ''LINK/USDT'' x 1 = Ok (Some (sample_point x))"
  using assms
  by (simp add: evaluate_size_def sample_gen_env_def sample_generator_def signal_generator_new_def fee_structure_default_def
      generator_config_default_def choose_direction_def spread_of_def BPS_SCALE_def breakdown_def check_inventory_def
      split_pair_def buffer_def get_effective_cex_balance_def get_effective_wallet_balance_def signal_new_def
      sample_point_def generate_id_def signal_ttl_or_default_def i64_max_def DEFAULT_SIGNAL_TTL_SECS_def Let_def)

lemma sample_generator_grid:
  "grid_search exact_ops (sample_gen_env now) (sample_generator l) ''LINK/USDT'' 1 1 grid_points (None, 0) = Ok (Some (sample_point 10))"
  by (simp add: grid_points_def sample_evaluate)

lemma sample_size_market:
  "size_market exact_ops (sample_gen_env now) (sample_generator l) ''LINK/USDT'' 0
     \<lparr>vp_cex_bid = 99, vp_cex_ask = 100, vp_dex_buy = 125, vp_dex_sell = 120\<rparr>
   = Ok \<lparr>ms_cex_bid = 99, ms_cex_ask = 100, ms_dex_buy = 125, ms_dex_sell = 120, ms_spread_buy_cex_bps = 2000,
        ms_spread_buy_dex_bps = -2080, ms_size = 10, ms_quote_usd_price = 1\<rparr>"
  by (simp add: size_market_def split_pair_def quote_usd_def stable_quotes_def sample_gen_env_def sample_generator_def
      signal_generator_new_def generator_config_default_def max_inventory_size_def inventory_bound_def div_or_panic_def
      buffer_def get_effective_cex_balance_def get_effective_wallet_balance_def spread_of_def BPS_SCALE_def cap_size_def Let_def)

lemma sample_generator_update [simp]:
  "(sample_generator l)\<lparr>last_signal_time := l'\<rparr> = sample_generator l'" "last_signal_time (sample_generator l) = l"
  by (simp_all add: sample_generator_def signal_generator_new_def)

lemma sample_generates_at:
  assumes "\<not> in_cooldown now ''LINK/USDT'' (sample_generator l)"
  shows "\<exists>m. generate exact_ops (sample_gen_env now) ''LINK/USDT'' 0 (sample_generator l)
       = (sample_generator (l(''LINK/USDT'' \<mapsto> now)), Ok (Some (sample_point 10), Some m))
     \<and> ms_size m = 10 \<and> ms_quote_usd_price m = 1"
proof -
  have "fetch_prices (sample_gen_env now) 0 ''LINK/USDT'' probe_size =
      Ok \<lparr>vp_cex_bid = 99, vp_cex_ask = 100, vp_dex_buy = 125, vp_dex_sell = 120\<rparr>" "emit_time (sample_gen_env now) = now"
    "call_time (sample_gen_env now) = now"
    by (simp_all add: sample_gen_env_def)
  with assms show ?thesis
    by (simp add: generate_def sample_size_market sample_generator_grid)
qed

lemmas sample_generates = sample_generates_at [of _ Map.empty]

lemma sample_not_cooling [simp]:
  "\<not> in_cooldown now pair (sample_generator Map.empty)" "\<not> in_cooldown 2000000000 pair (sample_generator [pair \<mapsto> 0])"
  by (simp_all add: in_cooldown_def sample_generator_def signal_generator_new_def duration_since_def
      generator_config_default_def DEFAULT_COOLDOWN_SECS_def)



text \<open>
  C24: the grid search is optimal.  Among the ten sizes tried, the emitted signal has the largest
  expected net profit of all viable ones; when sizing succeeded with a positive size and nothing
  is emitted, no grid size was viable.
\<close>

theorem generate_is_optimal:
  assumes "generate D E pair cli g = (g', Ok (r, Some m))" "0 < ms_size m" "i \<in> {1..10}"
    "viable D E g pair (ddiv D (ms_size m) 10) (ms_quote_usd_price m) i s"
  shows "\<exists>s'. r = Some s' \<and> expected_net_pnl s \<le> expected_net_pnl s'"
proof -
  have g: "grid_search D E g pair (ddiv D (ms_size m) 10) (ms_quote_usd_price m) grid_points (None, 0) = Ok r"
    using assms(1,2) by (auto simp: generate_def split: if_splits outcome.splits option.splits)
  have "expected_net_pnl s \<le> pnl_or_zero r"
    using grid_search_bound [OF g] assms(3,4) grid_points_set by simp
  with assms(4) show ?thesis by (cases r) (auto simp: viable_def)
qed

theorem generate_is_optimal_witness:
  "viable exact_ops (sample_gen_env 0) (sample_generator Map.empty) ''LINK/USDT'' 1 1 3 (sample_point 3)
     \<and> expected_net_pnl (sample_point 3) \<le> expected_net_pnl (sample_point 10)"
proof -
  obtain g' m where g: "generate exact_ops (sample_gen_env 0) ''LINK/USDT'' 0 (sample_generator Map.empty) = (g', Ok (Some (sample_point 10), Some m))"
    "ms_size m = 10" "ms_quote_usd_price m = 1" using sample_generates by fastforce
  have v: "viable exact_ops (sample_gen_env 0) (sample_generator Map.empty) ''LINK/USDT'' 1 1 3 (sample_point 3)"
    by (simp add: viable_def sample_evaluate)
  from generate_is_optimal [OF g(1), of 3 "sample_point 3"] v g(2,3) show ?thesis by auto
qed

section \<open>Cooldown over a run\<close>

text \<open>
  A run of calls on one generator, each with its own environment; \<open>emissions\<close> lists when a signal
  for the pair was stamped, with the instant its call started.
\<close>

fun emissions :: "dec_ops \<Rightarrow> string \<Rightarrow> (gen_env \<times> string \<times> dec) list \<Rightarrow> signal_generator \<Rightarrow> (instant \<times> instant) list" where
  "emissions D pair [] g = []"
| "emissions D pair ((E, pr, cli) # cs) g =
     (case generate D E pr cli g of
        (g', Ok (Some s, ms)) \<Rightarrow> (if pr = pair then [(call_time E, emit_time E)] else []) @ emissions D pair cs g'
      | (g', _) \<Rightarrow> emissions D pair cs g')"

lemma generate_none_unchanged:
  assumes "generate D E pr cli g = (g', r)" "\<And>s ms. r \<noteq> Ok (Some s, ms)"
  shows "g' = g"
  using assms by (auto simp: generate_def split: if_splits outcome.splits option.splits)

lemma emissions_after:
  assumes "last_signal_time g pair = Some t" "emissions D pair cs g = (c, e) # es"
  shows "gc_cooldown (sg_config g) \<le> duration_since c t"
  using assms
proof (induction cs arbitrary: g)
  case (Cons call cs)
  obtain E pr cli where call: "call = (E, pr, cli)" by (cases call)
  obtain g' r where g': "generate D E pr cli g = (g', r)" by (cases "generate D E pr cli g")
  have cfg: "sg_config g' = sg_config g" using generator_config_kept [of D E pr cli g] g' by simp
  show ?case
  proof (cases "\<exists>s ms. r = Ok (Some s, ms)")
    case True
    then obtain s ms where r: "r = Ok (Some s, ms)" by blast
    show ?thesis
    proof (cases "pr = pair")
      case True
      then have "c = call_time E" using Cons.prems(2) call g' r by simp
      moreover have "\<not> in_cooldown (call_time E) pair g"
        using g' r True by (auto elim: generate_some)
      ultimately show ?thesis using Cons.prems(1) by (simp add: in_cooldown_def)
    next
      case False
      from g' r have "g' = g\<lparr>last_signal_time := (last_signal_time g)(pr \<mapsto> emit_time E)\<rparr>"
        by (auto elim: generate_some)
      with Cons.prems Cons.IH [of g'] False call g' r show ?thesis by simp
    qed
  next
    case False
    then have "g' = g" using generate_none_unchanged [OF g'] by blast
    with Cons.prems Cons.IH [of g] call g' False show ?thesis
      by (auto split: outcome.splits option.splits prod.splits)
  qed
qed simp

text \<open>
  The cooldown separates signals.  In every run of calls on one generator, for any pairs and any
  behaviour of prices and inventory, a call that emits a signal for a pair starts no earlier than
  the configured cooldown after the previous emission for that pair was stamped.
\<close>

lemma cooldown_separates_signals:
  assumes "emissions D pair cs g = xs @ [(c, e), (c', e')] @ ys"
  shows "gc_cooldown (sg_config g) \<le> duration_since c' e"
  using assms
proof (induction cs arbitrary: g xs)
  case (Cons call cs)
  obtain E pr cli where call: "call = (E, pr, cli)" by (cases call)
  obtain g' r where g': "generate D E pr cli g = (g', r)" by (cases "generate D E pr cli g")
  have cfg: "sg_config g' = sg_config g" using generator_config_kept [of D E pr cli g] g' by simp
  have split: "emissions D pair (call # cs) g =
    (if (\<exists>s ms. r = Ok (Some s, ms)) \<and> pr = pair then [(call_time E, emit_time E)] else []) @ emissions D pair cs g'"
    using call g' by (auto split: outcome.splits option.splits prod.splits)
  show ?case
  proof (cases "(\<exists>s ms. r = Ok (Some s, ms)) \<and> pr = pair \<and> xs = []")
    case True
    with g' have "last_signal_time g' pair = Some (emit_time E)" by (auto elim!: generate_some)
    moreover have "emissions D pair cs g' = (c', e') # ys" "e = emit_time E" using split Cons.prems True by auto
    ultimately show ?thesis using emissions_after cfg by fastforce
  next
    case False
    then have "emissions D pair cs g' =
      (if (\<exists>s ms. r = Ok (Some s, ms)) \<and> pr = pair then tl xs else xs) @ [(c, e), (c', e')] @ ys"
      using split Cons.prems by (cases xs) (auto split: if_splits)
    from Cons.IH [OF this] cfg show ?thesis by simp
  qed
qed simp

lemma cooldown_separates_signals_witness:
  "emissions exact_ops ''LINK/USDT''
     [(sample_gen_env 0, ''LINK/USDT'', 0), (sample_gen_env 2000000000, ''LINK/USDT'', 0)] (sample_generator Map.empty)
     = [(0, 0), (2000000000, 2000000000)]
   \<and> gc_cooldown generator_config_default \<le> duration_since 2000000000 0"
proof -
  have e: "emissions exact_ops ''LINK/USDT''
     [(sample_gen_env 0, ''LINK/USDT'', 0), (sample_gen_env 2000000000, ''LINK/USDT'', 0)] (sample_generator Map.empty)
     = [] @ [(0, 0), (2000000000, 2000000000)] @ []"
    using sample_generates_at [of 0 Map.empty] sample_generates_at [of 2000000000 "[''LINK/USDT'' \<mapsto> 0]"]
    by (auto simp: sample_gen_env_def)
  from cooldown_separates_signals [OF e] e show ?thesis
    by (simp add: sample_generator_def signal_generator_new_def)
qed

section \<open>From the generator to the claim\<close>

text \<open>Every availability is a decimal.\<close>

definition dec_tracker :: "dec_ops \<Rightarrow> inventory_tracker \<Rightarrow> bool" where
  "dec_tracker D t \<longleftrightarrow> (\<forall>v a x. get_available D v a t = Some x \<longrightarrow> is_dec x)"

text \<open>The venue holds the asset under its own name only, which is upper case.\<close>

definition own_key :: "inventory_tracker \<Rightarrow> venue \<Rightarrow> string \<Rightarrow> bool" where
  "own_key t v a \<longleftrightarrow>
     to_uppercase a = a \<and> (\<forall>e \<in> set (get_equivalent_assets a). e \<noteq> a \<longrightarrow> balances t (v, e) = None)"

lemma dec_trackerD: "dec_tracker D t \<Longrightarrow> balances t (v, e) = Some b \<Longrightarrow> is_dec (dsub D (vb_free b) (vb_reserved b))"
  by (fastforce simp: dec_tracker_def get_available_def)

context decimal_faithful
begin

lemma zero_add_dec: "is_dec x \<Longrightarrow> dadd D 0 x = x" "is_dec x \<Longrightarrow> dadd D x 0 = x"
  by (simp_all add: add_exact_dec)

lemma effective_balance_wallet:
  assumes "dec_tracker D t"
  shows "get_effective_balance D t Wallet a = get_wallet_effective_available D a t"
  using dec_trackerD [OF assms, of Wallet]
  by (auto simp: get_effective_balance_def get_wallet_effective_available_def get_available_def
      get_equivalent_assets_def Let_def zero_add_dec split: option.splits)

lemma effective_balance_own_key:
  assumes "dec_tracker D t" "own_key t v a" "v \<noteq> Wallet"
  shows "get_effective_balance D t v a = available D v a t"
proof -
  let ?x = "case get_available D v a t of Some x \<Rightarrow> x | None \<Rightarrow> 0"
  have d: "is_dec ?x" using assms(1) by (auto simp: dec_tracker_def split: option.splits)
  have "available D v a t = ?x" using assms(3) by (simp add: available_def)
  moreover have other: "get_available D v e t = None" if "e \<in> set (get_equivalent_assets a)" "e \<noteq> a" for e
    using assms(2) that by (simp add: own_key_def get_available_def)
  moreover from get_equivalent_assets_cases [of a] assms(2)
  consider "get_equivalent_assets a = [a]" | b where "get_equivalent_assets a = [a, b]"
    | b where "get_equivalent_assets a = [b, a]" by (auto simp: own_key_def)
  then have "get_effective_balance D t v a = ?x"
  proof cases
    case 1
    then show ?thesis using d by (simp add: get_effective_balance_def zero_add_dec)
  next
    case (2 b)
    then have "get_available D v b t = None"
      using other [of b] get_equivalent_assets_distinct [of a] by auto
    with 2 d show ?thesis by (simp add: get_effective_balance_def zero_add_dec)
  next
    case (3 b)
    then have "get_available D v b t = None"
      using other [of b] get_equivalent_assets_distinct [of a] by auto
    with 3 d show ?thesis by (simp add: get_effective_balance_def zero_add_dec)
  qed
  ultimately show ?thesis by simp
qed

lemma covered_legs_claimable:
  assumes t: "dec_tracker D t" "own_key t Binance base" "own_key t Binance quote"
    and s: "split_pair_symbols (sig_pair s) = Inr (base, quote)" "legs_covered D t s base quote"
    and amounts: "0 \<le> sig_size s" "0 \<le> cex_price s" "is_dec (sig_size s * cex_price s)"
      "is_dec (sig_size s * cex_price s * buffer)" "is_dec (sig_size s * dex_price s)"
      "sig_direction s = BuyDexSellCex \<Longrightarrow> dex_price s \<le> cex_price s * buffer"
  shows "\<exists>t' rs. claim D s t = (t', Inr rs)"
proof -
  obtain b sl where legs: "claim_legs D s base quote = (b, sl)" by fastforce
  have need: "dmul D (dmul D (sig_size s) (cex_price s)) buffer = sig_size s * cex_price s * buffer"
    using amounts by (simp add: mul_exact_dec)
  have "sig_size s * cex_price s \<le> sig_size s * cex_price s * buffer"
    using amounts(1,2) mult_left_mono [of 1 buffer "sig_size s * cex_price s"] by (simp add: buffer_def)
  moreover have "sig_size s * dex_price s \<le> sig_size s * cex_price s * buffer" if "sig_direction s = BuyDexSellCex"
    using mult_left_mono [OF amounts(6) [OF that] amounts(1)] by (simp add: mult.assoc)
  ultimately have "ir_amount b \<le> available D (ir_venue b) (ir_asset b) t" "ir_amount sl \<le> available D (ir_venue sl) (ir_asset sl) t"
    using s(2) legs t need amounts effective_balance_wallet [OF t(1)] effective_balance_own_key [OF t(1)]
    by (auto simp: legs_covered_def claim_legs_def mul_exact_dec available_def split: direction.splits)
  then have "can_exec (can_execute D (ir_venue b) (ir_asset b) (ir_amount b) (ir_venue sl) (ir_asset sl) (ir_amount sl) t)"
    by (simp add: can_execute_def Let_def)
  with claim_reserves [OF claim_legs_venues [OF legs]] obtain t1 t2 where
    "reserve_ir D b t = Ok t1" "reserve_ir D sl t1 = Ok t2" by blast
  then show ?thesis
    using s(1) legs \<open>can_exec _\<close> by (simp add: claim_def)
qed

end

text \<open>
  A generated signal can be claimed.  Generator and worker judge the same inventory
  differently (the generator adds up equivalent assets at both venues and applies a buffer, the worker
  looks at one asset per venue without buffer), but they agree in the direction that matters
  when the exchange reports each asset under its own name: if \<open>generate\<close> emits a signal and the
  tracker has not changed since, the worker's claim of that signal succeeds.  The amounts must be
  representable and, when buying on the DEX, the DEX price within the buffer of the CEX price.
\<close>

lemma generated_signal_claimable:
  assumes "decimal_faithful D"
    and "generate D E pair cli g = (g', Ok (Some s, ms))" "\<forall>i. inventory_at E i = t"
    and "split_pair_symbols pair = Inr (base, quote)"
    and "dec_tracker D t" "own_key t Binance base" "own_key t Binance quote"
    and "0 \<le> sig_size s" "is_dec (sig_size s * cex_price s)" "is_dec (sig_size s * cex_price s * buffer)"
      "is_dec (sig_size s * dex_price s)" "sig_direction s = BuyDexSellCex \<longrightarrow> dex_price s \<le> cex_price s * buffer"
  shows "\<exists>t' rs. claim D s t = (t', Inr rs)"
proof -
  from generated_is_sound [OF assms(2)] obtain m :: market_state and p where
    "sig_pair s = pair" "priced_by D g p (ms_quote_usd_price m) s" "legs_covered D t s base quote"
    using assms(3,4) by (auto simp: sound_signal_def)
  moreover from this have "0 \<le> cex_price s" by (simp add: priced_by_def)
  ultimately show ?thesis
    using assms by (intro decimal_faithful.covered_legs_claimable [OF assms(1)]) auto
qed

lemma fold_keeps_None:
  assumes "\<forall>x \<in> set xs. f x \<noteq> k" "m k = None"
  shows "fold (\<lambda>x m. m(f x \<mapsto> g x)) xs m k = None"
  using assms by (induction xs arbitrary: m) auto

lemma arbitrum_no_eth:
  assumes "chain_id t0 = ARBITRUM_CHAIN_ID"
  shows "balances (update_from_cex v bs t0) (v, ''ETH'') = None"
proof -
  have c: "cex_key (chain_id t0) a \<noteq> ''ETH''" for a
    using assms by (auto simp: cex_key_def canonicalize_asset_def Let_def)
  have "fold (\<lambda>x m. m((v, cex_key (chain_id t0) (fst x)) \<mapsto> \<lparr>vb_free = nb_free (snd x), vb_locked = nb_locked (snd x),
      vb_reserved = old_reserved v (balances t0) (cex_key (chain_id t0) (fst x))\<rparr>)) bs (drop_venue v (balances t0)) (v, ''ETH'') = None"
    by (rule fold_keeps_None) (use c in \<open>auto simp: drop_venue_def\<close>)
  then show ?thesis by (simp add: update_from_cex_def case_prod_unfold)
qed

lemma generated_signal_claimable_witness:
  "\<exists>t' rs. claim exact_ops (sample_point 10) sample_inventory = (t', Inr rs)"
proof -
  obtain g' m where g: "generate exact_ops (sample_gen_env 0) ''LINK/USDT'' 0 (sample_generator Map.empty) = (g', Ok (Some (sample_point 10), Some m))"
    using sample_generates by fastforce
  have i: "\<forall>i. inventory_at (sample_gen_env 0) i = sample_inventory" by (simp add: sample_gen_env_def)
  have d: "dec_tracker exact_ops sample_inventory"
    by (auto simp: dec_tracker_def sample_inventory_def get_available_def is_dec_numeral)
  have k: "own_key sample_inventory Binance ''LINK''" "own_key sample_inventory Binance ''USDT''"
    by (simp_all add: own_key_def get_equivalent_assets_def to_uppercase_def upper_char_def)
  show ?thesis
    by (rule generated_signal_claimable [OF exact_ops.decimal_faithful_axioms g i _ d k])
      (simp_all add: buffer_def is_dec_numeral)
qed

text \<open>
  On Arbitrum, ETH legs on the exchange are never claimed.  There \<open>update_from_cex\<close> files an exchange's
  ETH under WETH.  The generator adds ETH and WETH, so it counts the balance as available for a pair
  ETH/quote; the worker looks up ETH itself, finds nothing and turns away every signal that
  sells a positive size of ETH on the exchange, whatever the balance is.
\<close>

lemma arbitrum_eth_leg_rejected:
  assumes "chain_id t0 = ARBITRUM_CHAIN_ID" "split_pair_symbols (sig_pair s) = Inr (''ETH'', quote)"
    "sig_direction s = BuyDexSellCex" "0 < sig_size s"
  shows "let t = update_from_cex Binance bs t0 in
     (\<exists>r. claim D s t = (t, Inl (InsufficientInventory r)))
     \<and> get_effective_cex_balance D t ''ETH''
         = dadd D (dadd D 0 0) (case get_available D Binance ''WETH'' t of Some x \<Rightarrow> x | None \<Rightarrow> 0)"
proof -
  let ?t = "update_from_cex Binance bs t0"
  have n: "get_available D Binance ''ETH'' ?t = None"
    using arbitrum_no_eth [OF assms(1)] by (simp add: get_available_def)
  then have "available D Binance ''ETH'' ?t = 0" by (simp add: available_def)
  then have "\<exists>r. claim D s ?t = (?t, Inl (InsufficientInventory r))"
    using assms by (simp add: claim_def claim_legs_def can_execute_def Let_def)
  moreover have "get_equivalent_assets ''ETH'' = [''ETH'', ''WETH'']"
    by (simp add: get_equivalent_assets_def to_uppercase_def upper_char_def Let_def)
  ultimately show ?thesis
    using n by (simp add: get_effective_cex_balance_def get_effective_balance_def)
qed

lemma arbitrum_eth_leg_rejected_witness:
  "let s = sample_signal\<lparr>sig_pair := ''ETH/USDC'', sig_direction := BuyDexSellCex\<rparr>;
       t = update_from_cex Binance [(''ETH'', \<lparr>nb_free = 100, nb_locked = 0, nb_total = 100\<rparr>)]
             (inventory_tracker_new [Binance, Wallet] ARBITRUM_CHAIN_ID)
   in (\<exists>r. claim exact_ops s t = (t, Inl (InsufficientInventory r))) \<and> sig_size s = 2
      \<and> get_effective_cex_balance exact_ops t ''ETH'' = 100"
proof -
  let ?s = "sample_signal\<lparr>sig_pair := ''ETH/USDC'', sig_direction := BuyDexSellCex\<rparr>"
  let ?bs = "[(''ETH'', \<lparr>nb_free = 100, nb_locked = 0, nb_total = 100\<rparr>)] :: (string \<times> normalized_balance) list"
  let ?t0 = "inventory_tracker_new [Binance, Wallet] ARBITRUM_CHAIN_ID"
  have "chain_id ?t0 = ARBITRUM_CHAIN_ID" "split_pair_symbols (sig_pair ?s) = Inr (''ETH'', ''USDC'')" "0 < sig_size ?s"
    by (simp_all add: inventory_tracker_new_def split_pair_symbols_def sample_signal_def)
  note r = arbitrum_eth_leg_rejected [OF this(1,2) _ this(3), of ?bs exact_ops]
  have "get_available exact_ops Binance ''WETH'' (update_from_cex Binance ?bs ?t0) = Some 100"
    by (simp add: get_available_def update_from_cex_def inventory_tracker_new_def cex_key_def canonicalize_asset_def
        to_uppercase_def upper_char_def old_reserved_def)
  with r show ?thesis by (simp add: Let_def sample_signal_def)
qed

end
