(* ===== verification/Scorer.thy ===== *)
theory Scorer
  imports Rounding Signals Order_Book
begin

text \<open>
  \<open>strategy/scorer.rs\<close>: the score of a signal from its spread, the liquidity of the exchange's book, the
  inventory skew and the recent success rate, and its decay with age.  Decimal and \<open>f64\<close> arithmetic
  are parameters; the bounds are proved for every faithful rounding.
\<close>

section \<open>Data\<close>

definition HISTORY_CAP :: nat where "HISTORY_CAP = 100"
definition HISTORY_WINDOW :: nat where "HISTORY_WINDOW = 20"
definition MIN_HISTORY_SAMPLES :: nat where "MIN_HISTORY_SAMPLES = 3"
definition SCORE_MAX :: dec where "SCORE_MAX = 100"
definition SCORE_INVENTORY_HEALTHY :: dec where "SCORE_INVENTORY_HEALTHY = 60"
definition SCORE_INVENTORY_REBALANCE_NEEDED :: dec where "SCORE_INVENTORY_REBALANCE_NEEDED = 20"
definition SCORE_HISTORY_NEUTRAL :: dec where "SCORE_HISTORY_NEUTRAL = 50"
definition DECAY_AT_EXPIRY_MULTIPLIER :: rat where "DECAY_AT_EXPIRY_MULTIPLIER = 1 / 2"

lemmas score_consts = SCORE_MAX_def SCORE_INVENTORY_HEALTHY_def SCORE_INVENTORY_REBALANCE_NEEDED_def
  SCORE_HISTORY_NEUTRAL_def

record scorer_config =
  spread_weight :: dec
  liquidity_weight :: dec
  inventory_weight :: dec
  history_weight :: dec
  excellent_spread_bps :: dec
  sc_min_spread_bps :: dec
  min_slippage_bps :: dec
  max_slippage_bps :: dec
  fallback_liquidity :: dec

definition scorer_config_default :: scorer_config where
  "scorer_config_default =
     \<lparr>spread_weight = 4 / 10, liquidity_weight = 2 / 10, inventory_weight = 2 / 10, history_weight = 2 / 10,
      excellent_spread_bps = 100, sc_min_spread_bps = 50, min_slippage_bps = 5, max_slippage_bps = 50,
      fallback_liquidity = 80\<rparr>"

text \<open>The fields of \<open>SkewResult\<close> the scorer reads.\<close>

record skew_result =
  skew_asset :: string
  needs_rebalance :: bool

record signal_scorer =
  ss_config :: scorer_config
  recent_results :: "(string \<times> bool) list"

definition signal_scorer_new :: "scorer_config \<Rightarrow> signal_scorer" where
  "signal_scorer_new c = \<lparr>ss_config = c, recent_results = []\<rparr>"

section \<open>Sub-scores\<close>

definition clamp_0_100 :: "dec \<Rightarrow> dec" where
  "clamp_0_100 v = (if v < 0 then 0 else if v > SCORE_MAX then SCORE_MAX else v)"

definition score_spread :: "dec_ops \<Rightarrow> signal_scorer \<Rightarrow> dec \<Rightarrow> dec" where
  "score_spread D sc spread =
     (let c = ss_config sc
      in if spread \<le> sc_min_spread_bps c then 0
         else if spread \<ge> excellent_spread_bps c then SCORE_MAX
         else let range = dsub D (excellent_spread_bps c) (sc_min_spread_bps c)
              in if range \<le> 0 then SCORE_MAX
                 else dmul D (ddiv D (dsub D spread (sc_min_spread_bps c)) range) SCORE_MAX)"

text \<open>The linear map of slippage to a score.\<close>

definition slippage_score :: "dec_ops \<Rightarrow> scorer_config \<Rightarrow> dec \<Rightarrow> dec" where
  "slippage_score D c slip =
     (if slip \<le> min_slippage_bps c then SCORE_MAX
      else if slip \<ge> max_slippage_bps c then 0
      else let range = dsub D (max_slippage_bps c) (min_slippage_bps c)
           in if range \<le> 0 then SCORE_MAX
              else clamp_0_100 (dsub D SCORE_MAX (dmul D (ddiv D (dsub D slip (min_slippage_bps c)) range) SCORE_MAX)))"

definition walk_side :: "direction \<Rightarrow> string" where
  "walk_side d = (case d of BuyCexSellDex \<Rightarrow> ''buy'' | BuyDexSellCex \<Rightarrow> ''sell'')"

definition score_liquidity :: "dec_ops \<Rightarrow> signal_scorer \<Rightarrow> signal \<Rightarrow> order_book_snapshot option \<Rightarrow> (exchange_error, dec) outcome" where
  "score_liquidity D sc s book =
     (case book of
        None \<Rightarrow> Ok (fallback_liquidity (ss_config sc))
      | Some ob \<Rightarrow>
          (if book_symbol ob \<noteq> sig_pair s then Ok (fallback_liquidity (ss_config sc))
           else case walk_the_book D ob (walk_side (sig_direction s)) (sig_size s) of
                  Ok w \<Rightarrow> Ok (if fully_filled w then slippage_score D (ss_config sc) (slippage_bps w) else 0)
                | Err e \<Rightarrow> Ok (fallback_liquidity (ss_config sc))
                | Panic \<Rightarrow> Panic))"

definition score_inventory :: "signal \<Rightarrow> skew_result list \<Rightarrow> dec" where
  "score_inventory s skews =
     (case split_pair_symbols (sig_pair s) of
        Inl _ \<Rightarrow> SCORE_INVENTORY_HEALTHY
      | Inr (base, quote) \<Rightarrow>
          (if list_ex needs_rebalance (filter (\<lambda>k. skew_asset k = base) skews) then SCORE_INVENTORY_REBALANCE_NEEDED
           else SCORE_INVENTORY_HEALTHY))"

definition recent_for :: "string \<Rightarrow> signal_scorer \<Rightarrow> bool list" where
  "recent_for pair sc = map snd (filter (\<lambda>r. fst r = pair) (take HISTORY_WINDOW (rev (recent_results sc))))"

definition score_history :: "dec_ops \<Rightarrow> signal_scorer \<Rightarrow> string \<Rightarrow> dec" where
  "score_history D sc pair =
     (let recent = recent_for pair sc
      in if length recent < MIN_HISTORY_SAMPLES then SCORE_HISTORY_NEUTRAL
         else ddiv D (dmul D (of_nat (length (filter id recent))) SCORE_MAX) (of_nat (length recent)))"

text \<open>\<open>Decimal::round_dp(1)\<close>: one digit, ties to even.\<close>

definition round_half_even :: "rat \<Rightarrow> int" where
  "round_half_even x =
     (let f = \<lfloor>x\<rfloor>; d = x - of_int f
      in if d < 1 / 2 \<or> d = 1 / 2 \<and> even f then f else f + 1)"

definition round_dp1 :: "dec \<Rightarrow> dec" where
  "round_dp1 x = of_int (round_half_even (x * 10)) / 10"

definition score_signal ::
  "dec_ops \<Rightarrow> signal_scorer \<Rightarrow> signal \<Rightarrow> skew_result list \<Rightarrow> order_book_snapshot option \<Rightarrow> (exchange_error, dec) outcome" where
  "score_signal D sc s skews book =
     bind_out (score_liquidity D sc s book) (\<lambda>liquidity.
       let c = ss_config sc;
           weighted = dadd D (dadd D (dadd D
             (dmul D (score_spread D sc (spread_bps s)) (spread_weight c))
             (dmul D liquidity (liquidity_weight c)))
             (dmul D (score_inventory s skews) (inventory_weight c)))
             (dmul D (score_history D sc (sig_pair s)) (history_weight c))
       in Ok (round_dp1 (clamp_0_100 weighted)))"

definition record_result :: "string \<Rightarrow> bool \<Rightarrow> signal_scorer \<Rightarrow> signal_scorer" where
  "record_result pair ok sc =
     (let rs = recent_results sc;
          rs' = (if length rs \<ge> HISTORY_CAP then tl rs else rs)
      in sc\<lparr>recent_results := rs' @ [(pair, ok)]\<rparr>)"

section \<open>Decay\<close>

definition f64_secs :: "f64_ops \<Rightarrow> int \<Rightarrow> rat" where
  "f64_secs F ns = fdiv F (f_of_int F (num_milliseconds ns)) 1000"

definition apply_decay :: "dec_ops \<Rightarrow> f64_ops \<Rightarrow> signal \<Rightarrow> date_time \<Rightarrow> dec" where
  "apply_decay D F s now =
     (let age = max (f64_secs F (now - timestamp s)) 0;
          ttl = f64_secs F (expiry s - timestamp s)
      in if ttl \<le> 0 then 0
         else let factor = max (fsub F 1 (fmul F (fdiv F age ttl) DECAY_AT_EXPIRY_MULTIPLIER)) 0;
                  factor_d = (case dec_of_f64 F factor of Some d \<Rightarrow> d | None \<Rightarrow> 1)
              in max (dmul D (score s) factor_d) 0)"

section \<open>Bounds of the score\<close>

lemma clamp_0_100_range: "0 \<le> clamp_0_100 v \<and> clamp_0_100 v \<le> 100"
  by (simp add: clamp_0_100_def score_consts)

lemma clamp_0_100_between: "0 \<le> a \<Longrightarrow> b \<le> 100 \<Longrightarrow> a \<le> v \<Longrightarrow> v \<le> b \<Longrightarrow> a \<le> clamp_0_100 v \<and> clamp_0_100 v \<le> b"
  by (simp add: clamp_0_100_def score_consts)

lemma round_half_even_between:
  assumes "of_int a \<le> x" "x \<le> of_int b"
  shows "a \<le> round_half_even x \<and> round_half_even x \<le> b"
proof -
  have a: "a \<le> \<lfloor>x\<rfloor>" and b: "\<lfloor>x\<rfloor> \<le> b" using assms by (simp_all add: le_floor_iff floor_le_iff)
  have "\<lfloor>x\<rfloor> < b" if "x \<noteq> of_int \<lfloor>x\<rfloor>"
    using assms(2) that by (metis b order_le_less of_int_floor_le order_antisym)
  with a b show ?thesis by (force simp: round_half_even_def Let_def)
qed

lemma round_dp1_between:
  assumes "of_int a / 10 \<le> x" "x \<le> of_int b / 10"
  shows "of_int a / 10 \<le> round_dp1 x \<and> round_dp1 x \<le> of_int b / 10"
  using round_half_even_between [of a "x * 10" b] assms
  by (simp add: round_dp1_def pos_divide_le_eq pos_le_divide_eq)

lemma walk_side_walks: "\<exists>w. walk_the_book D ob (walk_side d) q = Ok w"
  by (cases d) (simp_all add: walk_side_def walk_the_book_def)

lemma score_liquidity_total: "\<exists>x. score_liquidity D sc s book = Ok x"
proof (cases book)
  case (Some ob)
  obtain w where "walk_the_book D ob (walk_side (sig_direction s)) (sig_size s) = Ok w" using walk_side_walks by blast
  with Some show ?thesis by (simp add: score_liquidity_def)
qed (simp add: score_liquidity_def)

lemma is_dec_tenth: "is_dec (numeral n / 10)" if "(numeral n :: int) < 2 ^ 96"
  unfolding is_dec_iff using that by (intro exI [of _ 1] exI [of _ "numeral n"]) simp

context decimal_faithful
begin

lemma linear_score:
  assumes "is_dec r" "0 < r" "0 \<le> x" "x \<le> r"
  shows "0 \<le> dmul D (ddiv D x r) 100 \<and> dmul D (ddiv D x r) 100 \<le> 100"
  using fraction_within [OF assms(3,4,2)] mul_within [of 0 0 1 100 "ddiv D x r" 100] by (simp add: is_dec_numeral)

lemma score_spread_default:
  "ss_config sc = scorer_config_default \<Longrightarrow> 0 \<le> score_spread D sc x \<and> score_spread D sc x \<le> 100"
  using linear_score [of 50 "dsub D x 50"] sub_within [of 50 50 100 50 x 50]
  by (auto simp: score_spread_def scorer_config_default_def score_consts Let_def sub_exact_dec is_dec_numeral)

lemma slippage_score_default: "0 \<le> slippage_score D scorer_config_default x \<and> slippage_score D scorer_config_default x \<le> 100"
  using clamp_0_100_range by (auto simp: slippage_score_def score_consts Let_def)

lemma score_liquidity_default:
  "ss_config sc = scorer_config_default \<Longrightarrow> score_liquidity D sc s book = Ok x \<Longrightarrow> 0 \<le> x \<and> x \<le> 100"
  using slippage_score_default
  by (auto simp: score_liquidity_def scorer_config_default_def split: option.splits outcome.splits if_splits)

lemma score_history_range: "0 \<le> score_history D sc pair \<and> score_history D sc pair \<le> 100"
proof -
  define n where "n = length (recent_for pair sc)"
  define w where "w = length (filter id (recent_for pair sc))"
  have n: "w \<le> n" by (simp add: n_def w_def)
  have "n \<le> length (take HISTORY_WINDOW (rev (recent_results sc)))"
    unfolding n_def recent_for_def length_map by (rule length_filter_le)
  then have n20: "n \<le> 20" by (simp add: HISTORY_WINDOW_def)
  have "of_nat w * 100 = (of_int (int w * 100) :: rat)" by simp
  then have d: "is_dec (of_nat w * 100)" using is_dec_of_int [of "int w * 100"] n n20 by simp
  have "0 \<le> ddiv D (dmul D (of_nat w) 100) (of_nat n) \<and> ddiv D (dmul D (of_nat w) 100) (of_nat n) \<le> 100" if "3 \<le> n"
    using that n by (intro div_between) (auto simp: mul_exact_dec [OF d] is_dec_numeral divide_simps)
  then show ?thesis
    by (simp add: score_history_def Let_def score_consts MIN_HISTORY_SAMPLES_def flip: n_def w_def)
qed

lemma weighted_default:
  assumes "0 \<le> a \<and> a \<le> 100" "0 \<le> b \<and> b \<le> 100" "20 \<le> i \<and> i \<le> 60" "0 \<le> h \<and> h \<le> 100"
  defines "w \<equiv> dadd D (dadd D (dadd D (dmul D a (4 / 10)) (dmul D b (2 / 10))) (dmul D i (2 / 10))) (dmul D h (2 / 10))"
  shows "4 \<le> w \<and> w \<le> 92"
proof -
  have a: "0 \<le> dmul D a (4 / 10) \<and> dmul D a (4 / 10) \<le> 40"
    using mul_within [of 0 "4/10" 100 "4/10" a "4/10"] assms by (simp add: is_dec_numeral)
  have b: "0 \<le> dmul D b (2 / 10) \<and> dmul D b (2 / 10) \<le> 20"
    using mul_within [of 0 "2/10" 100 "2/10" b "2/10"] assms by (simp add: is_dec_numeral)
  have i: "4 \<le> dmul D i (2 / 10) \<and> dmul D i (2 / 10) \<le> 12"
    using mul_within [of 20 "2/10" 60 "2/10" i "2/10"] assms by (simp add: is_dec_numeral)
  have h: "0 \<le> dmul D h (2 / 10) \<and> dmul D h (2 / 10) \<le> 20"
    using mul_within [of 0 "2/10" 100 "2/10" h "2/10"] assms by (simp add: is_dec_numeral)
  have ab: "0 \<le> dadd D (dmul D a (4 / 10)) (dmul D b (2 / 10)) \<and> dadd D (dmul D a (4 / 10)) (dmul D b (2 / 10)) \<le> 60"
    using add_within [of 0 0 40 20 "dmul D a (4/10)"] a b by (simp add: is_dec_numeral)
  have "4 \<le> dadd D (dadd D (dmul D a (4 / 10)) (dmul D b (2 / 10))) (dmul D i (2 / 10))
      \<and> dadd D (dadd D (dmul D a (4 / 10)) (dmul D b (2 / 10))) (dmul D i (2 / 10)) \<le> 72"
    using add_within [of 0 4 60 12 "dadd D (dmul D a (4/10)) (dmul D b (2/10))"] ab i by (simp add: is_dec_numeral)
  from add_within [of 4 0 72 20, OF _ _ conjunct1 [OF this] conjunct2 [OF this]] h show ?thesis
    by (simp add: w_def is_dec_numeral)
qed

lemma default_score_between:
  assumes "ss_config sc = scorer_config_default"
  shows "\<exists>x. score_signal D sc s skews book = Ok x \<and> 4 \<le> x \<and> x \<le> 92"
proof -
  obtain l where l: "score_liquidity D sc s book = Ok l" using score_liquidity_total by blast
  have i: "20 \<le> score_inventory s skews \<and> score_inventory s skews \<le> 60"
    by (auto simp: score_inventory_def score_consts split: sum.splits)
  note w = weighted_default [OF score_spread_default [OF assms] score_liquidity_default [OF assms l] i score_history_range]
  show ?thesis
    using round_dp1_between [of 40 _ 920] clamp_0_100_between [of 4 92, OF _ _ conjunct1 [OF w] conjunct2 [OF w]] l assms
    by (simp add: score_signal_def Let_def scorer_config_default_def)
qed

end

text \<open>
  Scores are bounded.  Scoring always returns, and for every configuration, history, skew report,
  book and decimal arithmetic the score lies in [0, 100] and has one digit after the point.  With
  the default configuration and any faithful rounding it lies in [4, 92]: the score test of
  \<open>Signal::is_valid\<close>, which asks for a positive score, never rejects a signal scored that way.
\<close>

lemma score_bounds:
  "\<exists>x k. score_signal D sc s skews book = Ok x \<and> 0 \<le> x \<and> x \<le> 100 \<and> x = of_int k / 10
     \<and> (decimal_faithful D \<longrightarrow> ss_config sc = scorer_config_default \<longrightarrow> 4 \<le> x \<and> x \<le> 92)"
proof -
  obtain l where l: "score_liquidity D sc s book = Ok l" using score_liquidity_total by blast
  then obtain w where w: "score_signal D sc s skews book = Ok (round_dp1 (clamp_0_100 w))"
    by (simp add: score_signal_def Let_def)
  have r: "0 \<le> round_dp1 (clamp_0_100 w) \<and> round_dp1 (clamp_0_100 w) \<le> 100"
    using round_dp1_between [of 0 "clamp_0_100 w" 1000] clamp_0_100_range [of w] by simp
  have "4 \<le> round_dp1 (clamp_0_100 w) \<and> round_dp1 (clamp_0_100 w) \<le> 92"
    if "decimal_faithful D" "ss_config sc = scorer_config_default"
    using decimal_faithful.default_score_between [OF that, of s skews book] w by simp
  with w r show ?thesis
    by (intro exI [of _ "round_dp1 (clamp_0_100 w)"] exI [of _ "round_half_even (clamp_0_100 w * 10)"])
      (simp add: round_dp1_def)
qed

lemma score_bounds_witness:
  "\<exists>x. score_signal rounding_ops (signal_scorer_new scorer_config_default) sample_signal [] None = Ok x \<and> 4 \<le> x \<and> x \<le> 92"
  using score_bounds [of rounding_ops "signal_scorer_new scorer_config_default" sample_signal "[]" None]
    rounding_ops.decimal_faithful_axioms
  by (auto simp: signal_scorer_new_def)

section \<open>History\<close>

definition record_all :: "(string \<times> bool) list \<Rightarrow> signal_scorer \<Rightarrow> signal_scorer" where
  "record_all rs sc = fold (\<lambda>(p, ok). record_result p ok) rs sc"

lemma record_all_results:
  "recent_results (record_all rs (signal_scorer_new c)) = drop (length rs - HISTORY_CAP) rs"
proof (induction rs rule: rev_induct)
  case Nil
  then show ?case by (simp add: record_all_def signal_scorer_new_def)
next
  case (snoc r rs)
  obtain p ok where r: "r = (p, ok)" by (cases r)
  have "recent_results (record_all (rs @ [r]) (signal_scorer_new c)) =
      recent_results (record_result p ok (record_all rs (signal_scorer_new c)))"
    by (simp add: record_all_def r)
  moreover have "tl (drop (length rs - 100) rs) = drop (length rs - 99) rs" if "100 \<le> length rs"
  proof -
    have "Suc (length rs - 100) = length rs - 99" using that by simp
    then show ?thesis by (metis drop_Suc tl_drop)
  qed
  ultimately show ?case
    using snoc r by (auto simp: record_result_def Let_def HISTORY_CAP_def)
qed

text \<open>
  The history is a sliding window.  After any sequence of recorded outcomes the scorer holds
  the last hundred of them in order, and the history sub-score of a pair is the percentage of
  successes among those of the last twenty outcomes, over all pairs, that belong to the pair, or 50
  when these are fewer than three.
\<close>

lemma history_is_last_outcomes:
  defines "recent \<equiv> \<lambda>pair rs. map snd (filter (\<lambda>r. fst r = pair) (drop (length rs - 20) rs))"
  shows "recent_results (record_all rs (signal_scorer_new c)) = drop (length rs - 100) rs
    \<and> score_history exact_ops (record_all rs (signal_scorer_new c)) pair =
        (if length (recent pair rs) < 3 then 50
         else of_nat (count_list (recent pair rs) True) * 100 / of_nat (length (recent pair rs)))"
proof -
  have "length rs - 100 + (length rs - (20 + (length rs - 100))) = length rs - 20" by simp
  then have "take 20 (rev (drop (length rs - 100) rs)) = rev (drop (length rs - 20) rs)"
    by (simp add: take_rev add.commute)
  then have r: "recent_for pair (record_all rs (signal_scorer_new c)) = rev (recent pair rs)"
    by (simp add: recent_for_def record_all_results HISTORY_CAP_def HISTORY_WINDOW_def recent_def rev_map rev_filter)
  have "length (filter id xs) = count_list xs True" for xs
    by (induction xs) auto
  then show ?thesis
    by (simp add: record_all_results HISTORY_CAP_def score_history_def r Let_def score_consts MIN_HISTORY_SAMPLES_def)
qed

section \<open>Decay\<close>

context f64_faithful
begin

lemma decay_factor_range:
  assumes "0 \<le> age" "0 < ttl" "age / ttl \<le> of_int n" "\<bar>n\<bar> < 2 ^ 53"
  shows "0 \<le> max (fsub F 1 (fmul F (fdiv F age ttl) DECAY_AT_EXPIRY_MULTIPLIER)) 0
    \<and> max (fsub F 1 (fmul F (fdiv F age ttl) DECAY_AT_EXPIRY_MULTIPLIER)) 0 \<le> 1"
proof -
  have n: "is_f64 (of_int n)" "is_f64 (of_int (1 - n))" "0 \<le> n"
  proof -
    have "0 \<le> age / ttl" using assms by simp
    then have "0 \<le> (of_int n :: rat)" using assms(3) by (rule order_trans)
    then show "0 \<le> n" by simp
    then show "is_f64 (of_int n)" "is_f64 (of_int (1 - n))"
      using assms(4) is_f64_of_int [of n] is_f64_of_int [of "1 - n"] by auto
  qed
  have d: "0 \<le> fdiv F age ttl \<and> fdiv F age ttl \<le> of_int n"
    using assms n by (intro fdiv_between) auto
  then have m: "0 \<le> fmul F (fdiv F age ttl) DECAY_AT_EXPIRY_MULTIPLIER \<and> fmul F (fdiv F age ttl) DECAY_AT_EXPIRY_MULTIPLIER \<le> of_int n"
    using n by (intro fmul_between) (auto simp: DECAY_AT_EXPIRY_MULTIPLIER_def)
  have "of_int (1 - n) \<le> fsub F 1 (fmul F (fdiv F age ttl) DECAY_AT_EXPIRY_MULTIPLIER)
      \<and> fsub F 1 (fmul F (fdiv F age ttl) DECAY_AT_EXPIRY_MULTIPLIER) \<le> 1"
    using m n by (intro fsub_between) auto
  then show ?thesis by auto
qed

end

lemma decay_never_raises:
  assumes "decimal_faithful D" "f64_faithful F" "is_dec (score s)" "0 \<le> score s"
    and "0 < f64_secs F (expiry s - timestamp s)"
    and "max (f64_secs F (now - timestamp s)) 0 / f64_secs F (expiry s - timestamp s) \<le> of_int n" "\<bar>n\<bar> < 2 ^ 53"
  shows "0 \<le> apply_decay D F s now \<and> apply_decay D F s now \<le> score s"
proof -
  define f where "f = max (fsub F 1 (fmul F (fdiv F (max (f64_secs F (now - timestamp s)) 0) (f64_secs F (expiry s - timestamp s)))
    DECAY_AT_EXPIRY_MULTIPLIER)) 0"
  define d where "d = (case dec_of_f64 F f of Some d \<Rightarrow> d | None \<Rightarrow> 1)"
  have f: "0 \<le> f \<and> f \<le> 1"
    unfolding f_def by (rule f64_faithful.decay_factor_range [OF assms(2) _ assms(5-7)]) simp
  have "0 \<le> d \<and> d \<le> 1"
    using f f64_faithful.retain_between [OF assms(2), of 0 1 f] by (auto simp: d_def split: option.splits)
  then have "0 \<le> dmul D (score s) d \<and> dmul D (score s) d \<le> score s"
    using assms(3,4) decimal_faithful.mul_between [OF assms(1), of 0 "score s" "score s" d] by (auto intro: mult_left_le)
  moreover have "apply_decay D F s now = max (dmul D (score s) d) 0"
    using assms(5) by (simp add: apply_decay_def Let_def flip: f_def d_def)
  ultimately show ?thesis by simp
qed

text \<open>
  Decay is linear and ends at twice the lifetime.  With exact arithmetic the decayed score of a signal
  with a positive lifetime is the score times one minus half the age over the lifetime, not below
  zero.  So at expiry half the score is left, as documented, but beyond expiry it keeps falling linearly
  and reaches zero only at twice the lifetime, where the documentation says zero from expiry on.
\<close>

lemma decay_is_linear:
  assumes "0 \<le> score s" "timestamp s \<le> now" "1000000 \<le> expiry s - timestamp s"
  defines "age \<equiv> of_int ((now - timestamp s) div 1000000)" and "ttl \<equiv> of_int ((expiry s - timestamp s) div 1000000)"
  shows "apply_decay exact_ops exact_f64 s now = score s * max (1 - age / ttl / 2) 0
    \<and> (age = ttl \<longrightarrow> apply_decay exact_ops exact_f64 s now = score s / 2)
    \<and> (0 < score s \<longrightarrow> (apply_decay exact_ops exact_f64 s now = 0 \<longleftrightarrow> 2 * ttl \<le> age))"
proof -
  have t: "0 < (expiry s - timestamp s) div 1000000" using assms(3) by (simp add: pos_imp_zdiv_pos_iff)
  then have ttl: "0 < ttl" by (simp add: ttl_def)
  have age: "0 \<le> age" using assms(2) by (simp add: age_def pos_imp_zdiv_nonneg_iff)
  have ms: "num_milliseconds (now - timestamp s) = (now - timestamp s) div 1000000"
    "num_milliseconds (expiry s - timestamp s) = (expiry s - timestamp s) div 1000000"
    using assms(2,3) by (auto simp: num_milliseconds_def sgn_if)
  have secs: "f64_secs exact_f64 (now - timestamp s) = age / 1000" "f64_secs exact_f64 (expiry s - timestamp s) = ttl / 1000"
    by (simp_all add: f64_secs_def ms age_def ttl_def)
  have "max (score s * max (1 - age / ttl / 2) 0) 0 = score s * max (1 - age / ttl / 2) 0"
    using assms(1) by (simp add: max.absorb1)
  then have eq: "apply_decay exact_ops exact_f64 s now = score s * max (1 - age / ttl / 2) 0"
    using age ttl by (simp add: apply_decay_def secs Let_def DECAY_AT_EXPIRY_MULTIPLIER_def mult.commute [of 2])
  show ?thesis
    unfolding eq using ttl by (auto simp: max_def field_simps)
qed

lemma decay_is_linear_witness:
  "apply_decay exact_ops exact_f64 sample_signal 7500000000 = 20"
  using decay_is_linear [of sample_signal 7500000000] by (simp add: sample_signal_def)

end
