(* ===== verification/Rebalance.thy ===== *)
theory Rebalance
  imports Rounding Inventory Order_Book
begin

text \<open>
  \<open>inventory/rebalancer.rs\<close> and \<open>inventory/rebalance_executor.rs\<close>, with the skew report of the tracker and
  the step types of \<open>inventory/types.rs\<close>: which transfers bring every venue back to its share of an asset,
  and how the trades among them are executed.  Venues are keys where the code uses their printed
  names.  \<open>order\<close> is the iteration order of the map of venue totals.
\<close>

section \<open>Skew\<close>

definition REBALANCE_DEVIATION_THRESHOLD_PCT :: rat where "REBALANCE_DEVIATION_THRESHOLD_PCT = 30"

record venue_skew =
  vs_amount :: dec
  vs_pct :: rat
  vs_deviation_pct :: rat

record skew_report =
  sk_asset :: string
  sk_total :: dec
  sk_venues :: "venue \<rightharpoonup> venue_skew"
  max_deviation_pct :: rat
  sk_needs_rebalance :: bool

definition total_or_zero :: "dec_ops \<Rightarrow> venue \<Rightarrow> string \<Rightarrow> inventory_tracker \<Rightarrow> dec" where
  "total_or_zero D v asset t = (case get_total D v asset t of Some x \<Rightarrow> x | None \<Rightarrow> 0)"

definition venue_share :: "dec_ops \<Rightarrow> f64_ops \<Rightarrow> inventory_tracker \<Rightarrow> string \<Rightarrow> dec \<Rightarrow> venue \<Rightarrow> venue_skew" where
  "venue_share D F t asset tot v =
     (let amount = total_or_zero D v asset t;
          pct = (if tot > 0
                 then (case f64_of_dec F (dmul D (ddiv D amount tot) 100) of Some x \<Rightarrow> x | None \<Rightarrow> 0)
                 else 0)
      in \<lparr>vs_amount = amount, vs_pct = pct,
          vs_deviation_pct = fsub F pct (fdiv F 100 (of_nat (max (length (inv_venues t)) 1)))\<rparr>)"

definition skew :: "dec_ops \<Rightarrow> f64_ops \<Rightarrow> venue list \<Rightarrow> string \<Rightarrow> inventory_tracker \<Rightarrow> skew_report" where
  "skew D F order asset t =
     (let tot = foldl (\<lambda>acc v. dadd D acc (total_or_zero D v asset t)) 0 order;
          share = venue_share D F t asset tot;
          dev = foldl (\<lambda>m v. if \<bar>vs_deviation_pct (share v)\<bar> > m then \<bar>vs_deviation_pct (share v)\<bar> else m) 0 (inv_venues t)
      in \<lparr>sk_asset = asset, sk_total = tot,
          sk_venues = (\<lambda>v. if v \<in> set (inv_venues t) then Some (share v) else None),
          max_deviation_pct = dev, sk_needs_rebalance = (dev > REBALANCE_DEVIATION_THRESHOLD_PCT)\<rparr>)"

text \<open>\<open>assets\<close> lists the distinct assets of the balance map, sorted.\<close>

definition get_skews :: "dec_ops \<Rightarrow> f64_ops \<Rightarrow> venue list \<Rightarrow> string list \<Rightarrow> inventory_tracker \<Rightarrow> skew_report list" where
  "get_skews D F order assets t = map (\<lambda>a. skew D F order a t) assets"

section \<open>Transfers\<close>

record transfer_fee_info =
  withdrawal_fee :: dec
  min_withdrawal :: dec
  confirmations :: nat
  fee_time_min :: nat

definition DEFAULT_TRANSFER_TIME_MIN :: nat where "DEFAULT_TRANSFER_TIME_MIN = 15"
definition ETH_CONFIRMATIONS :: nat where "ETH_CONFIRMATIONS = 12"

definition fee_entry :: "dec \<Rightarrow> dec \<Rightarrow> transfer_fee_info" where
  "fee_entry fee least = \<lparr>withdrawal_fee = fee, min_withdrawal = least, confirmations = ETH_CONFIRMATIONS,
     fee_time_min = DEFAULT_TRANSFER_TIME_MIN\<rparr>"

definition transfer_fees :: "string \<rightharpoonup> transfer_fee_info" where
  "transfer_fees = Map.empty(''ETH'' \<mapsto> fee_entry (5 / 1000) (1 / 100), ''WETH'' \<mapsto> fee_entry (5 / 1000) (1 / 100),
     ''USDT'' \<mapsto> fee_entry 1 10, ''USDC'' \<mapsto> fee_entry 1 10, ''LINK'' \<mapsto> fee_entry (2 / 10) 1)"

definition min_operating_balance :: "string \<rightharpoonup> dec" where
  "min_operating_balance = Map.empty(''ETH'' \<mapsto> 1 / 2, ''WETH'' \<mapsto> 1 / 2, ''USDT'' \<mapsto> 500, ''USDC'' \<mapsto> 500, ''LINK'' \<mapsto> 5)"

record transfer_plan =
  tp_from :: venue
  tp_to :: venue
  tp_asset :: string
  tp_amount :: dec
  tp_fee :: dec
  tp_time_min :: nat

definition net_amount :: "dec_ops \<Rightarrow> transfer_plan \<Rightarrow> dec" where
  "net_amount D p = dsub D (tp_amount p) (tp_fee p)"

record cost_estimate =
  ce_total_transfers :: nat
  ce_total_fees_usd :: dec
  ce_total_time_min :: nat
  ce_assets_affected :: "string list"

record trade_step =
  ts_venue :: venue
  ts_symbol :: string
  ts_side :: string
  ts_base :: string
  ts_quote :: string
  ts_amount :: dec
  ts_max_slippage_bps :: dec

record withdraw_step =
  ws_from :: venue
  ws_to :: venue
  ws_asset :: string
  ws_amount :: dec
  ws_fee :: dec

datatype rebalance_step = Trade trade_step | Withdraw withdraw_step

record rebalance_planner =
  rp_tracker :: inventory_tracker
  rp_threshold_pct :: rat
  rp_target_ratio :: "venue \<rightharpoonup> rat"

definition rebalance_planner_new :: "f64_ops \<Rightarrow> inventory_tracker \<Rightarrow> rat \<Rightarrow> rebalance_planner" where
  "rebalance_planner_new F t threshold =
     \<lparr>rp_tracker = t, rp_threshold_pct = threshold,
      rp_target_ratio = (\<lambda>v. if v \<in> set (inv_venues t)
        then Some (fdiv F 1 (of_nat (max (length (inv_venues t)) 1))) else None)\<rparr>"

definition with_target_ratio :: "inventory_tracker \<Rightarrow> rat \<Rightarrow> (venue \<rightharpoonup> rat) \<Rightarrow> rebalance_planner" where
  "with_target_ratio t threshold ratios = \<lparr>rp_tracker = t, rp_threshold_pct = threshold, rp_target_ratio = ratios\<rparr>"

text \<open>A venue's target amount, and the venues above and below theirs in the tracker's order.\<close>

definition venue_target :: "dec_ops \<Rightarrow> f64_ops \<Rightarrow> rebalance_planner \<Rightarrow> dec \<Rightarrow> venue \<Rightarrow> dec" where
  "venue_target D F rp tot v =
     (let equal = fdiv F 1 (of_nat (max (length (inv_venues (rp_tracker rp))) 1));
          ratio = (case rp_target_ratio rp v of Some r \<Rightarrow> r | None \<Rightarrow> equal);
          ratio_dec = (case dec_from_f64 F ratio of Some d \<Rightarrow> d
                       | None \<Rightarrow> (case dec_from_f64 F equal of Some d \<Rightarrow> d | None \<Rightarrow> 0))
      in dmul D tot ratio_dec)"

definition skew_amount :: "skew_report \<Rightarrow> venue \<Rightarrow> dec" where
  "skew_amount sk v = (case sk_venues sk v of Some x \<Rightarrow> vs_amount x | None \<Rightarrow> 0)"

definition surplus_deficit ::
  "dec_ops \<Rightarrow> f64_ops \<Rightarrow> rebalance_planner \<Rightarrow> skew_report \<Rightarrow> dec \<Rightarrow> (venue \<times> dec) list \<times> (venue \<times> dec) list" where
  "surplus_deficit D F rp sk tot =
     (let vs = inv_venues (rp_tracker rp); cur = skew_amount sk; tgt = venue_target D F rp tot
      in (map (\<lambda>v. (v, dsub D (cur v) (tgt v))) (filter (\<lambda>v. cur v > tgt v) vs),
          map (\<lambda>v. (v, dsub D (tgt v) (cur v))) (filter (\<lambda>v. cur v < tgt v) vs)))"

text \<open>
  The matching loops of \<open>plan\<close> and \<open>plan_executable\<close> have one shape.  \<open>drain\<close> is the inner one: it offers the
  deficits in turn what the surplus venue can still give, \<open>act\<close> says whether an offer is taken and what it
  adds to the plan.  \<open>match_venues\<close> is the outer one: \<open>have\<close> is the venue's total, if it is known.
\<close>

fun drain ::
  "dec_ops \<Rightarrow> (venue \<Rightarrow> dec \<Rightarrow> 'a list option) \<Rightarrow> dec \<Rightarrow> dec \<Rightarrow> (venue \<times> dec) list \<Rightarrow> 'a list \<times> (venue \<times> dec) list" where
  "drain D act surplus from_rem [] = ([], [])"
| "drain D act surplus from_rem ((w, deficit) # ds) =
     (if surplus \<le> 0 \<or> from_rem \<le> 0 then ([], (w, deficit) # ds)
      else if deficit \<le> 0
      then (let (ps, ds') = drain D act surplus from_rem ds in (ps, (w, deficit) # ds'))
      else let amount = min (min surplus deficit) from_rem
           in case act w amount of
                None \<Rightarrow> (let (ps, ds') = drain D act surplus from_rem ds in (ps, (w, deficit) # ds'))
              | Some new \<Rightarrow>
                  (let (ps, ds') = drain D act (dsub D surplus amount) (dsub D from_rem amount) ds
                   in (new @ ps, (w, dsub D deficit amount) # ds')))"

fun match_venues ::
  "dec_ops \<Rightarrow> (venue \<Rightarrow> dec option) \<Rightarrow> dec \<Rightarrow> (venue \<Rightarrow> venue \<Rightarrow> dec \<Rightarrow> 'a list option)
     \<Rightarrow> (venue \<times> dec) list \<Rightarrow> (venue \<times> dec) list \<Rightarrow> 'a list" where
  "match_venues D have minb act [] ds = []"
| "match_venues D have minb act ((v, surplus) # ss) ds =
     (case have v of
        None \<Rightarrow> match_venues D have minb act ss ds
      | Some cur \<Rightarrow>
          (let from_rem = dsub D cur minb
           in if from_rem \<le> 0 then match_venues D have minb act ss ds
              else let (ps, ds') = drain D (act v) surplus from_rem ds
                   in ps @ match_venues D have minb act ss ds'))"

definition transfer_act ::
  "dec_ops \<Rightarrow> string \<Rightarrow> dec \<Rightarrow> dec \<Rightarrow> nat \<Rightarrow> venue \<Rightarrow> venue \<Rightarrow> dec \<Rightarrow> transfer_plan list option" where
  "transfer_act D asset least fee time v w amount =
     (if amount < least then None
      else if dsub D amount fee \<le> 0 then None
      else Some [\<lparr>tp_from = v, tp_to = w, tp_asset = asset, tp_amount = amount, tp_fee = fee, tp_time_min = time\<rparr>])"

definition min_balance_of :: "string \<Rightarrow> dec" where
  "min_balance_of asset = (case min_operating_balance asset of Some x \<Rightarrow> x | None \<Rightarrow> 0)"

definition plan :: "dec_ops \<Rightarrow> f64_ops \<Rightarrow> venue list \<Rightarrow> rebalance_planner \<Rightarrow> string \<Rightarrow> transfer_plan list" where
  "plan D F order rp asset =
     (let t = rp_tracker rp; sk = skew D F order asset t
      in if max_deviation_pct sk \<le> rp_threshold_pct rp then []
         else let info = transfer_fees asset;
                  least = (case info of Some f \<Rightarrow> min_withdrawal f | None \<Rightarrow> 0);
                  fee = (case info of Some f \<Rightarrow> withdrawal_fee f | None \<Rightarrow> 0);
                  time = (case info of Some f \<Rightarrow> fee_time_min f | None \<Rightarrow> DEFAULT_TRANSFER_TIME_MIN)
              in if sk_total sk \<le> 0 then []
                 else let (ss, ds) = surplus_deficit D F rp sk (sk_total sk)
                      in match_venues D (\<lambda>v. Some (total_or_zero D v asset t)) (min_balance_of asset)
                           (transfer_act D asset least fee time) ss ds)"

text \<open>A map of plans, in the order of the skew report; only non-empty plans are entered.\<close>

definition plan_all ::
  "dec_ops \<Rightarrow> f64_ops \<Rightarrow> venue list \<Rightarrow> string list \<Rightarrow> rebalance_planner \<Rightarrow> (string \<times> transfer_plan list) list" where
  "plan_all D F order assets rp =
     concat (map (\<lambda>sk. if max_deviation_pct sk > rp_threshold_pct rp
                       then (let ps = plan D F order rp (sk_asset sk) in if ps = [] then [] else [(sk_asset sk, ps)])
                       else []) (get_skews D F order assets (rp_tracker rp)))"

definition estimate_cost :: "dec_ops \<Rightarrow> transfer_plan list \<Rightarrow> (string \<rightharpoonup> dec) \<Rightarrow> cost_estimate" where
  "estimate_cost D plans prices =
     (let (fees, time) = foldl (\<lambda>(f, m) p.
            case prices (tp_asset p) of
              Some price \<Rightarrow> (dadd D f (dmul D (tp_fee p) price), max m (tp_time_min p))
            | None \<Rightarrow> (f, m)) (0, 0) plans
      in \<lparr>ce_total_transfers = length plans, ce_total_fees_usd = fees, ce_total_time_min = time,
          ce_assets_affected = remdups (map tp_asset plans)\<rparr>)"

definition eq_ignore_ascii_case :: "string \<Rightarrow> string \<Rightarrow> bool" where
  "eq_ignore_ascii_case a b \<longleftrightarrow> lower a = lower b"

definition cex_trade :: "venue \<Rightarrow> string \<Rightarrow> string \<Rightarrow> string \<Rightarrow> dec \<Rightarrow> dec \<Rightarrow> rebalance_step" where
  "cex_trade v side asset quote_asset amount slip =
     Trade \<lparr>ts_venue = v, ts_symbol = asset @ quote_asset, ts_side = side, ts_base = asset, ts_quote = quote_asset,
            ts_amount = amount, ts_max_slippage_bps = slip\<rparr>"

definition withdraw_act :: "venue \<Rightarrow> venue \<Rightarrow> string \<Rightarrow> dec \<Rightarrow> dec \<Rightarrow> rebalance_step list option" where
  "withdraw_act v w asset amount fee =
     (if amount > fee
      then Some [Withdraw \<lparr>ws_from = v, ws_to = w, ws_asset = asset, ws_amount = amount, ws_fee = fee\<rparr>] else None)"

definition step_act :: "string \<Rightarrow> string \<Rightarrow> dec \<Rightarrow> venue \<Rightarrow> venue \<Rightarrow> dec \<Rightarrow> rebalance_step list option" where
  "step_act asset quote_asset slip v w amount =
     (if amount \<le> 0 then None
      else if is_cex v \<and> is_cex w then
        (if eq_ignore_ascii_case asset quote_asset then None
         else Some [cex_trade v ''SELL'' asset quote_asset amount slip, cex_trade w ''BUY'' asset quote_asset amount slip])
      else if is_cex v then
        (case transfer_fees asset of None \<Rightarrow> None | Some f \<Rightarrow> withdraw_act v w asset amount (withdrawal_fee f))
      else if is_cex w then
        withdraw_act v w asset amount (case transfer_fees asset of Some f \<Rightarrow> withdrawal_fee f | None \<Rightarrow> 0)
      else None)"

definition plan_executable ::
  "dec_ops \<Rightarrow> f64_ops \<Rightarrow> venue list \<Rightarrow> rebalance_planner \<Rightarrow> string \<Rightarrow> string \<Rightarrow> dec \<Rightarrow> rebalance_step list" where
  "plan_executable D F order rp asset quote_asset slip =
     (let t = rp_tracker rp; sk = skew D F order asset t
      in if max_deviation_pct sk \<le> rp_threshold_pct rp then []
         else if sk_total sk \<le> 0 then []
         else let (ss, ds) = surplus_deficit D F rp sk (sk_total sk)
              in match_venues D (\<lambda>v. get_total D v asset t) (min_balance_of asset) (step_act asset quote_asset slip) ss ds)"

definition plan_executable_all ::
  "dec_ops \<Rightarrow> f64_ops \<Rightarrow> venue list \<Rightarrow> string list \<Rightarrow> rebalance_planner \<Rightarrow> string \<Rightarrow> dec \<Rightarrow> (string \<times> rebalance_step list) list" where
  "plan_executable_all D F order assets rp quote_asset slip =
     concat (map (\<lambda>sk. if max_deviation_pct sk > rp_threshold_pct rp
                       then (let ps = plan_executable D F order rp (sk_asset sk) quote_asset slip
                             in if ps = [] then [] else [(sk_asset sk, ps)])
                       else []) (get_skews D F order assets (rp_tracker rp)))"

section \<open>What a plan moves\<close>

text \<open>
  The contract between the matching loops and the actions they emit: an accepted offer of \<open>a\<close> from \<open>v\<close> to \<open>w\<close>
  takes exactly \<open>a\<close> from \<open>v\<close> and gives exactly \<open>a\<close> (before fees) to \<open>w\<close>.
\<close>

definition flow :: "('a \<Rightarrow> venue \<Rightarrow> dec) \<Rightarrow> 'a list \<Rightarrow> venue \<Rightarrow> dec" where
  "flow f ps v = sum_list (map (\<lambda>p. f p v) ps)"

lemma flow_simps [simp]: "flow f [] v = 0" "flow f (ps @ qs) v = flow f ps v + flow f qs v" "flow f (p # ps) v = f p v + flow f ps v"
  by (simp_all add: flow_def)

definition open_amount :: "(venue \<times> dec) list \<Rightarrow> venue \<Rightarrow> dec" where
  "open_amount ds w = sum_list (map (\<lambda>(u, d). if u = w then d else 0) ds)"

lemma open_amount_simps [simp]: "open_amount [] w = 0"
  "open_amount ((u, d) # ds) w = (if u = w then d else 0) + open_amount ds w"
  by (simp_all add: open_amount_def)

text \<open>Amounts on a grid on which subtraction is exact.\<close>

definition gridded :: "nat \<Rightarrow> rat \<Rightarrow> bool" where
  "gridded s x \<longleftrightarrow> s \<le> 28 \<and> on_grid s x \<and> 0 \<le> x \<and> x * 10 ^ s < 2 ^ 96"

lemma gridded_is_dec: "gridded s x \<Longrightarrow> is_dec x"
  by (auto simp: gridded_def intro!: on_grid_is_dec [of s])

lemma gridded_min: "gridded s x \<Longrightarrow> gridded s y \<Longrightarrow> gridded s (min x y)"
  by (simp add: min_def)

lemma gridded_diff:
  assumes "gridded s x" "gridded s y" "y \<le> x"
  shows "gridded s (x - y)"
proof -
  have "(x - y) * 10 ^ s \<le> x * 10 ^ s"
    using assms by (intro mult_right_mono) (auto simp: gridded_def)
  also have "x * 10 ^ s < 2 ^ 96" using assms by (simp add: gridded_def)
  finally show ?thesis using assms by (simp add: gridded_def on_grid_diff)
qed

lemma open_amount_nonneg: "\<forall>(w, d) \<in> set ds. gridded s d \<Longrightarrow> 0 \<le> open_amount ds w"
  by (induction ds) (auto simp: gridded_def)

lemma open_amount_notin: "w \<notin> fst ` set ds \<Longrightarrow> open_amount ds w = 0"
  by (induction ds) auto

lemma dsub_gridded:
  assumes "decimal_arith D" "gridded s x" "gridded s y"
  shows "dsub D x y = x - y"
proof -
  have "is_dec (x - y)"
  proof (cases "y \<le> x")
    case False
    then have "is_dec (y - x)" using assms by (intro gridded_is_dec [of s] gridded_diff) auto
    then show ?thesis using is_dec_uminus [of "y - x"] by simp
  qed (use assms in \<open>auto intro: gridded_is_dec gridded_diff\<close>)
  with assms show ?thesis by (intro decimal_arith.sub_exact) (auto intro: gridded_is_dec)
qed

locale transfer_actions =
  fixes act :: "venue \<Rightarrow> venue \<Rightarrow> dec \<Rightarrow> 'a list option"
    and sends :: "'a \<Rightarrow> venue \<Rightarrow> dec"
    and receives :: "'a \<Rightarrow> venue \<Rightarrow> dec"
  assumes act_sends: "act v w a = Some new \<Longrightarrow> flow sends new u = (if u = v then a else 0)"
    and act_receives: "act v w a = Some new \<Longrightarrow> flow receives new u = (if u = w then a else 0)"
begin

lemma drain_moves:
  assumes "decimal_arith D" "drain D (act v) surplus from_rem ds = (ps, ds')"
    and "gridded s surplus" "gridded s from_rem" "\<forall>(w, d) \<in> set ds. gridded s d"
  shows "map fst ds' = map fst ds \<and> (\<forall>(w, d) \<in> set ds'. gridded s d)
    \<and> (\<forall>u. u \<noteq> v \<longrightarrow> flow sends ps u = 0) \<and> 0 \<le> flow sends ps v \<and> flow sends ps v \<le> surplus \<and> flow sends ps v \<le> from_rem
    \<and> (\<forall>w. 0 \<le> flow receives ps w \<and> flow receives ps w + open_amount ds' w = open_amount ds w)"
  using assms(2-)
proof (induction ds arbitrary: surplus from_rem ps ds')
  case Nil
  then show ?case by (simp add: gridded_def)
next
  case (Cons wd ds)
  obtain w d where wd: "wd = (w, d)" by (cases wd)
  let ?a = "min (min surplus d) from_rem"
  consider (stop) "surplus \<le> 0 \<or> from_rem \<le> 0"
    | (skip) ps0 ds0 where "drain D (act v) surplus from_rem ds = (ps0, ds0)" "ps = ps0" "ds' = (w, d) # ds0"
    | (take) new ps0 ds0 where "0 < surplus" "0 < from_rem" "0 < d" "act v w ?a = Some new"
        "drain D (act v) (dsub D surplus ?a) (dsub D from_rem ?a) ds = (ps0, ds0)"
        "ps = new @ ps0" "ds' = (w, dsub D d ?a) # ds0"
    using Cons.prems(1) wd
    by (auto simp: Let_def not_le split: if_splits option.splits prod.splits)
  then show ?case
  proof cases
    case stop
    then show ?thesis using Cons.prems wd by (auto simp: gridded_def)
  next
    case skip
    from Cons.IH [OF skip(1)] Cons.prems skip wd show ?thesis by auto
  next
    case take
    have g: "gridded s d" "gridded s surplus" "gridded s from_rem" "gridded s ?a"
      using Cons.prems wd by (auto intro: gridded_min)
    have a: "?a \<le> surplus" "?a \<le> d" "?a \<le> from_rem" "0 \<le> ?a" using take by auto
    have sub: "dsub D surplus ?a = surplus - ?a" "dsub D from_rem ?a = from_rem - ?a" "dsub D d ?a = d - ?a"
      using dsub_gridded [OF assms(1)] g a by blast+
    have "gridded s (surplus - ?a)" "gridded s (from_rem - ?a)" "gridded s (d - ?a)"
      using gridded_diff g a by blast+
    note ih = Cons.IH [OF take(5) [unfolded sub] this(1,2)]
    have ds: "\<forall>(w, d) \<in> set ds. gridded s d" using Cons.prems(4) by simp
    note ih' = ih [OF ds]
    have sent: "flow sends ps u = (if u = v then ?a else 0) + flow sends ps0 u" for u
      by (simp add: take(6) act_sends [OF take(4)])
    have got: "flow receives ps u = (if u = w then ?a else 0) + flow receives ps0 u" for u
      by (simp add: take(6) act_receives [OF take(4)])
    have r0: "0 \<le> flow receives ps0 u \<and> flow receives ps0 u + open_amount ds0 u = open_amount ds u" for u
      using ih' by blast
    have "0 \<le> flow receives ps u \<and> flow receives ps u + open_amount ds' u = open_amount ((w, d) # ds) u" for u
      using r0 [of u] a(4) by (simp add: got take(7) sub)
    moreover have "\<forall>u. u \<noteq> v \<longrightarrow> flow sends ps u = 0" using ih' by (simp add: sent)
    moreover have "0 \<le> flow sends ps v" "flow sends ps v \<le> surplus" "flow sends ps v \<le> from_rem"
      using ih' a(4) by (simp_all add: sent)
    moreover have "map fst ds' = map fst (wd # ds)" "\<forall>(w, d) \<in> set ds'. gridded s d"
      using ih' \<open>gridded s (d - ?a)\<close> by (simp_all add: take(7) wd sub)
    ultimately show ?thesis by (simp add: wd)
  qed
qed

lemma match_venues_moves:
  assumes "decimal_arith D" "distinct (map fst ss)"
    and "\<forall>(v, x) \<in> set ss. gridded s x" "\<forall>(w, d) \<in> set ds. gridded s d"
    and "\<forall>v x. (v, x) \<in> set ss \<longrightarrow> (\<forall>cur. have v = Some cur \<longrightarrow> 0 < dsub D cur minb \<longrightarrow>
           gridded s (dsub D cur minb) \<and> dsub D cur minb = cur - minb)"
  defines "ps \<equiv> match_venues D have minb act ss ds"
  shows "(\<forall>w. flow receives ps w \<le> open_amount ds w \<and> 0 \<le> flow receives ps w)
    \<and> (\<forall>v. 0 \<le> flow sends ps v \<and> flow sends ps v \<le> open_amount ss v)
    \<and> (\<forall>v. 0 < flow sends ps v \<longrightarrow> (\<exists>cur. have v = Some cur \<and> flow sends ps v \<le> cur - minb))"
  using assms(2-5) unfolding ps_def
proof (induction ss arbitrary: ds)
  case Nil
  then show ?case by (simp add: open_amount_nonneg)
next
  case (Cons vx ss)
  obtain v x where vx: "vx = (v, x)" by (cases vx)
  have x: "0 \<le> x" using Cons.prems(2) vx by (auto simp: gridded_def)
  have ss: "distinct (map fst ss)" "\<forall>(v, x) \<in> set ss. gridded s x" "open_amount ss v = 0"
    using Cons.prems(1,2) vx by (auto intro!: open_amount_notin)
  note IH = Cons.IH [OF ss(1,2)]
  have rest: "\<forall>v x. (v, x) \<in> set ss \<longrightarrow> (\<forall>cur. have v = Some cur \<longrightarrow> 0 < dsub D cur minb \<longrightarrow>
           gridded s (dsub D cur minb) \<and> dsub D cur minb = cur - minb)"
    using Cons.prems(4) by simp
  show ?case
  proof (cases "\<exists>cur. have v = Some cur \<and> 0 < dsub D cur minb")
    case False
    then have "match_venues D have minb act (vx # ss) ds = match_venues D have minb act ss ds"
      by (auto simp: vx Let_def not_le split: option.splits)
    moreover have "open_amount ss u \<le> open_amount (vx # ss) u" for u using x by (simp add: vx)
    ultimately show ?thesis using IH [OF Cons.prems(3) rest] by (metis (no_types, lifting) order_trans)
  next
    case True
    then obtain cur where cur: "have v = Some cur" "0 < dsub D cur minb" by blast
    obtain ps0 ds0 where d: "drain D (act v) x (dsub D cur minb) ds = (ps0, ds0)" by fastforce
    have "gridded s (dsub D cur minb) \<and> dsub D cur minb = cur - minb"
      using Cons.prems(4) cur vx by (metis list.set_intros(1))
    then have g: "gridded s x" "gridded s (dsub D cur minb)" "dsub D cur minb = cur - minb"
      using Cons.prems(2) vx by auto
    note dm = drain_moves [OF assms(1) d g(1,2) Cons.prems(3)]
    have ds0: "\<forall>(w, d) \<in> set ds0. gridded s d" using dm by blast
    note ih = IH [OF ds0 rest]
    have eq: "match_venues D have minb act (vx # ss) ds = ps0 @ match_venues D have minb act ss ds0"
      using cur d by (simp add: vx)
    let ?R = "match_venues D have minb act ss ds0"
    have R: "0 \<le> flow receives ?R w" "flow receives ?R w \<le> open_amount ds0 w" "0 \<le> flow sends ?R w"
      "flow sends ?R w \<le> open_amount ss w" "0 < flow sends ?R w \<Longrightarrow> \<exists>cur. have w = Some cur \<and> flow sends ?R w \<le> cur - minb" for w
      using ih by blast+
    have P: "0 \<le> flow receives ps0 w" "flow receives ps0 w + open_amount ds0 w = open_amount ds w"
      "w \<noteq> v \<Longrightarrow> flow sends ps0 w = 0" "0 \<le> flow sends ps0 v" "flow sends ps0 v \<le> x" "flow sends ps0 v \<le> cur - minb" for w
      using dm g(3) by auto
    have v: "flow sends ?R v = 0" using R(3,4) [of v] ss(3) by simp
    have "flow receives ps0 w + flow receives ?R w \<le> open_amount ds w" for w using R(2) [of w] P(2) [of w] by linarith
    moreover have "0 \<le> flow sends ps0 u + flow sends ?R u \<and> flow sends ps0 u + flow sends ?R u \<le> open_amount (vx # ss) u" for u
      using R(3,4) [of u] P(3) [of u] P(4,5) v ss(3) by (cases "u = v") (simp_all add: vx)
    moreover have "\<exists>cur. have u = Some cur \<and> flow sends ps0 u + flow sends ?R u \<le> cur - minb"
      if "0 < flow sends ps0 u + flow sends ?R u" for u
      using that R(5) [of u] P(3) [of u] P(6) v cur(1) by (cases "u = v") simp_all
    ultimately show ?thesis using R(1) P(1) by (simp add: eq)
  qed
qed

end

definition plan_sends :: "transfer_plan \<Rightarrow> venue \<Rightarrow> dec" where
  "plan_sends p v = (if tp_from p = v then tp_amount p else 0)"

definition plan_receives :: "transfer_plan \<Rightarrow> venue \<Rightarrow> dec" where
  "plan_receives p v = (if tp_to p = v then tp_amount p else 0)"

interpretation transfers: transfer_actions "transfer_act D asset least fee time" plan_sends plan_receives
  for D asset least fee time
  by unfold_locales (auto simp: transfer_act_def plan_sends_def plan_receives_def split: if_splits)

definition step_sends :: "rebalance_step \<Rightarrow> venue \<Rightarrow> dec" where
  "step_sends p v = (case p of
      Trade t \<Rightarrow> if ts_side t = ''SELL'' \<and> ts_venue t = v then ts_amount t else 0
    | Withdraw x \<Rightarrow> if ws_from x = v then ws_amount x else 0)"

definition step_receives :: "rebalance_step \<Rightarrow> venue \<Rightarrow> dec" where
  "step_receives p v = (case p of
      Trade t \<Rightarrow> if ts_side t = ''BUY'' \<and> ts_venue t = v then ts_amount t else 0
    | Withdraw x \<Rightarrow> if ws_to x = v then ws_amount x else 0)"

interpretation steps: transfer_actions "step_act asset quote_asset slip" step_sends step_receives
  for asset quote_asset slip
  by unfold_locales
    (auto simp: step_act_def withdraw_act_def cex_trade_def step_sends_def step_receives_def
      split: if_splits option.splits)

section \<open>Plans do not overshoot\<close>

text \<open>Balances, targets and the operating minimum lie on one grid, with room for one subtraction.\<close>

definition on_planner_grid :: "dec_ops \<Rightarrow> f64_ops \<Rightarrow> nat \<Rightarrow> rebalance_planner \<Rightarrow> string \<Rightarrow> dec \<Rightarrow> bool" where
  "on_planner_grid D F s rp asset tot \<longleftrightarrow>
     gridded s (min_balance_of asset)
     \<and> (\<forall>v \<in> set (inv_venues (rp_tracker rp)).
          gridded s (total_or_zero D v asset (rp_tracker rp)) \<and> gridded s (venue_target D F rp tot v))"

lemma min_balance_nonneg: "0 \<le> min_balance_of asset"
  by (simp add: min_balance_of_def min_operating_balance_def)

lemma skew_amount_tracked:
  "v \<in> set (inv_venues t) \<Longrightarrow> skew_amount (skew D F order asset t) v = total_or_zero D v asset t"
  by (simp add: skew_amount_def skew_def venue_share_def Let_def)

lemma open_amount_map:
  assumes "distinct vs"
  shows "open_amount (map (\<lambda>v. (v, f v)) (filter P vs)) u = (if u \<in> set vs \<and> P u then f u else 0)"
  using assms by (induction vs) auto

text \<open>
  The two planners end in the same call; what it may move.  \<open>have\<close> is the known total of a venue, if any.
\<close>

lemma planned_moves:
  fixes act :: "venue \<Rightarrow> venue \<Rightarrow> dec \<Rightarrow> 'a list option"
  assumes D: "decimal_arith D" and act: "transfer_actions act sends receives"
    and venues: "distinct (inv_venues (rp_tracker rp))" and grid: "on_planner_grid D F s rp asset tot"
    and sk: "sk = skew D F order asset (rp_tracker rp)"
    and known: "\<And>v cur. have v = Some cur \<Longrightarrow> cur = total_or_zero D v asset (rp_tracker rp)"
  defines "cur \<equiv> \<lambda>v. total_or_zero D v asset (rp_tracker rp)" and "tgt \<equiv> venue_target D F rp tot"
  defines "ps \<equiv> match_venues D have (min_balance_of asset) act (fst (surplus_deficit D F rp sk tot)) (snd (surplus_deficit D F rp sk tot))"
  shows "0 \<le> flow sends ps v \<and> flow sends ps v \<le> (if v \<in> set (inv_venues (rp_tracker rp)) then max 0 (cur v - tgt v) else 0)"
    "0 \<le> flow receives ps v \<and> flow receives ps v \<le> (if v \<in> set (inv_venues (rp_tracker rp)) then max 0 (tgt v - cur v) else 0)"
    "0 < flow sends ps v \<Longrightarrow> flow sends ps v \<le> cur v - min_balance_of asset"
proof -
  let ?vs = "inv_venues (rp_tracker rp)"
  let ?ss = "fst (surplus_deficit D F rp sk tot)" and ?ds = "snd (surplus_deficit D F rp sk tot)"
  have amt: "skew_amount sk v = cur v" if "v \<in> set ?vs" for v
    using that by (simp add: sk cur_def skew_amount_tracked)
  have g: "gridded s (cur v)" "gridded s (tgt v)" if "v \<in> set ?vs" for v
    using grid that by (simp_all add: on_planner_grid_def cur_def tgt_def)
  have minb: "gridded s (min_balance_of asset)" using grid by (simp add: on_planner_grid_def)
  have sub: "dsub D (cur v) (tgt v) = cur v - tgt v" "dsub D (tgt v) (cur v) = tgt v - cur v" if "v \<in> set ?vs" for v
    using dsub_gridded [OF D, of s] g [OF that] by blast+
  have ss: "?ss = map (\<lambda>v. (v, cur v - tgt v)) (filter (\<lambda>v. cur v > tgt v) ?vs)"
    using amt sub by (auto simp: surplus_deficit_def Let_def simp flip: tgt_def intro!: map_cong filter_cong)
  have ds: "?ds = map (\<lambda>v. (v, tgt v - cur v)) (filter (\<lambda>v. cur v < tgt v) ?vs)"
    using amt sub by (auto simp: surplus_deficit_def Let_def simp flip: tgt_def intro!: map_cong filter_cong)
  have keep: "\<forall>v x. (v, x) \<in> set ?ss \<longrightarrow> (\<forall>c. have v = Some c \<longrightarrow> 0 < dsub D c (min_balance_of asset) \<longrightarrow>
      gridded s (dsub D c (min_balance_of asset)) \<and> dsub D c (min_balance_of asset) = c - min_balance_of asset)"
  proof (intro allI impI)
    fix v x c assume v: "(v, x) \<in> set ?ss" "have v = Some c" "0 < dsub D c (min_balance_of asset)"
    then have "gridded s c" using g known by (auto simp: ss cur_def)
    with v(3) show "gridded s (dsub D c (min_balance_of asset)) \<and> dsub D c (min_balance_of asset) = c - min_balance_of asset"
      using dsub_gridded [OF D _ minb] gridded_diff [OF _ minb] by simp
  qed
  have dist: "distinct (map fst ?ss)" using venues by (simp add: ss comp_def)
  have gs: "\<forall>(v, x) \<in> set ?ss. gridded s x" "\<forall>(v, x) \<in> set ?ds. gridded s x"
    using g by (auto simp: ss ds intro!: gridded_diff)
  note m = transfer_actions.match_venues_moves [OF act D dist gs keep, folded ps_def]
  from m have "0 \<le> flow sends ps v \<and> flow sends ps v \<le> open_amount ?ss v"
    "0 \<le> flow receives ps v \<and> flow receives ps v \<le> open_amount ?ds v" by blast+
  then show "0 \<le> flow sends ps v \<and> flow sends ps v \<le> (if v \<in> set ?vs then max 0 (cur v - tgt v) else 0)"
    "0 \<le> flow receives ps v \<and> flow receives ps v \<le> (if v \<in> set ?vs then max 0 (tgt v - cur v) else 0)"
    unfolding ss ds open_amount_map [OF venues] by (auto split: if_splits)
  show "flow sends ps v \<le> cur v - min_balance_of asset" if "0 < flow sends ps v"
    using m that known by (metis cur_def)
qed

text \<open>
  What carrying out a plan does to one venue: its amount moves from where it is towards its target, not
  past it, and a venue that gives something keeps the operating minimum.
\<close>

definition stays_in_bounds :: "dec \<Rightarrow> dec \<Rightarrow> dec \<Rightarrow> dec \<Rightarrow> dec \<Rightarrow> bool" where
  "stays_in_bounds cur tgt minb sent got \<longleftrightarrow>
     min cur tgt \<le> cur - sent + got \<and> cur - sent + got \<le> max cur tgt
     \<and> (0 < sent \<longrightarrow> minb \<le> cur - sent) \<and> \<not> (0 < sent \<and> 0 < got)"

lemma bounds_from_moves:
  assumes "0 \<le> sent \<and> sent \<le> max 0 (cur - tgt)" "0 \<le> got \<and> got \<le> max 0 (tgt - cur)"
    "0 < sent \<Longrightarrow> sent \<le> cur - minb"
  shows "stays_in_bounds cur tgt minb sent got"
  using assms by (cases "tgt \<le> cur") (auto simp: stays_in_bounds_def min_def max_def)

lemma planned_in_bounds:
  fixes act :: "venue \<Rightarrow> venue \<Rightarrow> dec \<Rightarrow> 'a list option"
  assumes "decimal_arith D" "transfer_actions act sends receives"
    and "distinct (inv_venues (rp_tracker rp))" "on_planner_grid D F s rp asset tot"
    and "sk = skew D F order asset (rp_tracker rp)"
    and "\<And>v cur. have v = Some cur \<Longrightarrow> cur = total_or_zero D v asset (rp_tracker rp)"
    and "v \<in> set (inv_venues (rp_tracker rp))"
    and "ps = match_venues D have (min_balance_of asset) act (fst (surplus_deficit D F rp sk tot)) (snd (surplus_deficit D F rp sk tot))"
  shows "stays_in_bounds (total_or_zero D v asset (rp_tracker rp)) (venue_target D F rp tot v) (min_balance_of asset)
    (flow sends ps v) (flow receives ps v)"
  using planned_moves [OF assms(1-5), of "have" v] assms(6-8) by (intro bounds_from_moves) simp_all

lemma match_venues_mem:
  assumes "p \<in> set (match_venues D have minb act ss ds)"
  shows "\<exists>v w a new. act v w a = Some new \<and> p \<in> set new"
proof -
  have d: "\<exists>w a new. f w a = Some new \<and> p \<in> set new" if "p \<in> set (fst (drain D f x y ds))" for f x y ds
    using that by (induction D f x y ds rule: drain.induct) (auto simp: Let_def split: if_splits option.splits prod.splits)
  show ?thesis
    using assms
  proof (induction ss arbitrary: ds)
    case (Cons vx ss)
    obtain v x where vx: "vx = (v, x)" by (cases vx)
    from Cons.prems have "(\<exists>ds'. p \<in> set (match_venues D have minb act ss ds')) \<or> (\<exists>y. p \<in> set (fst (drain D (act v) x y ds)))"
      by (auto simp: vx Let_def split: if_splits option.splits prod.splits) (metis fst_conv)
    with Cons.IH d [of "act v"] show ?case by blast
  qed simp
qed

text \<open>
  C26: rebalancing does not overshoot.  On amounts of a common decimal grid, and for any target ratios and
  any order in which balances are iterated, carrying out all transfers of \<open>plan\<close>, or all steps of
  \<open>plan_executable\<close>, moves the amount (before fees) of every venue towards its target and never
  past it, no venue both sends and receives, and a sending venue keeps at least the minimum operating
  balance.  Every planned transfer is at least the minimum withdrawal and worth more than its fee.
\<close>

theorem rebalance_no_overshoot:
  assumes "decimal_arith D" "distinct (inv_venues (rp_tracker rp))"
    and "on_planner_grid D F s rp asset (sk_total (skew D F order asset (rp_tracker rp)))"
    and "v \<in> set (inv_venues (rp_tracker rp))"
  defines "cur \<equiv> total_or_zero D v asset (rp_tracker rp)"
    and "tgt \<equiv> venue_target D F rp (sk_total (skew D F order asset (rp_tracker rp))) v"
  shows "stays_in_bounds cur tgt (min_balance_of asset)
       (flow plan_sends (plan D F order rp asset) v) (flow plan_receives (plan D F order rp asset) v)
    \<and> stays_in_bounds cur tgt (min_balance_of asset)
       (flow step_sends (plan_executable D F order rp asset quote_asset slip) v)
       (flow step_receives (plan_executable D F order rp asset quote_asset slip) v)
    \<and> (\<forall>p \<in> set (plan D F order rp asset). 0 < net_amount D p
         \<and> (\<forall>f. transfer_fees asset = Some f \<longrightarrow> min_withdrawal f \<le> tp_amount p \<and> tp_fee p = withdrawal_fee f))"
proof -
  let ?sk = "skew D F order asset (rp_tracker rp)"
  let ?sd = "surplus_deficit D F rp ?sk (sk_total ?sk)"
  have idle: "stays_in_bounds cur tgt (min_balance_of asset) 0 0" by (simp add: stays_in_bounds_def)
  have "stays_in_bounds cur tgt (min_balance_of asset)
       (flow plan_sends (plan D F order rp asset) v) (flow plan_receives (plan D F order rp asset) v)"
  proof (cases "plan D F order rp asset = []")
    case False
    then show ?thesis
      unfolding cur_def tgt_def
      by (intro planned_in_bounds [OF assms(1) transfers.transfer_actions_axioms assms(2,3) refl _ assms(4)])
        (auto simp: plan_def Let_def case_prod_unfold split: if_splits)
  qed (simp add: idle)
  moreover have "stays_in_bounds cur tgt (min_balance_of asset)
       (flow step_sends (plan_executable D F order rp asset quote_asset slip) v)
       (flow step_receives (plan_executable D F order rp asset quote_asset slip) v)"
  proof (cases "plan_executable D F order rp asset quote_asset slip = []")
    case False
    then show ?thesis
      unfolding cur_def tgt_def
      by (intro planned_in_bounds [OF assms(1) steps.transfer_actions_axioms assms(2,3) refl _ assms(4)])
        (auto simp: plan_executable_def Let_def case_prod_unfold total_or_zero_def split: if_splits)
  qed (simp add: idle)
  moreover have "0 < net_amount D p
         \<and> (\<forall>f. transfer_fees asset = Some f \<longrightarrow> min_withdrawal f \<le> tp_amount p \<and> tp_fee p = withdrawal_fee f)"
    if "p \<in> set (plan D F order rp asset)" for p
    using that
    by (auto simp: plan_def Let_def case_prod_unfold net_amount_def transfer_act_def
        dest!: match_venues_mem split: if_splits option.splits)
  ultimately show ?thesis by blast
qed

definition sample_planner :: rebalance_planner where
  "sample_planner = rebalance_planner_new exact_f64
     \<lparr>balances = [(Binance, ''LINK'') \<mapsto> \<lparr>vb_free = 30, vb_locked = 0, vb_reserved = 0\<rparr>],
      inv_venues = [Binance, Wallet], chain_id = 1\<rparr> 30"

lemma sample_totals:
  "inv_venues (rp_tracker sample_planner) = [Binance, Wallet]"
  "total_or_zero exact_ops Binance ''LINK'' (rp_tracker sample_planner) = 30"
  "total_or_zero exact_ops Wallet ''LINK'' (rp_tracker sample_planner) = 0"
  "get_total exact_ops Binance ''LINK'' (rp_tracker sample_planner) = Some 30"
  "venue_target exact_ops exact_f64 sample_planner 30 Binance = 15"
  "venue_target exact_ops exact_f64 sample_planner 30 Wallet = 15"
  by (simp_all add: sample_planner_def rebalance_planner_new_def total_or_zero_def get_total_def venue_target_def)

lemma sample_skew:
  "sk_total (skew exact_ops exact_f64 [Binance, Wallet] ''LINK'' (rp_tracker sample_planner)) = 30"
  "max_deviation_pct (skew exact_ops exact_f64 [Binance, Wallet] ''LINK'' (rp_tracker sample_planner)) = 50"
  by (simp_all add: skew_def venue_share_def sample_totals Let_def)

lemma sample_grid_int: "gridded 0 (of_int m)" if "0 \<le> m" "m < 2 ^ 96"
proof -
  have "(of_int m :: rat) < of_int (2 ^ 96)" using that by (simp only: of_int_less_iff)
  then show ?thesis using that by (auto simp: gridded_def on_grid_def)
qed

theorem rebalance_no_overshoot_witness:
  "map (\<lambda>p. (tp_from p, tp_to p, tp_amount p)) (plan exact_ops exact_f64 [Binance, Wallet] sample_planner ''LINK'') = [(Binance, Wallet, 15)]
   \<and> stays_in_bounds 30 15 5 15 0"
proof -
  have p: "plan exact_ops exact_f64 [Binance, Wallet] sample_planner ''LINK'' =
      [\<lparr>tp_from = Binance, tp_to = Wallet, tp_asset = ''LINK'', tp_amount = 15, tp_fee = 2 / 10, tp_time_min = 15\<rparr>]"
    by (simp add: plan_def sample_skew sample_totals surplus_deficit_def skew_amount_tracked transfer_act_def
        transfer_fees_def fee_entry_def min_balance_of_def min_operating_balance_def DEFAULT_TRANSFER_TIME_MIN_def
        rebalance_planner_new_def Let_def) (simp add: sample_planner_def rebalance_planner_new_def)
  have g: "on_planner_grid exact_ops exact_f64 0 sample_planner ''LINK''
      (sk_total (skew exact_ops exact_f64 [Binance, Wallet] ''LINK'' (rp_tracker sample_planner)))"
    using sample_grid_int [of 5] sample_grid_int [of 30] sample_grid_int [of 15] sample_grid_int [of 0]
    by (simp add: on_planner_grid_def sample_totals sample_skew min_balance_of_def min_operating_balance_def)
  from rebalance_no_overshoot [OF exact_ops.decimal_arith_axioms _ g, of Binance] show ?thesis
    by (simp add: p sample_totals sample_skew plan_sends_def plan_receives_def min_balance_of_def min_operating_balance_def)
qed

end
