(* ===== verification/Rebalance_Executor.thy ===== *)
theory Rebalance_Executor
  imports Rebalance
begin

text \<open>
  \<open>inventory/rebalance_executor.rs\<close>: execution of planned steps as immediate-or-cancel orders.  The exchange
  clients answer from the number of the step and the orders placed so far.  The state is the shared
  tracker and the log of orders sent to an exchange; the tracker is changed by this executor only.
\<close>

section \<open>Data\<close>

datatype rebalance_status =
    Executed | PartiallyFilled | SlippageExceeded | InsufficientBalanceStatus | OrderRejectedStatus
  | RateLimited | DryRun | Aborted | NotSupported

record rebalance_result =
  rr_step :: rebalance_step
  rr_order_id :: "string option"
  rr_amount_filled :: dec
  rr_avg_price :: dec
  rr_fee :: dec
  rr_fee_asset :: string
  rr_status :: rebalance_status

record rebalance_config =
  rc_max_slippage_bps :: dec
  rc_max_single_trade_usd :: dec
  rc_min_fill_pct :: rat
  rc_order_poll_interval_ms :: nat
  rc_order_poll_max_attempts :: nat
  rc_dry_run :: bool

text \<open>\<open>0.8\<close> is the double nearest to it.\<close>

definition rebalance_config_default :: rebalance_config where
  "rebalance_config_default =
     \<lparr>rc_max_slippage_bps = 50, rc_max_single_trade_usd = 1000, rc_min_fill_pct = 3602879701896397 / 2 ^ 52,
      rc_order_poll_interval_ms = 500, rc_order_poll_max_attempts = 10, rc_dry_run = False\<rparr>"

definition F64_EPSILON :: rat where "F64_EPSILON = 1 / 2 ^ 52"

text \<open>An order as it is sent, in \<open>f64\<close>.\<close>

record ioc_order =
  io_venue :: venue
  io_symbol :: string
  io_side :: string
  io_amount :: rat
  io_price :: rat

record exchange_env =
  has_client :: "venue \<Rightarrow> bool"
  fetch_order_book :: "nat \<Rightarrow> ioc_order list \<Rightarrow> venue \<Rightarrow> string \<Rightarrow> nat \<Rightarrow> exchange_error + order_book_snapshot"
  create_limit_ioc_order :: "nat \<Rightarrow> ioc_order list \<Rightarrow> ioc_order \<Rightarrow> exchange_error + order_result"

record rx_state =
  rx_tracker :: inventory_tracker
  rx_log :: "ioc_order list"

section \<open>One trade\<close>

definition result_with :: "rebalance_step \<Rightarrow> dec \<Rightarrow> rebalance_status \<Rightarrow> rebalance_result" where
  "result_with p price st =
     \<lparr>rr_step = p, rr_order_id = None, rr_amount_filled = 0, rr_avg_price = price, rr_fee = 0, rr_fee_asset = '''',
      rr_status = st\<rparr>"

definition make_rejected_result :: "trade_step \<Rightarrow> rebalance_result" where
  "make_rejected_result trade = result_with (Trade trade) 0 OrderRejectedStatus"

definition estimate_price :: "exchange_env \<Rightarrow> nat \<Rightarrow> ioc_order list \<Rightarrow> trade_step \<Rightarrow> dec option" where
  "estimate_price E k placed trade =
     (case fetch_order_book E k placed (ts_venue trade) (ts_symbol trade) 5 of Inr ob \<Rightarrow> mid_price ob | Inl _ \<Rightarrow> None)"

text \<open>The asset a trade spends and how much of it.\<close>

definition trade_need :: "dec_ops \<Rightarrow> trade_step \<Rightarrow> dec \<Rightarrow> string \<times> dec" where
  "trade_need D trade price =
     (if ts_side trade = ''BUY'' then (ts_quote trade, dmul D (ts_amount trade) price) else (ts_base trade, ts_amount trade))"

definition fill_status :: "dec_ops \<Rightarrow> f64_ops \<Rightarrow> rebalance_config \<Rightarrow> trade_step \<Rightarrow> dec \<Rightarrow> rebalance_status" where
  "fill_status D F cfg trade filled =
     (if filled \<le> 0 then OrderRejectedStatus
      else if ts_amount trade > 0
      then (let ratio = (case f64_of_dec F (ddiv D filled (ts_amount trade)) of Some x \<Rightarrow> x | None \<Rightarrow> 0)
            in if fadd F ratio F64_EPSILON \<ge> rc_min_fill_pct cfg then Executed else PartiallyFilled)
      else Executed)"

definition finalize_order ::
  "dec_ops \<Rightarrow> f64_ops \<Rightarrow> rebalance_config \<Rightarrow> order_result \<Rightarrow> trade_step \<Rightarrow> rx_state \<Rightarrow> rx_state \<times> rebalance_result" where
  "finalize_order D F cfg ord trade st =
     (let filled = or_amount_filled ord; price = or_avg_fill_price ord;
          tracker' = (if filled > 0
            then fst (record_trade_at D (ts_venue trade) (lower (ts_side trade)) (ts_base trade) (ts_quote trade) filled
                        (dmul D filled price) (or_fee ord)
                        (if or_fee_asset ord = [] then ts_quote trade else or_fee_asset ord) (rx_tracker st))
            else rx_tracker st)
      in (st\<lparr>rx_tracker := tracker'\<rparr>,
          \<lparr>rr_step = Trade trade, rr_order_id = Some (or_id ord), rr_amount_filled = filled, rr_avg_price = price,
           rr_fee = or_fee ord, rr_fee_asset = or_fee_asset ord, rr_status = fill_status D F cfg trade filled\<rparr>))"

text \<open>A second order at the best opposite price, sent only after a first order that filled nothing.\<close>

definition retry_order ::
  "f64_ops \<Rightarrow> exchange_env \<Rightarrow> nat \<Rightarrow> order_book_snapshot \<Rightarrow> trade_step \<Rightarrow> rat \<Rightarrow> order_result \<Rightarrow> rx_state \<Rightarrow> rx_state \<times> order_result" where
  "retry_order F E k ob trade amount_f64 ord st =
     (if or_amount_filled ord \<noteq> 0 then (st, ord)
      else case map_option fst (if ts_side trade = ''BUY'' then best_ask ob else best_bid ob) of
             None \<Rightarrow> (st, ord)
           | Some p \<Rightarrow>
               (case f64_of_dec F p of
                  None \<Rightarrow> (st, ord)
                | Some p64 \<Rightarrow>
                    (let o2 = \<lparr>io_venue = ts_venue trade, io_symbol = ts_symbol trade, io_side = ts_side trade,
                               io_amount = amount_f64, io_price = p64\<rparr>;
                         st' = st\<lparr>rx_log := rx_log st @ [o2]\<rparr>
                     in case create_limit_ioc_order E k (rx_log st) o2 of Inr r \<Rightarrow> (st', r) | Inl e \<Rightarrow> (st', ord))))"

definition order_failure :: "exchange_error \<Rightarrow> rebalance_status" where
  "order_failure e =
     (case e of RateLimit m \<Rightarrow> RateLimited | InsufficientFunds m \<Rightarrow> InsufficientBalanceStatus | _ \<Rightarrow> OrderRejectedStatus)"

definition place_order ::
  "dec_ops \<Rightarrow> f64_ops \<Rightarrow> exchange_env \<Rightarrow> rebalance_config \<Rightarrow> nat \<Rightarrow> order_book_snapshot \<Rightarrow> dec \<Rightarrow> trade_step \<Rightarrow> rx_state
     \<Rightarrow> rx_state \<times> rebalance_result" where
  "place_order D F E cfg k ob avg trade st =
     (case (f64_of_dec F (ts_amount trade), f64_of_dec F (case mid_price ob of Some m \<Rightarrow> m | None \<Rightarrow> avg)) of
        (Some amount_f64, Some price_f64) \<Rightarrow>
          (let o1 = \<lparr>io_venue = ts_venue trade, io_symbol = ts_symbol trade, io_side = ts_side trade,
                     io_amount = amount_f64, io_price = price_f64\<rparr>;
               st1 = st\<lparr>rx_log := rx_log st @ [o1]\<rparr>
           in case create_limit_ioc_order E k (rx_log st) o1 of
                Inl e \<Rightarrow> (st1, result_with (Trade trade) 0 (order_failure e))
              | Inr r \<Rightarrow> (let (st2, r2) = retry_order F E k ob trade amount_f64 r st1
                          in finalize_order D F cfg r2 trade st2))
      | _ \<Rightarrow> (st, make_rejected_result trade))"

definition execute_trade ::
  "dec_ops \<Rightarrow> f64_ops \<Rightarrow> exchange_env \<Rightarrow> rebalance_config \<Rightarrow> nat \<Rightarrow> trade_step \<Rightarrow> rx_state \<Rightarrow> rx_state \<times> rebalance_result" where
  "execute_trade D F E cfg k trade st =
     (if \<not> has_client E (ts_venue trade) then (st, make_rejected_result trade)
      else case estimate_price E k (rx_log st) trade of
             None \<Rightarrow> (st, make_rejected_result trade)
           | Some price \<Rightarrow>
               (let (asset, amount) = trade_need D trade price;
                    available = (case get_available D (ts_venue trade) asset (rx_tracker st) of Some x \<Rightarrow> x | None \<Rightarrow> 0)
                in if available < amount then (st, result_with (Trade trade) 0 InsufficientBalanceStatus)
                   else case fetch_order_book E k (rx_log st) (ts_venue trade) (ts_symbol trade) 20 of
                          Inl e \<Rightarrow> (st, make_rejected_result trade)
                        | Inr ob \<Rightarrow>
                            (case walk_the_book D ob (lower (ts_side trade)) (ts_amount trade) of
                               Ok w \<Rightarrow>
                                 (if slippage_bps w > ts_max_slippage_bps trade
                                  then (st, result_with (Trade trade) (avg_price w) SlippageExceeded)
                                  else if dmul D (ts_amount trade) (avg_price w) > rc_max_single_trade_usd cfg
                                  then (st, make_rejected_result trade)
                                  else if rc_dry_run cfg then (st, result_with (Trade trade) (avg_price w) DryRun)
                                  else place_order D F E cfg k ob (avg_price w) trade st)
                             | _ \<Rightarrow> (st, make_rejected_result trade))))"

section \<open>A plan\<close>

primrec execute_step ::
  "dec_ops \<Rightarrow> f64_ops \<Rightarrow> exchange_env \<Rightarrow> rebalance_config \<Rightarrow> nat \<Rightarrow> rebalance_step \<Rightarrow> rx_state \<Rightarrow> rx_state \<times> rebalance_result" where
  "execute_step D F E cfg k (Trade trade) st = execute_trade D F E cfg k trade st"
| "execute_step D F E cfg k (Withdraw w) st = (st, result_with (Withdraw w) 0 NotSupported)"

definition step_succeeded :: "rebalance_status \<Rightarrow> bool" where
  "step_succeeded st \<longleftrightarrow> st = Executed \<or> st = PartiallyFilled \<or> st = DryRun"

fun execute_loop ::
  "dec_ops \<Rightarrow> f64_ops \<Rightarrow> exchange_env \<Rightarrow> rebalance_config \<Rightarrow> nat \<Rightarrow> bool \<Rightarrow> rebalance_step list \<Rightarrow> rx_state \<Rightarrow> rx_state \<times> rebalance_result list" where
  "execute_loop D F E cfg k failed [] st = (st, [])"
| "execute_loop D F E cfg k failed (p # ps) st =
     (if failed
      then (let (st', rs) = execute_loop D F E cfg (Suc k) True ps st in (st', result_with p 0 Aborted # rs))
      else let (st1, r) = execute_step D F E cfg k p st;
               (st', rs) = execute_loop D F E cfg (Suc k) (\<not> step_succeeded (rr_status r)) ps st1
           in (st', r # rs))"

definition execute_plan ::
  "dec_ops \<Rightarrow> f64_ops \<Rightarrow> exchange_env \<Rightarrow> rebalance_config \<Rightarrow> rebalance_step list \<Rightarrow> rx_state \<Rightarrow> rx_state \<times> rebalance_result list" where
  "execute_plan D F E cfg ps st = execute_loop D F E cfg 0 False ps st"

section \<open>Orders\<close>

text \<open>Everything \<open>execute_trade\<close> checks before it sends an order, with the book it then uses.\<close>

definition guards_hold :: "dec_ops \<Rightarrow> exchange_env \<Rightarrow> rebalance_config \<Rightarrow> nat \<Rightarrow> trade_step \<Rightarrow> rx_state \<Rightarrow> order_book_snapshot \<Rightarrow> bool" where
  "guards_hold D E cfg k trade st ob \<longleftrightarrow>
     has_client E (ts_venue trade) \<and> \<not> rc_dry_run cfg
     \<and> fetch_order_book E k (rx_log st) (ts_venue trade) (ts_symbol trade) 20 = Inr ob
     \<and> (\<exists>price. estimate_price E k (rx_log st) trade = Some price
          \<and> snd (trade_need D trade price)
              \<le> (case get_available D (ts_venue trade) (fst (trade_need D trade price)) (rx_tracker st) of Some x \<Rightarrow> x | None \<Rightarrow> 0))
     \<and> (\<exists>w. walk_the_book D ob (lower (ts_side trade)) (ts_amount trade) = Ok w
          \<and> slippage_bps w \<le> ts_max_slippage_bps trade
          \<and> dmul D (ts_amount trade) (avg_price w) \<le> rc_max_single_trade_usd cfg)"

lemma execute_trade_cases:
  assumes "execute_trade D F E cfg k trade st = (st', r)"
  obtains (none) "st' = st" "rr_amount_filled r = 0" "rr_status r \<notin> {Executed, PartiallyFilled}" "rr_status r = DryRun \<Longrightarrow> rc_dry_run cfg"
  | (placed) ob avg where "guards_hold D E cfg k trade st ob" "place_order D F E cfg k ob avg trade st = (st', r)"
  using assms
  by (auto simp: execute_trade_def guards_hold_def make_rejected_result_def result_with_def Let_def case_prod_unfold not_less
      split: if_splits option.splits sum.splits outcome.splits)

text \<open>The orders of one trade step: one, or two when the first was answered with nothing filled.\<close>

definition orders_for_trade :: "f64_ops \<Rightarrow> exchange_env \<Rightarrow> nat \<Rightarrow> trade_step \<Rightarrow> ioc_order list \<Rightarrow> ioc_order list \<Rightarrow> bool" where
  "orders_for_trade F E k trade placed os \<longleftrightarrow>
     (\<forall>q \<in> set os. io_venue q = ts_venue trade \<and> io_symbol q = ts_symbol trade \<and> io_side q = ts_side trade
        \<and> Some (io_amount q) = f64_of_dec F (ts_amount trade))
     \<and> (length os \<le> 1 \<or> length os = 2 \<and> (\<exists>r. create_limit_ioc_order E k placed (os ! 0) = Inr r \<and> or_amount_filled r = 0))"

lemma finalize_keeps_log [simp]: "rx_log (fst (finalize_order D F cfg ord trade st)) = rx_log st"
  by (simp add: finalize_order_def Let_def)

lemma place_order_orders:
  assumes "place_order D F E cfg k ob avg trade st = (st', r)"
  shows "\<exists>os. rx_log st' = rx_log st @ os \<and> orders_for_trade F E k trade (rx_log st) os \<and> (os = [] \<longrightarrow> st' = st)"
proof (cases "f64_of_dec F (ts_amount trade)")
  case (Some a)
  show ?thesis
  proof (cases "f64_of_dec F (case mid_price ob of Some m \<Rightarrow> m | None \<Rightarrow> avg)")
    case (Some p)
    define o1 where "o1 = \<lparr>io_venue = ts_venue trade, io_symbol = ts_symbol trade, io_side = ts_side trade, io_amount = a, io_price = p\<rparr>"
    have one: "orders_for_trade F E k trade (rx_log st) [o1]"
      by (simp add: orders_for_trade_def o1_def \<open>f64_of_dec F (ts_amount trade) = Some a\<close>)
    show ?thesis
    proof (cases "create_limit_ioc_order E k (rx_log st) o1")
      case (Inl e)
      then have "rx_log st' = rx_log st @ [o1]"
        using assms Some \<open>f64_of_dec F (ts_amount trade) = Some a\<close> by (auto simp: place_order_def Let_def o1_def)
      with one show ?thesis by blast
    next
      case (Inr x)
      obtain st2 r2 where st2: "retry_order F E k ob trade a x (st\<lparr>rx_log := rx_log st @ [o1]\<rparr>) = (st2, r2)" by fastforce
      have "st' = fst (finalize_order D F cfg r2 trade st2)"
        using assms Some Inr \<open>f64_of_dec F (ts_amount trade) = Some a\<close> st2 by (simp add: place_order_def Let_def flip: o1_def)
      then have log: "rx_log st' = rx_log st2" by simp
      from st2 consider "rx_log st2 = rx_log st @ [o1]"
        | o2 where "rx_log st2 = rx_log st @ [o1, o2]" "or_amount_filled x = 0" "io_venue o2 = ts_venue trade"
            "io_symbol o2 = ts_symbol trade" "io_side o2 = ts_side trade" "io_amount o2 = a"
        by (auto simp: retry_order_def Let_def split: if_splits option.splits sum.splits)
      then show ?thesis
      proof cases
        case 1
        with log one show ?thesis by auto
      next
        case (2 o2)
        then have "orders_for_trade F E k trade (rx_log st) [o1, o2]"
          using one Inr \<open>f64_of_dec F (ts_amount trade) = Some a\<close> by (auto simp: orders_for_trade_def)
        with log 2 show ?thesis by auto
      qed
    qed
  qed (use assms in \<open>auto simp: place_order_def orders_for_trade_def split: option.splits\<close>)
qed (use assms in \<open>auto simp: place_order_def orders_for_trade_def\<close>)

text \<open>
  Orders are sent only behind the guards.  A trade step of a rebalance sends at most two orders, for
  its own venue, symbol, side and amount, the second only when the exchange answered the first with
  nothing filled.  If it sends any, the venue has a client, the run is not a dry run, the tracker
  covers what the trade spends at the estimated price, and the book shows the slippage and the
  notional within their limits.  If it sends none, the tracker is unchanged.
\<close>

lemma orders_only_behind_guards:
  assumes "execute_trade D F E cfg k trade st = (st', r)"
  shows "\<exists>os. rx_log st' = rx_log st @ os \<and> orders_for_trade F E k trade (rx_log st) os
     \<and> (os \<noteq> [] \<longrightarrow> (\<exists>ob. guards_hold D E cfg k trade st ob)) \<and> (os = [] \<longrightarrow> rx_tracker st' = rx_tracker st)"
  using assms
proof (cases rule: execute_trade_cases)
  case none
  then show ?thesis by (intro exI [of _ "[]"]) (simp add: orders_for_trade_def)
next
  case (placed ob avg)
  with place_order_orders [OF placed(2)] show ?thesis by auto
qed

section \<open>Plans\<close>

lemma execute_loop_failed:
  "execute_loop D F E cfg k True ps st = (st, map (\<lambda>p. result_with p 0 Aborted) ps)"
  by (induction ps arbitrary: k) simp_all

lemma execute_step_result:
  assumes "execute_step D F E cfg k p st = (st', r)"
  shows "rr_step r = p" "rr_status r \<noteq> Aborted" "rc_dry_run cfg \<Longrightarrow> st' = st"
proof -
  have "rr_step r = p \<and> rr_status r \<noteq> Aborted"
  proof (cases p)
    case (Trade trade)
    have place: "rr_step x = Trade trade \<and> rr_status x \<noteq> Aborted" if "place_order D F E cfg k ob avg trade st = (st'', x)" for ob avg st'' x
      using that
      by (auto simp: place_order_def finalize_order_def fill_status_def make_rejected_result_def result_with_def
          order_failure_def Let_def case_prod_unfold split: option.splits sum.splits exchange_error.splits if_splits)
    show ?thesis
      using assms Trade
      by (auto simp: execute_trade_def make_rejected_result_def result_with_def Let_def case_prod_unfold dest: place
          split: if_splits option.splits sum.splits outcome.splits)
  qed (use assms in \<open>auto simp: result_with_def\<close>)
  then show "rr_step r = p" "rr_status r \<noteq> Aborted" by simp_all
  show "st' = st" if "rc_dry_run cfg"
    using assms that by (cases p) (auto elim: execute_trade_cases simp: guards_hold_def)
qed

lemma execute_loop_stops:
  assumes "execute_loop D F E cfg k False ps st = (st', rs)"
  shows "map rr_step rs = ps
    \<and> (\<exists>n. (\<forall>i < n. i < length rs \<longrightarrow> step_succeeded (rr_status (rs ! i)))
          \<and> (n < length rs \<longrightarrow> \<not> step_succeeded (rr_status (rs ! n)) \<and> rr_status (rs ! n) \<noteq> Aborted)
          \<and> (\<forall>i < length rs. n < i \<longrightarrow> rr_status (rs ! i) = Aborted)
          \<and> execute_loop D F E cfg k False (take (Suc n) ps) st = (st', take (Suc n) rs))
    \<and> (rc_dry_run cfg \<longrightarrow> st' = st)"
  using assms
proof (induction ps arbitrary: k st rs)
  case (Cons p ps)
  obtain st1 r where r: "execute_step D F E cfg k p st = (st1, r)" by fastforce
  note step = execute_step_result [OF r]
  show ?case
  proof (cases "step_succeeded (rr_status r)")
    case True
    then obtain rs0 where rs0: "execute_loop D F E cfg (Suc k) False ps st1 = (st', rs0)" "rs = r # rs0"
      using Cons.prems r by (auto split: prod.splits)
    from Cons.IH [OF rs0(1)] obtain n where n: "map rr_step rs0 = ps" "rc_dry_run cfg \<longrightarrow> st' = st1"
      "\<forall>i < n. i < length rs0 \<longrightarrow> step_succeeded (rr_status (rs0 ! i))"
      "n < length rs0 \<longrightarrow> \<not> step_succeeded (rr_status (rs0 ! n)) \<and> rr_status (rs0 ! n) \<noteq> Aborted"
      "\<forall>i < length rs0. n < i \<longrightarrow> rr_status (rs0 ! i) = Aborted"
      "execute_loop D F E cfg (Suc k) False (take (Suc n) ps) st1 = (st', take (Suc n) rs0)" by blast
    have "execute_loop D F E cfg k False (take (Suc (Suc n)) (p # ps)) st = (st', take (Suc (Suc n)) rs)"
      using r True n(6) by (simp add: rs0(2))
    moreover have "\<forall>i < Suc n. i < length rs \<longrightarrow> step_succeeded (rr_status (rs ! i))"
      "\<forall>i < length rs. Suc n < i \<longrightarrow> rr_status (rs ! i) = Aborted"
      using n(3,5) True by (auto simp: rs0(2) nth_Cons split: nat.splits)
    ultimately show ?thesis
      using n(1,2,4) step by (intro conjI exI [of _ "Suc n"]) (auto simp: rs0(2))
  next
    case False
    then have "st' = st1" "rs = r # map (\<lambda>p. result_with p 0 Aborted) ps"
      using Cons.prems r by (auto simp: execute_loop_failed)
    with False step r show ?thesis
      by (intro conjI exI [of _ 0]) (auto simp: result_with_def nth_Cons comp_def split: nat.splits)
  qed
qed auto

text \<open>
  A plan stops at its first failure.  \<open>execute_plan\<close> answers every step in order; up to some position all
  steps succeeded (fully, partially or as a dry run), the step at that position, if there is one,
  failed, and every later step is reported as aborted.  The state afterwards is the one reached
  by the steps up to and including the failed one, so no aborted step sent an order.  A dry run
  changes nothing at all.
\<close>

lemma execute_plan_stops_at_failure:
  assumes "execute_plan D F E cfg ps st = (st', rs)"
  shows "map rr_step rs = ps
    \<and> (\<exists>n. (\<forall>i < n. i < length rs \<longrightarrow> step_succeeded (rr_status (rs ! i)))
          \<and> (n < length rs \<longrightarrow> \<not> step_succeeded (rr_status (rs ! n)) \<and> rr_status (rs ! n) \<noteq> Aborted)
          \<and> (\<forall>i < length rs. n < i \<longrightarrow> rr_status (rs ! i) = Aborted)
          \<and> execute_plan D F E cfg (take (Suc n) ps) st = (st', take (Suc n) rs))
    \<and> (rc_dry_run cfg \<longrightarrow> st' = st)"
  using execute_loop_stops [of D F E cfg 0 ps st st' rs] assms by (simp add: execute_plan_def)

text \<open>A sample exchange whose book shows a bid of 100 for 50 units and that fills every order fully.\<close>

definition link_book :: order_book_snapshot where
  "link_book = \<lparr>book_symbol = ''LINKUSDT'', book_timestamp = 0, bids = [(100, 50)], asks = [(102, 50)],
     best_bid = Some (100, 50), best_ask = Some (102, 50), mid_price = Some 101, book_spread_bps = None\<rparr>"

definition sample_exchange :: exchange_env where
  "sample_exchange =
     \<lparr>has_client = is_cex, fetch_order_book = (\<lambda>k placed v s n. Inr link_book),
      create_limit_ioc_order = (\<lambda>k placed q. Inr
        \<lparr>or_id = ''1'', or_symbol = io_symbol q, or_side = io_side q, or_order_type = ''limit'', or_time_in_force = ''IOC'',
         or_amount_requested = io_amount q, or_amount_filled = io_amount q, or_avg_fill_price = 100, or_fee = 0,
         or_fee_asset = '''', or_status = ''filled'', or_timestamp = 0\<rparr>)\<rparr>"

definition sample_trade :: trade_step where
  "sample_trade = \<lparr>ts_venue = Binance, ts_symbol = ''LINKUSDT'', ts_side = ''SELL'', ts_base = ''LINK'', ts_quote = ''USDT'',
     ts_amount = 9, ts_max_slippage_bps = 50\<rparr>"

definition sample_rx :: rx_state where
  "sample_rx = \<lparr>rx_tracker = rp_tracker sample_planner, rx_log = []\<rparr>"

lemma sample_trade_executes:
  "\<exists>st' r. execute_trade exact_ops exact_f64 sample_exchange rebalance_config_default k sample_trade sample_rx = (st', r)
     \<and> rr_status r = Executed
     \<and> rx_log st' = [\<lparr>io_venue = Binance, io_symbol = ''LINKUSDT'', io_side = ''SELL'', io_amount = 9, io_price = 101\<rparr>]"
proof -
  have l: "lower ''SELL'' = ''sell''" by code_simp
  have a: "get_available exact_ops Binance ''LINK'' (rp_tracker sample_planner) = Some 30"
    by (simp add: get_available_def sample_planner_def rebalance_planner_new_def)
  have w: "walk_the_book exact_ops link_book ''sell'' 9 = Ok \<lparr>avg_price = 100, total_cost = 900, slippage_bps = 0,
      levels_consumed = 1, fully_filled = True, fills = [\<lparr>fl_price = 100, fl_qty = 9, fl_cost = 900\<rparr>]\<rparr>"
    by (simp add: walk_the_book_def walk_finish_def walk_start_def link_book_def)
  have m: "mid_price link_book = Some 101" by (simp add: link_book_def)
  show ?thesis
    by (simp add: execute_trade_def sample_trade_def sample_rx_def sample_exchange_def rebalance_config_default_def
        estimate_price_def trade_need_def is_cex_def place_order_def retry_order_def finalize_order_def fill_status_def
        F64_EPSILON_def l a w m)
qed

lemma orders_only_behind_guards_witness:
  "\<exists>ob. guards_hold exact_ops sample_exchange rebalance_config_default 0 sample_trade sample_rx ob"
proof -
  obtain st' r where e: "execute_trade exact_ops exact_f64 sample_exchange rebalance_config_default 0 sample_trade sample_rx = (st', r)"
    "length (rx_log st') = 1" using sample_trade_executes by fastforce
  from orders_only_behind_guards [OF e(1)] e(2) show ?thesis by (auto simp: sample_rx_def)
qed

lemma execute_plan_stops_at_failure_witness:
  "\<exists>st' r r1 r2. execute_plan exact_ops exact_f64 sample_exchange rebalance_config_default
       [Trade sample_trade, Withdraw \<lparr>ws_from = Binance, ws_to = Wallet, ws_asset = ''LINK'', ws_amount = 5, ws_fee = 1\<rparr>,
        Trade sample_trade] sample_rx = (st', [r, r1, r2])
     \<and> rr_status r = Executed \<and> rr_status r1 = NotSupported \<and> rr_status r2 = Aborted"
proof -
  let ?w = "\<lparr>ws_from = Binance, ws_to = Wallet, ws_asset = ''LINK'', ws_amount = 5, ws_fee = 1\<rparr>"
  obtain st' r where e: "execute_trade exact_ops exact_f64 sample_exchange rebalance_config_default 0 sample_trade sample_rx = (st', r)"
    "rr_status r = Executed" using sample_trade_executes by fastforce
  have x: "execute_plan exact_ops exact_f64 sample_exchange rebalance_config_default [Trade sample_trade, Withdraw ?w, Trade sample_trade] sample_rx
      = (st', [r, result_with (Withdraw ?w) 0 NotSupported, result_with (Trade sample_trade) 0 Aborted])"
    using e by (simp add: execute_plan_def step_succeeded_def result_with_def)
  from execute_plan_stops_at_failure [OF x] x e(2) show ?thesis by (simp add: result_with_def)
qed

end
