(* ===== verification/Pnl.thy ===== *)
theory Pnl
  imports Rounding Signals Order_Book
begin

text \<open>
  \<open>inventory/pnl.rs\<close>: the ledger of completed arbitrage trades and its statistics.  The CSV and JSON-lines
  writers are not modelled.  The square root of \<open>f64\<close> in the Sharpe estimate is an argument.
\<close>

section \<open>Data\<close>

record trade_leg =
  leg_id :: string
  leg_timestamp :: date_time
  leg_venue :: venue
  leg_symbol :: string
  leg_side :: string
  leg_amount :: dec
  leg_price :: dec
  leg_fee :: dec
  leg_fee_asset :: string

record arb_record =
  ar_id :: string
  ar_timestamp :: date_time
  buy_leg :: trade_leg
  sell_leg :: trade_leg
  ar_gas_cost_usd :: dec
  ar_expected_gross_pnl_usd :: dec
  ar_expected_fees_usd :: dec
  ar_expected_net_pnl_usd :: dec
  ar_actual_gross_pnl_usd :: dec
  ar_actual_fees_usd :: dec
  ar_actual_cex_fee_usd :: dec
  ar_actual_onchain_gas_fee_usd :: dec
  ar_actual_net_pnl_usd :: dec
  ar_onchain_gas_used :: "string option"
  ar_onchain_gas_fee_wei :: "string option"

definition gross_pnl :: "arb_record \<Rightarrow> dec" where "gross_pnl t = ar_actual_gross_pnl_usd t"
definition total_fees :: "arb_record \<Rightarrow> dec" where "total_fees t = ar_actual_fees_usd t"
definition net_pnl :: "arb_record \<Rightarrow> dec" where "net_pnl t = ar_actual_net_pnl_usd t"

definition notional :: "dec_ops \<Rightarrow> arb_record \<Rightarrow> dec" where
  "notional D t = dmul D (leg_amount (buy_leg t)) (leg_price (buy_leg t))"

definition net_pnl_bps :: "dec_ops \<Rightarrow> arb_record \<Rightarrow> dec" where
  "net_pnl_bps D t = (if notional D t = 0 then 0 else dmul D (ddiv D (net_pnl t) (notional D t)) BPS_SCALE)"

record pnl_summary =
  pl_total_trades :: nat
  pl_total_pnl_usd :: dec
  pl_total_fees_usd :: dec
  pl_avg_pnl_per_trade :: dec
  pl_avg_pnl_bps :: dec
  pl_win_rate :: rat
  pl_best_trade_pnl :: dec
  pl_worst_trade_pnl :: dec
  pl_total_notional :: dec
  pl_sharpe_estimate :: rat
  pl_pnl_by_hour :: "nat \<rightharpoonup> dec"

record trade_summary =
  tsm_id :: string
  tsm_timestamp :: date_time
  tsm_symbol :: string
  tsm_buy_venue :: venue
  tsm_sell_venue :: venue
  tsm_net_pnl :: dec
  tsm_net_pnl_bps :: dec
  tsm_profitable :: bool

text \<open>The ledger: its trades in the order they were recorded.\<close>

type_synonym pnl_engine = "arb_record list"

definition pnl_engine_new :: pnl_engine where "pnl_engine_new = []"

definition record_arb :: "arb_record \<Rightarrow> pnl_engine \<Rightarrow> pnl_engine" where
  "record_arb t ts = ts @ [t]"

section \<open>Statistics\<close>

definition dec_sum :: "dec_ops \<Rightarrow> dec list \<Rightarrow> dec" where
  "dec_sum D xs = foldl (dadd D) 0 xs"

text \<open>\<open>format("%H")\<close> of a timestamp in nanoseconds.\<close>

definition hour_of :: "date_time \<Rightarrow> nat" where
  "hour_of ns = nat ((ns div 3600000000000) mod 24)"

definition add_to_hour :: "dec_ops \<Rightarrow> arb_record \<Rightarrow> (nat \<rightharpoonup> dec) \<Rightarrow> (nat \<rightharpoonup> dec)" where
  "add_to_hour D t m =
     m(hour_of (ar_timestamp t) \<mapsto> dadd D (case m (hour_of (ar_timestamp t)) of Some x \<Rightarrow> x | None \<Rightarrow> 0) (net_pnl t))"

definition f64_or_zero :: "f64_ops \<Rightarrow> dec \<Rightarrow> rat" where
  "f64_or_zero F x = (case f64_of_dec F x of Some y \<Rightarrow> y | None \<Rightarrow> 0)"

definition sharpe :: "f64_ops \<Rightarrow> (rat \<Rightarrow> rat) \<Rightarrow> dec \<Rightarrow> dec list \<Rightarrow> rat" where
  "sharpe F sqrt64 total_pnl pnls =
     (let n = of_nat (length pnls);
          mean = fdiv F (f64_or_zero F total_pnl) n;
          sq = (\<lambda>p. let d = fsub F (f64_or_zero F p) mean in fmul F d d);
          stddev = sqrt64 (fdiv F (foldl (fadd F) 0 (map sq pnls)) n)
      in if stddev > 0 then fdiv F mean stddev else 0)"

definition summary :: "dec_ops \<Rightarrow> f64_ops \<Rightarrow> (rat \<Rightarrow> rat) \<Rightarrow> pnl_engine \<Rightarrow> pnl_summary" where
  "summary D F sqrt64 ts =
     (if ts = []
      then \<lparr>pl_total_trades = 0, pl_total_pnl_usd = 0, pl_total_fees_usd = 0, pl_avg_pnl_per_trade = 0, pl_avg_pnl_bps = 0,
            pl_win_rate = 0, pl_best_trade_pnl = 0, pl_worst_trade_pnl = 0, pl_total_notional = 0, pl_sharpe_estimate = 0,
            pl_pnl_by_hour = Map.empty\<rparr>
      else let n = length ts; pnls = map net_pnl ts; tot = dec_sum D pnls; vol = dec_sum D (map (notional D) ts)
           in \<lparr>pl_total_trades = n, pl_total_pnl_usd = tot, pl_total_fees_usd = dec_sum D (map total_fees ts),
               pl_avg_pnl_per_trade = ddiv D tot (of_nat n),
               pl_avg_pnl_bps = (if vol > 0 then ddiv D (dec_sum D (map (net_pnl_bps D) ts)) (of_nat n) else 0),
               pl_win_rate = fdiv F (of_nat (length (filter (\<lambda>t. net_pnl t > 0) ts))) (of_nat n),
               pl_best_trade_pnl = Max (set pnls), pl_worst_trade_pnl = Min (set pnls),
               pl_total_notional = vol, pl_sharpe_estimate = sharpe F sqrt64 tot pnls,
               pl_pnl_by_hour = fold (add_to_hour D) ts Map.empty\<rparr>)"

definition recent :: "dec_ops \<Rightarrow> nat \<Rightarrow> pnl_engine \<Rightarrow> trade_summary list" where
  "recent D n ts =
     map (\<lambda>t. \<lparr>tsm_id = ar_id t, tsm_timestamp = ar_timestamp t, tsm_symbol = leg_symbol (buy_leg t),
                tsm_buy_venue = leg_venue (buy_leg t), tsm_sell_venue = leg_venue (sell_leg t), tsm_net_pnl = net_pnl t,
                tsm_net_pnl_bps = net_pnl_bps D t, tsm_profitable = (net_pnl t > 0)\<rparr>)
       (take n (rev ts))"

section \<open>Consistency\<close>

lemma decimal_faithful_arith: "decimal_faithful D \<Longrightarrow> decimal_arith D"
  by unfold_locales
    (auto simp: decimal_faithful.mul_exact_dec decimal_faithful.add_exact_dec decimal_faithful.sub_exact_dec
      decimal_faithful.div_exact_dec)

lemma scaled_less: "a \<le> b \<Longrightarrow> b * 10 ^ s < (M::rat) \<Longrightarrow> a * 10 ^ s < M"
  by (rule le_less_trans [OF mult_right_mono]) auto

text \<open>Decimal addition is exact along a list of grid amounts whose magnitudes add up within range.\<close>

lemma dadd_grid:
  assumes "decimal_arith D" "on_grid s x" "on_grid s y" "s \<le> 28" "(\<bar>x\<bar> + \<bar>y\<bar>) * 10 ^ s < 2 ^ 96"
  shows "dadd D x y = x + y" "on_grid s (x + y)"
proof -
  have le: "\<bar>z\<bar> * 10 ^ s < 2 ^ 96" if "\<bar>z\<bar> \<le> \<bar>x\<bar> + \<bar>y\<bar>" for z
    using that assms(5) by (rule scaled_less)
  show g: "on_grid s (x + y)" using assms by (simp add: on_grid_add)
  show "dadd D x y = x + y"
    using le [of x] le [of y] le [of "x + y"] g assms by (intro decimal_arith.add_exact) (auto intro: on_grid_is_dec)
qed

lemma dec_sum_exact:
  assumes "decimal_arith D" "s \<le> 28" "on_grid s acc" "\<forall>x \<in> set xs. on_grid s x"
    "(\<bar>acc\<bar> + sum_list (map abs xs)) * 10 ^ s < 2 ^ 96"
  shows "foldl (dadd D) acc xs = acc + sum_list xs"
  using assms(3-)
proof (induction xs arbitrary: acc)
  case (Cons x xs)
  have "0 \<le> sum_list (map abs xs)" by (rule sum_list_nonneg) auto
  then have "\<bar>acc\<bar> + \<bar>x\<bar> \<le> \<bar>acc\<bar> + sum_list (map abs (x # xs))" by simp
  from this Cons.prems(3) have "(\<bar>acc\<bar> + \<bar>x\<bar>) * 10 ^ s < 2 ^ 96" by (rule scaled_less)
  with dadd_grid [OF assms(1)] assms(2) Cons.prems have d: "dadd D acc x = acc + x" "on_grid s (acc + x)" by auto
  have "\<bar>acc + x\<bar> + sum_list (map abs xs) \<le> \<bar>acc\<bar> + sum_list (map abs (x # xs))" by simp
  from this Cons.prems(3) have "(\<bar>acc + x\<bar> + sum_list (map abs xs)) * 10 ^ s < 2 ^ 96" by (rule scaled_less)
  with Cons.IH [OF d(2)] Cons.prems(2) d(1) show ?case by (simp add: add.assoc)
qed simp

definition hour_value :: "(nat \<rightharpoonup> dec) \<Rightarrow> nat \<Rightarrow> dec" where
  "hour_value m h = (case m h of Some x \<Rightarrow> x | None \<Rightarrow> 0)"

lemma hours_exact:
  assumes "decimal_arith D" "s \<le> 28" "on_grid s (hour_value m h)" "\<forall>t \<in> set ts. on_grid s (net_pnl t)"
    "(\<bar>hour_value m h\<bar> + sum_list (map (\<lambda>t. \<bar>net_pnl t\<bar>) ts)) * 10 ^ s < 2 ^ 96"
  shows "hour_value (fold (add_to_hour D) ts m) h
     = hour_value m h + sum_list (map net_pnl (filter (\<lambda>t. hour_of (ar_timestamp t) = h) ts))"
  using assms(3-)
proof (induction ts arbitrary: m)
  case (Cons t ts)
  have nn: "0 \<le> sum_list (map (\<lambda>t. \<bar>net_pnl t\<bar>) ts)" by (rule sum_list_nonneg) auto
  let ?v = "hour_value m h" and ?x = "net_pnl t"
  have small: "(\<bar>y\<bar> + z) * 10 ^ s < 2 ^ 96" if "\<bar>y\<bar> + z \<le> \<bar>?v\<bar> + sum_list (map (\<lambda>t. \<bar>net_pnl t\<bar>) (t # ts))" for y z
    using that Cons.prems(3) by (rule scaled_less)
  show ?case
  proof (cases "hour_of (ar_timestamp t) = h")
    case True
    have "dadd D ?v ?x = ?v + ?x" "on_grid s (?v + ?x)"
      using dadd_grid [OF assms(1)] small [of ?v "\<bar>?x\<bar>"] nn assms(2) Cons.prems by auto
    moreover from this True have "hour_value (add_to_hour D t m) h = ?v + ?x"
      by (simp add: add_to_hour_def hour_value_def)
    ultimately show ?thesis
      using Cons.IH [of "add_to_hour D t m"] Cons.prems(2) True small [of "?v + ?x" "sum_list (map (\<lambda>t. \<bar>net_pnl t\<bar>) ts)"] by simp
  next
    case False
    then have "hour_value (add_to_hour D t m) h = ?v" by (simp add: add_to_hour_def hour_value_def)
    with Cons.IH [of "add_to_hour D t m"] Cons.prems False small [of ?v "sum_list (map (\<lambda>t. \<bar>net_pnl t\<bar>) ts)"] show ?thesis by simp
  qed
qed simp

lemma hour_of_less: "hour_of ns < 24"
  by (simp add: hour_of_def nat_less_iff)

lemma sum_over_hours:
  "(\<Sum>h < 24. sum_list (map net_pnl (filter (\<lambda>t. hour_of (ar_timestamp t) = h) ts))) = sum_list (map net_pnl ts)"
proof (induction ts)
  case (Cons t ts)
  have "(\<Sum>h < 24. sum_list (map net_pnl (filter (\<lambda>t. hour_of (ar_timestamp t) = h) (t # ts))))
      = (\<Sum>h < 24. (if hour_of (ar_timestamp t) = h then net_pnl t else 0)
           + sum_list (map net_pnl (filter (\<lambda>t. hour_of (ar_timestamp t) = h) ts)))"
    by (intro sum.cong) auto
  also have "\<dots> = net_pnl t + sum_list (map net_pnl ts)"
    by (simp add: sum.distrib Cons.IH hour_of_less)
  finally show ?case by simp
qed simp

text \<open>
  The profit statistics are consistent.  For a ledger whose results lie on a decimal grid with magnitudes
  that add up within range: the total is the exact sum of the trades' net results and the hourly
  buckets add up to it; every trade lies between the worst and the best, and so does the
  average, for every faithful rounding.
\<close>

lemma pnl_summary_consistent:
  fixes F :: f64_ops and sqrt64 :: "rat \<Rightarrow> rat"
  assumes "decimal_faithful D" "ts \<noteq> []" "s \<le> 28" "\<forall>t \<in> set ts. on_grid s (net_pnl t)"
    "sum_list (map (\<lambda>t. \<bar>net_pnl t\<bar>) ts) * 10 ^ s < 2 ^ 96"
  defines "r \<equiv> summary D F sqrt64 ts"
  shows "pl_total_trades r = length ts \<and> pl_total_pnl_usd r = sum_list (map net_pnl ts)
    \<and> (\<Sum>h < 24. hour_value (pl_pnl_by_hour r) h) = pl_total_pnl_usd r
    \<and> (\<forall>t \<in> set ts. pl_worst_trade_pnl r \<le> net_pnl t \<and> net_pnl t \<le> pl_best_trade_pnl r)
    \<and> pl_worst_trade_pnl r \<le> pl_avg_pnl_per_trade r \<and> pl_avg_pnl_per_trade r \<le> pl_best_trade_pnl r"
proof -
  have D: "decimal_arith D" using assms(1) by (rule decimal_faithful_arith)
  let ?xs = "map net_pnl ts" and ?n = "of_nat (length ts) :: rat"
  have n: "0 < ?n" using assms(2) by simp
  have tot: "dec_sum D ?xs = sum_list ?xs"
    using dec_sum_exact [OF D assms(3), of 0 ?xs] assms(4,5) by (simp add: dec_sum_def comp_def)
  have hours: "hour_value (fold (add_to_hour D) ts Map.empty) h = sum_list (map net_pnl (filter (\<lambda>t. hour_of (ar_timestamp t) = h) ts))" for h
    using hours_exact [OF D assms(3), of Map.empty h ts] assms(4,5) by (simp add: hour_value_def)
  have mm: "Min (set ?xs) \<le> net_pnl t" "net_pnl t \<le> Max (set ?xs)" if "t \<in> set ts" for t
    using that by simp_all
  have "sum_list (map (\<lambda>_. Min (set ?xs)) ts) \<le> sum_list ?xs" "sum_list ?xs \<le> sum_list (map (\<lambda>_. Max (set ?xs)) ts)"
    using mm by (intro sum_list_mono; simp)+
  then have "Min (set ?xs) \<le> sum_list ?xs / ?n" "sum_list ?xs / ?n \<le> Max (set ?xs)"
    using n by (simp_all add: sum_list_triv pos_le_divide_eq pos_divide_le_eq mult.commute)
  moreover have "is_dec (net_pnl t)" if "t \<in> set ts" for t
  proof (rule on_grid_is_dec [OF _ assms(3)])
    show "on_grid s (net_pnl t)" using assms(4) that by blast
    have "\<bar>net_pnl t\<bar> \<le> sum_list (map (\<lambda>t. \<bar>net_pnl t\<bar>) ts)" using that by (intro member_le_sum_list) auto
    from this assms(5) show "\<bar>net_pnl t\<bar> * 10 ^ s < 2 ^ 96" by (rule scaled_less)
  qed
  then have "\<forall>x \<in> set ?xs. is_dec x" by auto
  then have "is_dec (Min (set ?xs))" "is_dec (Max (set ?xs))"
    using Min_in [of "set ?xs"] Max_in [of "set ?xs"] assms(2) by (metis List.finite_set map_is_Nil_conv set_empty2)+
  ultimately have "Min (set ?xs) \<le> ddiv D (sum_list ?xs) ?n \<and> ddiv D (sum_list ?xs) ?n \<le> Max (set ?xs)"
    using n by (intro decimal_faithful.div_between [OF assms(1)]) auto
  then show ?thesis
    using assms(2) tot mm sum_over_hours [of ts] by (auto simp: r_def summary_def Let_def hours)
qed

definition sample_leg :: trade_leg where
  "sample_leg = \<lparr>leg_id = ''l'', leg_timestamp = 0, leg_venue = Binance, leg_symbol = ''ETH/USDT'', leg_side = ''buy'',
     leg_amount = 1, leg_price = 100, leg_fee = 0, leg_fee_asset = ''USDT''\<rparr>"

definition sample_record :: "date_time \<Rightarrow> dec \<Rightarrow> arb_record" where
  "sample_record now x = \<lparr>ar_id = ''a'', ar_timestamp = now, buy_leg = sample_leg, sell_leg = sample_leg, ar_gas_cost_usd = 0,
     ar_expected_gross_pnl_usd = 0, ar_expected_fees_usd = 0, ar_expected_net_pnl_usd = 0, ar_actual_gross_pnl_usd = 0,
     ar_actual_fees_usd = 0, ar_actual_cex_fee_usd = 0, ar_actual_onchain_gas_fee_usd = 0, ar_actual_net_pnl_usd = x,
     ar_onchain_gas_used = None, ar_onchain_gas_fee_wei = None\<rparr>"

lemma pnl_summary_consistent_witness:
  "pl_total_pnl_usd (summary rounding_ops exact_f64 id [sample_record 0 7, sample_record 3600000000000 (- 3)]) = 4"
proof -
  have "on_grid 0 (of_int m)" for m unfolding on_grid_def by (intro exI [of _ m]) simp
  from this [of 7] this [of "- 3"] show ?thesis
    using pnl_summary_consistent [OF rounding_ops.decimal_faithful_axioms, of "[sample_record 0 7, sample_record 3600000000000 (- 3)]" 0 exact_f64 id]
    by (simp add: net_pnl_def sample_record_def)
qed

end
