(* ===== verification/Evm_Int.thy ===== *)
theory Evm_Int
  imports Prelude
begin

text \<open>
  The machine integers of the pricing code.  \<open>U256\<close> (crate \<open>primitive-types\<close>) and \<open>u128\<close> values are
  natural numbers below \<open>2 ^ 256\<close> and \<open>2 ^ 128\<close>; each operation says what happens outside the range:
  the \<open>U256\<close> operators panic, \<open>overflowing_*\<close> report, \<open>as_u128\<close> panics, and the built-in
  operators on \<open>u128\<close> panic when the build has overflow checks (\<open>oc\<close>) and wrap otherwise.
\<close>

definition u256_mul :: "nat \<Rightarrow> nat \<Rightarrow> ('e, nat) outcome" where
  "u256_mul a b = (if a * b < 2 ^ 256 then Ok (a * b) else Panic)"

definition u256_add :: "nat \<Rightarrow> nat \<Rightarrow> ('e, nat) outcome" where
  "u256_add a b = (if a + b < 2 ^ 256 then Ok (a + b) else Panic)"

definition u256_sub :: "nat \<Rightarrow> nat \<Rightarrow> ('e, nat) outcome" where
  "u256_sub a b = (if b \<le> a then Ok (a - b) else Panic)"

definition u256_div :: "nat \<Rightarrow> nat \<Rightarrow> ('e, nat) outcome" where
  "u256_div a b = (if b = 0 then Panic else Ok (a div b))"

definition as_u128 :: "nat \<Rightarrow> ('e, nat) outcome" where
  "as_u128 a = (if a < 2 ^ 128 then Ok a else Panic)"

definition plain_u128 :: "bool \<Rightarrow> nat \<Rightarrow> ('e, nat) outcome" where
  "plain_u128 oc a = (if a < 2 ^ 128 then Ok a else if oc then Panic else Ok (a mod 2 ^ 128))"

text \<open>\<open>Decimal::from(u128)\<close> panics beyond 96 bits; a decimal division by zero panics.\<close>

definition dec_of_u128 :: "nat \<Rightarrow> ('e, dec) outcome" where
  "dec_of_u128 a = (if a < 2 ^ 96 then Ok (of_nat a) else Panic)"

definition dec_div :: "dec_ops \<Rightarrow> dec \<Rightarrow> dec \<Rightarrow> ('e, dec) outcome" where
  "dec_div D a b = (if b = 0 then Panic else Ok (ddiv D a b))"

end
