(* ===== verification/Amm.thy ===== *)
theory Amm
  imports Evm_Int
begin

text \<open>
  \<open>pricing/amm.rs\<close>: Uniswap V2 pair arithmetic, swap simulation, the decoders of ABI slots and the
  price impact analyser.  The functions that fetch a pair from the chain are not modelled; what
  they decode is.
\<close>

section \<open>Tokens, pairs, errors\<close>

record token =
  tok_address :: string
  tok_symbol :: string
  tok_decimals :: nat

text \<open>Tokens compare by address.\<close>

definition token_eq :: "token \<Rightarrow> token \<Rightarrow> bool" where
  "token_eq a b \<longleftrightarrow> tok_address a = tok_address b"

datatype pricing_error =
    UnknownToken string
  | ZeroAmountIn
  | ZeroAmountOut
  | InsufficientLiquidity nat nat
  | InvalidFeeBps nat
  | ChainCall string
  | AbiDecode
  | NoFeasibleSize
  | NoRouteExists
  | ArithmeticOverflow

record uniswap_v2_pair =
  pair_address :: string
  token0 :: token
  token1 :: token
  reserve0 :: nat
  reserve1 :: nat
  fee_bps :: nat

definition u256_mul_checked :: "nat \<Rightarrow> nat \<Rightarrow> (pricing_error, nat) outcome" where
  "u256_mul_checked a b = (if a * b < 2 ^ 256 then Ok (a * b) else Err ArithmeticOverflow)"

definition u256_add_checked :: "nat \<Rightarrow> nat \<Rightarrow> (pricing_error, nat) outcome" where
  "u256_add_checked a b = (if a + b < 2 ^ 256 then Ok (a + b) else Err ArithmeticOverflow)"

definition pair_new ::
  "string \<Rightarrow> token \<Rightarrow> token \<Rightarrow> nat \<Rightarrow> nat \<Rightarrow> nat \<Rightarrow> (pricing_error, uniswap_v2_pair) outcome" where
  "pair_new a t0 t1 r0 r1 fee =
     (if fee \<ge> 10000 then Err (InvalidFeeBps fee)
      else Ok \<lparr>pair_address = a, token0 = t0, token1 = t1, reserve0 = r0, reserve1 = r1, fee_bps = fee\<rparr>)"

definition reserves_for :: "uniswap_v2_pair \<Rightarrow> token \<Rightarrow> (pricing_error, nat \<times> nat) outcome" where
  "reserves_for p token_in =
     (if token_eq token_in (token0 p) then Ok (reserve0 p, reserve1 p)
      else if token_eq token_in (token1 p) then Ok (reserve1 p, reserve0 p)
      else Err (UnknownToken (tok_symbol token_in)))"

definition token_out_for :: "uniswap_v2_pair \<Rightarrow> token \<Rightarrow> (pricing_error, token) outcome" where
  "token_out_for p token_in =
     (if token_eq token_in (token0 p) then Ok (token1 p)
      else if token_eq token_in (token1 p) then Ok (token0 p)
      else Err (UnknownToken (tok_symbol token_in)))"

section \<open>Swap arithmetic\<close>

definition get_amount_out :: "uniswap_v2_pair \<Rightarrow> nat \<Rightarrow> token \<Rightarrow> (pricing_error, nat) outcome" where
  "get_amount_out p amount_in token_in =
     (if amount_in = 0 then Err ZeroAmountIn
      else bind_out (reserves_for p token_in) (\<lambda>(r_in, r_out).
        bind_out (u256_sub 10000 (fee_bps p)) (\<lambda>keep.
        bind_out (u256_mul_checked amount_in keep) (\<lambda>amount_in_with_fee.
        bind_out (u256_mul_checked amount_in_with_fee r_out) (\<lambda>numerator.
        bind_out (u256_mul_checked r_in 10000) (\<lambda>reserve_term.
        bind_out (u256_add_checked reserve_term amount_in_with_fee) (\<lambda>denominator.
        bind_out (u256_div numerator denominator) as_u128)))))))"

definition get_amount_in :: "bool \<Rightarrow> uniswap_v2_pair \<Rightarrow> nat \<Rightarrow> token \<Rightarrow> (pricing_error, nat) outcome" where
  "get_amount_in oc p amount_out token_out =
     (if amount_out = 0 then Err ZeroAmountOut
      else bind_out
        (if token_eq token_out (token1 p) then Ok (token0 p)
         else if token_eq token_out (token0 p) then Ok (token1 p)
         else Err (UnknownToken (tok_symbol token_out))) (\<lambda>token_in.
        bind_out (reserves_for p token_in) (\<lambda>(r_in, r_out).
        if amount_out \<ge> r_out then Err (InsufficientLiquidity amount_out r_out)
        else bind_out (u256_mul_checked r_in amount_out) (\<lambda>reserve_times_out.
        bind_out (u256_mul_checked reserve_times_out 10000) (\<lambda>numerator.
        bind_out (u256_sub r_out amount_out) (\<lambda>left.
        bind_out (u256_sub 10000 (fee_bps p)) (\<lambda>keep.
        bind_out (u256_mul_checked left keep) (\<lambda>denominator.
        bind_out (u256_div numerator denominator) (\<lambda>q.
        bind_out (as_u128 q) (\<lambda>q. plain_u128 oc (q + 1)))))))))))"

definition simulate_swap :: "bool \<Rightarrow> uniswap_v2_pair \<Rightarrow> nat \<Rightarrow> token \<Rightarrow> (pricing_error, uniswap_v2_pair) outcome" where
  "simulate_swap oc p amount_in token_in =
     bind_out (get_amount_out p amount_in token_in) (\<lambda>amount_out.
       if token_eq token_in (token0 p)
       then bind_out (plain_u128 oc (reserve0 p + amount_in)) (\<lambda>r0.
              Ok (p\<lparr>reserve0 := r0, reserve1 := reserve1 p - amount_out\<rparr>))
       else bind_out (plain_u128 oc (reserve1 p + amount_in)) (\<lambda>r1.
              Ok (p\<lparr>reserve0 := reserve0 p - amount_out, reserve1 := r1\<rparr>)))"

section \<open>Prices for display\<close>

text \<open>\<open>10u128.pow\<close>, then \<open>Decimal::from\<close>.\<close>

definition decimal_scale :: "bool \<Rightarrow> nat \<Rightarrow> ('e, dec) outcome" where
  "decimal_scale oc decimals = bind_out (plain_u128 oc (10 ^ decimals)) dec_of_u128"

definition get_spot_price :: "bool \<Rightarrow> dec_ops \<Rightarrow> uniswap_v2_pair \<Rightarrow> token \<Rightarrow> (pricing_error, dec) outcome" where
  "get_spot_price oc D p token_in =
     bind_out (reserves_for p token_in) (\<lambda>(reserve_in, reserve_out).
     bind_out (token_out_for p token_in) (\<lambda>token_out.
     bind_out (decimal_scale oc (tok_decimals token_in)) (\<lambda>scale_in.
     bind_out (decimal_scale oc (tok_decimals token_out)) (\<lambda>scale_out.
     bind_out (bind_out (dec_of_u128 reserve_in) (\<lambda>x. dec_div D x scale_in)) (\<lambda>r_in.
     bind_out (bind_out (dec_of_u128 reserve_out) (\<lambda>x. dec_div D x scale_out)) (\<lambda>r_out.
     dec_div D r_out r_in))))))"

definition get_execution_price :: "bool \<Rightarrow> dec_ops \<Rightarrow> uniswap_v2_pair \<Rightarrow> nat \<Rightarrow> token \<Rightarrow> (pricing_error, dec) outcome" where
  "get_execution_price oc D p amount_in token_in =
     bind_out (get_amount_out p amount_in token_in) (\<lambda>amount_out.
     bind_out (token_out_for p token_in) (\<lambda>token_out.
     bind_out (decimal_scale oc (tok_decimals token_in)) (\<lambda>scale_in.
     bind_out (decimal_scale oc (tok_decimals token_out)) (\<lambda>scale_out.
     bind_out (bind_out (dec_of_u128 amount_in) (\<lambda>x. dec_div D x scale_in)) (\<lambda>human_in.
     bind_out (bind_out (dec_of_u128 amount_out) (\<lambda>x. dec_div D x scale_out)) (\<lambda>human_out.
     if human_in = 0 then Ok 0 else dec_div D human_out human_in))))))"

definition get_price_impact :: "dec_ops \<Rightarrow> uniswap_v2_pair \<Rightarrow> nat \<Rightarrow> token \<Rightarrow> (pricing_error, dec) outcome" where
  "get_price_impact D p amount_in token_in =
     bind_out (reserves_for p token_in) (\<lambda>(r_in, r_out).
     bind_out (get_amount_out p amount_in token_in) (\<lambda>actual.
     bind_out (u256_mul amount_in r_out) (\<lambda>prod.
     bind_out (u256_div prod r_in) (\<lambda>expected.
     if expected = 0 then Ok 0
     else if actual \<ge> expected then Ok 0
     else bind_out (bind_out (as_u128 (expected - actual)) dec_of_u128) (\<lambda>diff.
          bind_out (bind_out (as_u128 expected) dec_of_u128) (\<lambda>ex.
          bind_out (dec_div D diff ex) (\<lambda>x. Ok (max x 0))))))))"

section \<open>Decoders\<close>

definition be_value :: "nat list \<Rightarrow> nat" where
  "be_value bs = foldl (\<lambda>acc b. acc * 256 + b) 0 bs"

definition decode_u128_from_slot :: "nat list \<Rightarrow> (pricing_error, nat) outcome" where
  "decode_u128_from_slot slot =
     (if length slot < 32 then Err AbiDecode else Ok (be_value (take 16 (drop 16 slot))))"

text \<open>
  \<open>as_u64\<close> panics beyond 64 bits, the cast to \<open>u8\<close> keeps the low byte.
\<close>

definition decode_u8_from_slot :: "nat list \<Rightarrow> (unit, nat) outcome" where
  "decode_u8_from_slot slot =
     (if length slot \<noteq> 32 then Err ()
      else if be_value slot < 2 ^ 64 then Ok (be_value slot mod 256) else Panic)"

text \<open>The bytes of an ABI string (their UTF-8 validity is a parameter).\<close>

definition decode_string_from_abi :: "(nat list \<Rightarrow> bool) \<Rightarrow> nat list \<Rightarrow> nat list option" where
  "decode_string_from_abi utf8 raw =
     (if length raw < 96 then None
      else let len = be_value (take 8 (drop 56 raw))
           in if length raw < 64 + len then None
              else let bs = take len (drop 64 raw) in if utf8 bs then Some bs else None)"

section \<open>Price impact analysis\<close>

record impact_row =
  im_amount_in :: nat
  im_amount_out :: nat
  im_spot_price :: dec
  im_execution_price :: dec
  im_price_impact_pct :: dec

fun impact_rows :: "bool \<Rightarrow> dec_ops \<Rightarrow> uniswap_v2_pair \<Rightarrow> token \<Rightarrow> dec \<Rightarrow> nat list \<Rightarrow> (pricing_error, impact_row list) outcome" where
  "impact_rows oc D p token_in spot [] = Ok []"
| "impact_rows oc D p token_in spot (amount_in # ss) =
     bind_out (get_amount_out p amount_in token_in) (\<lambda>amount_out.
     bind_out (get_execution_price oc D p amount_in token_in) (\<lambda>ex.
     bind_out (get_price_impact D p amount_in token_in) (\<lambda>im.
     bind_out (impact_rows oc D p token_in spot ss) (\<lambda>rows.
       Ok (\<lparr>im_amount_in = amount_in, im_amount_out = amount_out, im_spot_price = spot,
            im_execution_price = ex, im_price_impact_pct = dmul D im 100\<rparr> # rows)))))"

definition generate_impact_table ::
  "bool \<Rightarrow> dec_ops \<Rightarrow> uniswap_v2_pair \<Rightarrow> token \<Rightarrow> nat list \<Rightarrow> (pricing_error, impact_row list) outcome" where
  "generate_impact_table oc D p token_in sizes =
     bind_out (get_spot_price oc D p token_in) (\<lambda>spot. impact_rows oc D p token_in spot sizes)"

text \<open>The binary search, for any impact function.\<close>

function search_loop ::
  "(nat \<Rightarrow> (pricing_error, dec) outcome) \<Rightarrow> dec \<Rightarrow> nat \<Rightarrow> nat \<Rightarrow> nat \<Rightarrow> (pricing_error, nat) outcome" where
  "search_loop im max_impact lo hi best =
     (if lo \<le> hi
      then let mid = lo + (hi - lo) div 2
           in case im mid of
                Ok impact \<Rightarrow>
                  (if impact \<le> max_impact then search_loop im max_impact (mid + 1) hi mid
                   else if mid = 0 then Panic
                   else search_loop im max_impact lo (mid - 1) best)
              | Err e \<Rightarrow> Err e
              | Panic \<Rightarrow> Panic
      else Ok best)"
  by pat_completeness auto
termination
  by (relation "measure (\<lambda>(im, m, lo, hi, best). hi + 1 - lo)") auto

declare search_loop.simps [simp del]

definition find_max_size_for_impact :: "dec_ops \<Rightarrow> uniswap_v2_pair \<Rightarrow> token \<Rightarrow> dec \<Rightarrow> (pricing_error, nat) outcome" where
  "find_max_size_for_impact D p token_in max_impact_pct =
     bind_out (reserves_for p token_in) (\<lambda>(reserve_in, _).
     bind_out (dec_div D max_impact_pct 100) (\<lambda>max_impact.
     bind_out (get_price_impact D p 1 token_in) (\<lambda>smallest.
       if smallest > max_impact then Err NoFeasibleSize
       else search_loop (\<lambda>a. get_price_impact D p a token_in) max_impact 1 (reserve_in div 2) 1)))"

record trade_cost =
  gross_output :: nat
  gas_cost_eth :: nat
  gas_cost_in_output_token :: nat
  net_output :: nat
  effective_price :: dec

definition estimate_true_cost ::
  "bool \<Rightarrow> dec_ops \<Rightarrow> uniswap_v2_pair \<Rightarrow> nat \<Rightarrow> token \<Rightarrow> nat \<Rightarrow> nat \<Rightarrow> (pricing_error, trade_cost) outcome" where
  "estimate_true_cost oc D p amount_in token_in gas_price_gwei gas_estimate =
     bind_out (get_amount_out p amount_in token_in) (\<lambda>gross.
     bind_out (token_out_for p token_in) (\<lambda>token_out.
     bind_out (plain_u128 oc (gas_price_gwei * 1000000000)) (\<lambda>gas_price_wei.
     bind_out (plain_u128 oc (gas_estimate * gas_price_wei)) (\<lambda>gas_eth.
     bind_out (plain_u128 oc (10 ^ tok_decimals token_out)) (\<lambda>scale_out.
     bind_out (plain_u128 oc (gas_eth * scale_out)) (\<lambda>prod.
     let gas_out = prod div 10 ^ 18;
         net = gross - gas_out
     in bind_out (decimal_scale oc (tok_decimals token_in)) (\<lambda>scale_in.
        bind_out (bind_out (dec_of_u128 amount_in) (\<lambda>x. dec_div D x scale_in)) (\<lambda>human_in.
        bind_out (dec_of_u128 scale_out) (\<lambda>so.
        bind_out (bind_out (dec_of_u128 net) (\<lambda>x. dec_div D x so)) (\<lambda>human_net.
        bind_out (if human_in = 0 then Ok 0 else dec_div D human_net human_in) (\<lambda>ep.
          Ok \<lparr>gross_output = gross, gas_cost_eth = gas_eth, gas_cost_in_output_token = gas_out,
              net_output = net, effective_price = ep\<rparr>)))))))))))"

section \<open>Exact behaviour\<close>

definition wf_pair :: "uniswap_v2_pair \<Rightarrow> bool" where
  "wf_pair p \<longleftrightarrow> fee_bps p < 10000 \<and> reserve0 p < 2 ^ 128 \<and> reserve1 p < 2 ^ 128
     \<and> \<not> token_eq (token0 p) (token1 p)"

text \<open>The constant-product formula, without machine arithmetic.\<close>

definition out_formula :: "nat \<Rightarrow> nat \<Rightarrow> nat \<Rightarrow> nat \<Rightarrow> nat" where
  "out_formula fee r_in r_out a = a * (10000 - fee) * r_out div (r_in * 10000 + a * (10000 - fee))"

lemma out_formula_le: "out_formula fee r_in r_out a \<le> r_out"
proof (cases "r_in * 10000 + a * (10000 - fee) = 0")
  case False
  have "a * (10000 - fee) * r_out \<le> r_out * (r_in * 10000 + a * (10000 - fee))"
    by (simp add: algebra_simps)
  with False show ?thesis unfolding out_formula_def by (metis div_le_mono nonzero_mult_div_cancel_right)
qed (simp add: out_formula_def)

lemma out_formula_less:
  assumes "0 < r_in" "0 < r_out"
  shows "out_formula fee r_in r_out a < r_out"
proof -
  have "a * (10000 - fee) * r_out < r_out * (r_in * 10000 + a * (10000 - fee))"
    using assms by (simp add: algebra_simps)
  then show ?thesis unfolding out_formula_def by (simp add: assms less_mult_imp_div_less)
qed

lemma get_amount_out_eq:
  assumes "wf_pair p" "0 < a" "a < 2 ^ 128" "reserves_for p t = Ok (r_in, r_out)"
  shows "get_amount_out p a t =
     (if a * (10000 - fee_bps p) * r_out < 2 ^ 256 then Ok (out_formula (fee_bps p) r_in r_out a)
      else Err ArithmeticOverflow)"
proof -
  let ?k = "10000 - fee_bps p"
  from assms(1,4) have r: "r_in < 2 ^ 128" "r_out < 2 ^ 128" "fee_bps p < 10000"
    by (auto simp: wf_pair_def reserves_for_def split: if_splits)
  have "a * ?k \<le> 2 ^ 128 * 10000" using assms(3) by (intro mult_le_mono) auto
  moreover have "r_in * 10000 \<le> 2 ^ 128 * 10000" using r(1) by (intro mult_le_mono) auto
  ultimately have b: "a * ?k < 2 ^ 256" "r_in * 10000 < 2 ^ 256" "r_in * 10000 + a * ?k < 2 ^ 256" by simp_all
  have nz: "r_in * 10000 + a * ?k \<noteq> 0" using assms(2) r(3) by simp
  have "out_formula (fee_bps p) r_in r_out a < 2 ^ 128"
    using out_formula_le [of "fee_bps p" r_in r_out a] r(2) by linarith
  with assms(2,4) b nz r(3) show ?thesis
    by (simp add: get_amount_out_def u256_sub_def u256_mul_checked_def u256_add_checked_def u256_div_def
        as_u128_def out_formula_def)
qed

text \<open>The product of the reserves does not decrease.\<close>

lemma out_formula_product:
  "r_in * r_out \<le> (r_in + a) * (r_out - out_formula fee r_in r_out a)"
proof -
  let ?k = "10000 - fee" let ?d = "r_in * 10000 + a * ?k" let ?o = "out_formula fee r_in r_out a"
  have o: "?o * ?d \<le> a * ?k * r_out" unfolding out_formula_def by (rule div_times_less_eq_dividend)
  have le: "?o \<le> r_out" by (rule out_formula_le)
  have "r_in * r_out * 10000 + r_out * (a * ?k) = r_out * ?d" by (simp add: algebra_simps)
  also have "\<dots> = (r_out - ?o) * ?d + ?o * ?d" using le by (simp add: diff_mult_distrib)
  also have "\<dots> \<le> (r_out - ?o) * ?d + a * ?k * r_out" using o by simp
  finally have "r_in * r_out * 10000 \<le> (r_out - ?o) * ?d" by (simp add: algebra_simps)
  also have "\<dots> \<le> (r_out - ?o) * ((r_in + a) * 10000)"
    by (intro mult_le_mono2) (simp add: algebra_simps)
  finally have "(r_in * r_out) * 10000 \<le> ((r_in + a) * (r_out - ?o)) * 10000"
    by (simp only: mult.assoc mult.left_commute mult.commute)
  then show ?thesis by simp
qed

text \<open>
  C39: \<open>get_amount_out\<close> is total and exact.  For a pair with a fee below 100 percent and 128-bit
  reserves and a non-zero 128-bit input, it never panics: it returns the constant-product output,
  rounded down, or the overflow error, and the error exactly when the numerator exceeds 256 bits.
  The output never exceeds the reserve, is below a positive reserve when both sides are funded, and
  the product of the reserves after the swap is not below the product before.
\<close>

theorem get_amount_out_exact:
  assumes "wf_pair p" "0 < a" "a < 2 ^ 128" "reserves_for p t = Ok (r_in, r_out)"
  shows "if a * (10000 - fee_bps p) * r_out < 2 ^ 256
         then \<exists>out. get_amount_out p a t = Ok out
                \<and> out = a * (10000 - fee_bps p) * r_out div (r_in * 10000 + a * (10000 - fee_bps p))
                \<and> out \<le> r_out \<and> (0 < r_in \<and> 0 < r_out \<longrightarrow> out < r_out)
                \<and> r_in * r_out \<le> (r_in + a) * (r_out - out)
         else get_amount_out p a t = Err ArithmeticOverflow"
  using get_amount_out_eq [OF assms] out_formula_le out_formula_less out_formula_product
  by (simp add: out_formula_def)

definition sample_pair :: uniswap_v2_pair where
  "sample_pair = \<lparr>pair_address = ''0xp'', token0 = \<lparr>tok_address = ''0xa'', tok_symbol = ''A'', tok_decimals = 18\<rparr>,
     token1 = \<lparr>tok_address = ''0xb'', tok_symbol = ''B'', tok_decimals = 6\<rparr>,
     reserve0 = 1000, reserve1 = 2000, fee_bps = 30\<rparr>"

lemma sample_pair_simps [simp]:
  "wf_pair sample_pair" "reserves_for sample_pair (token0 sample_pair) = Ok (1000, 2000)"
  "reserves_for sample_pair (token1 sample_pair) = Ok (2000, 1000)" "fee_bps sample_pair = 30"
  by (simp_all add: wf_pair_def sample_pair_def reserves_for_def token_eq_def)

theorem get_amount_out_exact_witness:
  "get_amount_out sample_pair 100 (token0 sample_pair) = Ok 181"
  using get_amount_out_exact [of sample_pair 100 "token0 sample_pair" 1000 2000] by simp

section \<open>Exact output\<close>

text \<open>An input buys at least \<open>y\<close> exactly when it covers the ceiling of the inverse formula.\<close>

lemma out_formula_ge_iff:
  assumes "0 < a" "fee < 10000"
  shows "y \<le> out_formula fee r_in r_out a \<longleftrightarrow> y * (r_in * 10000) \<le> a * (10000 - fee) * (r_out - y) \<and> y \<le> r_out"
proof -
  let ?k = "10000 - fee" let ?d = "r_in * 10000 + a * ?k"
  have d: "0 < ?d" using assms by simp
  have "y \<le> out_formula fee r_in r_out a \<longleftrightarrow> y * ?d \<le> a * ?k * r_out"
    unfolding out_formula_def by (rule less_eq_div_iff_mult_less_eq [OF d])
  also have "\<dots> \<longleftrightarrow> y * (r_in * 10000) + a * ?k * y \<le> a * ?k * r_out"
    by (simp add: algebra_simps)
  also have "\<dots> \<longleftrightarrow> y * (r_in * 10000) \<le> a * ?k * (r_out - y) \<and> y \<le> r_out"
  proof (cases "y \<le> r_out")
    case True
    then have "a * ?k * r_out = a * ?k * (r_out - y) + a * ?k * y" by (simp add: diff_mult_distrib2)
    with True show ?thesis by simp
  next
    case False
    with assms have "a * ?k * r_out < a * ?k * y" by (intro mult_strict_left_mono) auto
    then have "\<not> y * (r_in * 10000) + a * ?k * y \<le> a * ?k * r_out" by linarith
    with False show ?thesis by blast
  qed
  finally show ?thesis .
qed

lemma plain_u128_Suc:
  assumes "(plain_u128 oc (q + 1) :: ('e, nat) outcome) = Ok a" "q < 2 ^ 128" "0 < a"
  shows "a = q + 1"
proof (cases "q + 1 < 2 ^ 128")
  case True
  with assms(1) show ?thesis by (simp only: plain_u128_def if_True outcome.inject)
next
  case False
  with assms(2) have q: "q + 1 = 2 ^ 128" by linarith
  have "(plain_u128 oc (q + 1) :: ('e, nat) outcome) \<in> {Panic, Ok 0}" unfolding plain_u128_def q by simp
  with assms(1,3) show ?thesis by simp
qed

lemma get_amount_in_eq:
  assumes "wf_pair p" "get_amount_in oc p y tout = Ok a" "0 < a"
    "reserves_for p tin = Ok (r_in, r_out)" "token_out_for p tin = Ok t" "token_eq t tout"
  shows "0 < y \<and> y < r_out \<and> a = r_in * y * 10000 div ((r_out - y) * (10000 - fee_bps p)) + 1"
proof -
  have tin: "\<exists>tin'. reserves_for p tin' = Ok (r_in, r_out)
      \<and> (if token_eq tout (token1 p) then tin' = token0 p else token_eq tout (token0 p) \<and> tin' = token1 p)"
    using assms(1,4-6) by (auto simp: wf_pair_def reserves_for_def token_out_for_def token_eq_def split: if_splits)
  let ?q = "r_in * y * 10000 div ((r_out - y) * (10000 - fee_bps p))"
  from tin assms(2) have "0 < y" "y < r_out" "(plain_u128 oc (?q + 1) :: (pricing_error, nat) outcome) = Ok a" "?q < 2 ^ 128"
    by (auto simp: get_amount_in_def bind_out_Ok_iff u256_mul_checked_def u256_sub_def u256_div_def as_u128_def
        split: if_splits)
  with plain_u128_Suc assms(3) show ?thesis by blast
qed

text \<open>
  \<open>get_amount_in\<close> asks for enough and hardly more.  If it quotes the input \<open>a\<close> for an output
  \<open>y\<close>, then swapping \<open>a\<close> really yields at least \<open>y\<close> (unless the forward computation overflows),
  and no input of \<open>a - 2\<close> or less would.
\<close>

lemma get_amount_in_sufficient:
  assumes "wf_pair p" "get_amount_in oc p y tout = Ok a" "0 < a" "a < 2 ^ 128"
    "reserves_for p tin = Ok (r_in, r_out)" "token_out_for p tin = Ok t" "token_eq t tout"
  shows "(\<forall>out. get_amount_out p a tin = Ok out \<longrightarrow> y \<le> out)
         \<and> (\<forall>b out. 0 < b \<and> b + 2 \<le> a \<and> get_amount_out p b tin = Ok out \<longrightarrow> out < y)"
proof -
  let ?k = "10000 - fee_bps p"
  from get_amount_in_eq [OF assms(1-3,5-7)] have y: "0 < y" "y < r_out"
    and a: "a = r_in * y * 10000 div ((r_out - y) * ?k) + 1" by auto
  have fee: "fee_bps p < 10000" using assms(1) by (simp add: wf_pair_def)
  have pos: "0 < (r_out - y) * ?k" using y fee by simp
  have ge: "y \<le> out_formula (fee_bps p) r_in r_out b \<longleftrightarrow> r_in * y * 10000 \<le> b * ((r_out - y) * ?k)" if "0 < b" for b
    using y out_formula_ge_iff [OF that fee, of y r_in r_out] by (simp add: mult.commute mult.left_commute mult.assoc)
  have "r_in * y * 10000 < a * ((r_out - y) * ?k)"
    using dividend_less_div_times [OF pos, of "r_in * y * 10000"] unfolding a by (simp only: add_mult_distrib mult_1 add.commute)
  then have "y \<le> out_formula (fee_bps p) r_in r_out a" using ge [OF assms(3)] by simp
  then have 1: "y \<le> out" if "get_amount_out p a tin = Ok out" for out
    using that get_amount_out_eq [OF assms(1,3,4,5)] by (simp split: if_splits)
  have 2: "out < y" if b: "0 < b" "b + 2 \<le> a" and o: "get_amount_out p b tin = Ok out" for b out
  proof -
    have "b < r_in * y * 10000 div ((r_out - y) * ?k)" using b(2) a by simp
    then have "b * ((r_out - y) * ?k) < r_in * y * 10000 div ((r_out - y) * ?k) * ((r_out - y) * ?k)"
      using pos by (simp only: mult_less_mono1)
    also have "\<dots> \<le> r_in * y * 10000" by (rule div_times_less_eq_dividend)
    finally have "\<not> y \<le> out_formula (fee_bps p) r_in r_out b" using ge [OF b(1)] by simp
    moreover have "b < 2 ^ 128" using b(2) assms(4) by linarith
    ultimately show ?thesis
      using o get_amount_out_eq [OF assms(1) b(1) _ assms(5)] by (simp split: if_splits)
  qed
  from 1 2 show ?thesis by blast
qed

lemma get_amount_in_sufficient_witness:
  "\<exists>a out. get_amount_in True sample_pair 181 (token1 sample_pair) = Ok a
     \<and> get_amount_out sample_pair a (token0 sample_pair) = Ok out \<and> 181 \<le> out"
proof -
  have a: "get_amount_in True sample_pair 181 (token1 sample_pair) = Ok 100"
    by (simp add: get_amount_in_def sample_pair_def reserves_for_def token_eq_def u256_mul_checked_def
        u256_sub_def u256_div_def as_u128_def plain_u128_def)
  have o: "get_amount_out sample_pair 100 (token0 sample_pair) = Ok 181"
    using get_amount_out_eq [of sample_pair 100 "token0 sample_pair" 1000 2000] by (simp add: out_formula_def)
  have t: "token_out_for sample_pair (token0 sample_pair) = Ok (token1 sample_pair)" "token_eq (token1 sample_pair) (token1 sample_pair)"
    by (simp_all add: token_out_for_def token_eq_def sample_pair_def)
  from get_amount_in_sufficient [OF _ a _ _ _ t] o have "181 \<le> (181::nat)" by simp
  with a o show ?thesis by blast
qed

lemma out_formula_mono:
  assumes "a \<le> b" "0 < a" "fee < 10000"
  shows "out_formula fee r_in r_out a \<le> out_formula fee r_in r_out b"
proof -
  let ?y = "out_formula fee r_in r_out a"
  have y: "?y * (r_in * 10000) \<le> a * (10000 - fee) * (r_out - ?y)" "?y \<le> r_out"
    using out_formula_ge_iff [OF assms(2,3), of ?y r_in r_out] by simp_all
  have "a * (10000 - fee) * (r_out - ?y) \<le> b * (10000 - fee) * (r_out - ?y)"
    using assms(1) by (intro mult_le_mono) auto
  with y have "?y * (r_in * 10000) \<le> b * (10000 - fee) * (r_out - ?y)" by linarith
  then show ?thesis
    using y(2) assms out_formula_ge_iff [of b fee ?y r_in r_out] by simp
qed

text \<open>
  Buying more never yields less.  For two inputs at which \<open>get_amount_out\<close> succeeds, the larger
  one yields at least as much.
\<close>

lemma get_amount_out_monotone:
  assumes "wf_pair p" "a \<le> b" "b < 2 ^ 128"
    and "get_amount_out p a t = Ok x" "get_amount_out p b t = Ok y"
  shows "x \<le> y"
proof -
  from assms(4) have a: "0 < a" by (auto simp: get_amount_out_def split: if_splits)
  from assms(4) obtain r_in r_out where r: "reserves_for p t = Ok (r_in, r_out)"
    by (auto simp: get_amount_out_def bind_out_Ok_iff split: if_splits)
  have "x = out_formula (fee_bps p) r_in r_out a" "y = out_formula (fee_bps p) r_in r_out b"
    using get_amount_out_eq [OF assms(1) a _ r] get_amount_out_eq [OF assms(1) _ assms(3) r] assms(2-5) a
    by (simp_all split: if_splits)
  with out_formula_mono [OF assms(2) a] assms(1) show ?thesis by (simp add: wf_pair_def)
qed

lemma get_amount_out_monotone_witness:
  "\<exists>x y. get_amount_out sample_pair 100 (token0 sample_pair) = Ok x
     \<and> get_amount_out sample_pair 200 (token0 sample_pair) = Ok y \<and> x \<le> y"
proof -
  have o: "get_amount_out sample_pair 100 (token0 sample_pair) = Ok 181" "get_amount_out sample_pair 200 (token0 sample_pair) = Ok 332"
    using get_amount_out_eq [of sample_pair 100 "token0 sample_pair" 1000 2000]
      get_amount_out_eq [of sample_pair 200 "token0 sample_pair" 1000 2000] by (simp_all add: out_formula_def)
  from get_amount_out_monotone [OF _ _ _ o] o show ?thesis by auto
qed

section \<open>The size search\<close>

definition search_inv :: "(nat \<Rightarrow> (pricing_error, dec) outcome) \<Rightarrow> dec \<Rightarrow> nat \<Rightarrow> nat \<Rightarrow> nat \<Rightarrow> nat \<Rightarrow> bool" where
  "search_inv im m top_size lo hi best \<longleftrightarrow>
     (best + 1 = lo \<or> best = 1 \<and> lo = 1) \<and> 1 \<le> lo \<and> lo \<le> hi + 1 \<and> hi \<le> top_size
     \<and> (\<exists>x. im best = Ok x \<and> x \<le> m) \<and> (hi = top_size \<or> (\<exists>x. im (hi + 1) = Ok x \<and> m < x))"

lemma search_loop_correct:
  assumes "search_loop im m lo hi best = Ok r" "search_inv im m top_size lo hi best"
  shows "(\<exists>x. im r = Ok x \<and> x \<le> m) \<and> (top_size \<le> r \<or> (\<exists>x. im (r + 1) = Ok x \<and> m < x))"
  using assms
proof (induction im m lo hi best rule: search_loop.induct)
  case (1 im m lo hi best)
  show ?case
  proof (cases "lo \<le> hi")
    case False
    with "1.prems" have "r = best" "lo = hi + 1"
      by (simp_all add: search_loop.simps [of im m lo hi best] search_inv_def)
    with "1.prems"(2) show ?thesis by (auto simp: search_inv_def)
  next
    case True
    define mid where "mid = lo + (hi - lo) div 2"
    have mid: "lo \<le> mid" "mid \<le> hi" using True by (auto simp: mid_def)
    have inv: "1 \<le> lo" "hi \<le> top_size" "hi = top_size \<or> (\<exists>x. im (hi + 1) = Ok x \<and> m < x)"
      using "1.prems"(2) by (auto simp: search_inv_def)
    from "1.prems"(1) obtain x where x: "im mid = Ok x"
      and run: "(if x \<le> m then search_loop im m (mid + 1) hi mid else search_loop im m lo (mid - 1) best) = Ok r"
      using True mid inv(1)
      by (subst (asm) search_loop.simps) (auto simp: mid_def [symmetric] Let_def split: outcome.splits if_splits)
    show ?thesis
    proof (cases "x \<le> m")
      case le: True
      with x inv mid have "search_inv im m top_size (mid + 1) hi mid" by (auto simp: search_inv_def)
      with "1.IH"(1) [OF True mid_def x le] run le show ?thesis by simp
    next
      case gt: False
      with x inv mid "1.prems"(2) have "search_inv im m top_size lo (mid - 1) best" by (auto simp: search_inv_def)
      with "1.IH"(2) [OF True mid_def x gt] run gt inv mid show ?thesis by simp
    qed
  qed
qed

lemma search_loop_returns:
  "(\<And>a. lo \<le> a \<Longrightarrow> a \<le> hi \<Longrightarrow> is_ok (im a)) \<Longrightarrow> 1 \<le> lo \<Longrightarrow> is_ok (search_loop im m lo hi best)"
proof (induction im m lo hi best rule: search_loop.induct)
  case (1 im m lo hi best)
  show ?case
  proof (cases "lo \<le> hi")
    case False
    then show ?thesis by (simp add: search_loop.simps [of im m lo hi best])
  next
    case True
    define mid where "mid = lo + (hi - lo) div 2"
    have mid: "lo \<le> mid" "mid \<le> hi" using True by (auto simp: mid_def)
    with "1.prems"(1) obtain x where x: "im mid = Ok x" by (auto simp: is_ok_iff)
    show ?thesis
      using "1.IH"(1) [OF True mid_def x] "1.IH"(2) [OF True mid_def x] "1.prems" mid True x
      by (subst search_loop.simps) (auto simp: mid_def [symmetric] Let_def)
  qed
qed

text \<open>
  The size search terminates and its answer is right.  Whatever \<open>find_max_size_for_impact\<close>
  returns has a price impact within the limit, and either it is at least half of the input reserve
  (the upper end of the search) or one unit more already exceeds the limit.
\<close>

lemma find_max_size_correct:
  assumes "find_max_size_for_impact D p t pct = Ok r" "reserves_for p t = Ok (r_in, r_out)"
  shows "(\<exists>x. get_price_impact D p r t = Ok x \<and> x \<le> ddiv D pct 100)
         \<and> (r_in div 2 \<le> r \<or> (\<exists>x. get_price_impact D p (r + 1) t = Ok x \<and> ddiv D pct 100 < x))"
proof -
  let ?im = "\<lambda>a. get_price_impact D p a t" let ?m = "ddiv D pct 100"
  from assms obtain x where x: "?im 1 = Ok x" "x \<le> ?m"
    and s: "search_loop ?im ?m 1 (r_in div 2) 1 = Ok r"
    by (auto simp: find_max_size_for_impact_def bind_out_Ok_iff dec_div_def not_less split: if_splits)
  have "search_inv ?im ?m (r_in div 2) 1 (r_in div 2) 1" using x by (simp add: search_inv_def)
  from search_loop_correct [OF s this] show ?thesis .
qed

lemma find_max_size_correct_witness:
  "\<exists>r. find_max_size_for_impact exact_ops (sample_pair\<lparr>reserve0 := 8, reserve1 := 8000\<rparr>) (token0 sample_pair) 40 = Ok r
     \<and> (\<exists>x. get_price_impact exact_ops (sample_pair\<lparr>reserve0 := 8, reserve1 := 8000\<rparr>) r (token0 sample_pair) = Ok x \<and> x \<le> 2 / 5)"
proof -
  let ?p = "sample_pair\<lparr>reserve0 := 8, reserve1 := 8000\<rparr>" let ?t = "token0 sample_pair"
  have r: "reserves_for ?p ?t = Ok (8, 8000)" "wf_pair ?p"
    by (simp_all add: sample_pair_def reserves_for_def token_eq_def wf_pair_def)
  have im: "get_price_impact exact_ops ?p a ?t = Ok (max ((of_nat (1000 * a - out_formula 30 8 8000 a)) / of_nat (1000 * a)) 0)"
    if "1 \<le> a" "a \<le> 4" for a
  proof -
    have "get_amount_out ?p a ?t = Ok (out_formula 30 8 8000 a)"
      using get_amount_out_eq [OF r(2) _ _ r(1), of a] that by simp
    moreover have "out_formula 30 8 8000 a < 1000 * a" "a * 8000 div 8 = 1000 * a" "1000 * a - out_formula 30 8 8000 a < 2 ^ 96"
      using that by (auto simp: out_formula_def less_mult_imp_div_less)
    ultimately show ?thesis
      using that r(1) by (simp add: get_price_impact_def u256_mul_def u256_div_def as_u128_def dec_of_u128_def dec_div_def)
  qed
  have ok: "is_ok (search_loop (\<lambda>a. get_price_impact exact_ops ?p a ?t) (2 / 5) 1 4 1)"
    by (rule search_loop_returns) (simp_all add: im)
  have "\<not> (2 / 5 :: rat) < max (of_nat (1000 * 1 - out_formula 30 8 8000 1) / of_nat (1000 * 1)) 0"
    by (simp add: out_formula_def)
  with ok have "is_ok (find_max_size_for_impact exact_ops ?p ?t 40)"
    using im [of 1] r(1) by (simp add: find_max_size_for_impact_def dec_div_def)
  then obtain s where "find_max_size_for_impact exact_ops ?p ?t 40 = Ok s" by (auto simp: is_ok_iff)
  with find_max_size_correct [OF this r(1)] show ?thesis by auto
qed

section \<open>Cost estimate\<close>

text \<open>
  The gas cost ignores prices.  \<open>estimate_true_cost\<close> converts the gas cost from wei to units of
  the output token with the two decimal scales only: for two pairs that differ in nothing but their
  reserves (so in their spot price) the converted gas cost is the same.
\<close>

lemma gas_conversion_ignores_price:
  assumes "estimate_true_cost oc D p a t gwei gas = Ok c"
    and "estimate_true_cost oc D (p\<lparr>reserve0 := r0, reserve1 := r1\<rparr>) a t gwei gas = Ok c'"
  shows "gas_cost_in_output_token c = gas_cost_in_output_token c'"
proof -
  have "token_out_for (p\<lparr>reserve0 := r0, reserve1 := r1\<rparr>) t = token_out_for p t"
    by (simp add: token_out_for_def)
  with assms show ?thesis
    by (auto simp: estimate_true_cost_def bind_out_Ok_iff Let_def)
qed

lemma gas_conversion_ignores_price_witness:
  "\<exists>c c'. estimate_true_cost True exact_ops sample_pair 100 (token0 sample_pair) 20 150000 = Ok c
     \<and> estimate_true_cost True exact_ops (sample_pair\<lparr>reserve0 := 1000, reserve1 := 900000\<rparr>) 100 (token0 sample_pair) 20 150000 = Ok c'
     \<and> gross_output c \<noteq> gross_output c' \<and> gas_cost_in_output_token c = gas_cost_in_output_token c'"
proof -
  let ?p = "sample_pair\<lparr>reserve0 := 1000, reserve1 := 900000\<rparr>" let ?t = "token0 sample_pair"
  have "\<exists>c. estimate_true_cost True exact_ops sample_pair 100 ?t 20 150000 = Ok c \<and> gross_output c = 181"
    "\<exists>c. estimate_true_cost True exact_ops ?p 100 ?t 20 150000 = Ok c \<and> gross_output c = 81594"
    by (simp_all add: estimate_true_cost_def get_amount_out_def sample_pair_def reserves_for_def token_eq_def
        token_out_for_def u256_sub_def u256_mul_checked_def u256_add_checked_def u256_div_def as_u128_def
        plain_u128_def decimal_scale_def dec_of_u128_def dec_div_def Let_def)
  then obtain c c' where c: "estimate_true_cost True exact_ops sample_pair 100 ?t 20 150000 = Ok c" "gross_output c = 181"
    "estimate_true_cost True exact_ops ?p 100 ?t 20 150000 = Ok c'" "gross_output c' = 81594" by blast
  with gas_conversion_ignores_price [OF c(1,3)] show ?thesis by auto
qed

end
