(* ===== verification/V3_Math.thy ===== *)
theory V3_Math
  imports Amm
begin

text \<open>
  \<open>pricing/v3/math.rs\<close>, \<open>pricing/v3/tick.rs\<close> and the quoting loop of \<open>pricing/v3/pool.rs\<close>: tick
  arithmetic, the sqrt-price table, swap steps and swap quotes of Uniswap V3.

  A \<open>U256\<close> is a natural number; \<open>full_mul_shr_128\<close> works on its four 64-bit limbs, least
  significant first.  The 512-bit intermediate products of \<open>U512\<close> are checked for overflow (the
  crate panics), the conversion back keeps the low 256 bits.  Ticks are integers (\<open>i32\<close>); their
  arithmetic stays within 32 bits for the ticks a pool can have.
\<close>

section \<open>Constants\<close>

definition MIN_TICK :: int where "MIN_TICK = - 887272"
definition MAX_TICK :: int where "MAX_TICK = 887272"

definition MIN_SQRT_RATIO :: nat where "MIN_SQRT_RATIO = 4295128739"

definition MAX_SQRT_RATIO :: nat where
  "MAX_SQRT_RATIO = 158556616351758596 + 16871241472139834863 * 2 ^ 64 + 8689426018648659796 * 2 ^ 128 + 288 * 2 ^ 192"

definition FEE_PPM :: nat where "FEE_PPM = 1000000"

definition q96 :: nat where "q96 = 4294967296 * 2 ^ 64"

section \<open>The 256-bit product\<close>

text \<open>
  One pass of the inner loop over \<open>j\<close>: \<open>d\<close> is the limb \<open>a[i]\<close>, \<open>ps\<close> the slice \<open>p[i..]\<close>.
\<close>

fun mul_row :: "nat \<Rightarrow> nat list \<Rightarrow> nat list \<Rightarrow> nat \<Rightarrow> nat list \<times> nat" where
  "mul_row d (b # bs) (p # ps) carry =
     (let v = d * b + p + carry;
          (ps', carry') = mul_row d bs ps (v div 2 ^ 64)
      in (v mod 2 ^ 64 # ps', carry'))"
| "mul_row d bs ps carry = (ps, carry)"

text \<open>
  The outer loop over \<open>i\<close>: the row, then \<open>p[i + 4] += carry\<close>.
\<close>

fun mul_rows :: "nat list \<Rightarrow> nat list \<Rightarrow> nat list \<Rightarrow> nat list" where
  "mul_rows [] bl ps = ps"
| "mul_rows (d # ds) bl ps =
     (let (ps', carry) = mul_row d bl ps 0;
          ps'' = ps'[length bl := ps' ! length bl + carry]
      in case ps'' of [] \<Rightarrow> [] | x # xs \<Rightarrow> x # mul_rows ds bl xs)"

fun limbs :: "nat \<Rightarrow> nat \<Rightarrow> nat list" where
  "limbs 0 x = []"
| "limbs (Suc n) x = x mod 2 ^ 64 # limbs n (x div 2 ^ 64)"

fun limbs_value :: "nat list \<Rightarrow> nat" where
  "limbs_value [] = 0"
| "limbs_value (x # xs) = x + 2 ^ 64 * limbs_value xs"

definition full_mul_shr_128 :: "nat \<Rightarrow> nat \<Rightarrow> nat" where
  "full_mul_shr_128 a b =
     (let p = mul_rows (limbs 4 a) (limbs 4 b) (replicate 8 0)
      in limbs_value (map (\<lambda>x. x mod 2 ^ 64) (take 4 (drop 2 p))))"

section \<open>Sqrt price at a tick\<close>

definition ratio_table :: "(nat \<times> nat) list" where
  "ratio_table =
    [(1, 0xfff97272373d413259a46990580e213a), (2, 0xfff2e50f5f656932ef12357cf3c7fdcc),
     (3, 0xffe5caca7e10e4e61c3624eaa0941cd0), (4, 0xffcb9843d60f6159c9db58835c926644),
     (5, 0xff973b41fa98c081472e6896dfb254c0), (6, 0xff2ea16466c96a3843ec78b326b52861),
     (7, 0xfe5dee046a99a2a811c461f1969c3053), (8, 0xfcbe86c7900a88aedcffc83b479aa3a4),
     (9, 0xf987a7253ac413176f2b074cf7815e54), (10, 0xf3392b0822b70005940c7a398e4b70f3),
     (11, 0xe7159475a2c29b7443b29c7fa6e889d9), (12, 0xd097f3bdfd2022b8845ad8f792aa5825),
     (13, 0xa9f746462d870fdf8a65dc1f90e061e5), (14, 0x70d869a156d2a1b890bb3df62baf32f7),
     (15, 0x31be135f97d08fd981231505542fcfa6), (16, 0x9aa508b5b7a84e1c677de54f3e99bc9),
     (17, 0x5d6af8dedb81196699c329225ee604), (18, 0x2216e584f5fa1ea926041bedfe98),
     (19, 0x48a170391f7dc42444e8fa2)]"

definition bit_set :: "nat \<Rightarrow> nat \<Rightarrow> bool" where
  "bit_set n i \<longleftrightarrow> n div 2 ^ i mod 2 \<noteq> 0"

definition abs_ratio :: "nat \<Rightarrow> nat" where
  "abs_ratio n =
     fold (\<lambda>(i, c) ratio. if bit_set n i then full_mul_shr_128 ratio c else ratio) ratio_table
       (if bit_set n 0 then 0xfffcb933bd6fad37aa2d162d1a594001 else 2 ^ 128)"

definition get_sqrt_ratio_at_tick :: "int \<Rightarrow> (pricing_error, nat) outcome" where
  "get_sqrt_ratio_at_tick tick =
     (if tick < MIN_TICK \<or> MAX_TICK < tick then Err AbiDecode
      else bind_out
        (if tick > 0 then u256_div (2 ^ 256 - 1) (abs_ratio (nat \<bar>tick\<bar>)) else Ok (abs_ratio (nat \<bar>tick\<bar>)))
        (\<lambda>ratio. let result = ratio div 2 ^ 32 + ratio div 2 ^ 31 mod 2
           in if result > MAX_SQRT_RATIO then Err AbiDecode
              else if result < MIN_SQRT_RATIO then Ok MIN_SQRT_RATIO else Ok result))"

text \<open>The binary search for the tick; \<open>get_sqrt_ratio_at_tick\<close> is its argument.\<close>

function tick_search :: "(int \<Rightarrow> (pricing_error, nat) outcome) \<Rightarrow> nat \<Rightarrow> int \<Rightarrow> int \<Rightarrow> (pricing_error, int) outcome" where
  "tick_search ratio price lo hi =
     (if lo \<le> hi
      then let mid = lo + (hi - lo) div 2
           in case ratio mid of
                Ok r \<Rightarrow> (if r \<le> price then tick_search ratio price (mid + 1) hi
                          else tick_search ratio price lo (mid - 1))
              | Err e \<Rightarrow> Err e
              | Panic \<Rightarrow> Panic
      else Ok hi)"
  by pat_completeness auto
termination
  by (relation "measure (\<lambda>(r, p, lo, hi). nat (hi + 1 - lo))") auto

declare tick_search.simps [simp del]

definition get_tick_at_sqrt_ratio :: "nat \<Rightarrow> (pricing_error, int) outcome" where
  "get_tick_at_sqrt_ratio sqrt_price =
     (if sqrt_price < MIN_SQRT_RATIO \<or> sqrt_price \<ge> MAX_SQRT_RATIO then Err AbiDecode
      else tick_search get_sqrt_ratio_at_tick sqrt_price MIN_TICK MAX_TICK)"

section \<open>Swap steps\<close>

definition u512 :: "nat \<Rightarrow> ('e, nat) outcome" where
  "u512 x = (if x < 2 ^ 512 then Ok x else Panic)"

definition from_u512 :: "nat \<Rightarrow> nat" where
  "from_u512 x = x mod 2 ^ 256"

text \<open>\<open>(num + den - 1) / den\<close> or \<open>num / den\<close>, then the low 256 bits as \<open>u128\<close>.\<close>

definition u512_quotient :: "bool \<Rightarrow> nat \<Rightarrow> nat \<Rightarrow> (pricing_error, nat) outcome" where
  "u512_quotient up num den =
     bind_out (if up then bind_out (u512 (num + den)) (\<lambda>x. u256_div (x - 1) den) else u256_div num den)
       (\<lambda>res. as_u128 (from_u512 res))"

definition get_amount0_delta :: "nat \<Rightarrow> nat \<Rightarrow> nat \<Rightarrow> bool \<Rightarrow> (pricing_error, nat) outcome" where
  "get_amount0_delta a b liq up =
     (let lo = min a b; hi = max a b
      in if lo = 0 then Ok 0
         else bind_out (u512 (liq * 2 ^ 96 * (hi - lo))) (\<lambda>num.
              bind_out (u512 (hi * lo)) (\<lambda>den. u512_quotient up num den)))"

definition get_amount1_delta :: "nat \<Rightarrow> nat \<Rightarrow> nat \<Rightarrow> bool \<Rightarrow> (pricing_error, nat) outcome" where
  "get_amount1_delta a b liq up =
     (let lo = min a b; hi = max a b
      in bind_out (u512 (liq * (hi - lo))) (\<lambda>num. u512_quotient up num (2 ^ 96)))"

definition get_amount0_delta_unsigned :: "nat \<Rightarrow> nat \<Rightarrow> nat \<Rightarrow> (pricing_error, nat) outcome" where
  "get_amount0_delta_unsigned a b liq = (if liq = 0 then Err ZeroAmountIn else get_amount0_delta a b liq False)"

definition get_amount1_delta_unsigned :: "nat \<Rightarrow> nat \<Rightarrow> nat \<Rightarrow> (pricing_error, nat) outcome" where
  "get_amount1_delta_unsigned a b liq = (if liq = 0 then Err ZeroAmountIn else get_amount1_delta a b liq False)"

definition next_sqrt0 :: "nat \<Rightarrow> nat \<Rightarrow> nat \<Rightarrow> bool \<Rightarrow> (pricing_error, nat) outcome" where
  "next_sqrt0 cur liq amt add =
     (if amt = 0 then Ok cur
      else bind_out (u512 (liq * 2 ^ 96 * cur)) (\<lambda>num.
           bind_out (u512 (amt * cur)) (\<lambda>ac.
             if add
             then bind_out (u512 (liq * 2 ^ 96 + ac)) (\<lambda>den. bind_out (u256_div num den) (\<lambda>q. Ok (from_u512 q)))
             else bind_out (u256_sub (liq * 2 ^ 96) ac) (\<lambda>den.
                    if den = 0 then Err ArithmeticOverflow else Ok (from_u512 (num div den))))))"

definition next_sqrt1 :: "nat \<Rightarrow> nat \<Rightarrow> nat \<Rightarrow> bool \<Rightarrow> (pricing_error, nat) outcome" where
  "next_sqrt1 cur liq amt add =
     bind_out (u256_div (amt * 2 ^ 96) liq) (\<lambda>d.
       if add then bind_out (u512 (cur + d)) (\<lambda>x. Ok (from_u512 x))
       else if d \<ge> cur then Err ArithmeticOverflow else Ok (from_u512 (cur - d)))"

record swap_step_result =
  sqrt_ratio_next :: nat
  step_amount_in :: nat
  step_amount_out :: nat
  fee_amount :: nat

text \<open>\<open>FEE_PPM - fp\<close> is a plain \<open>u64\<close> subtraction.\<close>

definition fee_keep :: "bool \<Rightarrow> nat \<Rightarrow> (pricing_error, nat) outcome" where
  "fee_keep oc fp =
     (if fp \<le> FEE_PPM then Ok (FEE_PPM - fp) else if oc then Panic else Ok (2 ^ 64 + FEE_PPM - fp))"

definition less_fee :: "bool \<Rightarrow> nat \<Rightarrow> nat \<Rightarrow> (pricing_error, nat) outcome" where
  "less_fee oc rem fp =
     bind_out (fee_keep oc fp) (\<lambda>keep.
       if rem * keep < 2 ^ 256 then as_u128 (rem * keep div FEE_PPM) else Err ArithmeticOverflow)"

definition compute_swap_step :: "bool \<Rightarrow> nat \<Rightarrow> nat \<Rightarrow> nat \<Rightarrow> nat \<Rightarrow> nat \<Rightarrow> (pricing_error, swap_step_result) outcome" where
  "compute_swap_step oc cur tgt liq rem fee =
     bind_out
       (if cur \<ge> tgt
        then bind_out (get_amount0_delta tgt cur liq True) (\<lambda>ain.
               if rem \<ge> ain
               then bind_out (get_amount1_delta tgt cur liq False) (\<lambda>aout. Ok (tgt, ain, aout))
               else bind_out (less_fee oc rem fee) (\<lambda>less.
                    bind_out (next_sqrt0 cur liq less True) (\<lambda>nx.
                    bind_out (get_amount1_delta nx cur liq False) (\<lambda>aout. Ok (nx, rem, aout)))))
        else bind_out (get_amount1_delta cur tgt liq True) (\<lambda>ain.
               if rem \<ge> ain
               then bind_out (get_amount0_delta cur tgt liq False) (\<lambda>aout. Ok (tgt, ain, aout))
               else bind_out (less_fee oc rem fee) (\<lambda>less.
                    bind_out (next_sqrt1 cur liq less True) (\<lambda>nx.
                    bind_out (get_amount0_delta cur nx liq False) (\<lambda>aout. Ok (nx, rem, aout))))))
       (\<lambda>(nxt, ain, aout).
         bind_out
           (if fee = 0 then Ok 0
            else if ain < rem then Ok (rem - ain)
            else bind_out (fee_keep oc fee) (\<lambda>keep.
                 bind_out (u256_mul ain fee) (\<lambda>x. bind_out (u256_div x keep) as_u128)))
           (\<lambda>famt. Ok \<lparr>sqrt_ratio_next = nxt, step_amount_in = ain, step_amount_out = aout, fee_amount = famt\<rparr>))"

section \<open>Ticks\<close>

definition fee_tier_to_tick_spacing :: "nat \<Rightarrow> int" where
  "fee_tier_to_tick_spacing fee =
     (if fee = 100 then 1 else if fee = 500 then 10 else if fee = 3000 then 60 else if fee = 10000 then 200 else 60)"

text \<open>Rust division and remainder truncate toward zero.\<close>

definition tquot :: "int \<Rightarrow> int \<Rightarrow> int" where
  "tquot a b = sgn a * (\<bar>a\<bar> div b)"

definition trem :: "int \<Rightarrow> int \<Rightarrow> int" where
  "trem a b = a - b * tquot a b"

definition floor_div_tick :: "int \<Rightarrow> int \<Rightarrow> int" where
  "floor_div_tick tick spacing =
     (let q = tquot tick spacing in if tick < 0 \<and> trem tick spacing \<noteq> 0 then q - 1 else q)"

definition nearest_usable_tick :: "int \<Rightarrow> int \<Rightarrow> int" where
  "nearest_usable_tick tick tick_spacing =
     (let spacing = max tick_spacing 1;
          rounded_down = floor_div_tick tick spacing * spacing;
          rounded_up = rounded_down + spacing;
          result = (if \<bar>tick - rounded_down\<bar> \<le> \<bar>tick - rounded_up\<bar> then rounded_down else rounded_up)
      in if result < MIN_TICK then MIN_TICK + \<bar>trem MIN_TICK spacing\<bar>
         else if result > MAX_TICK then MAX_TICK - \<bar>trem MAX_TICK spacing\<bar>
         else result)"

definition next_tick_boundary :: "int \<Rightarrow> int \<Rightarrow> bool \<Rightarrow> int" where
  "next_tick_boundary tick tick_spacing zero_for_one =
     (let spacing = max tick_spacing 1;
          compressed = floor_div_tick tick spacing
      in if zero_for_one
         then (if trem tick spacing = 0 then max ((compressed - 1) * spacing) MIN_TICK
               else max (compressed * spacing) MIN_TICK)
         else min ((compressed + 1) * spacing) MAX_TICK)"

section \<open>Pool quotes\<close>

record uniswap_v3_pool =
  v3_address :: string
  v3_token0 :: token
  v3_token1 :: token
  v3_fee_bps :: nat
  v3_tick_spacing :: int
  v3_sqrt_price_x96 :: nat
  v3_liquidity :: nat
  v3_tick :: int

definition v3_pool_new :: "string \<Rightarrow> token \<Rightarrow> token \<Rightarrow> nat \<Rightarrow> nat \<Rightarrow> nat \<Rightarrow> int \<Rightarrow> uniswap_v3_pool" where
  "v3_pool_new a t0 t1 fee sp liq tick =
     \<lparr>v3_address = a, v3_token0 = t0, v3_token1 = t1, v3_fee_bps = fee,
      v3_tick_spacing = fee_tier_to_tick_spacing fee, v3_sqrt_price_x96 = sp, v3_liquidity = liq, v3_tick = tick\<rparr>"

definition v3_token_out_for :: "uniswap_v3_pool \<Rightarrow> token \<Rightarrow> (pricing_error, token) outcome" where
  "v3_token_out_for p token_in =
     (if token_eq token_in (v3_token0 p) then Ok (v3_token1 p)
      else if token_eq token_in (v3_token1 p) then Ok (v3_token0 p)
      else Err (UnknownToken (tok_symbol token_in)))"

definition MAX_SWAP_STEPS :: nat where "MAX_SWAP_STEPS = 50"

record quote_state =
  qs_sqrt_price :: nat
  qs_remaining :: nat
  qs_total_out :: nat
  qs_steps :: nat
  qs_tick :: int

text \<open>One iteration; \<open>None\<close> is the \<open>break\<close> at an exhausted tick range.\<close>

definition quote_step :: "bool \<Rightarrow> uniswap_v3_pool \<Rightarrow> bool \<Rightarrow> quote_state \<Rightarrow> (pricing_error, quote_state option) outcome" where
  "quote_step oc p zfo s =
     (let next_tick = next_tick_boundary (qs_tick s) (v3_tick_spacing p) zfo
      in if next_tick = qs_tick s then Ok None
         else bind_out (get_sqrt_ratio_at_tick next_tick) (\<lambda>target0.
           let target = (if zfo then (if target0 > qs_sqrt_price s then qs_sqrt_price s else target0)
                         else (if target0 < qs_sqrt_price s then qs_sqrt_price s else target0))
           in bind_out (compute_swap_step oc (qs_sqrt_price s) target (v3_liquidity p) (qs_remaining s) (v3_fee_bps p)) (\<lambda>r.
             let total = min (2 ^ 128 - 1) (qs_total_out s + step_amount_out r);
                 remaining = (if step_amount_in r \<ge> qs_remaining s then 0 else qs_remaining s - step_amount_in r);
                 price = sqrt_ratio_next r;
                 tick = (if price = target \<and> remaining > 0 then Ok next_tick
                         else case get_tick_at_sqrt_ratio price of Ok t \<Rightarrow> Ok t | Err _ \<Rightarrow> Ok (qs_tick s) | Panic \<Rightarrow> Panic)
             in bind_out tick (\<lambda>t. Ok (Some
                  \<lparr>qs_sqrt_price = price, qs_remaining = remaining, qs_total_out = total,
                   qs_steps = qs_steps s + 1, qs_tick = t\<rparr>)))))"

function quote_loop :: "bool \<Rightarrow> uniswap_v3_pool \<Rightarrow> bool \<Rightarrow> nat \<Rightarrow> quote_state \<Rightarrow> (pricing_error, quote_state) outcome" where
  "quote_loop oc p zfo fuel s =
     (if qs_remaining s > 0 \<and> v3_liquidity p > 0 \<and> 0 < fuel
      then bind_out (quote_step oc p zfo s) (\<lambda>r. case r of None \<Rightarrow> Ok s | Some s' \<Rightarrow> quote_loop oc p zfo (fuel - 1) s')
      else Ok s)"
  by pat_completeness auto
termination
  by (relation "measure (\<lambda>(oc, p, z, fuel, s). fuel)") auto

declare quote_loop.simps [simp del]

record v3_swap_quote =
  q_amount_in :: nat
  q_amount_out :: nat
  q_sqrt_price_after :: nat
  q_tick_after :: int
  q_gas_estimate :: nat
  q_is_partial :: bool

definition quote_swap :: "bool \<Rightarrow> uniswap_v3_pool \<Rightarrow> nat \<Rightarrow> token \<Rightarrow> (pricing_error, v3_swap_quote) outcome" where
  "quote_swap oc p amount_in token_in =
     (if amount_in = 0 then Err ZeroAmountIn
      else bind_out
        (if token_eq token_in (v3_token0 p) then Ok True
         else if token_eq token_in (v3_token1 p) then Ok False
         else Err (UnknownToken (tok_symbol token_in))) (\<lambda>zfo.
        bind_out (quote_loop oc p zfo MAX_SWAP_STEPS
            \<lparr>qs_sqrt_price = v3_sqrt_price_x96 p, qs_remaining = amount_in, qs_total_out = 0, qs_steps = 0, qs_tick = v3_tick p\<rparr>) (\<lambda>s.
          Ok \<lparr>q_amount_in = amount_in - qs_remaining s, q_amount_out = qs_total_out s,
              q_sqrt_price_after = qs_sqrt_price s, q_tick_after = qs_tick s,
              q_gas_estimate = 80000 + 60000 * qs_steps s,
              q_is_partial = (qs_remaining s > 0 \<and> qs_steps s \<ge> MAX_SWAP_STEPS)\<rparr>)))"

definition estimate_gas :: "nat \<Rightarrow> nat" where
  "estimate_gas num_hops = 80000 + 60000 * num_hops"

section \<open>The limb product is the product\<close>

text \<open>
  A limb is below \<open>2 ^ 64\<close>; \<open>limbs_value\<close> reads a list of limbs as a number, and \<open>take\<close> and \<open>drop\<close>
  on limbs are remainder and quotient.
\<close>

definition limbs_ok :: "nat list \<Rightarrow> bool" where
  "limbs_ok xs \<longleftrightarrow> list_all (\<lambda>x. x < 2 ^ 64) xs"

lemma limbs_ok_simps [simp]:
  "limbs_ok []" "limbs_ok (x # xs) \<longleftrightarrow> x < 2 ^ 64 \<and> limbs_ok xs"
  "limbs_ok (xs @ ys) \<longleftrightarrow> limbs_ok xs \<and> limbs_ok ys" "limbs_ok (replicate n 0)"
  by (auto simp: limbs_ok_def list_all_iff)

lemma limbs_value_append:
  "limbs_value (xs @ ys) = limbs_value xs + 2 ^ (64 * length xs) * limbs_value ys"
  by (induction xs) (simp_all add: power_add algebra_simps)

lemma limbs_value_replicate [simp]: "limbs_value (replicate n 0) = 0"
  by (induction n) simp_all

lemma limbs_value_bound: "limbs_ok xs \<Longrightarrow> limbs_value xs < 2 ^ (64 * length xs)"
proof (induction xs)
  case (Cons x xs)
  then have "x < 2 ^ 64" "limbs_value xs + 1 \<le> 2 ^ (64 * length xs)" by auto
  then have "x + 2 ^ 64 * limbs_value xs < 2 ^ 64 * (limbs_value xs + 1)" by simp
  also have "\<dots> \<le> 2 ^ 64 * 2 ^ (64 * length xs)"
    using \<open>limbs_value xs + 1 \<le> _\<close> by (rule mult_le_mono2)
  finally show ?case by (simp add: power_add)
qed simp

lemma limbs_value_take_drop:
  assumes "limbs_ok xs" "n \<le> length xs"
  shows "limbs_value (take n xs) = limbs_value xs mod 2 ^ (64 * n)"
    and "limbs_value (drop n xs) = limbs_value xs div 2 ^ (64 * n)"
proof -
  have split: "limbs_value xs = limbs_value (take n xs) + 2 ^ (64 * n) * limbs_value (drop n xs)"
    using limbs_value_append [of "take n xs" "drop n xs"] assms(2) by simp
  have "limbs_ok (take n xs)"
    using assms(1) by (metis append_take_drop_id limbs_ok_simps(3))
  from limbs_value_bound [OF this] have "limbs_value (take n xs) < 2 ^ (64 * n)"
    using assms(2) by simp
  with split show "limbs_value (take n xs) = limbs_value xs mod 2 ^ (64 * n)"
    and "limbs_value (drop n xs) = limbs_value xs div 2 ^ (64 * n)" by simp_all
qed

lemma limbs_spec: "length (limbs n x) = n \<and> limbs_ok (limbs n x) \<and> (x < 2 ^ (64 * n) \<longrightarrow> limbs_value (limbs n x) = x)"
proof (induction n arbitrary: x)
  case (Suc n)
  have "x div 2 ^ 64 < 2 ^ (64 * n)" if "x < 2 ^ (64 * Suc n)"
    using that by (intro less_mult_imp_div_less) (simp add: power_add mult.commute)
  with Suc [of "x div 2 ^ 64"] show ?case by (simp add: mod_mult_div_eq)
qed simp

text \<open>One row adds \<open>d\<close> times the multiplier; the 128-bit intermediate value never overflows.\<close>

lemma limb_product_fits:
  fixes d b p c :: nat
  assumes "d < 2 ^ 64" "b < 2 ^ 64" "p < 2 ^ 64" "c < 2 ^ 64"
  shows "d * b + p + c < 2 ^ 128"
proof -
  have "d * b \<le> (2 ^ 64 - 1) * (2 ^ 64 - 1)" using assms by (intro mult_le_mono) auto
  with assms show ?thesis by simp
qed

lemma carry_step: "v mod B + B * (X + v div B) = v + B * X" for v B X :: nat
  by (simp add: distrib_left)

lemma mul_row_spec:
  assumes "limbs_ok bs" "limbs_ok qs" "length qs = length bs" "d < 2 ^ 64" "c < 2 ^ 64"
  shows "\<exists>qs' c'. mul_row d bs (qs @ zs) c = (qs' @ zs, c') \<and> length qs' = length bs \<and> limbs_ok qs' \<and> c' < 2 ^ 64
           \<and> limbs_value qs' + 2 ^ (64 * length bs) * c' = limbs_value qs + d * limbs_value bs + c"
  using assms
proof (induction bs arbitrary: qs c)
  case Nil
  then show ?case by (cases zs) simp_all
next
  case (Cons b bs)
  then obtain q qr where qs: "qs = q # qr" by (cases qs) auto
  define v where "v = d * b + q + c"
  have "v < 2 ^ 128" unfolding v_def using Cons.prems qs by (intro limb_product_fits) auto
  then have v: "v div 2 ^ 64 < 2 ^ 64" by (simp add: less_mult_imp_div_less)
  then obtain qs' c' where IH: "mul_row d bs (qr @ zs) (v div 2 ^ 64) = (qs' @ zs, c')"
    "length qs' = length bs" "limbs_ok qs'" "c' < 2 ^ 64"
    "limbs_value qs' + 2 ^ (64 * length bs) * c' = limbs_value qr + d * limbs_value bs + v div 2 ^ 64"
    using Cons.IH [of qr "v div 2 ^ 64"] Cons.prems qs by auto
  have "v mod 2 ^ 64 + 2 ^ 64 * limbs_value qs' + 2 ^ (64 * length (b # bs)) * c'
      = v mod 2 ^ 64 + 2 ^ 64 * (limbs_value qs' + 2 ^ (64 * length bs) * c')"
    by (simp add: power_add algebra_simps)
  also have "\<dots> = v + 2 ^ 64 * (limbs_value qr + d * limbs_value bs)"
    unfolding IH(5) by (rule carry_step)
  finally show ?case
    using IH(1-4) qs by (intro exI [of _ "v mod 2 ^ 64 # qs'"] exI [of _ c'])
      (simp add: Let_def v_def algebra_simps)
qed

lemma mul_rows_spec:
  assumes "limbs_ok ds" "limbs_ok bl" "limbs_ok qs" "length qs = length bl" "bl \<noteq> []" "n = length ds"
  shows "limbs_ok (mul_rows ds bl (qs @ replicate n 0)) \<and> length (mul_rows ds bl (qs @ replicate n 0)) = n + length bl
         \<and> limbs_value (mul_rows ds bl (qs @ replicate n 0)) = limbs_value qs + limbs_value ds * limbs_value bl"
  using assms
proof (induction ds arbitrary: qs n)
  case Nil
  then show ?case by simp
next
  case (Cons d ds)
  obtain qs' c where row: "mul_row d bl (qs @ 0 # replicate (length ds) 0) 0 = (qs' @ 0 # replicate (length ds) 0, c)"
    "length qs' = length bl" "limbs_ok qs'" "c < 2 ^ 64"
    "limbs_value qs' + 2 ^ (64 * length bl) * c = limbs_value qs + d * limbs_value bl"
    using mul_row_spec [of bl qs d 0 "0 # replicate (length ds) 0"] Cons.prems by auto
  with Cons.prems obtain x t where q': "qs' = x # t" by (cases qs') auto
  let ?r = "mul_rows ds bl ((t @ [c]) @ replicate (length ds) 0)"
  have IH: "limbs_ok ?r" "length ?r = length ds + length bl"
    "limbs_value ?r = limbs_value (t @ [c]) + limbs_value ds * limbs_value bl"
    using Cons.IH [of "t @ [c]" "length ds"] Cons.prems row q' by auto
  have step: "mul_rows (d # ds) bl (qs @ replicate n 0) = x # ?r"
    using row(1,2) q' Cons.prems by (simp add: nth_append list_update_append flip: row(2))
  have "x + 2 ^ 64 * limbs_value (t @ [c]) = limbs_value qs + d * limbs_value bl"
    using row(5) q' by (simp add: limbs_value_append power_add distrib_left flip: row(2))
  with IH step row(3) q' Cons.prems show ?case by (simp add: algebra_simps)
qed

lemma map_mod_limbs: "limbs_ok xs \<Longrightarrow> map (\<lambda>x. x mod 2 ^ 64) xs = xs"
  by (induction xs) simp_all

lemma full_mul_shr_128_eq:
  assumes "a < 2 ^ 256" "b < 2 ^ 256"
  shows "full_mul_shr_128 a b = a * b div 2 ^ 128 mod 2 ^ 256"
proof -
  define p where "p = mul_rows (limbs 4 a) (limbs 4 b) (replicate 8 0)"
  have [simp]: "replicate 4 0 @ replicate 4 0 = replicate 8 (0::nat)" by (simp add: eval_nat_numeral)
  have ne: "limbs 4 b \<noteq> []" using limbs_spec [of 4 b] by auto
  have p: "limbs_ok p" "length p = 8" "limbs_value p = a * b"
    using mul_rows_spec [of "limbs 4 a" "limbs 4 b" "replicate 4 0" 4] limbs_spec [of 4 a] limbs_spec [of 4 b] assms ne
    unfolding p_def by auto
  have d: "limbs_ok (drop 2 p)" "limbs_ok (take 4 (drop 2 p))"
    using p(1) by (auto simp: limbs_ok_def list_all_iff dest: in_set_dropD in_set_takeD)
  have "full_mul_shr_128 a b = limbs_value (take 4 (drop 2 p))"
    using d(2) by (simp only: full_mul_shr_128_def Let_def map_mod_limbs flip: p_def)
  also have "\<dots> = a * b div 2 ^ 128 mod 2 ^ 256"
    using limbs_value_take_drop(1) [OF d(1), of 4] limbs_value_take_drop(2) [OF p(1), of 2] p(2,3) by simp
  finally show ?thesis .
qed

text \<open>
  C40: the hand-written 256-bit limb multiplication is exact: for any two 256-bit numbers
  \<open>full_mul_shr_128\<close> returns bits 128 to 383 of their 512-bit product, so when one factor is at most
  \<open>2 ^ 128\<close> (every call of the tick table) it is the whole quotient of the product by \<open>2 ^ 128\<close>, with
  nothing lost.
\<close>

theorem full_mul_shr_128_exact:
  assumes "a < 2 ^ 256" "b < 2 ^ 256"
  shows "full_mul_shr_128 a b = a * b div 2 ^ 128 mod 2 ^ 256
    \<and> (a \<le> 2 ^ 128 \<longrightarrow> full_mul_shr_128 a b = a * b div 2 ^ 128)"
proof -
  have "a * b div 2 ^ 128 mod 2 ^ 256 = a * b div 2 ^ 128" if "a \<le> 2 ^ 128"
  proof -
    have "a * b \<le> 2 ^ 128 * b" using that by simp
    then have "a * b div 2 ^ 128 \<le> b" by (metis div_le_mono nonzero_mult_div_cancel_left zero_neq_numeral power_not_zero)
    with assms(2) show ?thesis by simp
  qed
  with full_mul_shr_128_eq [OF assms] show ?thesis by simp
qed

theorem full_mul_shr_128_exact_witness:
  "full_mul_shr_128 (2 ^ 128) 0xfff97272373d413259a46990580e213a = 0xfff97272373d413259a46990580e213a"
  using full_mul_shr_128_exact [of "2 ^ 128" "0xfff97272373d413259a46990580e213a"] by simp

section \<open>The sqrt price of a tick\<close>

text \<open>
  \<open>abs_ratio\<close> multiplies the entries of the bits that are set, lowest bit first.  \<open>ratio_upto\<close> is
  its value after the low bits; \<open>ratio_least\<close> bounds it from below over all ticks up to a given
  one, by comparing at the highest bit where they differ.
\<close>

definition table_entry :: "nat \<Rightarrow> nat" where
  "table_entry i = (if i = 0 then 0xfffcb933bd6fad37aa2d162d1a594001 else snd (ratio_table ! (i - 1)))"

primrec ratio_upto :: "nat \<Rightarrow> nat \<Rightarrow> nat" where
  "ratio_upto 0 n = 2 ^ 128"
| "ratio_upto (Suc k) n =
     (if bit_set n k then ratio_upto k n * table_entry k div 2 ^ 128 else ratio_upto k n)"

primrec ratio_full :: "nat \<Rightarrow> nat" where
  "ratio_full 0 = 2 ^ 128"
| "ratio_full (Suc k) = ratio_full k * table_entry k div 2 ^ 128"

primrec ratio_least :: "nat \<Rightarrow> nat \<Rightarrow> nat" where
  "ratio_least 0 N = 2 ^ 128"
| "ratio_least (Suc k) N =
     (if 2 ^ k \<le> N then min (ratio_least k (N - 2 ^ k) * table_entry k div 2 ^ 128) (ratio_full k)
      else ratio_least k N)"

lemma ratio_table_props:
  "length ratio_table = 19" "map fst ratio_table = [1..<20]" "list_all (\<lambda>(i, c). c < 2 ^ 128) ratio_table"
  by (simp_all add: ratio_table_def upt_conv_Cons)

lemma ratio_table_nth:
  assumes "j < 19"
  shows "ratio_table ! j = (Suc j, table_entry (Suc j))"
proof -
  have "fst (ratio_table ! j) = [1..<20] ! j"
    using assms ratio_table_props(1,2) by (metis nth_map)
  also have "\<dots> = Suc j" using assms by simp
  finally show ?thesis by (simp add: table_entry_def prod_eq_iff)
qed

lemma table_entry_less: "k < 20 \<Longrightarrow> table_entry k < 2 ^ 128"
  using ratio_table_props(1,3) ratio_table_nth [of "k - 1"]
  by (cases k) (auto simp: table_entry_def list_all_length)

lemma ratio_upto_le: "k \<le> 20 \<Longrightarrow> ratio_upto k n \<le> 2 ^ 128"
proof (induction k)
  case (Suc k)
  then have "ratio_upto k n * table_entry k \<le> 2 ^ 128 * 2 ^ 128"
    using table_entry_less [of k] by (intro mult_le_mono) auto
  then have "ratio_upto k n * table_entry k div 2 ^ 128 \<le> 2 ^ 128"
    by (metis div_le_mono nonzero_mult_div_cancel_left power_not_zero zero_neq_numeral)
  with Suc show ?case by simp
qed simp

lemma abs_ratio_eq: "abs_ratio n = ratio_upto 20 n"
proof -
  have step: "(if bit_set n k then full_mul_shr_128 (ratio_upto k n) (table_entry k) else ratio_upto k n)
      = ratio_upto (Suc k) n" if "k < 20" for k
  proof -
    have "ratio_upto (Suc k) n \<le> 2 ^ 128" using ratio_upto_le [of "Suc k" n] that by simp
    then have "ratio_upto k n * table_entry k div 2 ^ 128 < 2 ^ 256" if "bit_set n k"
      using that by simp
    with ratio_upto_le [of k n] table_entry_less [of k] that show ?thesis
      by (simp add: full_mul_shr_128_eq)
  qed
  let ?f = "\<lambda>(i, c) ratio. if bit_set n i then full_mul_shr_128 ratio c else ratio"
  have "fold ?f (take j ratio_table) (ratio_upto 1 n) = ratio_upto (Suc j) n" if "j \<le> 19" for j
    using that
  proof (induction j)
    case (Suc j)
    then show ?case
      using step [of "Suc j"] ratio_table_props(1) ratio_table_nth [of j]
      by (simp add: take_Suc_conv_app_nth del: ratio_upto.simps split: if_splits)
  qed simp
  from this [of 19] ratio_table_props(1) show ?thesis
    by (simp add: abs_ratio_def table_entry_def cong: if_cong)
qed

lemma ratio_upto_mono_full: "ratio_full k \<le> ratio_upto k n" if "k \<le> 20"
  using that
proof (induction k)
  case (Suc k)
  then have IH: "ratio_full k \<le> ratio_upto k n" by simp
  have "ratio_full k * table_entry k div 2 ^ 128 \<le> ratio_full k * 2 ^ 128 div 2 ^ 128"
    using table_entry_less [of k] Suc.prems by (intro div_le_mono mult_le_mono) auto
  with IH have "ratio_full k * table_entry k div 2 ^ 128 \<le> ratio_upto k n" by simp
  moreover have "ratio_full k * table_entry k div 2 ^ 128 \<le> ratio_upto k n * table_entry k div 2 ^ 128"
    using IH by (intro div_le_mono mult_le_mono1)
  ultimately show ?case by simp
qed simp

lemma bit_set_top: "n < 2 ^ Suc k \<Longrightarrow> bit_set n k \<longleftrightarrow> 2 ^ k \<le> n"
  by (cases "n < 2 ^ k") (auto simp: bit_set_def div_greater_zero_iff not_less less_mult_imp_div_less)

lemma ratio_upto_low: "ratio_upto k (n - 2 ^ k) = ratio_upto k n" if "2 ^ k \<le> n"
proof -
  have "bit_set (n - 2 ^ k) i = bit_set n i" if "i < k" for i
  proof -
    from \<open>2 ^ k \<le> n\<close> that have "n = (n - 2 ^ k) + 2 ^ i * (2 * 2 ^ (k - i - 1))"
      by (simp flip: power_Suc power_add)
    then have "n div 2 ^ i = (n - 2 ^ k) div 2 ^ i + 2 * 2 ^ (k - i - 1)"
      by (metis div_mult_self2 power_not_zero zero_neq_numeral add.commute)
    then show ?thesis by (simp add: bit_set_def)
  qed
  then have "j \<le> k \<Longrightarrow> ratio_upto j (n - 2 ^ k) = ratio_upto j n" for j
    by (induction j) auto
  then show ?thesis by simp
qed

lemma ratio_least_bound:
  "k \<le> 20 \<Longrightarrow> n \<le> N \<Longrightarrow> N < 2 ^ k \<Longrightarrow> ratio_least k N \<le> ratio_upto k n"
proof (induction k arbitrary: n N)
  case (Suc k)
  show ?case
  proof (cases "2 ^ k \<le> N")
    case False
    with Suc show ?thesis by (simp add: bit_set_top)
  next
    case N: True
    show ?thesis
    proof (cases "2 ^ k \<le> n")
      case True
      with Suc N have "ratio_least k (N - 2 ^ k) \<le> ratio_upto k (n - 2 ^ k)" by (intro Suc.IH) auto
      then have "ratio_least k (N - 2 ^ k) * table_entry k div 2 ^ 128 \<le> ratio_upto k n * table_entry k div 2 ^ 128"
        using True by (intro div_le_mono mult_le_mono1) (simp add: ratio_upto_low)
      with True N Suc.prems show ?thesis by (simp add: bit_set_top min.coboundedI1)
    next
      case False
      with N Suc.prems ratio_upto_mono_full [of k n] show ?thesis
        by (simp add: bit_set_top min.coboundedI2)
    qed
  qed
qed simp

text \<open>The recursions at numerals, for evaluation.\<close>

lemma ratio_numeral:
  "ratio_full (numeral v) = ratio_full (pred_numeral v) * table_entry (pred_numeral v) div 2 ^ 128"
  "ratio_least (numeral v) N =
     (if 2 ^ pred_numeral v \<le> N
      then min (ratio_least (pred_numeral v) (N - 2 ^ pred_numeral v) * table_entry (pred_numeral v) div 2 ^ 128)
             (ratio_full (pred_numeral v))
      else ratio_least (pred_numeral v) N)"
  using ratio_full.simps(2) [of "pred_numeral v"] ratio_least.simps(2) [of "pred_numeral v" N]
  by (simp_all only: numeral_eq_Suc [symmetric])

lemma table_entry_values:
  "table_entry 0 = 0xfffcb933bd6fad37aa2d162d1a594001" "table_entry (Suc 0) = 0xfff97272373d413259a46990580e213a"
  "table_entry 2 = 0xfff2e50f5f656932ef12357cf3c7fdcc" "table_entry 3 = 0xffe5caca7e10e4e61c3624eaa0941cd0"
  "table_entry 4 = 0xffcb9843d60f6159c9db58835c926644" "table_entry 5 = 0xff973b41fa98c081472e6896dfb254c0"
  "table_entry 6 = 0xff2ea16466c96a3843ec78b326b52861" "table_entry 7 = 0xfe5dee046a99a2a811c461f1969c3053"
  "table_entry 8 = 0xfcbe86c7900a88aedcffc83b479aa3a4" "table_entry 9 = 0xf987a7253ac413176f2b074cf7815e54"
  "table_entry 10 = 0xf3392b0822b70005940c7a398e4b70f3" "table_entry 11 = 0xe7159475a2c29b7443b29c7fa6e889d9"
  "table_entry 12 = 0xd097f3bdfd2022b8845ad8f792aa5825" "table_entry 13 = 0xa9f746462d870fdf8a65dc1f90e061e5"
  "table_entry 14 = 0x70d869a156d2a1b890bb3df62baf32f7" "table_entry 15 = 0x31be135f97d08fd981231505542fcfa6"
  "table_entry 16 = 0x9aa508b5b7a84e1c677de54f3e99bc9" "table_entry 17 = 0x5d6af8dedb81196699c329225ee604"
  "table_entry 18 = 0x2216e584f5fa1ea926041bedfe98" "table_entry 19 = 0x48a170391f7dc42444e8fa2"
  by (simp_all add: table_entry_def ratio_table_def)

lemma ratio_full_values:
  "ratio_full (Suc 0) = 340265354078544963557816517032075149313"
  "ratio_full 2 = 340231330945450418515964920540021147198"
  "ratio_full 3 = 340163294884840501567246455576441303173"
  "ratio_full 4 = 340027263576413978334042125129128142263"
  "ratio_full 5 = 339755364134575681238502878529008278326"
  "ratio_full 6 = 339212217342146842559531600927033253847"
  "ratio_full 7 = 338128527259088467778511436198880488164"
  "ratio_full 8 = 335971522311117552149334092109581418674"
  "ratio_full 9 = 331698704829854243503582989311158516586"
  "ratio_full 10 = 323315401242583425022802937239550140918"
  "ratio_full 11 = 307179074178916392659402722612948179612"
  "ratio_full 12 = 277282266700509388632609933215391170106"
  "ratio_full 13 = 225934749830749445986089663015556949343"
  "ratio_full 14 = 150004713758184102711002566140788444796"
  "ratio_full 15 = 66122407008436832627027740713496573148"
  "ratio_full 16 = 12848018414553970828728179856918040433"
  "ratio_full 17 = 485077512873820763967752669154895175"
  "ratio_full 18 = 691450548841240133896843047535567"
  "ratio_full 19 = 1404950724947776134837143967"
proof -
  show v1: "ratio_full (Suc 0) = 340265354078544963557816517032075149313"
    by (simp add: table_entry_values)
  show v2: "ratio_full 2 = 340231330945450418515964920540021147198"
    by (subst ratio_numeral(1)) (simp add: v1 table_entry_values del: ratio_full.simps)
  show v3: "ratio_full 3 = 340163294884840501567246455576441303173"
    by (subst ratio_numeral(1)) (simp add: v2 table_entry_values del: ratio_full.simps)
  show v4: "ratio_full 4 = 340027263576413978334042125129128142263"
    by (subst ratio_numeral(1)) (simp add: v3 table_entry_values del: ratio_full.simps)
  show v5: "ratio_full 5 = 339755364134575681238502878529008278326"
    by (subst ratio_numeral(1)) (simp add: v4 table_entry_values del: ratio_full.simps)
  show v6: "ratio_full 6 = 339212217342146842559531600927033253847"
    by (subst ratio_numeral(1)) (simp add: v5 table_entry_values del: ratio_full.simps)
  show v7: "ratio_full 7 = 338128527259088467778511436198880488164"
    by (subst ratio_numeral(1)) (simp add: v6 table_entry_values del: ratio_full.simps)
  show v8: "ratio_full 8 = 335971522311117552149334092109581418674"
    by (subst ratio_numeral(1)) (simp add: v7 table_entry_values del: ratio_full.simps)
  show v9: "ratio_full 9 = 331698704829854243503582989311158516586"
    by (subst ratio_numeral(1)) (simp add: v8 table_entry_values del: ratio_full.simps)
  show v10: "ratio_full 10 = 323315401242583425022802937239550140918"
    by (subst ratio_numeral(1)) (simp add: v9 table_entry_values del: ratio_full.simps)
  show v11: "ratio_full 11 = 307179074178916392659402722612948179612"
    by (subst ratio_numeral(1)) (simp add: v10 table_entry_values del: ratio_full.simps)
  show v12: "ratio_full 12 = 277282266700509388632609933215391170106"
    by (subst ratio_numeral(1)) (simp add: v11 table_entry_values del: ratio_full.simps)
  show v13: "ratio_full 13 = 225934749830749445986089663015556949343"
    by (subst ratio_numeral(1)) (simp add: v12 table_entry_values del: ratio_full.simps)
  show v14: "ratio_full 14 = 150004713758184102711002566140788444796"
    by (subst ratio_numeral(1)) (simp add: v13 table_entry_values del: ratio_full.simps)
  show v15: "ratio_full 15 = 66122407008436832627027740713496573148"
    by (subst ratio_numeral(1)) (simp add: v14 table_entry_values del: ratio_full.simps)
  show v16: "ratio_full 16 = 12848018414553970828728179856918040433"
    by (subst ratio_numeral(1)) (simp add: v15 table_entry_values del: ratio_full.simps)
  show v17: "ratio_full 17 = 485077512873820763967752669154895175"
    by (subst ratio_numeral(1)) (simp add: v16 table_entry_values del: ratio_full.simps)
  show v18: "ratio_full 18 = 691450548841240133896843047535567"
    by (subst ratio_numeral(1)) (simp add: v17 table_entry_values del: ratio_full.simps)
  show v19: "ratio_full 19 = 1404950724947776134837143967"
    by (subst ratio_numeral(1)) (simp add: v18 table_entry_values del: ratio_full.simps)
qed

lemma ratio_least_max: "ratio_least 20 887272 = 18447437462383981825"
  by (simp add: ratio_numeral(2) ratio_full_values table_entry_values del: ratio_full.simps)

lemma ratio_upto_numeral:
  "ratio_upto (numeral v) n =
     (if bit_set n (pred_numeral v) then ratio_upto (pred_numeral v) n * table_entry (pred_numeral v) div 2 ^ 128
      else ratio_upto (pred_numeral v) n)"
  using ratio_upto.simps(2) [of "pred_numeral v" n] by (simp only: numeral_eq_Suc [symmetric])

lemma abs_ratio_min_tick: "abs_ratio 887272 = 18447437462383981825"
  by (simp add: abs_ratio_eq ratio_upto_numeral bit_set_def table_entry_values)

lemma abs_ratio_range:
  assumes "n \<le> 887272"
  shows "18447437462383981825 \<le> abs_ratio n" "abs_ratio n \<le> 2 ^ 128"
  using ratio_least_bound [of 20 n 887272] ratio_least_max ratio_upto_le [of 20 n] assms
  by (simp_all add: abs_ratio_eq)

text \<open>The largest sqrt price of a tick, the constant the protocol calls \<open>MAX_SQRT_RATIO\<close>.\<close>

definition max_tick_sqrt :: nat where
  "max_tick_sqrt = 1461446703485210103287273052203988822378723970342"

lemma rounded_ratio_le: "x \<le> y \<Longrightarrow> x div 2 ^ 32 + x div 2 ^ 31 mod 2 \<le> Suc (y div 2 ^ 32)" for x y :: nat
  using div_le_mono [of x y "2 ^ 32"] mod_less_divisor [of 2 "x div 2 ^ 31"] by linarith

lemma sqrt_ratio_ok:
  assumes "MIN_TICK \<le> tick" "tick \<le> MAX_TICK"
  obtains r where "get_sqrt_ratio_at_tick tick = Ok r" "MIN_SQRT_RATIO \<le> r" "r \<le> max_tick_sqrt"
proof -
  let ?a = "abs_ratio (nat \<bar>tick\<bar>)"
  define x where "x = (if tick > 0 then (2 ^ 256 - 1) div ?a else ?a)"
  have a: "18447437462383981825 \<le> ?a" "?a \<le> 2 ^ 128"
    using assms by (intro abs_ratio_range; simp add: MIN_TICK_def MAX_TICK_def)+
  have "(2 ^ 256 - 1) div ?a \<le> (2 ^ 256 - 1) div 18447437462383981825"
    using a(1) by (intro div_le_mono2) simp_all
  then have "x \<le> (2 ^ 256 - 1) div 18447437462383981825"
    using a(2) by (auto simp: x_def)
  from rounded_ratio_le [OF this] have le: "x div 2 ^ 32 + x div 2 ^ 31 mod 2 \<le> max_tick_sqrt"
    by (simp add: max_tick_sqrt_def)
  have "max_tick_sqrt \<le> MAX_SQRT_RATIO" "MIN_SQRT_RATIO \<le> max_tick_sqrt"
    by (simp_all add: max_tick_sqrt_def MAX_SQRT_RATIO_def MIN_SQRT_RATIO_def)
  moreover have "get_sqrt_ratio_at_tick tick =
      (let result = x div 2 ^ 32 + x div 2 ^ 31 mod 2
       in if result > MAX_SQRT_RATIO then Err AbiDecode
          else if result < MIN_SQRT_RATIO then Ok MIN_SQRT_RATIO else Ok result)"
    using assms a(1) by (auto simp: get_sqrt_ratio_at_tick_def u256_div_def x_def)
  ultimately show thesis using le that by (fastforce simp: Let_def split: if_splits)
qed

text \<open>
  \<open>get_sqrt_ratio_at_tick\<close> answers exactly on the tick range: every tick from \<open>MIN_TICK\<close> to
  \<open>MAX_TICK\<close> has a sqrt price between \<open>MIN_SQRT_RATIO\<close> and the protocol's largest sqrt price
  \<open>1461446703485210103287273052203988822378723970342\<close>, and every other tick is an error; no call
  panics.  The constant \<open>MAX_SQRT_RATIO\<close> of the source is more than \<open>10 ^ 12\<close> times that bound, so
  its check never rejects anything.
\<close>

lemma sqrt_ratio_total:
  "(if MIN_TICK \<le> tick \<and> tick \<le> MAX_TICK
    then \<exists>r. get_sqrt_ratio_at_tick tick = Ok r \<and> MIN_SQRT_RATIO \<le> r \<and> r \<le> max_tick_sqrt
    else get_sqrt_ratio_at_tick tick = Err AbiDecode)
   \<and> 10 ^ 12 * max_tick_sqrt < MAX_SQRT_RATIO"
proof -
  have "10 ^ 12 * max_tick_sqrt < MAX_SQRT_RATIO"
    by (simp add: max_tick_sqrt_def MAX_SQRT_RATIO_def)
  moreover have "\<exists>r. get_sqrt_ratio_at_tick tick = Ok r \<and> MIN_SQRT_RATIO \<le> r \<and> r \<le> max_tick_sqrt"
    if "MIN_TICK \<le> tick" "tick \<le> MAX_TICK"
    using sqrt_ratio_ok [OF that] by metis
  ultimately show ?thesis by (auto simp: get_sqrt_ratio_at_tick_def)
qed

section \<open>The tick of a sqrt price\<close>

text \<open>
  The binary search keeps a bracket: the tick below \<open>lo\<close> is at most the price, the tick above \<open>hi\<close>
  is beyond it.  This needs no monotonicity of the table.
\<close>

lemma tick_search_brackets:
  assumes "\<And>t. A \<le> t \<Longrightarrow> t \<le> B \<Longrightarrow> \<exists>r. f t = Ok r"
    and "A \<le> lo" "hi \<le> B" "lo \<le> hi + 1"
    and "lo = A \<or> (\<exists>r. f (lo - 1) = Ok r \<and> r \<le> p)" "hi = B \<or> (\<exists>r. f (hi + 1) = Ok r \<and> p < r)"
  shows "\<exists>t. tick_search f p lo hi = Ok t \<and> A \<le> t + 1 \<and> t \<le> B
     \<and> (t = A - 1 \<or> (\<exists>r. f t = Ok r \<and> r \<le> p)) \<and> (t = B \<or> (\<exists>r. f (t + 1) = Ok r \<and> p < r))"
  using assms
proof (induction f p lo hi rule: tick_search.induct)
  case (1 f p lo hi)
  show ?case
  proof (cases "lo \<le> hi")
    case False
    then have "lo = hi + 1" "tick_search f p lo hi = Ok hi"
      using 1(6) by (simp_all add: tick_search.simps [of f p lo hi])
    with 1(3-8) show ?thesis by auto
  next
    case True
    define mid where "mid = lo + (hi - lo) div 2"
    have m: "lo \<le> mid" "mid \<le> hi" using True by (auto simp: mid_def)
    then obtain r where r: "f mid = Ok r" using 1(3) [of mid] 1(4,5) by force
    have *: "tick_search f p lo hi = (if r \<le> p then tick_search f p (mid + 1) hi else tick_search f p lo (mid - 1))"
      using True r by (simp add: tick_search.simps [of f p lo hi] mid_def)
    show ?thesis
    proof (cases "r \<le> p")
      case le: True
      have "\<exists>t. tick_search f p (mid + 1) hi = Ok t \<and> A \<le> t + 1 \<and> t \<le> B
         \<and> (t = A - 1 \<or> (\<exists>r. f t = Ok r \<and> r \<le> p)) \<and> (t = B \<or> (\<exists>r. f (t + 1) = Ok r \<and> p < r))"
        using 1(3-8) m r le by (intro 1(1) [OF True mid_def r le]) auto
      with * le show ?thesis by simp
    next
      case gt: False
      have "\<exists>t. tick_search f p lo (mid - 1) = Ok t \<and> A \<le> t + 1 \<and> t \<le> B
         \<and> (t = A - 1 \<or> (\<exists>r. f t = Ok r \<and> r \<le> p)) \<and> (t = B \<or> (\<exists>r. f (t + 1) = Ok r \<and> p < r))"
        using 1(3-8) m r gt by (intro 1(2) [OF True mid_def r gt]) auto
      with * gt show ?thesis by simp
    qed
  qed
qed

lemma sqrt_ratio_min_tick: "get_sqrt_ratio_at_tick MIN_TICK = Ok MIN_SQRT_RATIO"
proof -
  have "nat \<bar>MIN_TICK\<bar> = 887272" by (simp add: MIN_TICK_def)
  then show ?thesis
    using abs_ratio_min_tick
    by (simp add: get_sqrt_ratio_at_tick_def MIN_TICK_def MAX_TICK_def MIN_SQRT_RATIO_def MAX_SQRT_RATIO_def)
qed

text \<open>
  \<open>get_tick_at_sqrt_ratio\<close> inverts \<open>get_sqrt_ratio_at_tick\<close>: for every price it accepts, the
  binary search ends with a tick in range whose sqrt price is at most the price, and the next tick
  (unless it is the last) is beyond the price.
\<close>

lemma get_tick_brackets_price:
  assumes "MIN_SQRT_RATIO \<le> price" "price < MAX_SQRT_RATIO"
  shows "\<exists>t r. get_tick_at_sqrt_ratio price = Ok t \<and> MIN_TICK \<le> t \<and> t \<le> MAX_TICK
    \<and> get_sqrt_ratio_at_tick t = Ok r \<and> r \<le> price
    \<and> (t < MAX_TICK \<longrightarrow> (\<exists>r'. get_sqrt_ratio_at_tick (t + 1) = Ok r' \<and> price < r'))"
proof -
  have "\<exists>t. tick_search get_sqrt_ratio_at_tick price MIN_TICK MAX_TICK = Ok t \<and> MIN_TICK \<le> t + 1 \<and> t \<le> MAX_TICK
     \<and> (t = MIN_TICK - 1 \<or> (\<exists>r. get_sqrt_ratio_at_tick t = Ok r \<and> r \<le> price))
     \<and> (t = MAX_TICK \<or> (\<exists>r. get_sqrt_ratio_at_tick (t + 1) = Ok r \<and> price < r))"
    using sqrt_ratio_ok by (intro tick_search_brackets) (metis, auto simp: MIN_TICK_def MAX_TICK_def)
  then obtain t where t: "tick_search get_sqrt_ratio_at_tick price MIN_TICK MAX_TICK = Ok t"
    "MIN_TICK \<le> t + 1" "t \<le> MAX_TICK"
    "t = MIN_TICK - 1 \<or> (\<exists>r. get_sqrt_ratio_at_tick t = Ok r \<and> r \<le> price)"
    "t = MAX_TICK \<or> (\<exists>r. get_sqrt_ratio_at_tick (t + 1) = Ok r \<and> price < r)"
    by blast
  have "t \<noteq> MIN_TICK - 1"
    using t(5) assms(1) sqrt_ratio_min_tick by (auto simp: MIN_TICK_def MAX_TICK_def)
  with t assms show ?thesis by (auto simp: get_tick_at_sqrt_ratio_def)
qed

lemma get_tick_brackets_price_witness:
  "\<exists>t r. get_tick_at_sqrt_ratio (2 ^ 96) = Ok t \<and> MIN_TICK \<le> t \<and> t \<le> MAX_TICK
    \<and> get_sqrt_ratio_at_tick t = Ok r \<and> r \<le> 2 ^ 96
    \<and> (t < MAX_TICK \<longrightarrow> (\<exists>r'. get_sqrt_ratio_at_tick (t + 1) = Ok r' \<and> 2 ^ 96 < r'))"
  by (rule get_tick_brackets_price) (simp_all add: MIN_SQRT_RATIO_def MAX_SQRT_RATIO_def)

lemmas swap_step_defs = compute_swap_step_def get_amount0_delta_def get_amount1_delta_def u512_quotient_def
  less_fee_def fee_keep_def next_sqrt0_def next_sqrt1_def u512_def from_u512_def u256_div_def u256_mul_def as_u128_def
  FEE_PPM_def

section \<open>A swap step stays between the current and the target price\<close>

lemma u512_quotient_up_gap:
  assumes "u512_quotient True num den = Ok q" "n < q"
  shows "n * den < num"
proof -
  from assms(1) have d: "den \<noteq> 0" and q: "q = from_u512 ((num + den - 1) div den)"
    by (auto simp: u512_quotient_def u512_def u256_div_def as_u128_def outcome_simps split: if_splits)
  have "q \<le> (num + den - 1) div den" unfolding q from_u512_def by (rule mod_less_eq_dividend)
  with assms(2) have "Suc n \<le> (num + den - 1) div den" by simp
  with d have "Suc n * den \<le> num + den - 1" by (simp only: less_eq_div_iff_mult_less_eq neq0_conv)
  with d show ?thesis by simp
qed

lemma less_fee_le:
  assumes "less_fee oc rem fee = Ok amt" "fee \<le> FEE_PPM"
  shows "amt \<le> rem"
proof -
  have "rem * (FEE_PPM - fee) div FEE_PPM \<le> rem * FEE_PPM div FEE_PPM"
    by (intro div_le_mono mult_le_mono) simp_all
  with assms show ?thesis
    by (auto simp: less_fee_def fee_keep_def as_u128_def outcome_simps FEE_PPM_def split: if_splits)
qed

lemma next_sqrt0_between:
  assumes "next_sqrt0 cur liq amt True = Ok nx" "amt * (cur * tgt) \<le> liq * 2 ^ 96 * (cur - tgt)"
    and "tgt \<le> cur" "cur < 2 ^ 256"
  shows "tgt \<le> nx" "nx \<le> cur"
proof -
  define N where "N = liq * 2 ^ 96"
  have *: "tgt \<le> N * cur div (N + amt * cur)" "N * cur div (N + amt * cur) \<le> cur" if "N + amt * cur \<noteq> 0"
  proof -
    have "tgt * (N + amt * cur) = N * tgt + amt * (cur * tgt)" by (simp add: algebra_simps)
    also have "\<dots> \<le> N * tgt + N * (cur - tgt)" using assms(2) by (simp add: N_def)
    also have "\<dots> = N * cur" using assms(3) by (simp flip: distrib_left)
    finally show "tgt \<le> N * cur div (N + amt * cur)"
      using that by (simp add: less_eq_div_iff_mult_less_eq)
    have "N * cur \<le> cur * (N + amt * cur)" by (simp add: algebra_simps)
    then show "N * cur div (N + amt * cur) \<le> cur"
      by (metis div_le_mono nonzero_mult_div_cancel_right that)
  qed
  have "nx = cur \<or> N + amt * cur \<noteq> 0 \<and> nx = N * cur div (N + amt * cur) mod 2 ^ 256"
    using assms(1) by (auto simp: next_sqrt0_def u512_def u256_div_def from_u512_def N_def outcome_simps split: if_splits)
  with * assms(3,4) show "tgt \<le> nx" "nx \<le> cur" by (auto simp: order.strict_trans1)
qed

lemma next_sqrt1_between:
  assumes "next_sqrt1 cur liq amt True = Ok nx" "amt * 2 ^ 96 \<le> liq * (tgt - cur)"
    and "cur \<le> tgt" "tgt < 2 ^ 256"
  shows "cur \<le> nx" "nx \<le> tgt"
proof -
  from assms(1) have "liq \<noteq> 0" and nx: "nx = (cur + amt * 2 ^ 96 div liq) mod 2 ^ 256"
    by (auto simp: next_sqrt1_def u512_def u256_div_def from_u512_def outcome_simps split: if_splits)
  then have "amt * 2 ^ 96 div liq \<le> tgt - cur"
    using assms(2) by (metis div_le_mono nonzero_mult_div_cancel_left)
  with assms(3) have "cur + amt * 2 ^ 96 div liq \<le> tgt" by simp
  with assms(4) show "cur \<le> nx" "nx \<le> tgt" by (simp_all add: nx)
qed

lemma amount0_gap:
  assumes "get_amount0_delta tgt cur liq True = Ok ain" "tgt \<le> cur" "n < ain"
  shows "n * (cur * tgt) \<le> liq * 2 ^ 96 * (cur - tgt)"
  using assms u512_quotient_up_gap [of "liq * 2 ^ 96 * (cur - tgt)" "cur * tgt" ain n]
  by (auto simp: get_amount0_delta_def u512_def outcome_simps Let_def min_absorb1 max_absorb2 less_imp_le split: if_splits)

lemma amount1_gap:
  assumes "get_amount1_delta cur tgt liq True = Ok ain" "cur \<le> tgt" "n < ain"
  shows "n * 2 ^ 96 \<le> liq * (tgt - cur)"
  using assms u512_quotient_up_gap [of "liq * (tgt - cur)" "2 ^ 96" ain n]
  by (auto simp: get_amount1_delta_def u512_def outcome_simps Let_def min_absorb1 max_absorb2 less_imp_le split: if_splits)

text \<open>
  A swap step never overdraws or overshoots: for any liquidity and a fee of at most 100 percent,
  a step that returns consumes at most the remaining input, leaves the price between the current and
  the target price, and stops short of the target only when it has consumed all the input.
\<close>

lemma swap_step_within_range:
  assumes "compute_swap_step oc cur tgt liq rem fee = Ok r" "cur < 2 ^ 256" "tgt < 2 ^ 256" "fee \<le> FEE_PPM"
  shows "step_amount_in r \<le> rem \<and> min cur tgt \<le> sqrt_ratio_next r \<and> sqrt_ratio_next r \<le> max cur tgt
    \<and> (step_amount_in r < rem \<longrightarrow> sqrt_ratio_next r = tgt)"
proof (cases "tgt \<le> cur")
  case True
  from assms(1) True obtain ain where ain: "get_amount0_delta tgt cur liq True = Ok ain"
    and r: "rem \<ge> ain \<and> sqrt_ratio_next r = tgt \<and> step_amount_in r = ain \<or>
      rem < ain \<and> step_amount_in r = rem \<and> (\<exists>amt. less_fee oc rem fee = Ok amt \<and> next_sqrt0 cur liq amt True = Ok (sqrt_ratio_next r))"
    by (auto simp: compute_swap_step_def outcome_simps not_le split: if_splits)
  have "tgt \<le> nx \<and> nx \<le> cur" if "rem < ain" "less_fee oc rem fee = Ok amt" "next_sqrt0 cur liq amt True = Ok nx" for amt nx
  proof -
    have "amt * (cur * tgt) \<le> liq * 2 ^ 96 * (cur - tgt)"
      using less_fee_le [OF that(2) assms(4)] that(1) by (intro amount0_gap [OF ain True]) simp
    with next_sqrt0_between [OF that(3)] True assms(2) show ?thesis by blast
  qed
  with r True show ?thesis by auto
next
  case False
  from assms(1) False obtain ain where ain: "get_amount1_delta cur tgt liq True = Ok ain"
    and r: "rem \<ge> ain \<and> sqrt_ratio_next r = tgt \<and> step_amount_in r = ain \<or>
      rem < ain \<and> step_amount_in r = rem \<and> (\<exists>amt. less_fee oc rem fee = Ok amt \<and> next_sqrt1 cur liq amt True = Ok (sqrt_ratio_next r))"
    by (auto simp: compute_swap_step_def outcome_simps not_le split: if_splits)
  have "cur \<le> nx \<and> nx \<le> tgt" if "rem < ain" "less_fee oc rem fee = Ok amt" "next_sqrt1 cur liq amt True = Ok nx" for amt nx
  proof -
    have "amt * 2 ^ 96 \<le> liq * (tgt - cur)"
      using less_fee_le [OF that(2) assms(4)] that(1) False by (intro amount1_gap [OF ain]) simp_all
    with next_sqrt1_between [OF that(3)] False assms(3) show ?thesis by simp
  qed
  with r False show ?thesis by auto
qed

lemma swap_step_within_range_witness:
  "\<exists>r. compute_swap_step True (2 ^ 96) (2 ^ 95) 1000000 500000 3000 = Ok r \<and> step_amount_in r = 500000
     \<and> 2 ^ 95 \<le> sqrt_ratio_next r \<and> sqrt_ratio_next r \<le> 2 ^ 96"
proof -
  let ?r = "\<lparr>sqrt_ratio_next = 52871646656165724119815782673, step_amount_in = 500000, step_amount_out = 332665, fee_amount = 1504\<rparr>"
  have "compute_swap_step True (2 ^ 96) (2 ^ 95) 1000000 500000 3000 = Ok ?r"
    by (simp add: swap_step_defs)
  with swap_step_within_range [OF this] show ?thesis by (simp add: FEE_PPM_def)
qed

text \<open>
  A step that reaches its target price charges no fee: its input, output and next price are the
  same for every fee tier, and its input is exactly the fee-free amount of the price range.
\<close>

lemma full_step_ignores_fee:
  assumes "compute_swap_step oc cur tgt liq rem fee = Ok r" "step_amount_in r < rem"
    and "compute_swap_step oc cur tgt liq rem fee' = Ok r'"
  shows "step_amount_in r' = step_amount_in r \<and> step_amount_out r' = step_amount_out r
    \<and> sqrt_ratio_next r' = sqrt_ratio_next r
    \<and> (if tgt \<le> cur then get_amount0_delta tgt cur liq True else get_amount1_delta cur tgt liq True)
        = Ok (step_amount_in r)"
  using assms by (auto simp: compute_swap_step_def outcome_simps split: if_splits)

lemma full_step_ignores_fee_witness:
  "\<exists>r r'. compute_swap_step True (2 ^ 96) (2 ^ 95) 1000000 2000000 3000 = Ok r
     \<and> compute_swap_step True (2 ^ 96) (2 ^ 95) 1000000 2000000 10000 = Ok r' \<and> step_amount_in r < 2000000
     \<and> step_amount_in r' = step_amount_in r \<and> step_amount_out r' = step_amount_out r"
proof -
  let ?r = "\<lparr>sqrt_ratio_next = 2 ^ 95, step_amount_in = 1000000, step_amount_out = 500000, fee_amount = 1000000\<rparr>"
  have e: "compute_swap_step True (2 ^ 96) (2 ^ 95) 1000000 2000000 3000 = Ok ?r"
    "compute_swap_step True (2 ^ 96) (2 ^ 95) 1000000 2000000 10000 = Ok ?r"
    by (simp_all add: swap_step_defs)
  from full_step_ignores_fee [OF e(1) _ e(2)] e show ?thesis by simp
qed

end
