(* ===== verification/Router.thy ===== *)
theory Router
  imports V3_Math
begin

text \<open>
  \<open>pricing/router.rs\<close>: multi-hop routes over V2 and V3 pools.  The graph is a map from a token's
  address (tokens hash and compare by address) to its outgoing edges in insertion order; the
  depth-first search passes its path, pools and visited set instead of pushing and popping them.
\<close>

section \<open>Pools and routes\<close>

datatype pool_ref = V2 uniswap_v2_pair | V3 uniswap_v3_pool

primrec pool_address :: "pool_ref \<Rightarrow> string" where
  "pool_address (V2 p) = pair_address p"
| "pool_address (V3 p) = v3_address p"

primrec pool_token0 :: "pool_ref \<Rightarrow> token" where
  "pool_token0 (V2 p) = token0 p"
| "pool_token0 (V3 p) = v3_token0 p"

primrec pool_token1 :: "pool_ref \<Rightarrow> token" where
  "pool_token1 (V2 p) = token1 p"
| "pool_token1 (V3 p) = v3_token1 p"

primrec pool_amount_out :: "bool \<Rightarrow> pool_ref \<Rightarrow> nat \<Rightarrow> token \<Rightarrow> (pricing_error, nat) outcome" where
  "pool_amount_out oc (V2 p) a t = get_amount_out p a t"
| "pool_amount_out oc (V3 p) a t = bind_out (quote_swap oc p a t) (\<lambda>q. Ok (q_amount_out q))"

definition BASE_GAS_COST :: nat where "BASE_GAS_COST = 150000"
definition GAS_PER_HOP :: nat where "GAS_PER_HOP = 100000"
definition v3_base_gas :: nat where "v3_base_gas = 80000"
definition v3_gas_per_hop :: nat where "v3_gas_per_hop = 60000"

primrec gas_per_hop :: "pool_ref \<Rightarrow> nat" where
  "gas_per_hop (V2 p) = GAS_PER_HOP"
| "gas_per_hop (V3 p) = v3_gas_per_hop"

primrec is_v3 :: "pool_ref \<Rightarrow> bool" where
  "is_v3 (V2 p) = False"
| "is_v3 (V3 p) = True"

record route =
  r_pools :: "pool_ref list"
  r_path :: "token list"

definition num_hops :: "route \<Rightarrow> nat" where
  "num_hops r = length (r_pools r)"

text \<open>
  The loop over \<open>enumerate\<close>: pool \<open>i\<close> takes \<open>path[i]\<close> as its input token; a path that is too short is
  an index panic.
\<close>

fun output_along :: "bool \<Rightarrow> pool_ref list \<Rightarrow> token list \<Rightarrow> nat \<Rightarrow> (pricing_error, nat) outcome" where
  "output_along oc [] path a = Ok a"
| "output_along oc (p # ps) (t # path) a = bind_out (pool_amount_out oc p a t) (output_along oc ps path)"
| "output_along oc (p # ps) [] a = Panic"

definition get_output :: "bool \<Rightarrow> route \<Rightarrow> nat \<Rightarrow> (pricing_error, nat) outcome" where
  "get_output oc r amount_in = output_along oc (r_pools r) (r_path r) amount_in"

fun amounts_along :: "bool \<Rightarrow> pool_ref list \<Rightarrow> token list \<Rightarrow> nat \<Rightarrow> (pricing_error, nat list) outcome" where
  "amounts_along oc [] path a = Ok []"
| "amounts_along oc (p # ps) (t # path) a =
     bind_out (pool_amount_out oc p a t) (\<lambda>b. bind_out (amounts_along oc ps path b) (\<lambda>bs. Ok (b # bs)))"
| "amounts_along oc (p # ps) [] a = Panic"

definition get_intermediate_amounts :: "bool \<Rightarrow> route \<Rightarrow> nat \<Rightarrow> (pricing_error, nat list) outcome" where
  "get_intermediate_amounts oc r amount_in =
     bind_out (amounts_along oc (r_pools r) (r_path r) amount_in) (\<lambda>bs. Ok (amount_in # bs))"

definition route_estimate_gas :: "route \<Rightarrow> nat" where
  "route_estimate_gas r = min BASE_GAS_COST v3_base_gas + sum_list (map gas_per_hop (r_pools r))"

definition is_v3_route :: "route \<Rightarrow> bool" where
  "is_v3_route r = list_ex is_v3 (r_pools r)"

record route_comparison =
  rc_route :: route
  rc_gross_output :: nat
  rc_gas_estimate :: nat
  rc_gas_cost_eth :: nat
  rc_net_output :: nat

section \<open>The graph and the search\<close>

type_synonym pool_graph = "string \<rightharpoonup> (pool_ref \<times> token) list"

definition push_edge :: "token \<Rightarrow> pool_ref \<times> token \<Rightarrow> pool_graph \<Rightarrow> pool_graph" where
  "push_edge t e g = g(tok_address t \<mapsto> (case g (tok_address t) of None \<Rightarrow> [] | Some es \<Rightarrow> es) @ [e])"

definition build_graph :: "pool_ref list \<Rightarrow> pool_graph" where
  "build_graph pools =
     fold (\<lambda>p g. push_edge (pool_token1 p) (p, pool_token0 p) (push_edge (pool_token0 p) (p, pool_token1 p) g))
       pools Map.empty"

definition edges_of :: "pool_graph \<Rightarrow> token \<Rightarrow> (pool_ref \<times> token) list" where
  "edges_of g t = (case g (tok_address t) of Some es \<Rightarrow> es | None \<Rightarrow> [])"

function dfs :: "pool_graph \<Rightarrow> token \<Rightarrow> nat \<Rightarrow> token \<Rightarrow> token list \<Rightarrow> pool_ref list \<Rightarrow> string set \<Rightarrow> route list" where
  "dfs g target max_hops current path pools visited =
     (if token_eq current target
      then (if pools = [] then [] else [\<lparr>r_pools = pools, r_path = path\<rparr>])
      else if length pools \<ge> max_hops then []
      else concat (map (\<lambda>(pool, next).
             if tok_address next \<in> visited then []
             else dfs g target max_hops next (path @ [next]) (pools @ [pool]) (insert (tok_address next) visited))
             (edges_of g current)))"
  by pat_completeness auto
termination
  by (relation "measure (\<lambda>(g, target, max_hops, current, path, pools, visited). max_hops - length pools)") auto

declare dfs.simps [simp del]

definition find_all_routes :: "pool_ref list \<Rightarrow> token \<Rightarrow> token \<Rightarrow> nat \<Rightarrow> route list" where
  "find_all_routes pools token_in token_out max_hops =
     dfs (build_graph pools) token_out max_hops token_in [token_in] [] {tok_address token_in}"

section \<open>Comparison by net output\<close>

text \<open>Gas in wei converted to raw units of a token with the given decimals, without a price.\<close>

definition gas_in_token :: "bool \<Rightarrow> nat \<Rightarrow> nat \<Rightarrow> (pricing_error, nat) outcome" where
  "gas_in_token oc gas_wei scale =
     bind_out (u256_mul gas_wei scale) (\<lambda>x. bind_out (u256_div x (10 ^ 18)) as_u128)"

definition compare_route :: "bool \<Rightarrow> nat \<Rightarrow> nat \<Rightarrow> nat \<Rightarrow> route \<Rightarrow> (pricing_error, route_comparison list) outcome" where
  "compare_route oc amount_in gas_price_wei scale_out r =
     (case get_output oc r amount_in of
        Ok gross \<Rightarrow>
          bind_out (plain_u128 oc (route_estimate_gas r * gas_price_wei)) (\<lambda>gas_eth.
          bind_out (gas_in_token oc gas_eth scale_out) (\<lambda>gas_out.
            Ok [\<lparr>rc_route = r, rc_gross_output = gross, rc_gas_estimate = route_estimate_gas r,
                 rc_gas_cost_eth = gas_eth, rc_net_output = gross - gas_out\<rparr>]))
      | Err e \<Rightarrow> Ok []
      | Panic \<Rightarrow> Panic)"

fun compare_loop :: "bool \<Rightarrow> nat \<Rightarrow> nat \<Rightarrow> nat \<Rightarrow> route list \<Rightarrow> (pricing_error, route_comparison list) outcome" where
  "compare_loop oc a gp so [] = Ok []"
| "compare_loop oc a gp so (r # rs) =
     bind_out (compare_route oc a gp so r) (\<lambda>c. bind_out (compare_loop oc a gp so rs) (\<lambda>cs. Ok (c @ cs)))"

definition compare_routes ::
  "bool \<Rightarrow> pool_ref list \<Rightarrow> token \<Rightarrow> token \<Rightarrow> nat \<Rightarrow> nat \<Rightarrow> nat \<Rightarrow> (pricing_error, route_comparison list) outcome" where
  "compare_routes oc pools token_in token_out amount_in gas_price_gwei max_hops =
     bind_out (plain_u128 oc (gas_price_gwei * 1000000000)) (\<lambda>gas_price_wei.
     bind_out (plain_u128 oc (10 ^ tok_decimals token_out)) (\<lambda>scale_out.
       compare_loop oc amount_in gas_price_wei scale_out (find_all_routes pools token_in token_out max_hops)))"

text \<open>\<open>Iterator::max_by_key\<close> returns the last of the largest elements.\<close>

fun max_by_net :: "route_comparison list \<Rightarrow> route_comparison option" where
  "max_by_net [] = None"
| "max_by_net (c # cs) =
     (case max_by_net cs of
        None \<Rightarrow> Some c
      | Some d \<Rightarrow> if rc_net_output c > rc_net_output d then Some c else Some d)"

definition find_best_route ::
  "bool \<Rightarrow> pool_ref list \<Rightarrow> token \<Rightarrow> token \<Rightarrow> nat \<Rightarrow> nat \<Rightarrow> nat \<Rightarrow> (pricing_error, route \<times> nat) outcome" where
  "find_best_route oc pools token_in token_out amount_in gas_price_gwei max_hops =
     bind_out (compare_routes oc pools token_in token_out amount_in gas_price_gwei max_hops) (\<lambda>cs.
       case max_by_net cs of
         Some c \<Rightarrow> Ok (rc_route c, rc_net_output c)
       | None \<Rightarrow> Err NoRouteExists)"

section \<open>The search finds exactly the simple routes\<close>

text \<open>What an edge is, in terms of the pool list.\<close>

definition connects :: "pool_ref list \<Rightarrow> token \<Rightarrow> pool_ref \<Rightarrow> token \<Rightarrow> bool" where
  "connects pools a p b \<longleftrightarrow>
     p \<in> set pools \<and> (token_eq (pool_token0 p) a \<and> b = pool_token1 p \<or> token_eq (pool_token1 p) a \<and> b = pool_token0 p)"

fun linked :: "pool_ref list \<Rightarrow> token \<Rightarrow> pool_ref list \<Rightarrow> token list \<Rightarrow> bool" where
  "linked pools a [] [] \<longleftrightarrow> True"
| "linked pools a (p # ps) (b # bs) \<longleftrightarrow> connects pools a p b \<and> linked pools b ps bs"
| "linked pools a _ _ \<longleftrightarrow> False"

text \<open>
  A simple route: it starts at the input token, each pool trades the token before it for the
  token after it, no token repeats, and it ends at the output token after at most the given number of
  hops.
\<close>

definition simple_route :: "pool_ref list \<Rightarrow> token \<Rightarrow> token \<Rightarrow> nat \<Rightarrow> route \<Rightarrow> bool" where
  "simple_route pools token_in token_out max_hops r \<longleftrightarrow>
     (\<exists>ts. r_path r = token_in # ts \<and> linked pools token_in (r_pools r) ts \<and> ts \<noteq> []
        \<and> distinct (map tok_address (token_in # ts)) \<and> token_eq (last ts) token_out \<and> length ts \<le> max_hops)"

lemma edges_of_push:
  "edges_of (push_edge s e g) t = edges_of g t @ (if token_eq s t then [e] else [])"
  by (auto simp: edges_of_def push_edge_def token_eq_def split: option.splits)

lemma edges_of_build: "(p, b) \<in> set (edges_of (build_graph pools) a) \<longleftrightarrow> connects pools a p b"
proof -
  let ?f = "\<lambda>p g. push_edge (pool_token1 p) (p, pool_token0 p) (push_edge (pool_token0 p) (p, pool_token1 p) g)"
  have "(p, b) \<in> set (edges_of (fold ?f pools g) a) \<longleftrightarrow> connects pools a p b \<or> (p, b) \<in> set (edges_of g a)" for g
    by (induction pools arbitrary: g) (auto simp: edges_of_push connects_def)
  from this [of Map.empty] show ?thesis by (simp add: build_graph_def edges_of_def)
qed

fun route_walk :: "pool_graph \<Rightarrow> token \<Rightarrow> string set \<Rightarrow> token \<Rightarrow> (pool_ref \<times> token) list \<Rightarrow> bool" where
  "route_walk g target vis cur [] \<longleftrightarrow> token_eq cur target"
| "route_walk g target vis cur (h # hs) \<longleftrightarrow>
     \<not> token_eq cur target \<and> h \<in> set (edges_of g cur) \<and> tok_address (snd h) \<notin> vis
     \<and> route_walk g target (insert (tok_address (snd h)) vis) (snd h) hs"

lemma dfs_set:
  "length pools \<le> max_hops \<Longrightarrow>
   set (dfs g target max_hops cur path pools vis) =
     {\<lparr>r_pools = pools @ map fst hs, r_path = path @ map snd hs\<rparr> | hs.
        route_walk g target vis cur hs \<and> length pools + length hs \<le> max_hops \<and> pools @ map fst hs \<noteq> []}"
proof (induction g target max_hops cur path pools vis rule: dfs.induct)
  case (1 g target max_hops cur path pools vis)
  let ?R = "\<lambda>pools path hs. \<lparr>r_pools = pools @ map fst hs, r_path = path @ map snd hs\<rparr>"
  consider "token_eq cur target" | "\<not> token_eq cur target" "length pools = max_hops"
    | "\<not> token_eq cur target" "length pools < max_hops"
    using "1.prems" by linarith
  then show ?case
  proof cases
    case 1
    then have "route_walk g target vis cur hs \<longleftrightarrow> hs = []" for hs by (cases hs) auto
    with 1 "1.prems" show ?thesis by (auto simp: dfs.simps [of g])
  next
    case 2
    then have "\<not> (route_walk g target vis cur hs \<and> length pools + length hs \<le> max_hops)" for hs by (cases hs) auto
    with 2 show ?thesis by (auto simp: dfs.simps [of g])
  next
    case 3
    have IH: "set (dfs g target max_hops t (path @ [t]) (pools @ [p]) (insert (tok_address t) vis)) =
        {?R (pools @ [p]) (path @ [t]) hs | hs.
           route_walk g target (insert (tok_address t) vis) t hs \<and> length (pools @ [p]) + length hs \<le> max_hops}"
      if "(p, t) \<in> set (edges_of g cur)" "tok_address t \<notin> vis" for p t
      using "1.IH" [OF _ _ that(1) refl that(2)] 3 by simp
    have "set (dfs g target max_hops cur path pools vis) =
        (\<Union>e \<in> set (edges_of g cur). if tok_address (snd e) \<in> vis then {} else
           set (dfs g target max_hops (snd e) (path @ [snd e]) (pools @ [fst e]) (insert (tok_address (snd e)) vis)))"
      using 3 by (simp add: dfs.simps [of g target max_hops cur path pools vis] case_prod_beta if_distrib [of set] cong: if_cong)
    also have "\<dots> = (\<Union>e \<in> set (edges_of g cur). if tok_address (snd e) \<in> vis then {} else
           {?R pools path (e # hs) | hs.
             route_walk g target (insert (tok_address (snd e)) vis) (snd e) hs \<and> Suc (length pools + length hs) \<le> max_hops})"
      using IH by (intro SUP_cong refl) simp
    also have "\<dots> = {?R pools path hs | hs. route_walk g target vis cur hs \<and> length pools + length hs \<le> max_hops
        \<and> pools @ map fst hs \<noteq> []}" (is "?A = ?B")
    proof (intro set_eqI iffI)
      fix r
      assume "r \<in> ?A"
      then obtain e hs where "e \<in> set (edges_of g cur)" "tok_address (snd e) \<notin> vis" "r = ?R pools path (e # hs)"
        "route_walk g target (insert (tok_address (snd e)) vis) (snd e) hs" "Suc (length pools + length hs) \<le> max_hops"
        by (auto split: if_splits)
      with 3(1) show "r \<in> ?B" by (intro CollectI exI [of _ "e # hs"]) simp
    next
      fix r
      assume "r \<in> ?B"
      then obtain hs where hs: "r = ?R pools path hs" "route_walk g target vis cur hs" "length pools + length hs \<le> max_hops"
        by blast
      with 3(1) obtain h hs' where "hs = h # hs'" by (cases hs) auto
      with hs show "r \<in> ?A" by (intro UN_I [of h]) auto
    qed
    finally show ?thesis .
  qed
qed

lemma route_walk_iff:
  "route_walk (build_graph pools) target vis cur hs \<longleftrightarrow>
     linked pools cur (map fst hs) (map snd hs)
     \<and> distinct (map (tok_address \<circ> snd) hs) \<and> set (map (tok_address \<circ> snd) hs) \<inter> vis = {}
     \<and> token_eq (last (cur # map snd hs)) target
     \<and> (\<forall>t \<in> set (butlast (cur # map snd hs)). \<not> token_eq t target)"
proof (induction hs arbitrary: cur vis)
  case (Cons h hs)
  obtain p t where h: "h = (p, t)" by (cases h)
  show ?case
    unfolding h by (auto simp: Cons.IH edges_of_build)
qed simp

lemma linked_length: "linked pools a ps ts \<Longrightarrow> length ps = length ts"
  by (induction pools a ps ts rule: linked.induct) auto

lemma linked_hops:
  assumes "linked pools a ps ts"
  obtains hs where "ps = map fst hs" "ts = map snd hs"
  using linked_length [OF assms] by (metis map_fst_zip map_snd_zip)

lemma last_not_in_butlast:
  "distinct (map f xs) \<Longrightarrow> x \<in> set (butlast xs) \<Longrightarrow> f x \<noteq> f (last xs)"
  by (induction xs) (auto split: if_splits)

lemma find_all_routes_iff:
  assumes "\<not> token_eq token_in token_out"
  shows "r \<in> set (find_all_routes pools token_in token_out max_hops) \<longleftrightarrow>
    simple_route pools token_in token_out max_hops r"
proof -
  let ?walk = "route_walk (build_graph pools) token_out {tok_address token_in} token_in"
  have walk: "?walk hs \<longleftrightarrow> linked pools token_in (map fst hs) (map snd hs)
      \<and> distinct (map tok_address (token_in # map snd hs)) \<and> token_eq (last (token_in # map snd hs)) token_out" for hs
    unfolding route_walk_iff
    using last_not_in_butlast [of tok_address "token_in # map snd hs"]
    by (auto simp: token_eq_def)
  have "r \<in> set (find_all_routes pools token_in token_out max_hops) \<longleftrightarrow>
      (\<exists>hs. r = \<lparr>r_pools = map fst hs, r_path = token_in # map snd hs\<rparr> \<and> ?walk hs \<and> length hs \<le> max_hops \<and> hs \<noteq> [])"
    by (auto simp: find_all_routes_def dfs_set)
  also have "\<dots> \<longleftrightarrow> simple_route pools token_in token_out max_hops r"
  proof
    assume "\<exists>hs. r = \<lparr>r_pools = map fst hs, r_path = token_in # map snd hs\<rparr> \<and> ?walk hs \<and> length hs \<le> max_hops \<and> hs \<noteq> []"
    then obtain hs where "r = \<lparr>r_pools = map fst hs, r_path = token_in # map snd hs\<rparr>" "?walk hs"
      "length hs \<le> max_hops" "hs \<noteq> []" by blast
    then show "simple_route pools token_in token_out max_hops r"
      by (simp add: walk simple_route_def image_image)
  next
    assume "simple_route pools token_in token_out max_hops r"
    then obtain ts where ts: "r_path r = token_in # ts" "linked pools token_in (r_pools r) ts" "ts \<noteq> []"
      "distinct (map tok_address (token_in # ts))" "token_eq (last ts) token_out" "length ts \<le> max_hops"
      by (auto simp: simple_route_def)
    from ts(2) obtain hs where "r_pools r = map fst hs" "ts = map snd hs" by (rule linked_hops)
    with ts show "\<exists>hs. r = \<lparr>r_pools = map fst hs, r_path = token_in # map snd hs\<rparr> \<and> ?walk hs \<and> length hs \<le> max_hops \<and> hs \<noteq> []"
      by (intro exI [of _ hs]) (simp add: walk image_image)
  qed
  finally show ?thesis .
qed

definition sample_token :: "char \<Rightarrow> token" where
  "sample_token c = \<lparr>tok_address = [c], tok_symbol = [c], tok_decimals = 18\<rparr>"

definition sample_pool :: "char \<Rightarrow> char \<Rightarrow> pool_ref" where
  "sample_pool a b = V2 \<lparr>pair_address = [a, b], token0 = sample_token a, token1 = sample_token b,
     reserve0 = 10 ^ 21, reserve1 = 2 * 10 ^ 21, fee_bps = 30\<rparr>"

text \<open>
  Route finding is sound and complete.  Between two different tokens \<open>find_all_routes\<close> returns
  exactly the simple routes of at most \<open>max_hops\<close> hops: every returned route is one, and none is
  missed.
\<close>

lemma find_all_routes_exact:
  assumes "\<not> token_eq token_in token_out"
  shows "r \<in> set (find_all_routes pools token_in token_out max_hops) \<longleftrightarrow>
    simple_route pools token_in token_out max_hops r"
  by (rule find_all_routes_iff [OF assms])

lemma find_all_routes_exact_witness:
  "\<lparr>r_pools = [sample_pool CHR ''a'' CHR ''b'', sample_pool CHR ''b'' CHR ''c''],
     r_path = [sample_token CHR ''a'', sample_token CHR ''b'', sample_token CHR ''c'']\<rparr>
   \<in> set (find_all_routes [sample_pool CHR ''a'' CHR ''b'', sample_pool CHR ''b'' CHR ''c'']
       (sample_token CHR ''a'') (sample_token CHR ''c'') 3)"
  by (subst find_all_routes_exact)
    (simp_all add: simple_route_def connects_def sample_pool_def sample_token_def token_eq_def)

section \<open>The best route is the best\<close>

text \<open>The net output of a route when no 128-bit product overflows.\<close>

definition exact_net :: "nat \<Rightarrow> nat \<Rightarrow> nat \<Rightarrow> route \<Rightarrow> nat option" where
  "exact_net a gas_price_gwei decimals r =
     (case get_output True r a of
        Ok gross \<Rightarrow> Some (gross - route_estimate_gas r * (gas_price_gwei * 1000000000) * 10 ^ decimals div 10 ^ 18)
      | _ \<Rightarrow> None)"

lemma plain_u128_checked [outcome_simps]: "plain_u128 True x = Ok y \<longleftrightarrow> y = x \<and> x < 2 ^ 128"
  by (auto simp: plain_u128_def)

lemma compare_route_Ok:
  assumes "compare_route True a (gp * 1000000000) (10 ^ dec) r = Ok cs"
  shows "(\<lambda>c. (rc_route c, rc_net_output c)) ` set cs = {(r, n) | n. exact_net a gp dec r = Some n}"
  using assms
  by (cases "get_output True r a")
    (auto simp: compare_route_def exact_net_def gas_in_token_def u256_mul_def u256_div_def as_u128_def outcome_simps
       split: if_splits)

lemma compare_loop_Ok:
  "compare_loop True a (gp * 1000000000) (10 ^ dec) rs = Ok cs \<Longrightarrow>
   (\<lambda>c. (rc_route c, rc_net_output c)) ` set cs = {(r, n). r \<in> set rs \<and> exact_net a gp dec r = Some n}"
proof (induction rs arbitrary: cs)
  case (Cons r rs)
  then obtain c cs' where "compare_route True a (gp * 1000000000) (10 ^ dec) r = Ok c"
    "compare_loop True a (gp * 1000000000) (10 ^ dec) rs = Ok cs'" "cs = c @ cs'"
    by (auto simp: outcome_simps)
  with Cons.IH compare_route_Ok show ?case by (fastforce simp: image_Un)
qed simp

lemma max_by_net_correct:
  "case max_by_net cs of
     None \<Rightarrow> cs = []
   | Some c \<Rightarrow> c \<in> set cs \<and> (\<forall>d \<in> set cs. rc_net_output d \<le> rc_net_output c)"
  by (induction cs) (auto split: option.splits if_splits)

lemma compare_loop_no_Err: "compare_loop oc a gp so rs \<noteq> Err e"
proof (induction rs)
  case (Cons r rs)
  then show ?case
    by (cases "compare_loop oc a gp so rs"; cases "get_output oc r a")
      (auto simp: compare_route_def plain_u128_def gas_in_token_def u256_mul_def u256_div_def as_u128_def)
qed simp

text \<open>
  The best route is optimal.  With overflow checks on, if \<open>find_best_route\<close> answers, its route is
  a simple route with the stated net output and no simple route within the hop limit nets more; it
  reports \<open>NoRouteExists\<close> exactly when no simple route yields an output; and it gives no other error.
\<close>

lemma best_route_is_optimal:
  assumes "\<not> token_eq token_in token_out"
  shows "case find_best_route True pools token_in token_out a gp max_hops of
      Ok (r, n) \<Rightarrow> simple_route pools token_in token_out max_hops r \<and> exact_net a gp (tok_decimals token_out) r = Some n
        \<and> (\<forall>r' n'. simple_route pools token_in token_out max_hops r'
             \<and> exact_net a gp (tok_decimals token_out) r' = Some n' \<longrightarrow> n' \<le> n)
    | Err e \<Rightarrow> e = NoRouteExists
        \<and> (\<forall>r'. simple_route pools token_in token_out max_hops r' \<longrightarrow> exact_net a gp (tok_decimals token_out) r' = None)
    | Panic \<Rightarrow> True"
proof -
  let ?rs = "find_all_routes pools token_in token_out max_hops" and ?d = "tok_decimals token_out"
  have cmp: "compare_routes True pools token_in token_out a gp max_hops = Panic
      \<or> compare_routes True pools token_in token_out a gp max_hops = compare_loop True a (gp * 1000000000) (10 ^ ?d) ?rs"
    by (simp add: compare_routes_def plain_u128_def)
  show ?thesis
  proof (cases "compare_routes True pools token_in token_out a gp max_hops")
    case (Err e)
    with cmp compare_loop_no_Err show ?thesis by (metis outcome.distinct(5))
  next
    case Panic
    then show ?thesis by (simp add: find_best_route_def)
  next
    case (Ok cs)
    with cmp have "(\<lambda>c. (rc_route c, rc_net_output c)) ` set cs = {(r, n). r \<in> set ?rs \<and> exact_net a gp ?d r = Some n}"
      by (intro compare_loop_Ok) auto
    then have set: "(\<exists>c \<in> set cs. rc_route c = r \<and> rc_net_output c = n) \<longleftrightarrow>
        simple_route pools token_in token_out max_hops r \<and> exact_net a gp ?d r = Some n" for r n
      by (simp add: find_all_routes_iff [OF assms] set_eq_iff image_iff) metis
    show ?thesis
    proof (cases "max_by_net cs")
      case None
      with max_by_net_correct [of cs] have "cs = []" by simp
      with set have "\<not> (simple_route pools token_in token_out max_hops r \<and> exact_net a gp ?d r = Some n)" for r n
        by simp
      then have "simple_route pools token_in token_out max_hops r \<Longrightarrow> exact_net a gp ?d r = None" for r
        by (cases "exact_net a gp ?d r") auto
      with None Ok show ?thesis by (simp add: find_best_route_def)
    next
      case (Some c)
      with max_by_net_correct [of cs] have c: "c \<in> set cs" "\<forall>d \<in> set cs. rc_net_output d \<le> rc_net_output c" by simp_all
      have "n' \<le> rc_net_output c"
        if "simple_route pools token_in token_out max_hops r'" "exact_net a gp ?d r' = Some n'" for r' n'
        using set [of r' n'] that c(2) by auto
      with Some Ok c(1) set [of "rc_route c" "rc_net_output c"] show ?thesis
        by (auto simp: find_best_route_def)
    qed
  qed
qed

lemma best_route_is_optimal_witness:
  "\<exists>r n. find_best_route True [sample_pool CHR ''a'' CHR ''b''] (sample_token CHR ''a'') (sample_token CHR ''b'') (10 ^ 18) 0 2 = Ok (r, n)
     \<and> simple_route [sample_pool CHR ''a'' CHR ''b''] (sample_token CHR ''a'') (sample_token CHR ''b'') 2 r"
proof -
  let ?p = "sample_pool CHR ''a'' CHR ''b''" and ?a = "sample_token CHR ''a''" and ?b = "sample_token CHR ''b''"
  have ne: "\<not> token_eq ?a ?b" by (simp add: token_eq_def sample_token_def)
  have "find_all_routes [?p] ?a ?b 2 = [\<lparr>r_pools = [?p], r_path = [?a, ?b]\<rparr>]"
    by (simp add: find_all_routes_def dfs.simps build_graph_def push_edge_def edges_of_def sample_pool_def sample_token_def token_eq_def)
  then obtain r n where r: "find_best_route True [?p] ?a ?b (10 ^ 18) 0 2 = Ok (r, n)"
    by (simp add: find_best_route_def compare_routes_def plain_u128_def compare_route_def get_output_def sample_pool_def
        sample_token_def get_amount_out_def reserves_for_def token_eq_def u256_sub_def u256_mul_checked_def
        u256_add_checked_def u256_mul_def u256_div_def as_u128_def gas_in_token_def)
  with best_route_is_optimal [where max_hops = 2 and a = "10 ^ 18" and gp = 0, OF ne, of "[?p]"] show ?thesis by auto
qed

end
