(* ===== verification/Chain_Types.thy ===== *)
theory Chain_Types
  imports Signals Evm_Int "HOL-Library.Word"
begin

text \<open>
  The chain types of \<open>core/types.rs\<close> and \<open>chain/errors.rs\<close>: addresses, token amounts, transaction
  requests, receipts, gas prices.  An address is its 20 bytes (the source also keeps the checksummed
  spelling, which equality ignores).  \<open>U256\<close> and \<open>u64\<close> values are natural numbers; nonces are 64-bit
  words.  Parsing and printing of \<open>Decimal\<close> are the crate's: the parser is a parameter, and a value
  printed by the crate is taken as the value.
\<close>

section \<open>Printing\<close>

fun show_nat :: "nat \<Rightarrow> string" where
  "show_nat n = (if n < 10 then [char_of (48 + n)] else show_nat (n div 10) @ [char_of (48 + n mod 10)])"

declare show_nat.simps [simp del]

type_synonym bytes = "nat list"

definition hex_digit :: "nat \<Rightarrow> char" where
  "hex_digit n = (if n < 10 then char_of (48 + n) else char_of (87 + n))"

definition hex_encode :: "bytes \<Rightarrow> string" where
  "hex_encode bs = concat (map (\<lambda>b. [hex_digit (b div 16), hex_digit (b mod 16)]) bs)"

section \<open>Addresses\<close>

type_synonym address = bytes

definition addr_lower :: "address \<Rightarrow> string" where
  "addr_lower a = ''0x'' @ hex_encode a"

section \<open>Token amounts\<close>

record token_amount =
  ta_raw :: nat
  ta_decimals :: nat
  ta_symbol :: "string option"

definition ETH_DECIMALS :: nat where "ETH_DECIMALS = 18"

definition token_amount_eth :: "nat \<Rightarrow> token_amount" where
  "token_amount_eth raw = \<lparr>ta_raw = raw, ta_decimals = ETH_DECIMALS, ta_symbol = Some ''ETH''\<rparr>"

text \<open>\<open>10u128.saturating_pow\<close> and \<open>Decimal::from_u128\<close>, which has no value beyond 96 bits.\<close>

definition get_scale :: "nat \<Rightarrow> dec" where
  "get_scale decimals =
     (let p = min (10 ^ decimals) (2 ^ 128 - 1 :: nat) in if p < 2 ^ 96 then of_nat p else 1)"

text \<open>\<open>Decimal::from_str\<close> of a printed \<open>U256\<close>: an error beyond 96 bits.\<close>

definition human :: "dec_ops \<Rightarrow> token_amount \<Rightarrow> (core_error, dec) outcome" where
  "human D a =
     (if ta_raw a < 2 ^ 96 then Ok (ddiv D (of_nat (ta_raw a)) (get_scale (ta_decimals a)))
      else Err (MathError ''failed to convert raw amount to decimal''))"

definition from_human_dec :: "dec_ops \<Rightarrow> string \<Rightarrow> dec \<Rightarrow> nat \<Rightarrow> string option \<Rightarrow> (core_error, token_amount) outcome" where
  "from_human_dec D amount_string d decimals symbol =
     (if d < 0 then Err (InvalidTokenAmount ''negative amounts are not supported'')
      else let raw = dmul D d (get_scale decimals)
           in if raw \<noteq> of_int (floor raw)
              then Err (InvalidTokenAmount (''amount '' @ amount_string @ '' cannot be represented exactly with ''
                                            @ show_nat decimals @ '' decimals''))
              else Ok \<lparr>ta_raw = nat (floor raw), ta_decimals = decimals, ta_symbol = symbol\<rparr>)"

definition from_human :: "dec_ops \<Rightarrow> (string \<Rightarrow> dec option) \<Rightarrow> string \<Rightarrow> nat \<Rightarrow> string option \<Rightarrow> (core_error, token_amount) outcome" where
  "from_human D parse amount decimals symbol =
     (case parse amount of
        None \<Rightarrow> Err (InvalidTokenAmount amount)
      | Some d \<Rightarrow> from_human_dec D amount d decimals symbol)"

definition token_checked_add :: "token_amount \<Rightarrow> token_amount \<Rightarrow> (core_error, token_amount) outcome" where
  "token_checked_add a b =
     (if ta_decimals a \<noteq> ta_decimals b then Err (TokenDecimalsMismatch (ta_decimals a) (ta_decimals b))
      else bind_out (u256_add (ta_raw a) (ta_raw b)) (\<lambda>r.
        Ok \<lparr>ta_raw = r, ta_decimals = ta_decimals a,
            ta_symbol = (case ta_symbol a of Some s \<Rightarrow> Some s | None \<Rightarrow> ta_symbol b)\<rparr>))"

text \<open>The operator \<open>+\<close>: an error of \<open>checked_add\<close> panics.\<close>

definition token_add :: "token_amount \<Rightarrow> token_amount \<Rightarrow> (core_error, token_amount) outcome" where
  "token_add a b = (case token_checked_add a b of Ok c \<Rightarrow> Ok c | _ \<Rightarrow> Panic)"

definition checked_mul_decimal ::
  "dec_ops \<Rightarrow> (dec \<Rightarrow> string) \<Rightarrow> token_amount \<Rightarrow> dec \<Rightarrow> (core_error, token_amount) outcome" where
  "checked_mul_decimal D print a factor =
     (if factor < 0 then Err (InvalidTokenAmount ''negative factor is not supported'')
      else bind_out (human D a) (\<lambda>h.
        let p = dmul D h factor in from_human_dec D (print p) p (ta_decimals a) (ta_symbol a)))"

definition checked_mul_int :: "token_amount \<Rightarrow> nat \<Rightarrow> (core_error, token_amount) outcome" where
  "checked_mul_int a factor = bind_out (u256_mul (ta_raw a) factor) (\<lambda>r. Ok (a\<lparr>ta_raw := r\<rparr>))"

section \<open>Gas prices\<close>

datatype gas_priority = LowPriority | MediumPriority | HighPriority

definition gas_priority_from_str :: "string \<Rightarrow> string + gas_priority" where
  "gas_priority_from_str s =
     (let l = lower s
      in if l = ''low'' then Inr LowPriority else if l = ''high'' then Inr HighPriority
         else if l = ''medium'' then Inr MediumPriority
         else Inl (''invalid gas priority: '' @ l @ ''; expected low, medium, or high''))"

record gas_price =
  base_fee :: nat
  priority_fee_low :: nat
  priority_fee_medium :: nat
  priority_fee_high :: nat

definition MIN_GAS_LIMIT :: nat where "MIN_GAS_LIMIT = 21000"
definition DEFAULT_GAS_BUFFER_BPS :: nat where "DEFAULT_GAS_BUFFER_BPS = 12000"
definition MIN_GAS_BUFFER_BPS :: nat where "MIN_GAS_BUFFER_BPS = 10000"
definition GAS_BPS_SCALE :: nat where "GAS_BPS_SCALE = 10000"
definition U256_MAX :: nat where "U256_MAX = 2 ^ 256 - 1"
definition MAINNET_CHAIN_ID :: nat where "MAINNET_CHAIN_ID = 1"

definition priority_fee :: "gas_price \<Rightarrow> gas_priority \<Rightarrow> nat" where
  "priority_fee g p =
     (case p of LowPriority \<Rightarrow> priority_fee_low g | HighPriority \<Rightarrow> priority_fee_high g
      | MediumPriority \<Rightarrow> priority_fee_medium g)"

definition u256_or_max :: "nat \<Rightarrow> nat" where
  "u256_or_max n = (if n < 2 ^ 256 then n else U256_MAX)"

definition get_max_fee :: "gas_price \<Rightarrow> gas_priority \<Rightarrow> nat \<Rightarrow> nat" where
  "get_max_fee g p buffer_bps =
     (let effective = (if buffer_bps \<ge> MIN_GAS_BUFFER_BPS then buffer_bps else DEFAULT_GAS_BUFFER_BPS);
          numerator = u256_or_max (base_fee g * effective);
          shifted = numerator + (GAS_BPS_SCALE - 1);
          buffered = (if shifted < 2 ^ 256 then shifted div GAS_BPS_SCALE else U256_MAX)
      in u256_or_max (buffered + priority_fee g p))"

section \<open>Transaction requests\<close>

type_synonym nonce = "64 word"

record transaction_request =
  tr_to :: address
  tr_value :: token_amount
  tr_data :: bytes
  tr_nonce :: "nonce option"
  tr_gas_limit :: "nat option"
  tr_max_fee_per_gas :: "nat option"
  tr_max_priority_fee :: "nat option"
  tr_chain_id :: nat

definition contract_call :: "address \<Rightarrow> bytes \<Rightarrow> nat \<Rightarrow> transaction_request" where
  "contract_call to data chain_id =
     \<lparr>tr_to = to, tr_value = token_amount_eth 0, tr_data = data, tr_nonce = None, tr_gas_limit = None,
      tr_max_fee_per_gas = None, tr_max_priority_fee = None, tr_chain_id = chain_id\<rparr>"

text \<open>
  The typed transaction handed to the signer: EIP-1559 when a fee field is set, else legacy.
\<close>

datatype typed_tx =
    Eip1559 (ty_to: address) (ty_value: nat) (ty_data: bytes) (ty_chain_id: nat) (ty_nonce: "nonce option")
      (ty_gas: "nat option") (ty_max_fee: "nat option") (ty_priority: "nat option")
  | LegacyTx (ty_to: address) (ty_value: nat) (ty_data: bytes) (ty_chain_id: nat) (ty_nonce: "nonce option")
      (ty_gas: "nat option")

definition to_ethers_request :: "transaction_request \<Rightarrow> typed_tx" where
  "to_ethers_request t =
     LegacyTx (tr_to t) (ta_raw (tr_value t)) (tr_data t) (tr_chain_id t) (tr_nonce t) (tr_gas_limit t)"

definition to_ethers_typed :: "transaction_request \<Rightarrow> typed_tx" where
  "to_ethers_typed t =
     (if tr_max_fee_per_gas t \<noteq> None \<or> tr_max_priority_fee t \<noteq> None
      then Eip1559 (tr_to t) (ta_raw (tr_value t)) (tr_data t) (tr_chain_id t) (tr_nonce t) (tr_gas_limit t)
             (tr_max_fee_per_gas t) (tr_max_priority_fee t)
      else to_ethers_request t)"

definition validate_request :: "transaction_request \<Rightarrow> (core_error, unit) outcome" where
  "validate_request t =
     (if tr_chain_id t = 0 then Err (InvalidTransactionRequest ''chain_id must be non-zero'')
      else if (case tr_gas_limit t of Some gas \<Rightarrow> gas < MIN_GAS_LIMIT | None \<Rightarrow> False)
      then Err (InvalidTransactionRequest
             (''gas_limit '' @ show_nat (the (tr_gas_limit t)) @ '' is too low; minimum is '' @ show_nat MIN_GAS_LIMIT))
      else if (case (tr_max_fee_per_gas t, tr_max_priority_fee t) of
                 (Some fee, Some priority) \<Rightarrow> priority > fee | _ \<Rightarrow> False)
      then Err (InvalidTransactionRequest ''maxPriorityFeePerGas cannot exceed maxFeePerGas'')
      else Ok ())"

section \<open>Receipts\<close>

text \<open>A log entry as JSON, as far as it is read: the fields \<open>address\<close>, \<open>topics\<close> and \<open>data\<close>.\<close>

record log_entry =
  log_address :: "string option"
  log_topics :: "string option list option"
  log_data :: "string option"

record transaction_receipt =
  rc_tx_hash :: string
  rc_block_number :: nat
  rc_status :: bool
  rc_gas_used :: nat
  rc_effective_gas_price :: nat
  rc_logs :: "log_entry list"

definition tx_fee :: "transaction_receipt \<Rightarrow> (core_error, token_amount) outcome" where
  "tx_fee r = bind_out (u256_mul (rc_gas_used r) (rc_effective_gas_price r)) (\<lambda>x. Ok (token_amount_eth x))"

text \<open>The receipt type of \<open>ethers\<close>; a log that cannot be serialised is \<open>None\<close>.\<close>

record ethers_receipt =
  er_transaction_hash :: bytes
  er_block_number :: "nat option"
  er_status :: "nat option"
  er_gas_used :: "nat option"
  er_effective_gas_price :: "nat option"
  er_logs :: "log_entry option list"

definition from_ethers :: "ethers_receipt \<Rightarrow> (core_error, transaction_receipt) outcome" where
  "from_ethers r =
     (if None \<in> set (er_logs r) then Err (InvalidReceipt ''failed to serialize receipt log entry'')
      else case er_block_number r of
             None \<Rightarrow> Err (InvalidReceipt ''missing block number'')
           | Some block \<Rightarrow>
               (case er_gas_used r of
                  None \<Rightarrow> Err (InvalidReceipt ''missing gas used'')
                | Some gas \<Rightarrow>
                    (case er_effective_gas_price r of
                       None \<Rightarrow> Err (InvalidReceipt ''missing effective gas price'')
                     | Some price \<Rightarrow>
                         Ok \<lparr>rc_tx_hash = ''0x'' @ hex_encode (er_transaction_hash r), rc_block_number = block,
                             rc_status = (er_status r = Some 1), rc_gas_used = gas,
                             rc_effective_gas_price = price, rc_logs = map the (er_logs r)\<rparr>)))"

section \<open>Chain errors\<close>

datatype chain_error =
    Rpc string
  | TransactionFailed string transaction_receipt
  | ChainInsufficientFunds
  | NonceTooLow
  | ReplacementUnderpriced
  | ChainTimeout
  | InvalidTransactionHash
  | InvalidReceiptData
  | RuntimeInit
  | InvalidWalletAddress
  | SignTransactionFailed string
  | MissingDestinationAddress
  | MissingTransactionValue
  | OtherChainError string

primrec chain_error_str :: "chain_error \<Rightarrow> string" where
  "chain_error_str (Rpc e) = ''rpc error: '' @ e"
| "chain_error_str (TransactionFailed h r) = ''transaction reverted: '' @ h"
| "chain_error_str ChainInsufficientFunds = ''insufficient funds''"
| "chain_error_str NonceTooLow = ''nonce too low''"
| "chain_error_str ReplacementUnderpriced = ''replacement transaction underpriced''"
| "chain_error_str ChainTimeout = ''network timeout''"
| "chain_error_str InvalidTransactionHash = ''invalid transaction hash''"
| "chain_error_str InvalidReceiptData = ''invalid transaction receipt data''"
| "chain_error_str RuntimeInit = ''failed to initialize runtime''"
| "chain_error_str InvalidWalletAddress = ''invalid wallet address''"
| "chain_error_str (SignTransactionFailed e) = ''failed to sign transaction: '' @ e"
| "chain_error_str MissingDestinationAddress = ''missing destination address''"
| "chain_error_str MissingTransactionValue = ''missing transaction value''"
| "chain_error_str (OtherChainError e) = ''other chain error: '' @ e"

definition is_infix :: "string \<Rightarrow> string \<Rightarrow> bool" where
  "is_infix pat s \<longleftrightarrow> (\<exists>i \<in> {..length s}. take (length pat) (drop i s) = pat)"

definition classify_rpc_error :: "string \<Rightarrow> chain_error" where
  "classify_rpc_error msg =
     (let l = lower msg
      in if is_infix ''insufficient funds'' l \<or> is_infix ''insufficient balance'' l then ChainInsufficientFunds
         else if is_infix ''nonce too low'' l \<or> is_infix ''nonce has already been used'' l then NonceTooLow
         else if is_infix ''replacement transaction underpriced'' l \<or> is_infix ''already known'' l
                 \<or> is_infix ''replacement fee too low'' l then ReplacementUnderpriced
         else if is_infix ''timeout'' l \<or> is_infix ''timed out'' l \<or> is_infix ''deadline'' l then ChainTimeout
         else Rpc msg)"

section \<open>Amounts and fees\<close>

lemma get_scale_exact: "d \<le> 28 \<Longrightarrow> get_scale d = 10 ^ d"
proof -
  assume "d \<le> 28"
  then have "(10 :: nat) ^ d \<le> 10 ^ 28" by (rule power_increasing) simp
  then show ?thesis by (simp add: get_scale_def Let_def min_def)
qed

text \<open>Beyond 28 decimals the scale falls back to one: such an amount is read unscaled.\<close>

lemma get_scale_large: "28 < d \<Longrightarrow> get_scale d = 1"
proof -
  assume "28 < d"
  then have "(10 :: nat) ^ 29 \<le> 10 ^ d" by (intro power_increasing) simp_all
  moreover have "(2 :: nat) ^ 96 \<le> 10 ^ 29" by simp
  ultimately have "2 ^ 96 \<le> (10 :: nat) ^ d" by linarith
  then show ?thesis by (simp add: get_scale_def Let_def min_def)
qed

text \<open>
  The human-readable form of an amount loses nothing.  For up to 28 decimals and a raw value within
  96 bits, \<open>human\<close> returns the raw value divided by the power of ten, and \<open>from_human\<close> of that
  decimal is the amount again.
\<close>

lemma amount_human_roundtrip:
  assumes "decimal_arith D" "ta_raw a < 2 ^ 96" "ta_decimals a \<le> 28"
  shows "human D a = Ok (of_nat (ta_raw a) / 10 ^ ta_decimals a)
    \<and> from_human_dec D s (of_nat (ta_raw a) / 10 ^ ta_decimals a) (ta_decimals a) (ta_symbol a) = Ok a"
proof -
  let ?r = "of_nat (ta_raw a) :: rat" and ?s = "10 ^ ta_decimals a :: rat"
  have dec: "is_dec (of_int m / 10 ^ e)" if "\<bar>m\<bar> < 2 ^ 96" "e \<le> 28" for m :: int and e
    unfolding is_dec_iff using that by blast
  have r: "is_dec ?r" "is_dec (?r / ?s)"
    using dec [of "int (ta_raw a)" 0] dec [of "int (ta_raw a)" "ta_decimals a"] assms(2,3) by simp_all
  have "(10 :: int) ^ ta_decimals a \<le> 10 ^ 28" using assms(3) by (intro power_increasing) simp_all
  then have s: "is_dec ?s" using is_dec_of_int [of "10 ^ ta_decimals a"] by simp
  have "ddiv D ?r ?s = ?r / ?s" using decimal_arith.div_exact [OF assms(1) r(1) s _ r(2)] by simp
  moreover have "dmul D (?r / ?s) ?s = ?r" using decimal_arith.mul_exact [OF assms(1) r(2) s] r(1) by simp
  ultimately show ?thesis
    using assms(2) by (simp add: human_def from_human_dec_def get_scale_exact [OF assms(3)] not_less)
qed

lemma amount_human_roundtrip_witness:
  "human rounding_ops (token_amount_eth 1500000000000000000) = Ok (3 / 2)
   \<and> from_human_dec rounding_ops ''1.5'' (3 / 2) 18 (Some ''ETH'') = Ok (token_amount_eth 1500000000000000000)"
  using amount_human_roundtrip [of rounding_ops "token_amount_eth 1500000000000000000" "''1.5''"]
    rounding_ops.decimal_arith_axioms
  by (simp add: token_amount_eth_def ETH_DECIMALS_def)

lemma get_max_fee_covers:
  assumes "base_fee g < 2 ^ 256" "priority_fee g p < 2 ^ 256"
  shows "priority_fee g p \<le> get_max_fee g p b" "base_fee g \<le> get_max_fee g p b" "get_max_fee g p b < 2 ^ 256"
proof -
  define e where "e = (if b \<ge> MIN_GAS_BUFFER_BPS then b else DEFAULT_GAS_BUFFER_BPS)"
  have e: "e \<ge> 10000" by (simp add: e_def MIN_GAS_BUFFER_BPS_def DEFAULT_GAS_BUFFER_BPS_def)
  define buffered where "buffered =
    (let shifted = u256_or_max (base_fee g * e) + (GAS_BPS_SCALE - 1)
     in if shifted < 2 ^ 256 then shifted div GAS_BPS_SCALE else U256_MAX)"
  have fee: "get_max_fee g p b = u256_or_max (buffered + priority_fee g p)"
    by (simp add: get_max_fee_def e_def buffered_def Let_def)
  have "base_fee g \<le> buffered"
  proof (cases "u256_or_max (base_fee g * e) + (GAS_BPS_SCALE - 1) < 2 ^ 256")
    case True
    then have "u256_or_max (base_fee g * e) = base_fee g * e"
      by (auto simp: u256_or_max_def U256_MAX_def GAS_BPS_SCALE_def split: if_splits)
    moreover have "base_fee g * 10000 \<le> base_fee g * e" using e by simp
    ultimately have "base_fee g * 10000 \<le> u256_or_max (base_fee g * e) + (GAS_BPS_SCALE - 1)" by linarith
    then have "base_fee g \<le> (u256_or_max (base_fee g * e) + (GAS_BPS_SCALE - 1)) div GAS_BPS_SCALE"
      by (simp add: GAS_BPS_SCALE_def less_eq_div_iff_mult_less_eq)
    with True show ?thesis by (simp add: buffered_def Let_def)
  qed (use assms(1) in \<open>simp add: buffered_def Let_def U256_MAX_def\<close>)
  then show "priority_fee g p \<le> get_max_fee g p b" "base_fee g \<le> get_max_fee g p b" "get_max_fee g p b < 2 ^ 256"
    using assms by (auto simp: fee u256_or_max_def U256_MAX_def)
qed

end
