(* ===== verification/Arbitrage.thy ===== *)
theory Arbitrage
  imports Router Chain_Types
begin

text \<open>
  \<open>pricing/mempool.rs\<close> and \<open>pricing/arb.rs\<close>: pending swaps parsed from transactions, and the
  arbitrage opportunities they trigger.  ABI decoding is the \<open>ethers\<close> crate's: a parameter that maps
  parameter types and a payload to values.  The subscription to the node is not modelled.
\<close>

section \<open>Pending swaps\<close>

datatype param_type = PUint | PAddress | PAddressArray | PUintArray
datatype abi_value = VUint nat | VAddress string | VArray "abi_value list" | VBytes bytes | VTuple "abi_value list"

type_synonym abi_decoder = "param_type list \<Rightarrow> bytes \<Rightarrow> abi_value list option"

primrec into_uint :: "abi_value \<Rightarrow> nat option" where
  "into_uint (VUint n) = Some n"
| "into_uint (VAddress a) = None"
| "into_uint (VArray vs) = None"
| "into_uint (VBytes b) = None"
| "into_uint (VTuple vs) = None"

primrec into_address :: "abi_value \<Rightarrow> string option" where
  "into_address (VUint n) = None"
| "into_address (VAddress a) = Some a"
| "into_address (VArray vs) = None"
| "into_address (VBytes b) = None"
| "into_address (VTuple vs) = None"

primrec into_array :: "abi_value \<Rightarrow> abi_value list option" where
  "into_array (VUint n) = None"
| "into_array (VAddress a) = None"
| "into_array (VArray vs) = Some vs"
| "into_array (VBytes b) = None"
| "into_array (VTuple vs) = None"

record pending_tx =
  tx_input :: bytes
  tx_to :: "string option"
  tx_from :: string
  tx_hash_hex :: string
  tx_value :: nat
  tx_gas_price :: "nat option"

record parsed_swap =
  sw_tx_hash :: string
  sw_router :: string
  sw_dex :: string
  sw_method :: string
  sw_token_in :: "string option"
  sw_token_out :: "string option"
  sw_amount_in :: nat
  sw_min_amount_out :: nat
  sw_deadline :: nat
  sw_sender :: string
  sw_gas_price :: nat

definition SELECTOR_LEN :: nat where "SELECTOR_LEN = 4"

definition SWAP_SELECTORS :: "(string \<times> string \<times> string) list" where
  "SWAP_SELECTORS =
    [(''0x38ed1739'', ''UniswapV2'', ''swapExactTokensForTokens''),
     (''0x7ff36ab5'', ''UniswapV2'', ''swapExactETHForTokens''),
     (''0x18cbafe5'', ''UniswapV2'', ''swapExactTokensForETH''),
     (''0x5ae401dc'', ''UniswapV3'', ''multicall'')]"

record swap_context =
  sc_tx_hash :: string
  sc_router :: string
  sc_dex :: string
  sc_method :: string
  sc_sender :: string
  sc_gas_price :: nat

definition build_parsed_swap :: "swap_context \<Rightarrow> string option \<Rightarrow> string option \<Rightarrow> nat \<Rightarrow> nat \<Rightarrow> nat \<Rightarrow> parsed_swap" where
  "build_parsed_swap c tin tout a m d =
     \<lparr>sw_tx_hash = sc_tx_hash c, sw_router = sc_router c, sw_dex = sc_dex c, sw_method = sc_method c,
      sw_token_in = tin, sw_token_out = tout, sw_amount_in = a, sw_min_amount_out = m, sw_deadline = d,
      sw_sender = sc_sender c, sw_gas_price = sc_gas_price c\<rparr>"

definition first_address :: "abi_value list \<Rightarrow> string option" where
  "first_address vs = (case vs of [] \<Rightarrow> None | v # _ \<Rightarrow> into_address v)"

definition last_address :: "abi_value list \<Rightarrow> string option" where
  "last_address vs = (if vs = [] then None else into_address (last vs))"

definition nth_value :: "abi_value list \<Rightarrow> nat \<Rightarrow> abi_value option" where
  "nth_value vs i = (if i < length vs then Some (vs ! i) else None)"

text \<open>
  \<open>tokens[i]\<close> beyond the decoded values would be an index panic; the decoder returns one value per
  type, so the model may answer \<open>None\<close> there.
\<close>

definition decode_v2_tokens_for_tokens :: "abi_decoder \<Rightarrow> bytes \<Rightarrow> swap_context \<Rightarrow> parsed_swap option" where
  "decode_v2_tokens_for_tokens abi payload c =
     Option.bind (abi [PUint, PUint, PAddressArray, PAddress, PUint] payload) (\<lambda>vs.
     Option.bind (Option.bind (nth_value vs 0) into_uint) (\<lambda>amount_in.
     Option.bind (Option.bind (nth_value vs 1) into_uint) (\<lambda>min_out.
     Option.bind (Option.bind (nth_value vs 2) into_array) (\<lambda>path.
     Option.bind (Option.bind (nth_value vs 4) into_uint) (\<lambda>deadline.
       Some (build_parsed_swap c (first_address path) (last_address path) amount_in min_out deadline))))))"

definition decode_v2_eth_for_tokens :: "abi_decoder \<Rightarrow> nat \<Rightarrow> bytes \<Rightarrow> swap_context \<Rightarrow> parsed_swap option" where
  "decode_v2_eth_for_tokens abi value payload c =
     Option.bind (abi [PUint, PAddressArray, PAddress, PUint] payload) (\<lambda>vs.
     Option.bind (Option.bind (nth_value vs 0) into_uint) (\<lambda>min_out.
     Option.bind (Option.bind (nth_value vs 1) into_array) (\<lambda>path.
     Option.bind (Option.bind (nth_value vs 3) into_uint) (\<lambda>deadline.
       Some (build_parsed_swap c (first_address path) (last_address path) value min_out deadline)))))"

definition decode_v2_tokens_for_eth :: "abi_decoder \<Rightarrow> bytes \<Rightarrow> swap_context \<Rightarrow> parsed_swap option" where
  "decode_v2_tokens_for_eth abi payload c =
     Option.bind (abi [PUint, PUint, PAddressArray, PAddress, PUint] payload) (\<lambda>vs.
     Option.bind (Option.bind (nth_value vs 0) into_uint) (\<lambda>amount_in.
     Option.bind (Option.bind (nth_value vs 1) into_uint) (\<lambda>min_out.
     Option.bind (Option.bind (nth_value vs 2) into_array) (\<lambda>path.
     Option.bind (Option.bind (nth_value vs 4) into_uint) (\<lambda>deadline.
       Some (build_parsed_swap c (first_address path) (last_address path) amount_in min_out deadline))))))"

definition parse_transaction :: "abi_decoder \<Rightarrow> pending_tx \<Rightarrow> parsed_swap option" where
  "parse_transaction abi tx =
     (let data = tx_input tx
      in if length data < SELECTOR_LEN then None
         else case find (\<lambda>(s, d, m). s = ''0x'' @ hex_encode (take SELECTOR_LEN data)) SWAP_SELECTORS of
                None \<Rightarrow> None
              | Some (s, dex, meth) \<Rightarrow>
                  Option.bind (tx_to tx) (\<lambda>router.
                    let c = \<lparr>sc_tx_hash = ''0x'' @ tx_hash_hex tx, sc_router = router, sc_dex = dex, sc_method = meth,
                             sc_sender = tx_from tx, sc_gas_price = (case tx_gas_price tx of Some g \<Rightarrow> g | None \<Rightarrow> 0)\<rparr>;
                        payload = drop SELECTOR_LEN data
                    in if meth = ''swapExactTokensForTokens'' then decode_v2_tokens_for_tokens abi payload c
                       else if meth = ''swapExactETHForTokens'' then decode_v2_eth_for_tokens abi (tx_value tx) payload c
                       else if meth = ''swapExactTokensForETH'' then decode_v2_tokens_for_eth abi payload c
                       else None))"

section \<open>Opportunities\<close>

datatype arb_kind = CrossDex | Triangular | MempoolFrontRun

record arb_opportunity =
  arb_kind :: arb_kind
  arb_token_in :: string
  arb_token_out :: string
  arb_amount_in :: nat
  expected_profit_wei :: nat
  gas_cost_wei :: nat
  net_profit_wei :: nat
  trigger_tx :: "string option"
  route_pools :: "string list"

definition arb_is_profitable :: "arb_opportunity \<Rightarrow> bool" where
  "arb_is_profitable o1 \<longleftrightarrow> net_profit_wei o1 > 0"

record arb_detector =
  ad_pools :: "pool_ref list"
  ad_gas_price_gwei :: nat

definition arb_detector_new :: "uniswap_v2_pair list \<Rightarrow> uniswap_v3_pool list \<Rightarrow> nat \<Rightarrow> arb_detector" where
  "arb_detector_new v2 v3 gp = \<lparr>ad_pools = map V2 v2 @ map V3 v3, ad_gas_price_gwei = gp\<rparr>"

definition MIN_CROSS_DEX_AMOUNT_WEI :: nat where "MIN_CROSS_DEX_AMOUNT_WEI = 1000000000000000000"
definition MIN_TRIANGULAR_ARB_HOPS :: nat where "MIN_TRIANGULAR_ARB_HOPS = 3"
definition DEFAULT_ARB_GAS_UNITS :: nat where "DEFAULT_ARB_GAS_UNITS = 250000"

definition trades_pair :: "string \<Rightarrow> string \<Rightarrow> pool_ref \<Rightarrow> bool" where
  "trades_pair tin tout p \<longleftrightarrow>
     tok_address (pool_token0 p) = tin \<and> tok_address (pool_token1 p) = tout
     \<or> tok_address (pool_token1 p) = tin \<and> tok_address (pool_token0 p) = tout"

text \<open>The token of a pool with the given address, else its second token.\<close>

definition pick_token :: "pool_ref \<Rightarrow> string \<Rightarrow> token" where
  "pick_token p a = (if tok_address (pool_token0 p) = a then pool_token0 p else pool_token1 p)"

text \<open>Gas of \<open>units\<close> at the detector's price, and its value in a token's raw units.\<close>

definition arb_gas :: "bool \<Rightarrow> nat \<Rightarrow> nat \<Rightarrow> token \<Rightarrow> (pricing_error, nat \<times> nat) outcome" where
  "arb_gas oc units gas_price_gwei t =
     bind_out (plain_u128 oc (units * gas_price_gwei * 1000000000)) (\<lambda>gas_cost.
     bind_out (plain_u128 oc (10 ^ tok_decimals t)) (\<lambda>scale.
     bind_out (gas_in_token oc gas_cost scale) (\<lambda>gas_out. Ok (gas_cost, gas_out))))"

text \<open>The running best of a loop: a candidate replaces it only when it nets strictly more.\<close>

definition better :: "arb_opportunity option \<Rightarrow> arb_opportunity option \<Rightarrow> arb_opportunity option" where
  "better best cand =
     (case cand of
        None \<Rightarrow> best
      | Some opp \<Rightarrow>
          (case best of
             None \<Rightarrow> Some opp
           | Some b \<Rightarrow> if net_profit_wei opp > net_profit_wei b then Some opp else Some b))"

fun best_of :: "('a \<Rightarrow> (pricing_error, arb_opportunity option) outcome) \<Rightarrow> 'a list \<Rightarrow> arb_opportunity option
    \<Rightarrow> (pricing_error, arb_opportunity option) outcome" where
  "best_of f [] best = Ok best"
| "best_of f (x # xs) best = bind_out (f x) (\<lambda>cand. best_of f xs (better best cand))"

definition report :: "arb_opportunity option \<Rightarrow> arb_opportunity list" where
  "report best = (case best of Some opp \<Rightarrow> if arb_is_profitable opp then [opp] else [] | None \<Rightarrow> [])"

text \<open>A failing quote is skipped, a panic is not.\<close>

definition skip_err :: "(pricing_error, nat) outcome \<Rightarrow> (nat \<Rightarrow> (pricing_error, 'b option) outcome) \<Rightarrow> (pricing_error, 'b option) outcome" where
  "skip_err r f = (case r of Ok v \<Rightarrow> f v | Err e \<Rightarrow> Ok None | Panic \<Rightarrow> Panic)"

fun index_pairs :: "'a list \<Rightarrow> ('a \<times> 'a) list" where
  "index_pairs [] = []"
| "index_pairs (x # xs) = map (Pair x) xs @ index_pairs xs"

definition cross_dex_pair ::
  "bool \<Rightarrow> nat \<Rightarrow> parsed_swap \<Rightarrow> string \<Rightarrow> string \<Rightarrow> nat \<Rightarrow> pool_ref \<times> pool_ref
     \<Rightarrow> (pricing_error, arb_opportunity option) outcome" where
  "cross_dex_pair oc gp swap tin tout amount_in = (\<lambda>(p1, p2).
     skip_err (pool_amount_out oc p1 amount_in (pick_token p1 tin)) (\<lambda>out1.
     skip_err (pool_amount_out oc p2 amount_in (pick_token p1 tin)) (\<lambda>out2.
       let (buy_pool, sell_pool, buy_out, sell_out) = (if out1 > out2 then (p2, p1, out2, out1) else (p1, p2, out1, out2));
           spread = sell_out - buy_out
       in if spread = 0 then Ok None
          else bind_out (arb_gas oc DEFAULT_ARB_GAS_UNITS gp (pick_token p1 tout)) (\<lambda>(gas_cost, gas_out).
            let net = spread - gas_out
            in Ok (if net > 0
                   then Some \<lparr>arb_kind = CrossDex, arb_token_in = tin, arb_token_out = tout, arb_amount_in = amount_in,
                          expected_profit_wei = spread, gas_cost_wei = gas_cost, net_profit_wei = net,
                          trigger_tx = Some (sw_tx_hash swap), route_pools = [pool_address buy_pool, pool_address sell_pool]\<rparr>
                   else None)))))"

definition detect_cross_dex ::
  "bool \<Rightarrow> arb_detector \<Rightarrow> parsed_swap \<Rightarrow> string \<Rightarrow> string \<Rightarrow> (pricing_error, arb_opportunity list) outcome" where
  "detect_cross_dex oc d swap tin tout =
     (let matching = filter (trades_pair tin tout) (ad_pools d)
      in if length matching < 2 then Ok []
         else bind_out (as_u128 (sw_amount_in swap)) (\<lambda>a.
              bind_out (best_of (cross_dex_pair oc (ad_gas_price_gwei d) swap tin tout (max a MIN_CROSS_DEX_AMOUNT_WEI))
                          (index_pairs matching) None) (\<lambda>best. Ok (report best))))"

definition mempool_pool ::
  "bool \<Rightarrow> nat \<Rightarrow> parsed_swap \<Rightarrow> string \<Rightarrow> string \<Rightarrow> nat \<Rightarrow> nat \<Rightarrow> pool_ref
     \<Rightarrow> (pricing_error, arb_opportunity option) outcome" where
  "mempool_pool oc gp swap tin tout amount_in min_out p =
     skip_err (pool_amount_out oc p amount_in (pick_token p tin)) (\<lambda>fair_out.
       if fair_out \<le> min_out then Ok None
       else bind_out (arb_gas oc DEFAULT_ARB_GAS_UNITS gp (pick_token p tout)) (\<lambda>(gas_cost, gas_out).
         let net = fair_out - min_out - gas_out
         in Ok (if net > 0
                then Some \<lparr>arb_kind = MempoolFrontRun, arb_token_in = tin, arb_token_out = tout, arb_amount_in = amount_in,
                       expected_profit_wei = fair_out - min_out, gas_cost_wei = gas_cost, net_profit_wei = net,
                       trigger_tx = Some (sw_tx_hash swap), route_pools = [pool_address p]\<rparr>
                else None)))"

definition detect_mempool_arb ::
  "bool \<Rightarrow> arb_detector \<Rightarrow> parsed_swap \<Rightarrow> string \<Rightarrow> string \<Rightarrow> (pricing_error, arb_opportunity list) outcome" where
  "detect_mempool_arb oc d swap tin tout =
     bind_out (as_u128 (sw_min_amount_out swap)) (\<lambda>min_out.
       if min_out = 0 \<or> sw_amount_in swap = 0 then Ok []
       else bind_out (as_u128 (sw_amount_in swap)) (\<lambda>a.
            bind_out (best_of (mempool_pool oc (ad_gas_price_gwei d) swap tin tout a min_out)
                        (filter (trades_pair tin tout) (ad_pools d)) None) (\<lambda>best. Ok (report best))))"

fun find_token :: "pool_ref list \<Rightarrow> string \<Rightarrow> token option" where
  "find_token [] a = None"
| "find_token (p # ps) a =
     (if tok_address (pool_token0 p) = a then Some (pool_token0 p)
      else if tok_address (pool_token1 p) = a then Some (pool_token1 p)
      else find_token ps a)"

definition triangular_pair ::
  "bool \<Rightarrow> nat \<Rightarrow> string \<Rightarrow> string \<Rightarrow> token \<Rightarrow> nat \<Rightarrow> route \<Rightarrow> nat \<Rightarrow> route \<Rightarrow> (pricing_error, arb_opportunity option) outcome" where
  "triangular_pair oc gp tin tout start_tok amount_in r forward_out rev_r =
     (if num_hops r + num_hops rev_r < MIN_TRIANGULAR_ARB_HOPS then Ok None
      else skip_err (get_output oc rev_r forward_out) (\<lambda>back_out.
        if back_out \<le> amount_in then Ok None
        else bind_out (arb_gas oc (route_estimate_gas r + route_estimate_gas rev_r) gp start_tok) (\<lambda>(gas_cost, gas_in_start).
          let net = back_out - amount_in - gas_in_start
          in Ok (if net > 0
                 then Some \<lparr>arb_kind = Triangular, arb_token_in = tin, arb_token_out = tout, arb_amount_in = amount_in,
                        expected_profit_wei = back_out - amount_in, gas_cost_wei = gas_cost, net_profit_wei = net,
                        trigger_tx = None, route_pools = map pool_address (r_pools r) @ map pool_address (r_pools rev_r)\<rparr>
                 else None))))"

fun triangular_loop ::
  "bool \<Rightarrow> nat \<Rightarrow> string \<Rightarrow> string \<Rightarrow> token \<Rightarrow> nat \<Rightarrow> route list \<Rightarrow> route list \<Rightarrow> arb_opportunity option
     \<Rightarrow> (pricing_error, arb_opportunity option) outcome" where
  "triangular_loop oc gp tin tout start_tok a [] revs best = Ok best"
| "triangular_loop oc gp tin tout start_tok a (r # rs) revs best =
     (case get_output oc r a of
        Ok forward_out \<Rightarrow>
          bind_out (best_of (triangular_pair oc gp tin tout start_tok a r forward_out) revs best)
            (triangular_loop oc gp tin tout start_tok a rs revs)
      | Err e \<Rightarrow> triangular_loop oc gp tin tout start_tok a rs revs best
      | Panic \<Rightarrow> Panic)"

definition detect_triangular ::
  "bool \<Rightarrow> arb_detector \<Rightarrow> string \<Rightarrow> string \<Rightarrow> (pricing_error, arb_opportunity list) outcome" where
  "detect_triangular oc d tin tout =
     (case (find_token (ad_pools d) tin, find_token (ad_pools d) tout) of
        (Some start_tok, Some end_tok) \<Rightarrow>
          bind_out (triangular_loop oc (ad_gas_price_gwei d) tin tout start_tok MIN_CROSS_DEX_AMOUNT_WEI
              (find_all_routes (ad_pools d) start_tok end_tok 3) (find_all_routes (ad_pools d) end_tok start_tok 3) None)
            (\<lambda>best. Ok (report best))
      | _ \<Rightarrow> Ok [])"

definition detect_from_swap :: "bool \<Rightarrow> arb_detector \<Rightarrow> parsed_swap \<Rightarrow> (pricing_error, arb_opportunity list) outcome" where
  "detect_from_swap oc d swap =
     (case (sw_token_in swap, sw_token_out swap) of
        (Some tin, Some tout) \<Rightarrow>
          bind_out (detect_cross_dex oc d swap tin tout) (\<lambda>xs.
          bind_out (detect_mempool_arb oc d swap tin tout) (\<lambda>ys.
          bind_out (detect_triangular oc d tin tout) (\<lambda>zs. Ok (xs @ ys @ zs))))
      | _ \<Rightarrow> Ok [])"

section \<open>Reported opportunities are real\<close>

lemma best_of_source:
  "best_of f xs b = Ok (Some opp) \<Longrightarrow> b = Some opp \<or> (\<exists>x \<in> set xs. f x = Ok (Some opp))"
proof (induction xs arbitrary: b)
  case (Cons x xs)
  then obtain cand where "f x = Ok cand" "best_of f xs (better b cand) = Ok (Some opp)"
    by (auto simp: outcome_simps)
  with Cons.IH [of "better b cand"] show ?case
    by (auto simp: better_def split: option.splits if_splits)
qed simp

lemma best_of_max:
  "best_of f xs b = Ok best \<Longrightarrow>
   (\<forall>opp. b = Some opp \<or> (\<exists>x \<in> set xs. f x = Ok (Some opp)) \<longrightarrow>
      (\<exists>o'. best = Some o' \<and> net_profit_wei opp \<le> net_profit_wei o'))"
proof (induction xs arbitrary: b)
  case (Cons x xs)
  then obtain cand where c: "f x = Ok cand" "best_of f xs (better b cand) = Ok best"
    by (auto simp: outcome_simps)
  have "\<exists>o'. better b cand = Some o' \<and> net_profit_wei opp \<le> net_profit_wei o'"
    if "b = Some opp \<or> cand = Some opp" for opp
    using that by (auto simp: better_def split: option.splits if_splits)
  with Cons.IH [OF c(2)] c(1) show ?case by (fastforce intro: order_trans)
qed simp

lemma in_report: "opp \<in> set (report best) \<longleftrightarrow> best = Some opp \<and> 0 < net_profit_wei opp"
  by (auto simp: report_def arb_is_profitable_def split: option.splits)

lemma index_pairs_mem: "(x, y) \<in> set (index_pairs xs) \<Longrightarrow> x \<in> set xs \<and> y \<in> set xs"
  by (induction xs) auto

lemma skip_err_Some: "skip_err r f = Ok (Some b) \<longleftrightarrow> (\<exists>v. r = Ok v \<and> f v = Ok (Some b))"
  by (cases r) (auto simp: skip_err_def)

lemma find_token_address: "find_token ps a = Some t \<Longrightarrow> tok_address t = a"
  by (induction ps) (auto split: if_splits)

lemma pick_token_address: "trades_pair tin tout p \<Longrightarrow> tok_address (pick_token p tin) = tin"
  by (auto simp: trades_pair_def pick_token_def)

text \<open>
  What each kind of opportunity claims about the pools.
\<close>

definition cross_dex_real :: "pool_ref list \<Rightarrow> arb_opportunity \<Rightarrow> bool" where
  "cross_dex_real pools opp \<longleftrightarrow>
     (\<exists>p q t x. p \<in> set pools \<and> q \<in> set pools \<and> tok_address t = arb_token_in opp
        \<and> trades_pair (arb_token_in opp) (arb_token_out opp) p \<and> trades_pair (arb_token_in opp) (arb_token_out opp) q
        \<and> pool_amount_out True p (arb_amount_in opp) t = Ok x
        \<and> pool_amount_out True q (arb_amount_in opp) t = Ok (x + expected_profit_wei opp)
        \<and> route_pools opp = [pool_address p, pool_address q])"

definition mempool_real :: "pool_ref list \<Rightarrow> nat \<Rightarrow> arb_opportunity \<Rightarrow> bool" where
  "mempool_real pools min_out opp \<longleftrightarrow>
     (\<exists>p t. p \<in> set pools \<and> tok_address t = arb_token_in opp
        \<and> trades_pair (arb_token_in opp) (arb_token_out opp) p
        \<and> pool_amount_out True p (arb_amount_in opp) t = Ok (min_out + expected_profit_wei opp)
        \<and> route_pools opp = [pool_address p])"

definition triangular_real :: "pool_ref list \<Rightarrow> arb_opportunity \<Rightarrow> bool" where
  "triangular_real pools opp \<longleftrightarrow>
     (\<exists>s e r r' mid. tok_address s = arb_token_in opp \<and> tok_address e = arb_token_out opp
        \<and> simple_route pools s e 3 r \<and> simple_route pools e s 3 r' \<and> 3 \<le> num_hops r + num_hops r'
        \<and> get_output True r (arb_amount_in opp) = Ok mid
        \<and> get_output True r' mid = Ok (arb_amount_in opp + expected_profit_wei opp)
        \<and> route_pools opp = map pool_address (r_pools r @ r_pools r'))"

definition arb_real :: "pool_ref list \<Rightarrow> nat \<Rightarrow> arb_opportunity \<Rightarrow> bool" where
  "arb_real pools min_out opp \<longleftrightarrow>
     0 < net_profit_wei opp \<and> net_profit_wei opp \<le> expected_profit_wei opp
     \<and> (case arb_kind opp of
          CrossDex \<Rightarrow> cross_dex_real pools opp
        | MempoolFrontRun \<Rightarrow> mempool_real pools min_out opp
        | Triangular \<Rightarrow> triangular_real pools opp)"

lemma cross_dex_pair_real:
  assumes "cross_dex_pair True gp swap tin tout a (p, q) = Ok (Some opp)"
    and "p \<in> set pools" "q \<in> set pools" "trades_pair tin tout p" "trades_pair tin tout q"
  shows "arb_real pools m opp"
proof -
  let ?t = "pick_token p tin"
  from assms(1) obtain x y where xy: "pool_amount_out True p a ?t = Ok x" "pool_amount_out True q a ?t = Ok y"
    and opp: "arb_kind opp = CrossDex" "arb_token_in opp = tin" "arb_token_out opp = tout" "arb_amount_in opp = a"
      "0 < net_profit_wei opp" "net_profit_wei opp \<le> expected_profit_wei opp"
      "if y < x then expected_profit_wei opp = x - y \<and> route_pools opp = [pool_address q, pool_address p]
       else expected_profit_wei opp = y - x \<and> route_pools opp = [pool_address p, pool_address q]"
    by (auto simp: cross_dex_pair_def skip_err_Some outcome_simps Let_def split: if_splits)
  have t: "tok_address ?t = tin" using assms(4) by (rule pick_token_address)
  show ?thesis
  proof (cases "y < x")
    case True
    with xy opp t assms have "cross_dex_real pools opp"
      unfolding cross_dex_real_def by (intro exI [of _ q] exI [of _ p] exI [of _ ?t] exI [of _ y]) simp
    with opp show ?thesis by (simp add: arb_real_def)
  next
    case False
    with xy opp t assms have "cross_dex_real pools opp"
      unfolding cross_dex_real_def by (intro exI [of _ p] exI [of _ q] exI [of _ ?t] exI [of _ x]) simp
    with opp show ?thesis by (simp add: arb_real_def)
  qed
qed

lemma mempool_pool_real:
  assumes "mempool_pool True gp swap tin tout a m p = Ok (Some opp)" "p \<in> set pools" "trades_pair tin tout p"
  shows "arb_real pools m opp"
proof -
  let ?t = "pick_token p tin"
  from assms(1) have "pool_amount_out True p a ?t = Ok (m + expected_profit_wei opp)"
    and "arb_kind opp = MempoolFrontRun" "arb_token_in opp = tin" "arb_token_out opp = tout" "arb_amount_in opp = a"
      "0 < net_profit_wei opp" "net_profit_wei opp \<le> expected_profit_wei opp" "route_pools opp = [pool_address p]"
    by (auto simp: mempool_pool_def skip_err_Some outcome_simps Let_def split: if_splits)
  moreover have "tok_address ?t = tin" using assms(3) by (rule pick_token_address)
  ultimately show ?thesis
    using assms(2,3) by (auto simp: arb_real_def mempool_real_def intro!: exI [of _ p] exI [of _ ?t])
qed

lemma triangular_pair_real:
  assumes "triangular_pair True gp tin tout s a r mid r' = Ok (Some opp)" "get_output True r a = Ok mid"
    and "simple_route pools s e 3 r" "simple_route pools e s 3 r'" "tok_address s = tin" "tok_address e = tout"
  shows "arb_real pools m opp"
proof -
  from assms(1) have facts: "get_output True r' mid = Ok (a + expected_profit_wei opp)"
      "arb_kind opp = Triangular" "arb_token_in opp = tin" "arb_token_out opp = tout" "arb_amount_in opp = a"
      "0 < net_profit_wei opp" "net_profit_wei opp \<le> expected_profit_wei opp"
      "route_pools opp = map pool_address (r_pools r @ r_pools r')" "3 \<le> num_hops r + num_hops r'"
    by (auto simp: triangular_pair_def skip_err_Some outcome_simps Let_def MIN_TRIANGULAR_ARB_HOPS_def split: if_splits)
  have "triangular_real pools opp"
    unfolding triangular_real_def
    by (intro exI [of _ s] exI [of _ e] exI [of _ r] exI [of _ r'] exI [of _ mid]) (use facts assms(2-) in simp)
  with facts show ?thesis by (simp add: arb_real_def)
qed

lemma triangular_loop_source:
  "triangular_loop True gp tin tout s a rs revs b = Ok (Some opp) \<Longrightarrow>
   b = Some opp \<or> (\<exists>r \<in> set rs. \<exists>r' \<in> set revs. \<exists>mid. get_output True r a = Ok mid
     \<and> triangular_pair True gp tin tout s a r mid r' = Ok (Some opp))"
proof (induction rs arbitrary: b)
  case (Cons r rs)
  show ?case
  proof (cases "get_output True r a")
    case (Ok mid)
    with Cons.prems obtain b' where "best_of (triangular_pair True gp tin tout s a r mid) revs b = Ok b'"
      "triangular_loop True gp tin tout s a rs revs b' = Ok (Some opp)"
      by (auto simp: outcome_simps)
    with Cons.IH [of b'] best_of_source Ok show ?thesis by fastforce
  qed (use Cons in auto)
qed simp

lemma routes_to_self: "token_eq s e \<Longrightarrow> find_all_routes pools s e n = []"
  by (simp add: find_all_routes_def dfs.simps)

lemma found_route_simple:
  "r \<in> set (find_all_routes pools s e n) \<Longrightarrow> simple_route pools s e n r"
  by (cases "token_eq s e") (simp_all add: routes_to_self find_all_routes_iff)

lemma detect_cross_dex_real:
  assumes "detect_cross_dex True d swap tin tout = Ok opps" "opp \<in> set opps"
  shows "arb_real (ad_pools d) m opp"
proof -
  let ?ms = "filter (trades_pair tin tout) (ad_pools d)"
  from assms obtain a where
    "best_of (cross_dex_pair True (ad_gas_price_gwei d) swap tin tout a) (index_pairs ?ms) None = Ok (Some opp)"
    by (auto simp: detect_cross_dex_def Let_def outcome_simps in_report split: if_splits)
  then obtain p q where pq: "(p, q) \<in> set (index_pairs ?ms)"
    "cross_dex_pair True (ad_gas_price_gwei d) swap tin tout a (p, q) = Ok (Some opp)"
    using best_of_source by force
  from index_pairs_mem [OF pq(1)] pq(2) show ?thesis by (intro cross_dex_pair_real) auto
qed

lemma detect_mempool_arb_real:
  assumes "detect_mempool_arb True d swap tin tout = Ok opps" "opp \<in> set opps"
  shows "arb_real (ad_pools d) (sw_min_amount_out swap) opp"
proof -
  let ?ms = "filter (trades_pair tin tout) (ad_pools d)"
  from assms obtain a where
    "best_of (mempool_pool True (ad_gas_price_gwei d) swap tin tout a (sw_min_amount_out swap)) ?ms None = Ok (Some opp)"
    by (auto simp: detect_mempool_arb_def as_u128_def outcome_simps in_report split: if_splits)
  then obtain p where "p \<in> set ?ms"
    "mempool_pool True (ad_gas_price_gwei d) swap tin tout a (sw_min_amount_out swap) p = Ok (Some opp)"
    using best_of_source by force
  then show ?thesis by (intro mempool_pool_real) auto
qed

lemma detect_triangular_real:
  assumes "detect_triangular True d tin tout = Ok opps" "opp \<in> set opps"
  shows "arb_real (ad_pools d) m opp"
proof -
  from assms obtain s e where se: "find_token (ad_pools d) tin = Some s" "find_token (ad_pools d) tout = Some e"
    and loop: "triangular_loop True (ad_gas_price_gwei d) tin tout s MIN_CROSS_DEX_AMOUNT_WEI
      (find_all_routes (ad_pools d) s e 3) (find_all_routes (ad_pools d) e s 3) None = Ok (Some opp)"
    by (auto simp: detect_triangular_def outcome_simps in_report split: option.splits)
  from triangular_loop_source [OF loop] obtain r r' mid where
    "r \<in> set (find_all_routes (ad_pools d) s e 3)" "r' \<in> set (find_all_routes (ad_pools d) e s 3)"
    "get_output True r MIN_CROSS_DEX_AMOUNT_WEI = Ok mid"
    "triangular_pair True (ad_gas_price_gwei d) tin tout s MIN_CROSS_DEX_AMOUNT_WEI r mid r' = Ok (Some opp)"
    by auto
  with se show ?thesis by (intro triangular_pair_real) (auto dest: found_route_simple find_token_address)
qed

text \<open>
  Reported opportunities are real.  With overflow checks on, every opportunity the detector
  reports for a pending swap has a positive net profit not above its gross profit, and the gross
  profit is exactly what the pools quote: for a cross-DEX opportunity the difference between two
  pools of the pair, for a mempool opportunity the excess of one pool's quote over the victim's
  minimum, for a triangular one the gain of a round trip along two simple routes of together at least
  three hops.
\<close>

lemma arb_opportunities_real:
  assumes "detect_from_swap True d swap = Ok opps" "opp \<in> set opps"
  shows "arb_real (ad_pools d) (sw_min_amount_out swap) opp"
proof -
  from assms obtain tin tout xs ys zs where
    "detect_cross_dex True d swap tin tout = Ok xs" "detect_mempool_arb True d swap tin tout = Ok ys"
    "detect_triangular True d tin tout = Ok zs" "opp \<in> set xs \<or> opp \<in> set ys \<or> opp \<in> set zs"
    by (auto simp: detect_from_swap_def outcome_simps split: option.splits)
  then show ?thesis
    using detect_cross_dex_real detect_mempool_arb_real detect_triangular_real by blast
qed

definition sample_swap :: "nat \<Rightarrow> parsed_swap" where
  "sample_swap m = \<lparr>sw_tx_hash = ''0x1'', sw_router = ''r'', sw_dex = ''UniswapV2'', sw_method = ''m'',
     sw_token_in = Some ''a'', sw_token_out = Some ''b'', sw_amount_in = 10 ^ 18, sw_min_amount_out = m,
     sw_deadline = 0, sw_sender = ''s'', sw_gas_price = 0\<rparr>"

lemmas detector_eval = detect_from_swap_def detect_cross_dex_def detect_mempool_arb_def detect_triangular_def
  sample_swap_def sample_pool_def sample_token_def trades_pair_def as_u128_def report_def arb_is_profitable_def
  mempool_pool_def skip_err_def pick_token_def arb_gas_def plain_u128_def gas_in_token_def u256_mul_def u256_div_def
  better_def get_amount_out_def reserves_for_def token_eq_def u256_sub_def u256_mul_checked_def u256_add_checked_def
  DEFAULT_ARB_GAS_UNITS_def MIN_CROSS_DEX_AMOUNT_WEI_def

lemma arb_opportunities_real_witness:
  "\<exists>opp. detect_from_swap True \<lparr>ad_pools = [sample_pool CHR ''a'' CHR ''b''], ad_gas_price_gwei = 1\<rparr> (sample_swap (10 ^ 18)) = Ok [opp]
     \<and> arb_real [sample_pool CHR ''a'' CHR ''b''] (10 ^ 18) opp"
proof -
  let ?d = "\<lparr>ad_pools = [sample_pool CHR ''a'' CHR ''b''], ad_gas_price_gwei = 1\<rparr>"
  have t: "detect_triangular True ?d ''a'' ''b'' = Ok []"
    by (simp add: detect_triangular_def sample_pool_def sample_token_def find_all_routes_def dfs.simps build_graph_def
        push_edge_def edges_of_def token_eq_def get_output_def get_amount_out_def reserves_for_def u256_sub_def
        u256_mul_checked_def u256_add_checked_def u256_div_def as_u128_def triangular_pair_def num_hops_def
        MIN_TRIANGULAR_ARB_HOPS_def MIN_CROSS_DEX_AMOUNT_WEI_def better_def report_def)
  obtain opp where o: "detect_from_swap True ?d (sample_swap (10 ^ 18)) = Ok [opp]"
    using t by (simp add: detector_eval del: detect_triangular_def) 
  from arb_opportunities_real [OF o] o show ?thesis by (auto simp: sample_swap_def)
qed

end
