(* ===== verification/Effects.thy ===== *)
theory Effects
  imports Prelude
begin

text \<open>
  Calls with effects.  A call takes the state of the world and returns its new state with the outcome
  (\<open>Ok\<close>, \<open>Err\<close> or \<open>Panic\<close>), or nothing when it does not return: polling loops are partial functions.
  \<open>seq\<close> is sequencing with the question-mark operator, \<open>attempt\<close> a \<open>match\<close> on the result, \<open>map_err\<close> the
  method of that name.  \<open>triple\<close> is partial correctness with one postcondition for the final state and
  the outcome; its rules are collected in \<open>call_rules\<close>.
\<close>

named_theorems call_rules \<open>rules of partial correctness for calls\<close>
named_theorems call_defs \<open>the call combinators\<close>

type_synonym ('w, 'e, 'a) call = "'w \<Rightarrow> ('w \<times> ('e, 'a) outcome) option"

definition ret :: "'a \<Rightarrow> ('w, 'e, 'a) call" where
  [call_defs]: "ret a w = Some (w, Ok a)"

definition throw :: "'e \<Rightarrow> ('w, 'e, 'a) call" where
  [call_defs]: "throw e w = Some (w, Err e)"

definition lift_out :: "('e, 'a) outcome \<Rightarrow> ('w, 'e, 'a) call" where
  [call_defs]: "lift_out r w = Some (w, r)"

definition seq :: "('w, 'e, 'a) call \<Rightarrow> ('a \<Rightarrow> ('w, 'e, 'b) call) \<Rightarrow> ('w, 'e, 'b) call" where
  [call_defs]: "seq m f w =
     (case m w of
        None \<Rightarrow> None
      | Some (w', r) \<Rightarrow> (case r of Ok a \<Rightarrow> f a w' | Err e \<Rightarrow> Some (w', Err e) | Panic \<Rightarrow> Some (w', Panic)))"

definition attempt ::
  "('w, 'e, 'a) call \<Rightarrow> ('a \<Rightarrow> ('w, 'f, 'b) call) \<Rightarrow> ('e \<Rightarrow> ('w, 'f, 'b) call) \<Rightarrow> ('w, 'f, 'b) call" where
  [call_defs]: "attempt m f g w =
     (case m w of
        None \<Rightarrow> None
      | Some (w', r) \<Rightarrow> (case r of Ok a \<Rightarrow> f a w' | Err e \<Rightarrow> g e w' | Panic \<Rightarrow> Some (w', Panic)))"

definition map_err :: "('e \<Rightarrow> 'f) \<Rightarrow> ('w, 'e, 'a) call \<Rightarrow> ('w, 'f, 'a) call" where
  [call_defs]: "map_err h m = attempt m ret (\<lambda>e. throw (h e))"

definition update :: "('w \<Rightarrow> 'w) \<Rightarrow> ('w, 'e, unit) call" where
  [call_defs]: "update f w = Some (f w, Ok ())"

section \<open>Partial correctness\<close>

definition triple :: "('w \<Rightarrow> bool) \<Rightarrow> ('w, 'e, 'a) call \<Rightarrow> ('w \<Rightarrow> ('e, 'a) outcome \<Rightarrow> bool) \<Rightarrow> bool" where
  "triple P m Q \<longleftrightarrow> (\<forall>w w' r. P w \<longrightarrow> m w = Some (w', r) \<longrightarrow> Q w' r)"

lemma tripleI: "(\<And>w w' r. P w \<Longrightarrow> m w = Some (w', r) \<Longrightarrow> Q w' r) \<Longrightarrow> triple P m Q"
  by (simp add: triple_def)

lemma tripleD: "triple P m Q \<Longrightarrow> P w \<Longrightarrow> m w = Some (w', r) \<Longrightarrow> Q w' r"
  by (simp add: triple_def)

lemma triple_weaken:
  "triple P' m Q' \<Longrightarrow> (\<And>w. P w \<Longrightarrow> P' w) \<Longrightarrow> (\<And>w r. Q' w r \<Longrightarrow> Q w r) \<Longrightarrow> triple P m Q"
  unfolding triple_def by blast

lemma triple_ret [call_rules]: "(\<And>w. P w \<Longrightarrow> Q w (Ok a)) \<Longrightarrow> triple P (ret a) Q"
  by (simp add: triple_def ret_def)

lemma triple_throw [call_rules]: "(\<And>w. P w \<Longrightarrow> Q w (Err e)) \<Longrightarrow> triple P (throw e) Q"
  by (simp add: triple_def throw_def)

lemma triple_lift_out [call_rules]: "(\<And>w. P w \<Longrightarrow> Q w r) \<Longrightarrow> triple P (lift_out r) Q"
  by (simp add: triple_def lift_out_def)

lemma triple_update [call_rules]: "(\<And>w. P w \<Longrightarrow> Q (f w) (Ok ())) \<Longrightarrow> triple P (update f) Q"
  by (simp add: triple_def update_def)

lemma triple_attempt:
  assumes "triple P m (\<lambda>w r. case r of Ok a \<Rightarrow> R a w | Err e \<Rightarrow> S e w | Panic \<Rightarrow> Q w Panic)"
    and "\<And>a. triple (R a) (f a) Q" "\<And>e. triple (S e) (g e) Q"
  shows "triple P (attempt m f g) Q"
proof (rule tripleI)
  fix w w' r
  assume "P w" "attempt m f g w = Some (w', r)"
  then show "Q w' r"
    using tripleD [OF assms(1)] tripleD [OF assms(2)] tripleD [OF assms(3)]
    by (fastforce simp: attempt_def split: option.splits prod.splits outcome.splits)
qed

lemma seq_attempt: "seq m f = attempt m f throw"
  by (auto simp: seq_def attempt_def throw_def fun_eq_iff split: option.splits outcome.splits)

lemma triple_seq:
  assumes "triple P m (\<lambda>w r. case r of Ok a \<Rightarrow> R a w | Err e \<Rightarrow> Q w (Err e) | Panic \<Rightarrow> Q w Panic)"
    and "\<And>a. triple (R a) (f a) Q"
  shows "triple P (seq m f) Q"
  unfolding seq_attempt
  by (rule triple_attempt [OF assms(1) assms(2)]) (rule triple_throw)

lemma triple_if:
  "(b \<Longrightarrow> triple P m Q) \<Longrightarrow> (\<not> b \<Longrightarrow> triple P n Q) \<Longrightarrow> triple P (if b then m else n) Q"
  by simp

section \<open>Inversion\<close>

lemma seq_Ok_iff:
  "seq m f w = Some (w', Ok b) \<longleftrightarrow> (\<exists>w1 a. m w = Some (w1, Ok a) \<and> f a w1 = Some (w', Ok b))"
  by (auto simp: seq_def split: option.splits outcome.splits)

lemma map_err_Ok_iff: "map_err h m w = Some (w', Ok a) \<longleftrightarrow> m w = Some (w', Ok a)"
  by (auto simp: call_defs split: option.splits outcome.splits)

lemma map_err_Err_iff: "map_err h m w = Some (w', Err e') \<longleftrightarrow> (\<exists>e. m w = Some (w', Err e) \<and> e' = h e)"
  by (auto simp: call_defs split: option.splits outcome.splits)

lemma map_err_Panic_iff: "map_err h m w = Some (w', Panic) \<longleftrightarrow> m w = Some (w', Panic)"
  by (auto simp: call_defs split: option.splits outcome.splits)

lemma triple_map_err:
  "triple P m (\<lambda>w r. case r of Ok a \<Rightarrow> Q w (Ok a) | Err e \<Rightarrow> Q w (Err (h e)) | Panic \<Rightarrow> Q w Panic)
    \<Longrightarrow> triple P (map_err h m) Q"
  unfolding map_err_def
  by (rule triple_attempt [where R = "\<lambda>a w. Q w (Ok a)" and S = "\<lambda>e w. Q w (Err (h e))"])
    (auto intro: call_rules)

text \<open>Calls that return: totality is closed under the combinators.\<close>

definition returns :: "('w \<Rightarrow> bool) \<Rightarrow> ('w, 'e, 'a) call \<Rightarrow> bool" where
  "returns P m \<longleftrightarrow> (\<forall>w. P w \<longrightarrow> (\<exists>w' r. m w = Some (w', r)))"

lemma returns_pure [call_rules]:
  "returns P (ret a)" "returns P (throw e)" "returns P (lift_out r)" "returns P (update u)"
  by (simp_all add: returns_def ret_def throw_def lift_out_def update_def)

lemma returns_attempt:
  "returns (\<lambda>_. True) m \<Longrightarrow> (\<And>a. returns (\<lambda>_. True) (f a)) \<Longrightarrow> (\<And>e. returns (\<lambda>_. True) (g e))
    \<Longrightarrow> returns (\<lambda>_. True) (attempt m f g)"
  unfolding returns_def attempt_def by (force split: option.splits outcome.splits)

lemma returns_seq:
  "returns (\<lambda>_. True) m \<Longrightarrow> (\<And>a. returns (\<lambda>_. True) (f a)) \<Longrightarrow> returns (\<lambda>_. True) (seq m f)"
  unfolding seq_attempt by (rule returns_attempt) (simp_all add: call_rules)

end
