(* ===== verification/Rate_Limiter.thy ===== *)
theory Rate_Limiter
  imports Recovery
begin

text \<open>
  \<open>exchange/rate_limiter.rs\<close>: request budgets per limit type and interval.  A bucket counts the
  weight used in a window and grants a request only below 90 percent of the quota.  Clock
  readings are arguments, in nanoseconds; \<open>as_secs\<close> drops the fraction of a second.

  The safety margin is computed in binary floating point, \<open>(max_weight as f64 * 0.9) as u32\<close>.  The
  model keeps the IEEE arithmetic: \<open>0.9\<close> is the double \<open>8106479329266893 / 2 ^ 53\<close>, and a product of
  two doubles is the exact product rounded to 53 significant bits, ties to even.
\<close>

section \<open>The safety margin\<close>

fun bit_length :: "nat \<Rightarrow> nat" where
  "bit_length n = (if n = 0 then 0 else Suc (bit_length (n div 2)))"

declare bit_length.simps [simp del]

text \<open>\<open>n\<close> rounded to 53 significant bits, ties to even.\<close>

definition round_to_53 :: "nat \<Rightarrow> nat" where
  "round_to_53 n =
     (let u = 2 ^ (bit_length n - 53); q = n div u; r = n mod u
      in if 2 * r < u \<or> 2 * r = u \<and> even q then q * u else (q + 1) * u)"

definition safety_threshold :: "nat \<Rightarrow> nat" where
  "safety_threshold max_weight = round_to_53 (max_weight * 8106479329266893) div 2 ^ 53"

lemma bit_length_le: "n < 2 ^ k \<Longrightarrow> bit_length n \<le> k"
proof (induction k arbitrary: n)
  case 0
  then show ?case by (simp add: bit_length.simps)
next
  case (Suc k)
  have "n div 2 < 2 ^ k" using Suc.prems by (intro less_mult_imp_div_less) (simp add: mult.commute)
  from Suc.IH [OF this] show ?case by (simp add: bit_length.simps [of n])
qed

lemma round_to_53_bounds:
  assumes "n < 2 ^ 85"
  shows "K * 2 ^ 53 \<le> n \<Longrightarrow> K * 2 ^ 53 \<le> round_to_53 n" "round_to_53 n \<le> n + 2 ^ 32"
proof -
  define e where "e = bit_length n - 53"
  have e: "e \<le> 32" using bit_length_le [OF assms] by (simp add: e_def)
  then have u: "(2::nat) ^ e \<le> 2 ^ 32" by (intro power_increasing) auto
  have q: "n div 2 ^ e * 2 ^ e \<le> round_to_53 n" "round_to_53 n \<le> n div 2 ^ e * 2 ^ e + 2 ^ e"
    by (simp_all add: round_to_53_def Let_def flip: e_def)
  have "n div 2 ^ e * 2 ^ e \<le> n" by (rule div_times_less_eq_dividend)
  with q(2) u show "round_to_53 n \<le> n + 2 ^ 32" by linarith
  assume "K * 2 ^ 53 \<le> n"
  moreover have "(2::nat) ^ 53 = 2 ^ (53 - e) * 2 ^ e" using e by (simp flip: power_add)
  ultimately have "K * 2 ^ (53 - e) \<le> n div 2 ^ e"
    by (simp add: less_eq_div_iff_mult_less_eq mult.assoc)
  then have "K * 2 ^ (53 - e) * 2 ^ e \<le> n div 2 ^ e * 2 ^ e" by (rule mult_le_mono1)
  also note q(1)
  finally show "K * 2 ^ 53 \<le> round_to_53 n"
    unfolding \<open>2 ^ 53 = 2 ^ (53 - e) * 2 ^ e\<close> by (simp only: mult.assoc)
qed

text \<open>The floating-point margin is exactly 90 percent, rounded down, for every 32-bit quota.\<close>

lemma safety_threshold_eq:
  assumes "m < 2 ^ 32"
  shows "safety_threshold m = 9 * m div 10"
proof -
  define K where "K = 9 * m div 10"
  define n where "n = m * 8106479329266893"
  have K: "10 * K \<le> 9 * m" "9 * m \<le> 10 * K + 9" by (simp_all add: K_def)
  have "10 * n = 9 * m * 2 ^ 53 + 2 * m" by (simp add: n_def)
  with K assms have lo: "K * 2 ^ 53 \<le> n" and hi: "n + 2 ^ 32 < (K + 1) * 2 ^ 53"
    and "n < 2 ^ 85" by simp_all
  from round_to_53_bounds [OF \<open>n < 2 ^ 85\<close>] lo hi
  have "K * 2 ^ 53 \<le> round_to_53 n" "round_to_53 n < (K + 1) * 2 ^ 53" by auto
  then have "round_to_53 n div 2 ^ 53 = K" by (intro div_nat_eqI) (simp_all add: mult.commute)
  then show ?thesis by (simp add: safety_threshold_def n_def K_def)
qed

section \<open>Limit keys\<close>

datatype limit_type = RequestWeight | Orders | RawRequests

definition limit_type_from_binance_str :: "string \<Rightarrow> limit_type option" where
  "limit_type_from_binance_str s =
     (if s = ''REQUEST_WEIGHT'' then Some RequestWeight
      else if s = ''ORDERS'' then Some Orders
      else if s = ''RAW_REQUESTS'' then Some RawRequests else None)"

datatype limit_interval = Second | Minute | FiveMinute | Day

definition limit_interval_from_binance_str :: "string \<Rightarrow> limit_interval option" where
  "limit_interval_from_binance_str s =
     (if s = ''SECOND'' then Some Second
      else if s = ''MINUTE'' then Some Minute
      else if s = ''5MINUTE'' then Some FiveMinute
      else if s = ''DAY'' then Some Day else None)"

primrec interval_secs :: "limit_interval \<Rightarrow> nat" where
  "interval_secs Second = 1"
| "interval_secs Minute = 60"
| "interval_secs FiveMinute = 300"
| "interval_secs Day = 86400"

record limit_key =
  lk_type :: limit_type
  lk_interval :: limit_interval

definition key_request_weight :: limit_key where
  "key_request_weight = \<lparr>lk_type = RequestWeight, lk_interval = Minute\<rparr>"

section \<open>One bucket\<close>

definition DEFAULT_MAX_WEIGHT :: nat where "DEFAULT_MAX_WEIGHT = 60"
definition DEFAULT_WINDOW_SECS :: nat where "DEFAULT_WINDOW_SECS = 60"

record api_quota =
  max_weight :: nat
  window_secs :: nat

definition default_quota :: api_quota where
  "default_quota = \<lparr>max_weight = DEFAULT_MAX_WEIGHT, window_secs = DEFAULT_WINDOW_SECS\<rparr>"

record token_bucket =
  used_weight :: nat
  window_start :: instant
  quota :: api_quota
  discovered :: bool

definition token_bucket_new :: "instant \<Rightarrow> api_quota \<Rightarrow> token_bucket" where
  "token_bucket_new now q = \<lparr>used_weight = 0, window_start = now, quota = q, discovered = False\<rparr>"

text \<open>\<open>Instant::elapsed\<close> saturates at zero; \<open>now'\<close> is the second clock reading, of a restart.\<close>

definition elapsed_secs :: "instant \<Rightarrow> token_bucket \<Rightarrow> int" where
  "elapsed_secs now b = as_secs (duration_since now (window_start b))"

definition reset_if_expired :: "instant \<Rightarrow> instant \<Rightarrow> token_bucket \<Rightarrow> token_bucket" where
  "reset_if_expired now now' b =
     (if elapsed_secs now b \<ge> int (window_secs (quota b)) then b\<lparr>used_weight := 0, window_start := now'\<rparr> else b)"

text \<open>The sum of two \<open>u32\<close> values: a panic with overflow checks, modulo \<open>2 ^ 32\<close> without.\<close>

definition u32_add :: "bool \<Rightarrow> nat \<Rightarrow> nat \<Rightarrow> nat option" where
  "u32_add oc a b = (if a + b < 2 ^ 32 then Some (a + b) else if oc then None else Some ((a + b) mod 2 ^ 32))"

definition bucket_try_acquire :: "bool \<Rightarrow> instant \<Rightarrow> instant \<Rightarrow> nat \<Rightarrow> token_bucket \<Rightarrow> (token_bucket \<times> bool) option" where
  "bucket_try_acquire oc now now' weight b0 =
     (let b = reset_if_expired now now' b0; threshold = safety_threshold (max_weight (quota b))
      in case u32_add oc (used_weight b) weight of
           None \<Rightarrow> None
         | Some w \<Rightarrow> Some (if w \<le> threshold then (b\<lparr>used_weight := w\<rparr>, True) else (b, False)))"

definition bucket_secs_until_reset :: "instant \<Rightarrow> token_bucket \<Rightarrow> nat" where
  "bucket_secs_until_reset now b = window_secs (quota b) - nat (elapsed_secs now b)"

definition bucket_update_used_weight :: "instant \<Rightarrow> instant \<Rightarrow> nat \<Rightarrow> token_bucket \<Rightarrow> token_bucket" where
  "bucket_update_used_weight now now' weight b = (reset_if_expired now now' b)\<lparr>used_weight := weight\<rparr>"

definition bucket_update_quota_from_limit :: "nat \<Rightarrow> token_bucket \<Rightarrow> token_bucket" where
  "bucket_update_quota_from_limit limit b =
     (if limit = 0 then b
      else if \<not> discovered b \<or> limit \<noteq> max_weight (quota b)
      then b\<lparr>quota := (quota b)\<lparr>max_weight := limit\<rparr>, discovered := True\<rparr> else b)"

definition bucket_update_quota :: "nat \<Rightarrow> nat \<Rightarrow> token_bucket \<Rightarrow> token_bucket" where
  "bucket_update_quota mw ws b =
     (let b1 = (if mw > 0 then b\<lparr>quota := (quota b)\<lparr>max_weight := mw\<rparr>, discovered := True\<rparr> else b)
      in if ws > 0 then b1\<lparr>quota := (quota b1)\<lparr>window_secs := ws\<rparr>\<rparr> else b1)"

definition bucket_reset_after_429 :: "instant \<Rightarrow> token_bucket \<Rightarrow> token_bucket" where
  "bucket_reset_after_429 now b = b\<lparr>used_weight := 0, window_start := now\<rparr>"

section \<open>The limiter\<close>

type_synonym rate_limiter = "limit_key \<rightharpoonup> token_bucket"

definition rate_limiter_new :: "instant \<Rightarrow> api_quota \<Rightarrow> rate_limiter" where
  "rate_limiter_new now q = [key_request_weight \<mapsto> token_bucket_new now q]"

definition ensure_bucket :: "instant \<Rightarrow> limit_key \<Rightarrow> rate_limiter \<Rightarrow> rate_limiter" where
  "ensure_bucket now k l =
     (case l k of
        None \<Rightarrow> l(k \<mapsto> token_bucket_new now \<lparr>max_weight = DEFAULT_MAX_WEIGHT, window_secs = interval_secs (lk_interval k)\<rparr>)
      | Some _ \<Rightarrow> l)"

text \<open>\<open>bucket_mut\<close> followed by an update of the bucket; \<open>t0\<close> is the clock when the bucket is created.\<close>

definition on_bucket :: "instant \<Rightarrow> limit_key \<Rightarrow> (token_bucket \<Rightarrow> token_bucket) \<Rightarrow> rate_limiter \<Rightarrow> rate_limiter" where
  "on_bucket t0 k f l = (let l' = ensure_bucket t0 k l in l'(k := map_option f (l' k)))"

definition try_acquire_for :: "bool \<Rightarrow> instant \<Rightarrow> instant \<Rightarrow> instant \<Rightarrow> limit_key \<Rightarrow> nat \<Rightarrow> rate_limiter \<Rightarrow> (rate_limiter \<times> bool) option" where
  "try_acquire_for oc t0 now now' k weight l =
     (let l' = ensure_bucket t0 k l
      in case l' k of
           None \<Rightarrow> None
         | Some b \<Rightarrow> map_option (\<lambda>(b', ok). (l'(k \<mapsto> b'), ok)) (bucket_try_acquire oc now now' weight b))"

definition secs_until_reset_for :: "instant \<Rightarrow> limit_key \<Rightarrow> rate_limiter \<Rightarrow> nat" where
  "secs_until_reset_for now k l = (case l k of Some b \<Rightarrow> bucket_secs_until_reset now b | None \<Rightarrow> 0)"

definition update_used_weight_for :: "instant \<Rightarrow> instant \<Rightarrow> instant \<Rightarrow> limit_key \<Rightarrow> nat \<Rightarrow> rate_limiter \<Rightarrow> rate_limiter" where
  "update_used_weight_for t0 now now' k weight = on_bucket t0 k (bucket_update_used_weight now now' weight)"

definition update_quota_from_limit_for :: "instant \<Rightarrow> limit_key \<Rightarrow> nat \<Rightarrow> rate_limiter \<Rightarrow> rate_limiter" where
  "update_quota_from_limit_for t0 k limit = on_bucket t0 k (bucket_update_quota_from_limit limit)"

definition update_quota_for :: "instant \<Rightarrow> limit_key \<Rightarrow> nat \<Rightarrow> nat \<Rightarrow> rate_limiter \<Rightarrow> rate_limiter" where
  "update_quota_for t0 k mw ws = on_bucket t0 k (bucket_update_quota mw ws)"

definition reset_after_429 :: "instant \<Rightarrow> rate_limiter \<Rightarrow> rate_limiter" where
  "reset_after_429 now l = (\<lambda>k. map_option (bucket_reset_after_429 now) (l k))"

definition register_bucket :: "instant \<Rightarrow> limit_key \<Rightarrow> nat \<Rightarrow> rate_limiter \<Rightarrow> rate_limiter" where
  "register_bucket now k mw l =
     l(k \<mapsto> token_bucket_new now \<lparr>max_weight = mw, window_secs = interval_secs (lk_interval k)\<rparr>)"

definition used_weight_for :: "limit_key \<Rightarrow> rate_limiter \<Rightarrow> nat" where
  "used_weight_for k l = (case l k of Some b \<Rightarrow> used_weight b | None \<Rightarrow> 0)"

definition max_weight_for :: "limit_key \<Rightarrow> rate_limiter \<Rightarrow> nat" where
  "max_weight_for k l = (case l k of Some b \<Rightarrow> max_weight (quota b) | None \<Rightarrow> 0)"

definition try_acquire_weighted :: "bool \<Rightarrow> instant \<Rightarrow> instant \<Rightarrow> instant \<Rightarrow> nat \<Rightarrow> rate_limiter \<Rightarrow> (rate_limiter \<times> bool) option" where
  "try_acquire_weighted oc t0 now now' weight = try_acquire_for oc t0 now now' key_request_weight weight"

section \<open>Response headers\<close>

text \<open>
  A header map gives the value of a header as a string, when it is one.  \<open>str::parse::<u32>\<close> reads
  an optional plus sign and at least one decimal digit, and fails beyond the type's maximum.
\<close>

type_synonym header_map = "string \<rightharpoonup> string"

definition digit_value :: "char \<Rightarrow> nat option" where
  "digit_value c = (let n = of_char c in if 48 \<le> n \<and> n \<le> 57 then Some (n - 48) else None)"

fun digits_value :: "nat \<Rightarrow> string \<Rightarrow> nat option" where
  "digits_value acc [] = Some acc"
| "digits_value acc (c # cs) =
     (case digit_value c of Some d \<Rightarrow> digits_value (acc * 10 + d) cs | None \<Rightarrow> None)"

definition parse_unsigned :: "nat \<Rightarrow> string \<Rightarrow> nat option" where
  "parse_unsigned bits s =
     (let ds = (case s of c # cs \<Rightarrow> if c = CHR ''+'' then cs else s | [] \<Rightarrow> [])
      in if ds = [] then None
         else case digits_value 0 ds of
                Some n \<Rightarrow> if n < 2 ^ bits then Some n else None
              | None \<Rightarrow> None)"

text \<open>ASCII white space, as \<open>str::trim\<close> removes it from a header value (which is ASCII).\<close>

definition is_space :: "char \<Rightarrow> bool" where
  "is_space c \<longleftrightarrow> (let n = of_char c :: nat in n = 32 \<or> (9 \<le> n \<and> n \<le> 13))"

definition trim :: "string \<Rightarrow> string" where
  "trim s = rev (dropWhile is_space (rev (dropWhile is_space s)))"

definition leading_number :: "string \<Rightarrow> nat option" where
  "leading_number v = parse_unsigned 32 (trim (takeWhile (\<lambda>c. c \<noteq> CHR '';'') v))"

fun first_parsed :: "header_map \<Rightarrow> string list \<Rightarrow> nat option" where
  "first_parsed h [] = None"
| "first_parsed h (k # ks) =
     (case Option.bind (h k) leading_number of Some n \<Rightarrow> Some n | None \<Rightarrow> first_parsed h ks)"

definition extract_rate_limit_from_headers :: "header_map \<Rightarrow> nat option" where
  "extract_rate_limit_from_headers h =
     first_parsed h [''x-ratelimit-limit'', ''x-rate-limit-limit'', ''ratelimit-limit'']"

primrec used_weight_header :: "limit_interval \<Rightarrow> string" where
  "used_weight_header Second = ''x-mbx-used-weight-1s''"
| "used_weight_header Minute = ''x-mbx-used-weight-1m''"
| "used_weight_header FiveMinute = ''x-mbx-used-weight-5m''"
| "used_weight_header Day = ''x-mbx-used-weight-1d''"

definition extract_used_weight_for_interval :: "header_map \<Rightarrow> limit_interval \<Rightarrow> nat option" where
  "extract_used_weight_for_interval h i = Option.bind (h (used_weight_header i)) (parse_unsigned 32)"

text \<open>The first remaining-weight header that parses counts, if a limit header parses too.\<close>

definition extract_used_weight_from_headers :: "header_map \<Rightarrow> nat option" where
  "extract_used_weight_from_headers h =
     (case (first_parsed h [''x-ratelimit-remaining'', ''x-rate-limit-remaining'', ''ratelimit-remaining''],
            extract_rate_limit_from_headers h) of
        (Some r, Some limit) \<Rightarrow> Some (limit - r)
      | _ \<Rightarrow> extract_used_weight_for_interval h Minute)"

primrec order_count_header :: "limit_interval \<Rightarrow> string option" where
  "order_count_header Second = Some ''x-mbx-order-count-1s''"
| "order_count_header Minute = Some ''x-mbx-order-count-1m''"
| "order_count_header Day = Some ''x-mbx-order-count-1d''"
| "order_count_header FiveMinute = None"

definition extract_order_count_from_headers :: "header_map \<Rightarrow> limit_interval \<Rightarrow> nat option" where
  "extract_order_count_from_headers h i =
     (case order_count_header i of None \<Rightarrow> None | Some k \<Rightarrow> Option.bind (h k) (parse_unsigned 32))"

definition DEFAULT_RETRY_AFTER_SECS :: nat where "DEFAULT_RETRY_AFTER_SECS = 10"

definition extract_retry_after_from_headers :: "header_map \<Rightarrow> nat" where
  "extract_retry_after_from_headers h =
     (case Option.bind (h ''retry-after'') (parse_unsigned 64) of Some n \<Rightarrow> n | None \<Rightarrow> DEFAULT_RETRY_AFTER_SECS)"

section \<open>Budgets are respected\<close>

text \<open>
  A run of acquisitions on one bucket, each with its two clock readings.  The log \<open>g\<close> holds, per grant,
  the start of the window it was counted in and its weight.
\<close>

fun acquire_run :: "bool \<Rightarrow> (instant \<times> instant \<times> nat) list \<Rightarrow> token_bucket \<times> (instant \<times> nat) list
    \<Rightarrow> (token_bucket \<times> (instant \<times> nat) list) option" where
  "acquire_run oc [] s = Some s"
| "acquire_run oc ((now, now', w) # cs) (b, g) =
     (case bucket_try_acquire oc now now' w b of
        None \<Rightarrow> None
      | Some (b', ok) \<Rightarrow> acquire_run oc cs (b', if ok then g @ [(window_start b', w)] else g))"

definition granted_in :: "instant \<Rightarrow> (instant \<times> nat) list \<Rightarrow> nat" where
  "granted_in s g = sum_list (map snd (filter (\<lambda>(s', w). s' = s) g))"

lemma granted_in_simps [simp]:
  "granted_in s [] = 0" "granted_in s (g @ [(s', w)]) = granted_in s g + (if s' = s then w else 0)"
  by (simp_all add: granted_in_def)

lemma granted_in_outside: "s \<notin> fst ` set g \<Longrightarrow> granted_in s g = 0"
  by (induction g) (auto simp: granted_in_def)

fun clocks_ok :: "instant \<Rightarrow> (instant \<times> instant \<times> nat) list \<Rightarrow> bool" where
  "clocks_ok t [] = True"
| "clocks_ok t ((now, now', w) # cs) \<longleftrightarrow> t \<le> now \<and> now \<le> now' \<and> clocks_ok now' cs"

definition window_ns :: "api_quota \<Rightarrow> int" where
  "window_ns q = int (window_secs q) * 1000000000"

definition budget_inv :: "api_quota \<Rightarrow> token_bucket \<Rightarrow> (instant \<times> nat) list \<Rightarrow> bool" where
  "budget_inv q b g \<longleftrightarrow>
     quota b = q \<and> used_weight b = granted_in (window_start b) g
     \<and> (\<forall>s. granted_in s g \<le> 9 * max_weight q div 10)
     \<and> (\<forall>s \<in> fst ` set g. s = window_start b \<or> s + window_ns q \<le> window_start b)
     \<and> (\<forall>s \<in> fst ` set g. \<forall>s' \<in> fst ` set g. s < s' \<longrightarrow> s + window_ns q \<le> s')"

lemma elapsed_secs_iff:
  "elapsed_secs now b \<ge> int n \<longleftrightarrow> n = 0 \<or> window_start b + int n * 1000000000 \<le> now"
  by (auto simp: elapsed_secs_def as_secs_def duration_since_def max_def)

lemma reset_keeps_budget_inv:
  assumes "budget_inv q b g" "0 < window_secs q" "now \<le> now'"
  shows "budget_inv q (reset_if_expired now now' b) g"
proof (cases "elapsed_secs now b \<ge> int (window_secs q)")
  case False
  with assms show ?thesis by (simp add: reset_if_expired_def budget_inv_def)
next
  case True
  with assms have le: "window_start b + window_ns q \<le> now'"
    by (auto simp: elapsed_secs_iff window_ns_def)
  have pos: "0 < window_ns q" using assms(2) by (simp add: window_ns_def)
  from assms(1) le pos have old: "s + window_ns q \<le> now'" if "s \<in> fst ` set g" for s
    using that by (fastforce simp: budget_inv_def)
  then have "now' \<notin> fst ` set g" using pos by force
  then have "granted_in now' g = 0" by (rule granted_in_outside)
  with True assms(1) old show ?thesis by (simp add: reset_if_expired_def budget_inv_def)
qed

lemma acquire_keeps_budget_inv:
  assumes "budget_inv q b g" "max_weight q \<le> 2 ^ 31" "w \<le> 2 ^ 31" "0 < window_secs q" "now \<le> now'"
  shows "\<exists>b' ok. bucket_try_acquire oc now now' w b = Some (b', ok)
     \<and> budget_inv q b' (if ok then g @ [(window_start b', w)] else g)
     \<and> window_start b' \<le> max now' (window_start b)
     \<and> (ok \<longleftrightarrow> granted_in (window_start b') g + w \<le> 9 * max_weight q div 10)"
proof -
  define b1 where "b1 = reset_if_expired now now' b"
  have inv: "budget_inv q b1 g"
    unfolding b1_def using assms by (intro reset_keeps_budget_inv) auto
  have start: "window_start b1 \<le> max now' (window_start b)"
    by (simp add: b1_def reset_if_expired_def)
  from inv have u: "used_weight b1 = granted_in (window_start b1) g" "quota b1 = q"
    "used_weight b1 \<le> 9 * max_weight q div 10"
    by (auto simp: budget_inv_def)
  have thr: "safety_threshold (max_weight (quota b1)) = 9 * max_weight q div 10"
    using assms(2) u(2) by (simp add: safety_threshold_eq)
  have "used_weight b1 + w < 2 ^ 32" using u(3) assms(2,3) by simp
  then have r: "bucket_try_acquire oc now now' w b =
      Some (if used_weight b1 + w \<le> 9 * max_weight q div 10 then (b1\<lparr>used_weight := used_weight b1 + w\<rparr>, True) else (b1, False))"
    by (simp add: bucket_try_acquire_def u32_add_def thr flip: b1_def)
  show ?thesis
  proof (cases "used_weight b1 + w \<le> 9 * max_weight q div 10")
    case True
    then have "budget_inv q (b1\<lparr>used_weight := used_weight b1 + w\<rparr>) (g @ [(window_start b1, w)])"
      using inv u by (auto simp: budget_inv_def)
    with r True start u show ?thesis by simp
  next
    case False
    with r inv start u show ?thesis by simp
  qed
qed

lemma acquire_run_budget:
  assumes "budget_inv q b g" "max_weight q \<le> 2 ^ 31" "0 < window_secs q"
    and "window_start b \<le> t" "clocks_ok t cs" "\<forall>(n, n', w) \<in> set cs. w \<le> 2 ^ 31"
  shows "\<exists>b' g'. acquire_run oc cs (b, g) = Some (b', g') \<and> budget_inv q b' g'"
  using assms
proof (induction cs arbitrary: b g t)
  case (Cons c cs)
  obtain now now' w where c: "c = (now, now', w)" by (cases c)
  with Cons.prems have w: "w \<le> 2 ^ 31" and clk: "t \<le> now" "now \<le> now'" "clocks_ok now' cs" by auto
  from acquire_keeps_budget_inv [OF Cons.prems(1,2) w Cons.prems(3) clk(2), of oc]
  obtain b' ok where b': "bucket_try_acquire oc now now' w b = Some (b', ok)"
    "budget_inv q b' (if ok then g @ [(window_start b', w)] else g)" "window_start b' \<le> max now' (window_start b)"
    by blast
  from b'(3) clk Cons.prems(4) have "window_start b' \<le> now'" by simp
  from Cons.IH [OF b'(2) Cons.prems(2,3) this clk(3)] Cons.prems(6) b'(1) c show ?case by auto
qed auto

lemma fresh_budget_inv: "budget_inv q (token_bucket_new t q) []"
  by (simp add: budget_inv_def token_bucket_new_def)

text \<open>Buckets are independent: an acquisition leaves every other bucket alone.\<close>

lemma try_acquire_for_other:
  "try_acquire_for oc t0 now now' k w l = Some (l', ok) \<Longrightarrow> k' \<noteq> k \<Longrightarrow> l' k' = l k'"
  by (auto simp: try_acquire_for_def ensure_bucket_def Let_def split: option.splits if_splits)

text \<open>
  The rate limiter keeps its budget.  For every 31-bit quota, any sequence of requests with 31-bit
  weights at non-decreasing times runs without overflow, and the weights granted within one
  window never sum to more than 90 percent of the quota, rounded down; two windows that granted
  something start at least the configured number of seconds apart.
\<close>

lemma rate_budget_respected:
  assumes "max_weight q \<le> 2 ^ 31" "0 < window_secs q" "clocks_ok t cs" "\<forall>(n, n', w) \<in> set cs. w \<le> 2 ^ 31"
  shows "\<exists>b g. acquire_run oc cs (token_bucket_new t q, []) = Some (b, g)
    \<and> (\<forall>s. granted_in s g \<le> 9 * max_weight q div 10)
    \<and> (\<forall>s \<in> fst ` set g. \<forall>s' \<in> fst ` set g. s < s' \<longrightarrow> s + int (window_secs q) * 1000000000 \<le> s')"
proof -
  have "window_start (token_bucket_new t q) \<le> t" by (simp add: token_bucket_new_def)
  from acquire_run_budget [OF fresh_budget_inv assms(1,2) this assms(3,4), of oc]
  obtain b g where "acquire_run oc cs (token_bucket_new t q, []) = Some (b, g)" "budget_inv q b g"
    by blast
  then show ?thesis by (auto simp: budget_inv_def window_ns_def)
qed

lemma rate_budget_respected_witness:
  "\<exists>b g. acquire_run True [(1, 1, 9), (2, 2, 1), (1000000003, 1000000004, 5)]
        (token_bucket_new 0 \<lparr>max_weight = 10, window_secs = 1\<rparr>, []) = Some (b, g)
     \<and> (\<forall>s. granted_in s g \<le> 9)"
  using rate_budget_respected [of "\<lparr>max_weight = 10, window_secs = 1\<rparr>" 0
      "[(1, 1, 9), (2, 2, 1), (1000000003, 1000000004, 5)]" True]
  by auto

end
