(* ===== verification/Http_Client.thy ===== *)
theory Http_Client
  imports Effects Rate_Limiter Order_Book Chain_Types
begin

text \<open>
  \<open>exchange/http_client.rs\<close> and the JSON values of \<open>serde_json\<close>: the client below both exchange adapters,
  with its rate-limit gate, the synchronisation of the limiter with response headers, and retries.

  The world of a call is the history of requests and waits and the shared limiter; its record is
  extensible, so that an adapter can add its own state.  The server, the clocks and what other tasks do to the
  limiter while this one awaits are functions of the history.
\<close>

section \<open>JSON\<close>

datatype json =
    JNull
  | JBool bool
  | JInt int
  | JFloat rat
  | JStr string
  | JArr "json list"
  | JObj "(string \<times> json) list"

text \<open>Indexing gives null for what is not there.\<close>

definition json_get :: "json \<Rightarrow> string \<Rightarrow> json" where
  "json_get j k =
     (case j of
        JObj kvs \<Rightarrow> (case map_of kvs k of Some v \<Rightarrow> v | None \<Rightarrow> JNull)
      | _ \<Rightarrow> JNull)"

definition json_nth :: "json \<Rightarrow> nat \<Rightarrow> json" where
  "json_nth j i = (case j of JArr vs \<Rightarrow> if i < length vs then vs ! i else JNull | _ \<Rightarrow> JNull)"

definition as_string :: "json \<Rightarrow> string option" where
  "as_string j = (case j of JStr s \<Rightarrow> Some s | _ \<Rightarrow> None)"

definition as_array :: "json \<Rightarrow> json list option" where
  "as_array j = (case j of JArr vs \<Rightarrow> Some vs | _ \<Rightarrow> None)"

definition as_bool :: "json \<Rightarrow> bool option" where
  "as_bool j = (case j of JBool b \<Rightarrow> Some b | _ \<Rightarrow> None)"

definition json_u64 :: "json \<Rightarrow> nat option" where
  "json_u64 j = (case j of JInt n \<Rightarrow> if 0 \<le> n \<and> n < 2 ^ 64 then Some (nat n) else None | _ \<Rightarrow> None)"

definition json_i64 :: "json \<Rightarrow> int option" where
  "json_i64 j = (case j of JInt n \<Rightarrow> if - (2 ^ 63) \<le> n \<and> n < 2 ^ 63 then Some n else None | _ \<Rightarrow> None)"

definition or_else :: "'a option \<Rightarrow> 'a \<Rightarrow> 'a" where
  "or_else x d = (case x of Some v \<Rightarrow> v | None \<Rightarrow> d)"

section \<open>Requests and responses\<close>

datatype http_method = HttpGet | HttpPost | HttpDelete

record http_request =
  hr_method :: http_method
  hr_url :: string
  hr_api_key :: "string option"

record http_response =
  hp_status :: nat
  hp_headers :: header_map
  hp_body :: "string + json"

record send_error =
  se_is_timeout :: bool
  se_is_connect :: bool
  se_message :: string

datatype http_event =
    HttpSent http_request
  | HttpSlept nat
  | HttpWaited

type_synonym http_history = "http_event list"

record http_world =
  hw_log :: http_history
  hw_limiter :: rate_limiter

type_synonym ('w, 'a) http_call = "('w http_world_scheme, exchange_error, 'a) call"

definition http_emit :: "http_event \<Rightarrow> 'w http_world_scheme \<Rightarrow> 'w http_world_scheme" where
  "http_emit e w = w\<lparr>hw_log := hw_log w @ [e]\<rparr>"

text \<open>\<open>he_now h i\<close> is the \<open>i\<close>-th clock reading after \<open>h\<close>; \<open>he_others\<close> is what other tasks do to the limiter meanwhile.\<close>

record http_env =
  he_send :: "http_history \<Rightarrow> http_request \<Rightarrow> send_error + http_response"
  he_now :: "http_history \<Rightarrow> nat \<Rightarrow> instant"
  he_unix_ms :: "http_history \<Rightarrow> nat option"
  he_others :: "http_history \<Rightarrow> rate_limiter \<Rightarrow> rate_limiter"
  he_overflow_checks :: bool

section \<open>Retry configuration\<close>

record retry_config =
  rt_max_retries :: nat
  rt_base_backoff_secs :: nat
  rt_max_backoff_secs :: nat
  rt_retry_on_429 :: bool
  rt_retry_on_timeout :: bool

definition retry_config_default :: retry_config where
  "retry_config_default =
     \<lparr>rt_max_retries = 2, rt_base_backoff_secs = 1, rt_max_backoff_secs = 30, rt_retry_on_429 = True,
      rt_retry_on_timeout = True\<rparr>"

definition no_retry :: retry_config where
  "no_retry =
     \<lparr>rt_max_retries = 0, rt_base_backoff_secs = 1, rt_max_backoff_secs = 30, rt_retry_on_429 = False,
      rt_retry_on_timeout = False\<rparr>"

record http_client =
  hc_retry :: retry_config
  hc_enabled :: bool

definition compute_backoff_secs :: "nat \<Rightarrow> nat \<Rightarrow> nat \<Rightarrow> nat" where
  "compute_backoff_secs try_no base_wait max_backoff_secs =
     (let exp = min (2 ^ 64 - 1) (2 ^ (try_no - 1))
      in min (min (2 ^ 64 - 1) (base_wait * exp)) max_backoff_secs)"

definition exponential_backoff :: "nat \<Rightarrow> nat \<Rightarrow> retry_config \<Rightarrow> 'w http_world_scheme \<Rightarrow> 'w http_world_scheme" where
  "exponential_backoff try_no base_wait cfg =
     http_emit (HttpSlept (compute_backoff_secs try_no base_wait (rt_max_backoff_secs cfg)))"

section \<open>Rate limit\<close>

text \<open>The gate: it loops until the limiter grants the weight, waiting for a window reset in between.\<close>

partial_function (option) check_rate_limit :: "http_env \<Rightarrow> nat \<Rightarrow> ('w, unit) http_call" where
  "check_rate_limit E weight w =
     (let h = hw_log w
      in case try_acquire_weighted (he_overflow_checks E) (he_now E h 0) (he_now E h 1) (he_now E h 2) weight (hw_limiter w) of
           None \<Rightarrow> Some (w, Panic)
         | Some (l, granted) \<Rightarrow>
             (if granted then Some (w\<lparr>hw_limiter := l\<rparr>, Ok ())
              else check_rate_limit E weight
                     (http_emit HttpWaited (w\<lparr>hw_limiter := he_others E h l\<rparr>))))"

declare check_rate_limit.simps [code]

definition sync_interval :: "(nat \<Rightarrow> instant) \<Rightarrow> header_map \<Rightarrow> limit_interval \<Rightarrow> rate_limiter \<Rightarrow> rate_limiter" where
  "sync_interval now headers i l =
     (let l1 = (case extract_used_weight_for_interval headers i of
                  Some weight \<Rightarrow> update_used_weight_for (now 0) (now 1) (now 2) \<lparr>lk_type = RequestWeight, lk_interval = i\<rparr> weight l
                | None \<Rightarrow> l)
      in case extract_order_count_from_headers headers i of
           Some count \<Rightarrow> update_used_weight_for (now 3) (now 4) (now 5) \<lparr>lk_type = Orders, lk_interval = i\<rparr> count l1
         | None \<Rightarrow> l1)"

definition sync_rate_limit_headers :: "(nat \<Rightarrow> instant) \<Rightarrow> header_map \<Rightarrow> rate_limiter \<Rightarrow> rate_limiter" where
  "sync_rate_limit_headers now headers l =
     (let l1 = (case extract_rate_limit_from_headers headers of
                  Some limit \<Rightarrow> update_quota_from_limit_for (now 0) key_request_weight limit l | None \<Rightarrow> l);
          l2 = (case extract_used_weight_from_headers headers of
                  Some used \<Rightarrow> update_used_weight_for (now 1) (now 2) (now 3) key_request_weight used l1 | None \<Rightarrow> l1)
      in fold (\<lambda>(n, i). sync_interval (\<lambda>k. now (4 + 6 * n + k)) headers i)
           [(0, Second), (1, Minute), (2, FiveMinute), (3, Day)] l2)"

section \<open>Sending\<close>

definition TOO_MANY_REQUESTS :: nat where "TOO_MANY_REQUESTS = 429"

definition is_retryable :: "retry_config \<Rightarrow> send_error \<Rightarrow> bool" where
  "is_retryable cfg e \<longleftrightarrow> se_is_timeout e \<and> rt_retry_on_timeout cfg \<or> se_is_connect e"

text \<open>One pass of the loop after the gate: the request, the limiter's update and what to do next.\<close>

datatype ('w, 'a) pass = Finished "'w" "(exchange_error, 'a) outcome" | Again "'w"

definition send_pass ::
  "http_env \<Rightarrow> http_client \<Rightarrow> (http_history \<Rightarrow> exchange_error + http_request) \<Rightarrow> nat \<Rightarrow> 'w http_world_scheme
     \<Rightarrow> ('w http_world_scheme, http_response) pass" where
  "send_pass E C build try_no w =
     (case build (hw_log w) of
        Inl e \<Rightarrow> Finished w (Err e)
      | Inr request \<Rightarrow>
          (let h = hw_log w;
               w1 = http_emit (HttpSent request) (w\<lparr>hw_limiter := he_others E h (hw_limiter w)\<rparr>);
               now = he_now E (hw_log w1);
               may_retry = try_no \<le> rt_max_retries (hc_retry C)
           in case he_send E h request of
                Inr response \<Rightarrow>
                  (if \<not> hc_enabled C then Finished w1 (Ok response)
                   else let w2 = w1\<lparr>hw_limiter := sync_rate_limit_headers now (hp_headers response) (hw_limiter w1)\<rparr>
                        in if hp_status response \<noteq> TOO_MANY_REQUESTS then Finished w2 (Ok response)
                           else let retry_after = extract_retry_after_from_headers (hp_headers response);
                                    w3 = w2\<lparr>hw_limiter := reset_after_429 (now 28) (hw_limiter w2)\<rparr>
                                in if rt_retry_on_429 (hc_retry C) \<and> may_retry
                                   then Again (exponential_backoff try_no retry_after (hc_retry C) w3)
                                   else Finished w3 (Err (RateLimit (''429 Too Many Requests, retry after '' @ show_nat retry_after
                                          @ ''s (attempt '' @ show_nat try_no @ '')''))))
              | Inl err \<Rightarrow>
                  (if is_retryable (hc_retry C) err \<and> may_retry
                   then Again (exponential_backoff try_no DEFAULT_RETRY_AFTER_SECS (hc_retry C) w1)
                   else Finished w1 (Err (HttpError (se_message err))))))"

lemma send_pass_again: "send_pass E C build try_no w = Again w' \<Longrightarrow> try_no \<le> rt_max_retries (hc_retry C)"
  by (auto simp: send_pass_def Let_def split: sum.splits if_splits)

function send_loop ::
  "http_env \<Rightarrow> http_client \<Rightarrow> nat \<Rightarrow> (http_history \<Rightarrow> exchange_error + http_request) \<Rightarrow> nat \<Rightarrow> ('w, http_response) http_call" where
  "send_loop E C weight build try_no w =
     (case (if hc_enabled C then check_rate_limit E weight w else Some (w, Ok ())) of
        None \<Rightarrow> None
      | Some (w1, r) \<Rightarrow>
          (case r of
             Ok _ \<Rightarrow>
               (case send_pass E C build try_no w1 of
                  Finished w2 r2 \<Rightarrow> Some (w2, r2)
                | Again w2 \<Rightarrow> send_loop E C weight build (Suc try_no) w2)
           | Err e \<Rightarrow> Some (w1, Err e)
           | Panic \<Rightarrow> Some (w1, Panic)))"
  by pat_completeness auto

termination
  by (relation "measure (\<lambda>(E, C, weight, build, try_no, w). Suc (rt_max_retries (hc_retry C)) - try_no)")
    (auto dest: send_pass_again split: if_splits)

declare send_loop.simps [simp del]

definition send_tracked_fresh ::
  "http_env \<Rightarrow> http_client \<Rightarrow> nat \<Rightarrow> (http_history \<Rightarrow> exchange_error + http_request) \<Rightarrow> ('w, http_response) http_call" where
  "send_tracked_fresh E C weight build = send_loop E C weight build 1"

definition send_tracked :: "http_env \<Rightarrow> http_client \<Rightarrow> http_request \<Rightarrow> nat \<Rightarrow> ('w, http_response) http_call" where
  "send_tracked E C request weight = send_tracked_fresh E C weight (\<lambda>_. Inr request)"

definition http_get :: "http_env \<Rightarrow> http_client \<Rightarrow> string \<Rightarrow> string option \<Rightarrow> nat \<Rightarrow> ('w, http_response) http_call" where
  "http_get E C url api_key = send_tracked E C \<lparr>hr_method = HttpGet, hr_url = url, hr_api_key = api_key\<rparr>"

definition http_post :: "http_env \<Rightarrow> http_client \<Rightarrow> string \<Rightarrow> string option \<Rightarrow> nat \<Rightarrow> ('w, http_response) http_call" where
  "http_post E C url api_key = send_tracked E C \<lparr>hr_method = HttpPost, hr_url = url, hr_api_key = api_key\<rparr>"

definition http_delete :: "http_env \<Rightarrow> http_client \<Rightarrow> string \<Rightarrow> string option \<Rightarrow> nat \<Rightarrow> ('w, http_response) http_call" where
  "http_delete E C url api_key = send_tracked E C \<lparr>hr_method = HttpDelete, hr_url = url, hr_api_key = api_key\<rparr>"

text \<open>\<open>response.json().await?\<close>.\<close>

definition json_body :: "http_response \<Rightarrow> (exchange_error, json) outcome" where
  "json_body r = (case hp_body r of Inr j \<Rightarrow> Ok j | Inl e \<Rightarrow> Err (HttpError e))"

section \<open>What is sent\<close>

fun requests :: "http_history \<Rightarrow> http_request list" where
  "requests [] = []"
| "requests (HttpSent q # es) = q # requests es"
| "requests (e # es) = requests es"

lemma requests_append [simp]: "requests (es @ es') = requests es @ requests es'"
  by (induction es rule: requests.induct) simp_all

lemma http_emit_simps [simp]:
  "hw_log (http_emit e w) = hw_log w @ [e]" "hw_limiter (http_emit e w) = hw_limiter w"
  "http_world.more (http_emit e w) = http_world.more w"
  by (simp_all add: http_emit_def)

text \<open>The gate only waits.\<close>

lemma check_rate_limit_log:
  assumes "check_rate_limit E weight w = Some res"
  shows "(\<exists>es. hw_log (fst res) = hw_log w @ es \<and> requests es = []) \<and> http_world.more (fst res) = http_world.more w
    \<and> (\<forall>e. snd res \<noteq> Err e)"
proof (rule check_rate_limit.raw_induct
    [where P = "\<lambda>E weight w res. (\<exists>es. hw_log (fst res) = hw_log w @ es \<and> requests es = [])
       \<and> http_world.more (fst res) = http_world.more w \<and> (\<forall>e. snd res \<noteq> Err e)", OF _ assms], goal_cases)
  case (1 cr E weight w res)
  show ?case
  proof (cases "try_acquire_weighted (he_overflow_checks E) (he_now E (hw_log w) 0) (he_now E (hw_log w) 1)
      (he_now E (hw_log w) 2) weight (hw_limiter w)")
    case (Some lg)
    obtain l g where lg: "lg = (l, g)" by (cases lg)
    show ?thesis
    proof (cases g)
      case False
      let ?w = "http_emit HttpWaited (w\<lparr>hw_limiter := he_others E (hw_log w) l\<rparr>)"
      from 1(2) Some lg False have "cr E weight ?w = Some res" by (simp add: Let_def)
      from 1(1) [OF this] obtain es where "hw_log (fst res) = hw_log w @ HttpWaited # es" "requests es = []"
        "http_world.more (fst res) = http_world.more w" "\<forall>e. snd res \<noteq> Err e" by auto
      then show ?thesis by (intro conjI exI [of _ "HttpWaited # es"]) simp_all
    qed (use 1(2) Some lg in \<open>auto simp: Let_def\<close>)
  qed (use 1(2) in \<open>auto simp: Let_def\<close>)
qed

text \<open>One pass sends at most one request.\<close>

definition built :: "(http_history \<Rightarrow> exchange_error + http_request) \<Rightarrow> http_request \<Rightarrow> bool" where
  "built build q \<longleftrightarrow> (\<exists>h. build h = Inr q)"

definition answers :: "http_env \<Rightarrow> http_client \<Rightarrow> (http_history \<Rightarrow> exchange_error + http_request) \<Rightarrow> http_request list \<Rightarrow> http_response \<Rightarrow> bool" where
  "answers E C build qs resp \<longleftrightarrow>
     (\<exists>h q. build h = Inr q \<and> he_send E h q = Inr resp \<and> qs \<noteq> [] \<and> last qs = q
        \<and> (hc_enabled C \<longrightarrow> hp_status resp \<noteq> TOO_MANY_REQUESTS))"

lemma send_pass_finished:
  assumes "send_pass E C build n w = Finished w' r"
  shows "\<exists>es. hw_log w' = hw_log w @ es \<and> length (requests es) \<le> 1 \<and> (\<forall>q \<in> set (requests es). built build q)
    \<and> http_world.more w' = http_world.more w \<and> (\<forall>resp. r = Ok resp \<longrightarrow> answers E C build (requests es) resp)"
  using assms
  by (auto simp: send_pass_def Let_def answers_def built_def split: sum.splits if_splits)

lemma send_pass_again_log:
  assumes "send_pass E C build n w = Again w'"
  shows "\<exists>es. hw_log w' = hw_log w @ es \<and> length (requests es) = 1 \<and> (\<forall>q \<in> set (requests es). built build q)
    \<and> http_world.more w' = http_world.more w"
  using assms
  by (auto simp: send_pass_def Let_def built_def exponential_backoff_def split: sum.splits if_splits)

definition sends_within ::
  "http_env \<Rightarrow> http_client \<Rightarrow> (http_history \<Rightarrow> exchange_error + http_request) \<Rightarrow> nat \<Rightarrow> 'w http_world_scheme \<Rightarrow> 'w http_world_scheme
     \<Rightarrow> (exchange_error, http_response) outcome \<Rightarrow> bool" where
  "sends_within E C build n w w' r \<longleftrightarrow>
     (\<exists>es. hw_log w' = hw_log w @ es \<and> length (requests es) \<le> n \<and> (\<forall>q \<in> set (requests es). built build q)
        \<and> http_world.more w' = http_world.more w \<and> (\<forall>resp. r = Ok resp \<longrightarrow> answers E C build (requests es) resp))"

lemma sends_within_mono: "sends_within E C build k w w' r \<Longrightarrow> k \<le> n \<Longrightarrow> sends_within E C build n w w' r"
  unfolding sends_within_def by (meson order_trans)

lemma answers_append: "answers E C build qs' resp \<Longrightarrow> answers E C build (qs @ qs') resp"
  unfolding answers_def by (metis append_is_Nil_conv last_appendR)

lemma sends_within_gate:
  assumes "hw_log w1 = hw_log w @ es" "requests es = []" "http_world.more w1 = http_world.more w"
    and "sends_within E C build n w1 w' r"
  shows "sends_within E C build n w w' r"
proof -
  from assms(4) obtain es' where es': "hw_log w' = hw_log w1 @ es'" "length (requests es') \<le> n"
    "\<forall>q \<in> set (requests es'). built build q" "http_world.more w' = http_world.more w1"
    "\<forall>resp. r = Ok resp \<longrightarrow> answers E C build (requests es') resp"
    unfolding sends_within_def by blast
  with assms(1-3) show ?thesis unfolding sends_within_def by (intro exI [of _ "es @ es'"]) simp
qed

lemma sends_within_again:
  assumes "send_pass E C build n w = Again w1" "sends_within E C build k w1 w' r"
  shows "sends_within E C build (Suc k) w w' r"
proof -
  from send_pass_again_log [OF assms(1)] obtain es where es: "hw_log w1 = hw_log w @ es" "length (requests es) = 1"
    "\<forall>q \<in> set (requests es). built build q" "http_world.more w1 = http_world.more w" by blast
  from assms(2) obtain es' where es': "hw_log w' = hw_log w1 @ es'" "length (requests es') \<le> k"
    "\<forall>q \<in> set (requests es'). built build q" "http_world.more w' = http_world.more w1"
    "\<forall>resp. r = Ok resp \<longrightarrow> answers E C build (requests es') resp"
    unfolding sends_within_def by blast
  from es es' show ?thesis
    unfolding sends_within_def by (intro exI [of _ "es @ es'"]) (auto intro: answers_append)
qed

lemma send_loop_within:
  "send_loop E C weight build n w = Some (w', r) \<Longrightarrow> n \<le> Suc (rt_max_retries (hc_retry C))
     \<Longrightarrow> sends_within E C build (Suc (Suc (rt_max_retries (hc_retry C))) - n) w w' r"
proof (induction E C weight build n w arbitrary: w' r rule: send_loop.induct)
  case (1 E C weight build n w)
  let ?gate = "if hc_enabled C then check_rate_limit E weight w else Some (w, Ok ())"
  from 1(2) obtain w1 r1 where gate: "?gate = Some (w1, r1)"
    by (subst (asm) send_loop.simps) (auto split: option.splits)
  then obtain es where es: "hw_log w1 = hw_log w @ es" "requests es = []" "http_world.more w1 = http_world.more w"
    using check_rate_limit_log [of E weight w "(w1, r1)"] by (auto split: if_splits)
  note through = sends_within_gate [OF es]
  show ?case
  proof (cases r1)
    case (Ok u)
    show ?thesis
    proof (cases "send_pass E C build n w1")
      case (Finished w2 r2)
      with 1(2) gate Ok have "w2 = w' \<and> r2 = r" by (subst (asm) send_loop.simps) simp
      with send_pass_finished [OF Finished] have "sends_within E C build 1 w1 w' r" by (simp add: sends_within_def)
      from through [OF sends_within_mono [OF this]] 1(3) show ?thesis by simp
    next
      case (Again w2)
      with 1(2) gate Ok have rest: "send_loop E C weight build (Suc n) w2 = Some (w', r)"
        by (subst (asm) send_loop.simps) simp
      from send_pass_again [OF Again] have n: "Suc n \<le> Suc (rt_max_retries (hc_retry C))" by simp
      from through [OF sends_within_again [OF Again 1(1) [OF gate refl Ok Again rest n]]] n show ?thesis
        by (simp add: Suc_diff_le)
    qed
  qed (use 1(2,3) gate es in \<open>(subst (asm) send_loop.simps, auto simp: sends_within_def)+\<close>)
qed

text \<open>
  C35: an HTTP call of the exchange clients sends a bounded number of requests, each built by the caller: at
  most one more than the configured retries.  A response it returns is the server's answer to the last of
  them, and with rate limiting enabled it is never a \<open>429\<close>; the adapter's own state is untouched.
\<close>

theorem http_call_bounded:
  assumes "send_tracked_fresh E C weight build w = Some (w', r)"
  shows "\<exists>es. hw_log w' = hw_log w @ es \<and> length (requests es) \<le> Suc (rt_max_retries (hc_retry C))
    \<and> (\<forall>q \<in> set (requests es). built build q) \<and> http_world.more w' = http_world.more w
    \<and> (\<forall>resp. r = Ok resp \<longrightarrow> answers E C build (requests es) resp)"
  using send_loop_within [of E C weight build 1 w w' r] assms by (simp add: send_tracked_fresh_def sends_within_def)

text \<open>A server that drops the first answer.\<close>

definition flaky_env :: http_env where
  "flaky_env =
     \<lparr>he_send = (\<lambda>h q. if h = [] then Inl \<lparr>se_is_timeout = True, se_is_connect = False, se_message = ''operation timed out''\<rparr>
                   else Inr \<lparr>hp_status = 200, hp_headers = Map.empty, hp_body = Inr JNull\<rparr>),
      he_now = (\<lambda>h i. 0), he_unix_ms = (\<lambda>h. Some (1700000000000 + length h)), he_others = (\<lambda>h l. l), he_overflow_checks = True\<rparr>"

definition sample_request :: http_request where
  "sample_request = \<lparr>hr_method = HttpGet, hr_url = ''http://x'', hr_api_key = None\<rparr>"

definition sample_http :: http_client where
  "sample_http = \<lparr>hc_retry = retry_config_default, hc_enabled = False\<rparr>"

theorem http_call_bounded_witness:
  "\<exists>w'. send_tracked_fresh flaky_env sample_http 1 (\<lambda>h. Inr sample_request) \<lparr>hw_log = [], hw_limiter = Map.empty\<rparr>
       = Some (w', Ok \<lparr>hp_status = 200, hp_headers = Map.empty, hp_body = Inr JNull\<rparr>)
     \<and> requests (hw_log w') = [sample_request, sample_request]
     \<and> answers flaky_env sample_http (\<lambda>h. Inr sample_request) [sample_request, sample_request]
         \<lparr>hp_status = 200, hp_headers = Map.empty, hp_body = Inr JNull\<rparr>"
proof -
  have run: "send_tracked_fresh flaky_env sample_http 1 (\<lambda>h. Inr sample_request) \<lparr>hw_log = [], hw_limiter = Map.empty\<rparr>
      = Some (\<lparr>hw_log = [HttpSent sample_request, HttpSlept 10, HttpSent sample_request], hw_limiter = Map.empty\<rparr>,
          Ok \<lparr>hp_status = 200, hp_headers = Map.empty, hp_body = Inr JNull\<rparr>)"
    by (simp add: send_tracked_fresh_def send_loop.simps send_pass_def sample_http_def flaky_env_def Let_def is_retryable_def
        retry_config_default_def exponential_backoff_def compute_backoff_secs_def DEFAULT_RETRY_AFTER_SECS_def http_emit_def)
  from http_call_bounded [OF run] run show ?thesis by auto
qed

end
