(* ===== verification/Binance_Client.thy ===== *)
theory Binance_Client
  imports Http_Client Rounding Inventory
begin

text \<open>
  \<open>exchange/client.rs\<close>: the Binance REST client.  Requests are built as the strings that go over the wire,
  responses are JSON values.  The crate \<open>rust_decimal\<close>'s parsing and printing, the printing of floats, HMAC and
  the error text of \<open>serde_json\<close> are the record \<open>exchange_lib\<close>.  A \<open>HashMap\<close> returned to the caller is a map.
\<close>

section \<open>Types\<close>

record exchange_lib =
  xl_dec :: dec_ops
  xl_f64 :: f64_ops
  xl_from_str :: "string \<Rightarrow> string + dec"
  xl_from_str_exact :: "string \<Rightarrow> string + dec"
  xl_show_dec :: "dec \<Rightarrow> string"
  xl_show_f64 :: "rat \<Rightarrow> string"
  xl_hmac :: "string \<Rightarrow> string \<Rightarrow> bytes"
  xl_json_error :: "string \<Rightarrow> string"

record maker_taker =
  mt_maker :: dec
  mt_taker :: dec

record my_trade =
  my_id :: string
  my_order_id :: string
  my_symbol :: string
  my_side :: string
  my_price :: dec
  my_qty :: dec
  my_fee :: dec
  my_fee_asset :: string
  my_timestamp :: nat

record capital_network_config =
  cn_network :: string
  cn_name :: "string option"
  cn_withdraw_enable :: bool
  cn_deposit_enable :: bool
  cn_withdraw_fee :: dec
  cn_withdraw_min :: dec

record capital_coin_config =
  cp_coin :: string
  cp_name :: "string option"
  cp_networks :: "capital_network_config list"

record transfer_record =
  tf_id :: string
  tf_coin :: string
  tf_amount :: dec
  tf_network :: "string option"
  tf_address :: "string option"
  tf_tx_id :: "string option"
  tf_status :: int

definition withdrawal_completed :: "transfer_record \<Rightarrow> bool" where
  "withdrawal_completed r \<longleftrightarrow> tf_status r = 6"

definition withdrawal_failed :: "transfer_record \<Rightarrow> bool" where
  "withdrawal_failed r \<longleftrightarrow> tf_status r \<in> {1, 3, 5}"

definition deposit_credited :: "transfer_record \<Rightarrow> bool" where
  "deposit_credited r \<longleftrightarrow> tf_status r \<in> {1, 6}"

definition deposit_failed :: "transfer_record \<Rightarrow> bool" where
  "deposit_failed r \<longleftrightarrow> tf_status r = 2"

record symbol_filters =
  sf_min_qty :: "dec option"
  sf_max_qty :: "dec option"
  sf_step_size :: "dec option"
  sf_min_price :: "dec option"
  sf_max_price :: "dec option"
  sf_tick_size :: "dec option"
  sf_min_notional :: "dec option"

definition symbol_filters_default :: symbol_filters where
  "symbol_filters_default =
     \<lparr>sf_min_qty = None, sf_max_qty = None, sf_step_size = None, sf_min_price = None, sf_max_price = None,
      sf_tick_size = None, sf_min_notional = None\<rparr>"

record normalized_limit_order =
  no_quantity :: dec
  no_price :: dec

record binance_config =
  bc_api_key :: string
  bc_secret :: string
  bc_base_url :: string
  bc_ws_url :: string
  bc_sandbox :: bool
  bc_enable_rate_limit :: bool
  bc_recv_window :: nat

record binance_client =
  bn_config :: binance_config
  bn_http :: http_client
  bn_env :: http_env
  bn_lib :: exchange_lib

definition binance_client_new :: "binance_config \<Rightarrow> http_env \<Rightarrow> exchange_lib \<Rightarrow> binance_client" where
  "binance_client_new config E L =
     \<lparr>bn_config = config, bn_http = \<lparr>hc_retry = retry_config_default, hc_enabled = bc_enable_rate_limit config\<rparr>,
      bn_env = E, bn_lib = L\<rparr>"

text \<open>The cache of symbol filters is part of the client's state.\<close>

record binance_world = http_world +
  bw_filters :: "string \<rightharpoonup> symbol_filters"

type_synonym 'a binance_call = "(binance_world, exchange_error, 'a) call"

section \<open>Helpers\<close>

definition missing_field_err :: "exchange_lib \<Rightarrow> string \<Rightarrow> exchange_error" where
  "missing_field_err L field = JsonParse (xl_json_error L (''missing field: '' @ field))"

definition expected_array_err :: "exchange_lib \<Rightarrow> string \<Rightarrow> exchange_error" where
  "expected_array_err L ctxt = JsonParse (xl_json_error L (''expected array in '' @ ctxt))"

definition ok_or :: "'e \<Rightarrow> 'a option \<Rightarrow> ('e, 'a) outcome" where
  "ok_or e x = (case x of Some a \<Rightarrow> Ok a | None \<Rightarrow> Err e)"

text \<open>\<open>iter().map(f).collect::<Result<Vec<_>, _>>()\<close>, and a loop that pushes \<open>f(x)?\<close>.\<close>

fun try_map :: "('a \<Rightarrow> ('e, 'b) outcome) \<Rightarrow> 'a list \<Rightarrow> ('e, 'b list) outcome" where
  "try_map f [] = Ok []"
| "try_map f (x # xs) = bind_out (f x) (\<lambda>y. bind_out (try_map f xs) (\<lambda>ys. Ok (y # ys)))"

definition no_slash :: "string \<Rightarrow> string" where
  "no_slash s = filter (\<lambda>c. c \<noteq> CHR ''/'') s"

definition sign_query :: "exchange_lib \<Rightarrow> string \<Rightarrow> string \<Rightarrow> string" where
  "sign_query L query secret = hex_encode (xl_hmac L secret query)"

definition parse_decimal :: "exchange_lib \<Rightarrow> json \<Rightarrow> (exchange_error, dec) outcome" where
  "parse_decimal L v =
     (case as_string v of
        None \<Rightarrow> Err (DecimalParse ''expected string decimal'')
      | Some s \<Rightarrow> (case xl_from_str_exact L s of Inr d \<Rightarrow> Ok d | Inl e \<Rightarrow> Err (DecimalParse (''decimal parse: '' @ e))))"

definition decimal_or_zero :: "exchange_lib \<Rightarrow> json \<Rightarrow> dec" where
  "decimal_or_zero L v = (case parse_decimal L v of Ok d \<Rightarrow> d | _ \<Rightarrow> 0)"

section \<open>Symbol filters and order normalisation\<close>

definition decimal_filter :: "exchange_lib \<Rightarrow> json \<Rightarrow> (exchange_error, dec option) outcome" where
  "decimal_filter L v =
     (case as_string v of
        None \<Rightarrow> Ok None
      | Some raw \<Rightarrow>
          (case xl_from_str L raw of
             Inl e \<Rightarrow> Err (DecimalParse (''decimal parse: '' @ e))
           | Inr d \<Rightarrow> Ok (if d > 0 then Some d else None)))"

text \<open>Both alternatives of the notional filter are parsed before one is chosen.\<close>

definition apply_filter :: "exchange_lib \<Rightarrow> symbol_filters \<Rightarrow> json \<Rightarrow> (exchange_error, symbol_filters) outcome" where
  "apply_filter L acc f =
     (let kind = or_else (as_string (json_get f ''filterType'')) []; get = (\<lambda>k. decimal_filter L (json_get f k))
      in if kind = ''LOT_SIZE'' then
           bind_out (get ''minQty'') (\<lambda>mn. bind_out (get ''maxQty'') (\<lambda>mx. bind_out (get ''stepSize'') (\<lambda>st.
             Ok (acc\<lparr>sf_min_qty := mn, sf_max_qty := mx, sf_step_size := st\<rparr>))))
         else if kind = ''PRICE_FILTER'' then
           bind_out (get ''minPrice'') (\<lambda>mn. bind_out (get ''maxPrice'') (\<lambda>mx. bind_out (get ''tickSize'') (\<lambda>tk.
             Ok (acc\<lparr>sf_min_price := mn, sf_max_price := mx, sf_tick_size := tk\<rparr>))))
         else if kind = ''MIN_NOTIONAL'' \<or> kind = ''NOTIONAL'' then
           bind_out (get ''minNotional'') (\<lambda>a. bind_out (get ''notional'') (\<lambda>b.
             Ok (acc\<lparr>sf_min_notional := (if a \<noteq> None then a else if b \<noteq> None then b else sf_min_notional acc)\<rparr>)))
         else Ok acc)"

fun filter_loop :: "exchange_lib \<Rightarrow> json list \<Rightarrow> symbol_filters \<Rightarrow> (exchange_error, symbol_filters) outcome" where
  "filter_loop L [] acc = Ok acc"
| "filter_loop L (f # fs) acc = bind_out (apply_filter L acc f) (filter_loop L fs)"

definition parse_symbol_filters :: "exchange_lib \<Rightarrow> json \<Rightarrow> (exchange_error, symbol_filters) outcome" where
  "parse_symbol_filters L info =
     bind_out (ok_or (missing_field_err L ''filters'') (as_array (json_get info ''filters''))) (\<lambda>fs.
       filter_loop L fs symbol_filters_default)"

definition trunc :: "dec \<Rightarrow> dec" where
  "trunc d = of_int (if d \<ge> 0 then \<lfloor>d\<rfloor> else \<lceil>d\<rceil>)"

definition floor_to_step :: "dec_ops \<Rightarrow> dec \<Rightarrow> dec \<Rightarrow> dec" where
  "floor_to_step D v step = (if step \<le> 0 then v else dmul D (trunc (ddiv D v step)) step)"

definition opt_step :: "dec_ops \<Rightarrow> dec option \<Rightarrow> dec \<Rightarrow> dec" where
  "opt_step D step v = (case step of Some s \<Rightarrow> floor_to_step D v s | None \<Rightarrow> v)"

definition normalize_limit_order ::
  "exchange_lib \<Rightarrow> string \<Rightarrow> rat \<Rightarrow> rat \<Rightarrow> symbol_filters \<Rightarrow> (exchange_error, normalized_limit_order) outcome" where
  "normalize_limit_order L symbol amount price f =
     (let D = xl_dec L; rej = (\<lambda>s. Err (OrderRejected (symbol @ s))); shw = xl_show_dec L
      in case dec_of_f64 (xl_f64 L) amount of
           None \<Rightarrow> rej ('' invalid quantity '' @ xl_show_f64 L amount)
         | Some q0 \<Rightarrow>
             (case dec_of_f64 (xl_f64 L) price of
                None \<Rightarrow> rej ('' invalid price '' @ xl_show_f64 L price)
              | Some p0 \<Rightarrow>
                  (let q = opt_step D (sf_step_size f) q0; p = opt_step D (sf_tick_size f) p0
                   in if q \<le> 0 then rej '' quantity becomes zero after LOT_SIZE normalization''
                      else if p \<le> 0 then rej '' price becomes zero after PRICE_FILTER normalization''
                      else if (case sf_min_qty f of Some m \<Rightarrow> q < m | None \<Rightarrow> False)
                      then rej ('' quantity '' @ shw q @ '' below minQty '' @ shw (the (sf_min_qty f)))
                      else if (case sf_max_qty f of Some m \<Rightarrow> q > m | None \<Rightarrow> False)
                      then rej ('' quantity '' @ shw q @ '' above maxQty '' @ shw (the (sf_max_qty f)))
                      else if (case sf_min_price f of Some m \<Rightarrow> p < m | None \<Rightarrow> False)
                      then rej ('' price '' @ shw p @ '' below minPrice '' @ shw (the (sf_min_price f)))
                      else if (case sf_max_price f of Some m \<Rightarrow> p > m | None \<Rightarrow> False)
                      then rej ('' price '' @ shw p @ '' above maxPrice '' @ shw (the (sf_max_price f)))
                      else if (case sf_min_notional f of Some m \<Rightarrow> dmul D q p < m | None \<Rightarrow> False)
                      then rej ('' notional '' @ shw (dmul D q p) @ '' below minNotional '' @ shw (the (sf_min_notional f)))
                      else Ok \<lparr>no_quantity = q, no_price = p\<rparr>)))"

section \<open>Requests\<close>

definition get_json :: "binance_client \<Rightarrow> string \<Rightarrow> nat \<Rightarrow> ('w, json) http_call" where
  "get_json B url weight =
     seq (http_get (bn_env B) (bn_http B) url (Some (bc_api_key (bn_config B))) weight) (\<lambda>r. lift_out (json_body r))"

definition sign_request :: "binance_client \<Rightarrow> string \<Rightarrow> http_history \<Rightarrow> exchange_error + string" where
  "sign_request B query h =
     (case he_unix_ms (bn_env B) h of
        None \<Rightarrow> Inl (ConfigError ''system clock unavailable'')
      | Some ms \<Rightarrow>
          (let ts = show_nat (ms mod 2 ^ 64);
               signature = sign_query (bn_lib B) (query @ ''&timestamp='' @ ts) (bc_secret (bn_config B))
           in Inr (''timestamp='' @ ts @ ''&signature='' @ signature)))"

text \<open>\<open>signed_get_json\<close>, \<open>signed_post_json\<close> and \<open>signed_delete_json\<close>: the request is signed anew for every attempt.\<close>

definition signed_request :: "http_method \<Rightarrow> binance_client \<Rightarrow> string \<Rightarrow> string \<Rightarrow> http_history \<Rightarrow> exchange_error + http_request" where
  "signed_request method B path query h =
     (case sign_request B query h of
        Inl e \<Rightarrow> Inl e
      | Inr auth \<Rightarrow>
          Inr \<lparr>hr_method = method, hr_url = bc_base_url (bn_config B) @ path @ ''?'' @ query @ ''&'' @ auth,
               hr_api_key = Some (bc_api_key (bn_config B))\<rparr>)"

definition signed_json :: "http_method \<Rightarrow> binance_client \<Rightarrow> string \<Rightarrow> string \<Rightarrow> nat \<Rightarrow> ('w, json) http_call" where
  "signed_json method B path query weight =
     seq (send_tracked_fresh (bn_env B) (bn_http B) weight (signed_request method B path query)) (\<lambda>r. lift_out (json_body r))"

definition BINANCE_ERR_RATE_LIMIT :: int where "BINANCE_ERR_RATE_LIMIT = - 1015"
definition BINANCE_ERR_INSUFFICIENT_FUNDS :: int where "BINANCE_ERR_INSUFFICIENT_FUNDS = - 2010"
definition BINANCE_ERR_INVALID_SYMBOL :: int where "BINANCE_ERR_INVALID_SYMBOL = - 1121"
definition BINANCE_ERR_INVALID_QUANTITY :: int where "BINANCE_ERR_INVALID_QUANTITY = - 1013"

text \<open>\<open>code as i32\<close>.\<close>

definition as_i32 :: "int \<Rightarrow> int" where
  "as_i32 n = (n + 2 ^ 31) mod 2 ^ 32 - 2 ^ 31"

definition check_api_error :: "json \<Rightarrow> (exchange_error, unit) outcome" where
  "check_api_error resp =
     (case json_i64 (json_get resp ''code'') of
        None \<Rightarrow> Ok ()
      | Some code \<Rightarrow>
          (if code \<ge> 0 then Ok ()
           else let msg = or_else (as_string (json_get resp ''msg'')) ''unknown error''
                in if code = BINANCE_ERR_RATE_LIMIT then Err (RateLimit msg)
                   else if code = BINANCE_ERR_INSUFFICIENT_FUNDS then Err (InsufficientFunds msg)
                   else if code = BINANCE_ERR_INVALID_SYMBOL \<or> code = BINANCE_ERR_INVALID_QUANTITY then Err (InvalidSymbol msg)
                   else Err (Api (as_i32 code) msg)))"

text \<open>A request whose response is checked for an API error and then parsed.\<close>

definition checked :: "('w, json) http_call \<Rightarrow> (json \<Rightarrow> (exchange_error, 'a) outcome) \<Rightarrow> ('w, 'a) http_call" where
  "checked m parse = seq m (\<lambda>resp. lift_out (bind_out (check_api_error resp) (\<lambda>_. parse resp)))"

definition recv_window :: "binance_client \<Rightarrow> string" where
  "recv_window B = ''recvWindow='' @ show_nat (bc_recv_window (bn_config B))"

section \<open>Market data\<close>

definition binance_health_check :: "binance_client \<Rightarrow> ('w, nat) http_call" where
  "binance_health_check B =
     seq (get_json B (bc_base_url (bn_config B) @ ''/api/v3/time'') 1) (\<lambda>resp.
       lift_out (ok_or (ConnectionCheck ''no serverTime in response'') (json_u64 (json_get resp ''serverTime''))))"

text \<open>\<open>as u32\<close> truncates; a limit of zero and unknown types or intervals are skipped.\<close>

definition register_limit :: "instant \<Rightarrow> json \<Rightarrow> rate_limiter \<Rightarrow> rate_limiter" where
  "register_limit now rl l =
     (let limit = or_else (json_u64 (json_get rl ''limit'')) 0 mod 2 ^ 32
      in case (limit_type_from_binance_str (or_else (as_string (json_get rl ''rateLimitType'')) []),
               limit_interval_from_binance_str (or_else (as_string (json_get rl ''interval'')) [])) of
           (Some t, Some i) \<Rightarrow> if limit > 0 then register_bucket now \<lparr>lk_type = t, lk_interval = i\<rparr> limit l else l
         | _ \<Rightarrow> l)"

definition binance_fetch_rate_limits :: "binance_client \<Rightarrow> ('w, unit) http_call" where
  "binance_fetch_rate_limits B =
     seq (checked (get_json B (bc_base_url (bn_config B) @ ''/api/v3/exchangeInfo'') 1)
            (\<lambda>resp. ok_or (missing_field_err (bn_lib B) ''rateLimits'') (as_array (json_get resp ''rateLimits'')))) (\<lambda>rls.
       update (\<lambda>w. w\<lparr>hw_limiter := fold (\<lambda>(n, rl). register_limit (he_now (bn_env B) (hw_log w) n) rl)
                                     (enumerate 0 rls) (hw_limiter w)\<rparr>))"

definition symbol_entry :: "string \<Rightarrow> json \<Rightarrow> bool" where
  "symbol_entry normalized entry \<longleftrightarrow> as_string (json_get entry ''symbol'') = Some normalized"

definition fetch_symbol_filters :: "binance_client \<Rightarrow> string \<Rightarrow> symbol_filters binance_call" where
  "fetch_symbol_filters B symbol w =
     (case bw_filters w symbol of
        Some f \<Rightarrow> Some (w, Ok f)
      | None \<Rightarrow>
          (let normalized = no_slash symbol
           in seq (checked (get_json B (bc_base_url (bn_config B) @ ''/api/v3/exchangeInfo?symbol='' @ normalized) 1) (\<lambda>resp.
                bind_out (ok_or (missing_field_err (bn_lib B) ''symbols'') (as_array (json_get resp ''symbols''))) (\<lambda>symbols.
                bind_out (ok_or (InvalidSymbol normalized) (find (symbol_entry normalized) symbols))
                  (parse_symbol_filters (bn_lib B))))) (\<lambda>f.
              seq (update (\<lambda>w. w\<lparr>bw_filters := (bw_filters w)(symbol \<mapsto> f)\<rparr>)) (\<lambda>_. ret f)) w))"

definition parse_level :: "exchange_lib \<Rightarrow> json \<Rightarrow> (exchange_error, level) outcome" where
  "parse_level L lv =
     bind_out (parse_decimal L (json_nth lv 0)) (\<lambda>price. bind_out (parse_decimal L (json_nth lv 1)) (\<lambda>qty. Ok (price, qty)))"

definition snapshot_of :: "dec_ops \<Rightarrow> string \<Rightarrow> nat \<Rightarrow> level list \<Rightarrow> level list \<Rightarrow> order_book_snapshot" where
  "snapshot_of D symbol ts bid_levels ask_levels =
     (let bs = sort_key (\<lambda>b. - fst b) bid_levels; as = sort_key fst ask_levels;
          best = (\<lambda>ls. case ls of [] \<Rightarrow> None | l # _ \<Rightarrow> Some l);
          (mid, bps) = (case (best bs, best as) of
             (Some b, Some a) \<Rightarrow>
               (let mid = ddiv D (dadd D (fst b) (fst a)) 2; spread = dsub D (fst a) (fst b)
                in (Some mid, if mid = 0 then None else Some (dmul D (ddiv D spread mid) BPS_SCALE)))
           | _ \<Rightarrow> (None, None))
      in \<lparr>book_symbol = symbol, book_timestamp = ts, bids = bs, asks = as, best_bid = best bs, best_ask = best as,
          mid_price = mid, book_spread_bps = bps\<rparr>)"

definition depth_weight :: "nat \<Rightarrow> nat" where
  "depth_weight limit = (if limit \<le> 100 then 1 else if limit \<le> 500 then 5 else if limit \<le> 1000 then 10 else 50)"

definition parse_levels :: "exchange_lib \<Rightarrow> json \<Rightarrow> (exchange_error, level list \<times> level list) outcome" where
  "parse_levels L resp =
     bind_out (ok_or (missing_field_err L ''bids'') (as_array (json_get resp ''bids''))) (\<lambda>bids_raw.
     bind_out (ok_or (missing_field_err L ''asks'') (as_array (json_get resp ''asks''))) (\<lambda>asks_raw.
     bind_out (try_map (parse_level L) bids_raw) (\<lambda>bs.
     bind_out (try_map (parse_level L) asks_raw) (\<lambda>as. Ok (bs, as)))))"

definition binance_fetch_order_book :: "binance_client \<Rightarrow> string \<Rightarrow> nat \<Rightarrow> ('w, order_book_snapshot) http_call" where
  "binance_fetch_order_book B symbol limit =
     seq (checked (get_json B (bc_base_url (bn_config B) @ ''/api/v3/depth?symbol='' @ no_slash symbol @ ''&limit='' @ show_nat limit)
            (depth_weight limit)) (parse_levels (bn_lib B))) (\<lambda>(bs, as) w.
       Some (w, Ok (snapshot_of (xl_dec (bn_lib B)) symbol (or_else (he_unix_ms (bn_env B) (hw_log w)) 0 mod 2 ^ 64) bs as)))"

definition binance_fetch_price :: "binance_client \<Rightarrow> string \<Rightarrow> ('w, dec) http_call" where
  "binance_fetch_price B symbol =
     checked (get_json B (bc_base_url (bn_config B) @ ''/api/v3/ticker/price?symbol='' @ to_uppercase symbol) 1) (\<lambda>resp.
       bind_out (ok_or (DecimalParse ''missing price field in ticker response'') (as_string (json_get resp ''price''))) (\<lambda>s.
         case xl_from_str_exact (bn_lib B) s of Inr d \<Rightarrow> Ok d | Inl e \<Rightarrow> Err (DecimalParse (''failed to parse price: '' @ e))))"

section \<open>Account\<close>

definition parse_balance :: "exchange_lib \<Rightarrow> json \<Rightarrow> (exchange_error, string \<times> normalized_balance) outcome" where
  "parse_balance L b =
     bind_out (parse_decimal L (json_get b ''free'')) (\<lambda>free.
     bind_out (parse_decimal L (json_get b ''locked'')) (\<lambda>locked.
       Ok (or_else (as_string (json_get b ''asset'')) [],
           \<lparr>nb_free = free, nb_locked = locked, nb_total = dadd (xl_dec L) free locked\<rparr>)))"

text \<open>Only assets with a positive total are kept; a later entry of the same asset replaces an earlier one.\<close>

definition balance_map_of :: "(string \<times> normalized_balance) list \<Rightarrow> string \<rightharpoonup> normalized_balance" where
  "balance_map_of bs = map_of (rev (filter (\<lambda>b. nb_total (snd b) > 0) bs))"

definition binance_fetch_balance :: "binance_client \<Rightarrow> ('w, string \<rightharpoonup> normalized_balance) http_call" where
  "binance_fetch_balance B =
     checked (signed_json HttpGet B ''/api/v3/account'' (recv_window B) 10) (\<lambda>resp.
       bind_out (ok_or (missing_field_err (bn_lib B) ''balances'') (as_array (json_get resp ''balances''))) (\<lambda>raw.
       bind_out (try_map (parse_balance (bn_lib B)) raw) (\<lambda>bs. Ok (balance_map_of bs))))"

definition parse_my_trade :: "exchange_lib \<Rightarrow> string \<Rightarrow> json \<Rightarrow> (exchange_error, my_trade) outcome" where
  "parse_my_trade L symbol t =
     bind_out (ok_or (missing_field_err L ''trade id'') (json_u64 (json_get t ''id''))) (\<lambda>i.
     bind_out (ok_or (missing_field_err L ''orderId in trade'') (json_u64 (json_get t ''orderId''))) (\<lambda>oid.
     bind_out (parse_decimal L (json_get t ''price'')) (\<lambda>price.
     bind_out (parse_decimal L (json_get t ''qty'')) (\<lambda>qty.
     bind_out (parse_decimal L (json_get t ''commission'')) (\<lambda>fee.
       Ok \<lparr>my_id = show_nat i, my_order_id = show_nat oid, my_symbol = symbol,
           my_side = (case as_bool (json_get t ''isBuyer'') of Some b \<Rightarrow> if b then ''buy'' else ''sell'' | None \<Rightarrow> ''unknown''),
           my_price = price, my_qty = qty, my_fee = fee,
           my_fee_asset = or_else (as_string (json_get t ''commissionAsset'')) [],
           my_timestamp = or_else (json_u64 (json_get t ''time'')) 0\<rparr>)))))"

definition binance_fetch_my_trades :: "binance_client \<Rightarrow> string \<Rightarrow> nat \<Rightarrow> ('w, my_trade list) http_call" where
  "binance_fetch_my_trades B symbol limit =
     checked (signed_json HttpGet B ''/api/v3/myTrades''
        (''symbol='' @ no_slash symbol @ ''&limit='' @ show_nat limit @ ''&'' @ recv_window B) 5) (\<lambda>resp.
       bind_out (ok_or (expected_array_err (bn_lib B) ''myTrades'') (as_array resp)) (try_map (parse_my_trade (bn_lib B) symbol)))"

definition binance_get_trading_fees :: "binance_client \<Rightarrow> string \<Rightarrow> ('w, maker_taker) http_call" where
  "binance_get_trading_fees B symbol =
     checked (signed_json HttpGet B ''/sapi/v1/asset/tradeFee'' (''symbol='' @ no_slash symbol @ ''&'' @ recv_window B) 1) (\<lambda>resp.
       bind_out (ok_or (expected_array_err (bn_lib B) ''tradeFee'') (as_array resp)) (\<lambda>arr.
         case arr of
           [] \<Rightarrow> Err (Api (- 1) ''no fee data'')
         | x # _ \<Rightarrow>
             bind_out (parse_decimal (bn_lib B) (json_get x ''makerCommission'')) (\<lambda>maker.
             bind_out (parse_decimal (bn_lib B) (json_get x ''takerCommission'')) (\<lambda>taker.
               Ok \<lparr>mt_maker = maker, mt_taker = taker\<rparr>))))"

section \<open>Orders\<close>

text \<open>A commission that does not parse is skipped.\<close>

definition fills_of :: "json \<Rightarrow> json list option" where
  "fills_of resp = as_array (json_get resp ''fills'')"

definition fills_fee :: "exchange_lib \<Rightarrow> json list \<Rightarrow> dec" where
  "fills_fee L fs = foldl (dadd (xl_dec L)) 0
     (List.map_filter (\<lambda>f. case parse_decimal L (json_get f ''commission'') of Ok d \<Rightarrow> Some d | _ \<Rightarrow> None) fs)"

definition parse_order_result :: "exchange_lib \<Rightarrow> json \<Rightarrow> (exchange_error, order_result) outcome" where
  "parse_order_result L resp =
     (let text_field = (\<lambda>k. ok_or (missing_field_err L k) (as_string (json_get resp k)))
      in bind_out (ok_or (missing_field_err L ''orderId'') (json_u64 (json_get resp ''orderId''))) (\<lambda>oid.
         bind_out (text_field ''symbol'') (\<lambda>symbol.
         bind_out (text_field ''side'') (\<lambda>side.
         bind_out (text_field ''type'') (\<lambda>order_type.
         bind_out (text_field ''timeInForce'') (\<lambda>tif.
         bind_out (parse_decimal L (json_get resp ''origQty'')) (\<lambda>requested.
         bind_out (parse_decimal L (json_get resp ''executedQty'')) (\<lambda>filled.
         bind_out (if filled > 0
                   then bind_out (parse_decimal L (json_get resp ''cummulativeQuoteQty'')) (\<lambda>quote. Ok (ddiv (xl_dec L) quote filled))
                   else Ok 0) (\<lambda>avg.
           Ok \<lparr>or_id = show_nat oid, or_symbol = symbol, or_side = side, or_order_type = order_type,
               or_time_in_force = tif, or_amount_requested = requested, or_amount_filled = filled,
               or_avg_fill_price = avg,
               or_fee = (case fills_of resp of Some fs \<Rightarrow> fills_fee L fs | None \<Rightarrow> 0),
               or_fee_asset = (case fills_of resp of
                    Some (f # _) \<Rightarrow> or_else (as_string (json_get f ''commissionAsset'')) []
                  | _ \<Rightarrow> []),
               or_status = or_else (as_string (json_get resp ''status'')) ''UNKNOWN'',
               or_timestamp = (case json_u64 (json_get resp ''transactTime'') of
                    Some t \<Rightarrow> t
                  | None \<Rightarrow> or_else (json_u64 (json_get resp ''updateTime'')) 0)\<rparr>)))))))))"

definition order_path :: string where "order_path = ''/api/v3/order''"

definition binance_create_limit_gtc_order :: "binance_client \<Rightarrow> string \<Rightarrow> string \<Rightarrow> rat \<Rightarrow> rat \<Rightarrow> ('w, order_result) http_call" where
  "binance_create_limit_gtc_order B symbol side amount price =
     checked (signed_json HttpPost B order_path
        (''symbol='' @ no_slash symbol @ ''&side='' @ to_uppercase side @ ''&type=LIMIT&timeInForce=GTC&quantity=''
         @ xl_show_f64 (bn_lib B) amount @ ''&price='' @ xl_show_f64 (bn_lib B) price @ ''&'' @ recv_window B) 1)
       (parse_order_result (bn_lib B))"

definition ioc_query :: "binance_client \<Rightarrow> string \<Rightarrow> string \<Rightarrow> normalized_limit_order \<Rightarrow> string" where
  "ioc_query B symbol side n =
     ''symbol='' @ no_slash symbol @ ''&side='' @ to_uppercase side @ ''&type=LIMIT&timeInForce=IOC&quantity=''
       @ xl_show_dec (bn_lib B) (no_quantity n) @ ''&price='' @ xl_show_dec (bn_lib B) (no_price n) @ ''&'' @ recv_window B"

definition binance_create_limit_ioc_order :: "binance_client \<Rightarrow> string \<Rightarrow> string \<Rightarrow> rat \<Rightarrow> rat \<Rightarrow> order_result binance_call" where
  "binance_create_limit_ioc_order B symbol side amount price =
     seq (fetch_symbol_filters B symbol) (\<lambda>f.
     seq (lift_out (normalize_limit_order (bn_lib B) symbol amount price f)) (\<lambda>n.
       checked (signed_json HttpPost B order_path (ioc_query B symbol side n) 1) (parse_order_result (bn_lib B))))"

definition market_query :: "binance_client \<Rightarrow> string \<Rightarrow> string \<Rightarrow> rat \<Rightarrow> string" where
  "market_query B symbol side amount =
     ''symbol='' @ no_slash symbol @ ''&side='' @ to_uppercase side @ ''&type=MARKET&quantity=''
       @ xl_show_f64 (bn_lib B) amount @ ''&'' @ recv_window B"

definition binance_create_market_order :: "binance_client \<Rightarrow> string \<Rightarrow> string \<Rightarrow> rat \<Rightarrow> ('w, order_result) http_call" where
  "binance_create_market_order B symbol side amount =
     checked (signed_json HttpPost B order_path (market_query B symbol side amount) 1) (parse_order_result (bn_lib B))"

definition order_query :: "binance_client \<Rightarrow> string \<Rightarrow> string \<Rightarrow> string" where
  "order_query B order_id symbol = ''symbol='' @ no_slash symbol @ ''&orderId='' @ order_id @ ''&'' @ recv_window B"

definition binance_cancel_order :: "binance_client \<Rightarrow> string \<Rightarrow> string \<Rightarrow> ('w, order_result) http_call" where
  "binance_cancel_order B order_id symbol =
     checked (signed_json HttpDelete B order_path (order_query B order_id symbol) 1) (parse_order_result (bn_lib B))"

definition binance_fetch_order_status :: "binance_client \<Rightarrow> string \<Rightarrow> string \<Rightarrow> ('w, order_result) http_call" where
  "binance_fetch_order_status B order_id symbol =
     checked (signed_json HttpGet B order_path (order_query B order_id symbol) 2) (parse_order_result (bn_lib B))"

section \<open>Transfers\<close>

definition binance_withdraw_to_address :: "binance_client \<Rightarrow> string \<Rightarrow> string \<Rightarrow> dec \<Rightarrow> string \<Rightarrow> ('w, string) http_call" where
  "binance_withdraw_to_address B asset addr amount network =
     checked (signed_json HttpPost B ''/sapi/v1/capital/withdraw/apply''
        (''coin='' @ to_uppercase asset @ ''&address='' @ addr @ ''&amount='' @ xl_show_dec (bn_lib B) amount
         @ ''&network='' @ network @ ''&'' @ recv_window B) 10) (\<lambda>resp.
       ok_or (missing_field_err (bn_lib B) ''id'') (as_string (json_get resp ''id'')))"

definition parse_network :: "exchange_lib \<Rightarrow> json \<Rightarrow> capital_network_config" where
  "parse_network L n =
     \<lparr>cn_network = or_else (as_string (json_get n ''network'')) [], cn_name = as_string (json_get n ''name''),
      cn_withdraw_enable = or_else (as_bool (json_get n ''withdrawEnable'')) False,
      cn_deposit_enable = or_else (as_bool (json_get n ''depositEnable'')) False,
      cn_withdraw_fee = decimal_or_zero L (json_get n ''withdrawFee''),
      cn_withdraw_min = decimal_or_zero L (json_get n ''withdrawMin'')\<rparr>"

definition parse_coin :: "exchange_lib \<Rightarrow> json \<Rightarrow> (exchange_error, capital_coin_config) outcome" where
  "parse_coin L item =
     bind_out (ok_or (missing_field_err L ''networkList'') (as_array (json_get item ''networkList''))) (\<lambda>ns.
       Ok \<lparr>cp_coin = or_else (as_string (json_get item ''coin'')) [], cp_name = as_string (json_get item ''name''),
           cp_networks = map (parse_network L) ns\<rparr>)"

definition parse_capital_config :: "exchange_lib \<Rightarrow> json \<Rightarrow> (exchange_error, capital_coin_config list) outcome" where
  "parse_capital_config L resp =
     bind_out (ok_or (expected_array_err L ''capital/config/getall'') (as_array resp)) (try_map (parse_coin L))"

definition binance_fetch_capital_config :: "binance_client \<Rightarrow> ('w, capital_coin_config list) http_call" where
  "binance_fetch_capital_config B =
     checked (signed_json HttpGet B ''/sapi/v1/capital/config/getall'' (recv_window B) 10) (parse_capital_config (bn_lib B))"

definition parse_transfer :: "exchange_lib \<Rightarrow> string \<Rightarrow> json \<Rightarrow> transfer_record" where
  "parse_transfer L i item =
     \<lparr>tf_id = i, tf_coin = or_else (as_string (json_get item ''coin'')) [],
      tf_amount = decimal_or_zero L (json_get item ''amount''), tf_network = as_string (json_get item ''network''),
      tf_address = as_string (json_get item ''address''), tf_tx_id = as_string (json_get item ''txId''),
      tf_status = or_else (json_i64 (json_get item ''status'')) (- 1)\<rparr>"

definition parse_withdrawal_records :: "exchange_lib \<Rightarrow> json \<Rightarrow> (exchange_error, transfer_record list) outcome" where
  "parse_withdrawal_records L resp =
     bind_out (ok_or (expected_array_err L ''withdraw/history'') (as_array resp)) (\<lambda>items.
       Ok (map (\<lambda>item. parse_transfer L (case as_string (json_get item ''id'') of
            Some i \<Rightarrow> i
          | None \<Rightarrow> or_else (as_string (json_get item ''withdrawOrderId'')) []) item) items))"

definition parse_deposit_records :: "exchange_lib \<Rightarrow> json \<Rightarrow> (exchange_error, transfer_record list) outcome" where
  "parse_deposit_records L resp =
     bind_out (ok_or (expected_array_err L ''deposit/hisrec'') (as_array resp)) (\<lambda>items.
       Ok (map (\<lambda>item. parse_transfer L (or_else (as_string (json_get item ''id'')) []) item) items))"

definition binance_fetch_withdrawal_history :: "binance_client \<Rightarrow> string \<Rightarrow> ('w, transfer_record list) http_call" where
  "binance_fetch_withdrawal_history B asset =
     checked (signed_json HttpGet B ''/sapi/v1/capital/withdraw/history''
        (''coin='' @ to_uppercase asset @ ''&'' @ recv_window B) 10) (parse_withdrawal_records (bn_lib B))"

definition binance_fetch_deposit_history :: "binance_client \<Rightarrow> string \<Rightarrow> string option \<Rightarrow> ('w, transfer_record list) http_call" where
  "binance_fetch_deposit_history B asset tx_id =
     checked (signed_json HttpGet B ''/sapi/v1/capital/deposit/hisrec''
        (''coin='' @ to_uppercase asset @ ''&'' @ recv_window B
         @ (case tx_id of Some t \<Rightarrow> ''&txId='' @ t | None \<Rightarrow> [])) 10) (parse_deposit_records (bn_lib B))"

section \<open>Normalised orders\<close>

text \<open>The filters of the exchange, as documented for the endpoint.\<close>

definition opt_all :: "('a \<Rightarrow> bool) \<Rightarrow> 'a option \<Rightarrow> bool" where
  "opt_all P x = (case x of Some a \<Rightarrow> P a | None \<Rightarrow> True)"

definition within_filters :: "dec_ops \<Rightarrow> symbol_filters \<Rightarrow> normalized_limit_order \<Rightarrow> bool" where
  "within_filters D f n \<longleftrightarrow>
     0 < no_quantity n \<and> 0 < no_price n
     \<and> opt_all (\<lambda>m. m \<le> no_quantity n) (sf_min_qty f) \<and> opt_all (\<lambda>m. no_quantity n \<le> m) (sf_max_qty f)
     \<and> opt_all (\<lambda>m. m \<le> no_price n) (sf_min_price f) \<and> opt_all (\<lambda>m. no_price n \<le> m) (sf_max_price f)
     \<and> opt_all (\<lambda>m. m \<le> dmul D (no_quantity n) (no_price n)) (sf_min_notional f)"

lemma normalize_Ok:
  assumes "normalize_limit_order L symbol amount price f = Ok n"
  shows "within_filters (xl_dec L) f n
    \<and> (\<exists>q0 p0. dec_of_f64 (xl_f64 L) amount = Some q0 \<and> dec_of_f64 (xl_f64 L) price = Some p0
         \<and> no_quantity n = opt_step (xl_dec L) (sf_step_size f) q0 \<and> no_price n = opt_step (xl_dec L) (sf_tick_size f) p0)"
proof -
  from assms obtain q0 p0 where 0: "dec_of_f64 (xl_f64 L) amount = Some q0" "dec_of_f64 (xl_f64 L) price = Some p0"
    by (auto simp: normalize_limit_order_def Let_def split: option.splits)
  define q p where "q = opt_step (xl_dec L) (sf_step_size f) q0" and "p = opt_step (xl_dec L) (sf_tick_size f) p0"
  from assms 0 have "n = \<lparr>no_quantity = q, no_price = p\<rparr>" "0 < q" "0 < p"
    "opt_all (\<lambda>m. m \<le> q) (sf_min_qty f)" "opt_all (\<lambda>m. q \<le> m) (sf_max_qty f)"
    "opt_all (\<lambda>m. m \<le> p) (sf_min_price f)" "opt_all (\<lambda>m. p \<le> m) (sf_max_price f)"
    "opt_all (\<lambda>m. m \<le> dmul (xl_dec L) q p) (sf_min_notional f)"
    by (auto simp: normalize_limit_order_def Let_def opt_all_def simp flip: q_def p_def split: option.splits if_splits)
  then show ?thesis using 0 by (simp add: within_filters_def q_def p_def)
qed

lemma floor_to_step_exact:
  assumes "0 < step" "0 \<le> v"
  shows "\<exists>k :: int. floor_to_step exact_ops v step = of_int k * step \<and> 0 \<le> k
    \<and> floor_to_step exact_ops v step \<le> v \<and> v < floor_to_step exact_ops v step + step"
proof -
  let ?k = "\<lfloor>v / step\<rfloor>"
  have k: "of_int ?k \<le> v / step" "v / step < of_int ?k + 1" by linarith+
  have "of_int ?k * step \<le> v" using k(1) assms(1) by (simp only: pos_le_divide_eq)
  moreover have "v < of_int ?k * step + step" using k(2) assms(1) by (simp add: pos_divide_less_eq distrib_right)
  ultimately show ?thesis
    using assms by (intro exI [of _ ?k]) (simp add: floor_to_step_def trunc_def divide_nonneg_pos)
qed

section \<open>What a client call sends\<close>

text \<open>\<open>http_posts k G m\<close>: the call makes at most \<open>k\<close> POST requests, and they satisfy \<open>G\<close>.\<close>

named_theorems post_rules \<open>the POST requests of client calls\<close>

definition posts :: "http_history \<Rightarrow> http_request list" where
  "posts es = filter (\<lambda>q. hr_method q = HttpPost) (requests es)"

definition http_posts :: "nat \<Rightarrow> (http_request \<Rightarrow> bool) \<Rightarrow> ('w, 'a) http_call \<Rightarrow> bool" where
  "http_posts k G m \<longleftrightarrow>
     (\<forall>w w' r. m w = Some (w', r) \<longrightarrow>
        (\<exists>es. hw_log w' = hw_log w @ es \<and> length (posts es) \<le> k \<and> (\<forall>q \<in> set (posts es). G q)))"

lemma http_postsD:
  "http_posts k G m \<Longrightarrow> m w = Some (w', r) \<Longrightarrow>
     \<exists>es. hw_log w' = hw_log w @ es \<and> length (posts es) \<le> k \<and> (\<forall>q \<in> set (posts es). G q)"
  by (simp add: http_posts_def)

lemma posts_append [simp]: "posts (es @ es') = posts es @ posts es'"
  by (simp add: posts_def)

lemma http_posts_pure [post_rules]:
  "http_posts k G (ret a)" "http_posts k G (throw e)" "http_posts k G (lift_out r)"
  "(\<And>w. hw_log (u w) = hw_log w) \<Longrightarrow> http_posts k G (update u)"
  by (simp_all add: http_posts_def call_defs posts_def)

lemma http_posts_seq:
  assumes "http_posts j G m" "\<And>a. http_posts k G (f a)"
  shows "http_posts (j + k) G (seq m f)"
  unfolding http_posts_def
proof (intro allI impI)
  fix w w' r
  assume run: "seq m f w = Some (w', r)"
  then obtain w1 r1 where m: "m w = Some (w1, r1)" by (auto simp: seq_def split: option.splits)
  from http_postsD [OF assms(1) m] obtain es where es: "hw_log w1 = hw_log w @ es" "length (posts es) \<le> j" "\<forall>q \<in> set (posts es). G q"
    by blast
  show "\<exists>es. hw_log w' = hw_log w @ es \<and> length (posts es) \<le> j + k \<and> (\<forall>q \<in> set (posts es). G q)"
  proof (cases r1)
    case (Ok a)
    with run m have "f a w1 = Some (w', r)" by (simp add: seq_def)
    from http_postsD [OF assms(2) this] obtain es' where "hw_log w' = hw_log w1 @ es'" "length (posts es') \<le> k" "\<forall>q \<in> set (posts es'). G q"
      by blast
    with es show ?thesis by (intro exI [of _ "es @ es'"]) auto
  qed (use run m es in \<open>auto simp: seq_def\<close>)
qed

lemma http_posts_then: "http_posts k G m \<Longrightarrow> http_posts k G (seq m (\<lambda>a. lift_out (f a)))"
  using http_posts_seq [of k G m 0 "\<lambda>a. lift_out (f a)"] by (simp add: http_posts_pure)

lemma http_posts_fresh:
  assumes "\<And>h q. build h = Inr q \<Longrightarrow> hr_method q = HttpPost \<Longrightarrow> G q"
  shows "http_posts (Suc (rt_max_retries (hc_retry C))) G (send_tracked_fresh E C weight build)"
  unfolding http_posts_def
proof (intro allI impI)
  fix w w' :: "'a http_world_scheme" and r
  assume "send_tracked_fresh E C weight build w = Some (w', r)"
  with send_loop_within [of E C weight build 1 w w' r] obtain es
    where es: "hw_log w' = hw_log w @ es" "length (requests es) \<le> Suc (rt_max_retries (hc_retry C))"
      "\<forall>q \<in> set (requests es). built build q"
    by (auto simp: send_tracked_fresh_def sends_within_def)
  have "length (posts es) \<le> length (requests es)" by (simp add: posts_def)
  then have "length (posts es) \<le> Suc (rt_max_retries (hc_retry C))" using es(2) by (rule order_trans)
  moreover have "\<forall>q \<in> set (posts es). G q" using es(3) assms by (auto simp: posts_def built_def)
  ultimately show "\<exists>es. hw_log w' = hw_log w @ es \<and> length (posts es) \<le> Suc (rt_max_retries (hc_retry C)) \<and> (\<forall>q \<in> set (posts es). G q)"
    using es(1) by blast
qed

lemma http_posts_get_json [post_rules]: "http_posts 0 G (get_json B url weight)"
  unfolding http_posts_def
proof (intro allI impI)
  fix w w' :: "'a http_world_scheme" and r
  assume "get_json B url weight w = Some (w', r)"
  then obtain r1 where "send_tracked_fresh (bn_env B) (bn_http B) weight
      (\<lambda>_. Inr \<lparr>hr_method = HttpGet, hr_url = url, hr_api_key = Some (bc_api_key (bn_config B))\<rparr>) w = Some (w', r1)"
    by (auto simp: get_json_def http_get_def send_tracked_def seq_def lift_out_def split: option.splits outcome.splits)
  from send_loop_within [OF this [unfolded send_tracked_fresh_def]] obtain es where es: "hw_log w' = hw_log w @ es"
    "\<forall>q \<in> set (requests es). q = \<lparr>hr_method = HttpGet, hr_url = url, hr_api_key = Some (bc_api_key (bn_config B))\<rparr>"
    by (auto simp: sends_within_def built_def)
  then have "posts es = []" by (auto simp: posts_def filter_empty_conv dest!: bspec)
  with es(1) show "\<exists>es. hw_log w' = hw_log w @ es \<and> length (posts es) \<le> 0 \<and> (\<forall>q \<in> set (posts es). G q)" by auto
qed

text \<open>The request of an order: the signed query, with the time stamp and signature of the attempt.\<close>

definition carries :: "binance_client \<Rightarrow> string \<Rightarrow> string \<Rightarrow> http_request \<Rightarrow> bool" where
  "carries B path query q \<longleftrightarrow>
     (\<exists>auth h. sign_request B query h = Inr auth \<and> hr_api_key q = Some (bc_api_key (bn_config B))
        \<and> hr_url q = bc_base_url (bn_config B) @ path @ ''?'' @ query @ ''&'' @ auth)"

lemma http_posts_signed:
  "http_posts (Suc (rt_max_retries (hc_retry (bn_http B)))) (carries B path query) (signed_json method B path query weight)"
  unfolding signed_json_def
  by (intro http_posts_then http_posts_fresh) (auto simp: carries_def signed_request_def split: sum.splits)

lemma http_posts_filters: "http_posts 0 G (fetch_symbol_filters B symbol)"
proof -
  let ?m = "seq (checked (get_json B (bc_base_url (bn_config B) @ ''/api/v3/exchangeInfo?symbol='' @ no_slash symbol) 1) (\<lambda>resp.
      bind_out (ok_or (missing_field_err (bn_lib B) ''symbols'') (as_array (json_get resp ''symbols''))) (\<lambda>symbols.
      bind_out (ok_or (InvalidSymbol (no_slash symbol)) (find (symbol_entry (no_slash symbol)) symbols))
        (parse_symbol_filters (bn_lib B))))) (\<lambda>f.
      seq (update (\<lambda>w. w\<lparr>bw_filters := (bw_filters w)(symbol \<mapsto> f)\<rparr>)) (\<lambda>_. ret f)) :: symbol_filters binance_call"
  have "http_posts (0 + (0 + 0)) G ?m"
    unfolding checked_def by (intro http_posts_seq http_posts_then post_rules) simp
  then show ?thesis
    unfolding http_posts_def
    by (auto simp: fetch_symbol_filters_def Let_def posts_def split: option.splits)
qed

lemma fetch_symbol_filters_cached: "bw_filters w symbol = Some f \<Longrightarrow> fetch_symbol_filters B symbol w = Some (w, Ok f)"
  by (simp add: fetch_symbol_filters_def)


section \<open>Orders and timeouts\<close>

lemma send_loop_step:
  assumes "send_loop E C weight build n w = Some (w', r)" "r \<noteq> Panic"
  obtains w1 es where "hw_log w1 = hw_log w @ es" "requests es = []"
    "case send_pass E C build n w1 of Finished w2 r2 \<Rightarrow> w2 = w' \<and> r2 = r | Again w2 \<Rightarrow> send_loop E C weight build (Suc n) w2 = Some (w', r)"
proof -
  let ?gate = "if hc_enabled C then check_rate_limit E weight w else Some (w, Ok ())"
  from assms(1) obtain w1 r1 where gate: "?gate = Some (w1, r1)"
    by (subst (asm) send_loop.simps) (auto split: option.splits)
  then have "\<exists>es. hw_log w1 = hw_log w @ es \<and> requests es = []" and ok: "r1 \<noteq> Err e" for e
    using check_rate_limit_log [of E weight w "(w1, r1)"] by (auto split: if_splits)
  moreover have "r1 = Ok ()"
    using assms gate ok by (cases r1) (auto simp: send_loop.simps [of E C weight build n w])
  ultimately show ?thesis
    using assms(1) gate that by (subst (asm) send_loop.simps) (auto split: pass.splits)
qed

text \<open>When every answer is lost the loop uses up its retries.\<close>

lemma send_loop_timeouts:
  assumes lost: "\<And>h. \<exists>q e. build h = Inr q \<and> he_send E h q = Inl e \<and> is_retryable (hc_retry C) e"
  shows "send_loop E C weight build n w = Some (w', r) \<Longrightarrow> n \<le> Suc (rt_max_retries (hc_retry C)) \<Longrightarrow> r \<noteq> Panic
    \<Longrightarrow> \<exists>es. hw_log w' = hw_log w @ es \<and> length (requests es) = Suc (Suc (rt_max_retries (hc_retry C))) - n
          \<and> (\<forall>q \<in> set (requests es). built build q)"
proof (induction "Suc (rt_max_retries (hc_retry C)) - n" arbitrary: n w)
  case (0 n w)
  from send_loop_step [OF 0(2,4)] obtain w1 es where w1: "hw_log w1 = hw_log w @ es" "requests es = []"
    "case send_pass E C build n w1 of Finished w2 r2 \<Rightarrow> w2 = w' \<and> r2 = r | Again w2 \<Rightarrow> send_loop E C weight build (Suc n) w2 = Some (w', r)"
    by blast
  from lost [of "hw_log w1"] 0(1,3) w1 show ?case
    by (auto simp: send_pass_def Let_def built_def split: if_splits) blast
next
  case (Suc k n w)
  from send_loop_step [OF Suc(3,5)] obtain w1 es where w1: "hw_log w1 = hw_log w @ es" "requests es = []"
    "case send_pass E C build n w1 of Finished w2 r2 \<Rightarrow> w2 = w' \<and> r2 = r | Again w2 \<Rightarrow> send_loop E C weight build (Suc n) w2 = Some (w', r)"
    by blast
  have n: "n \<le> rt_max_retries (hc_retry C)" "k = Suc (rt_max_retries (hc_retry C)) - Suc n" using Suc(2) by simp_all
  with lost [of "hw_log w1"] obtain w2 where w2: "send_pass E C build n w1 = Again w2"
    by (auto simp: send_pass_def Let_def)
  from send_pass_again_log [OF w2] obtain es1 where es1: "hw_log w2 = hw_log w1 @ es1" "length (requests es1) = 1"
    "\<forall>q \<in> set (requests es1). built build q" by blast
  from w1(3) w2 have "send_loop E C weight build (Suc n) w2 = Some (w', r)" by simp
  from Suc(1) [OF n(2) this _ Suc(5)] n(1) obtain es2 where "hw_log w' = hw_log w2 @ es2"
    "length (requests es2) = Suc (rt_max_retries (hc_retry C)) - n" "\<forall>q \<in> set (requests es2). built build q" by auto
  with w1 es1 n(1) show ?case by (intro exI [of _ "es @ es1 @ es2"]) auto
qed

lemma checked_signed_run:
  assumes "checked (signed_json method B path query weight) parse w = Some (w', r)" "r \<noteq> Panic"
  shows "\<exists>r1. send_loop (bn_env B) (bn_http B) weight (signed_request method B path query) 1 w = Some (w', r1) \<and> r1 \<noteq> Panic"
  using assms
  by (auto simp: checked_def signed_json_def send_tracked_fresh_def seq_def lift_out_def split: option.splits outcome.splits)

text \<open>
  C34: an order whose answers time out is placed again.  The request carries no client order id, so when
  the exchange accepts an order and only the answer is lost, every retry places a further order: with the
  default configuration \<open>create_market_order\<close> sends the same order three times before it reports an error.
\<close>

theorem timed_out_order_repeated:
  assumes "\<And>h q. hr_method q = HttpPost \<Longrightarrow> \<exists>e. he_send E h q = Inl e \<and> se_is_timeout e" "\<And>h. he_unix_ms E h \<noteq> None"
    and "binance_create_market_order (binance_client_new config E L) symbol side amount w = Some (w', r)" "r \<noteq> Panic"
  shows "\<exists>es. hw_log w' = hw_log w @ es \<and> length (posts es) = 3
    \<and> (\<forall>q \<in> set (posts es). carries (binance_client_new config E L) order_path
         (market_query (binance_client_new config E L) symbol side amount) q)"
proof -
  let ?B = "binance_client_new config E L"
  let ?build = "signed_request HttpPost ?B order_path (market_query ?B symbol side amount)"
  have post: "hr_method q = HttpPost \<and> carries ?B order_path (market_query ?B symbol side amount) q" if "?build h = Inr q" for h q
    using that by (auto simp: signed_request_def carries_def split: sum.splits)
  have "\<exists>q. ?build h = Inr q" for h
    using assms(2) [of h] by (auto simp: signed_request_def sign_request_def Let_def binance_client_new_def)
  then have lost: "\<exists>q e. ?build h = Inr q \<and> he_send E h q = Inl e \<and> is_retryable (hc_retry (bn_http ?B)) e" for h
    using assms(1) post by (fastforce simp: is_retryable_def binance_client_new_def retry_config_default_def)
  from assms(3,4) obtain r1 where "send_loop E (bn_http ?B) 1 ?build 1 w = Some (w', r1)" "r1 \<noteq> Panic"
    unfolding binance_create_market_order_def by (auto dest: checked_signed_run simp: binance_client_new_def)
  from send_loop_timeouts [OF lost this(1) _ this(2)] obtain es where es: "hw_log w' = hw_log w @ es" "length (requests es) = 3"
    "\<forall>q \<in> set (requests es). built ?build q"
    by (auto simp: binance_client_new_def retry_config_default_def)
  then have "posts es = requests es" using post by (auto simp: posts_def built_def intro!: filter_True)
  with es post show ?thesis by (intro exI [of _ es]) (auto simp: built_def)
qed

text \<open>A server that never answers a POST in time.\<close>

definition lost_env :: http_env where
  "lost_env = flaky_env\<lparr>he_send := \<lambda>h q. Inl \<lparr>se_is_timeout = True, se_is_connect = False, se_message = ''operation timed out''\<rparr>\<rparr>"

definition sample_lib :: exchange_lib where
  "sample_lib =
     \<lparr>xl_dec = exact_ops, xl_f64 = exact_f64, xl_from_str = (\<lambda>s. Inr 1), xl_from_str_exact = (\<lambda>s. Inr 1), xl_show_dec = (\<lambda>d. ''1''),
      xl_show_f64 = (\<lambda>d. ''1''), xl_hmac = (\<lambda>k q. [1]), xl_json_error = (\<lambda>s. s)\<rparr>"

definition sample_binance_config :: binance_config where
  "sample_binance_config =
     \<lparr>bc_api_key = ''key'', bc_secret = ''secret'', bc_base_url = ''https://x'', bc_ws_url = [], bc_sandbox = True,
      bc_enable_rate_limit = False, bc_recv_window = 5000\<rparr>"

definition sample_filters :: symbol_filters where
  "sample_filters = symbol_filters_default\<lparr>sf_step_size := Some (1 / 100), sf_min_notional := Some 5\<rparr>"

definition sample_binance_world :: binance_world where
  "sample_binance_world = \<lparr>hw_log = [], hw_limiter = Map.empty, bw_filters = [''ETH/USDC'' \<mapsto> sample_filters]\<rparr>"

lemma lost_signed:
  "\<exists>q. signed_request HttpPost (binance_client_new sample_binance_config lost_env sample_lib) path query h = Inr q \<and> hr_method q = HttpPost"
  by (simp add: signed_request_def sign_request_def binance_client_new_def lost_env_def flaky_env_def Let_def)

lemma lost_run:
  "\<exists>w' es r. checked (signed_json HttpPost (binance_client_new sample_binance_config lost_env sample_lib) path query 1) parse w
     = Some (w', r) \<and> r \<noteq> Panic \<and> hw_log w' = hw_log w @ es \<and> posts es \<noteq> []"
proof -
  let ?B = "binance_client_new sample_binance_config lost_env sample_lib"
  obtain q1 where q1: "signed_request HttpPost ?B path query (hw_log w) = Inr q1" "hr_method q1 = HttpPost" using lost_signed by blast
  obtain q2 where q2: "signed_request HttpPost ?B path query (hw_log w @ [HttpSent q1, HttpSlept 10]) = Inr q2" using lost_signed by blast
  obtain q3 where q3: "signed_request HttpPost ?B path query
      (hw_log w @ [HttpSent q1, HttpSlept 10, HttpSent q2, HttpSlept 20]) = Inr q3" using lost_signed by blast
  have env: "bn_env ?B = lost_env" "bn_http ?B = sample_http"
    by (simp_all add: binance_client_new_def sample_http_def sample_binance_config_def)
  have "send_loop lost_env sample_http 1 (signed_request HttpPost ?B path query) 1 w
      = Some (w\<lparr>hw_log := hw_log w @ [HttpSent q1, HttpSlept 10, HttpSent q2, HttpSlept 20, HttpSent q3]\<rparr>,
          Err (HttpError ''operation timed out''))"
    using q1(1) q2 q3
    by (simp add: send_loop.simps [of _ _ _ _ "Suc 0"] send_loop.simps [of _ _ _ _ "Suc (Suc 0)"]
        send_loop.simps [of _ _ _ _ "Suc (Suc (Suc 0))"] send_pass_def sample_http_def lost_env_def flaky_env_def Let_def
        is_retryable_def retry_config_default_def exponential_backoff_def compute_backoff_secs_def
        DEFAULT_RETRY_AFTER_SECS_def http_emit_def)
  with q1(2) show ?thesis
    by (simp add: checked_def signed_json_def send_tracked_fresh_def seq_def env posts_def)
qed

theorem timed_out_order_repeated_witness:
  "\<exists>w' r es. binance_create_market_order (binance_client_new sample_binance_config lost_env sample_lib) ''ETH/USDC'' ''buy'' 2
       sample_binance_world = Some (w', r)
     \<and> hw_log w' = es \<and> length (posts es) = 3"
proof -
  let ?B = "binance_client_new sample_binance_config lost_env sample_lib"
  from lost_run [of order_path "market_query ?B ''ETH/USDC'' ''buy'' 2" "parse_order_result (bn_lib ?B)" sample_binance_world] obtain w' r
    where run: "binance_create_market_order (binance_client_new sample_binance_config lost_env sample_lib) ''ETH/USDC'' ''buy'' 2
       sample_binance_world = Some (w', r)" "r \<noteq> Panic"
    unfolding binance_create_market_order_def by blast
  have "\<exists>e. he_send lost_env h q = Inl e \<and> se_is_timeout e" "he_unix_ms lost_env h \<noteq> None" for h q
    by (simp_all add: lost_env_def flaky_env_def)
  from timed_out_order_repeated [OF this(1) this(2) run] run(1) show ?thesis by (auto simp: sample_binance_world_def)
qed


end
