(* ===== verification/Nonce_Manager.thy ===== *)
theory Nonce_Manager
  imports Chain_Types
begin

text \<open>
  \<open>chain/nonce_manager.rs\<close>: transaction nonces are handed out locally, one counter per chain and
  account, synchronised from the node the first time.  The map is behind one mutex that
  \<open>reserve_next\<close> keeps across its call of the node, so every operation is one atomic step; the
  node's answer to the pending-nonce query is an argument.  Nonces are \<open>u64\<close>.
\<close>

section \<open>Operations\<close>

record nonce_key =
  nk_chain_id :: nat
  nk_address :: string

text \<open>A \<open>NonceState\<close> is its only field, \<open>next_nonce: Option<u64>\<close>.\<close>

type_synonym nonce_states = "nonce_key \<Rightarrow> nonce option option"

definition key_of :: "nat \<Rightarrow> string \<Rightarrow> nonce_key" where
  "key_of chain_id address = \<lparr>nk_chain_id = chain_id, nk_address = lower address\<rparr>"

definition nonce_manager_new :: nonce_states where
  "nonce_manager_new = (\<lambda>_. None)"

definition saturating_succ :: "nonce \<Rightarrow> nonce" where
  "saturating_succ n = (if n = - 1 then n else n + 1)"

text \<open>\<open>entry(key).or_default()\<close> inserts an unsynchronised state even when the node then fails.\<close>

definition reserve_next :: "nonce_states \<Rightarrow> (chain_error, nonce) outcome \<Rightarrow> nat \<Rightarrow> string \<Rightarrow> nonce_states \<times> (chain_error, nonce) outcome" where
  "reserve_next states get_nonce chain_id address =
     (let key = key_of chain_id address;
          state = (case states key of None \<Rightarrow> None | Some s \<Rightarrow> s)
      in case (case state of Some next \<Rightarrow> Ok next | None \<Rightarrow> get_nonce) of
           Ok nonce \<Rightarrow> (states(key \<mapsto> Some (saturating_succ nonce)), Ok nonce)
         | Err e \<Rightarrow> (states(key \<mapsto> state), Err e)
         | Panic \<Rightarrow> (states, Panic))"

definition observe_pending :: "nonce_states \<Rightarrow> (chain_error, nonce) outcome \<Rightarrow> nat \<Rightarrow> string \<Rightarrow> nonce_states \<times> (chain_error, nonce) outcome" where
  "observe_pending states get_nonce chain_id address =
     (case get_nonce of
        Ok pending \<Rightarrow>
          (let key = key_of chain_id address;
               state = (case states key of None \<Rightarrow> None | Some s \<Rightarrow> s)
           in (states(key \<mapsto> (case state of
                 None \<Rightarrow> Some pending
               | Some next \<Rightarrow> if next < pending then Some pending else Some next)), Ok pending))
      | Err e \<Rightarrow> (states, Err e)
      | Panic \<Rightarrow> (states, Panic))"

definition mark_failed :: "nonce_states \<Rightarrow> nat \<Rightarrow> string \<Rightarrow> nonce \<Rightarrow> nonce_states" where
  "mark_failed states chain_id address nonce =
     (let key = key_of chain_id address
      in case states key of
           None \<Rightarrow> states
         | Some state \<Rightarrow> if state = Some (saturating_succ nonce) then states(key \<mapsto> Some nonce) else states)"

definition reset :: "nonce_states \<Rightarrow> nat \<Rightarrow> string \<Rightarrow> nonce_states" where
  "reset states chain_id address = states(key_of chain_id address := None)"

section \<open>Runs\<close>

text \<open>
  A run of the manager with, per key, the nonces handed out and not given back: \<open>mark_failed\<close> gives a
  nonce back when it rolls the counter back over it.  A reset forgets the counter and with it the
  nonces in flight.  The run keeps away from the last nonce, \<open>2 ^ 64 - 1\<close>, where the counter
  saturates.
\<close>

definition rolled_back :: "nonce_states \<Rightarrow> nat \<Rightarrow> string \<Rightarrow> nonce \<Rightarrow> bool" where
  "rolled_back states chain_id address nonce \<longleftrightarrow>
     states (key_of chain_id address) = Some (Some (saturating_succ nonce))"

inductive nonce_run :: "nonce_states \<Rightarrow> (nonce_key \<Rightarrow> nonce list) \<Rightarrow> bool" where
  run_new: "nonce_run nonce_manager_new (\<lambda>_. [])"
| run_reserve: "nonce_run m out \<Longrightarrow> reserve_next m node c a = (m', Ok n) \<Longrightarrow> n \<noteq> - 1
    \<Longrightarrow> nonce_run m' (out(key_of c a := n # out (key_of c a)))"
| run_reserve_err: "nonce_run m out \<Longrightarrow> reserve_next m node c a = (m', Err e) \<Longrightarrow> nonce_run m' out"
| run_observe: "nonce_run m out \<Longrightarrow> observe_pending m node c a = (m', r) \<Longrightarrow> nonce_run m' out"
| run_failed: "nonce_run m out \<Longrightarrow> n \<noteq> - 1 \<Longrightarrow>
    nonce_run (mark_failed m c a n)
      (if rolled_back m c a n then out(key_of c a := removeAll n (out (key_of c a))) else out)"
| run_reset: "nonce_run m out \<Longrightarrow> nonce_run (reset m c a) (out(key_of c a := []))"

text \<open>Every nonce in flight is below the counter of its key.\<close>

definition below_counter :: "nonce_states \<Rightarrow> (nonce_key \<Rightarrow> nonce list) \<Rightarrow> bool" where
  "below_counter m out \<longleftrightarrow>
     (\<forall>k. distinct (out k) \<and> (\<forall>n \<in> set (out k). case m k of Some (Some nx) \<Rightarrow> n < nx | _ \<Rightarrow> False))"

lemma less_saturating_succ_iff:
  assumes "x \<noteq> - 1"
  shows "n < saturating_succ x \<longleftrightarrow> n < x \<or> n = x"
proof -
  have "1 + x \<noteq> 0" using assms by (metis add_eq_0_iff)
  then have "unat (x + 1) = Suc (unat x)" using unatSuc [of x] by (simp add: add.commute)
  with assms show ?thesis
    by (auto simp: saturating_succ_def word_less_nat_alt less_Suc_eq word_unat_eq_iff)
qed

lemma reserve_next_Ok_iff:
  "reserve_next m node c a = (m', Ok n) \<longleftrightarrow>
     m' = m(key_of c a \<mapsto> Some (saturating_succ n))
     \<and> (case m (key_of c a) of Some (Some nx) \<Rightarrow> n = nx | _ \<Rightarrow> node = Ok n)"
  by (auto simp: reserve_next_def Let_def split: option.splits outcome.splits)

lemma reserve_next_Err:
  assumes "reserve_next m node c a = (m', Err e)"
  shows "m' = m(key_of c a \<mapsto> None) \<and> (m (key_of c a) = None \<or> m (key_of c a) = Some None)"
  using assms by (auto simp: reserve_next_def Let_def split: option.splits outcome.splits)

lemma below_counterD:
  "below_counter m out \<Longrightarrow> n \<in> set (out k) \<Longrightarrow> \<exists>nx. m k = Some (Some nx) \<and> n < nx"
  unfolding below_counter_def by (fastforce split: option.splits)

lemma below_counterI:
  assumes "\<And>k. distinct (out k)" "\<And>k n. n \<in> set (out k) \<Longrightarrow> \<exists>nx. m k = Some (Some nx) \<and> n < nx"
  shows "below_counter m out"
  unfolding below_counter_def using assms by (fastforce split: option.splits)

lemma below_counter_distinct: "below_counter m out \<Longrightarrow> distinct (out k)"
  by (simp add: below_counter_def)

lemma reserve_next_fresh:
  assumes "below_counter m out" "reserve_next m node c a = (m', Ok n)"
  shows "\<forall>j \<in> set (out (key_of c a)). j < n"
  using below_counterD [OF assms(1), of _ "key_of c a"] assms(2)
  by (fastforce simp: reserve_next_Ok_iff)

lemma nonce_run_below_counter: "nonce_run m out \<Longrightarrow> below_counter m out"
proof (induction rule: nonce_run.induct)
  case run_new
  show ?case by (simp add: below_counter_def)
next
  case (run_reserve m out node c a m' n)
  let ?k = "key_of c a"
  note fresh = reserve_next_fresh [OF run_reserve.IH run_reserve.hyps(2)]
  have m': "m' = m(?k \<mapsto> Some (saturating_succ n))"
    using run_reserve.hyps(2) by (simp add: reserve_next_Ok_iff)
  show ?case
    by (rule below_counterI)
      (use fresh below_counter_distinct [OF run_reserve.IH] below_counterD [OF run_reserve.IH] run_reserve.hyps(3)
       in \<open>auto simp: m' less_saturating_succ_iff\<close>)
next
  case (run_reserve_err m out node c a m' e)
  from reserve_next_Err [OF run_reserve_err.hyps(2)] show ?case
    by (intro below_counterI)
      (use below_counter_distinct [OF run_reserve_err.IH] below_counterD [OF run_reserve_err.IH] in \<open>fastforce+\<close>)
next
  case (run_observe m out node c a m' r)
  then show ?case
    by (intro below_counterI)
      (use below_counter_distinct [OF run_observe.IH] below_counterD [OF run_observe.IH] in
       \<open>fastforce simp: observe_pending_def Let_def split: outcome.splits option.splits if_splits\<close>)+
next
  case (run_failed m out n c a)
  show ?case
    by (rule below_counterI)
      (use below_counter_distinct [OF run_failed.IH] below_counterD [OF run_failed.IH] run_failed.hyps(2) in
       \<open>fastforce simp: mark_failed_def rolled_back_def Let_def less_saturating_succ_iff distinct_removeAll
          split: option.splits if_splits\<close>)+
next
  case (run_reset m out c a)
  show ?case
    by (rule below_counterI)
      (use below_counter_distinct [OF run_reset.IH] below_counterD [OF run_reset.IH] in \<open>auto simp: reset_def\<close>)
qed

section \<open>Nonces in flight are never handed out again\<close>

text \<open>
  In any run of reservations, failed synchronisations, observations of the node, failure marks
  (in any order, for any chain and account) and resets, a reservation returns a nonce above every
  nonce of that account still in flight, so none is handed out twice; and the reservation after
  it returns its successor whatever the node says.
\<close>

lemma reserved_nonce_is_fresh:
  assumes "nonce_run m out" "reserve_next m node c a = (m', Ok n)"
  shows "n \<notin> set (out (key_of c a)) \<and> (\<forall>j \<in> set (out (key_of c a)). j < n)
    \<and> (n \<noteq> - 1 \<longrightarrow> snd (reserve_next m' node' c a) = Ok (n + 1))"
proof -
  from reserve_next_fresh [OF nonce_run_below_counter [OF assms(1)] assms(2)]
  have "\<forall>j \<in> set (out (key_of c a)). j < n" .
  moreover have "m' (key_of c a) = Some (Some (saturating_succ n))"
    using assms(2) by (simp add: reserve_next_Ok_iff)
  then have "n \<noteq> - 1 \<longrightarrow> snd (reserve_next m' node' c a) = Ok (n + 1)"
    by (simp add: reserve_next_def saturating_succ_def)
  ultimately show ?thesis by auto
qed

lemma reserved_nonce_is_fresh_witness:
  "\<exists>m. reserve_next nonce_manager_new (Ok 7) 42161 ''0xAb'' = (m, Ok 7)
     \<and> snd (reserve_next m (Err ChainTimeout) 42161 ''0xab'') = Ok (8 :: nonce) \<and> 8 \<notin> set [7 :: nonce]"
proof -
  let ?k = "key_of 42161 ''0xab''"
  let ?m = "nonce_manager_new(?k \<mapsto> Some 8)" and ?m' = "nonce_manager_new(?k \<mapsto> Some 9)"
  have k: "key_of 42161 ''0xAb'' = ?k" by (simp add: key_of_def lower_def lower_char_def) (simp add: char_of_def bit_0)
  have r: "reserve_next nonce_manager_new (Ok 7) 42161 ''0xAb'' = (?m, Ok 7)"
    by (simp add: reserve_next_def k nonce_manager_new_def saturating_succ_def)
  have "nonce_run ?m ((\<lambda>_. [])(?k := [7]))"
    using run_reserve [OF run_new r] by (simp add: k)
  moreover have r': "reserve_next ?m (Err ChainTimeout) 42161 ''0xab'' = (?m', Ok 8)"
    by (simp add: reserve_next_def saturating_succ_def)
  ultimately have "(8 :: nonce) \<notin> set (((\<lambda>_. [])(?k := [7])) ?k)"
    using reserved_nonce_is_fresh by blast
  with r r' show ?thesis by auto
qed

end
