(* ===== verification/Chain_Client.thy ===== *)
theory Chain_Client
  imports Effects Nonce_Manager
begin

text \<open>
  \<open>chain/client.rs\<close>, \<open>chain/builder.rs\<close> and the signing of \<open>core/wallet.rs\<close>: the client that talks to
  several RPC endpoints with retries and failover, the transaction builder and the signer.

  The world of a call is the history of what was sent out and the shared nonce manager.  The node behind an
  endpoint, the crate \<open>ethers\<close> and the clock are a record of functions that answer from that history, so an
  endpoint may behave arbitrarily and differently at every call.  Time is in seconds.
\<close>

section \<open>The world\<close>

datatype block_id = LatestBlock | PendingBlock
datatype block_ref = BlockNo nat | PendingRef

datatype rpc_request =
    QBlockNumber
  | QBalance address
  | QTransactionCount address block_id
  | QFeeHistory nat
  | QLatestBlock
  | QGasPrice
  | QEstimateGas typed_tx "address option"
  | QSendRaw bytes
  | QReceipt bytes
  | QCall typed_tx block_ref

record bundle_tx =
  bt_raw_tx :: string
  bt_tx_hash :: string

record bundle_request =
  br_txs :: "bundle_tx list"
  br_target_block :: nat
  br_min_timestamp :: "nat option"
  br_max_timestamp :: "nat option"

record bundle_submission =
  bs_bundle_hash :: string
  bs_tx_hashes :: "string list"
  bs_target_block :: nat

datatype chain_event =
    RpcCall nat rpc_request
  | Slept rat
  | SimulateBundle bundle_request
  | SendBundle bundle_request

type_synonym chain_history = "chain_event list"

record world =
  w_log :: chain_history
  w_nonces :: nonce_states

type_synonym ('e, 'a) chain_call = "(world, 'e, 'a) call"

definition emit :: "chain_event \<Rightarrow> world \<Rightarrow> world" where
  "emit e w = w\<lparr>w_log := w_log w @ [e]\<rparr>"

record rpc_node =
  n_block_number :: "chain_history \<Rightarrow> nat \<Rightarrow> string + nat"
  n_balance :: "chain_history \<Rightarrow> nat \<Rightarrow> address \<Rightarrow> string + nat"
  n_transaction_count :: "chain_history \<Rightarrow> nat \<Rightarrow> address \<Rightarrow> block_id \<Rightarrow> string + nat"
  n_fee_history :: "chain_history \<Rightarrow> nat \<Rightarrow> nat \<Rightarrow> string + nat list \<times> nat list list"
  n_latest_block :: "chain_history \<Rightarrow> nat \<Rightarrow> string + nat option option"
  n_gas_price :: "chain_history \<Rightarrow> nat \<Rightarrow> string + nat"
  n_estimate_gas :: "chain_history \<Rightarrow> nat \<Rightarrow> typed_tx \<Rightarrow> address option \<Rightarrow> string + nat"
  n_send_raw :: "chain_history \<Rightarrow> nat \<Rightarrow> bytes \<Rightarrow> string + bytes"
  n_receipt :: "chain_history \<Rightarrow> nat \<Rightarrow> bytes \<Rightarrow> string + ethers_receipt option"
  n_call :: "chain_history \<Rightarrow> nat \<Rightarrow> typed_tx \<Rightarrow> block_ref \<Rightarrow> string + bytes"
  n_parse_hash :: "string \<Rightarrow> bytes option"
  n_keccak :: "bytes \<Rightarrow> bytes"
  n_clock :: "chain_history \<Rightarrow> rat"
  n_overflow_checks :: bool

record chain_client =
  cc_rpc_urls :: "string list"
  cc_timeout_secs :: nat
  cc_max_retries :: nat
  cc_node :: rpc_node

section \<open>Retries and failover\<close>

definition RPC_RETRY_BASE_BACKOFF_MS :: nat where "RPC_RETRY_BASE_BACKOFF_MS = 100"
definition MIN_POLL_INTERVAL :: rat where "MIN_POLL_INTERVAL = 1 / 10"

definition plain_u64 :: "bool \<Rightarrow> nat \<Rightarrow> ('e, nat) outcome" where
  "plain_u64 oc a = (if a < 2 ^ 64 then Ok a else if oc then Panic else Ok (a mod 2 ^ 64))"

definition as_u64 :: "nat \<Rightarrow> ('e, nat) outcome" where
  "as_u64 a = (if a < 2 ^ 64 then Ok a else Panic)"

definition backoff_ms :: "bool \<Rightarrow> nat \<Rightarrow> ('e, nat) outcome" where
  "backoff_ms oc retry = plain_u64 oc (RPC_RETRY_BASE_BACKOFF_MS * 2 ^ (retry - 1))"

definition attempts :: "chain_client \<Rightarrow> (nat \<times> nat) list" where
  "attempts C = concat (map (\<lambda>u. map (Pair u) [0..<Suc (cc_max_retries C)]) [0..<length (cc_rpc_urls C)])"

fun try_attempts ::
  "rpc_node \<Rightarrow> rpc_request \<Rightarrow> (chain_history \<Rightarrow> nat \<Rightarrow> string + 'a) \<Rightarrow> (nat \<times> nat) list \<Rightarrow> string option
     \<Rightarrow> (chain_error, 'a) chain_call" where
  "try_attempts N q answer [] last_error w =
     Some (w, Err (case last_error of Some e \<Rightarrow> classify_rpc_error e | None \<Rightarrow> Rpc ''all RPC endpoints failed''))"
| "try_attempts N q answer ((url_idx, retry) # rest) last_error w =
     (case (if retry > 0 then backoff_ms (n_overflow_checks N) retry else Ok 0) of
        Ok ms \<Rightarrow>
          (let w1 = (if retry > 0 then emit (Slept (of_nat ms / 1000)) w else w);
               w2 = emit (RpcCall url_idx q) w1
           in case answer (w_log w1) url_idx of
                Inr value \<Rightarrow> Some (w2, Ok value)
              | Inl e \<Rightarrow> try_attempts N q answer rest (Some e) w2)
      | Err e \<Rightarrow> Some (w, Err e)
      | Panic \<Rightarrow> Some (w, Panic))"

definition with_provider ::
  "chain_client \<Rightarrow> rpc_request \<Rightarrow> (rpc_node \<Rightarrow> chain_history \<Rightarrow> nat \<Rightarrow> string + 'a) \<Rightarrow> (chain_error, 'a) chain_call" where
  "with_provider C q answer = try_attempts (cc_node C) q (answer (cc_node C)) (attempts C) None"

section \<open>Client operations\<close>

definition get_block_number :: "chain_client \<Rightarrow> (chain_error, nat) chain_call" where
  "get_block_number C = with_provider C QBlockNumber n_block_number"

definition get_balance :: "chain_client \<Rightarrow> address \<Rightarrow> (chain_error, token_amount) chain_call" where
  "get_balance C a =
     seq (with_provider C (QBalance a) (\<lambda>N h u. n_balance N h u a)) (\<lambda>b. ret (token_amount_eth b))"

definition get_nonce :: "chain_client \<Rightarrow> address \<Rightarrow> block_id \<Rightarrow> (chain_error, nonce) chain_call" where
  "get_nonce C a b =
     seq (with_provider C (QTransactionCount a b) (\<lambda>N h u. n_transaction_count N h u a b)) (\<lambda>n.
     seq (lift_out (as_u64 n)) (\<lambda>n. ret (word_of_nat n)))"

definition average_u256 :: "nat list \<Rightarrow> nat option" where
  "average_u256 vs =
     (if vs = [] then None else Some (foldl (\<lambda>acc v. min U256_MAX (acc + v)) 0 vs div length vs))"

definition gas_price_from_fee_history :: "nat list \<Rightarrow> nat list list \<Rightarrow> gas_price option" where
  "gas_price_from_fee_history base_fees rewards =
     (if base_fees = [] then None
      else let rows = filter (\<lambda>row. length row \<ge> 3) rewards
           in Option.bind (average_u256 (map (\<lambda>row. row ! 0) rows)) (\<lambda>low.
              Option.bind (average_u256 (map (\<lambda>row. row ! 1) rows)) (\<lambda>medium.
              Option.bind (average_u256 (map (\<lambda>row. row ! 2) rows)) (\<lambda>high.
                Some \<lparr>base_fee = last base_fees, priority_fee_low = low, priority_fee_medium = medium,
                      priority_fee_high = high\<rparr>))))"

definition get_fee_history_gas_price :: "chain_client \<Rightarrow> nat \<Rightarrow> (chain_error, gas_price) chain_call" where
  "get_fee_history_gas_price C block_count =
     seq (with_provider C (QFeeHistory block_count) (\<lambda>N h u. n_fee_history N h u block_count)) (\<lambda>(base_fees, rewards).
       case gas_price_from_fee_history base_fees rewards of
         Some g \<Rightarrow> ret g
       | None \<Rightarrow> throw (Rpc ''fee history response missing fee samples''))"

definition get_legacy_gas_price :: "chain_client \<Rightarrow> (chain_error, gas_price) chain_call" where
  "get_legacy_gas_price C =
     seq (with_provider C QLatestBlock n_latest_block) (\<lambda>block.
     seq (with_provider C QGasPrice n_gas_price) (\<lambda>gp.
       ret \<lparr>base_fee = (case block of Some (Some f) \<Rightarrow> f | _ \<Rightarrow> gp), priority_fee_low = gp div 4,
            priority_fee_medium = gp div 2, priority_fee_high = gp\<rparr>))"

definition get_gas_price :: "chain_client \<Rightarrow> (chain_error, gas_price) chain_call" where
  "get_gas_price C = attempt (get_fee_history_gas_price C 20) ret (\<lambda>_. get_legacy_gas_price C)"

definition estimate_gas_of :: "chain_client \<Rightarrow> transaction_request \<Rightarrow> (chain_error, nat) chain_call" where
  "estimate_gas_of C t =
     seq (with_provider C (QEstimateGas (to_ethers_typed t) None)
           (\<lambda>N h u. n_estimate_gas N h u (to_ethers_typed t) None)) (\<lambda>g. lift_out (as_u64 g))"

definition estimate_gas_from :: "chain_client \<Rightarrow> transaction_request \<Rightarrow> address \<Rightarrow> (chain_error, nat) chain_call" where
  "estimate_gas_from C t a =
     seq (with_provider C (QEstimateGas (to_ethers_typed t) (Some a))
           (\<lambda>N h u. n_estimate_gas N h u (to_ethers_typed t) (Some a))) (\<lambda>g. lift_out (as_u64 g))"

definition send_transaction :: "chain_client \<Rightarrow> bytes \<Rightarrow> (chain_error, string) chain_call" where
  "send_transaction C raw =
     seq (with_provider C (QSendRaw raw) (\<lambda>N h u. n_send_raw N h u raw)) (\<lambda>hash.
       ret (''0x'' @ hex_encode hash))"

definition get_receipt_internal :: "chain_client \<Rightarrow> bytes \<Rightarrow> (chain_error, transaction_receipt option) chain_call" where
  "get_receipt_internal C hash =
     seq (with_provider C (QReceipt hash) (\<lambda>N h u. n_receipt N h u hash)) (\<lambda>answer.
       case answer of
         None \<Rightarrow> ret None
       | Some er \<Rightarrow> (case from_ethers er of Ok rc \<Rightarrow> ret (Some rc) | _ \<Rightarrow> throw InvalidReceiptData))"

definition get_receipt :: "chain_client \<Rightarrow> string \<Rightarrow> (chain_error, transaction_receipt option) chain_call" where
  "get_receipt C tx_hash =
     (case n_parse_hash (cc_node C) tx_hash of
        None \<Rightarrow> throw InvalidTransactionHash
      | Some hash \<Rightarrow> get_receipt_internal C hash)"

text \<open>The polling loop reads the clock before every query and sleeps between queries.\<close>

partial_function (option) wait_loop ::
  "chain_client \<Rightarrow> bytes \<Rightarrow> rat \<Rightarrow> rat \<Rightarrow> (chain_error, transaction_receipt) chain_call" where
  "wait_loop C hash deadline poll w =
     (if n_clock (cc_node C) (w_log w) \<ge> deadline then Some (w, Err ChainTimeout)
      else case get_receipt_internal C hash w of
             None \<Rightarrow> None
           | Some (w1, r) \<Rightarrow>
               (case r of
                  Ok answer \<Rightarrow>
                    (case answer of Some rc \<Rightarrow> Some (w1, Ok rc)
                     | None \<Rightarrow> wait_loop C hash deadline poll (emit (Slept poll) w1))
                | Err e \<Rightarrow> Some (w1, Err e)
                | Panic \<Rightarrow> Some (w1, Panic)))"

declare wait_loop.simps [code]

definition wait_for_receipt :: "chain_client \<Rightarrow> string \<Rightarrow> nat \<Rightarrow> rat \<Rightarrow> (chain_error, transaction_receipt) chain_call" where
  "wait_for_receipt C tx_hash timeout poll_interval w =
     (case n_parse_hash (cc_node C) tx_hash of
        None \<Rightarrow> Some (w, Err InvalidTransactionHash)
      | Some hash \<Rightarrow>
          wait_loop C hash (n_clock (cc_node C) (w_log w) + of_nat (max timeout (cc_timeout_secs C)))
            (max poll_interval MIN_POLL_INTERVAL) w)"

text \<open>A read at the latest block first resolves the block number.\<close>

definition call_contract :: "chain_client \<Rightarrow> transaction_request \<Rightarrow> block_id \<Rightarrow> (chain_error, bytes) chain_call" where
  "call_contract C t b =
     (let read = (\<lambda>block. with_provider C (QCall (to_ethers_typed t) block)
                    (\<lambda>N h u. n_call N h u (to_ethers_typed t) block))
      in case b of
           LatestBlock \<Rightarrow> seq (get_block_number C) (\<lambda>num. read (BlockNo num))
         | PendingBlock \<Rightarrow> read PendingRef)"

record rpc_health =
  rh_url :: string
  rh_healthy :: bool
  rh_block_number :: "nat option"
  rh_error :: "string option"

definition url_at :: "chain_client \<Rightarrow> nat \<Rightarrow> string" where
  "url_at C i = (if i < length (cc_rpc_urls C) then cc_rpc_urls C ! i else [])"

text \<open>One query per endpoint, without retries.\<close>

fun health_loop :: "chain_client \<Rightarrow> nat list \<Rightarrow> world \<Rightarrow> world \<times> rpc_health list" where
  "health_loop C [] w = (w, [])"
| "health_loop C (i # is) w =
     (let entry = (case n_block_number (cc_node C) (w_log w) i of
            Inr block \<Rightarrow> \<lparr>rh_url = url_at C i, rh_healthy = True, rh_block_number = Some block, rh_error = None\<rparr>
          | Inl e \<Rightarrow> \<lparr>rh_url = url_at C i, rh_healthy = False, rh_block_number = None, rh_error = Some e\<rparr>);
          (w', entries) = health_loop C is (emit (RpcCall i QBlockNumber) w)
      in (w', entry # entries))"

definition health_check :: "chain_client \<Rightarrow> world \<Rightarrow> world \<times> rpc_health list" where
  "health_check C = health_loop C [0..<length (cc_rpc_urls C)]"

section \<open>Wallet\<close>

text \<open>
  \<open>wl_address\<close> is the result of \<open>Address::new(wallet.address())\<close>; \<open>wl_sign\<close> is the signature of the crate,
  RLP-encoded with the transaction.
\<close>

record wallet =
  wl_address :: "core_error + address"
  wl_sign :: "typed_tx \<Rightarrow> string + bytes"

primrec core_error_str :: "core_error \<Rightarrow> string" where
  "core_error_str (InvalidAddress s) = ''invalid Ethereum address: '' @ s"
| "core_error_str (InvalidTokenAmount s) = ''invalid token amount: '' @ s"
| "core_error_str (TokenDecimalsMismatch l r) =
     ''token amount decimals mismatch: left='' @ show_nat l @ '', right='' @ show_nat r"
| "core_error_str (InvalidTransactionRequest s) = ''invalid transaction request: '' @ s"
| "core_error_str (InvalidPair s) = ''invalid pair '' @ [char_of (39 :: nat)] @ s @ [char_of (39 :: nat)]"
| "core_error_str (InvalidReceipt s) = ''invalid receipt: '' @ s"
| "core_error_str (InvalidSerialization s) = ''invalid serialization: '' @ s"
| "core_error_str (MathError s) = ''math error: '' @ s"

definition sign_transaction_bytes :: "wallet \<Rightarrow> transaction_request \<Rightarrow> (string, bytes) outcome" where
  "sign_transaction_bytes W t =
     (case validate_request t of
        Ok _ \<Rightarrow> (case wl_sign W (to_ethers_typed t) of
                   Inr raw \<Rightarrow> Ok raw
                 | Inl e \<Rightarrow> Err (''wallet operation failed: '' @ e))
      | Err e \<Rightarrow> Err (''wallet operation failed: '' @ core_error_str e)
      | Panic \<Rightarrow> Panic)"

section \<open>Transaction builder\<close>

record tx_builder =
  tb_to :: "address option"
  tb_value :: "token_amount option"
  tb_data :: bytes
  tb_nonce :: "nonce option"
  tb_gas_limit :: "nat option"
  tb_max_fee_per_gas :: "nat option"
  tb_max_priority_fee :: "nat option"
  tb_chain_id :: nat

definition tx_builder_new :: tx_builder where
  "tx_builder_new =
     \<lparr>tb_to = None, tb_value = Some (token_amount_eth 0), tb_data = [], tb_nonce = None, tb_gas_limit = None,
      tb_max_fee_per_gas = None, tb_max_priority_fee = None, tb_chain_id = MAINNET_CHAIN_ID\<rparr>"

definition build_partial_request :: "tx_builder \<Rightarrow> nonce option \<Rightarrow> (chain_error, transaction_request) outcome" where
  "build_partial_request b nonce =
     (case tb_to b of
        None \<Rightarrow> Err MissingDestinationAddress
      | Some to \<Rightarrow>
          (case tb_value b of
             None \<Rightarrow> Err MissingTransactionValue
           | Some value \<Rightarrow>
               Ok \<lparr>tr_to = to, tr_value = value, tr_data = tb_data b, tr_nonce = nonce, tr_gas_limit = tb_gas_limit b,
                   tr_max_fee_per_gas = tb_max_fee_per_gas b, tr_max_priority_fee = tb_max_priority_fee b,
                   tr_chain_id = tb_chain_id b\<rparr>))"

definition wallet_address_call :: "wallet \<Rightarrow> (chain_error, address) chain_call" where
  "wallet_address_call W = (case wl_address W of Inr a \<Rightarrow> ret a | Inl _ \<Rightarrow> throw InvalidWalletAddress)"

definition gas_multiplier :: "nat option \<Rightarrow> nat" where
  "gas_multiplier buffer_bps =
     (case buffer_bps of Some b \<Rightarrow> if b \<ge> GAS_BPS_SCALE then b else DEFAULT_GAS_BUFFER_BPS
      | None \<Rightarrow> DEFAULT_GAS_BUFFER_BPS)"

definition with_gas_estimate ::
  "chain_client \<Rightarrow> wallet \<Rightarrow> nat option \<Rightarrow> tx_builder \<Rightarrow> (chain_error, tx_builder) chain_call" where
  "with_gas_estimate C W buffer_bps b =
     seq (lift_out (build_partial_request b (tb_nonce b))) (\<lambda>request.
     seq (wallet_address_call W) (\<lambda>from.
     seq (estimate_gas_from C request from) (\<lambda>estimated.
     seq (lift_out (as_u64 (estimated * gas_multiplier buffer_bps div GAS_BPS_SCALE))) (\<lambda>limit.
       ret (b\<lparr>tb_gas_limit := Some limit\<rparr>)))))"

definition with_gas_price :: "chain_client \<Rightarrow> gas_priority \<Rightarrow> tx_builder \<Rightarrow> (chain_error, tx_builder) chain_call" where
  "with_gas_price C p b =
     seq (get_gas_price C) (\<lambda>g.
       ret (b\<lparr>tb_max_priority_fee := Some (priority_fee g p),
              tb_max_fee_per_gas := Some (get_max_fee g p DEFAULT_GAS_BUFFER_BPS)\<rparr>))"

definition build_tx :: "chain_client \<Rightarrow> wallet \<Rightarrow> tx_builder \<Rightarrow> (chain_error, transaction_request) chain_call" where
  "build_tx C W b =
     seq (case tb_nonce b of
            Some n \<Rightarrow> ret n
          | None \<Rightarrow> seq (wallet_address_call W) (\<lambda>a. get_nonce C a PendingBlock)) (\<lambda>n.
       lift_out (build_partial_request b (Some n)))"

definition sign_built :: "wallet \<Rightarrow> transaction_request \<Rightarrow> (chain_error, bytes) chain_call" where
  "sign_built W t = map_err SignTransactionFailed (lift_out (sign_transaction_bytes W t))"

definition build_and_sign :: "chain_client \<Rightarrow> wallet \<Rightarrow> tx_builder \<Rightarrow> (chain_error, bytes) chain_call" where
  "build_and_sign C W b = seq (build_tx C W b) (sign_built W)"

record signed_transaction =
  st_raw :: bytes
  st_raw_hex :: string
  st_tx_hash :: string
  st_nonce :: "nonce option"

definition build_and_sign_with_hash ::
  "chain_client \<Rightarrow> wallet \<Rightarrow> tx_builder \<Rightarrow> (chain_error, signed_transaction) chain_call" where
  "build_and_sign_with_hash C W b =
     seq (build_tx C W b) (\<lambda>t. seq (sign_built W t) (\<lambda>raw.
       ret \<lparr>st_raw = raw, st_raw_hex = ''0x'' @ hex_encode raw,
            st_tx_hash = ''0x'' @ hex_encode (n_keccak (cc_node C) raw), st_nonce = tr_nonce t\<rparr>))"

definition send_built :: "chain_client \<Rightarrow> wallet \<Rightarrow> tx_builder \<Rightarrow> (chain_error, string) chain_call" where
  "send_built C W b = seq (build_and_sign C W b) (send_transaction C)"

definition DEFAULT_POLL_INTERVAL_SECS :: rat where "DEFAULT_POLL_INTERVAL_SECS = 1"

definition send_and_wait :: "chain_client \<Rightarrow> wallet \<Rightarrow> tx_builder \<Rightarrow> nat \<Rightarrow> (chain_error, transaction_receipt) chain_call" where
  "send_and_wait C W b timeout =
     seq (send_built C W b) (\<lambda>tx_hash. wait_for_receipt C tx_hash timeout DEFAULT_POLL_INTERVAL_SECS)"

section \<open>Failover\<close>

fun rpcs :: "chain_history \<Rightarrow> (nat \<times> rpc_request) list" where
  "rpcs [] = []"
| "rpcs (RpcCall u q # es) = (u, q) # rpcs es"
| "rpcs (e # es) = rpcs es"

text \<open>The events of a call, and the number of endpoints asked.\<close>

definition new_events :: "world \<Rightarrow> world \<Rightarrow> chain_history" where
  "new_events w w' = drop (length (w_log w)) (w_log w')"

lemma rpcs_append: "rpcs (es @ es') = rpcs es @ rpcs es'"
  by (induction es rule: rpcs.induct) simp_all

lemma emit_simps [simp]: "w_log (emit e w) = w_log w @ [e]" "w_nonces (emit e w) = w_nonces w"
  by (simp_all add: emit_def)

definition paused :: "world \<Rightarrow> world \<Rightarrow> bool" where
  "paused w w1 \<longleftrightarrow> w1 = w \<or> (\<exists>d. w1 = emit (Slept d) w)"

text \<open>A series of calls of the listed endpoints, in order, each answered with an error.\<close>

inductive failed_calls :: "(chain_history \<Rightarrow> nat \<Rightarrow> string + 'a) \<Rightarrow> rpc_request \<Rightarrow> (nat \<times> nat) list \<Rightarrow> world \<Rightarrow> world \<Rightarrow> bool"
  for answer q where
  no_call: "failed_calls answer q [] w w"
| failed_call: "paused w w1 \<Longrightarrow> answer (w_log w1) u = Inl e \<Longrightarrow> failed_calls answer q rest (emit (RpcCall u q) w1) w'
    \<Longrightarrow> failed_calls answer q ((u, n) # rest) w w'"

definition answered ::
  "(chain_history \<Rightarrow> nat \<Rightarrow> string + 'a) \<Rightarrow> rpc_request \<Rightarrow> (nat \<times> nat) list \<Rightarrow> world \<Rightarrow> 'a \<Rightarrow> world \<Rightarrow> bool" where
  "answered answer q tries w v w' \<longleftrightarrow>
     (\<exists>k < length tries. \<exists>w0 w1. failed_calls answer q (take k tries) w w0 \<and> paused w0 w1
        \<and> answer (w_log w1) (fst (tries ! k)) = Inr v \<and> w' = emit (RpcCall (fst (tries ! k)) q) w1)"

lemma answered_first:
  "paused w w1 \<Longrightarrow> answer (w_log w1) u = Inr v \<Longrightarrow> answered answer q ((u, n) # rest) w v (emit (RpcCall u q) w1)"
  unfolding answered_def by (intro exI [of _ 0]) (auto intro: no_call)

lemma answered_later:
  assumes "paused w w1" "answer (w_log w1) u = Inl e" "answered answer q rest (emit (RpcCall u q) w1) v w'"
  shows "answered answer q ((u, n) # rest) w v w'"
proof -
  from assms(3) obtain k w0 w2 where k: "k < length rest" "failed_calls answer q (take k rest) (emit (RpcCall u q) w1) w0"
    "paused w0 w2" "answer (w_log w2) (fst (rest ! k)) = Inr v" "w' = emit (RpcCall (fst (rest ! k)) q) w2"
    unfolding answered_def by blast
  have "failed_calls answer q (take (Suc k) ((u, n) # rest)) w w0"
    using failed_call [OF assms(1), where answer = answer and u = u] assms(2) k(2) by simp
  with k show ?thesis
    unfolding answered_def by (intro exI [of _ "Suc k"] conjI exI [of _ w0] exI [of _ w2]) simp_all
qed

lemma backoff_ok: "n \<le> 58 \<Longrightarrow> backoff_ms oc n = Ok (100 * 2 ^ (n - 1))"
proof -
  assume "n \<le> 58"
  then have "(2 :: nat) ^ (n - 1) \<le> 2 ^ 57" by (intro power_increasing) simp_all
  then show ?thesis by (simp add: backoff_ms_def plain_u64_def RPC_RETRY_BASE_BACKOFF_MS_def)
qed

lemma backoff_not_Err: "backoff_ms oc n \<noteq> Err e"
  by (simp add: backoff_ms_def plain_u64_def)

lemma try_attempts_result:
  "try_attempts N q answer tries last_error w = Some (w', r) \<Longrightarrow>
     (case r of Ok v \<Rightarrow> answered answer q tries w v w'
      | Err e \<Rightarrow> failed_calls answer q tries w w'
      | Panic \<Rightarrow> \<exists>a \<in> set tries. 58 < snd a)"
proof (induction N q answer tries last_error w rule: try_attempts.induct)
  case (1 N q answer last_error w)
  then show ?case by (auto intro: no_call)
next
  case (2 N q answer u n rest last_error w)
  define delay where "delay = (if n > 0 then backoff_ms (n_overflow_checks N) n else (Ok 0 :: (chain_error, nat) outcome))"
  show ?case
  proof (cases delay)
    case (Ok ms)
    define w1 where "w1 = (if n > 0 then emit (Slept (of_nat ms / 1000)) w else w)"
    have p: "paused w w1" by (auto simp: paused_def w1_def)
    show ?thesis
    proof (cases "answer (w_log w1) u")
      case (Inl e)
      with 2(2) Ok have "try_attempts N q answer rest (Some e) (emit (RpcCall u q) w1) = Some (w', r)"
        by (simp add: delay_def w1_def Let_def)
      from 2(1) [OF Ok [unfolded delay_def] refl refl Inl [unfolded w1_def] this [unfolded w1_def]] p Inl show ?thesis
        by (auto simp: w1_def split: outcome.splits
            intro: answered_later failed_call [of w _ answer u e q])
    next
      case (Inr v)
      with 2(2) Ok have "w' = emit (RpcCall u q) w1" "r = Ok v" by (auto simp: delay_def w1_def Let_def)
      with Inr p show ?thesis by (auto intro: answered_first)
    qed
  next
    case (Err e)
    then show ?thesis by (simp add: delay_def backoff_not_Err split: if_splits)
  next
    case Panic
    then have "58 < n" by (rule contrapos_pp) (simp add: delay_def backoff_ok)
    with Panic 2(2) show ?thesis by (auto simp: delay_def)
  qed
qed

lemma try_attempts_returns: "\<exists>w' r. try_attempts N q answer tries last_error w = Some (w', r)"
  by (induction N q answer tries last_error w rule: try_attempts.induct)
    (auto simp: Let_def split: outcome.splits sum.splits)

lemma failed_calls_rpcs:
  "failed_calls answer q tries w w' \<Longrightarrow>
     \<exists>es. w_log w' = w_log w @ es \<and> rpcs es = map (\<lambda>a. (fst a, q)) tries \<and> w_nonces w' = w_nonces w"
proof (induction rule: failed_calls.induct)
  case (failed_call w w1 u e rest w' n)
  then obtain es where es: "w_log w' = w_log w1 @ RpcCall u q # es" "rpcs es = map (\<lambda>a. (fst a, q)) rest"
    "w_nonces w' = w_nonces w1" by auto
  from failed_call.hyps(1) obtain d where d: "w_log w1 = w_log w @ d" "rpcs d = []" "w_nonces w1 = w_nonces w"
    by (auto simp: paused_def)
  from es d show ?case by (intro exI [of _ "d @ RpcCall u q # es"]) (simp add: rpcs_append)
qed simp

lemma with_provider_result:
  "with_provider C q answer w = Some (w', r) \<Longrightarrow>
     (case r of Ok v \<Rightarrow> answered (answer (cc_node C)) q (attempts C) w v w'
      | Err e \<Rightarrow> failed_calls (answer (cc_node C)) q (attempts C) w w'
      | Panic \<Rightarrow> 58 < cc_max_retries C)"
  using try_attempts_result [of "cc_node C" q "answer (cc_node C)" "attempts C" None w w' r]
  by (auto simp: with_provider_def attempts_def split: outcome.splits)

lemma with_provider_returns [call_rules]: "returns P (with_provider C q answer)"
  unfolding returns_def with_provider_def using try_attempts_returns by blast

text \<open>
  A remote operation fails over.  With at most 58 retries per endpoint (beyond that the back-off
  exceeds 64 bits) it returns without panic.  It fails only after every endpoint, in the configured order, was
  asked once and retried the configured number of times, every time without success; and it succeeds
  with the first successful answer, after nothing but errors before it.
\<close>

lemma failover_tries_every_endpoint:
  assumes "cc_max_retries C \<le> 58"
  shows "\<exists>w' r. with_provider C q answer w = Some (w', r)
    \<and> (case r of Ok v \<Rightarrow> answered (answer (cc_node C)) q (attempts C) w v w'
       | Err e \<Rightarrow> failed_calls (answer (cc_node C)) q (attempts C) w w'
           \<and> rpcs (new_events w w') = concat (map (\<lambda>u. replicate (Suc (cc_max_retries C)) (u, q)) [0..<length (cc_rpc_urls C)])
       | Panic \<Rightarrow> False)"
proof -
  have r: "map (\<lambda>a. (fst a, q)) (attempts C)
      = concat (map (\<lambda>u. replicate (Suc (cc_max_retries C)) (u, q)) [0..<length (cc_rpc_urls C)])"
    by (simp only: attempts_def map_concat map_map o_def fst_conv map_replicate_const length_upt diff_zero)
  from try_attempts_returns obtain w' r where w': "with_provider C q answer w = Some (w', r)"
    unfolding with_provider_def by blast
  from with_provider_result [OF w'] failed_calls_rpcs [of "answer (cc_node C)" q "attempts C" w w'] assms
  show ?thesis
    by (intro exI [of _ w'] exI [of _ r] conjI w') (auto simp: r new_events_def split: outcome.splits)
qed

definition sample_node :: rpc_node where
  "sample_node =
     \<lparr>n_block_number = (\<lambda>h u. if u = 0 then Inl ''connection refused'' else Inr 7),
      n_balance = (\<lambda>h u a. Inr 0), n_transaction_count = (\<lambda>h u a b. Inr 5),
      n_fee_history = (\<lambda>h u n. Inr ([10], [[1, 2, 3]])), n_latest_block = (\<lambda>h u. Inr None),
      n_gas_price = (\<lambda>h u. Inr 10), n_estimate_gas = (\<lambda>h u t a. Inr 100000), n_send_raw = (\<lambda>h u raw. Inr raw),
      n_receipt = (\<lambda>h u hash. if Slept 1 \<in> set h
         then Inr (Some \<lparr>er_transaction_hash = hash, er_block_number = Some 8, er_status = Some 1, er_gas_used = Some 21000,
                         er_effective_gas_price = Some 10, er_logs = []\<rparr>)
         else Inr None),
      n_call = (\<lambda>h u t b. Inr []), n_parse_hash = (\<lambda>s. Some [1]), n_keccak = (\<lambda>b. b),
      n_clock = (\<lambda>h. sum_list (map (\<lambda>e. case e of Slept d \<Rightarrow> max d 0 | _ \<Rightarrow> 0) h)), n_overflow_checks = True\<rparr>"

definition sample_client :: chain_client where
  "sample_client = \<lparr>cc_rpc_urls = [''a'', ''b''], cc_timeout_secs = 30, cc_max_retries = 1, cc_node = sample_node\<rparr>"

definition sample_world :: world where
  "sample_world = \<lparr>w_log = [], w_nonces = nonce_manager_new\<rparr>"

lemma failover_tries_every_endpoint_witness:
  "\<exists>w'. get_block_number sample_client sample_world = Some (w', Ok 7) \<and> rpcs (w_log w') = [(0, QBlockNumber), (0, QBlockNumber), (1, QBlockNumber)]
     \<and> answered (n_block_number sample_node) QBlockNumber (attempts sample_client) sample_world 7 w'"
proof -
  have run: "get_block_number sample_client sample_world =
    Some (\<lparr>w_log = [RpcCall 0 QBlockNumber, Slept (1 / 10), RpcCall 0 QBlockNumber, RpcCall 1 QBlockNumber],
           w_nonces = nonce_manager_new\<rparr>, Ok 7)"
    by (simp add: get_block_number_def with_provider_def attempts_def sample_client_def sample_node_def sample_world_def
        backoff_ms_def plain_u64_def RPC_RETRY_BASE_BACKOFF_MS_def emit_def upt_rec)
  moreover have "cc_max_retries sample_client \<le> 58" by (simp add: sample_client_def)
  from failover_tries_every_endpoint [OF this, of QBlockNumber n_block_number sample_world] run
  have "answered (n_block_number (cc_node sample_client)) QBlockNumber (attempts sample_client) sample_world 7
    \<lparr>w_log = [RpcCall 0 QBlockNumber, Slept (1 / 10), RpcCall 0 QBlockNumber, RpcCall 1 QBlockNumber],
           w_nonces = nonce_manager_new\<rparr>"
    unfolding get_block_number_def by auto
  ultimately show ?thesis by (simp add: sample_client_def)
qed

section \<open>Waiting for a receipt\<close>

text \<open>
  What the waiting loops rely on of the clock: it never runs backwards, and a sleep takes at least as
  long as asked for.
\<close>

definition sound_clock :: "rpc_node \<Rightarrow> bool" where
  "sound_clock N \<longleftrightarrow> (\<forall>h e. n_clock N h \<le> n_clock N (h @ [e])) \<and> (\<forall>h d. n_clock N h + d \<le> n_clock N (h @ [Slept d]))"

lemma clock_mono: "sound_clock N \<Longrightarrow> n_clock N h \<le> n_clock N (h @ es)"
proof (induction es rule: rev_induct)
  case (snoc e es)
  then show ?case unfolding sound_clock_def by (metis append_assoc order_trans)
qed simp

lemma clock_sleep: "sound_clock N \<Longrightarrow> n_clock N h + d \<le> n_clock N (h @ [Slept d])"
  by (simp add: sound_clock_def)

text \<open>Remote operations only extend the history and leave the nonces alone.\<close>

definition extends :: "world \<Rightarrow> world \<Rightarrow> bool" where
  "extends w w' \<longleftrightarrow> (\<exists>es. w_log w' = w_log w @ es) \<and> w_nonces w' = w_nonces w"

lemma extends_refl [simp]: "extends w w"
  by (simp add: extends_def)

lemma extends_trans: "extends w w1 \<Longrightarrow> extends w1 w2 \<Longrightarrow> extends w w2"
  by (auto simp: extends_def)

lemma extends_emit: "extends w w1 \<Longrightarrow> extends w (emit e w1)"
  by (auto simp: extends_def)

lemma failed_calls_extends: "failed_calls answer q tries w w' \<Longrightarrow> extends w w'"
  using failed_calls_rpcs by (fastforce simp: extends_def)

text \<open>\<open>asks q\<close>: the history was extended by calls of \<open>q\<close> and pauses only.\<close>

definition asks :: "rpc_request \<Rightarrow> world \<Rightarrow> world \<Rightarrow> bool" where
  "asks q w w' \<longleftrightarrow>
     (\<exists>es. w_log w' = w_log w @ es \<and> (\<forall>e \<in> set es. (\<exists>u. e = RpcCall u q) \<or> (\<exists>d. e = Slept d))) \<and> w_nonces w' = w_nonces w"

lemma asks_refl [simp]: "asks q w w"
  by (simp add: asks_def)

lemma asks_trans: "asks q w w1 \<Longrightarrow> asks q w1 w2 \<Longrightarrow> asks q w w2"
  unfolding asks_def by fastforce

lemma asks_emit: "asks q w w1 \<Longrightarrow> asks q w (emit (RpcCall u q) w1)" "asks q w w1 \<Longrightarrow> asks q w (emit (Slept d) w1)"
  unfolding asks_def by fastforce+

lemma asks_extends: "asks q w w' \<Longrightarrow> extends w w'"
  by (auto simp: asks_def extends_def)

lemma try_attempts_asks: "try_attempts N q answer tries last_error w = Some (w', r) \<Longrightarrow> asks q w w'"
proof (induction N q answer tries last_error w rule: try_attempts.induct)
  case (2 N q answer u n rest last_error w)
  define delay where "delay = (if n > 0 then backoff_ms (n_overflow_checks N) n else (Ok 0 :: (chain_error, nat) outcome))"
  show ?case
  proof (cases delay)
    case (Ok ms)
    define w1 where "w1 = (if n > 0 then emit (Slept (of_nat ms / 1000)) w else w)"
    have w1: "asks q w (emit (RpcCall u q) w1)" by (simp add: w1_def asks_emit)
    show ?thesis
    proof (cases "answer (w_log w1) u")
      case (Inl e)
      with 2(2) Ok have "try_attempts N q answer rest (Some e) (emit (RpcCall u q) w1) = Some (w', r)"
        by (simp add: delay_def w1_def Let_def)
      from 2(1) [OF Ok [unfolded delay_def] refl refl Inl [unfolded w1_def] this [unfolded w1_def]] w1
      show ?thesis unfolding w1_def by (rule asks_trans [rotated])
    next
      case (Inr v)
      with 2(2) Ok w1 show ?thesis by (auto simp: delay_def w1_def Let_def)
    qed
  qed (use 2(2) in \<open>auto simp: delay_def split: if_splits\<close>)
qed simp

lemma with_provider_asks: "with_provider C q answer w = Some (w', r) \<Longrightarrow> asks q w w'"
  unfolding with_provider_def by (rule try_attempts_asks)

lemma with_provider_extends: "with_provider C q answer w = Some (w', r) \<Longrightarrow> extends w w'"
  by (rule asks_extends [OF with_provider_asks])

text \<open>The rule form: a remote operation keeps every property that extending the history keeps.\<close>

lemma triple_with_provider:
  "(\<And>w w' r. P w \<Longrightarrow> extends w w' \<Longrightarrow> Q w' r) \<Longrightarrow> triple P (with_provider C q answer) Q"
  using with_provider_extends by (blast intro: tripleI)

lemma get_receipt_internal_run:
  assumes "get_receipt_internal C hash w = Some (w', r)"
  shows "extends w w'"
    and "r = Ok (Some rc) \<Longrightarrow> \<exists>h u er. n_receipt (cc_node C) h u hash = Inr (Some er) \<and> from_ethers er = Ok rc"
proof -
  from assms obtain r0 where r0: "with_provider C (QReceipt hash) (\<lambda>N h u. n_receipt N h u hash) w = Some (w', r0)"
    "r = Ok (Some rc) \<Longrightarrow> \<exists>er. r0 = Ok (Some er) \<and> from_ethers er = Ok rc" for rc
    by (auto simp: get_receipt_internal_def seq_def ret_def throw_def split: option.splits outcome.splits)
  from with_provider_extends [OF r0(1)] show "extends w w'" .
  show "\<exists>h u er. n_receipt (cc_node C) h u hash = Inr (Some er) \<and> from_ethers er = Ok rc" if "r = Ok (Some rc)"
  proof -
    from r0(2) [OF that] obtain er where er: "r0 = Ok (Some er)" "from_ethers er = Ok rc" by blast
    with with_provider_result [OF r0(1)] show ?thesis by (force simp: answered_def)
  qed
qed

lemma get_receipt_internal_returns: "\<exists>w' r. get_receipt_internal C hash w = Some (w', r)"
proof -
  have "returns (\<lambda>_. True) (get_receipt_internal C hash)"
    unfolding get_receipt_internal_def
    by (rule returns_seq) (auto intro: call_rules split: option.split outcome.split)
  then show ?thesis by (simp add: returns_def)
qed

lemma wait_loop_returns:
  assumes "sound_clock (cc_node C)" "0 < poll"
  shows "n_clock (cc_node C) (w_log w) + of_nat k * poll \<ge> deadline \<Longrightarrow> \<exists>w' r. wait_loop C hash deadline poll w = Some (w', r)"
proof (induction k arbitrary: w)
  case 0
  then show ?case by (subst wait_loop.simps) simp
next
  case (Suc k)
  from get_receipt_internal_returns obtain w1 r where r: "get_receipt_internal C hash w = Some (w1, r)" by blast
  let ?w2 = "emit (Slept poll) w1"
  from get_receipt_internal_run(1) [OF r] have "n_clock (cc_node C) (w_log w) \<le> n_clock (cc_node C) (w_log w1)"
    using clock_mono [OF assms(1)] by (auto simp: extends_def)
  with clock_sleep [OF assms(1), of "w_log w1" poll] Suc.prems
  have "n_clock (cc_node C) (w_log ?w2) + of_nat k * poll \<ge> deadline"
    by (simp add: algebra_simps)
  from Suc.IH [OF this] r show ?case
    by (subst wait_loop.simps) (auto split: outcome.splits option.splits)
qed

text \<open>A receipt is one the node reported.\<close>

definition reported :: "chain_client \<Rightarrow> bytes \<Rightarrow> transaction_receipt \<Rightarrow> bool" where
  "reported C hash rc \<longleftrightarrow> (\<exists>h u er. n_receipt (cc_node C) h u hash = Inr (Some er) \<and> from_ethers er = Ok rc)"

lemma get_receipt_internal_reported:
  "get_receipt_internal C hash w = Some (w', Ok (Some rc)) \<Longrightarrow> reported C hash rc"
  using get_receipt_internal_run(2) [of C hash w w' "Ok (Some rc)" rc] by (simp add: reported_def)

lemma wait_loop_post:
  assumes "wait_loop C hash deadline poll w = Some res"
  shows "extends w (fst res) \<and> (\<forall>rc. snd res = Ok rc \<longrightarrow> reported C hash rc)"
proof (rule wait_loop.raw_induct
    [where P = "\<lambda>C hash deadline poll w res. extends w (fst res) \<and> (\<forall>rc. snd res = Ok rc \<longrightarrow> reported C hash rc)",
     OF _ assms], goal_cases)
  case (1 wl C hash deadline poll w res)
  show ?case
  proof (cases "n_clock (cc_node C) (w_log w) \<ge> deadline")
    case False
    with 1(2) obtain w1 r where r: "get_receipt_internal C hash w = Some (w1, r)"
      by (auto split: option.splits)
    note ext = get_receipt_internal_run(1) [OF r]
    show ?thesis
    proof (cases "r = Ok None")
      case True
      with 1(2) False r have "wl C hash deadline poll (emit (Slept poll) w1) = Some res" by simp
      from 1(1) [OF this] show ?thesis by (auto intro: extends_trans [OF extends_emit [OF ext]])
    next
      case no: False
      with 1(2) False r ext show ?thesis
        by (auto dest: get_receipt_internal_reported split: outcome.splits option.splits)
    qed
  qed (use 1(2) in auto)
qed

lemma wait_for_receipt_run:
  assumes "sound_clock (cc_node C)"
  shows "\<exists>w' r. wait_for_receipt C tx_hash timeout poll_interval w = Some (w', r) \<and> extends w w'"
proof (cases "n_parse_hash (cc_node C) tx_hash")
  case (Some hash)
  let ?poll = "max poll_interval MIN_POLL_INTERVAL"
  let ?now = "n_clock (cc_node C) (w_log w)"
  let ?deadline = "?now + of_nat (max timeout (cc_timeout_secs C))"
  have poll: "0 < ?poll" by (simp add: MIN_POLL_INTERVAL_def max_def)
  obtain k :: nat where "(?deadline - ?now) / ?poll \<le> of_nat k" using of_nat_ceiling by blast
  then have "?now + of_nat k * ?poll \<ge> ?deadline" using poll by (simp add: field_simps)
  from wait_loop_returns [OF assms poll this] obtain w' r
    where r: "wait_loop C hash ?deadline ?poll w = Some (w', r)" by blast
  with wait_loop_post [OF r] Some show ?thesis by (auto simp: wait_for_receipt_def)
qed (simp add: wait_for_receipt_def)

lemma wait_for_receipt_post:
  assumes "wait_for_receipt C tx_hash t p w = Some (w', Ok rc)"
  shows "\<exists>hash. n_parse_hash (cc_node C) tx_hash = Some hash \<and> reported C hash rc"
  using assms wait_loop_post [of C _ _ _ w "(w', Ok rc)"] by (auto simp: wait_for_receipt_def split: option.splits)


lemma sample_clock: "sound_clock sample_node"
  unfolding sound_clock_def sample_node_def by (auto split: chain_event.splits)


end
