(* ===== verification/Exchange_Client.thy ===== *)
theory Exchange_Client
  imports Binance_Client Chain_Client
begin

text \<open>
  \<open>exchange/bybit.rs\<close>, the Bybit adapter, and the dispatching \<open>ExchangeClient\<close> of \<open>exchange/client.rs\<close>.
  The text of a failed float conversion is shortened.
\<close>

section \<open>Bybit\<close>

record bybit_config =
  yc_api_key :: string
  yc_secret :: string
  yc_base_url :: string
  yc_ws_url :: string
  yc_sandbox :: bool
  yc_enable_rate_limit :: bool
  yc_recv_window :: nat

record bybit_adapter =
  yb_config :: bybit_config
  yb_http :: http_client
  yb_env :: http_env
  yb_lib :: exchange_lib

definition bybit_adapter_new :: "bybit_config \<Rightarrow> http_env \<Rightarrow> exchange_lib \<Rightarrow> bybit_adapter" where
  "bybit_adapter_new config E L =
     \<lparr>yb_config = config, yb_http = \<lparr>hc_retry = retry_config_default, hc_enabled = yc_enable_rate_limit config\<rparr>,
      yb_env = E, yb_lib = L\<rparr>"

definition bybit_sign_request :: "bybit_adapter \<Rightarrow> string \<Rightarrow> http_history \<Rightarrow> exchange_error + nat \<times> string" where
  "bybit_sign_request Y query h =
     (case he_unix_ms (yb_env Y) h of
        None \<Rightarrow> Inl (ConfigError ''system clock unavailable'')
      | Some ms \<Rightarrow>
          (let ts = ms mod 2 ^ 64; c = yb_config Y;
               param = yc_api_key c @ show_nat (yc_recv_window c) @ show_nat ts @ query
           in Inr (ts, hex_encode (xl_hmac (yb_lib Y) (yc_secret c) param))))"

definition auth_params :: "bybit_adapter \<Rightarrow> nat \<times> string \<Rightarrow> string" where
  "auth_params Y = (\<lambda>(ts, signature).
     ''api_key='' @ yc_api_key (yb_config Y) @ ''&recvWindow='' @ show_nat (yc_recv_window (yb_config Y))
       @ ''&timestamp='' @ show_nat ts @ ''&sign='' @ signature)"

definition BYBIT_ERR_PARAMS :: int where "BYBIT_ERR_PARAMS = 10001"
definition BYBIT_ERR_ORDER_NOT_FOUND :: int where "BYBIT_ERR_ORDER_NOT_FOUND = 110001"
definition BYBIT_ERR_INSUFFICIENT_MARGIN :: int where "BYBIT_ERR_INSUFFICIENT_MARGIN = 110007"

definition bybit_check_api_error :: "json \<Rightarrow> (exchange_error, unit) outcome" where
  "bybit_check_api_error resp =
     (let ret_code = or_else (json_i64 (json_get resp ''retCode'')) 0
      in if ret_code = 0 then Ok ()
         else let msg = or_else (as_string (json_get resp ''retMsg'')) ''unknown error''; code = as_i32 ret_code
              in if code = BYBIT_ERR_PARAMS then Err (InvalidSymbol msg)
                 else if code = BYBIT_ERR_INSUFFICIENT_MARGIN then Err (InsufficientFunds msg)
                 else if code = BYBIT_ERR_ORDER_NOT_FOUND then Err (OrderRejected msg)
                 else Err (Api code msg))"

definition bybit_checked :: "('w, http_response) http_call \<Rightarrow> ('w, json) http_call" where
  "bybit_checked m =
     seq m (\<lambda>r. lift_out (bind_out (json_body r) (\<lambda>body. bind_out (bybit_check_api_error body) (\<lambda>_. Ok body))))"

text \<open>The URL is built once, before the retry loop.\<close>

definition with_url :: "exchange_error + string \<Rightarrow> (string \<Rightarrow> ('w, 'a) http_call) \<Rightarrow> ('w, 'a) http_call" where
  "with_url u f = (case u of Inl e \<Rightarrow> throw e | Inr url \<Rightarrow> f url)"

definition signed_get_url :: "bybit_adapter \<Rightarrow> string \<Rightarrow> string \<Rightarrow> http_history \<Rightarrow> exchange_error + string" where
  "signed_get_url Y path query h =
     (case bybit_sign_request Y query h of
        Inl e \<Rightarrow> Inl e
      | Inr auth \<Rightarrow> Inr (yc_base_url (yb_config Y) @ path @ ''?'' @ (if query = [] then [] else query @ ''&'') @ auth_params Y auth))"

definition bybit_signed_get :: "bybit_adapter \<Rightarrow> string \<Rightarrow> string \<Rightarrow> ('w, json) http_call" where
  "bybit_signed_get Y path query w =
     with_url (signed_get_url Y path query (hw_log w)) (\<lambda>url.
       bybit_checked (http_get (yb_env Y) (yb_http Y) url (Some (yc_api_key (yb_config Y))) 1)) w"

definition signed_post_url :: "bybit_adapter \<Rightarrow> string \<Rightarrow> string \<Rightarrow> http_history \<Rightarrow> exchange_error + string" where
  "signed_post_url Y path query h =
     (case bybit_sign_request Y query h of
        Inl e \<Rightarrow> Inl e
      | Inr auth \<Rightarrow> Inr (yc_base_url (yb_config Y) @ path @ ''?'' @ auth_params Y auth))"

definition bybit_signed_post :: "bybit_adapter \<Rightarrow> string \<Rightarrow> string \<Rightarrow> ('w, json) http_call" where
  "bybit_signed_post Y path query w =
     with_url (signed_post_url Y path query (hw_log w)) (\<lambda>url.
       bybit_checked (http_post (yb_env Y) (yb_http Y) url (Some (yc_api_key (yb_config Y))) 1)) w"

definition bybit_get :: "bybit_adapter \<Rightarrow> string \<Rightarrow> ('w, json) http_call" where
  "bybit_get Y path = bybit_checked (http_get (yb_env Y) (yb_http Y) (yc_base_url (yb_config Y) @ path) None 1)"

definition result_list :: "json \<Rightarrow> json list option" where
  "result_list resp = as_array (json_get (json_get resp ''result'') ''list'')"

definition first_of :: "'a list option \<Rightarrow> 'a option" where
  "first_of xs = (case xs of Some (x # _) \<Rightarrow> Some x | _ \<Rightarrow> None)"

definition bybit_health_check :: "bybit_adapter \<Rightarrow> ('w, nat) http_call" where
  "bybit_health_check Y =
     seq (bybit_get Y ''/v5/market/time'') (\<lambda>resp.
       ret (or_else (json_u64 (json_get (json_get resp ''result'') ''timeNano'')) 0 div 1000000))"

definition bybit_fetch_rate_limits :: "bybit_adapter \<Rightarrow> ('w, unit) http_call" where
  "bybit_fetch_rate_limits Y = ret ()"

definition bybit_levels :: "exchange_lib \<Rightarrow> json \<Rightarrow> (exchange_error, level list \<times> level list) outcome" where
  "bybit_levels L result =
     bind_out (ok_or (JsonParse (xl_json_error L ''missing bids'')) (as_array (json_get result ''bids''))) (\<lambda>bids_raw.
     bind_out (ok_or (JsonParse (xl_json_error L ''missing asks'')) (as_array (json_get result ''asks''))) (\<lambda>asks_raw.
     bind_out (try_map (parse_level L) bids_raw) (\<lambda>bs.
     bind_out (try_map (parse_level L) asks_raw) (\<lambda>as. Ok (bs, as)))))"

definition bybit_fetch_order_book :: "bybit_adapter \<Rightarrow> string \<Rightarrow> nat \<Rightarrow> ('w, order_book_snapshot) http_call" where
  "bybit_fetch_order_book Y symbol limit =
     seq (bybit_get Y (''/v5/market/orderbook?category=spot&symbol='' @ no_slash symbol @ ''&limit='' @ show_nat limit)) (\<lambda>resp.
       lift_out (bind_out (bybit_levels (yb_lib Y) (json_get resp ''result'')) (\<lambda>(bs, as).
         Ok (snapshot_of (xl_dec (yb_lib Y)) symbol (or_else (json_u64 (json_get (json_get resp ''result'') ''ts'')) 0) bs as))))"

definition bybit_balance :: "exchange_lib \<Rightarrow> json \<Rightarrow> (exchange_error, string \<times> normalized_balance) outcome" where
  "bybit_balance L coin =
     bind_out (parse_decimal L (json_get coin ''availableToWithdraw'')) (\<lambda>free.
     bind_out (parse_decimal L (json_get coin ''locked'')) (\<lambda>locked.
       Ok (or_else (as_string (json_get coin ''coin'')) [],
           \<lparr>nb_free = free, nb_locked = locked, nb_total = dadd (xl_dec L) free locked\<rparr>)))"

text \<open>Accounts without a coin list are skipped.\<close>

definition bybit_fetch_balance :: "bybit_adapter \<Rightarrow> ('w, string \<rightharpoonup> normalized_balance) http_call" where
  "bybit_fetch_balance Y =
     seq (bybit_signed_get Y ''/v5/account/wallet-balance'' ''accountType=UNIFIED'') (\<lambda>resp.
       lift_out (bind_out (ok_or (JsonParse (xl_json_error (yb_lib Y) ''missing list'')) (result_list resp)) (\<lambda>accounts.
         bind_out (try_map (bybit_balance (yb_lib Y))
                     (concat (map (\<lambda>a. or_else (as_array (json_get a ''coin'')) []) accounts))) (\<lambda>bs.
           Ok (balance_map_of bs)))))"

text \<open>The answer to a new order carries no fill: the result says \<open>NEW\<close> with nothing filled.\<close>

definition placed_order :: "exchange_lib \<Rightarrow> json \<Rightarrow> string \<Rightarrow> string \<Rightarrow> rat \<Rightarrow> string \<Rightarrow> string \<Rightarrow> (exchange_error, order_result) outcome" where
  "placed_order L resp symbol side amount order_type tif =
     (case dec_from_f64 (xl_f64 L) amount of
        None \<Rightarrow> Err (DecimalParse ''f64 to Decimal'')
      | Some requested \<Rightarrow>
          Ok \<lparr>or_id = or_else (as_string (json_get (json_get resp ''result'') ''orderId'')) ''unknown'', or_symbol = symbol,
              or_side = side, or_order_type = order_type, or_time_in_force = tif, or_amount_requested = requested,
              or_amount_filled = 0, or_avg_fill_price = 0, or_fee = 0, or_fee_asset = [], or_status = ''NEW'', or_timestamp = 0\<rparr>)"

definition bybit_create_limit_order ::
  "bybit_adapter \<Rightarrow> string \<Rightarrow> string \<Rightarrow> rat \<Rightarrow> rat \<Rightarrow> string \<Rightarrow> ('w, order_result) http_call" where
  "bybit_create_limit_order Y symbol side amount price tif =
     seq (bybit_signed_post Y ''/v5/order/create''
        (''category=spot&symbol='' @ no_slash symbol @ ''&side='' @ to_uppercase side @ ''&orderType=Limit&qty=''
         @ xl_show_f64 (yb_lib Y) amount @ ''&price='' @ xl_show_f64 (yb_lib Y) price @ ''&timeInForce='' @ tif)) (\<lambda>resp.
       lift_out (placed_order (yb_lib Y) resp symbol side amount ''LIMIT'' tif))"

definition bybit_create_market_order :: "bybit_adapter \<Rightarrow> string \<Rightarrow> string \<Rightarrow> rat \<Rightarrow> ('w, order_result) http_call" where
  "bybit_create_market_order Y symbol side amount =
     seq (bybit_signed_post Y ''/v5/order/create''
        (''category=spot&symbol='' @ no_slash symbol @ ''&side='' @ to_uppercase side @ ''&orderType=Market&qty=''
         @ xl_show_f64 (yb_lib Y) amount)) (\<lambda>resp.
       lift_out (placed_order (yb_lib Y) resp symbol side amount ''MARKET'' ''IOC''))"

definition bybit_order_query :: "string \<Rightarrow> string \<Rightarrow> string" where
  "bybit_order_query order_id symbol = ''category=spot&symbol='' @ no_slash symbol @ ''&orderId='' @ order_id"

definition bybit_cancel_order :: "bybit_adapter \<Rightarrow> string \<Rightarrow> string \<Rightarrow> ('w, order_result) http_call" where
  "bybit_cancel_order Y order_id symbol =
     seq (bybit_signed_post Y ''/v5/order/cancel'' (bybit_order_query order_id symbol)) (\<lambda>_.
       ret \<lparr>or_id = order_id, or_symbol = symbol, or_side = [], or_order_type = [], or_time_in_force = [],
            or_amount_requested = 0, or_amount_filled = 0, or_avg_fill_price = 0, or_fee = 0, or_fee_asset = [],
            or_status = ''CANCELLED'', or_timestamp = 0\<rparr>)"

definition bybit_order :: "exchange_lib \<Rightarrow> string \<Rightarrow> string \<Rightarrow> json \<Rightarrow> order_result" where
  "bybit_order L order_id symbol ord =
     (let str = (\<lambda>k d. or_else (as_string (json_get ord k)) d)
      in \<lparr>or_id = order_id, or_symbol = symbol, or_side = str ''side'' ''unknown'', or_order_type = str ''orderType'' ''unknown'',
          or_time_in_force = str ''timeInForce'' [], or_amount_requested = decimal_or_zero L (json_get ord ''qty''),
          or_amount_filled = decimal_or_zero L (json_get ord ''cumExecQty''),
          or_avg_fill_price = decimal_or_zero L (json_get ord ''price''), or_fee = 0, or_fee_asset = [],
          or_status = str ''orderStatus'' ''UNKNOWN'', or_timestamp = or_else (json_u64 (json_get ord ''createdTime'')) 0\<rparr>)"

definition bybit_fetch_order_status :: "bybit_adapter \<Rightarrow> string \<Rightarrow> string \<Rightarrow> ('w, order_result) http_call" where
  "bybit_fetch_order_status Y order_id symbol =
     seq (bybit_signed_get Y ''/v5/order/realtime'' (bybit_order_query order_id symbol)) (\<lambda>resp.
       lift_out (bind_out (ok_or (OrderRejected ''order not found'') (first_of (result_list resp))) (\<lambda>ord.
         Ok (bybit_order (yb_lib Y) order_id symbol ord))))"

definition bybit_get_trading_fees :: "bybit_adapter \<Rightarrow> string \<Rightarrow> ('w, maker_taker) http_call" where
  "bybit_get_trading_fees Y symbol =
     (case split_pair_symbols symbol of
        Inl e \<Rightarrow> throw (InvalidSymbol (core_error_str e))
      | Inr (base, _) \<Rightarrow>
          seq (bybit_signed_get Y ''/v5/account/fee-rate'' (''category=spot&symbol='' @ no_slash symbol @ ''&baseCoin='' @ base)) (\<lambda>resp.
            lift_out (bind_out (ok_or (Api (- 1) ''no fee data'') (first_of (result_list resp))) (\<lambda>x.
              bind_out (parse_decimal (yb_lib Y) (json_get x ''makerFeeRate'')) (\<lambda>maker.
              bind_out (parse_decimal (yb_lib Y) (json_get x ''takerFeeRate'')) (\<lambda>taker.
                Ok \<lparr>mt_maker = \<bar>maker\<bar>, mt_taker = \<bar>taker\<bar>\<rparr>))))))"

definition bybit_trade :: "exchange_lib \<Rightarrow> string \<Rightarrow> json \<Rightarrow> (exchange_error, my_trade) outcome" where
  "bybit_trade L symbol t =
     bind_out (parse_decimal L (json_get t ''execPrice'')) (\<lambda>price.
     bind_out (parse_decimal L (json_get t ''execQty'')) (\<lambda>qty.
     bind_out (parse_decimal L (json_get t ''execFee'')) (\<lambda>fee.
       Ok \<lparr>my_id = or_else (as_string (json_get t ''execId'')) [], my_order_id = or_else (as_string (json_get t ''orderId'')) [],
           my_symbol = symbol, my_side = or_else (as_string (json_get t ''side'')) ''unknown'', my_price = price, my_qty = qty,
           my_fee = fee, my_fee_asset = or_else (as_string (json_get t ''feeCurrency'')) [],
           my_timestamp = or_else (json_u64 (json_get t ''execTime'')) 0\<rparr>)))"

definition bybit_fetch_my_trades :: "bybit_adapter \<Rightarrow> string \<Rightarrow> nat \<Rightarrow> ('w, my_trade list) http_call" where
  "bybit_fetch_my_trades Y symbol limit =
     seq (bybit_signed_get Y ''/v5/execution/list'' (''category=spot&symbol='' @ no_slash symbol @ ''&limit='' @ show_nat limit)) (\<lambda>resp.
       lift_out (try_map (bybit_trade (yb_lib Y) symbol) (or_else (result_list resp) [])))"

definition bybit_fetch_price :: "bybit_adapter \<Rightarrow> string \<Rightarrow> ('w, dec) http_call" where
  "bybit_fetch_price Y symbol =
     seq (bybit_get Y (''/v5/market/tickers?category=spot&symbol='' @ no_slash symbol)) (\<lambda>resp.
       lift_out (bind_out (ok_or (DecimalParse ''missing ticker in response'') (first_of (result_list resp))) (\<lambda>ticker.
         parse_decimal (yb_lib Y) (json_get ticker ''lastPrice''))))"

section \<open>The dispatching client\<close>

datatype exchange_client = Binance binance_client | Bybit bybit_adapter

primrec health_check_of :: "exchange_client \<Rightarrow> nat binance_call" where
  "health_check_of (Binance b) = binance_health_check b"
| "health_check_of (Bybit b) = bybit_health_check b"

primrec fetch_rate_limits :: "exchange_client \<Rightarrow> unit binance_call" where
  "fetch_rate_limits (Binance b) = binance_fetch_rate_limits b"
| "fetch_rate_limits (Bybit b) = bybit_fetch_rate_limits b"

primrec fetch_book :: "exchange_client \<Rightarrow> string \<Rightarrow> nat \<Rightarrow> order_book_snapshot binance_call" where
  "fetch_book (Binance b) = binance_fetch_order_book b"
| "fetch_book (Bybit b) = bybit_fetch_order_book b"

primrec fetch_balance :: "exchange_client \<Rightarrow> (string \<rightharpoonup> normalized_balance) binance_call" where
  "fetch_balance (Binance b) = binance_fetch_balance b"
| "fetch_balance (Bybit b) = bybit_fetch_balance b"

primrec fetch_price :: "exchange_client \<Rightarrow> string \<Rightarrow> dec binance_call" where
  "fetch_price (Binance b) = binance_fetch_price b"
| "fetch_price (Bybit b) = bybit_fetch_price b"

primrec limit_gtc_order :: "exchange_client \<Rightarrow> string \<Rightarrow> string \<Rightarrow> rat \<Rightarrow> rat \<Rightarrow> order_result binance_call" where
  "limit_gtc_order (Binance b) = binance_create_limit_gtc_order b"
| "limit_gtc_order (Bybit b) = (\<lambda>symbol side amount price. bybit_create_limit_order b symbol side amount price ''GTC'')"

primrec limit_ioc_order :: "exchange_client \<Rightarrow> string \<Rightarrow> string \<Rightarrow> rat \<Rightarrow> rat \<Rightarrow> order_result binance_call" where
  "limit_ioc_order (Binance b) = binance_create_limit_ioc_order b"
| "limit_ioc_order (Bybit b) = (\<lambda>symbol side amount price. bybit_create_limit_order b symbol side amount price ''IOC'')"

primrec market_order :: "exchange_client \<Rightarrow> string \<Rightarrow> string \<Rightarrow> rat \<Rightarrow> order_result binance_call" where
  "market_order (Binance b) = binance_create_market_order b"
| "market_order (Bybit b) = bybit_create_market_order b"

primrec cancel_order :: "exchange_client \<Rightarrow> string \<Rightarrow> string \<Rightarrow> order_result binance_call" where
  "cancel_order (Binance b) = binance_cancel_order b"
| "cancel_order (Bybit b) = bybit_cancel_order b"

primrec fetch_order_status :: "exchange_client \<Rightarrow> string \<Rightarrow> string \<Rightarrow> order_result binance_call" where
  "fetch_order_status (Binance b) = binance_fetch_order_status b"
| "fetch_order_status (Bybit b) = bybit_fetch_order_status b"

primrec get_trading_fees :: "exchange_client \<Rightarrow> string \<Rightarrow> maker_taker binance_call" where
  "get_trading_fees (Binance b) = binance_get_trading_fees b"
| "get_trading_fees (Bybit b) = bybit_get_trading_fees b"

primrec fetch_my_trades :: "exchange_client \<Rightarrow> string \<Rightarrow> nat \<Rightarrow> my_trade list binance_call" where
  "fetch_my_trades (Binance b) = binance_fetch_my_trades b"
| "fetch_my_trades (Bybit b) = bybit_fetch_my_trades b"

primrec withdraw_to_address :: "exchange_client \<Rightarrow> string \<Rightarrow> string \<Rightarrow> dec \<Rightarrow> string \<Rightarrow> string binance_call" where
  "withdraw_to_address (Binance b) = binance_withdraw_to_address b"
| "withdraw_to_address (Bybit b) =
     (\<lambda>_ _ _ _. throw (ConfigError ''withdraw_to_address is only implemented for Binance''))"

primrec fetch_capital_config :: "exchange_client \<Rightarrow> capital_coin_config list binance_call" where
  "fetch_capital_config (Binance b) = binance_fetch_capital_config b"
| "fetch_capital_config (Bybit b) = throw (ConfigError ''fetch_capital_config is only implemented for Binance'')"

primrec fetch_withdrawal_history :: "exchange_client \<Rightarrow> string \<Rightarrow> transfer_record list binance_call" where
  "fetch_withdrawal_history (Binance b) = binance_fetch_withdrawal_history b"
| "fetch_withdrawal_history (Bybit b) = (\<lambda>_. throw (ConfigError ''fetch_withdrawal_history is only implemented for Binance''))"

primrec fetch_deposit_history :: "exchange_client \<Rightarrow> string \<Rightarrow> string option \<Rightarrow> transfer_record list binance_call" where
  "fetch_deposit_history (Binance b) = binance_fetch_deposit_history b"
| "fetch_deposit_history (Bybit b) = (\<lambda>_ _. throw (ConfigError ''fetch_deposit_history is only implemented for Binance''))"

section \<open>What Bybit receives\<close>

text \<open>
  The URL of a POST request holds the API key, the time stamp and the signature; the parameters of the order are
  signed but never sent, in the URL or in a body.
\<close>

lemma bybit_post_url_ignores_query:
  assumes "\<And>p. xl_hmac (yb_lib Y) (yc_secret (yb_config Y)) (p @ query) = xl_hmac (yb_lib Y) (yc_secret (yb_config Y)) (p @ query')"
  shows "signed_post_url Y path query h = signed_post_url Y path query' h"
  using assms [of "yc_api_key (yb_config Y) @ show_nat (yc_recv_window (yb_config Y)) @ show_nat (the (he_unix_ms (yb_env Y) h) mod 2 ^ 64)"]
  by (auto simp: signed_post_url_def bybit_sign_request_def Let_def split: option.split)

lemma bybit_orders_report_nothing_filled:
  assumes "bybit_create_limit_order Y symbol side amount price tif w = Some (w', Ok ord)"
  shows "or_amount_filled ord = 0 \<and> or_status ord = ''NEW''"
  using assms
  by (auto simp: bybit_create_limit_order_def placed_order_def call_defs split: option.splits outcome.splits)

end
