(* ===== verification/Swap_Encoding.thy ===== *)
theory Swap_Encoding
  imports Chain_Client Arbitrage "HOL-Library.Countable"
begin

text \<open>
  The pure part of \<open>executor/dex_swapper.rs\<close>: calldata builders, slippage, V3 routes, and the parsing of
  transfer logs.  The ABI encoder and decoder, the selector hash and the hexadecimal parser of \<open>U256\<close> are
  functions of the crate \<open>ethers\<close>: a record of parameters.  Addresses inside ABI values are their
  lowercase spelling.
\<close>

section \<open>Crate functions\<close>

record ethers_abi =
  ab_encode :: "abi_value list \<Rightarrow> bytes"
  ab_decode :: abi_decoder
  ab_id :: "string \<Rightarrow> bytes"
  ab_parse_hex :: "string \<Rightarrow> nat option"

section \<open>Errors and pairs\<close>

datatype swapper_error =
    UnknownPair string
  | SwChain string
  | SwDecode string
  | SwReverted string
  | InvalidMinOut string
  | TxBuild string
  | SwQuote string
  | SwBundle string
  | BundleNotIncluded string nat

primrec swapper_error_str :: "swapper_error \<Rightarrow> string" where
  "swapper_error_str (UnknownPair p) = ''unknown pair: '' @ p"
| "swapper_error_str (SwChain e) = ''chain error: '' @ e"
| "swapper_error_str (SwDecode e) = ''decode error: '' @ e"
| "swapper_error_str (SwReverted tx) = ''swap reverted on-chain (tx '' @ tx @ '')''"
| "swapper_error_str (InvalidMinOut e) = ''invalid min_out: '' @ e"
| "swapper_error_str (TxBuild e) = ''tx build error: '' @ e"
| "swapper_error_str (SwQuote e) = ''quote error: '' @ e"
| "swapper_error_str (SwBundle e) = ''bundle error: '' @ e"
| "swapper_error_str (BundleNotIncluded tx b) =
     ''bundle not included before timeout (tx '' @ tx @ '', target block '' @ show_nat b @ '')''"

datatype dex_pool_kind = PoolV2 | PoolV3

record pair_tokens =
  pt_base :: address
  pt_base_decimals :: nat
  pt_quote :: address
  pt_quote_decimals :: nat
  pt_pool_kind :: dex_pool_kind
  pt_v3_fee :: "nat option"
  pt_v3_path :: "address list option"
  pt_v3_fees :: "nat list option"
  pt_v3_quoter :: "address option"

type_synonym pair_address_book = "string \<rightharpoonup> pair_tokens"

definition address_book_new :: pair_address_book where "address_book_new = Map.empty"

definition address_book_insert :: "string \<Rightarrow> pair_tokens \<Rightarrow> pair_address_book \<Rightarrow> pair_address_book" where
  "address_book_insert pair tokens book = book(pair \<mapsto> tokens)"

definition address_book_get :: "string \<Rightarrow> pair_address_book \<Rightarrow> pair_tokens option" where
  "address_book_get pair book = book pair"

section \<open>Calldata\<close>

definition SWAP_EXACT_TOKENS_FOR_TOKENS_SELECTOR :: bytes where
  "SWAP_EXACT_TOKENS_FOR_TOKENS_SELECTOR = [0x38, 0xed, 0x17, 0x39]"
definition GET_AMOUNTS_OUT_SELECTOR :: bytes where
  "GET_AMOUNTS_OUT_SELECTOR = [0xd0, 0x6c, 0xa6, 0x1f]"
definition V3_EXACT_INPUT_SINGLE_SELECTOR :: bytes where
  "V3_EXACT_INPUT_SINGLE_SELECTOR = [0x41, 0x4b, 0xf3, 0x89]"
definition V3_EXACT_INPUT_SELECTOR :: bytes where
  "V3_EXACT_INPUT_SELECTOR = [0xc0, 0x4b, 0x8d, 0x59]"
definition ERC20_APPROVE_SELECTOR :: bytes where
  "ERC20_APPROVE_SELECTOR = [0x09, 0x5e, 0xa7, 0xb3]"
definition ERC20_ALLOWANCE_SELECTOR :: bytes where
  "ERC20_ALLOWANCE_SELECTOR = [0xdd, 0x62, 0xed, 0x3e]"
definition ERC20_BALANCE_OF_SELECTOR :: bytes where
  "ERC20_BALANCE_OF_SELECTOR = [0x70, 0xa0, 0x82, 0x31]"
definition WETH_DEPOSIT_SELECTOR :: bytes where
  "WETH_DEPOSIT_SELECTOR = [0xd0, 0xe3, 0x0d, 0xb0]"

definition v_addr :: "address \<Rightarrow> abi_value" where
  "v_addr a = VAddress (addr_lower a)"

definition build_swap_calldata :: "ethers_abi \<Rightarrow> nat \<Rightarrow> nat \<Rightarrow> address list \<Rightarrow> address \<Rightarrow> nat \<Rightarrow> bytes" where
  "build_swap_calldata A amount_in min_out path recipient deadline =
     SWAP_EXACT_TOKENS_FOR_TOKENS_SELECTOR @
     ab_encode A [VUint amount_in, VUint min_out, VArray (map v_addr path), v_addr recipient, VUint deadline]"

definition build_get_amounts_out_calldata :: "ethers_abi \<Rightarrow> nat \<Rightarrow> address list \<Rightarrow> bytes" where
  "build_get_amounts_out_calldata A amount_in path =
     GET_AMOUNTS_OUT_SELECTOR @ ab_encode A [VUint amount_in, VArray (map v_addr path)]"

definition build_v3_exact_input_single_calldata ::
  "ethers_abi \<Rightarrow> address \<Rightarrow> address \<Rightarrow> nat \<Rightarrow> address \<Rightarrow> nat \<Rightarrow> nat \<Rightarrow> nat \<Rightarrow> bytes" where
  "build_v3_exact_input_single_calldata A token_in token_out fee recipient deadline amount_in min_out =
     V3_EXACT_INPUT_SINGLE_SELECTOR @
     ab_encode A [v_addr token_in, v_addr token_out, VUint fee, v_addr recipient, VUint deadline, VUint amount_in,
                  VUint min_out, VUint 0]"

text \<open>The packed V3 path: 20 bytes per token, 3 big-endian bytes per fee between two tokens.\<close>

definition fee_bytes :: "nat \<Rightarrow> bytes" where
  "fee_bytes fee = [fee div 2 ^ 16 mod 256, fee div 2 ^ 8 mod 256, fee mod 256]"

fun encode_hops :: "address list \<Rightarrow> nat list \<Rightarrow> string + bytes" where
  "encode_hops [] fees = Inr []"
| "encode_hops (token # path) [] = (case encode_hops path [] of Inl e \<Rightarrow> Inl e | Inr rest \<Rightarrow> Inr (token @ rest))"
| "encode_hops (token # path) (fee # fees) =
     (if fee > 0x00ffffff then Inl (''V3 fee '' @ show_nat fee @ '' exceeds uint24'')
      else case encode_hops path fees of Inl e \<Rightarrow> Inl e | Inr rest \<Rightarrow> Inr (token @ fee_bytes fee @ rest))"

definition encode_v3_path :: "address list \<Rightarrow> nat list \<Rightarrow> string + bytes" where
  "encode_v3_path path fees =
     (if length path < 2 then Inl ''V3 path requires at least two token addresses''
      else if length fees + 1 \<noteq> length path
      then Inl (''V3 path fee count mismatch: '' @ show_nat (length fees) @ '' fees for '' @ show_nat (length path) @ '' tokens'')
      else encode_hops path fees)"

definition build_v3_exact_input_calldata ::
  "ethers_abi \<Rightarrow> address list \<Rightarrow> nat list \<Rightarrow> address \<Rightarrow> nat \<Rightarrow> nat \<Rightarrow> nat \<Rightarrow> string + bytes" where
  "build_v3_exact_input_calldata A path fees recipient deadline amount_in min_out =
     (case encode_v3_path path fees of
        Inl e \<Rightarrow> Inl e
      | Inr encoded \<Rightarrow>
          Inr (V3_EXACT_INPUT_SELECTOR @
               ab_encode A [VBytes encoded, v_addr recipient, VUint deadline, VUint amount_in, VUint min_out]))"

definition build_v3_quoter_exact_input_single_calldata :: "ethers_abi \<Rightarrow> address \<Rightarrow> address \<Rightarrow> nat \<Rightarrow> nat \<Rightarrow> bytes" where
  "build_v3_quoter_exact_input_single_calldata A token_in token_out fee amount_in =
     take 4 (ab_id A ''quoteExactInputSingle((address,address,uint256,uint24,uint160))'') @
     ab_encode A [VTuple [v_addr token_in, v_addr token_out, VUint amount_in, VUint fee, VUint 0]]"

definition build_v3_quoter_exact_input_calldata :: "ethers_abi \<Rightarrow> address list \<Rightarrow> nat list \<Rightarrow> nat \<Rightarrow> string + bytes" where
  "build_v3_quoter_exact_input_calldata A path fees amount_in =
     (case encode_v3_path path fees of
        Inl e \<Rightarrow> Inl e
      | Inr encoded \<Rightarrow>
          Inr (take 4 (ab_id A ''quoteExactInput(bytes,uint256)'') @ ab_encode A [VBytes encoded, VUint amount_in]))"

definition build_approve_calldata :: "ethers_abi \<Rightarrow> address \<Rightarrow> nat \<Rightarrow> bytes" where
  "build_approve_calldata A spender amount = ERC20_APPROVE_SELECTOR @ ab_encode A [v_addr spender, VUint amount]"

definition build_allowance_calldata :: "ethers_abi \<Rightarrow> address \<Rightarrow> address \<Rightarrow> bytes" where
  "build_allowance_calldata A owner spender = ERC20_ALLOWANCE_SELECTOR @ ab_encode A [v_addr owner, v_addr spender]"

section \<open>Slippage\<close>

definition BPS_FULL :: nat where "BPS_FULL = 10000"

definition apply_slippage :: "nat \<Rightarrow> nat \<Rightarrow> nat" where
  "apply_slippage expected slippage_bps =
     (if slippage_bps \<ge> BPS_FULL then 0
      else let product = expected * (BPS_FULL - slippage_bps)
           in (if product < 2 ^ 256 then product else 0) div BPS_FULL)"

section \<open>V3 routes\<close>

definition route_matches :: "address list \<Rightarrow> address \<Rightarrow> address \<Rightarrow> bool" where
  "route_matches path a b \<longleftrightarrow> path \<noteq> [] \<and> hd path = a \<and> last path = b"

definition v3_route_for_pair :: "pair_tokens \<Rightarrow> address \<Rightarrow> address \<Rightarrow> swapper_error + address list \<times> nat list" where
  "v3_route_for_pair t token_in token_out =
     (case (pt_v3_path t, pt_v3_fees t) of
        (Some path, Some fees) \<Rightarrow>
          (let forward = route_matches path token_in token_out;
               backward = route_matches path token_out token_in
           in if \<not> forward \<and> \<not> backward
              then Inl (TxBuild ''V3 route endpoints do not match requested swap direction'')
              else if forward then Inr (path, fees) else Inr (rev path, rev fees))
      | (None, None) \<Rightarrow>
          (case pt_v3_fee t of
             None \<Rightarrow> Inl (TxBuild ''missing V3 fee tier for pair in address book'')
           | Some fee \<Rightarrow> Inr ([token_in, token_out], [fee]))
      | _ \<Rightarrow> Inl (TxBuild ''V3 route requires both v3_path and v3_fees''))"

definition v3_swap_calldata_for_pair ::
  "ethers_abi \<Rightarrow> pair_tokens \<Rightarrow> address \<Rightarrow> address \<Rightarrow> address \<Rightarrow> nat \<Rightarrow> nat \<Rightarrow> nat \<Rightarrow> swapper_error + bytes" where
  "v3_swap_calldata_for_pair A t token_in token_out recipient deadline amount_in min_out =
     (case (pt_v3_path t, pt_v3_fees t) of
        (Some path, Some fees) \<Rightarrow>
          (let forward = route_matches path token_in token_out;
               backward = route_matches path token_out token_in
           in if \<not> forward \<and> \<not> backward
              then Inl (TxBuild ''V3 route endpoints do not match requested swap direction'')
              else case build_v3_exact_input_calldata A (if forward then path else rev path) (if forward then fees else rev fees)
                          recipient deadline amount_in min_out of
                     Inl e \<Rightarrow> Inl (TxBuild e)
                   | Inr data \<Rightarrow> Inr data)
      | (None, None) \<Rightarrow>
          (case pt_v3_fee t of
             None \<Rightarrow> Inl (TxBuild ''missing V3 fee tier for pair in address book'')
           | Some fee \<Rightarrow>
               Inr (build_v3_exact_input_single_calldata A token_in token_out fee recipient deadline amount_in min_out))
      | _ \<Rightarrow> Inl (TxBuild ''V3 route requires both v3_path and v3_fees''))"

section \<open>Reading receipts and return data\<close>

definition TRANSFER_TOPIC :: string where
  "TRANSFER_TOPIC = ''0xddf252ad1be2c89b69c2b068fc378daa952ba7f163c4a11628f55a4df523b3ef''"

text \<open>\<open>trim_start_matches\<close> removes the prefix as often as it occurs.\<close>

fun trim_0x :: "string \<Rightarrow> string" where
  "trim_0x (c # d # s) = (if [c, d] = ''0x'' then trim_0x s else c # d # s)"
| "trim_0x s = s"

definition pad_address_lower :: "address \<Rightarrow> string" where
  "pad_address_lower a =
     (let hex = trim_0x (addr_lower a) in ''0x'' @ replicate (64 - length hex) (CHR ''0'') @ hex)"

definition parse_u256_hex :: "ethers_abi \<Rightarrow> string \<Rightarrow> nat option" where
  "parse_u256_hex A s = (let t = trim_0x s in if t = [] then Some 0 else ab_parse_hex A t)"

definition log_matches :: "log_entry \<Rightarrow> address \<Rightarrow> address \<Rightarrow> bool" where
  "log_matches l token recipient \<longleftrightarrow>
     (case log_address l of
        None \<Rightarrow> False
      | Some a \<Rightarrow> lower a = addr_lower token
          \<and> (case log_topics l of
               None \<Rightarrow> False
             | Some topics \<Rightarrow> length topics \<ge> 3
                 \<and> lower (case topics ! 0 of Some t \<Rightarrow> t | None \<Rightarrow> []) = lower TRANSFER_TOPIC
                 \<and> lower (case topics ! 2 of Some t \<Rightarrow> t | None \<Rightarrow> []) = pad_address_lower recipient))"

fun sum_loop :: "ethers_abi \<Rightarrow> address \<Rightarrow> address \<Rightarrow> log_entry list \<Rightarrow> nat \<Rightarrow> nat" where
  "sum_loop A token recipient [] acc = acc"
| "sum_loop A token recipient (l # logs) acc =
     (if log_matches l token recipient
      then case parse_u256_hex A (case log_data l of Some d \<Rightarrow> d | None \<Rightarrow> ''0x'') of
             Some v \<Rightarrow> sum_loop A token recipient logs (min U256_MAX (acc + v))
           | None \<Rightarrow> sum_loop A token recipient logs acc
      else sum_loop A token recipient logs acc)"

definition sum_transfer_to :: "ethers_abi \<Rightarrow> log_entry list \<Rightarrow> address \<Rightarrow> address \<Rightarrow> nat" where
  "sum_transfer_to A logs token recipient = sum_loop A token recipient logs 0"

definition decode_uint256_return :: "bytes \<Rightarrow> nat" where
  "decode_uint256_return data = (if length data < 32 then 0 else be_value (take 32 data))"

definition decode_get_amounts_out_return :: "ethers_abi \<Rightarrow> bytes \<Rightarrow> string + nat" where
  "decode_get_amounts_out_return A data =
     (case ab_decode A [PUintArray] data of
        None \<Rightarrow> Inl ''decode getAmountsOut''
      | Some vs \<Rightarrow>
          (case Option.bind (Option.bind (nth_value vs 0) into_array)
                  (\<lambda>amounts. Option.bind (if amounts = [] then None else Some (last amounts)) into_uint) of
             Some n \<Rightarrow> Inr n
           | None \<Rightarrow> Inl ''getAmountsOut response missing output amount''))"

section \<open>The packed path\<close>

text \<open>A decoder of packed paths, the specification of the encoding.\<close>

fun decode_v3_path :: "nat \<Rightarrow> bytes \<Rightarrow> address list \<times> nat list" where
  "decode_v3_path 0 bs = ([take 20 bs], [])"
| "decode_v3_path (Suc n) bs =
     (let (path, fees) = decode_v3_path n (drop 23 bs)
      in (take 20 bs # path, be_value (take 3 (drop 20 bs)) # fees))"

lemma fee_bytes_value: "fee \<le> 0x00ffffff \<Longrightarrow> be_value (fee_bytes fee) = fee"
proof -
  assume "fee \<le> 0x00ffffff"
  then have "fee div 65536 mod 256 = fee div 65536" by simp
  moreover have "fee div 65536 * 256 + fee div 256 mod 256 = fee div 256"
    using div_mult_mod_eq [of "fee div 256" 256] by (simp add: div_mult2_eq [symmetric])
  ultimately show ?thesis using div_mult_mod_eq [of fee 256] by (simp add: fee_bytes_def be_value_def)
qed

lemma encode_hops_Inr:
  assumes "length fees + 1 = length path"
  shows "(\<exists>bs. encode_hops path fees = Inr bs) \<longleftrightarrow> (\<forall>f \<in> set fees. f \<le> 0x00ffffff)"
  using assms
proof (induction path fees rule: encode_hops.induct)
  case (2 token path)
  then show ?case by (simp split: sum.splits)
next
  case (3 token path fee fees)
  then show ?case by (auto simp: not_le split: sum.splits)
qed simp

lemma decode_encode_hops:
  assumes "encode_hops path fees = Inr bs" "length fees + 1 = length path" "\<forall>a \<in> set path. length a = 20"
  shows "decode_v3_path (length fees) bs = (path, fees) \<and> length bs = 20 * length path + 3 * length fees"
  using assms
proof (induction path fees arbitrary: bs rule: encode_hops.induct)
  case (2 token path)
  then show ?case by (simp split: sum.splits)
next
  case (3 token path fee fees)
  then obtain rest where rest: "encode_hops path fees = Inr rest" "bs = token @ fee_bytes fee @ rest" "fee \<le> 0x00ffffff"
    by (auto split: if_splits sum.splits)
  moreover have "length (fee_bytes fee) = 3" by (simp add: fee_bytes_def)
  moreover have "decode_v3_path (length fees) rest = (path, fees) \<and> length rest = 20 * length path + 3 * length fees"
    using 3 rest by simp
  ultimately show ?case using 3(4) fee_bytes_value [of fee] by simp
qed simp

text \<open>
  The packed Uniswap V3 path is unambiguous.  \<open>encode_v3_path\<close> succeeds exactly for a path of at least
  two tokens with one 24-bit fee between neighbours, and then the bytes decode to the same tokens
  and fees.
\<close>

lemma v3_path_roundtrip:
  assumes "\<forall>a \<in> set path. length a = 20"
  shows "((\<exists>bs. encode_v3_path path fees = Inr bs) \<longleftrightarrow>
      2 \<le> length path \<and> length fees + 1 = length path \<and> (\<forall>f \<in> set fees. f < 2 ^ 24))
    \<and> (\<forall>bs. encode_v3_path path fees = Inr bs \<longrightarrow>
         decode_v3_path (length fees) bs = (path, fees) \<and> length bs = 20 * length path + 3 * length fees)"
proof -
  have lim: "(\<forall>f \<in> set fees. f \<le> 0x00ffffff) \<longleftrightarrow> (\<forall>f \<in> set fees. f < 2 ^ 24)" by (simp add: less_eq_Suc_le)
  show ?thesis
    using encode_hops_Inr [of fees path] decode_encode_hops [of path fees] assms lim
    by (auto simp: encode_v3_path_def)
qed

lemma v3_path_roundtrip_witness:
  "\<exists>bs. encode_v3_path [replicate 20 1, replicate 20 2, replicate 20 3] [500, 3000] = Inr bs
     \<and> decode_v3_path 2 bs = ([replicate 20 1, replicate 20 2, replicate 20 3], [500, 3000])"
proof -
  let ?p = "[replicate 20 1, replicate 20 2, replicate 20 3] :: address list"
  have "\<forall>a \<in> set ?p. length a = 20" by simp
  from v3_path_roundtrip [OF this, of "[500, 3000]"]
  have "\<exists>bs. encode_v3_path ?p [500, 3000] = Inr bs \<and> decode_v3_path (length [500 :: nat, 3000]) bs = (?p, [500, 3000])"
    by (auto simp del: decode_v3_path.simps)
  then show ?thesis by (simp add: numeral_2_eq_2)
qed

section \<open>Slippage bounds\<close>

lemma apply_slippage_bound:
  "apply_slippage e s * 10000 \<le> e * (10000 - s)"
proof -
  have "(e * (10000 - s)) div 10000 * 10000 \<le> e * (10000 - s)" by (rule div_times_less_eq_dividend)
  then show ?thesis by (auto simp: apply_slippage_def BPS_FULL_def Let_def)
qed

lemma apply_slippage_exact:
  "s < 10000 \<Longrightarrow> e * 10000 < 2 ^ 256 \<Longrightarrow> apply_slippage e s = e * (10000 - s) div 10000"
proof -
  assume "s < 10000" "e * 10000 < 2 ^ 256"
  moreover have "e * (10000 - s) \<le> e * 10000" by simp
  ultimately have "e * (10000 - s) < 2 ^ 256" by linarith
  with \<open>s < 10000\<close> show ?thesis by (simp add: apply_slippage_def BPS_FULL_def Let_def)
qed

section \<open>Transfer logs\<close>

text \<open>The amounts of the matching transfers.\<close>

definition credits :: "ethers_abi \<Rightarrow> log_entry list \<Rightarrow> address \<Rightarrow> address \<Rightarrow> nat list" where
  "credits A logs token recipient =
     map the (filter (\<lambda>v. v \<noteq> None)
       (map (\<lambda>l. parse_u256_hex A (case log_data l of Some d \<Rightarrow> d | None \<Rightarrow> ''0x''))
         (filter (\<lambda>l. log_matches l token recipient) logs)))"

lemma sum_loop_eq:
  "acc \<le> U256_MAX \<Longrightarrow> sum_loop A token recipient logs acc = min U256_MAX (acc + sum_list (credits A logs token recipient))"
proof (induction logs arbitrary: acc)
  case (Cons l logs)
  then show ?case by (auto simp: credits_def min_def split: option.splits)
qed (simp add: credits_def)

lemma sum_transfer_to_eq:
  "sum_transfer_to A logs token recipient = min U256_MAX (sum_list (credits A logs token recipient))"
  by (simp add: sum_transfer_to_def sum_loop_eq)

section \<open>Swaps as the mempool monitor sees them\<close>

text \<open>The contract of the ABI codec: well-typed values decode to themselves.\<close>

fun has_type :: "param_type \<Rightarrow> abi_value \<Rightarrow> bool" where
  "has_type PUint (VUint n) \<longleftrightarrow> n < 2 ^ 256"
| "has_type PAddress (VAddress a) \<longleftrightarrow> True"
| "has_type PAddressArray (VArray vs) \<longleftrightarrow> (\<forall>v \<in> set vs. \<exists>a. v = VAddress a)"
| "has_type PUintArray (VArray vs) \<longleftrightarrow> (\<forall>v \<in> set vs. \<exists>n. v = VUint n \<and> n < 2 ^ 256)"
| "has_type p v \<longleftrightarrow> False"

locale abi_codec =
  fixes A :: ethers_abi
  assumes decode_encode: "list_all2 has_type types values \<Longrightarrow> ab_decode A types (ab_encode A values) = Some values"
begin

lemma decode_swap_arguments:
  assumes "amount_in < 2 ^ 256" "min_out < 2 ^ 256" "deadline < 2 ^ 256"
  shows "ab_decode A [PUint, PUint, PAddressArray, PAddress, PUint]
      (ab_encode A [VUint amount_in, VUint min_out, VArray (map v_addr path), v_addr recipient, VUint deadline])
    = Some [VUint amount_in, VUint min_out, VArray (map v_addr path), v_addr recipient, VUint deadline]"
  by (rule decode_encode) (use assms in \<open>auto simp: v_addr_def\<close>)

lemma decode_amounts_out:
  assumes "\<forall>n \<in> set amounts. n < 2 ^ 256" "amounts \<noteq> []"
  shows "decode_get_amounts_out_return A (ab_encode A [VArray (map VUint amounts)]) = Inr (last amounts)"
  using decode_encode [of "[PUintArray]" "[VArray (map VUint amounts)]"] assms
  by (auto simp: decode_get_amounts_out_return_def nth_value_def last_map)

end

text \<open>An instance: values numbered by an enumeration of the type.\<close>

instance abi_value :: countable
  by countable_datatype

definition sample_abi :: ethers_abi where
  "sample_abi =
     \<lparr>ab_encode = (\<lambda>vs. [to_nat vs]), ab_decode = (\<lambda>types bs. Some (from_nat (hd bs))), ab_id = (\<lambda>s. replicate 32 0),
      ab_parse_hex = (\<lambda>s. if list_all (\<lambda>c. c = CHR ''0'' \<or> c = CHR ''1'') s then Some (foldl (\<lambda>n c. 16 * n + (if c = CHR ''1'' then 1 else 0)) 0 s) else None)\<rparr>"

interpretation sample_codec: abi_codec sample_abi
  by unfold_locales (simp add: sample_abi_def)

lemma swap_selector_known:
  "find (\<lambda>(s, d, m). s = ''0x'' @ hex_encode (take SELECTOR_LEN (SWAP_EXACT_TOKENS_FOR_TOKENS_SELECTOR @ payload)))
     SWAP_SELECTORS = Some (''0x38ed1739'', ''UniswapV2'', ''swapExactTokensForTokens'')"
  by (simp add: SELECTOR_LEN_def SWAP_EXACT_TOKENS_FOR_TOKENS_SELECTOR_def SWAP_SELECTORS_def hex_encode_def hex_digit_def)
    (simp add: char_of_def bit_0)

text \<open>
  C38: the swap transaction the bot builds is the swap its own mempool monitor reads.  For an ABI codec that
  decodes what it encodes, parsing a transaction with the calldata of \<open>build_swap_calldata\<close> gives
  back the amount, the minimum output, the deadline and the two end tokens of the path.
\<close>

theorem swap_calldata_roundtrip:
  assumes "abi_codec A" "amount_in < 2 ^ 256" "min_out < 2 ^ 256" "deadline < 2 ^ 256" "path \<noteq> []"
    and "tx_input tx = build_swap_calldata A amount_in min_out path recipient deadline" "tx_to tx = Some router"
  shows "\<exists>s. parse_transaction (ab_decode A) tx = Some s
    \<and> sw_method s = ''swapExactTokensForTokens'' \<and> sw_router s = router \<and> sw_sender s = tx_from tx
    \<and> sw_amount_in s = amount_in \<and> sw_min_amount_out s = min_out \<and> sw_deadline s = deadline
    \<and> sw_token_in s = Some (addr_lower (hd path)) \<and> sw_token_out s = Some (addr_lower (last path))"
proof -
  let ?args = "[VUint amount_in, VUint min_out, VArray (map v_addr path), v_addr recipient, VUint deadline]"
  have data: "tx_input tx = SWAP_EXACT_TOKENS_FOR_TOKENS_SELECTOR @ ab_encode A ?args"
    by (simp add: assms(6) build_swap_calldata_def)
  have len: "length SWAP_EXACT_TOKENS_FOR_TOKENS_SELECTOR = SELECTOR_LEN"
    by (simp add: SWAP_EXACT_TOKENS_FOR_TOKENS_SELECTOR_def SELECTOR_LEN_def)
  have dec: "ab_decode A [PUint, PUint, PAddressArray, PAddress, PUint] (ab_encode A ?args) = Some ?args"
    by (rule abi_codec.decode_swap_arguments [OF assms(1-4)])
  have ends: "first_address (map v_addr path) = Some (addr_lower (hd path))"
    "last_address (map v_addr path) = Some (addr_lower (last path))"
    using assms(5) by (cases path; simp add: first_address_def last_address_def v_addr_def last_map)+
  show ?thesis
    using swap_selector_known [of "ab_encode A ?args"] len dec ends assms(7)
    by (simp add: parse_transaction_def data Let_def decode_v2_tokens_for_tokens_def build_parsed_swap_def nth_value_def)
qed

theorem swap_calldata_roundtrip_witness:
  "\<exists>s. parse_transaction (ab_decode sample_abi)
      \<lparr>tx_input = build_swap_calldata sample_abi 1000 900 [replicate 20 1, replicate 20 2] (replicate 20 3) 1700000000,
       tx_to = Some ''0x7a'', tx_from = ''0x03'', tx_hash_hex = ''ab'', tx_value = 0, tx_gas_price = None\<rparr> = Some s
     \<and> sw_amount_in s = 1000 \<and> sw_min_amount_out s = 900"
  using swap_calldata_roundtrip [OF sample_codec.abi_codec_axioms, of 1000 900 1700000000
      "[replicate 20 1, replicate 20 2]"
      "\<lparr>tx_input = build_swap_calldata sample_abi 1000 900 [replicate 20 1, replicate 20 2] (replicate 20 3) 1700000000,
       tx_to = Some ''0x7a'', tx_from = ''0x03'', tx_hash_hex = ''ab'', tx_value = 0, tx_gas_price = None\<rparr>"
      "replicate 20 3" "''0x7a''"]
  by auto

end
