(* ===== verification/Broadcasts.thy ===== *)
theory Broadcasts
  imports Chain_Client
begin

text \<open>
  What a call broadcasts and what it does to the nonces, as rules that follow the structure of the call.
  \<open>broadcasts G m R\<close>: every raw transaction the call \<open>m\<close> sends satisfies \<open>G\<close>, and a result satisfies \<open>R\<close>.
  \<open>keeps_nonces m\<close>: the call leaves the nonce manager alone.
\<close>

named_theorems broadcast_rules \<open>what the operations of the client broadcast\<close>
named_theorems nonce_rules \<open>calls that leave the nonce manager alone\<close>

fun raws :: "chain_history \<Rightarrow> bytes list" where
  "raws (RpcCall u (QSendRaw raw) # es) = raw # raws es"
| "raws (e # es) = raws es"
| "raws [] = []"

definition sends :: "chain_history \<Rightarrow> bytes set" where
  "sends es = set (raws es)"

lemma sends_iff: "raw \<in> sends es \<longleftrightarrow> (\<exists>u. RpcCall u (QSendRaw raw) \<in> set es)"
  unfolding sends_def by (induction es rule: raws.induct) auto

lemma sends_append [simp]: "sends (es @ es') = sends es \<union> sends es'"
  by (auto simp: sends_iff)

lemma sends_Nil [simp]: "sends [] = {}"
  by (simp add: sends_def)

definition broadcasts :: "(bytes \<Rightarrow> bool) \<Rightarrow> ('e, 'a) chain_call \<Rightarrow> ('a \<Rightarrow> bool) \<Rightarrow> bool" where
  "broadcasts G m R \<longleftrightarrow>
     (\<forall>w w' r. m w = Some (w', r) \<longrightarrow>
        (\<exists>es. w_log w' = w_log w @ es \<and> (\<forall>raw \<in> sends es. G raw)) \<and> (\<forall>a. r = Ok a \<longrightarrow> R a))"

lemma broadcastsI:
  "(\<And>w w' r. m w = Some (w', r) \<Longrightarrow>
      (\<exists>es. w_log w' = w_log w @ es \<and> (\<forall>raw \<in> sends es. G raw)) \<and> (\<forall>a. r = Ok a \<longrightarrow> R a)) \<Longrightarrow> broadcasts G m R"
  by (simp add: broadcasts_def)

lemma broadcastsD:
  "broadcasts G m R \<Longrightarrow> m w = Some (w', r) \<Longrightarrow>
     (\<exists>es. w_log w' = w_log w @ es \<and> (\<forall>raw \<in> sends es. G raw)) \<and> (\<forall>a. r = Ok a \<longrightarrow> R a)"
  by (simp add: broadcasts_def)

lemma broadcasts_weaken: "broadcasts G m R \<Longrightarrow> (\<And>a. R a \<Longrightarrow> R' a) \<Longrightarrow> broadcasts G m R'"
  unfolding broadcasts_def by blast

lemma broadcasts_pure [broadcast_rules]:
  "R a \<Longrightarrow> broadcasts G (ret a) R" "broadcasts G (throw e) R"
  "(\<And>a. r = Ok a \<Longrightarrow> R a) \<Longrightarrow> broadcasts G (lift_out r) R"
  by (auto simp: broadcasts_def ret_def throw_def lift_out_def)

lemma broadcasts_update [broadcast_rules]:
  "(\<And>w. w_log (f w) = w_log w) \<Longrightarrow> R () \<Longrightarrow> broadcasts G (update f) R"
  by (auto simp: broadcasts_def update_def)

lemma broadcasts_attempt [broadcast_rules]:
  assumes "broadcasts G m S" "\<And>a. S a \<Longrightarrow> broadcasts G (f a) R" "\<And>e. broadcasts G (g e) R"
  shows "broadcasts G (attempt m f g) R"
proof (rule broadcastsI)
  fix w w' r
  assume "attempt m f g w = Some (w', r)"
  then obtain w1 r1 where m: "m w = Some (w1, r1)"
    and k: "(case r1 of Ok a \<Rightarrow> f a w1 | Err e \<Rightarrow> g e w1 | Panic \<Rightarrow> Some (w1, Panic)) = Some (w', r)"
    by (auto simp: attempt_def split: option.splits)
  from broadcastsD [OF assms(1) m] obtain es where es: "w_log w1 = w_log w @ es" "\<forall>raw \<in> sends es. G raw"
    and S: "\<And>a. r1 = Ok a \<Longrightarrow> S a" by blast
  have "(\<exists>es'. w_log w' = w_log w1 @ es' \<and> (\<forall>raw \<in> sends es'. G raw)) \<and> (\<forall>a. r = Ok a \<longrightarrow> R a)"
  proof (cases r1)
    case (Ok a)
    with k broadcastsD [OF assms(2) [OF S [OF Ok]]] show ?thesis by simp
  next
    case (Err e)
    with k broadcastsD [OF assms(3) [of e]] show ?thesis by simp
  next
    case Panic
    with k show ?thesis by auto
  qed
  then show "(\<exists>es. w_log w' = w_log w @ es \<and> (\<forall>raw \<in> sends es. G raw)) \<and> (\<forall>a. r = Ok a \<longrightarrow> R a)"
    using es by fastforce
qed

lemma broadcasts_seq [broadcast_rules]:
  "broadcasts G m S \<Longrightarrow> (\<And>a. S a \<Longrightarrow> broadcasts G (f a) R) \<Longrightarrow> broadcasts G (seq m f) R"
  unfolding seq_attempt by (rule broadcasts_attempt [where S = S]) (auto intro: broadcast_rules)

lemma broadcasts_map_err [broadcast_rules]: "broadcasts G m R \<Longrightarrow> broadcasts G (map_err h m) R"
  unfolding map_err_def by (rule broadcasts_attempt [where S = R]) (auto intro: broadcast_rules)

text \<open>A continuation that reads the world before it acts.\<close>

lemma broadcasts_read: "(\<And>v. broadcasts G (f v) R) \<Longrightarrow> broadcasts G (\<lambda>w. f (g w) w) R"
  unfolding broadcasts_def by blast

lemma broadcasts_with_provider:
  assumes "\<And>raw. q = QSendRaw raw \<Longrightarrow> G raw" "\<And>a. R a"
  shows "broadcasts G (with_provider C q answer) R"
proof (rule broadcastsI)
  fix w w' r
  assume "with_provider C q answer w = Some (w', r)"
  from with_provider_asks [OF this] obtain es where "w_log w' = w_log w @ es"
    "\<forall>e \<in> set es. (\<exists>u. e = RpcCall u q) \<or> (\<exists>d. e = Slept d)" by (auto simp: asks_def)
  moreover from this(2) have "\<forall>raw \<in> sends es. G raw" using assms(1) by (fastforce simp: sends_iff)
  ultimately show "(\<exists>es. w_log w' = w_log w @ es \<and> (\<forall>raw \<in> sends es. G raw)) \<and> (\<forall>a. r = Ok a \<longrightarrow> R a)"
    using assms(2) by blast
qed

section \<open>The client\<close>

lemma quiet_client [broadcast_rules]:
  "broadcasts G (get_block_number C) (\<lambda>_. True)"
  "broadcasts G (get_nonce C a b) (\<lambda>_. True)"
  "broadcasts G (get_gas_price C) (\<lambda>_. True)"
  "broadcasts G (estimate_gas_from C t a) (\<lambda>_. True)"
  "broadcasts G (get_receipt_internal C hash) (\<lambda>_. True)"
  "broadcasts G (call_contract C t b) (\<lambda>_. True)"
  unfolding get_block_number_def get_nonce_def get_gas_price_def get_fee_history_gas_price_def
    get_legacy_gas_price_def estimate_gas_from_def get_receipt_internal_def call_contract_def Let_def
  by (auto intro!: broadcast_rules broadcasts_with_provider
      split: option.split outcome.split block_id.split prod.split)

lemma broadcasts_get_receipt [broadcast_rules]: "broadcasts G (get_receipt C tx_hash) (\<lambda>_. True)"
  unfolding get_receipt_def by (auto intro!: broadcast_rules split: option.split)

lemma broadcasts_send_transaction [broadcast_rules]: "G raw \<Longrightarrow> broadcasts G (send_transaction C raw) (\<lambda>_. True)"
  unfolding send_transaction_def by (auto intro!: broadcast_rules broadcasts_with_provider)

lemma broadcasts_wait_loop: "broadcasts G (wait_loop C hash deadline poll) (\<lambda>_. True)"
proof (rule broadcastsI)
  fix w w' r
  assume "wait_loop C hash deadline poll w = Some (w', r)"
  then have "\<exists>es. w_log w' = w_log w @ es \<and> (\<forall>raw \<in> sends es. G raw)"
  proof (rule wait_loop.raw_induct
      [where P = "\<lambda>C hash deadline poll w res. \<exists>es. w_log (fst res) = w_log w @ es \<and> (\<forall>raw \<in> sends es. G raw)"
        and y = "(w', r)", simplified fst_conv, rotated], goal_cases)
    case (1 wl C hash deadline poll w res)
    show ?case
    proof (cases "n_clock (cc_node C) (w_log w) \<ge> deadline")
      case False
      with 1(2) obtain w1 r where r: "get_receipt_internal C hash w = Some (w1, r)" by (auto split: option.splits)
      from broadcastsD [OF quiet_client(5) r] obtain es where es: "w_log w1 = w_log w @ es" "\<forall>raw \<in> sends es. G raw" by blast
      show ?thesis
      proof (cases "r = Ok None")
        case True
        with 1(2) False r have "wl C hash deadline poll (emit (Slept poll) w1) = Some res" by simp
        from 1(1) [OF this] obtain es' where "w_log (fst res) = w_log w1 @ Slept poll # es'" "\<forall>raw \<in> sends es'. G raw" by auto
        with es show ?thesis by (intro exI [of _ "es @ Slept poll # es'"]) (auto simp: sends_iff)
      next
        case no: False
        with 1(2) False r es show ?thesis by (auto split: outcome.splits option.splits)
      qed
    qed (use 1(2) in auto)
  qed
  then show "(\<exists>es. w_log w' = w_log w @ es \<and> (\<forall>raw \<in> sends es. G raw)) \<and> (\<forall>a. r = Ok a \<longrightarrow> True)" by simp
qed

lemma broadcasts_wait_for_receipt [broadcast_rules]: "broadcasts G (wait_for_receipt C h t p) (\<lambda>_. True)"
  unfolding broadcasts_def wait_for_receipt_def
  using broadcastsD [OF broadcasts_wait_loop] by (auto split: option.splits)

section \<open>Nonces\<close>

definition keeps_nonces :: "('e, 'a) chain_call \<Rightarrow> bool" where
  "keeps_nonces m \<longleftrightarrow> (\<forall>w w' r. m w = Some (w', r) \<longrightarrow> w_nonces w' = w_nonces w)"

lemma keeps_noncesD: "keeps_nonces m \<Longrightarrow> m w = Some (w', r) \<Longrightarrow> w_nonces w' = w_nonces w"
  by (simp add: keeps_nonces_def)

lemma keeps_nonces_pure [nonce_rules]:
  "keeps_nonces (ret a)" "keeps_nonces (throw e)" "keeps_nonces (lift_out r)"
  by (simp_all add: keeps_nonces_def ret_def throw_def lift_out_def)

lemma keeps_nonces_attempt [nonce_rules]:
  "keeps_nonces m \<Longrightarrow> (\<And>a. keeps_nonces (f a)) \<Longrightarrow> (\<And>e. keeps_nonces (g e)) \<Longrightarrow> keeps_nonces (attempt m f g)"
  unfolding keeps_nonces_def attempt_def by (fastforce split: option.splits outcome.splits)

lemma keeps_nonces_seq [nonce_rules]:
  "keeps_nonces m \<Longrightarrow> (\<And>a. keeps_nonces (f a)) \<Longrightarrow> keeps_nonces (seq m f)"
  unfolding seq_attempt by (rule keeps_nonces_attempt) (auto intro: nonce_rules)

lemma keeps_nonces_map_err [nonce_rules]: "keeps_nonces m \<Longrightarrow> keeps_nonces (map_err h m)"
  unfolding map_err_def by (rule keeps_nonces_attempt) (auto intro: nonce_rules)

lemma keeps_nonces_with_provider [nonce_rules]: "keeps_nonces (with_provider C q answer)"
  unfolding keeps_nonces_def by (auto dest: with_provider_extends simp: extends_def)

lemma keeps_nonces_client [nonce_rules]:
  "keeps_nonces (get_block_number C)"
  "keeps_nonces (get_nonce C a b)"
  "keeps_nonces (get_gas_price C)"
  "keeps_nonces (estimate_gas_from C t a)"
  "keeps_nonces (get_receipt_internal C hash)"
  "keeps_nonces (call_contract C t b)"
  "keeps_nonces (send_transaction C raw)"
  unfolding get_block_number_def get_nonce_def get_gas_price_def get_fee_history_gas_price_def
    get_legacy_gas_price_def estimate_gas_from_def get_receipt_internal_def call_contract_def Let_def
    send_transaction_def
  by (auto intro!: nonce_rules split: option.split outcome.split block_id.split prod.split)

lemma keeps_nonces_wait_for_receipt [nonce_rules]: "keeps_nonces (wait_for_receipt C h t p)"
  unfolding keeps_nonces_def wait_for_receipt_def
  using wait_loop_post by (fastforce simp: extends_def split: option.splits)

lemma keeps_nonces_builder [nonce_rules]:
  "keeps_nonces (with_gas_estimate C W p b)"
  "keeps_nonces (with_gas_price C pr b)"
  "keeps_nonces (build_tx C W b)"
  "keeps_nonces (build_and_sign C W b)"
  "keeps_nonces (build_and_sign_with_hash C W b)"
  unfolding with_gas_estimate_def with_gas_price_def build_and_sign_def build_and_sign_with_hash_def
    build_tx_def wallet_address_call_def sign_built_def
  by (auto intro!: nonce_rules split: option.split sum.split)

section \<open>The builder\<close>

text \<open>A signed transaction: the request behind the bytes.\<close>

definition signs :: "wallet \<Rightarrow> transaction_request \<Rightarrow> bytes \<Rightarrow> bool" where
  "signs W t raw \<longleftrightarrow> validate_request t = Ok () \<and> wl_sign W (to_ethers_typed t) = Inr raw"

definition request_of :: "tx_builder \<Rightarrow> nonce option \<Rightarrow> transaction_request" where
  "request_of b n =
     \<lparr>tr_to = the (tb_to b), tr_value = the (tb_value b), tr_data = tb_data b, tr_nonce = n, tr_gas_limit = tb_gas_limit b,
      tr_max_fee_per_gas = tb_max_fee_per_gas b, tr_max_priority_fee = tb_max_priority_fee b, tr_chain_id = tb_chain_id b\<rparr>"

lemma build_partial_request_Ok: "build_partial_request b n = Ok t \<Longrightarrow> t = request_of b n"
  by (auto simp: build_partial_request_def request_of_def split: option.splits)

lemma sign_transaction_bytes_Ok: "sign_transaction_bytes W t = Ok raw \<Longrightarrow> signs W t raw"
  by (auto simp: sign_transaction_bytes_def signs_def split: outcome.splits sum.splits)

text \<open>What the builder hands on: only the gas fields and the nonce change.\<close>

definition same_payload :: "tx_builder \<Rightarrow> tx_builder \<Rightarrow> bool" where
  "same_payload b b' \<longleftrightarrow>
     tb_to b' = tb_to b \<and> tb_value b' = tb_value b \<and> tb_data b' = tb_data b \<and> tb_chain_id b' = tb_chain_id b"

lemma broadcasts_build_tx:
  "broadcasts G (build_tx C W b) (\<lambda>t. \<exists>n. t = request_of b (Some n) \<and> (\<forall>m. tb_nonce b = Some m \<longrightarrow> n = m))"
  unfolding build_tx_def wallet_address_call_def
  by (rule broadcasts_seq [where S = "\<lambda>n. \<forall>m. tb_nonce b = Some m \<longrightarrow> n = m"])
    (auto intro!: broadcast_rules broadcasts_weaken [OF quiet_client(2)] dest: build_partial_request_Ok
      split: option.split sum.split)

lemma broadcasts_sign_built: "broadcasts G (sign_built W t) (signs W t)"
  unfolding sign_built_def by (auto intro!: broadcast_rules dest: sign_transaction_bytes_Ok)

lemma broadcasts_build_and_sign:
  "broadcasts G (build_and_sign C W b)
     (\<lambda>raw. \<exists>n. signs W (request_of b (Some n)) raw \<and> (\<forall>m. tb_nonce b = Some m \<longrightarrow> n = m))"
  unfolding build_and_sign_def
  by (rule broadcasts_seq [OF broadcasts_build_tx]) (auto intro: broadcasts_weaken [OF broadcasts_sign_built])

lemma broadcasts_build_and_sign_with_hash:
  "broadcasts G (build_and_sign_with_hash C W b)
     (\<lambda>s. \<exists>n. signs W (request_of b (Some n)) (st_raw s) \<and> st_nonce s = Some n \<and> (\<forall>m. tb_nonce b = Some m \<longrightarrow> n = m))"
  unfolding build_and_sign_with_hash_def
  by (rule broadcasts_seq [OF broadcasts_build_tx])
    (auto intro!: broadcasts_seq [OF broadcasts_sign_built] broadcast_rules simp: request_of_def)

lemma broadcasts_with_gas_estimate:
  "broadcasts G (with_gas_estimate C W p b) (\<lambda>b'. same_payload b b' \<and> tb_nonce b' = tb_nonce b)"
  unfolding with_gas_estimate_def wallet_address_call_def
  by (auto intro!: broadcasts_seq [where S = "\<lambda>_. True"] broadcast_rules simp: same_payload_def split: sum.split)

lemma broadcasts_with_gas_price:
  "broadcasts G (with_gas_price C pr b)
     (\<lambda>b'. same_payload b b' \<and> tb_nonce b' = tb_nonce b \<and> tb_gas_limit b' = tb_gas_limit b \<and> tb_max_fee_per_gas b' \<noteq> None)"
  unfolding with_gas_price_def
  by (auto intro!: broadcasts_seq [where S = "\<lambda>_. True"] broadcast_rules simp: same_payload_def)

end
