(* ===== verification/Dex_Swapper.thy ===== *)
theory Dex_Swapper
  imports Swap_Encoding Broadcasts Engine
begin

text \<open>
  \<open>executor/dex_swapper.rs\<close>: the swap backends.  A backend approves the router, builds, signs and
  broadcasts a swap, waits for its receipt and reads the received amount from the transfer logs; the
  private backend sends the signed transaction to a bundle relay instead.  Transactions take their nonces
  from the shared nonce manager and give them back when they are not signed.

  A swapper is a record of its client, wallet and configuration; whether it has a nonce manager is a flag, the
  manager itself is part of the world.  The pipeline gas estimate, fee, nonce, cap, signature is
  written out five times in the source and once here, in \<open>prepare_tx\<close> and \<open>sign_guarded\<close>.
\<close>

section \<open>Configuration and results\<close>

record dex_swapper_config =
  dc_router :: address
  dc_slippage_bps :: nat
  dc_deadline_secs :: nat
  dc_gas_buffer_bps :: nat
  dc_receipt_timeout_secs :: nat
  dc_chain_id :: nat
  dc_max_gas_gwei :: "nat option"

definition dex_swapper_config_default :: dex_swapper_config where
  "dex_swapper_config_default =
     \<lparr>dc_router = [0x7a, 0x25, 0x0d, 0x56, 0x30, 0xB4, 0xcF, 0x53, 0x97, 0x39, 0xdF, 0x2C, 0x5d, 0xAc, 0xb4, 0xc6,
                   0x59, 0xF2, 0x48, 0x8D],
      dc_slippage_bps = 50, dc_deadline_secs = 60, dc_gas_buffer_bps = DEFAULT_GAS_BUFFER_BPS,
      dc_receipt_timeout_secs = 120, dc_chain_id = MAINNET_CHAIN_ID, dc_max_gas_gwei = None\<rparr>"

record swap_result =
  sr_tx_hash :: string
  sr_amount_in :: nat
  sr_amount_out :: nat
  sr_gas_used :: nat
  sr_total_gas_used :: nat
  sr_total_gas_fee_wei :: nat
  sr_success :: bool

record onchain_fee_summary =
  of_gas_used :: nat
  of_fee_wei :: nat
  of_tx_hashes :: "string list"

definition onchain_fee_summary_default :: onchain_fee_summary where
  "onchain_fee_summary_default = \<lparr>of_gas_used = 0, of_fee_wei = 0, of_tx_hashes = []\<rparr>"

definition add_receipt :: "onchain_fee_summary \<Rightarrow> transaction_receipt \<Rightarrow> ('e, onchain_fee_summary) outcome" where
  "add_receipt s r =
     bind_out (u256_add (of_gas_used s) (rc_gas_used r)) (\<lambda>gas.
     bind_out (u256_mul (rc_gas_used r) (rc_effective_gas_price r)) (\<lambda>fee.
     bind_out (u256_add (of_fee_wei s) fee) (\<lambda>total_fee.
       Ok \<lparr>of_gas_used = gas, of_fee_wei = total_fee, of_tx_hashes = of_tx_hashes s @ [rc_tx_hash r]\<rparr>)))"

record private_swap_bundle =
  pb_bundle_hash :: string
  pb_target_block :: nat

record swap_submission =
  ss_tx_hash :: string
  ss_nonce :: "nonce option"
  ss_amount_in :: nat
  ss_token_out :: address
  ss_recipient :: address
  ss_private_bundle :: "private_swap_bundle option"
  ss_pool_kind :: dex_pool_kind
  ss_pre_swap_fees :: onchain_fee_summary

record swapper =
  sp_client :: chain_client
  sp_wallet :: wallet
  sp_config :: dex_swapper_config
  sp_nonce_manager :: bool
  sp_abi :: ethers_abi
  sp_unix :: "chain_history \<Rightarrow> nat"

type_synonym 'a swap_call = "(swapper_error, 'a) chain_call"

section \<open>Nonces and the gas cap\<close>

text \<open>\<open>NonceManager::reserve_next\<close> with its query of the node, made only before the first reservation.\<close>

definition reserve_nonce :: "chain_client \<Rightarrow> nat \<Rightarrow> address \<Rightarrow> (chain_error, nonce) chain_call" where
  "reserve_nonce C chain_id a w =
     (let finish = (\<lambda>node w. let (m, r) = reserve_next (w_nonces w) node chain_id (addr_lower a)
                              in Some (w\<lparr>w_nonces := m\<rparr>, r))
      in case w_nonces w (key_of chain_id (addr_lower a)) of
           Some (Some next) \<Rightarrow> finish (Ok next) w
         | _ \<Rightarrow> (case get_nonce C a PendingBlock w of None \<Rightarrow> None | Some (w1, r) \<Rightarrow> finish r w1))"

record reserved_nonce =
  rn_chain_id :: nat
  rn_address :: address
  rn_nonce :: nonce

definition rollback_reserved_nonce :: "reserved_nonce option \<Rightarrow> world \<Rightarrow> world" where
  "rollback_reserved_nonce reserved w =
     (case reserved of
        None \<Rightarrow> w
      | Some r \<Rightarrow> w\<lparr>w_nonces := mark_failed (w_nonces w) (rn_chain_id r) (addr_lower (rn_address r)) (rn_nonce r)\<rparr>)"

definition owner :: "swapper \<Rightarrow> address swap_call" where
  "owner S = (case wl_address (sp_wallet S) of
     Inr a \<Rightarrow> ret a | Inl e \<Rightarrow> throw (TxBuild (''wallet address parse: '' @ core_error_str e)))"

definition apply_reserved_nonce :: "swapper \<Rightarrow> tx_builder \<Rightarrow> (tx_builder \<times> reserved_nonce option) swap_call" where
  "apply_reserved_nonce S b =
     (if \<not> sp_nonce_manager S then ret (b, None)
      else seq (owner S) (\<lambda>a.
           seq (map_err (\<lambda>e. TxBuild (''reserve nonce: '' @ chain_error_str e))
                  (reserve_nonce (sp_client S) (dc_chain_id (sp_config S)) a)) (\<lambda>n.
             ret (b\<lparr>tb_nonce := Some n\<rparr>, Some \<lparr>rn_chain_id = dc_chain_id (sp_config S), rn_address = a, rn_nonce = n\<rparr>))))"

definition WEI_PER_GWEI :: nat where "WEI_PER_GWEI = 1000000000"

definition reject_if_gas_cap_exceeded :: "nat option \<Rightarrow> nat option \<Rightarrow> swapper_error option" where
  "reject_if_gas_cap_exceeded max_fee cap_gwei =
     (case (cap_gwei, max_fee) of
        (Some cap, Some fee) \<Rightarrow>
          (if fee > cap * WEI_PER_GWEI
           then Some (TxBuild (''gas cap exceeded: max_fee_per_gas='' @ show_nat fee @ '' wei > cap='' @ show_nat cap @ '' gwei''))
           else None)
      | _ \<Rightarrow> None)"

section \<open>Building and signing\<close>

definition tx_for :: "swapper \<Rightarrow> address \<Rightarrow> nat \<Rightarrow> bytes \<Rightarrow> tx_builder" where
  "tx_for S to value data =
     tx_builder_new\<lparr>tb_to := Some to, tb_value := Some (token_amount_eth value), tb_data := data,
       tb_chain_id := dc_chain_id (sp_config S)\<rparr>"

definition prepare_tx :: "swapper \<Rightarrow> string \<Rightarrow> tx_builder \<Rightarrow> tx_builder swap_call" where
  "prepare_tx S label b =
     seq (map_err (\<lambda>e. TxBuild (label @ '' gas: '' @ chain_error_str e))
            (with_gas_estimate (sp_client S) (sp_wallet S) (Some (dc_gas_buffer_bps (sp_config S))) b)) (\<lambda>b.
       map_err (\<lambda>e. TxBuild (label @ '' fee: '' @ chain_error_str e)) (with_gas_price (sp_client S) MediumPriority b))"

definition sign_guarded ::
  "swapper \<Rightarrow> string \<Rightarrow> (tx_builder \<Rightarrow> (chain_error, 'a) chain_call) \<Rightarrow> tx_builder \<Rightarrow> 'a swap_call" where
  "sign_guarded S label sign b =
     seq (apply_reserved_nonce S b) (\<lambda>(b, reserved).
       case reject_if_gas_cap_exceeded (tb_max_fee_per_gas b) (dc_max_gas_gwei (sp_config S)) of
         Some e \<Rightarrow> seq (update (rollback_reserved_nonce reserved)) (\<lambda>_. throw e)
       | None \<Rightarrow> attempt (sign b) ret (\<lambda>e.
           seq (update (rollback_reserved_nonce reserved)) (\<lambda>_. throw (TxBuild (label @ '' sign: '' @ chain_error_str e)))))"

text \<open>Broadcasting an auxiliary transaction and waiting until it succeeds.\<close>

definition send_and_confirm :: "swapper \<Rightarrow> string \<Rightarrow> bytes \<Rightarrow> unit swap_call" where
  "send_and_confirm S label raw =
     seq (map_err (\<lambda>e. SwChain (label @ '' send: '' @ chain_error_str e)) (send_transaction (sp_client S) raw)) (\<lambda>tx_hash.
     seq (map_err (\<lambda>e. SwChain (label @ '' receipt: '' @ chain_error_str e))
            (wait_for_receipt (sp_client S) tx_hash (dc_receipt_timeout_secs (sp_config S)) 1)) (\<lambda>receipt.
       if \<not> rc_status receipt then throw (SwReverted (rc_tx_hash receipt)) else ret ()))"

definition sign_raw :: "swapper \<Rightarrow> string \<Rightarrow> tx_builder \<Rightarrow> bytes swap_call" where
  "sign_raw S label b =
     seq (prepare_tx S label b) (sign_guarded S label (build_and_sign (sp_client S) (sp_wallet S)))"

definition sign_hashed :: "swapper \<Rightarrow> string \<Rightarrow> tx_builder \<Rightarrow> signed_transaction swap_call" where
  "sign_hashed S label b =
     seq (prepare_tx S label b) (sign_guarded S label (build_and_sign_with_hash (sp_client S) (sp_wallet S)))"

section \<open>Allowance and wrapped ether\<close>

definition read_uint :: "swapper \<Rightarrow> string \<Rightarrow> address \<Rightarrow> bytes \<Rightarrow> nat swap_call" where
  "read_uint S label to data =
     seq (map_err (\<lambda>e. SwChain (label @ '' call: '' @ chain_error_str e))
            (call_contract (sp_client S) (contract_call to data (dc_chain_id (sp_config S))) LatestBlock)) (\<lambda>raw.
       ret (decode_uint256_return raw))"

definition allowance :: "swapper \<Rightarrow> address \<Rightarrow> address \<Rightarrow> address \<Rightarrow> nat swap_call" where
  "allowance S token own spender = read_uint S ''allowance'' token (build_allowance_calldata (sp_abi S) own spender)"

definition ensure_allowance :: "swapper \<Rightarrow> address \<Rightarrow> address \<Rightarrow> nat \<Rightarrow> bool swap_call" where
  "ensure_allowance S token spender needed =
     seq (owner S) (\<lambda>own.
     seq (allowance S token own spender) (\<lambda>current.
       if current \<ge> needed then ret False
       else seq (sign_raw S ''approve'' (tx_for S token 0 (build_approve_calldata (sp_abi S) spender U256_MAX))) (\<lambda>stx.
            seq (send_and_confirm S ''approve'' stx) (\<lambda>_. ret True))))"

definition KNOWN_WETH_ADDRESSES :: "string list" where
  "KNOWN_WETH_ADDRESSES =
     [''0x82af49447d8a07e3bd95bd0d56f35241523fbab1'', ''0xc02aaa39b223fe8d0a0e5c4f27ead9083c756cc2'']"

definition is_weth :: "address \<Rightarrow> bool" where
  "is_weth token \<longleftrightarrow> addr_lower token \<in> set KNOWN_WETH_ADDRESSES"

definition erc20_balance :: "swapper \<Rightarrow> address \<Rightarrow> address \<Rightarrow> nat swap_call" where
  "erc20_balance S token own =
     read_uint S ''balanceOf'' token (ERC20_BALANCE_OF_SELECTOR @ ab_encode (sp_abi S) [v_addr own])"

definition ensure_weth_balance :: "swapper \<Rightarrow> address \<Rightarrow> nat \<Rightarrow> bool swap_call" where
  "ensure_weth_balance S token_in needed =
     (if \<not> is_weth token_in then ret False
      else seq (owner S) (\<lambda>own.
           seq (erc20_balance S token_in own) (\<lambda>current.
             if current \<ge> needed then ret False
             else seq (sign_raw S ''weth deposit'' (tx_for S token_in (needed - current) WETH_DEPOSIT_SELECTOR)) (\<lambda>stx.
                  seq (send_and_confirm S ''weth deposit'' stx) (\<lambda>_. ret True)))))"

section \<open>Swaps\<close>

definition deadline_of :: "swapper \<Rightarrow> chain_history \<Rightarrow> nat" where
  "deadline_of S h = min (2 ^ 64 - 1) (sp_unix S h + dc_deadline_secs (sp_config S))"

text \<open>\<open>context\<close> is \<open>swap\<close> for the public path and \<open>bundle swap\<close> for the private one.\<close>

definition build_signed_swap_tx ::
  "swapper \<Rightarrow> string \<Rightarrow> address \<Rightarrow> address \<Rightarrow> nat \<Rightarrow> nat \<Rightarrow> address \<Rightarrow> signed_transaction swap_call" where
  "build_signed_swap_tx S label token_in token_out amount_in min_out recipient =
     (if min_out = 0 then throw (InvalidMinOut ''min_out is zero'')
      else seq (ensure_allowance S token_in (dc_router (sp_config S)) amount_in) (\<lambda>_ w.
        sign_hashed S label (tx_for S (dc_router (sp_config S)) 0
          (build_swap_calldata (sp_abi S) amount_in min_out [token_in, token_out] recipient (deadline_of S (w_log w)))) w))"

definition build_signed_swap_tx_for_pair ::
  "swapper \<Rightarrow> string \<Rightarrow> pair_tokens \<Rightarrow> address \<Rightarrow> address \<Rightarrow> nat \<Rightarrow> nat \<Rightarrow> address \<Rightarrow> signed_transaction swap_call" where
  "build_signed_swap_tx_for_pair S label tokens token_in token_out amount_in min_out recipient =
     (if min_out = 0 then throw (InvalidMinOut ''min_out is zero'')
      else seq (ensure_weth_balance S token_in amount_in) (\<lambda>_.
           seq (ensure_allowance S token_in (dc_router (sp_config S)) amount_in) (\<lambda>_ w.
             (case v3_swap_calldata_for_pair (sp_abi S) tokens token_in token_out recipient (deadline_of S (w_log w)) amount_in min_out of
                Inl e \<Rightarrow> throw e
              | Inr data \<Rightarrow> sign_hashed S label (tx_for S (dc_router (sp_config S)) 0 data)) w)))"

definition submission_of ::
  "signed_transaction \<Rightarrow> string \<Rightarrow> nat \<Rightarrow> address \<Rightarrow> address \<Rightarrow> private_swap_bundle option \<Rightarrow> dex_pool_kind \<Rightarrow> swap_submission" where
  "submission_of stx tx_hash amount_in token_out recipient bundle kind =
     \<lparr>ss_tx_hash = tx_hash, ss_nonce = st_nonce stx, ss_amount_in = amount_in, ss_token_out = token_out,
      ss_recipient = recipient, ss_private_bundle = bundle, ss_pool_kind = kind,
      ss_pre_swap_fees = onchain_fee_summary_default\<rparr>"

definition v2_submit_swap :: "swapper \<Rightarrow> address \<Rightarrow> address \<Rightarrow> nat \<Rightarrow> nat \<Rightarrow> address \<Rightarrow> swap_submission swap_call" where
  "v2_submit_swap S token_in token_out amount_in min_out recipient =
     seq (build_signed_swap_tx S ''swap'' token_in token_out amount_in min_out recipient) (\<lambda>stx.
     seq (map_err (\<lambda>e. SwChain (''swap send: '' @ chain_error_str e)) (send_transaction (sp_client S) (st_raw stx))) (\<lambda>tx_hash.
       ret (submission_of stx tx_hash amount_in token_out recipient None PoolV2)))"

definition v3_submit_swap_for_pair ::
  "swapper \<Rightarrow> pair_tokens \<Rightarrow> address \<Rightarrow> address \<Rightarrow> nat \<Rightarrow> nat \<Rightarrow> address \<Rightarrow> swap_submission swap_call" where
  "v3_submit_swap_for_pair S tokens token_in token_out amount_in min_out recipient =
     seq (build_signed_swap_tx_for_pair S ''v3 swap'' tokens token_in token_out amount_in min_out recipient) (\<lambda>stx.
     seq (map_err (\<lambda>e. SwChain (''v3 swap send: '' @ chain_error_str e)) (send_transaction (sp_client S) (st_raw stx))) (\<lambda>tx_hash.
       ret (submission_of stx tx_hash amount_in token_out recipient None PoolV3)))"

text \<open>A mined swap that credited nothing to the recipient counts as reverted.\<close>

definition swap_outcome :: "swapper \<Rightarrow> swap_submission \<Rightarrow> transaction_receipt \<Rightarrow> (swapper_error, swap_result) outcome" where
  "swap_outcome S sub receipt =
     (if \<not> rc_status receipt then Err (SwReverted (rc_tx_hash receipt))
      else let amount_out = sum_transfer_to (sp_abi S) (rc_logs receipt) (ss_token_out sub) (ss_recipient sub)
           in if amount_out = 0 then Err (SwReverted (rc_tx_hash receipt))
              else bind_out (add_receipt (ss_pre_swap_fees sub) receipt) (\<lambda>fees.
                Ok \<lparr>sr_tx_hash = rc_tx_hash receipt, sr_amount_in = ss_amount_in sub, sr_amount_out = amount_out,
                    sr_gas_used = rc_gas_used receipt, sr_total_gas_used = of_gas_used fees,
                    sr_total_gas_fee_wei = of_fee_wei fees, sr_success = True\<rparr>))"

definition wait_swap :: "swapper \<Rightarrow> string \<Rightarrow> swap_submission \<Rightarrow> swap_result swap_call" where
  "wait_swap S label sub =
     seq (map_err (\<lambda>e. SwChain (label @ '' receipt: '' @ chain_error_str e))
            (wait_for_receipt (sp_client S) (ss_tx_hash sub) (dc_receipt_timeout_secs (sp_config S)) 1)) (\<lambda>receipt.
       lift_out (swap_outcome S sub receipt))"

section \<open>Quotes\<close>

definition v2_quote :: "swapper \<Rightarrow> address \<Rightarrow> address \<Rightarrow> nat \<Rightarrow> nat option swap_call" where
  "v2_quote S token_in token_out amount_in =
     seq (map_err (\<lambda>e. SwQuote (''V2 getAmountsOut call: '' @ chain_error_str e))
            (call_contract (sp_client S) (contract_call (dc_router (sp_config S))
               (build_get_amounts_out_calldata (sp_abi S) amount_in [token_in, token_out]) (dc_chain_id (sp_config S))) LatestBlock)) (\<lambda>raw.
       case decode_get_amounts_out_return (sp_abi S) raw of
         Inr n \<Rightarrow> ret (Some n)
       | Inl e \<Rightarrow> throw (SwQuote e))"

definition v3_quote_calldata :: "ethers_abi \<Rightarrow> address \<Rightarrow> address \<Rightarrow> nat \<Rightarrow> address list \<Rightarrow> nat list \<Rightarrow> swapper_error + bytes" where
  "v3_quote_calldata A token_in token_out amount_in path fees =
     (if length path = 2 \<and> length fees = 1
      then Inr (build_v3_quoter_exact_input_single_calldata A token_in token_out (hd fees) amount_in)
      else case build_v3_quoter_exact_input_calldata A path fees amount_in of Inr data \<Rightarrow> Inr data | Inl e \<Rightarrow> Inl (SwQuote e))"

definition v3_quote :: "swapper \<Rightarrow> pair_tokens \<Rightarrow> address \<Rightarrow> address \<Rightarrow> nat \<Rightarrow> nat option swap_call" where
  "v3_quote S tokens token_in token_out amount_in =
     (case pt_v3_quoter tokens of
        None \<Rightarrow> throw (SwQuote ''missing V3 quoter in address book'')
      | Some quoter \<Rightarrow>
          (case v3_route_for_pair tokens token_in token_out of
             Inl e \<Rightarrow> throw e
           | Inr (path, fees) \<Rightarrow>
               (case v3_quote_calldata (sp_abi S) token_in token_out amount_in path fees of
                  Inl e \<Rightarrow> throw e
                | Inr data \<Rightarrow>
                    seq (map_err (\<lambda>e. SwQuote (''V3 quoter call: '' @ chain_error_str e))
                           (call_contract (sp_client S) (contract_call quoter data (dc_chain_id (sp_config S))) LatestBlock)) (\<lambda>raw.
                      ret (Some (decode_uint256_return raw))))))"

section \<open>Cancelling a pending swap\<close>

definition receipt_or :: "swapper \<Rightarrow> swap_submission \<Rightarrow> pending_swap_cancel_outcome swap_call \<Rightarrow> pending_swap_cancel_outcome swap_call" where
  "receipt_or S sub otherwise =
     seq (map_err (\<lambda>e. SwChain (''original receipt refetch: '' @ chain_error_str e))
            (get_receipt (sp_client S) (ss_tx_hash sub))) (\<lambda>answer.
       case answer of
         Some receipt \<Rightarrow> ret (OriginalMined (rc_tx_hash receipt) (rc_status receipt))
       | None \<Rightarrow> otherwise)"

definition cancel_builder :: "swapper \<Rightarrow> address \<Rightarrow> nonce \<Rightarrow> tx_builder" where
  "cancel_builder S own n =
     (tx_for S own 0 [])\<lparr>tb_nonce := Some n, tb_gas_limit := Some MIN_GAS_LIMIT\<rparr>"

text \<open>The replacement: an empty transfer to oneself with the nonce of the swap and a high fee.\<close>

definition cancel_pending_public_swap :: "swapper \<Rightarrow> address \<Rightarrow> swap_submission \<Rightarrow> pending_swap_cancel_outcome swap_call" where
  "cancel_pending_public_swap S own sub =
     receipt_or S sub
       (case ss_nonce sub of
          None \<Rightarrow> ret (SwapUnknown ''cannot cancel pending swap without original nonce'')
        | Some n \<Rightarrow>
            seq (map_err (\<lambda>e. TxBuild (''cancel fee: '' @ chain_error_str e))
                   (with_gas_price (sp_client S) HighPriority (cancel_builder S own n))) (\<lambda>b.
              case reject_if_gas_cap_exceeded (tb_max_fee_per_gas b) (dc_max_gas_gwei (sp_config S)) of
                Some e \<Rightarrow> ret (SwapUnknown (''cancel gas cap rejected: '' @ swapper_error_str e))
              | None \<Rightarrow>
                  seq (map_err (\<lambda>e. TxBuild (''cancel sign: '' @ chain_error_str e))
                         (build_and_sign_with_hash (sp_client S) (sp_wallet S) b)) (\<lambda>stx.
                  attempt (send_transaction (sp_client S) (st_raw stx))
                    (\<lambda>cancel_tx_hash.
                       attempt (wait_for_receipt (sp_client S) cancel_tx_hash (dc_receipt_timeout_secs (sp_config S)) 1)
                         (\<lambda>receipt. if rc_status receipt then ret (SwapCancelled cancel_tx_hash)
                                     else ret (SwapUnknown (''cancel tx reverted: '' @ rc_tx_hash receipt)))
                         (\<lambda>e. receipt_or S sub (ret (SwapUnknown (''cancel receipt unknown: '' @ chain_error_str e)))))
                    (\<lambda>e. receipt_or S sub (ret (SwapUnknown (''cancel send failed: '' @ chain_error_str e)))))))"

definition cancel_public :: "swapper \<Rightarrow> swap_submission \<Rightarrow> pending_swap_cancel_outcome swap_call" where
  "cancel_public S sub = seq (owner S) (\<lambda>own. cancel_pending_public_swap S own sub)"

section \<open>Private bundles\<close>

record flashbots_config =
  fc_relay_url :: string
  fc_target_block_offset :: nat
  fc_max_blocks_to_try :: nat
  fc_simulation_timeout_secs :: nat
  fc_inclusion_timeout_secs :: nat

definition flashbots_config_default :: flashbots_config where
  "flashbots_config_default =
     \<lparr>fc_relay_url = ''https://relay.flashbots.net'', fc_target_block_offset = 1, fc_max_blocks_to_try = 3,
      fc_simulation_timeout_secs = 5, fc_inclusion_timeout_secs = 30\<rparr>"

text \<open>The trait \<open>BundleRelay\<close>.\<close>

record bundle_relay =
  rl_simulate :: "chain_history \<Rightarrow> bundle_request \<Rightarrow> string + unit"
  rl_send :: "chain_history \<Rightarrow> bundle_request \<Rightarrow> string + bundle_submission"

datatype flashbots_inner = InnerV2 swapper | InnerV3 swapper

primrec inner_swapper :: "flashbots_inner \<Rightarrow> swapper" where
  "inner_swapper (InnerV2 S) = S"
| "inner_swapper (InnerV3 S) = S"

record flashbots_swapper =
  fs_inner :: flashbots_inner
  fs_relay :: bundle_relay
  fs_config :: flashbots_config

definition saturating_add_u64 :: "nat \<Rightarrow> nat \<Rightarrow> nat" where
  "saturating_add_u64 a b = min (2 ^ 64 - 1) (a + b)"

definition bundle_target_blocks :: "nat \<Rightarrow> flashbots_config \<Rightarrow> nat list" where
  "bundle_target_blocks current_block c =
     (let first = saturating_add_u64 current_block (max (fc_target_block_offset c) 1)
      in map (saturating_add_u64 first) [0..<max (fc_max_blocks_to_try c) 1])"

primrec inner_build_signed ::
  "flashbots_inner \<Rightarrow> pair_tokens option \<Rightarrow> address \<Rightarrow> address \<Rightarrow> nat \<Rightarrow> nat \<Rightarrow> address \<Rightarrow> signed_transaction swap_call" where
  "inner_build_signed (InnerV2 S) tokens token_in token_out amount_in min_out recipient =
     build_signed_swap_tx S ''bundle swap'' token_in token_out amount_in min_out recipient"
| "inner_build_signed (InnerV3 S) tokens token_in token_out amount_in min_out recipient =
     (case tokens of
        None \<Rightarrow> throw (TxBuild ''Uniswap V3 Flashbots swap requires submit_swap_for_pair'')
      | Some t \<Rightarrow> build_signed_swap_tx_for_pair S ''bundle v3 swap'' t token_in token_out amount_in min_out recipient)"

text \<open>One bundle per target block; the first relay error ends the submission.\<close>

fun submit_bundles ::
  "flashbots_swapper \<Rightarrow> bundle_tx list \<Rightarrow> nat list \<Rightarrow> bundle_submission option \<Rightarrow> bundle_submission option swap_call" where
  "submit_bundles F txs [] submitted w = Some (w, Ok submitted)"
| "submit_bundles F txs (target # targets) submitted w =
     (let request = \<lparr>br_txs = txs, br_target_block = target, br_min_timestamp = None,
                     br_max_timestamp = Some (deadline_of (inner_swapper (fs_inner F)) (w_log w))\<rparr>;
          w1 = emit (SimulateBundle request) w
      in case rl_simulate (fs_relay F) (w_log w) request of
           Inl e \<Rightarrow> Some (w1, Err (SwBundle (''simulation: '' @ e)))
         | Inr _ \<Rightarrow>
             (let w2 = emit (SendBundle request) w1
              in case rl_send (fs_relay F) (w_log w1) request of
                   Inl e \<Rightarrow> Some (w2, Err (SwBundle (''send: '' @ e)))
                 | Inr submission \<Rightarrow> submit_bundles F txs targets (Some submission) w2))"

definition submit_bundle_swap ::
  "flashbots_swapper \<Rightarrow> pair_tokens option \<Rightarrow> address \<Rightarrow> address \<Rightarrow> nat \<Rightarrow> nat \<Rightarrow> address \<Rightarrow> swap_submission swap_call" where
  "submit_bundle_swap F tokens token_in token_out amount_in min_out recipient =
     (if min_out = 0 then throw (InvalidMinOut ''min_out is zero'')
      else seq (inner_build_signed (fs_inner F) tokens token_in token_out amount_in min_out recipient) (\<lambda>stx.
           seq (map_err (\<lambda>e. SwChain (''bundle current block: '' @ chain_error_str e))
                  (get_block_number (sp_client (inner_swapper (fs_inner F))))) (\<lambda>current_block.
           seq (submit_bundles F [\<lparr>bt_raw_tx = st_raw_hex stx, bt_tx_hash = st_tx_hash stx\<rparr>]
                  (bundle_target_blocks current_block (fs_config F)) None) (\<lambda>submitted.
             case submitted of
               None \<Rightarrow> throw (SwBundle ''no target blocks configured'')
             | Some b \<Rightarrow>
                 ret (submission_of stx (st_tx_hash stx) amount_in token_out recipient
                        (Some \<lparr>pb_bundle_hash = bs_bundle_hash b, pb_target_block = bs_target_block b\<rparr>)
                        (case tokens of Some t \<Rightarrow> pt_pool_kind t | None \<Rightarrow> PoolV2))))))"

text \<open>Polling for inclusion until the target block has passed or the time is up.\<close>

partial_function (option) bundle_loop ::
  "chain_client \<Rightarrow> string \<Rightarrow> nat \<Rightarrow> rat \<Rightarrow> transaction_receipt swap_call" where
  "bundle_loop C tx_hash target deadline w =
     (case get_receipt C tx_hash w of
        None \<Rightarrow> None
      | Some (w1, r) \<Rightarrow>
          (case r of
             Err e \<Rightarrow> Some (w1, Err (SwChain (''bundle receipt: '' @ chain_error_str e)))
           | Panic \<Rightarrow> Some (w1, Panic)
           | Ok answer \<Rightarrow>
               (case answer of
                  Some receipt \<Rightarrow> Some (w1, Ok receipt)
                | None \<Rightarrow>
                    (case get_block_number C w1 of
                       None \<Rightarrow> None
                     | Some (w2, r2) \<Rightarrow>
                         (case r2 of
                            Err e \<Rightarrow> Some (w2, Err (SwChain (''bundle current block: '' @ chain_error_str e)))
                          | Panic \<Rightarrow> Some (w2, Panic)
                          | Ok current_block \<Rightarrow>
                              (if current_block > target \<or> n_clock (cc_node C) (w_log w2) \<ge> deadline
                               then Some (w2, Err (BundleNotIncluded tx_hash target))
                               else bundle_loop C tx_hash target deadline (emit (Slept 1) w2)))))))"

declare bundle_loop.simps [code]

definition public_label :: "flashbots_inner \<Rightarrow> string" where
  "public_label i = (case i of InnerV2 _ \<Rightarrow> ''swap'' | InnerV3 _ \<Rightarrow> ''v3 swap'')"

definition flashbots_wait_swap :: "flashbots_swapper \<Rightarrow> swap_submission \<Rightarrow> swap_result swap_call" where
  "flashbots_wait_swap F sub =
     (let S = inner_swapper (fs_inner F)
      in case ss_private_bundle sub of
           None \<Rightarrow> wait_swap S (public_label (fs_inner F)) sub
         | Some b \<Rightarrow> (\<lambda>w.
             seq (bundle_loop (sp_client S) (ss_tx_hash sub) (pb_target_block b)
                    (n_clock (cc_node (sp_client S)) (w_log w) + of_nat (fc_inclusion_timeout_secs (fs_config F)))) (\<lambda>receipt.
               if lower (rc_tx_hash receipt) \<noteq> lower (ss_tx_hash sub)
               then throw (BundleNotIncluded (ss_tx_hash sub) (pb_target_block b))
               else lift_out (swap_outcome S sub receipt)) w))"

section \<open>The trait and its implementations\<close>

record dex_backend =
  db_submit :: "address \<Rightarrow> address \<Rightarrow> nat \<Rightarrow> nat \<Rightarrow> address \<Rightarrow> swap_submission swap_call"
  db_submit_for_pair :: "pair_tokens \<Rightarrow> address \<Rightarrow> address \<Rightarrow> nat \<Rightarrow> nat \<Rightarrow> address \<Rightarrow> swap_submission swap_call"
  db_quote :: "pair_tokens \<Rightarrow> address \<Rightarrow> address \<Rightarrow> nat \<Rightarrow> nat option swap_call"
  db_wait :: "swap_submission \<Rightarrow> swap_result swap_call"
  db_cancel :: "swap_submission \<Rightarrow> pending_swap_cancel_outcome swap_call"

definition v2_backend :: "swapper \<Rightarrow> dex_backend" where
  "v2_backend S =
     \<lparr>db_submit = v2_submit_swap S, db_submit_for_pair = (\<lambda>_. v2_submit_swap S), db_quote = (\<lambda>_. v2_quote S),
      db_wait = wait_swap S ''swap'', db_cancel = cancel_public S\<rparr>"

definition v3_backend :: "swapper \<Rightarrow> dex_backend" where
  "v3_backend S =
     \<lparr>db_submit = (\<lambda>_ _ _ _ _. throw (TxBuild ''UniswapV3Swapper requires submit_swap_for_pair so fee tier is available'')),
      db_submit_for_pair = v3_submit_swap_for_pair S, db_quote = v3_quote S, db_wait = wait_swap S ''v3 swap'',
      db_cancel = cancel_public S\<rparr>"

definition flashbots_quote :: "flashbots_inner \<Rightarrow> pair_tokens \<Rightarrow> address \<Rightarrow> address \<Rightarrow> nat \<Rightarrow> nat option swap_call" where
  "flashbots_quote i = (case i of InnerV2 S \<Rightarrow> (\<lambda>_. v2_quote S) | InnerV3 S \<Rightarrow> v3_quote S)"

definition flashbots_backend :: "flashbots_swapper \<Rightarrow> dex_backend" where
  "flashbots_backend F =
     \<lparr>db_submit = submit_bundle_swap F None, db_submit_for_pair = (\<lambda>t. submit_bundle_swap F (Some t)),
      db_quote = flashbots_quote (fs_inner F), db_wait = flashbots_wait_swap F,
      db_cancel = (\<lambda>_. ret (SwapUnknown ''private bundle cancellation is not supported''))\<rparr>"

definition composite_backend :: "dex_backend \<Rightarrow> dex_backend \<Rightarrow> dex_backend" where
  "composite_backend v2 v3 =
     (let inner = (\<lambda>kind. case kind of PoolV2 \<Rightarrow> v2 | PoolV3 \<Rightarrow> v3)
      in \<lparr>db_submit = db_submit v2, db_submit_for_pair = (\<lambda>t. db_submit_for_pair (inner (pt_pool_kind t)) t),
          db_quote = (\<lambda>t. db_quote (inner (pt_pool_kind t)) t), db_wait = (\<lambda>sub. db_wait (inner (ss_pool_kind sub)) sub),
          db_cancel = (\<lambda>sub. db_cancel (inner (ss_pool_kind sub)) sub)\<rparr>)"

text \<open>The provided method \<open>swap\<close>.\<close>

definition backend_swap :: "dex_backend \<Rightarrow> address \<Rightarrow> address \<Rightarrow> nat \<Rightarrow> nat \<Rightarrow> address \<Rightarrow> swap_result swap_call" where
  "backend_swap B token_in token_out amount_in min_out recipient =
     seq (db_submit B token_in token_out amount_in min_out recipient) (db_wait B)"

section \<open>The backend of the bot\<close>

text \<open>
  \<open>bin/arb_bot.rs\<close> builds the backends over one client and wallet, privately when a relay is configured, and
  joins them when the address book holds pairs of both kinds.
\<close>

type_synonym relay_setup = "(bundle_relay \<times> flashbots_config) option"

definition build_v2_swapper :: "swapper \<Rightarrow> relay_setup \<Rightarrow> dex_backend" where
  "build_v2_swapper S relay =
     (case relay of
        Some (r, c) \<Rightarrow> flashbots_backend \<lparr>fs_inner = InnerV2 S, fs_relay = r, fs_config = c\<rparr>
      | None \<Rightarrow> v2_backend S)"

definition build_v3_swapper :: "swapper \<Rightarrow> relay_setup \<Rightarrow> dex_backend" where
  "build_v3_swapper S relay =
     (case relay of
        Some (r, c) \<Rightarrow> flashbots_backend \<lparr>fs_inner = InnerV3 S, fs_relay = r, fs_config = c\<rparr>
      | None \<Rightarrow> v3_backend S)"

definition build_swapper :: "bool \<Rightarrow> bool \<Rightarrow> swapper \<Rightarrow> dex_swapper_config \<Rightarrow> relay_setup \<Rightarrow> dex_backend" where
  "build_swapper has_v2 has_v3 S v3_config relay =
     (let v2 = build_v2_swapper S relay; v3 = build_v3_swapper (S\<lparr>sp_config := v3_config\<rparr>) relay
      in if has_v2 \<and> has_v3 then composite_backend v2 v3 else if has_v3 then v3 else v2)"

end
