(* ===== verification/Swap_Safety.thy ===== *)
theory Swap_Safety
  imports Dex_Swapper
begin

text \<open>
  Properties of the swap backends of \<open>Dex_Swapper\<close>: what is broadcast, what happens to the nonces, what a
  result says, and the contract every implementation of the trait keeps.
\<close>

section \<open>Broadcast transactions\<close>

text \<open>
  A transaction is guarded for a set of destinations when it is the signature of a valid request on the
  configured chain, to one of them, within the gas cap.
\<close>

definition guarded :: "swapper \<Rightarrow> (transaction_request \<Rightarrow> bool) \<Rightarrow> bytes \<Rightarrow> bool" where
  "guarded S P raw \<longleftrightarrow>
     (\<exists>t. signs (sp_wallet S) t raw \<and> tr_chain_id t = dc_chain_id (sp_config S) \<and> P t
        \<and> (case dc_max_gas_gwei (sp_config S) of
             None \<Rightarrow> True
           | Some cap \<Rightarrow> (\<exists>fee. tr_max_fee_per_gas t = Some fee \<and> fee \<le> cap * WEI_PER_GWEI)))"

lemma guarded_mono: "guarded S P raw \<Longrightarrow> (\<And>t. P t \<Longrightarrow> P' t) \<Longrightarrow> guarded S P' raw"
  unfolding guarded_def by blast

text \<open>The payload of a transaction made by \<open>tx_for\<close>.\<close>

definition pays :: "address \<Rightarrow> nat \<Rightarrow> bytes \<Rightarrow> transaction_request \<Rightarrow> bool" where
  "pays to value data t \<longleftrightarrow> tr_to t = to \<and> ta_raw (tr_value t) = value \<and> tr_data t = data"

definition priced :: "swapper \<Rightarrow> address \<Rightarrow> nat \<Rightarrow> bytes \<Rightarrow> tx_builder \<Rightarrow> bool" where
  "priced S to value data b \<longleftrightarrow> same_payload (tx_for S to value data) b \<and> tb_max_fee_per_gas b \<noteq> None"

lemma broadcasts_prepare_tx: "broadcasts G (prepare_tx S label (tx_for S to value data)) (priced S to value data)"
  unfolding prepare_tx_def
  by (rule broadcasts_seq [OF broadcasts_map_err [OF broadcasts_with_gas_estimate]])
    (auto intro!: broadcast_rules broadcasts_weaken [OF broadcasts_with_gas_price] simp: same_payload_def priced_def)

lemma broadcasts_reserve_nonce [broadcast_rules]: "broadcasts G (reserve_nonce C c a) (\<lambda>_. True)"
  unfolding broadcasts_def reserve_nonce_def
  using broadcastsD [OF quiet_client(2) [of G C a PendingBlock]]
  by (auto simp: Let_def split: option.splits prod.splits)

lemma broadcasts_owner [broadcast_rules]: "broadcasts G (owner S) (\<lambda>_. True)"
  unfolding owner_def by (auto intro!: broadcast_rules split: sum.split)

lemma broadcasts_apply_reserved_nonce:
  "broadcasts G (apply_reserved_nonce S b)
     (\<lambda>(b', reserved). same_payload b b' \<and> tb_max_fee_per_gas b' = tb_max_fee_per_gas b
        \<and> (case reserved of None \<Rightarrow> b' = b | Some r \<Rightarrow> tb_nonce b' = Some (rn_nonce r)))"
  unfolding apply_reserved_nonce_def
  by (auto intro!: broadcast_rules broadcasts_seq [where S = "\<lambda>_. True"] simp: same_payload_def)

lemma rollback_log [simp]: "w_log (rollback_reserved_nonce r w) = w_log w"
  by (simp add: rollback_reserved_nonce_def split: option.split)

text \<open>The signature of a builder that passed the cap.\<close>

lemma capped_guarded:
  assumes "signs (sp_wallet S) (request_of b n) raw" "priced S to value data b"
    and "reject_if_gas_cap_exceeded (tb_max_fee_per_gas b) (dc_max_gas_gwei (sp_config S)) = None"
  shows "guarded S (pays to value data) raw"
  unfolding guarded_def
  using assms
  by (intro exI [of _ "request_of b n"])
    (auto simp: request_of_def priced_def same_payload_def tx_for_def token_amount_eth_def pays_def
      reject_if_gas_cap_exceeded_def split: option.splits if_splits)

lemma broadcasts_sign_guarded:
  assumes sign: "\<And>b'. broadcasts G (sign b')
      (\<lambda>a. \<exists>n. signs (sp_wallet S) (request_of b' n) (raw_of a) \<and> (\<forall>m. tb_nonce b' = Some m \<longrightarrow> n = Some m))"
    and b: "priced S to value data b"
  shows "broadcasts G (sign_guarded S label sign b) (\<lambda>a. guarded S (pays to value data) (raw_of a))"
  unfolding sign_guarded_def
proof (rule broadcasts_seq [OF broadcasts_apply_reserved_nonce], clarify)
  fix b' reserved
  assume "same_payload b b'" and fee: "tb_max_fee_per_gas b' = tb_max_fee_per_gas b"
  then have b': "priced S to value data b'" using b by (simp add: same_payload_def priced_def)
  show "broadcasts G (case reject_if_gas_cap_exceeded (tb_max_fee_per_gas b') (dc_max_gas_gwei (sp_config S)) of
         Some e \<Rightarrow> seq (update (rollback_reserved_nonce reserved)) (\<lambda>_. throw e)
       | None \<Rightarrow> attempt (sign b') ret (\<lambda>e.
           seq (update (rollback_reserved_nonce reserved)) (\<lambda>_. throw (TxBuild (label @ '' sign: '' @ chain_error_str e)))))
     (\<lambda>a. guarded S (pays to value data) (raw_of a))"
    by (auto intro!: broadcast_rules broadcasts_attempt [OF sign] broadcasts_seq [where S = "\<lambda>_. True"]
        dest: capped_guarded [OF _ b'] split: option.split)
qed

lemma broadcasts_sign_raw:
  "broadcasts G (sign_raw S label (tx_for S to value data)) (guarded S (pays to value data))"
  unfolding sign_raw_def
  by (rule broadcasts_seq [OF broadcasts_prepare_tx], rule broadcasts_sign_guarded [where raw_of = "\<lambda>x. x"])
    (auto intro: broadcasts_weaken [OF broadcasts_build_and_sign])

lemma broadcasts_sign_hashed:
  "broadcasts G (sign_hashed S label (tx_for S to value data)) (\<lambda>s. guarded S (pays to value data) (st_raw s))"
  unfolding sign_hashed_def
  by (rule broadcasts_seq [OF broadcasts_prepare_tx], rule broadcasts_sign_guarded [where raw_of = st_raw])
    (fastforce intro: broadcasts_weaken [OF broadcasts_build_and_sign_with_hash])

text \<open>The requests a swap of \<open>amount_in\<close> may sign: an approval, a wrap of at most the amount, the swap itself.\<close>

definition swap_request_ok ::
  "swapper \<Rightarrow> pair_tokens \<Rightarrow> address \<Rightarrow> address \<Rightarrow> nat \<Rightarrow> nat \<Rightarrow> address \<Rightarrow> transaction_request \<Rightarrow> bool" where
  "swap_request_ok S tokens token_in token_out amount_in min_out recipient t \<longleftrightarrow>
     pays token_in 0 (build_approve_calldata (sp_abi S) (dc_router (sp_config S)) U256_MAX) t
     \<or> is_weth token_in \<and> (\<exists>v \<le> amount_in. pays token_in v WETH_DEPOSIT_SELECTOR t)
     \<or> (\<exists>deadline data. pays (dc_router (sp_config S)) 0 data t
          \<and> (data = build_swap_calldata (sp_abi S) amount_in min_out [token_in, token_out] recipient deadline
             \<or> v3_swap_calldata_for_pair (sp_abi S) tokens token_in token_out recipient deadline amount_in min_out = Inr data))"

lemma broadcasts_read_uint [broadcast_rules]: "broadcasts G (read_uint S label to data) (\<lambda>_. True)"
  unfolding read_uint_def by (auto intro!: broadcast_rules broadcasts_seq [where S = "\<lambda>_. True"])

lemma broadcasts_send_and_confirm: "G raw \<Longrightarrow> broadcasts G (send_and_confirm S label raw) (\<lambda>_. True)"
  unfolding send_and_confirm_def
  by (auto intro!: broadcast_rules broadcasts_seq [where S = "\<lambda>_. True"])

lemma broadcasts_ensure_allowance:
  assumes "\<And>raw. guarded S (pays token 0 (build_approve_calldata (sp_abi S) spender U256_MAX)) raw \<Longrightarrow> G raw"
  shows "broadcasts G (ensure_allowance S token spender needed) (\<lambda>_. True)"
  unfolding ensure_allowance_def allowance_def
  by (auto intro!: broadcast_rules broadcasts_seq [where S = "\<lambda>_. True"] broadcasts_seq [OF broadcasts_sign_raw]
      broadcasts_send_and_confirm assms)

lemma broadcasts_ensure_weth_balance:
  assumes "\<And>v raw. is_weth token \<Longrightarrow> v \<le> needed \<Longrightarrow> guarded S (pays token v WETH_DEPOSIT_SELECTOR) raw \<Longrightarrow> G raw"
  shows "broadcasts G (ensure_weth_balance S token needed) (\<lambda>_. True)"
  unfolding ensure_weth_balance_def erc20_balance_def
  by (auto intro!: broadcast_rules broadcasts_seq [where S = "\<lambda>_. True"] broadcasts_seq [OF broadcasts_sign_raw]
      broadcasts_send_and_confirm assms diff_le_self)

lemma broadcasts_build_signed_swap_tx:
  assumes "\<And>raw. guarded S (pays token_in 0 (build_approve_calldata (sp_abi S) (dc_router (sp_config S)) U256_MAX)) raw \<Longrightarrow> G raw"
  shows "broadcasts G (build_signed_swap_tx S label token_in token_out amount_in min_out recipient)
    (\<lambda>s. \<exists>deadline. guarded S (pays (dc_router (sp_config S)) 0
       (build_swap_calldata (sp_abi S) amount_in min_out [token_in, token_out] recipient deadline)) (st_raw s))"
proof -
  have "broadcasts G (sign_hashed S label (tx_for S to 0 (f d)))
      (\<lambda>s. \<exists>deadline. guarded S (pays to 0 (f deadline)) (st_raw s))" for to f and d :: nat
    by (rule broadcasts_weaken [OF broadcasts_sign_hashed]) blast
  note sign = this
  show ?thesis
  proof (cases "min_out = 0")
    case False
    have "broadcasts G (\<lambda>w. sign_hashed S label (tx_for S (dc_router (sp_config S)) 0
        (build_swap_calldata (sp_abi S) amount_in min_out [token_in, token_out] recipient (deadline_of S (w_log w)))) w)
      (\<lambda>s. \<exists>deadline. guarded S (pays (dc_router (sp_config S)) 0
        (build_swap_calldata (sp_abi S) amount_in min_out [token_in, token_out] recipient deadline)) (st_raw s))"
      by (rule broadcasts_read [where g = "\<lambda>w. deadline_of S (w_log w)" and f = "\<lambda>d. sign_hashed S label
          (tx_for S (dc_router (sp_config S)) 0 (build_swap_calldata (sp_abi S) amount_in min_out [token_in, token_out] recipient d))"])
        (rule sign)
    with False show ?thesis
      unfolding build_signed_swap_tx_def by (simp add: broadcasts_seq [OF broadcasts_ensure_allowance [OF assms]])
  qed (simp add: build_signed_swap_tx_def broadcasts_pure)
qed

lemma broadcasts_build_signed_swap_tx_for_pair:
  assumes "\<And>raw. guarded S (pays token_in 0 (build_approve_calldata (sp_abi S) (dc_router (sp_config S)) U256_MAX)) raw \<Longrightarrow> G raw"
    and "\<And>v raw. is_weth token_in \<Longrightarrow> v \<le> amount_in \<Longrightarrow> guarded S (pays token_in v WETH_DEPOSIT_SELECTOR) raw \<Longrightarrow> G raw"
  shows "broadcasts G (build_signed_swap_tx_for_pair S label tokens token_in token_out amount_in min_out recipient)
    (\<lambda>s. \<exists>deadline data. v3_swap_calldata_for_pair (sp_abi S) tokens token_in token_out recipient deadline amount_in min_out = Inr data
       \<and> guarded S (pays (dc_router (sp_config S)) 0 data) (st_raw s))"
proof -
  have "broadcasts G (case f d of Inl e \<Rightarrow> throw e | Inr data \<Rightarrow> sign_hashed S label (tx_for S to 0 data))
      (\<lambda>s. \<exists>deadline data. f deadline = Inr data \<and> guarded S (pays to 0 data) (st_raw s))" for to f and d :: nat
    by (auto intro!: broadcast_rules broadcasts_weaken [OF broadcasts_sign_hashed] split: sum.split)
  note sign = this
  show ?thesis
  proof (cases "min_out = 0")
    case False
    have "broadcasts G (\<lambda>w. (case v3_swap_calldata_for_pair (sp_abi S) tokens token_in token_out recipient
          (deadline_of S (w_log w)) amount_in min_out of
          Inl e \<Rightarrow> throw e | Inr data \<Rightarrow> sign_hashed S label (tx_for S (dc_router (sp_config S)) 0 data)) w)
      (\<lambda>s. \<exists>deadline data. v3_swap_calldata_for_pair (sp_abi S) tokens token_in token_out recipient deadline amount_in min_out = Inr data
        \<and> guarded S (pays (dc_router (sp_config S)) 0 data) (st_raw s))"
      by (rule broadcasts_read [where g = "\<lambda>w. deadline_of S (w_log w)" and f = "\<lambda>d. case v3_swap_calldata_for_pair
          (sp_abi S) tokens token_in token_out recipient d amount_in min_out of
          Inl e \<Rightarrow> throw e | Inr data \<Rightarrow> sign_hashed S label (tx_for S (dc_router (sp_config S)) 0 data)"])
        (rule sign)
    with False show ?thesis
      unfolding build_signed_swap_tx_for_pair_def
      by (simp add: broadcasts_seq [OF broadcasts_ensure_weth_balance [OF assms(2)]]
          broadcasts_seq [OF broadcasts_ensure_allowance [OF assms(1)]])
  qed (simp add: build_signed_swap_tx_for_pair_def broadcasts_pure)
qed

lemma swap_request_cases:
  "guarded S (pays token_in 0 (build_approve_calldata (sp_abi S) (dc_router (sp_config S)) U256_MAX)) raw
    \<Longrightarrow> guarded S (swap_request_ok S tokens token_in token_out amount_in min_out recipient) raw"
  "is_weth token_in \<Longrightarrow> v \<le> amount_in \<Longrightarrow> guarded S (pays token_in v WETH_DEPOSIT_SELECTOR) raw
    \<Longrightarrow> guarded S (swap_request_ok S tokens token_in token_out amount_in min_out recipient) raw"
  "guarded S (pays (dc_router (sp_config S)) 0
       (build_swap_calldata (sp_abi S) amount_in min_out [token_in, token_out] recipient deadline)) raw
    \<Longrightarrow> guarded S (swap_request_ok S tokens token_in token_out amount_in min_out recipient) raw"
  "v3_swap_calldata_for_pair (sp_abi S) tokens token_in token_out recipient deadline amount_in min_out = Inr data
    \<Longrightarrow> guarded S (pays (dc_router (sp_config S)) 0 data) raw
    \<Longrightarrow> guarded S (swap_request_ok S tokens token_in token_out amount_in min_out recipient) raw"
  by (erule guarded_mono, (simp add: swap_request_ok_def; blast))+

lemma broadcasts_v2_submit:
  "broadcasts (guarded S (swap_request_ok S tokens token_in token_out amount_in min_out recipient))
     (v2_submit_swap S token_in token_out amount_in min_out recipient) (\<lambda>_. True)"
  unfolding v2_submit_swap_def
  by (rule broadcasts_seq [OF broadcasts_build_signed_swap_tx [OF swap_request_cases(1)]])
    (auto intro!: broadcast_rules broadcasts_seq [where S = "\<lambda>_. True"] dest: swap_request_cases(3))

lemma broadcasts_v3_submit:
  "broadcasts (guarded S (swap_request_ok S tokens token_in token_out amount_in min_out recipient))
     (v3_submit_swap_for_pair S tokens token_in token_out amount_in min_out recipient) (\<lambda>_. True)"
  unfolding v3_submit_swap_for_pair_def
  by (rule broadcasts_seq [OF broadcasts_build_signed_swap_tx_for_pair [OF swap_request_cases(1,2)]])
    (auto intro!: broadcast_rules broadcasts_seq [where S = "\<lambda>_. True"] dest: swap_request_cases(4))

text \<open>
  C8: whatever the node answers, a swap broadcasts only guarded transactions.  Every raw transaction that
  submitting a V2 or a V3 swap sends is the wallet's signature of a valid request on the configured chain
  whose maximal fee is within the gas cap, and the request is one of three: the approval of the router, a
  wrap of no more than the amount to swap when the input token is wrapped ether, or the swap call to the
  router with the given amount, minimum output, tokens and recipient.  With a minimum output of zero nothing
  is sent or asked at all.
\<close>

theorem swap_broadcasts_guarded:
  assumes "db_submit (v2_backend S) token_in token_out amount_in min_out recipient w = Some (w', r)
    \<or> db_submit_for_pair (v3_backend S) tokens token_in token_out amount_in min_out recipient w = Some (w', r)"
  shows "(\<exists>es. w_log w' = w_log w @ es
      \<and> (\<forall>raw \<in> sends es. guarded S (swap_request_ok S tokens token_in token_out amount_in min_out recipient) raw))
    \<and> (min_out = 0 \<longrightarrow> w' = w \<and> r = Err (InvalidMinOut ''min_out is zero''))"
proof -
  from assms have "\<exists>es. w_log w' = w_log w @ es
      \<and> (\<forall>raw \<in> sends es. guarded S (swap_request_ok S tokens token_in token_out amount_in min_out recipient) raw)"
    using broadcastsD [OF broadcasts_v2_submit [of S tokens token_in token_out amount_in min_out recipient]]
      broadcastsD [OF broadcasts_v3_submit [of S tokens token_in token_out amount_in min_out recipient]]
    by (auto simp: v2_backend_def v3_backend_def)
  moreover have "w' = w \<and> r = Err (InvalidMinOut ''min_out is zero'')" if "min_out = 0"
    using assms that
    by (auto simp: v2_backend_def v3_backend_def v2_submit_swap_def v3_submit_swap_for_pair_def build_signed_swap_tx_def
        build_signed_swap_tx_for_pair_def seq_def throw_def)
  ultimately show ?thesis by blast
qed

text \<open>A run: one endpoint, a large allowance, a wallet and a relay that accept everything.\<close>

lemma with_provider_single:
  assumes "cc_rpc_urls C = [u]" "cc_max_retries C = 0"
  shows "with_provider C q answer w = Some (emit (RpcCall 0 q) w,
     case answer (cc_node C) (w_log w) 0 of Inr v \<Rightarrow> Ok v | Inl e \<Rightarrow> Err (classify_rpc_error e))"
  using assms by (simp add: with_provider_def attempts_def Let_def split: sum.split)

text \<open>The receipt of the node carries one transfer of the output token to the wallet.\<close>

definition sample_transfer :: log_entry where
  "sample_transfer =
     \<lparr>log_address = Some (addr_lower (replicate 20 2)),
      log_topics = Some [Some TRANSFER_TOPIC, None, Some (pad_address_lower (replicate 20 3))], log_data = Some ''0x01''\<rparr>"

definition swap_node :: rpc_node where
  "swap_node = sample_node\<lparr>n_block_number := \<lambda>h u. Inr 7, n_call := \<lambda>h u t b. Inr (replicate 30 0 @ [39, 16]),
     n_receipt := \<lambda>h u hash. Inr (Some \<lparr>er_transaction_hash = hash, er_block_number = Some 8, er_status = Some 1,
       er_gas_used = Some 21000, er_effective_gas_price = Some 10, er_logs = [Some sample_transfer]\<rparr>)\<rparr>"

definition sample_swapper :: swapper where
  "sample_swapper =
     \<lparr>sp_client = \<lparr>cc_rpc_urls = [''a''], cc_timeout_secs = 30, cc_max_retries = 0, cc_node = swap_node\<rparr>,
      sp_wallet = \<lparr>wl_address = Inr (replicate 20 3), wl_sign = (\<lambda>t. Inr [0xf8])\<rparr>,
      sp_config = dex_swapper_config_default\<lparr>dc_max_gas_gwei := Some 1\<rparr>, sp_nonce_manager = True,
      sp_abi = \<lparr>ab_encode = \<lambda>vs. [], ab_decode = \<lambda>ts bs. Some [VArray [VUint 10000]], ab_id = (\<lambda>s. []),
        ab_parse_hex = (\<lambda>s. Some 1)\<rparr>,
      sp_unix = (\<lambda>h. 1700000000)\<rparr>"

definition sample_pool_tokens :: pair_tokens where
  "sample_pool_tokens =
     \<lparr>pt_base = replicate 20 1, pt_base_decimals = 18, pt_quote = replicate 20 2, pt_quote_decimals = 6,
      pt_pool_kind = PoolV2, pt_v3_fee = None, pt_v3_path = None, pt_v3_fees = None, pt_v3_quoter = None\<rparr>"

lemma sample_with_provider:
  "with_provider (sp_client sample_swapper) q answer w = Some (emit (RpcCall 0 q) w,
     case answer swap_node (w_log w) 0 of Inr v \<Rightarrow> Ok v | Inl e \<Rightarrow> Err (classify_rpc_error e))"
  by (subst with_provider_single) (simp_all add: sample_swapper_def)

lemma sample_answers:
  "n_block_number swap_node h u = Inr 7" "n_call swap_node h u t b = Inr (replicate 30 0 @ [39, 16])"
  "n_transaction_count swap_node h u a bl = Inr 5" "n_fee_history swap_node h u n = Inr ([10], [[1, 2, 3]])"
  "n_estimate_gas swap_node h u t f = Inr 100000" "n_send_raw swap_node h u raw = Inr raw"
  "n_keccak swap_node raw = raw" "cc_node (sp_client sample_swapper) = swap_node"
  by (simp_all add: swap_node_def sample_node_def sample_swapper_def)

lemma sample_returned: "decode_uint256_return (replicate 30 0 @ [39, 16]) = 10000"
  by (simp add: decode_uint256_return_def) code_simp

lemma sample_parsed: "parse_u256_hex (sp_abi sample_swapper) (case log_data sample_transfer of Some d \<Rightarrow> d | None \<Rightarrow> ''0x'') = Some 1"
  by (simp add: parse_u256_hex_def sample_transfer_def sample_swapper_def)

lemma sample_config:
  "dc_chain_id (sp_config sample_swapper) = 1" "dc_max_gas_gwei (sp_config sample_swapper) = Some 1"
  "dc_gas_buffer_bps (sp_config sample_swapper) = DEFAULT_GAS_BUFFER_BPS" "sp_nonce_manager sample_swapper"
  "wl_sign (sp_wallet sample_swapper) t = Inr [0xf8]" "wl_address (sp_wallet sample_swapper) = Inr (replicate 20 3)"
  by (simp_all add: sample_swapper_def dex_swapper_config_default_def MAINNET_CHAIN_ID_def)

lemma sample_owner: "owner sample_swapper = ret (replicate 20 3)"
  by (simp add: owner_def sample_config)

lemmas swapper_run = call_defs sample_with_provider sample_answers sample_owner sample_config sample_returned Let_def emit_def

lemma sample_allowance:
  "\<exists>es. ensure_allowance sample_swapper t s 1000 \<lparr>w_log = h, w_nonces = m\<rparr> = Some (\<lparr>w_log = h @ es, w_nonces = m\<rparr>, Ok False)"
  by (simp add: ensure_allowance_def allowance_def read_uint_def call_contract_def get_block_number_def swapper_run)

definition sample_prepared :: "address \<Rightarrow> bytes \<Rightarrow> tx_builder" where
  "sample_prepared to data =
     (tx_for sample_swapper to 0 data)\<lparr>tb_gas_limit := Some 120000, tb_max_priority_fee := Some 2, tb_max_fee_per_gas := Some 14\<rparr>"

lemma sample_prepare:
  "\<exists>es. prepare_tx sample_swapper l (tx_for sample_swapper to 0 d) \<lparr>w_log = h, w_nonces = m\<rparr>
     = Some (\<lparr>w_log = h @ es, w_nonces = m\<rparr>, Ok (sample_prepared to d))"
  by (simp add: prepare_tx_def with_gas_estimate_def with_gas_price_def build_partial_request_def tx_for_def tx_builder_new_def
      wallet_address_call_def estimate_gas_from_def get_gas_price_def get_fee_history_gas_price_def swapper_run as_u64_def
      gas_multiplier_def sample_prepared_def gas_price_from_fee_history_def average_u256_def U256_MAX_def get_max_fee_def
      GAS_BPS_SCALE_def DEFAULT_GAS_BUFFER_BPS_def u256_or_max_def priority_fee_def)

lemma sample_sign:
  "\<exists>es m s. sign_guarded sample_swapper l (build_and_sign_with_hash (sp_client sample_swapper) (sp_wallet sample_swapper))
     (sample_prepared to d) \<lparr>w_log = h, w_nonces = nonce_manager_new\<rparr>
     = Some (\<lparr>w_log = h @ es, w_nonces = m\<rparr>, Ok s) \<and> st_raw s = [0xf8]"
  by (simp add: sign_guarded_def apply_reserved_nonce_def reserve_nonce_def nonce_manager_new_def get_nonce_def swapper_run
      as_u64_def reserve_next_def reject_if_gas_cap_exceeded_def WEI_PER_GWEI_def build_and_sign_with_hash_def build_tx_def
      build_partial_request_def tx_for_def tx_builder_new_def sign_built_def sign_transaction_bytes_def validate_request_def
      token_amount_eth_def MIN_GAS_LIMIT_def sample_prepared_def)

lemma sample_build:
  assumes "0 < min_out"
  shows "\<exists>es m s. build_signed_swap_tx sample_swapper l (replicate 20 1) (replicate 20 2) 1000 min_out (replicate 20 3)
     \<lparr>w_log = h, w_nonces = nonce_manager_new\<rparr> = Some (\<lparr>w_log = es, w_nonces = m\<rparr>, Ok s) \<and> st_raw s = [0xf8]"
proof -
  let ?S = sample_swapper
  obtain es1 where 1: "ensure_allowance ?S (replicate 20 1) (dc_router (sp_config ?S)) 1000 \<lparr>w_log = h, w_nonces = nonce_manager_new\<rparr>
      = Some (\<lparr>w_log = es1, w_nonces = nonce_manager_new\<rparr>, Ok False)"
    using sample_allowance by blast
  let ?d = "build_swap_calldata (sp_abi ?S) 1000 min_out [replicate 20 1, replicate 20 2] (replicate 20 3) (deadline_of ?S es1)"
  obtain es2 where 2: "prepare_tx ?S l (tx_for ?S (dc_router (sp_config ?S)) 0 ?d) \<lparr>w_log = es1, w_nonces = nonce_manager_new\<rparr>
      = Some (\<lparr>w_log = es1 @ es2, w_nonces = nonce_manager_new\<rparr>, Ok (sample_prepared (dc_router (sp_config ?S)) ?d))"
    using sample_prepare by blast
  obtain es3 m s where 3: "sign_guarded ?S l (build_and_sign_with_hash (sp_client ?S) (sp_wallet ?S))
      (sample_prepared (dc_router (sp_config ?S)) ?d) \<lparr>w_log = es1 @ es2, w_nonces = nonce_manager_new\<rparr>
      = Some (\<lparr>w_log = (es1 @ es2) @ es3, w_nonces = m\<rparr>, Ok s)" "st_raw s = [0xf8]"
    using sample_sign [of l _ _ "es1 @ es2"] by blast
  show ?thesis using 1 2 3 assms by (simp add: build_signed_swap_tx_def sign_hashed_def seq_def)
qed

lemma sample_submit_run:
  assumes "0 < min_out"
  shows "\<exists>w' sub. v2_submit_swap sample_swapper (replicate 20 1) (replicate 20 2) 1000 min_out (replicate 20 3)
       \<lparr>w_log = h, w_nonces = nonce_manager_new\<rparr> = Some (w', Ok sub)
     \<and> [0xf8] \<in> sends (w_log w') \<and> ss_token_out sub = replicate 20 2 \<and> ss_recipient sub = replicate 20 3
     \<and> ss_pre_swap_fees sub = onchain_fee_summary_default"
proof -
  obtain es m s where "build_signed_swap_tx sample_swapper ''swap'' (replicate 20 1) (replicate 20 2) 1000 min_out (replicate 20 3)
      \<lparr>w_log = h, w_nonces = nonce_manager_new\<rparr> = Some (\<lparr>w_log = es, w_nonces = m\<rparr>, Ok s)" "st_raw s = [0xf8]"
    using sample_build [OF assms] by blast
  then show ?thesis
    by (simp add: v2_submit_swap_def seq_def map_err_def attempt_def send_transaction_def sample_with_provider
        sample_answers ret_def emit_def sends_iff submission_of_def) blast
qed

lemma sample_wait:
  assumes "ss_token_out sub = replicate 20 2" "ss_recipient sub = replicate 20 3" "ss_pre_swap_fees sub = onchain_fee_summary_default"
  shows "\<exists>w' res. wait_swap sample_swapper ''swap'' sub w = Some (w', Ok res) \<and> sr_amount_out res = 1"
proof -
  have "lower (addr_lower (replicate 20 2)) = addr_lower (replicate 20 2)"
    "lower (pad_address_lower (replicate 20 3)) = pad_address_lower (replicate 20 3)" by code_simp+
  then have match: "log_matches sample_transfer (replicate 20 2) (replicate 20 3)"
    by (simp add: log_matches_def sample_transfer_def)
  have pending: "\<not> n_clock swap_node h + of_nat (max t (cc_timeout_secs (sp_client sample_swapper))) \<le> n_clock swap_node h" for t h
    by (simp add: sample_swapper_def max_def)
  have hash: "n_parse_hash swap_node x = Some [1]" for x by (simp add: swap_node_def sample_node_def)
  have receipt: "n_receipt swap_node h u x = Inr (Some \<lparr>er_transaction_hash = x, er_block_number = Some 8, er_status = Some 1,
       er_gas_used = Some 21000, er_effective_gas_price = Some 10, er_logs = [Some sample_transfer]\<rparr>)" for h u x
    by (simp add: swap_node_def)
  show ?thesis
    using assms match pending
    by (simp add: wait_swap_def wait_for_receipt_def wait_loop.simps get_receipt_internal_def call_defs sample_with_provider
        sample_answers hash receipt from_ethers_def swap_outcome_def sum_transfer_to_def sample_parsed U256_MAX_def
        add_receipt_def onchain_fee_summary_default_def u256_add_def u256_mul_def Let_def)
qed

lemma sample_submit:
  "\<exists>w' sub. v2_submit_swap sample_swapper (replicate 20 1) (replicate 20 2) 1000 900 (replicate 20 3) sample_world
     = Some (w', Ok sub) \<and> [0xf8] \<in> sends (w_log w')"
  using sample_submit_run [of 900 "[]"] by (auto simp: sample_world_def)

theorem swap_broadcasts_guarded_witness:
  "\<exists>w' sub. db_submit (v2_backend sample_swapper) (replicate 20 1) (replicate 20 2) 1000 900 (replicate 20 3) sample_world
       = Some (w', Ok sub)
     \<and> [0xf8] \<in> sends (w_log w')
     \<and> guarded sample_swapper (swap_request_ok sample_swapper sample_pool_tokens (replicate 20 1) (replicate 20 2) 1000 900 (replicate 20 3)) [0xf8]"
proof -
  from sample_submit obtain w' sub where run: "db_submit (v2_backend sample_swapper) (replicate 20 1) (replicate 20 2) 1000 900
      (replicate 20 3) sample_world = Some (w', Ok sub)" and sent: "[0xf8] \<in> sends (w_log w')"
    by (auto simp: v2_backend_def)
  from swap_broadcasts_guarded [OF disjI1 [OF run], of sample_pool_tokens] run sent show ?thesis by (auto simp: sample_world_def)
qed

section \<open>The contract of the trait\<close>

text \<open>A swap is paid: the node reported a successful receipt of the submitted transaction, and its logs credit the recipient.\<close>

definition paid :: "chain_client \<Rightarrow> ethers_abi \<Rightarrow> swap_submission \<Rightarrow> swap_result \<Rightarrow> bool" where
  "paid C A sub res \<longleftrightarrow>
     (\<exists>hash rc. n_parse_hash (cc_node C) (ss_tx_hash sub) = Some hash \<and> reported C hash rc \<and> rc_status rc
        \<and> sr_tx_hash res = rc_tx_hash rc \<and> sr_gas_used res = rc_gas_used rc
        \<and> sr_amount_out res = min U256_MAX (sum_list (credits A (rc_logs rc) (ss_token_out sub) (ss_recipient sub))))
     \<and> 0 < sr_amount_out res \<and> sr_amount_in res = ss_amount_in sub \<and> sr_success res"

definition records :: "address \<Rightarrow> nat \<Rightarrow> nat \<Rightarrow> address \<Rightarrow> swap_submission \<Rightarrow> bool" where
  "records token_out amount_in min_out recipient sub \<longleftrightarrow>
     0 < min_out \<and> ss_amount_in sub = amount_in \<and> ss_token_out sub = token_out \<and> ss_recipient sub = recipient"

locale swap_contract =
  fixes B :: dex_backend and C :: chain_client and A :: ethers_abi
  assumes submit_records:
      "db_submit B token_in token_out amount_in min_out recipient w = Some (w', Ok sub)
        \<Longrightarrow> records token_out amount_in min_out recipient sub"
    and submit_pair_records:
      "db_submit_for_pair B tokens token_in token_out amount_in min_out recipient w = Some (w', Ok sub)
        \<Longrightarrow> records token_out amount_in min_out recipient sub"
    and wait_ends: "sound_clock (cc_node C) \<Longrightarrow> \<exists>w' r. db_wait B sub w = Some (w', r)"
    and wait_paid: "db_wait B sub w = Some (w', Ok res) \<Longrightarrow> paid C A sub res"
begin

text \<open>The client: the provided method \<open>swap\<close>.\<close>

lemma swap_paid:
  assumes "backend_swap B token_in token_out amount_in min_out recipient w = Some (w', Ok res)"
  shows "\<exists>sub. records token_out amount_in min_out recipient sub \<and> paid C A sub res"
  using assms by (auto simp: backend_swap_def seq_def split: option.splits outcome.splits)
      (blast intro: submit_records wait_paid)

lemma swap_for_pair_paid:
  assumes "seq (db_submit_for_pair B tokens token_in token_out amount_in min_out recipient) (db_wait B) w = Some (w', Ok res)"
  shows "\<exists>sub. records token_out amount_in min_out recipient sub \<and> paid C A sub res"
  using assms by (auto simp: seq_def split: option.splits outcome.splits)
      (blast intro: submit_pair_records wait_paid)

end

lemma swap_outcome_paid:
  assumes "swap_outcome S sub rc = Ok res" "n_parse_hash (cc_node (sp_client S)) (ss_tx_hash sub) = Some hash"
    "reported (sp_client S) hash rc"
  shows "paid (sp_client S) (sp_abi S) sub res"
  using assms
  by (auto simp: swap_outcome_def paid_def Let_def sum_transfer_to_eq bind_out_Ok_iff split: if_splits)

lemma wait_swap_paid: "wait_swap S label sub w = Some (w', Ok res) \<Longrightarrow> paid (sp_client S) (sp_abi S) sub res"
  by (auto simp: wait_swap_def call_defs dest!: wait_for_receipt_post intro: swap_outcome_paid
      split: option.splits outcome.splits)

text \<open>The inclusion loop ends like the receipt loop: every round sleeps for a second.\<close>

lemma get_receipt_run:
  "\<exists>w' r. get_receipt C tx_hash w = Some (w', r) \<and> extends w w'"
  using get_receipt_internal_returns [of C _ w]
  by (fastforce simp: get_receipt_def throw_def dest: get_receipt_internal_run(1) split: option.splits)

lemma get_block_number_run: "\<exists>w' r. get_block_number C w = Some (w', r) \<and> extends w w'"
  using with_provider_returns [of "\<lambda>_. True" C QBlockNumber n_block_number] with_provider_extends
  unfolding get_block_number_def returns_def by blast

lemma bundle_loop_returns:
  assumes "sound_clock (cc_node C)"
  shows "n_clock (cc_node C) (w_log w) + of_nat k \<ge> deadline \<Longrightarrow> \<exists>w' r. bundle_loop C tx_hash target deadline w = Some (w', r)"
proof (induction k arbitrary: w)
  case (Suc k)
  from get_receipt_run obtain w1 r1 where r1: "get_receipt C tx_hash w = Some (w1, r1)" "extends w w1" by blast
  from get_block_number_run obtain w2 r2 where r2: "get_block_number C w1 = Some (w2, r2)" "extends w1 w2" by blast
  let ?w3 = "emit (Slept 1) w2"
  have "n_clock (cc_node C) (w_log w) \<le> n_clock (cc_node C) (w_log w2)"
    using clock_mono [OF assms] extends_trans [OF r1(2) r2(2)] by (auto simp: extends_def)
  with clock_sleep [OF assms, of "w_log w2" 1] Suc.prems
  have "n_clock (cc_node C) (w_log ?w3) + of_nat k \<ge> deadline" by simp
  from Suc.IH [OF this] r1(1) r2(1) show ?case
    by (subst bundle_loop.simps) (auto split: outcome.splits option.splits)
next
  case 0
  from get_receipt_run obtain w1 r1 where r1: "get_receipt C tx_hash w = Some (w1, r1)" "extends w w1" by blast
  from get_block_number_run obtain w2 r2 where r2: "get_block_number C w1 = Some (w2, r2)" "extends w1 w2" by blast
  have "n_clock (cc_node C) (w_log w) \<le> n_clock (cc_node C) (w_log w2)"
    using clock_mono [OF assms] extends_trans [OF r1(2) r2(2)] by (auto simp: extends_def)
  with 0 r1(1) r2(1) show ?case
    by (subst bundle_loop.simps) (auto split: outcome.splits option.splits)
qed

lemma bundle_loop_reported:
  assumes "bundle_loop C tx_hash target deadline w = Some res"
  shows "\<forall>rc. snd res = Ok rc \<longrightarrow> (\<exists>hash. n_parse_hash (cc_node C) tx_hash = Some hash \<and> reported C hash rc)"
proof (rule bundle_loop.raw_induct
    [where P = "\<lambda>C tx_hash target deadline w res.
       \<forall>rc. snd res = Ok rc \<longrightarrow> (\<exists>hash. n_parse_hash (cc_node C) tx_hash = Some hash \<and> reported C hash rc)",
     OF _ assms], goal_cases)
  case (1 bl C tx_hash target deadline w res)
  from 1 show ?case
    by (cases "n_parse_hash (cc_node C) tx_hash"; cases res)
      (auto simp: get_receipt_def throw_def split: option.splits outcome.splits if_splits;
        (erule get_receipt_internal_reported | fastforce))+
qed

lemma wait_swap_ends: "sound_clock (cc_node (sp_client S)) \<Longrightarrow> \<exists>w' r. wait_swap S label sub w = Some (w', r)"
  using wait_for_receipt_run [of "sp_client S" "ss_tx_hash sub" "dc_receipt_timeout_secs (sp_config S)" 1 w]
  by (auto simp: wait_swap_def call_defs split: outcome.split)

lemma flashbots_wait_ends:
  assumes "sound_clock (cc_node (sp_client (inner_swapper (fs_inner F))))"
  shows "\<exists>w' r. flashbots_wait_swap F sub w = Some (w', r)"
proof (cases "ss_private_bundle sub")
  case (Some b)
  let ?C = "sp_client (inner_swapper (fs_inner F))" and ?t = "fc_inclusion_timeout_secs (fs_config F)"
  from bundle_loop_returns [OF assms, where k = ?t and w = w and tx_hash = "ss_tx_hash sub" and target = "pb_target_block b"
      and deadline = "n_clock (cc_node ?C) (w_log w) + of_nat ?t"]
  show ?thesis using Some by (auto simp: flashbots_wait_swap_def Let_def call_defs split: outcome.split)
qed (simp add: flashbots_wait_swap_def wait_swap_ends [OF assms])

lemma flashbots_wait_paid:
  assumes "flashbots_wait_swap F sub w = Some (w', Ok res)"
  shows "paid (sp_client (inner_swapper (fs_inner F))) (sp_abi (inner_swapper (fs_inner F))) sub res"
proof (cases "ss_private_bundle sub")
  case (Some b)
  then show ?thesis
    using assms
    by (auto simp: flashbots_wait_swap_def Let_def call_defs intro: swap_outcome_paid dest!: bundle_loop_reported
        split: option.splits outcome.splits if_splits)
qed (use assms in \<open>simp add: flashbots_wait_swap_def wait_swap_paid\<close>)

lemma v2_submit_records:
  "v2_submit_swap S token_in token_out amount_in min_out recipient w = Some (w', Ok sub)
     \<Longrightarrow> records token_out amount_in min_out recipient sub"
  by (auto simp: v2_submit_swap_def build_signed_swap_tx_def call_defs records_def submission_of_def
      split: option.splits outcome.splits if_splits)

lemma v3_submit_records:
  "v3_submit_swap_for_pair S tokens token_in token_out amount_in min_out recipient w = Some (w', Ok sub)
     \<Longrightarrow> records token_out amount_in min_out recipient sub"
  by (auto simp: v3_submit_swap_for_pair_def build_signed_swap_tx_for_pair_def call_defs records_def submission_of_def
      split: option.splits outcome.splits if_splits)

lemma bundle_submit_records:
  "submit_bundle_swap F tokens token_in token_out amount_in min_out recipient w = Some (w', Ok sub)
     \<Longrightarrow> records token_out amount_in min_out recipient sub"
  by (auto simp: submit_bundle_swap_def call_defs records_def submission_of_def
      split: option.splits outcome.splits if_splits)

interpretation v2_contract: swap_contract "v2_backend S" "sp_client S" "sp_abi S" for S
  by unfold_locales (simp_all add: v2_backend_def v2_submit_records wait_swap_ends wait_swap_paid)

interpretation v3_contract: swap_contract "v3_backend S" "sp_client S" "sp_abi S" for S
  by unfold_locales (simp_all add: v3_backend_def throw_def v3_submit_records wait_swap_ends wait_swap_paid)

interpretation flashbots_contract:
  swap_contract "flashbots_backend F" "sp_client (inner_swapper (fs_inner F))" "sp_abi (inner_swapper (fs_inner F))" for F
  by unfold_locales
    (simp_all add: flashbots_backend_def bundle_submit_records flashbots_wait_ends flashbots_wait_paid)

text \<open>Two backends over the same client that keep the contract give one that does.\<close>

locale two_backends = v2: swap_contract V2 C A + v3: swap_contract V3 C A
  for V2 V3 :: dex_backend and C :: chain_client and A :: ethers_abi
begin

lemma composite_keeps_contract: "swap_contract (composite_backend V2 V3) C A"
  by unfold_locales
    (auto simp: composite_backend_def Let_def v2.submit_records v2.submit_pair_records v3.submit_pair_records
      v2.wait_ends v3.wait_ends v2.wait_paid v3.wait_paid split: dex_pool_kind.splits)

end

sublocale two_backends \<subseteq> both: swap_contract "composite_backend V2 V3" C A
  by (rule composite_keeps_contract)

text \<open>The backend of the bot: one client, wallet and codec, two configurations, public or private.\<close>

lemma flashbots_contract_of:
  "swap_contract (flashbots_backend \<lparr>fs_inner = InnerV2 S, fs_relay = r, fs_config = c\<rparr>) (sp_client S) (sp_abi S)"
  "swap_contract (flashbots_backend \<lparr>fs_inner = InnerV3 S, fs_relay = r, fs_config = c\<rparr>) (sp_client S) (sp_abi S)"
  using flashbots_contract.swap_contract_axioms [of "\<lparr>fs_inner = InnerV2 S, fs_relay = r, fs_config = c\<rparr>"]
    flashbots_contract.swap_contract_axioms [of "\<lparr>fs_inner = InnerV3 S, fs_relay = r, fs_config = c\<rparr>"]
  by simp_all

lemma build_contracts:
  "swap_contract (build_v2_swapper S relay) (sp_client S) (sp_abi S)"
  "swap_contract (build_v3_swapper S relay) (sp_client S) (sp_abi S)"
  by (simp_all add: build_v2_swapper_def build_v3_swapper_def v2_contract.swap_contract_axioms
      v3_contract.swap_contract_axioms flashbots_contract_of split: option.split)

interpretation bot_backends:
  two_backends "build_v2_swapper S relay" "build_v3_swapper (S\<lparr>sp_config := c\<rparr>) relay" "sp_client S" "sp_abi S" for S c relay
  using build_contracts(2) [of "S\<lparr>sp_config := c\<rparr>"] by (simp add: two_backends_def build_contracts(1))

interpretation bot_contract: swap_contract "build_swapper has_v2 has_v3 S c relay" "sp_client S" "sp_abi S" for has_v2 has_v3 S c relay
  using build_contracts(2) [of "S\<lparr>sp_config := c\<rparr>"] build_contracts(1)
    bot_backends.composite_keeps_contract
  by (simp add: build_swapper_def Let_def)

text \<open>
  C9: the backend of the bot reports only swaps that paid.  However it is assembled (V2, V3 or both,
  public or through a bundle relay), a submission it accepts had a positive minimum output and records
  the amount, token and recipient asked for; with a sound clock the wait for it returns, whatever happened
  in between; and when the wait succeeds, the node reported a successful receipt for the submitted
  transaction, and the reported output is the sum of the transfers of the output token to the recipient
  in that receipt, capped at 256 bits, and is not zero.
\<close>

theorem swap_result_is_paid:
  assumes "db_submit_for_pair (build_swapper has_v2 has_v3 S c relay) tokens token_in token_out amount_in min_out recipient w
      = Some (w1, Ok sub)"
    and "sound_clock (cc_node (sp_client S))"
  shows "records token_out amount_in min_out recipient sub
    \<and> (\<exists>w' r. db_wait (build_swapper has_v2 has_v3 S c relay) sub w2 = Some (w', r)
         \<and> (\<forall>res. r = Ok res \<longrightarrow> paid (sp_client S) (sp_abi S) sub res))"
proof (intro conjI bot_contract.submit_pair_records [OF assms(1)])
  from bot_contract.wait_ends [OF assms(2)] obtain w' r
    where "db_wait (build_swapper has_v2 has_v3 S c relay) sub w2 = Some (w', r)" by blast
  then show "\<exists>w' r. db_wait (build_swapper has_v2 has_v3 S c relay) sub w2 = Some (w', r)
      \<and> (\<forall>res. r = Ok res \<longrightarrow> paid (sp_client S) (sp_abi S) sub res)"
    by (auto intro: bot_contract.wait_paid)
qed

theorem swap_result_is_paid_witness:
  "\<exists>w1 sub w' r. db_submit_for_pair (build_swapper True False sample_swapper dex_swapper_config_default None) sample_pool_tokens
       (replicate 20 1) (replicate 20 2) 1000 900 (replicate 20 3) sample_world = Some (w1, Ok sub)
     \<and> records (replicate 20 2) 1000 900 (replicate 20 3) sub
     \<and> db_wait (build_swapper True False sample_swapper dex_swapper_config_default None) sub w1 = Some (w', r)"
proof -
  have clock: "sound_clock (cc_node (sp_client sample_swapper))"
    using sample_clock by (simp add: sample_answers swap_node_def sound_clock_def)
  from sample_submit obtain w1 sub where run: "db_submit_for_pair (build_swapper True False sample_swapper
      dex_swapper_config_default None) sample_pool_tokens (replicate 20 1) (replicate 20 2) 1000 900 (replicate 20 3) sample_world
      = Some (w1, Ok sub)"
    by (auto simp: build_swapper_def build_v2_swapper_def v2_backend_def)
  from swap_result_is_paid [OF run clock, of w1] run show ?thesis by auto
qed

section \<open>Nonces\<close>

lemma keeps_prepare_tx [nonce_rules]: "keeps_nonces (prepare_tx S label b)"
  unfolding prepare_tx_def by (auto intro!: nonce_rules)

text \<open>With a synchronised manager the reservation is local.\<close>

lemma apply_reserved_synced:
  assumes "sp_nonce_manager S" "wl_address (sp_wallet S) = Inr a"
    and "w_nonces w (key_of (dc_chain_id (sp_config S)) (addr_lower a)) = Some (Some n)"
  shows "apply_reserved_nonce S b w
    = Some (w\<lparr>w_nonces := (w_nonces w)(key_of (dc_chain_id (sp_config S)) (addr_lower a) \<mapsto> Some (saturating_succ n))\<rparr>,
        Ok (b\<lparr>tb_nonce := Some n\<rparr>, Some \<lparr>rn_chain_id = dc_chain_id (sp_config S), rn_address = a, rn_nonce = n\<rparr>))"
  using assms by (simp add: apply_reserved_nonce_def call_defs owner_def reserve_nonce_def reserve_next_def Let_def)

lemma rollback_restores:
  assumes "w_nonces w' = m(key_of c (addr_lower a) \<mapsto> Some (saturating_succ n))" "m (key_of c (addr_lower a)) = Some (Some n)"
  shows "w_nonces (rollback_reserved_nonce (Some \<lparr>rn_chain_id = c, rn_address = a, rn_nonce = n\<rparr>) w') = m"
  using assms by (auto simp: rollback_reserved_nonce_def mark_failed_def Let_def)

lemma build_and_sign_with_hash_nonce:
  assumes "build_and_sign_with_hash C W b w = Some (w', Ok s)" "tb_nonce b = Some n"
  shows "st_nonce s = Some n"
  using assms
  by (auto simp: build_and_sign_with_hash_def build_tx_def build_partial_request_def call_defs
      split: option.splits outcome.splits)

lemma sign_guarded_nonces:
  assumes synced: "sp_nonce_manager S" "wl_address (sp_wallet S) = Inr a"
      "w_nonces w (key_of (dc_chain_id (sp_config S)) (addr_lower a)) = Some (Some n)"
    and sign: "\<And>b. keeps_nonces (sign b)"
    and run: "sign_guarded S label sign b w = Some (w', r)"
  shows "case r of
      Ok s \<Rightarrow> (\<exists>w0 w1. sign (b\<lparr>tb_nonce := Some n\<rparr>) w0 = Some (w1, Ok s))
        \<and> w_nonces w' = (w_nonces w)(key_of (dc_chain_id (sp_config S)) (addr_lower a) \<mapsto> Some (saturating_succ n))
    | Err e \<Rightarrow> w_nonces w' = w_nonces w
    | Panic \<Rightarrow> True"
proof -
  let ?k = "key_of (dc_chain_id (sp_config S)) (addr_lower a)"
  let ?w = "w\<lparr>w_nonces := (w_nonces w)(?k \<mapsto> Some (saturating_succ n))\<rparr>"
  have undone: "w_nonces (rollback_reserved_nonce (Some \<lparr>rn_chain_id = dc_chain_id (sp_config S), rn_address = a, rn_nonce = n\<rparr>) w1)
      = w_nonces w" if "w_nonces w1 = w_nonces ?w" for w1
    using that synced(3) by (intro rollback_restores) simp_all
  show ?thesis
    using run apply_reserved_synced [OF synced, of b] keeps_noncesD [OF sign, of "b\<lparr>tb_nonce := Some n\<rparr>" ?w]
    by (auto simp: sign_guarded_def call_defs undone split: option.splits outcome.splits) blast
qed

text \<open>
  C13: a nonce is spent exactly when a transaction is signed with it.  With a synchronised manager whose next
  nonce is \<open>n\<close>, building and signing a transaction either returns one signed with \<open>n\<close>, and the next
  nonce is \<open>n + 1\<close>, or fails at any step (gas estimate, fee, gas cap, signature) and leaves every counter
  as it was, so the next reservation hands out \<open>n\<close> again.
\<close>

theorem nonce_spent_iff_signed:
  assumes "sp_nonce_manager S" "wl_address (sp_wallet S) = Inr a"
    and "w_nonces w (key_of (dc_chain_id (sp_config S)) (addr_lower a)) = Some (Some n)" "n \<noteq> - 1"
    and "sign_hashed S label b w = Some (w', r)"
  shows "case r of
      Ok s \<Rightarrow> st_nonce s = Some n
        \<and> w_nonces w' = (w_nonces w)(key_of (dc_chain_id (sp_config S)) (addr_lower a) \<mapsto> Some (n + 1))
    | Err e \<Rightarrow> w_nonces w' = w_nonces w
    | Panic \<Rightarrow> True"
proof -
  from assms(5) obtain w1 r1 where prep: "prepare_tx S label b w = Some (w1, r1)"
    and rest: "case r1 of Ok b1 \<Rightarrow> sign_guarded S label (build_and_sign_with_hash (sp_client S) (sp_wallet S)) b1 w1 = Some (w', r)
      | Err e \<Rightarrow> w' = w1 \<and> r = Err e | Panic \<Rightarrow> r = Panic"
    by (auto simp: sign_hashed_def seq_def split: option.splits outcome.splits)
  have same: "w_nonces w1 = w_nonces w" by (rule keeps_noncesD [OF keeps_prepare_tx prep])
  show ?thesis
  proof (cases r1)
    case (Ok b1)
    with rest same assms(4)
      sign_guarded_nonces [OF assms(1,2), of w1 n "build_and_sign_with_hash (sp_client S) (sp_wallet S)" label b1 w' r] assms(3)
    show ?thesis
      by (auto simp: nonce_rules saturating_succ_def dest: build_and_sign_with_hash_nonce split: outcome.splits)
  qed (use rest same in auto)
qed

lemma sample_sign_synced:
  "\<exists>es s. sign_guarded sample_swapper l (build_and_sign_with_hash (sp_client sample_swapper) (sp_wallet sample_swapper))
     (sample_prepared to d) \<lparr>w_log = h, w_nonces = (\<lambda>_. Some (Some 5))\<rparr>
     = Some (\<lparr>w_log = h @ es, w_nonces = (\<lambda>_. Some (Some 5))(key_of 1 (addr_lower (replicate 20 3)) \<mapsto> Some 6)\<rparr>, Ok s)"
  by (simp add: sign_guarded_def apply_reserved_nonce_def reserve_nonce_def swapper_run saturating_succ_def
      reserve_next_def reject_if_gas_cap_exceeded_def WEI_PER_GWEI_def build_and_sign_with_hash_def build_tx_def
      build_partial_request_def tx_for_def tx_builder_new_def sign_built_def sign_transaction_bytes_def validate_request_def
      token_amount_eth_def MIN_GAS_LIMIT_def sample_prepared_def)

theorem nonce_spent_iff_signed_witness:
  "\<exists>w' s. sign_hashed sample_swapper ''swap'' (tx_for sample_swapper (replicate 20 9) 0 [1])
       \<lparr>w_log = [], w_nonces = (\<lambda>_. Some (Some 5))\<rparr> = Some (w', Ok s)
     \<and> st_nonce s = Some 5 \<and> w_nonces w' (key_of 1 (addr_lower (replicate 20 3))) = Some (Some 6)"
proof -
  obtain es1 where 1: "prepare_tx sample_swapper ''swap'' (tx_for sample_swapper (replicate 20 9) 0 [1])
      \<lparr>w_log = [], w_nonces = (\<lambda>_. Some (Some 5))\<rparr>
    = Some (\<lparr>w_log = es1, w_nonces = (\<lambda>_. Some (Some 5))\<rparr>, Ok (sample_prepared (replicate 20 9) [1]))"
    using sample_prepare [of "''swap''" "replicate 20 9" "[1]" "[]"] by auto
  from sample_sign_synced [of "''swap''" "replicate 20 9" "[1]" es1] 1 obtain w' s
    where run: "sign_hashed sample_swapper ''swap'' (tx_for sample_swapper (replicate 20 9) 0 [1])
      \<lparr>w_log = [], w_nonces = (\<lambda>_. Some (Some 5))\<rparr> = Some (w', Ok s)"
    by (auto simp: sign_hashed_def seq_def)
  have "(5 :: nonce) \<noteq> - 1" by simp
  from nonce_spent_iff_signed [OF sample_config(4,6) _ this run] run show ?thesis by (auto simp: sample_config)
qed

section \<open>Bundles\<close>

text \<open>The target blocks of the bundles handed to the relay, and whether the relay took one.\<close>

fun sent_targets :: "chain_history \<Rightarrow> nat list" where
  "sent_targets [] = []"
| "sent_targets (SendBundle q # es) = br_target_block q # sent_targets es"
| "sent_targets (e # es) = sent_targets es"

lemma sent_targets_append [simp]: "sent_targets (es @ es') = sent_targets es @ sent_targets es'"
  by (induction es rule: sent_targets.induct) simp_all

lemma submit_bundles_log:
  "submit_bundles F txs targets submitted w = Some (w', r) \<Longrightarrow>
     \<exists>es. w_log w' = w_log w @ es \<and> sends es = {} \<and> w_nonces w' = w_nonces w
        \<and> (case r of Ok b \<Rightarrow> sent_targets es = targets \<and> (b = None \<longrightarrow> targets = [] \<and> submitted = None)
           | Err e \<Rightarrow> \<exists>k < length targets. sent_targets es = take k targets \<or> sent_targets es = take (Suc k) targets
           | Panic \<Rightarrow> False)"
proof (induction F txs targets submitted w arbitrary: w' r rule: submit_bundles.induct)
  case (2 F txs target targets submitted w)
  define q where "q = \<lparr>br_txs = txs, br_target_block = target, br_min_timestamp = None,
    br_max_timestamp = Some (deadline_of (inner_swapper (fs_inner F)) (w_log w))\<rparr>"
  define w2 where "w2 = emit (SendBundle q) (emit (SimulateBundle q) w)"
  have start: "w_log w2 = w_log w @ [SimulateBundle q, SendBundle q]" "w_nonces w2 = w_nonces w" "br_target_block q = target"
    by (simp_all add: w2_def q_def)
  show ?case
  proof (cases "rl_simulate (fs_relay F) (w_log w) q")
    case (Inl e)
    with 2(2) show ?thesis by (auto simp: q_def [symmetric] sends_iff)
  next
    case sim: (Inr u)
    show ?thesis
    proof (cases "rl_send (fs_relay F) (w_log (emit (SimulateBundle q) w)) q")
      case (Inl e)
      with 2(2) sim start(3) show ?thesis by (auto simp: q_def [symmetric] sends_iff Let_def intro: exI [of _ 0])
    next
      case (Inr b)
      with 2(2) sim have "submit_bundles F txs targets (Some b) w2 = Some (w', r)"
        by (simp add: q_def [symmetric] w2_def Let_def)
      from 2(1) [OF q_def refl sim refl Inr this [unfolded w2_def]] obtain es where es: "w_log w' = w_log w2 @ es"
        "sends es = {}" "w_nonces w' = w_nonces w2"
        "case r of Ok b' \<Rightarrow> sent_targets es = targets \<and> (b' = None \<longrightarrow> targets = [] \<and> Some b = None)
           | Err e \<Rightarrow> \<exists>k < length targets. sent_targets es = take k targets \<or> sent_targets es = take (Suc k) targets
           | Panic \<Rightarrow> False"
        unfolding w2_def by blast
      show ?thesis
        by (rule exI [of _ "SimulateBundle q # SendBundle q # es"])
          (use es start in \<open>auto simp: sends_def split: outcome.splits intro: exI [of _ "Suc k" for k]\<close>)
    qed
  qed
qed (simp add: sends_iff)

text \<open>What the private path may broadcast in public: the approval and the wrap, never the swap.\<close>

definition preparation_ok :: "swapper \<Rightarrow> address \<Rightarrow> nat \<Rightarrow> transaction_request \<Rightarrow> bool" where
  "preparation_ok S token_in amount_in t \<longleftrightarrow>
     pays token_in 0 (build_approve_calldata (sp_abi S) (dc_router (sp_config S)) U256_MAX) t
     \<or> is_weth token_in \<and> (\<exists>v \<le> amount_in. pays token_in v WETH_DEPOSIT_SELECTOR t)"

lemma preparation_cases:
  "guarded S (pays token_in 0 (build_approve_calldata (sp_abi S) (dc_router (sp_config S)) U256_MAX)) raw
    \<Longrightarrow> guarded S (preparation_ok S token_in amount_in) raw"
  "is_weth token_in \<Longrightarrow> v \<le> amount_in \<Longrightarrow> guarded S (pays token_in v WETH_DEPOSIT_SELECTOR) raw
    \<Longrightarrow> guarded S (preparation_ok S token_in amount_in) raw"
  by (erule guarded_mono, (simp add: preparation_ok_def; blast))+

lemma broadcasts_inner_build_signed:
  "broadcasts (guarded (inner_swapper i) (preparation_ok (inner_swapper i) token_in amount_in))
     (inner_build_signed i tokens token_in token_out amount_in min_out recipient) (\<lambda>_. True)"
proof (cases i)
  case (InnerV2 S)
  then show ?thesis
    by (simp add: broadcasts_weaken [OF broadcasts_build_signed_swap_tx [OF preparation_cases(1)]])
next
  case (InnerV3 S)
  have "broadcasts (guarded S (preparation_ok S token_in amount_in))
     (build_signed_swap_tx_for_pair S ''bundle v3 swap'' t token_in token_out amount_in min_out recipient) (\<lambda>_. True)" for t
    by (rule broadcasts_weaken [OF broadcasts_build_signed_swap_tx_for_pair [OF preparation_cases(1,2)]]) auto
  with InnerV3 show ?thesis by (auto intro: broadcast_rules split: option.split)
qed


definition sample_relay :: "nat \<Rightarrow> bundle_relay" where
  "sample_relay limit =
     \<lparr>rl_simulate = (\<lambda>h q. Inr ()),
      rl_send = (\<lambda>h q. if br_target_block q \<le> limit
         then Inr \<lparr>bs_bundle_hash = ''0xb'', bs_tx_hashes = [], bs_target_block = br_target_block q\<rparr>
         else Inl ''rate limited'')\<rparr>"

definition sample_private :: "nat \<Rightarrow> flashbots_swapper" where
  "sample_private limit =
     \<lparr>fs_inner = InnerV2 sample_swapper, fs_relay = sample_relay limit, fs_config = flashbots_config_default\<rparr>"

lemma sample_targets: "bundle_target_blocks 7 flashbots_config_default = [8, 9, 10]"
  by (simp add: bundle_target_blocks_def flashbots_config_default_def saturating_add_u64_def upt_rec)

lemma sample_bundle:
  "\<exists>w' r. submit_bundle_swap (sample_private limit) None (replicate 20 1) (replicate 20 2) 1000 900 (replicate 20 3) sample_world
       = Some (w', r)
     \<and> (limit = 10 \<longrightarrow> (\<exists>sub. r = Ok sub)) \<and> (limit = 8 \<longrightarrow> r = Err (SwBundle (''send: '' @ ''rate limited'')))"
proof -
  obtain es m s where "build_signed_swap_tx sample_swapper ''bundle swap'' (replicate 20 1) (replicate 20 2) 1000 900
      (replicate 20 3) sample_world = Some (\<lparr>w_log = es, w_nonces = m\<rparr>, Ok s)"
    using sample_build [of 900 "''bundle swap''" "[]"] by (auto simp: sample_world_def)
  then show ?thesis
    by (simp add: submit_bundle_swap_def sample_private_def seq_def map_err_def attempt_def get_block_number_def ret_def
        sample_with_provider sample_answers sample_targets sample_relay_def Let_def emit_def)
qed

text \<open>
  A relay error after the first bundle is reported as a failed swap although the relay holds a bundle of it
  that can still be included: the caller treats the leg as not executed.
\<close>

lemma bundle_error_hides_accepted:
  "submit_bundles (sample_private 8) txs [8, 9, 10] None sample_world
     = Some (w', Err (SwBundle (''send: '' @ ''rate limited''))) \<Longrightarrow> sent_targets (w_log w') = [8, 9]"
  by (auto simp: sample_private_def sample_relay_def Let_def emit_def sample_world_def)


end
