(* ===== verification/Leg_Backends.thy ===== *)
theory Leg_Backends
  imports Exchange_Client Swap_Safety
begin

text \<open>
  \<open>executor/engine.rs\<close>: the leg backends behind the trait \<open>LegExecutor\<close>: the simulator and \<open>LiveLegs\<close>,
  which trades on an exchange client and a swap backend.

  The world of a live leg is the chain, the exchange, the table of submissions in flight and the handle sink
  of the call.  The latencies of the simulator are left out.
\<close>

section \<open>Errors and worlds\<close>

datatype executor_error =
    Exchange exchange_error
  | InvalidSignal string
  | NotImplemented string
  | Persistence string

record live_world =
  lw_chain :: world
  lw_exchange :: binance_world
  lw_pending :: "string \<rightharpoonup> swap_submission"
  lw_sink :: "string option"

type_synonym ('e, 'a) live_call = "(live_world, 'e, 'a) call"

definition on_chain :: "('e, 'a) chain_call \<Rightarrow> ('e, 'a) live_call" where
  "on_chain m w = (case m (lw_chain w) of None \<Rightarrow> None | Some (c, r) \<Rightarrow> Some (w\<lparr>lw_chain := c\<rparr>, r))"

definition on_exchange :: "'a binance_call \<Rightarrow> (executor_error, 'a) live_call" where
  "on_exchange m = map_err Exchange (\<lambda>w. case m (lw_exchange w) of
     None \<Rightarrow> None | Some (x, r) \<Rightarrow> Some (w\<lparr>lw_exchange := x\<rparr>, r))"

section \<open>Simulated legs\<close>

datatype cancel_behaviour = CleanCancel | SimRaceFilled | PartialRace | SimUnknown
datatype leg_behaviour = FillLeg | RejectLeg | RevertLeg | PartialFillLeg | HangLeg

record simulated_legs =
  sl_cex_behaviour :: leg_behaviour
  sl_dex_behaviour :: leg_behaviour
  sl_cancel_behaviour :: cancel_behaviour
  sl_price_source :: "(string \<Rightarrow> dec option) option"

text \<open>A hanging leg sleeps for five minutes and then panics.\<close>

primrec run_simulated :: "dec_ops \<Rightarrow> leg_behaviour \<Rightarrow> dec \<Rightarrow> dec \<Rightarrow> (executor_error, leg_fill) outcome" where
  "run_simulated D HangLeg price sz = Panic"
| "run_simulated D RejectLeg price sz = Ok (leg_fill_new LegRejected 0 0 None (Some ''simulated reject''))"
| "run_simulated D RevertLeg price sz =
     Ok (leg_fill_new LegReverted 0 0 (Some ''sim_tx_reverted'') (Some ''simulated on-chain revert''))"
| "run_simulated D PartialFillLeg price sz = Ok (leg_fill_new Accepted price (ddiv D sz 2) (Some ''sim_partial'') None)"
| "run_simulated D FillLeg price sz = Ok (leg_fill_new Accepted price sz (Some ''sim_fill'') None)"

definition sim_handle :: "exchange_lib \<Rightarrow> dec \<Rightarrow> dec \<Rightarrow> string" where
  "sim_handle L price sz = ''sim_cex:'' @ xl_show_dec L price @ '':'' @ xl_show_dec L sz"

definition strip_prefix :: "string \<Rightarrow> string \<Rightarrow> string option" where
  "strip_prefix p s = (if take (length p) s = p then Some (drop (length p) s) else None)"

definition split_once :: "char \<Rightarrow> string \<Rightarrow> (string \<times> string) option" where
  "split_once c s = (if c \<in> set s then Some (takeWhile (\<lambda>x. x \<noteq> c) s, tl (dropWhile (\<lambda>x. x \<noteq> c) s)) else None)"

definition ok_value :: "'e + 'a \<Rightarrow> 'a option" where
  "ok_value r = (case r of Inr a \<Rightarrow> Some a | Inl _ \<Rightarrow> None)"

definition parse_sim_handle :: "exchange_lib \<Rightarrow> string \<Rightarrow> (dec \<times> dec) option" where
  "parse_sim_handle L handle =
     Option.bind (strip_prefix ''sim_cex:'' handle) (\<lambda>rest.
     Option.bind (split_once (CHR '':'') rest) (\<lambda>(p, s).
     Option.bind (ok_value (xl_from_str_exact L p)) (\<lambda>price.
     Option.bind (ok_value (xl_from_str_exact L s)) (\<lambda>sz. Some (price, sz)))))"

definition sim_execute_cex :: "dec_ops \<Rightarrow> simulated_legs \<Rightarrow> signal \<Rightarrow> dec \<Rightarrow> (executor_error, leg_fill) outcome" where
  "sim_execute_cex D S s sz = run_simulated D (sl_cex_behaviour S) (cex_price s) sz"

text \<open>The tracked variant writes the handle before anything else.\<close>

definition sim_execute_cex_tracked ::
  "exchange_lib \<Rightarrow> simulated_legs \<Rightarrow> signal \<Rightarrow> dec \<Rightarrow> string option \<times> (executor_error, leg_fill) outcome" where
  "sim_execute_cex_tracked L S s sz =
     (Some (sim_handle L (cex_price s) sz), run_simulated (xl_dec L) (sl_cex_behaviour S) (cex_price s) sz)"

definition sim_execute_dex :: "dec_ops \<Rightarrow> simulated_legs \<Rightarrow> signal \<Rightarrow> dec \<Rightarrow> (executor_error, leg_fill) outcome" where
  "sim_execute_dex D S s sz = run_simulated D (sl_dex_behaviour S) (dex_price s) sz"

definition sim_cancel_cex :: "exchange_lib \<Rightarrow> simulated_legs \<Rightarrow> string \<Rightarrow> cancel_outcome" where
  "sim_cancel_cex L S handle =
     (let (price, sz) = (case parse_sim_handle L handle of Some ps \<Rightarrow> ps | None \<Rightarrow> (0, 0))
      in case sl_cancel_behaviour S of
           CleanCancel \<Rightarrow> Cancelled
         | SimRaceFilled \<Rightarrow> RaceFilled (leg_fill_new Accepted price sz (Some handle) None)
         | PartialRace \<Rightarrow> PartiallyFilled (leg_fill_new Accepted price (ddiv (xl_dec L) sz 2) (Some handle) None)
         | SimUnknown \<Rightarrow> CancelUnknown ''simulated ambiguous cancel'')"

definition sim_get_usd_price :: "simulated_legs \<Rightarrow> string \<Rightarrow> dec option" where
  "sim_get_usd_price S asset =
     (case sl_price_source S of
        None \<Rightarrow> None
      | Some source \<Rightarrow> (case source (asset @ ''/USDC'') of Some p \<Rightarrow> Some p | None \<Rightarrow> source (asset @ ''/USDT'')))"

section \<open>Live legs\<close>

record live_legs =
  ll_exchange :: exchange_client
  ll_dex :: "dex_backend option"
  ll_book :: "pair_address_book option"
  ll_dex_config :: dex_swapper_config
  ll_recipient :: "address option"
  ll_lib :: exchange_lib

definition live_legs_new :: "exchange_client \<Rightarrow> exchange_lib \<Rightarrow> live_legs" where
  "live_legs_new exchange L =
     \<lparr>ll_exchange = exchange, ll_dex = None, ll_book = None, ll_dex_config = dex_swapper_config_default,
      ll_recipient = None, ll_lib = L\<rparr>"

definition with_dex :: "live_legs \<Rightarrow> dex_backend \<Rightarrow> pair_address_book \<Rightarrow> dex_swapper_config \<Rightarrow> address \<Rightarrow> live_legs" where
  "with_dex B dex book config recipient =
     B\<lparr>ll_dex := Some dex, ll_book := Some book, ll_dex_config := config, ll_recipient := Some recipient\<rparr>"

abbreviation ll_dec :: "live_legs \<Rightarrow> dec_ops" where "ll_dec B \<equiv> xl_dec (ll_lib B)"

text \<open>\<open>10u64.pow\<close> overflows beyond 19 decimals.\<close>

definition decimal_to_u256_scaled :: "exchange_lib \<Rightarrow> dec \<Rightarrow> nat \<Rightarrow> (string, nat) outcome" where
  "decimal_to_u256_scaled L v decimals =
     (if v < 0 then Err (''negative amount: '' @ xl_show_dec L v)
      else if decimals > 19 then Panic
      else Ok (nat \<lfloor>dmul (xl_dec L) v (10 ^ decimals)\<rfloor>))"

definition scaled :: "exchange_lib \<Rightarrow> dec \<Rightarrow> nat \<Rightarrow> (executor_error, nat) live_call" where
  "scaled L v decimals = map_err InvalidSignal (lift_out (decimal_to_u256_scaled L v decimals))"

definition cex_ioc_cross_price :: "dec_ops \<Rightarrow> string \<Rightarrow> dec \<Rightarrow> dec" where
  "cex_ioc_cross_price D side reference_price =
     (if side = ''sell'' then dmul D reference_price (999 / 1000) else dmul D reference_price (1001 / 1000))"

definition to_f64 :: "exchange_lib \<Rightarrow> string \<Rightarrow> dec \<Rightarrow> (executor_error, rat) live_call" where
  "to_f64 L what d =
     (case f64_of_dec (xl_f64 L) d of
        Some x \<Rightarrow> ret x
      | None \<Rightarrow> throw (InvalidSignal (what @ '' '' @ xl_show_dec L d @ '' cannot be represented as f64'')))"

definition is_fill_status :: "string \<Rightarrow> bool" where
  "is_fill_status status \<longleftrightarrow> to_uppercase status \<in> {''FILLED'', ''PARTIALLY_FILLED''}"

definition cex_side :: "direction \<Rightarrow> string" where
  "cex_side d = (case d of BuyCexSellDex \<Rightarrow> ''buy'' | BuyDexSellCex \<Rightarrow> ''sell'')"

definition cex_fill :: "order_result \<Rightarrow> leg_fill" where
  "cex_fill ord =
     (let oc = (if is_fill_status (or_status ord) then Accepted else LegRejected)
      in with_fee (or_fee ord) (or_fee_asset ord)
           (leg_fill_new oc (or_avg_fill_price ord) (or_amount_filled ord) (Some (or_id ord))
              (if oc = Accepted then None else Some (or_status ord))))"

definition live_execute_cex :: "live_legs \<Rightarrow> signal \<Rightarrow> dec \<Rightarrow> (executor_error, leg_fill) live_call" where
  "live_execute_cex B s sz =
     (let side = cex_side (sig_direction s); price = cex_ioc_cross_price (ll_dec B) side (cex_price s)
      in seq (to_f64 (ll_lib B) ''size'' sz) (\<lambda>amount_f.
         seq (to_f64 (ll_lib B) ''price'' price) (\<lambda>price_f.
         seq (on_exchange (limit_ioc_order (ll_exchange B) (sig_pair s) side amount_f price_f)) (\<lambda>ord.
           ret (cex_fill ord)))))"

section \<open>The DEX leg\<close>

definition leg_tokens :: "pair_tokens \<Rightarrow> direction \<Rightarrow> address \<times> address \<times> nat \<times> nat" where
  "leg_tokens t d =
     (case d of
        BuyCexSellDex \<Rightarrow> (pt_base t, pt_quote t, pt_base_decimals t, pt_quote_decimals t)
      | BuyDexSellCex \<Rightarrow> (pt_quote t, pt_base t, pt_quote_decimals t, pt_base_decimals t))"

definition amount_in_units :: "dec_ops \<Rightarrow> signal \<Rightarrow> dec \<Rightarrow> dec" where
  "amount_in_units D s sz = (case sig_direction s of BuyCexSellDex \<Rightarrow> sz | BuyDexSellCex \<Rightarrow> dmul D sz (dex_price s))"

definition expected_out_units :: "dec_ops \<Rightarrow> signal \<Rightarrow> dec \<Rightarrow> dec" where
  "expected_out_units D s sz = (case sig_direction s of BuyCexSellDex \<Rightarrow> dmul D sz (dex_price s) | BuyDexSellCex \<Rightarrow> sz)"

definition rejected_fill :: "string \<Rightarrow> leg_fill" where
  "rejected_fill e = leg_fill_new LegRejected 0 0 None (Some e)"

text \<open>Both for a failed submission and for a failed wait.\<close>

definition failed_fill :: "swapper_error \<Rightarrow> leg_fill" where
  "failed_fill e =
     (case e of
        SwReverted tx \<Rightarrow> leg_fill_new LegReverted 0 0 (Some tx) (Some ''on-chain revert'')
      | _ \<Rightarrow> rejected_fill (swapper_error_str e))"

definition dex_fill :: "live_legs \<Rightarrow> signal \<Rightarrow> dec \<Rightarrow> nat \<Rightarrow> swap_result \<Rightarrow> (executor_error, leg_fill) live_call" where
  "dex_fill B s sz decimals_out result =
     (let D = ll_dec B
      in seq (map_err (\<lambda>_. Exchange (DecimalParse ''failed to convert U256 to Decimal (value too large?)''))
                (lift_out (u256_to_decimal_scaled D (sr_amount_out result) decimals_out))) (\<lambda>filled.
           let price = (case sig_direction s of
                 BuyCexSellDex \<Rightarrow> if sz > 0 then ddiv D filled sz else dex_price s
               | BuyDexSellCex \<Rightarrow> if filled > 0 then ddiv D (amount_in_units D s sz) filled else dex_price s);
               filled_base = (case sig_direction s of BuyCexSellDex \<Rightarrow> sz | BuyDexSellCex \<Rightarrow> filled)
           in ret (with_onchain_gas (sr_total_gas_used result) (sr_total_gas_fee_wei result)
                     (leg_fill_new Accepted price filled_base (Some (sr_tx_hash result)) None))))"

text \<open>\<open>OnceCell::set\<close> keeps the first value.\<close>

definition set_sink :: "string \<Rightarrow> live_world \<Rightarrow> live_world" where
  "set_sink h w = (case lw_sink w of None \<Rightarrow> w\<lparr>lw_sink := Some h\<rparr> | Some _ \<Rightarrow> w)"

definition note_pending :: "bool \<Rightarrow> swap_submission \<Rightarrow> live_world \<Rightarrow> live_world" where
  "note_pending sink sub w =
     (let w1 = w\<lparr>lw_pending := (lw_pending w)(ss_tx_hash sub \<mapsto> sub)\<rparr>
      in if sink then set_sink (ss_tx_hash sub) w1 else w1)"

definition forget_pending :: "swap_submission \<Rightarrow> live_world \<Rightarrow> live_world" where
  "forget_pending sub w = w\<lparr>lw_pending := (lw_pending w)(ss_tx_hash sub := None)\<rparr>"

definition submit_and_wait ::
  "live_legs \<Rightarrow> dex_backend \<Rightarrow> pair_tokens \<Rightarrow> address \<Rightarrow> nat \<Rightarrow> nat \<Rightarrow> bool \<Rightarrow> signal \<Rightarrow> dec \<Rightarrow> (executor_error, leg_fill) live_call" where
  "submit_and_wait B dex tokens recipient amount_in min_out sink s sz =
     (let (token_in, token_out, _, decimals_out) = leg_tokens tokens (sig_direction s)
      in attempt (on_chain (db_submit_for_pair dex tokens token_in token_out amount_in min_out recipient))
           (\<lambda>sub. seq (update (note_pending sink sub)) (\<lambda>_.
              attempt (on_chain (db_wait dex sub))
                (\<lambda>result. seq (update (forget_pending sub)) (\<lambda>_. dex_fill B s sz decimals_out result))
                (\<lambda>e. seq (update (forget_pending sub)) (\<lambda>_. ret (failed_fill e)))))
           (\<lambda>e. ret (failed_fill e)))"

definition quoted_swap ::
  "live_legs \<Rightarrow> dex_backend \<Rightarrow> pair_tokens \<Rightarrow> address \<Rightarrow> bool \<Rightarrow> signal \<Rightarrow> dec \<Rightarrow> (executor_error, leg_fill) live_call" where
  "quoted_swap B dex tokens recipient sink s sz =
     (let (token_in, token_out, decimals_in, decimals_out) = leg_tokens tokens (sig_direction s); D = ll_dec B
      in seq (scaled (ll_lib B) (amount_in_units D s sz) decimals_in) (\<lambda>amount_in.
         seq (scaled (ll_lib B) (expected_out_units D s sz) decimals_out) (\<lambda>expected_out.
           let min_out = apply_slippage expected_out (dc_slippage_bps (ll_dex_config B))
           in attempt (on_chain (db_quote dex tokens token_in token_out amount_in))
                (\<lambda>quote. if (case quote of Some fresh_out \<Rightarrow> fresh_out < min_out | None \<Rightarrow> False)
                   then ret (rejected_fill (''DEX preflight quote below min_out: fresh_out='' @ show_nat (the quote)
                          @ '', min_out='' @ show_nat min_out))
                   else submit_and_wait B dex tokens recipient amount_in min_out sink s sz)
                (\<lambda>e. ret (rejected_fill (''DEX preflight quote failed: '' @ swapper_error_str e))))))"

definition execute_dex_inner :: "live_legs \<Rightarrow> bool \<Rightarrow> signal \<Rightarrow> dec \<Rightarrow> (executor_error, leg_fill) live_call" where
  "execute_dex_inner B sink s sz =
     (case ll_dex B of
        None \<Rightarrow> throw (NotImplemented ''LiveLegs: DEX swapper not configured (call LiveLegs::with_dex)'')
      | Some dex \<Rightarrow>
          (case ll_book B of
             None \<Rightarrow> throw (NotImplemented ''LiveLegs: address book not configured'')
           | Some book \<Rightarrow>
               (case ll_recipient B of
                  None \<Rightarrow> throw (NotImplemented ''LiveLegs: recipient address not configured'')
                | Some recipient \<Rightarrow>
                    (case address_book_get (sig_pair s) book of
                       None \<Rightarrow> throw (InvalidSignal (''no address-book entry for pair '' @ sig_pair s))
                     | Some tokens \<Rightarrow> quoted_swap B dex tokens recipient sink s sz))))"

definition live_execute_dex :: "live_legs \<Rightarrow> signal \<Rightarrow> dec \<Rightarrow> (executor_error, leg_fill) live_call" where
  "live_execute_dex B = execute_dex_inner B False"

definition live_execute_dex_tracked :: "live_legs \<Rightarrow> signal \<Rightarrow> dec \<Rightarrow> (executor_error, leg_fill) live_call" where
  "live_execute_dex_tracked B = execute_dex_inner B True"

definition live_cancel_dex :: "live_legs \<Rightarrow> string \<Rightarrow> (executor_error, pending_swap_cancel_outcome) live_call" where
  "live_cancel_dex B handle =
     (case ll_dex B of
        None \<Rightarrow> ret (SwapUnknown ''LiveLegs: DEX swapper not configured'')
      | Some dex \<Rightarrow> (\<lambda>w.
          (case lw_pending w handle of
             None \<Rightarrow> ret (SwapUnknown ''no pending DEX submission metadata for handle'')
           | Some sub \<Rightarrow>
               seq (update (\<lambda>w. w\<lparr>lw_pending := (lw_pending w)(handle := None)\<rparr>)) (\<lambda>_.
                 map_err (\<lambda>e. InvalidSignal (swapper_error_str e)) (on_chain (db_cancel dex sub)))) w))"

section \<open>Unwinding\<close>

definition reverse_direction :: "direction \<Rightarrow> direction" where
  "reverse_direction d = (case d of BuyCexSellDex \<Rightarrow> BuyDexSellCex | BuyDexSellCex \<Rightarrow> BuyCexSellDex)"

definition meets_unwind_fill :: "live_legs \<Rightarrow> dec \<Rightarrow> dec \<Rightarrow> bool" where
  "meets_unwind_fill B filled requested \<longleftrightarrow>
     \<not> requested \<le> 0
     \<and> filled \<ge> ddiv (ll_dec B) (dmul (ll_dec B) requested (of_nat (BPS_FULL - dc_slippage_bps (ll_dex_config B)))) (of_nat BPS_FULL)"

definition outcome_debug :: "leg_outcome \<Rightarrow> string" where
  "outcome_debug oc = (case oc of Accepted \<Rightarrow> ''Accepted'' | LegRejected \<Rightarrow> ''Rejected'' | LegReverted \<Rightarrow> ''Reverted'')"

definition unwind_dex :: "live_legs \<Rightarrow> execution_context \<Rightarrow> (executor_error, unit) live_call" where
  "unwind_dex B c =
     (case leg1_fill_size c of
        None \<Rightarrow> ret ()
      | Some filled \<Rightarrow>
          (if filled \<le> 0 then ret ()
           else let reverse_signal = (ctx_signal c)\<lparr>sig_direction := reverse_direction (sig_direction (ctx_signal c))\<rparr>;
                    shw = xl_show_dec (ll_lib B)
                in seq (execute_dex_inner B False reverse_signal filled) (\<lambda>f.
                     if lf_outcome f = Accepted \<and> meets_unwind_fill B (lf_filled f) filled then ret ()
                     else throw (InvalidSignal (''DEX unwind did not fully fill: outcome='' @ outcome_debug (lf_outcome f)
                       @ '', filled='' @ shw (lf_filled f) @ '', requested='' @ shw filled @ '', error='' @ err_or_default f)))))"

definition validate_cex_unwind_fill ::
  "exchange_lib \<Rightarrow> string \<Rightarrow> dec \<Rightarrow> dec \<Rightarrow> string \<Rightarrow> dec \<Rightarrow> (executor_error, unit) outcome" where
  "validate_cex_unwind_fill L status amount_filled requested order_id min_ratio =
     (let required = dmul (xl_dec L) requested min_ratio; shw = xl_show_dec L
      in if is_fill_status status \<and> amount_filled \<ge> required then Ok ()
         else Err (InvalidSignal (''CEX unwind did not close exposure: status='' @ status @ '', filled='' @ shw amount_filled
                @ '', required='' @ shw required @ '', requested='' @ shw requested @ '', order_id='' @ order_id)))"

definition unwind_side :: "direction \<Rightarrow> string" where
  "unwind_side d = (case d of BuyCexSellDex \<Rightarrow> ''sell'' | BuyDexSellCex \<Rightarrow> ''buy'')"

definition unwind_cex :: "live_legs \<Rightarrow> execution_context \<Rightarrow> dec \<Rightarrow> (executor_error, unit) live_call" where
  "unwind_cex B c filled =
     (let side = unwind_side (sig_direction (ctx_signal c));
          price = dmul (ll_dec B) (cex_price (ctx_signal c)) (if side = ''sell'' then 999 / 1000 else 1001 / 1000)
      in seq (to_f64 (ll_lib B) ''unwind size'' filled) (\<lambda>amount_f.
         seq (to_f64 (ll_lib B) ''unwind price'' price) (\<lambda>price_f.
         seq (on_exchange (limit_ioc_order (ll_exchange B) (sig_pair (ctx_signal c)) side amount_f price_f)) (\<lambda>ord.
           lift_out (validate_cex_unwind_fill (ll_lib B) (or_status ord) (or_amount_filled ord) filled (or_id ord) (999 / 1000))))))"

definition live_unwind :: "live_legs \<Rightarrow> execution_context \<Rightarrow> (executor_error, unit) live_call" where
  "live_unwind B c =
     (if leg1_venue c = ''dex'' then unwind_dex B c
      else if leg1_venue c \<noteq> ''cex'' then throw (InvalidSignal (''cannot unwind unknown leg1 venue: '' @ leg1_venue c))
      else case leg1_fill_size c of
             None \<Rightarrow> throw (InvalidSignal ''cannot unwind CEX exposure without leg1 fill size'')
           | Some filled \<Rightarrow> if filled \<le> 0 then ret () else unwind_cex B c filled)"

text \<open>The default method: an unwind from a persisted position, with prices of zero.\<close>

definition position_context :: "dec_ops \<Rightarrow> string \<Rightarrow> date_time \<Rightarrow> instant \<Rightarrow> string \<Rightarrow> direction \<Rightarrow> string \<Rightarrow> dec \<Rightarrow> execution_context" where
  "position_context D rnd now started pair d venue sz =
     (execution_context_new started (signal_new D rnd now
        \<lparr>sp_pair = pair, sp_direction = d, sp_cex_price = 0, sp_dex_price = 0, sp_spread_bps = 0, sp_size = sz, sp_notional_usd = 0,
         sp_expected_gross_pnl = 0, sp_expected_fees = 0, sp_expected_net_pnl = 0, sp_ttl = 0, sp_inventory_ok = True,
         sp_within_limits = True\<rparr>))\<lparr>leg1_venue := venue, leg1_fill_size := Some sz\<rparr>"

definition live_unwind_position ::
  "live_legs \<Rightarrow> string \<Rightarrow> date_time \<Rightarrow> instant \<Rightarrow> string \<Rightarrow> string \<Rightarrow> direction \<Rightarrow> dec \<Rightarrow> (executor_error, unit) live_call" where
  "live_unwind_position B rnd now started pair venue d sz =
     (if venue = ''cex'' \<or> venue = ''dex'' then live_unwind B (position_context (ll_dec B) rnd now started pair d venue sz)
      else throw (InvalidSignal (''cannot unwind unknown leg1 venue: '' @ venue)))"

section \<open>Prices\<close>

definition live_get_usd_price :: "live_legs \<Rightarrow> string \<Rightarrow> (executor_error, dec option) live_call" where
  "live_get_usd_price B asset0 =
     (let asset = to_uppercase asset0
      in if asset \<in> {''USDT'', ''USDC'', ''DAI'', ''USD''} then ret (Some 1)
         else attempt (on_exchange (fetch_price (ll_exchange B) (asset @ ''USDT''))) (\<lambda>p. ret (Some p)) (\<lambda>_.
              attempt (on_exchange (fetch_price (ll_exchange B) (asset @ ''USDC''))) (\<lambda>p. ret (Some p)) (\<lambda>_. ret None)))"

end
