(* ===== verification/Leg_Safety.thy ===== *)
theory Leg_Safety
  imports Leg_Backends Engine_Safety
begin

text \<open>
  What the live legs promise the executor: the DEX leg reports only paid swaps (through the contract
  \<open>swap_contract\<close> of the backend), an unwind that succeeds closed the position; and where the promise is
  missed: an order that expired with a partial fill, and the unwind of a persisted position.
\<close>

section \<open>What a live DEX leg reports\<close>

lemma on_chain_Ok: "on_chain m w = Some (w', r) \<longleftrightarrow> (\<exists>c. m (lw_chain w) = Some (c, r) \<and> w' = w\<lparr>lw_chain := c\<rparr>)"
  by (auto simp: on_chain_def split: option.splits)

text \<open>A leg that filled: the fill describes a swap that was submitted for the leg's amounts and paid.\<close>

definition fill_of_swap :: "live_legs \<Rightarrow> signal \<Rightarrow> dec \<Rightarrow> nat \<Rightarrow> swap_result \<Rightarrow> leg_fill \<Rightarrow> bool" where
  "fill_of_swap B s sz decimals_out res f \<longleftrightarrow>
     lf_outcome f = Accepted \<and> lf_handle f = Some (sr_tx_hash res)
     \<and> lf_onchain_gas_used f = Some (sr_total_gas_used res) \<and> lf_onchain_gas_fee_wei f = Some (sr_total_gas_fee_wei res)
     \<and> (\<exists>out. u256_to_decimal_scaled (ll_dec B) (sr_amount_out res) decimals_out = Ok out
          \<and> lf_filled f = (case sig_direction s of BuyCexSellDex \<Rightarrow> sz | BuyDexSellCex \<Rightarrow> out))"

lemma dex_fill_Ok:
  "dex_fill B s sz decimals_out res w = Some (w', Ok f) \<Longrightarrow> w' = w \<and> fill_of_swap B s sz decimals_out res f"
  by (auto simp: dex_fill_def fill_of_swap_def call_defs Let_def leg_fill_new_def with_onchain_gas_def
      split: outcome.splits direction.splits if_splits)

lemma failed_fill_empty: "lf_outcome (failed_fill e) \<noteq> Accepted \<and> lf_filled (failed_fill e) = 0"
  by (auto simp: failed_fill_def rejected_fill_def leg_fill_new_def split: swapper_error.split)

lemma rejected_fill_empty: "lf_outcome (rejected_fill e) = LegRejected \<and> lf_filled (rejected_fill e) = 0"
  by (simp add: rejected_fill_def leg_fill_new_def)

context swap_contract
begin

lemma submit_and_wait_paid:
  assumes "submit_and_wait LL B tokens recipient amount_in min_out sink s sz w = Some (w', Ok f)"
    and "leg_tokens tokens (sig_direction s) = (token_in, token_out, d_in, d_out)"
  shows "(\<exists>sub res. records token_out amount_in min_out recipient sub \<and> paid C A sub res \<and> fill_of_swap LL s sz d_out res f)
    \<or> lf_outcome f \<noteq> Accepted \<and> lf_filled f = 0"
proof -
  let ?submit = "on_chain (db_submit_for_pair B tokens token_in token_out amount_in min_out recipient)"
  from assms obtain w1 r1 where r1: "?submit w = Some (w1, r1)"
    by (auto simp: submit_and_wait_def attempt_def split: option.splits)
  show ?thesis
  proof (cases r1)
    case (Ok sub)
    let ?w1 = "note_pending sink sub w1"
    from assms r1 Ok obtain w2 r2 where r2: "on_chain (db_wait B sub) ?w1 = Some (w2, r2)"
      by (auto simp: submit_and_wait_def call_defs split: option.splits)
    show ?thesis
    proof (cases r2)
      case (Ok res)
      with assms r1 r2 \<open>r1 = Ok sub\<close> have "dex_fill LL s sz d_out res (forget_pending sub w2) = Some (w', Ok f)"
        by (simp add: submit_and_wait_def call_defs)
      from dex_fill_Ok [OF this] have "fill_of_swap LL s sz d_out res f" by simp
      moreover have "records token_out amount_in min_out recipient sub"
        using r1 \<open>r1 = Ok sub\<close> by (auto simp: on_chain_Ok intro: submit_pair_records)
      moreover have "paid C A sub res" using r2 Ok by (auto simp: on_chain_Ok intro: wait_paid)
      ultimately show ?thesis by blast
    qed (use assms r1 r2 \<open>r1 = Ok sub\<close> failed_fill_empty in \<open>auto simp: submit_and_wait_def call_defs\<close>)
  qed (use assms r1 failed_fill_empty in \<open>auto simp: submit_and_wait_def call_defs\<close>)
qed

end

text \<open>The whole leg: the amounts come from the signal, the minimum output from the configured slippage.\<close>

definition dex_leg_of :: "live_legs \<Rightarrow> signal \<Rightarrow> dec \<Rightarrow> chain_client \<Rightarrow> ethers_abi \<Rightarrow> leg_fill \<Rightarrow> bool" where
  "dex_leg_of B s sz C A f \<longleftrightarrow>
     (\<exists>book tokens recipient token_in token_out d_in d_out amount_in expected_out sub res.
        ll_book B = Some book \<and> address_book_get (sig_pair s) book = Some tokens \<and> ll_recipient B = Some recipient
        \<and> leg_tokens tokens (sig_direction s) = (token_in, token_out, d_in, d_out)
        \<and> decimal_to_u256_scaled (ll_lib B) (amount_in_units (ll_dec B) s sz) d_in = Ok amount_in
        \<and> decimal_to_u256_scaled (ll_lib B) (expected_out_units (ll_dec B) s sz) d_out = Ok expected_out
        \<and> records token_out amount_in (apply_slippage expected_out (dc_slippage_bps (ll_dex_config B))) recipient sub
        \<and> paid C A sub res \<and> fill_of_swap B s sz d_out res f)"

lemma scaled_Ok: "scaled L v d w = Some (w', Ok n) \<longleftrightarrow> w' = w \<and> decimal_to_u256_scaled L v d = Ok n"
  by (auto simp: scaled_def call_defs split: outcome.splits)

lemma ret_Ok: "ret a w = Some (w', Ok b) \<longleftrightarrow> w' = w \<and> b = a"
  by (auto simp: ret_def)

context swap_contract
begin

lemma quoted_swap_paid:
  assumes "quoted_swap LL B tokens recipient sink s sz w = Some (w', Ok f)"
    and book: "ll_book LL = Some book" "address_book_get (sig_pair s) book = Some tokens" "ll_recipient LL = Some recipient"
  shows "dex_leg_of LL s sz C A f \<or> lf_outcome f \<noteq> Accepted \<and> lf_filled f = 0"
proof -
  obtain token_in token_out d_in d_out where t: "leg_tokens tokens (sig_direction s) = (token_in, token_out, d_in, d_out)"
    by (metis surj_pair)
  from assms(1) t obtain amount_in expected_out where
      amounts: "decimal_to_u256_scaled (ll_lib LL) (amount_in_units (ll_dec LL) s sz) d_in = Ok amount_in"
        "decimal_to_u256_scaled (ll_lib LL) (expected_out_units (ll_dec LL) s sz) d_out = Ok expected_out"
    and run: "attempt (on_chain (db_quote B tokens token_in token_out amount_in))
        (\<lambda>quote. if (case quote of Some fresh_out \<Rightarrow> fresh_out < apply_slippage expected_out (dc_slippage_bps (ll_dex_config LL)) | None \<Rightarrow> False)
           then ret (rejected_fill (''DEX preflight quote below min_out: fresh_out='' @ show_nat (the quote)
                  @ '', min_out='' @ show_nat (apply_slippage expected_out (dc_slippage_bps (ll_dex_config LL)))))
           else submit_and_wait LL B tokens recipient amount_in (apply_slippage expected_out (dc_slippage_bps (ll_dex_config LL))) sink s sz)
        (\<lambda>e. ret (rejected_fill (''DEX preflight quote failed: '' @ swapper_error_str e))) w = Some (w', Ok f)"
    by (auto simp: quoted_swap_def Let_def seq_Ok_iff scaled_Ok)
  from run have "(\<exists>w1. submit_and_wait LL B tokens recipient amount_in (apply_slippage expected_out (dc_slippage_bps (ll_dex_config LL)))
        sink s sz w1 = Some (w', Ok f)) \<or> (\<exists>e. f = rejected_fill e)"
    by (auto simp: attempt_def ret_Ok split: option.splits outcome.splits if_splits)
  with submit_and_wait_paid [OF _ t] rejected_fill_empty amounts t book show ?thesis
    unfolding dex_leg_of_def by (metis leg_outcome.distinct(1))
qed

lemma execute_dex_paid:
  assumes "execute_dex_inner LL sink s sz w = Some (w', Ok f)" "ll_dex LL = Some B"
  shows "dex_leg_of LL s sz C A f \<or> lf_outcome f \<noteq> Accepted \<and> lf_filled f = 0"
  using assms by (auto simp: execute_dex_inner_def throw_def split: option.splits dest: quoted_swap_paid)

end


section \<open>A live leg that trades\<close>

text \<open>Exact arithmetic, a pool quoting above the minimum, a node that mines the swap.\<close>

definition sample_live_legs :: live_legs where
  "sample_live_legs =
     with_dex (live_legs_new (Binance (binance_client_new sample_binance_config lost_env sample_lib)) sample_lib)
       (build_swapper True False sample_swapper dex_swapper_config_default None)
       (address_book_insert ''ETH/USDT'' sample_pool_tokens address_book_new) dex_swapper_config_default (replicate 20 3)"

definition sample_leg_signal :: signal where
  "sample_leg_signal = sample_signal\<lparr>dex_price := 10 ^ 12\<rparr>"

definition sample_live_world :: live_world where
  "sample_live_world =
     \<lparr>lw_chain = sample_world, lw_exchange = sample_binance_world, lw_pending = Map.empty, lw_sink = None\<rparr>"

lemma sample_decoded: "ab_decode (sp_abi sample_swapper) ts bs = Some [VArray [VUint 10000]]"
  by (simp add: sample_swapper_def)

lemma sample_lib_dec: "xl_dec sample_lib = exact_ops"
  by (simp add: sample_lib_def)

lemma sample_quote:
  "\<exists>h. v2_quote sample_swapper a b n sample_world = Some (\<lparr>w_log = h, w_nonces = nonce_manager_new\<rparr>, Ok (Some 10000))"
  by (simp add: v2_quote_def call_contract_def get_block_number_def call_defs sample_with_provider sample_answers
      emit_def Let_def sample_returned decode_get_amounts_out_return_def sample_decoded nth_value_def sample_world_def)

lemma sample_leg_run:
  "\<exists>w' f. execute_dex_inner sample_live_legs sink sample_leg_signal (1 / 10 ^ 15) sample_live_world = Some (w', Ok f)
     \<and> lf_outcome f = Accepted \<and> lf_filled f = 1 / 10 ^ 15"
proof -
  let ?B = "build_swapper True False sample_swapper dex_swapper_config_default None"
  have amounts: "decimal_to_u256_scaled sample_lib (1 / 10 ^ 15) 18 = Ok 1000" "decimal_to_u256_scaled sample_lib (1 / 1000) 6 = Ok 1000"
    by (simp_all add: decimal_to_u256_scaled_def sample_lib_def)
  have out: "0 < apply_slippage 1000 (dc_slippage_bps dex_swapper_config_default)"
    "\<not> 10000 < apply_slippage 1000 (dc_slippage_bps dex_swapper_config_default)"
    by (simp_all add: apply_slippage_def dex_swapper_config_default_def BPS_FULL_def)
  have backend: "db_quote ?B = (\<lambda>_. v2_quote sample_swapper)" "db_submit_for_pair ?B = (\<lambda>_. v2_submit_swap sample_swapper)"
    "db_wait ?B = wait_swap sample_swapper ''swap''"
    by (simp_all add: build_swapper_def build_v2_swapper_def v2_backend_def)
  from sample_quote obtain h where q: "v2_quote sample_swapper (replicate 20 1) (replicate 20 2) 1000 sample_world
      = Some (\<lparr>w_log = h, w_nonces = nonce_manager_new\<rparr>, Ok (Some 10000))" by blast
  from sample_submit_run [OF out(1), of h] obtain c sub where sub: "v2_submit_swap sample_swapper (replicate 20 1) (replicate 20 2) 1000
      (apply_slippage 1000 (dc_slippage_bps dex_swapper_config_default)) (replicate 20 3) \<lparr>w_log = h, w_nonces = nonce_manager_new\<rparr>
      = Some (c, Ok sub)" "ss_token_out sub = replicate 20 2" "ss_recipient sub = replicate 20 3"
      "ss_pre_swap_fees sub = onchain_fee_summary_default" by blast
  from sample_wait [OF sub(2-4)] obtain c' res where "wait_swap sample_swapper ''swap'' sub c = Some (c', Ok res)" "sr_amount_out res = 1"
    by blast
  with amounts out backend q sub(1) show ?thesis
    by (simp add: execute_dex_inner_def quoted_swap_def sample_live_legs_def with_dex_def live_legs_new_def address_book_get_def
        address_book_insert_def sample_leg_signal_def sample_signal_def leg_tokens_def sample_pool_tokens_def scaled_def call_defs
        amount_in_units_def expected_out_units_def
        sample_lib_dec on_chain_def submit_and_wait_def note_pending_def set_sink_def forget_pending_def sample_live_world_def
        dex_fill_def u256_to_decimal_scaled_def leg_fill_new_def with_onchain_gas_def Let_def)
qed


section \<open>Unwinding\<close>

text \<open>The order that closes a CEX position, and the reverse swap that closes a DEX position.\<close>

definition cex_closed :: "live_legs \<Rightarrow> execution_context \<Rightarrow> dec \<Rightarrow> live_world \<Rightarrow> live_world \<Rightarrow> bool" where
  "cex_closed B c filled w w' \<longleftrightarrow>
     (\<exists>amount price ord x. f64_of_dec (xl_f64 (ll_lib B)) filled = Some amount
        \<and> limit_ioc_order (ll_exchange B) (sig_pair (ctx_signal c)) (unwind_side (sig_direction (ctx_signal c))) amount price
             (lw_exchange w) = Some (x, Ok ord)
        \<and> w' = w\<lparr>lw_exchange := x\<rparr>
        \<and> is_fill_status (or_status ord) \<and> dmul (ll_dec B) filled (999 / 1000) \<le> or_amount_filled ord)"

definition dex_closed :: "live_legs \<Rightarrow> execution_context \<Rightarrow> dec \<Rightarrow> chain_client \<Rightarrow> ethers_abi \<Rightarrow> bool" where
  "dex_closed B c filled C A \<longleftrightarrow>
     (\<exists>f. dex_leg_of B ((ctx_signal c)\<lparr>sig_direction := reverse_direction (sig_direction (ctx_signal c))\<rparr>) filled C A f
        \<and> meets_unwind_fill B (lf_filled f) filled)"

lemma on_exchange_Ok:
  "on_exchange m w = Some (w', Ok a) \<longleftrightarrow> (\<exists>x. m (lw_exchange w) = Some (x, Ok a) \<and> w' = w\<lparr>lw_exchange := x\<rparr>)"
  by (auto simp: on_exchange_def map_err_Ok_iff split: option.splits)

lemma to_f64_Ok: "to_f64 L what d w = Some (w', Ok x) \<longleftrightarrow> w' = w \<and> f64_of_dec (xl_f64 L) d = Some x"
  by (auto simp: to_f64_def call_defs split: option.splits)

lemma unwind_cex_closes: "unwind_cex B c filled w = Some (w', Ok ()) \<Longrightarrow> cex_closed B c filled w w'"
  unfolding unwind_cex_def cex_closed_def Let_def
  by (auto simp: seq_Ok_iff to_f64_Ok on_exchange_Ok lift_out_def validate_cex_unwind_fill_def Let_def split: if_splits)

context swap_contract
begin

lemma unwind_dex_closes:
  assumes "unwind_dex LL c w = Some (w', Ok ())" "ll_dex LL = Some B" "leg1_fill_size c = Some filled" "0 < filled"
  shows "dex_closed LL c filled C A"
proof -
  let ?s = "(ctx_signal c)\<lparr>sig_direction := reverse_direction (sig_direction (ctx_signal c))\<rparr>"
  from assms(1,3,4) obtain w1 f where f: "execute_dex_inner LL False ?s filled w = Some (w1, Ok f)" "lf_outcome f = Accepted"
    "meets_unwind_fill LL (lf_filled f) filled"
    by (auto simp: unwind_dex_def Let_def seq_Ok_iff throw_def split: if_splits)
  with execute_dex_paid [OF f(1) assms(2)] show ?thesis by (auto simp: dex_closed_def)
qed

end


lemma unwind_dex_run:
  assumes "leg1_venue c = ''dex''" "leg1_fill_size c = Some filled" "0 < filled"
    and "execute_dex_inner B False ((ctx_signal c)\<lparr>sig_direction := reverse_direction (sig_direction (ctx_signal c))\<rparr>) filled w
      = Some (w', Ok f)" "lf_outcome f = Accepted" "meets_unwind_fill B (lf_filled f) filled"
  shows "live_unwind B c w = Some (w', Ok ())"
  using assms by (simp add: live_unwind_def unwind_dex_def Let_def call_defs)

definition sample_position :: execution_context where
  "sample_position = (execution_context_new 0 (sample_leg_signal\<lparr>sig_direction := BuyDexSellCex\<rparr>))
     \<lparr>leg1_venue := ''dex'', leg1_fill_size := Some (1 / 10 ^ 15)\<rparr>"


section \<open>The unwind of a persisted position\<close>

lemma normalize_zero_price:
  assumes "decimal_faithful (xl_dec L)" "dec_of_f64 (xl_f64 L) 0 = Some 0"
  shows "normalize_limit_order L symbol amount 0 f \<noteq> Ok n"
proof -
  note exact = decimal_faithful.div_exact_dec [OF assms(1)] decimal_faithful.mul_exact_dec [OF assms(1)]
  have "opt_step (xl_dec L) step 0 = 0" for step
    by (cases step) (simp_all add: opt_step_def floor_to_step_def trunc_def exact)
  with assms(2) show ?thesis by (auto simp: normalize_limit_order_def Let_def split: option.splits)
qed

primrec client_lib :: "exchange_client \<Rightarrow> exchange_lib" where
  "client_lib (Binance b) = bn_lib b"
| "client_lib (Bybit y) = yb_lib y"

text \<open>An order at price zero is refused by Binance's filters, and Bybit never reports a fill.\<close>

lemma zero_price_never_fills:
  assumes "limit_ioc_order E symbol side amount 0 x = Some (x', Ok ord)"
    and "decimal_faithful (xl_dec (client_lib E))" "dec_of_f64 (xl_f64 (client_lib E)) 0 = Some 0"
  shows "\<not> is_fill_status (or_status ord)"
proof (cases E)
  case (Binance b)
  with assms normalize_zero_price [of "bn_lib b"] show ?thesis
    by (auto simp: binance_create_limit_ioc_order_def seq_Ok_iff lift_out_def)
next
  case (Bybit y)
  with assms(1) have "or_status ord = ''NEW''" by (auto dest: bybit_orders_report_nothing_filled)
  then show ?thesis by (simp add: is_fill_status_def to_uppercase_def)
qed

text \<open>What the conversion at zero relies on: products with zero and the two conversions of zero are exact.\<close>

definition zero_exact :: "exchange_lib \<Rightarrow> bool" where
  "zero_exact L \<longleftrightarrow> decimal_faithful (xl_dec L) \<and> dec_of_f64 (xl_f64 L) 0 = Some 0 \<and> f64_of_dec (xl_f64 L) 0 = Some 0"

text \<open>
  C32: the reconcile worker cannot close a CEX position.  \<open>unwind_position\<close>, the only unwind it calls, makes up a
  signal with price zero, and \<open>LiveLegs::unwind\<close> derives the limit of the closing order from that price: on
  Binance the order is refused before it is sent, on Bybit no order is ever reported filled.  So for every
  position of positive size bought or sold on the exchange the call fails, whatever the market.
\<close>

theorem reconcile_cex_unwind_fails:
  assumes "live_unwind_position B rnd now started pair ''cex'' d sz w = Some (w', r)" "0 < sz"
    and "client_lib (ll_exchange B) = ll_lib B" "zero_exact (ll_lib B)"
  shows "r \<noteq> Ok ()"
proof
  assume "r = Ok ()"
  let ?c = "position_context (ll_dec B) rnd now started pair d ''cex'' sz"
  have ctx: "leg1_venue ?c = ''cex''" "leg1_fill_size ?c = Some sz" "cex_price (ctx_signal ?c) = 0"
    by (simp_all add: position_context_def execution_context_new_def signal_new_def)
  have zero: "dmul (ll_dec B) 0 x = 0" for x
    using assms(4) decimal_faithful.mul_exact_dec [of "ll_dec B" 0 x] by (simp add: zero_exact_def)
  from assms(1,2) \<open>r = Ok ()\<close> ctx have "unwind_cex B ?c sz w = Some (w', Ok ())"
    by (simp add: live_unwind_position_def live_unwind_def)
  with assms(4) obtain amount x ord where "is_fill_status (or_status ord)"
    "limit_ioc_order (ll_exchange B) (sig_pair (ctx_signal ?c)) (unwind_side (sig_direction (ctx_signal ?c))) amount 0
       (lw_exchange w) = Some (x, Ok ord)"
    unfolding unwind_cex_def Let_def ctx(3) zero
    by (auto simp: seq_Ok_iff to_f64_Ok on_exchange_Ok lift_out_def validate_cex_unwind_fill_def Let_def zero_exact_def split: if_splits)
  with zero_price_never_fills [of "ll_exchange B"] assms(3,4) show False by (simp add: zero_exact_def)
qed

theorem reconcile_cex_unwind_fails_witness:
  "\<exists>w' r. live_unwind_position sample_live_legs ''00'' 0 0 ''ETH/USDC'' ''cex'' BuyCexSellDex 2 sample_live_world = Some (w', r) \<and> r \<noteq> Ok ()"
proof -
  have filters: "fetch_symbol_filters b ''ETH/USDC'' sample_binance_world = Some (sample_binance_world, Ok sample_filters)" for b
    by (simp add: fetch_symbol_filters_def sample_binance_world_def call_defs)
  have lib: "client_lib (ll_exchange sample_live_legs) = ll_lib sample_live_legs" "ll_lib sample_live_legs = sample_lib"
    by (simp_all add: sample_live_legs_def with_dex_def live_legs_new_def binance_client_new_def)
  have zero: "zero_exact sample_lib"
    by (simp add: zero_exact_def sample_lib_def exact_ops.decimal_faithful_axioms)
  obtain w' r where run: "live_unwind_position sample_live_legs ''00'' 0 0 ''ETH/USDC'' ''cex'' BuyCexSellDex 2 sample_live_world = Some (w', r)"
    by (simp add: live_unwind_position_def live_unwind_def position_context_def execution_context_new_def signal_new_def unwind_cex_def
        unwind_side_def call_defs to_f64_def lib sample_lib_def on_exchange_def sample_live_world_def filters
        sample_live_legs_def with_dex_def live_legs_new_def binance_create_limit_ioc_order_def normalize_limit_order_def
        binance_client_new_def Let_def sample_filters_def symbol_filters_default_def opt_step_def floor_to_step_def trunc_def)
  with reconcile_cex_unwind_fails [OF run] lib zero show ?thesis by simp
qed

section \<open>An order that expires with a partial fill\<close>

lemma live_cex_leg_fill:
  assumes "live_execute_cex B s sz w = Some (w', Ok f)"
  shows "\<exists>amount price ord. limit_ioc_order (ll_exchange B) (sig_pair s) (cex_side (sig_direction s)) amount price (lw_exchange w)
      = Some (lw_exchange w', Ok ord) \<and> f = cex_fill ord"
  using assms by (fastforce simp: live_execute_cex_def Let_def seq_Ok_iff to_f64_Ok on_exchange_Ok ret_Ok)

text \<open>
  C33: a partial fill of an expired order is left open.  An immediate-or-cancel order that the book fills in
  part ends with status \<open>EXPIRED\<close>; the live CEX leg reports every status but \<open>FILLED\<close> and \<open>PARTIALLY_FILLED\<close> as
  a rejected leg, with the filled amount in it, and the CEX-first executor rejects the signal on the outcome alone:
  the amount stays bought or sold, it is not recorded as the fill of leg 1 and no unwind is attempted.
\<close>

theorem expired_fill_left_open:
  assumes "or_status ord = ''EXPIRED''" "0 < or_amount_filled ord"
    and "\<And>h. execute_cex L h s (sig_size s) = Completed (cex_fill ord)"
    and "execute_cex_first D L cfg fees io rs (execution_context_new started s, []) = ((c, h), rs')"
  shows "0 < lf_filled (cex_fill ord) \<and> ctx_state c = Rejected \<and> leg1_fill_size c = None \<and> unwinds h = [] \<and> rs' = rs"
proof -
  have fill: "lf_outcome (cex_fill ord) = LegRejected" "lf_filled (cex_fill ord) = or_amount_filled ord"
    using assms(1) by (simp_all add: cex_fill_def is_fill_status_def to_uppercase_def leg_fill_new_def with_fee_def Let_def)
  from assms(4) have "ctx_state c = Rejected \<and> leg1_fill_size c = None \<and> unwinds h = [] \<and> rs' = rs"
    by (auto simp: execute_cex_first_def cex_leg1_def cex_leg1_classified_def enter_def close_def reject_def Let_def assms(3)
        fill(1) execution_context_new_def unwinds_def map_filter_def)
  with fill(2) assms(2) show ?thesis by simp
qed

definition expired_order :: order_result where
  "expired_order =
     \<lparr>or_id = ''7'', or_symbol = ''ETHUSDT'', or_side = ''BUY'', or_order_type = ''LIMIT'', or_time_in_force = ''IOC'',
      or_amount_requested = 2, or_amount_filled = 1, or_avg_fill_price = 2, or_fee = 0, or_fee_asset = ''USDT'',
      or_status = ''EXPIRED'', or_timestamp = 0\<rparr>"

theorem expired_fill_left_open_witness:
  "\<exists>c h rs'. execute_cex_first exact_ops ((sample_legs (LegError []))\<lparr>execute_cex := \<lambda>h s z. Completed (cex_fill expired_order)\<rparr>)
       (ex_config (sample_executor False)) (ex_fees (sample_executor False)) sample_io None (execution_context_new 0 sample_signal, [])
       = ((c, h), rs')
     \<and> or_amount_filled expired_order = 1 \<and> ctx_state c = Rejected \<and> unwinds h = []"
proof -
  let ?L = "(sample_legs (LegError []))\<lparr>execute_cex := \<lambda>h s z. Completed (cex_fill expired_order)\<rparr>"
  obtain c h rs' where run: "execute_cex_first exact_ops ?L (ex_config (sample_executor False)) (ex_fees (sample_executor False)) sample_io
      None (execution_context_new 0 sample_signal, []) = ((c, h), rs')"
    by (metis surj_pair)
  from expired_fill_left_open [of expired_order ?L, OF _ _ _ run] run show ?thesis by (simp add: expired_order_def)
qed

end
