(* ===== verification/Gas_Estimate.thy ===== *)
theory Gas_Estimate
  imports Leg_Backends Generator
begin

text \<open>
  \<open>bin/arb_bot.rs\<close>: the gas cost that the trading loop charges a signal with: a fixed amount, an RPC gas
  price times a configured number of units, or an estimate of the very swap (by the node or by a forked
  chain), and the expected-profit preview of the dry run.  The fork simulator is a parameter.
\<close>

datatype bot_error = BotText string | BotChain chain_error | BotStrategy strategy_error | BotSwapper swapper_error

section \<open>Estimators\<close>

record fork_result =
  fr_success :: bool
  fr_gas_used :: nat
  fr_error :: "string option"

text \<open>\<open>ForkSimulator::simulate_swap\<close>: router, calldata and sender to the result.\<close>

type_synonym fork_simulator = "chain_history \<Rightarrow> address \<Rightarrow> bytes \<Rightarrow> address \<Rightarrow> string + fork_result"

record gas_setup =
  gs_client :: chain_client
  gs_fallback_gas_units :: nat
  gs_buffer_bps :: nat
  gs_wallet :: address
  gs_address_book :: pair_address_book
  gs_slippage_bps :: nat
  gs_chain_id :: nat
  gs_v2_router :: address
  gs_v3_router :: address
  gs_lib :: exchange_lib
  gs_abi :: ethers_abi
  gs_unix :: "chain_history \<Rightarrow> nat"

datatype gas_fee_estimator =
    FixedGas
  | RpcGas chain_client nat nat
  | EstimateGas gas_setup
  | AnvilGas gas_setup fork_simulator

record bot_gas_estimate =
  gf_mode :: string
  gf_gas_units :: nat
  gf_max_fee_gwei :: dec
  gf_eth_usd :: "dec option"
  gf_gas_usd :: dec

definition WEI_PER_ETH :: dec where "WEI_PER_ETH = 10 ^ 18"

text \<open>\<open>Decimal::from_str_exact\<close> refuses what does not fit into 96 bits.\<close>

definition u256_to_decimal :: "nat \<Rightarrow> (bot_error, dec) outcome" where
  "u256_to_decimal v =
     (if v < 2 ^ 96 then Ok (of_nat v)
      else Err (BotText (''failed to convert U256 '' @ show_nat v @ '' to Decimal'')))"

definition gas_units_to_usd ::
  "dec_ops \<Rightarrow> chain_client \<Rightarrow> nat \<Rightarrow> nat \<Rightarrow> dec \<Rightarrow> string \<Rightarrow> (bot_error, bot_gas_estimate) chain_call" where
  "gas_units_to_usd D C gas_units buffer_bps eth_usd mode =
     seq (map_err BotChain (get_gas_price C)) (\<lambda>gp.
     seq (lift_out (u256_to_decimal (get_max_fee gp MediumPriority buffer_bps))) (\<lambda>max_fee_wei.
       ret \<lparr>gf_mode = mode, gf_gas_units = gas_units, gf_max_fee_gwei = ddiv D max_fee_wei (of_nat WEI_PER_GWEI), gf_eth_usd = Some eth_usd,
            gf_gas_usd = dmul D (ddiv D (dmul D max_fee_wei (of_nat gas_units)) WEI_PER_ETH) eth_usd\<rparr>))"

definition estimate_usd ::
  "dec_ops \<Rightarrow> gas_fee_estimator \<Rightarrow> dec \<Rightarrow> dec option \<Rightarrow> (bot_error, bot_gas_estimate) chain_call" where
  "estimate_usd D est configured_gas_usd eth_usd =
     (let priced = (\<lambda>C units buf mode. case eth_usd of
            None \<Rightarrow> throw (BotText ''--fee-gas-mode rpc/estimate/anvil requires ETH/USDC price'')
          | Some price \<Rightarrow> gas_units_to_usd D C units buf price mode)
      in case est of
           FixedGas \<Rightarrow> ret \<lparr>gf_mode = ''fixed'', gf_gas_units = 0, gf_max_fee_gwei = 0, gf_eth_usd = None, gf_gas_usd = configured_gas_usd\<rparr>
         | RpcGas C units buf \<Rightarrow> priced C units buf ''rpc''
         | EstimateGas g \<Rightarrow> priced (gs_client g) (gs_fallback_gas_units g) (gs_buffer_bps g) ''rpc-fallback''
         | AnvilGas g _ \<Rightarrow> priced (gs_client g) (gs_fallback_gas_units g) (gs_buffer_bps g) ''anvil-fallback'')"

definition decode_u256_return :: "bytes \<Rightarrow> (bot_error, nat) outcome" where
  "decode_u256_return raw =
     (if length raw < 32 then Err (BotText (''expected uint256 return, got '' @ show_nat (length raw) @ '' bytes''))
      else Ok (be_value (drop (length raw - 32) raw)))"

definition erc20_allowance :: "gas_setup \<Rightarrow> address \<Rightarrow> address \<Rightarrow> (bot_error, nat) chain_call" where
  "erc20_allowance g token spender =
     seq (map_err BotChain (call_contract (gs_client g)
            (contract_call token (build_allowance_calldata (gs_abi g) (gs_wallet g) spender) (gs_chain_id g)) LatestBlock)) (\<lambda>raw.
       lift_out (decode_u256_return raw))"

definition bot_scaled :: "gas_setup \<Rightarrow> dec \<Rightarrow> nat \<Rightarrow> (bot_error, nat) chain_call" where
  "bot_scaled g v decimals = map_err BotText (lift_out (decimal_to_u256_scaled (gs_lib g) v decimals))"

text \<open>The calldata of the swap, as the swapper of the pool would build it.\<close>

definition estimate_calldata :: "gas_setup \<Rightarrow> pair_tokens \<Rightarrow> address \<Rightarrow> address \<Rightarrow> nat \<Rightarrow> nat \<Rightarrow> nat \<Rightarrow> (bot_error, bytes) outcome" where
  "estimate_calldata g tokens token_in token_out amount_in min_out deadline =
     (case pt_pool_kind tokens of
        PoolV2 \<Rightarrow> Ok (build_swap_calldata (gs_abi g) amount_in min_out [token_in, token_out] (gs_wallet g) deadline)
      | PoolV3 \<Rightarrow>
          (case v3_swap_calldata_for_pair (gs_abi g) tokens token_in token_out (gs_wallet g) deadline amount_in min_out of
             Inr d \<Rightarrow> Ok d
           | Inl e \<Rightarrow> Err (BotSwapper e)))"

definition gs_router :: "gas_setup \<Rightarrow> pair_tokens \<Rightarrow> address" where
  "gs_router g tokens = (case pt_pool_kind tokens of PoolV2 \<Rightarrow> gs_v2_router g | PoolV3 \<Rightarrow> gs_v3_router g)"

text \<open>Gas of the swap when the allowance is there: units and the mode to report.\<close>

definition simulated_gas :: "fork_result \<Rightarrow> (bot_error, nat \<times> string) outcome" where
  "simulated_gas res =
     (if \<not> fr_success res
      then Err (BotText (''anvil fork swap simulation failed: '' @ (case fr_error res of Some e \<Rightarrow> e | None \<Rightarrow> ''unknown revert'')))
      else if fr_gas_used res = 0 then Err (BotText ''anvil fork gas simulation returned zero gas'')
      else Ok (fr_gas_used res, ''anvil''))"

definition swap_gas_units ::
  "gas_setup \<Rightarrow> fork_simulator option \<Rightarrow> address \<Rightarrow> bytes \<Rightarrow> (bot_error, nat \<times> string) chain_call" where
  "swap_gas_units g simulator router calldata =
     (case simulator of
        Some sim \<Rightarrow> (\<lambda>w. case sim (w_log w) router calldata (gs_wallet g) of
            Inl e \<Rightarrow> Some (w, Err (BotText e))
          | Inr res \<Rightarrow> Some (w, simulated_gas res))
      | None \<Rightarrow>
          attempt (estimate_gas_from (gs_client g) (contract_call router calldata (gs_chain_id g)) (gs_wallet g))
            (\<lambda>gas. ret (gas, ''estimate''))
            (\<lambda>_. ret (gs_fallback_gas_units g, ''estimate-fallback'')))"

definition approval_then_fallback ::
  "gas_setup \<Rightarrow> bool \<Rightarrow> address \<Rightarrow> address \<Rightarrow> (bot_error, nat \<times> nat \<times> string) chain_call" where
  "approval_then_fallback g forked token_in router =
     seq (map_err BotChain (estimate_gas_from (gs_client g)
            (contract_call token_in (build_approve_calldata (gs_abi g) router U256_MAX) (gs_chain_id g)) (gs_wallet g))) (\<lambda>approval_gas.
       ret (approval_gas, gs_fallback_gas_units g, if forked then ''anvil+approve+fallback'' else ''estimate+approve+fallback''))"

definition estimate_swap_gas ::
  "dec_ops \<Rightarrow> gas_setup \<Rightarrow> fork_simulator option \<Rightarrow> (strategy_error, dec) outcome \<Rightarrow> pair_tokens \<Rightarrow> signal
     \<Rightarrow> (bot_error, bot_gas_estimate) chain_call" where
  "estimate_swap_gas D g simulator eth_price tokens s =
     (let (token_in, token_out, decimals_in, decimals_out) = leg_tokens tokens (sig_direction s); router = gs_router g tokens
      in seq (bot_scaled g (amount_in_units D s (sig_size s)) decimals_in) (\<lambda>amount_in.
         seq (bot_scaled g (expected_out_units D s (sig_size s)) decimals_out) (\<lambda>expected_out.
           let min_out = apply_slippage expected_out (gs_slippage_bps g)
           in if min_out = 0 then throw (BotText ''estimate gas min_out is zero'')
              else seq (map_err BotStrategy (lift_out eth_price)) (\<lambda>eth_usd.
                   seq (erc20_allowance g token_in router) (\<lambda>granted.
                   seq (if granted \<ge> amount_in
                        then (\<lambda>w. seq (lift_out (estimate_calldata g tokens token_in token_out amount_in min_out
                                    (min (2 ^ 64 - 1) (gs_unix g (w_log w) + 60)))) (\<lambda>calldata.
                               seq (swap_gas_units g simulator router calldata) (\<lambda>(gas, mode). ret (0, gas, mode))) w)
                        else approval_then_fallback g (simulator \<noteq> None) token_in router) (\<lambda>(approval_gas, swap_gas, mode).
                     gas_units_to_usd D (gs_client g) (min (2 ^ 64 - 1) (approval_gas + swap_gas)) (gs_buffer_bps g) eth_usd mode))))))"

definition estimate_signal_gas ::
  "dec_ops \<Rightarrow> gas_fee_estimator \<Rightarrow> (strategy_error, dec) outcome \<Rightarrow> signal \<Rightarrow> (bot_error, bot_gas_estimate option) chain_call" where
  "estimate_signal_gas D est eth_price s =
     (let run = (\<lambda>g simulator. case address_book_get (sig_pair s) (gs_address_book g) of
            None \<Rightarrow> throw (BotText (''missing address book entry for '' @ sig_pair s))
          | Some tokens \<Rightarrow> seq (estimate_swap_gas D g simulator eth_price tokens s) (\<lambda>e. ret (Some e)))
      in case est of
           EstimateGas g \<Rightarrow> run g None
         | AnvilGas g sim \<Rightarrow> run g (Some sim)
         | _ \<Rightarrow> ret None)"

section \<open>Fees of a tick and of a signal\<close>

definition apply_gas_estimate_to_signal :: "dec_ops \<Rightarrow> fee_structure \<Rightarrow> bot_gas_estimate \<Rightarrow> signal \<Rightarrow> signal" where
  "apply_gas_estimate_to_signal D base_fees gas s =
     (let fees_usd = total_fee_usd (breakdown D (base_fees\<lparr>gas_cost_usd := gf_gas_usd gas\<rparr>) (notional_usd s))
      in s\<lparr>expected_fees := fees_usd, expected_net_pnl := dsub D (expected_gross_pnl s) fees_usd\<rparr>)"

text \<open>A fixed estimator asks for no price.\<close>

definition estimate_tick_fees ::
  "dec_ops \<Rightarrow> fee_structure \<Rightarrow> gas_fee_estimator \<Rightarrow> (strategy_error, dec) outcome
     \<Rightarrow> (bot_error, fee_structure \<times> bot_gas_estimate) chain_call" where
  "estimate_tick_fees D base_fees est eth_price =
     seq (case est of FixedGas \<Rightarrow> ret None | _ \<Rightarrow> seq (map_err BotStrategy (lift_out eth_price)) (\<lambda>p. ret (Some p))) (\<lambda>eth_usd.
     seq (estimate_usd D est (gas_cost_usd base_fees) eth_usd) (\<lambda>gas.
       ret (base_fees\<lparr>gas_cost_usd := gf_gas_usd gas\<rparr>, gas)))"

section \<open>The preview of the dry run\<close>

record expected_pnl_preview =
  ep_direction :: direction
  ep_cex_price :: dec
  ep_dex_price :: dec
  ep_spread_bps :: dec
  ep_quote_usd_price :: dec
  ep_trade_value_usd :: dec
  ep_breakeven_spread_bps :: dec
  ep_missing_profit_usd :: dec
  ep_expected_gross_pnl :: dec
  ep_expected_fees :: dec
  ep_fee_breakdown :: fee_breakdown
  ep_expected_net_pnl :: dec

definition preview_of :: "dec_ops \<Rightarrow> market_state \<Rightarrow> fee_structure \<Rightarrow> dec \<Rightarrow> expected_pnl_preview" where
  "preview_of D m fees min_profit =
     (let buy_cex_better = ms_spread_buy_cex_bps m \<ge> ms_spread_buy_dex_bps m;
          cprice = (if buy_cex_better then ms_cex_ask m else ms_cex_bid m);
          spread = (if buy_cex_better then ms_spread_buy_cex_bps m else ms_spread_buy_dex_bps m);
          trade_value = dmul D (dmul D (ms_size m) cprice) (ms_quote_usd_price m);
          gross = dmul D (ddiv D spread BPS_SCALE) trade_value;
          fb = breakdown D fees trade_value;
          net = dsub D gross (total_fee_usd fb)
      in \<lparr>ep_direction = (if buy_cex_better then BuyCexSellDex else BuyDexSellCex), ep_cex_price = cprice,
          ep_dex_price = (if buy_cex_better then ms_dex_sell m else ms_dex_buy m), ep_spread_bps = spread,
          ep_quote_usd_price = ms_quote_usd_price m, ep_trade_value_usd = trade_value,
          ep_breakeven_spread_bps = (if trade_value \<le> 0 then DECIMAL_MAX
             else dmul D (ddiv D (dadd D (total_fee_usd fb) min_profit) trade_value) BPS_SCALE),
          ep_missing_profit_usd = max (dsub D min_profit net) 0, ep_expected_gross_pnl = gross,
          ep_expected_fees = total_fee_usd fb, ep_fee_breakdown = fb, ep_expected_net_pnl = net\<rparr>)"

definition dry_run_preview_signal :: "dec_ops \<Rightarrow> date_time \<Rightarrow> string \<Rightarrow> market_state \<Rightarrow> expected_pnl_preview \<Rightarrow> signal" where
  "dry_run_preview_signal D now pair m p =
     \<lparr>signal_id = ''dry-run-preview-'' @ pair, sig_pair = pair, sig_direction = ep_direction p, cex_price = ep_cex_price p,
      dex_price = ep_dex_price p, spread_bps = ep_spread_bps p, sig_size = ms_size m,
      notional_quote = dmul D (ms_size m) (ep_cex_price p), notional_usd = ep_trade_value_usd p,
      expected_gross_pnl = ep_expected_gross_pnl p, expected_fees = ep_expected_fees p, expected_net_pnl = ep_expected_net_pnl p,
      score = 0, timestamp = now, expiry = now + 60 * 1000000000, inventory_ok = True, within_limits = True\<rparr>"

section \<open>Lemmas\<close>

lemma apply_gas_simps [simp]:
  "sig_pair (apply_gas_estimate_to_signal D f g s) = sig_pair s" "sig_size (apply_gas_estimate_to_signal D f g s) = sig_size s"
  "notional_usd (apply_gas_estimate_to_signal D f g s) = notional_usd s"
  by (simp_all add: apply_gas_estimate_to_signal_def Let_def)

text \<open>A fixed estimator never fails, and never changes a signal.\<close>

lemma fixed_gas_never_fails:
  "estimate_tick_fees D f FixedGas p w
     = Some (w, Ok (f, \<lparr>gf_mode = ''fixed'', gf_gas_units = 0, gf_max_fee_gwei = 0, gf_eth_usd = None, gf_gas_usd = gas_cost_usd f\<rparr>))"
  "estimate_signal_gas D FixedGas p s w = Some (w, Ok None)"
  by (simp_all add: estimate_tick_fees_def estimate_signal_gas_def estimate_usd_def call_defs Let_def)

end
