(* ===== verification/Alerts.thy ===== *)
theory Alerts
  imports Engine Nonce_Manager
begin

text \<open>
  \<open>observability/alerts.rs\<close> and the halt coordinator of \<open>observability/server.rs\<close>: which alerts an execution
  deserves, how a webhook URL is shown in the log, the kill switch shared by the whole process and its
  HTTP endpoints.  An alert carries the numbers it prints; the delivery of alerts is not modelled, so a
  component that emits alerts appends them to a list.
\<close>

section \<open>Alerts\<close>

datatype alert_reason = ErrorText exec_error | PlainText string

datatype alert_event =
    BotStarted string string
  | BotStopped string
  | KillSwitchTriggered string
  | BreakerOpened nat
  | BreakerClosed
  | RiskPaused string
  | RiskResumed string
  | TradeExecuted string string direction dec dec dec dec dec dec "nat option"
  | RebalanceTriggered nat nat bool string
  | RebalanceStepCompleted string string string
  | RebalanceStepFailed string string string
  | Leg2TimeoutAlert string "string option" string
  | ExecutionFailed string string alert_reason
  | LargeLoss string string dec
  | DailyLossHalt dec dec
  | BalanceMismatch venue string dec dec dec

record alert_rules =
  large_loss_threshold :: dec

definition alert_rules_default :: alert_rules where
  "alert_rules_default = \<lparr>large_loss_threshold = 100\<rparr>"

definition evaluate_execution :: "execution_context \<Rightarrow> alert_rules \<Rightarrow> alert_event list" where
  "evaluate_execution c rules =
     (let sid = signal_id (ctx_signal c); pair = sig_pair (ctx_signal c)
      in case ctx_state c of
           Leg2Timeout \<Rightarrow> [Leg2TimeoutAlert sid (leg2_handle c) pair]
         | Failed \<Rightarrow> [ExecutionFailed sid pair (case ctx_error c of Some e \<Rightarrow> ErrorText e | None \<Rightarrow> PlainText ''unknown'')]
         | Leg2Reverted \<Rightarrow> [ExecutionFailed sid pair (case ctx_error c of Some e \<Rightarrow> ErrorText e | None \<Rightarrow> PlainText ''unknown'')]
         | Done \<Rightarrow>
             (case actual_net_pnl c of
                Some pnl \<Rightarrow> if pnl < 0 \<and> \<bar>pnl\<bar> \<ge> large_loss_threshold rules then [LargeLoss sid pair pnl] else []
              | None \<Rightarrow> [])
         | _ \<Rightarrow> [])"

section \<open>Webhook URLs\<close>

datatype alert_provider = Telegram | Generic

definition alert_provider_parse :: "string \<Rightarrow> alert_provider" where
  "alert_provider_parse s = (if lower s = ''telegram'' then Telegram else Generic)"

text \<open>\<open>split_once\<close> with a string pattern: the first occurrence.\<close>

fun split_once_str :: "string \<Rightarrow> string \<Rightarrow> (string \<times> string) option" where
  "split_once_str p [] = (if p = [] then Some ([], []) else None)"
| "split_once_str p (c # s) =
     (if take (length p) (c # s) = p then Some ([], drop (length p) (c # s))
      else case split_once_str p s of Some (a, b) \<Rightarrow> Some (c # a, b) | None \<Rightarrow> None)"

definition mask_webhook_url :: "string \<Rightarrow> string" where
  "mask_webhook_url raw =
     (case split_once_str ''://'' raw of
        None \<Rightarrow> ''<unparsable-url>''
      | Some (scheme, rest) \<Rightarrow>
          (let (host, path) = (case split_once_str ''/'' rest of Some hp \<Rightarrow> hp | None \<Rightarrow> (rest, []))
           in if host = [] then ''<unparsable-url>''
              else let first_segment = hd (split_on (CHR ''/'') path)
                   in if first_segment = [] then scheme @ ''://'' @ host @ ''/***''
                      else if take 3 first_segment = ''bot'' \<and> CHR '':'' \<in> set first_segment
                      then scheme @ ''://'' @ host @ ''/bot***/***''
                      else scheme @ ''://'' @ host @ ''/'' @ first_segment @ ''/***''))"

section \<open>The halt coordinator\<close>

record halt_coordinator =
  hc_flag :: bool
  hc_watchdog_path :: "string option"
  hc_reason :: "string option"

definition halt_coordinator_new :: "string option \<Rightarrow> halt_coordinator" where
  "halt_coordinator_new path = \<lparr>hc_flag = False, hc_watchdog_path = path, hc_reason = None\<rparr>"

text \<open>The first halt sets the reason; later ones keep it.\<close>

definition halt :: "string \<Rightarrow> halt_coordinator \<Rightarrow> halt_coordinator" where
  "halt reason h = (if hc_flag h then h else h\<lparr>hc_flag := True, hc_reason := Some reason\<rparr>)"

definition halted_flag :: "halt_coordinator \<Rightarrow> bool" where
  "halted_flag h = hc_flag h"

text \<open>\<open>exists\<close> tells whether the watchdog file is there.\<close>

definition check_watchdog :: "(string \<Rightarrow> bool) \<Rightarrow> halt_coordinator \<Rightarrow> halt_coordinator" where
  "check_watchdog exists h =
     (case hc_watchdog_path h of
        Some p \<Rightarrow> if exists p then halt (''watchdog file detected: '' @ p) h else h
      | None \<Rightarrow> h)"

section \<open>The admin endpoints\<close>

datatype http_reply = Reply nat string | MetricsReply | StatusReply bool string

definition handle_halt :: "halt_coordinator option \<Rightarrow> halt_coordinator option \<times> http_reply" where
  "handle_halt h =
     (case h of
        Some c \<Rightarrow> (Some (halt ''HTTP /admin/halt'' c), Reply 200 ''halted'')
      | None \<Rightarrow> (None, Reply 503 ''halt coordinator not configured''))"

definition handle_status :: "halt_coordinator option \<Rightarrow> http_reply" where
  "handle_status h =
     (case h of
        Some c \<Rightarrow> StatusReply (halted_flag c) (case hc_reason c of Some r \<Rightarrow> r | None \<Rightarrow> [])
      | None \<Rightarrow> Reply 503 ''halt coordinator not configured'')"

definition handle_request :: "string \<Rightarrow> string \<Rightarrow> halt_coordinator option \<Rightarrow> halt_coordinator option \<times> http_reply" where
  "handle_request http_verb path h =
     (if http_verb = ''GET'' \<and> path = ''/metrics'' then (h, MetricsReply)
      else if http_verb = ''GET'' \<and> path = ''/health'' then (h, Reply 200 ''ok'')
      else if http_verb = ''POST'' \<and> path = ''/admin/halt'' then handle_halt h
      else if http_verb = ''GET'' \<and> path = ''/admin/status'' then (h, handle_status h)
      else (h, Reply 404 ''not found''))"

section \<open>Lemmas\<close>

text \<open>A halt is for good, whoever asks for it, and the first reason stays.\<close>

inductive halt_step :: "halt_coordinator \<Rightarrow> halt_coordinator \<Rightarrow> bool" where
  asked: "halt_step h (halt reason h)"
| watchdog: "halt_step h (check_watchdog exists h)"
| request: "handle_request http_verb path (Some h) = (Some h', reply) \<Longrightarrow> halt_step h h'"

lemma halt_halted: "hc_flag h \<Longrightarrow> halt reason h = h"
  by (simp add: halt_def)

lemma halt_step_halted: "halt_step h h' \<Longrightarrow> hc_flag h \<Longrightarrow> h' = h"
  by (induction rule: halt_step.induct)
    (auto simp: halt_halted check_watchdog_def handle_request_def handle_halt_def split: option.splits if_splits)

lemma halt_is_permanent: "halt_step\<^sup>*\<^sup>* h h' \<Longrightarrow> hc_flag h \<Longrightarrow> h' = h"
  by (induction rule: rtranclp_induct) (auto dest: halt_step_halted)

lemma halt_requests_halt: "hc_flag (the (fst (handle_request ''POST'' ''/admin/halt'' (Some h))))"
  by (simp add: handle_request_def handle_halt_def halt_def)

text \<open>The token of a Telegram webhook does not reach the log.\<close>

lemma split_once_str_hit:
  assumes "\<And>k. k < length a \<Longrightarrow> take (length p) (drop k (a @ p @ b)) \<noteq> p" "p \<noteq> []"
  shows "split_once_str p (a @ p @ b) = Some (a, b)"
  using assms(1)
proof (induction a)
  case Nil
  from assms(2) obtain c p' where "p = c # p'" by (cases p) auto
  then show ?case by simp
next
  case (Cons c a)
  have step: "take (length p) (drop k (a @ p @ b)) \<noteq> p" if "k < length a" for k
    using Cons.prems [of "Suc k"] that by simp
  from Cons.prems [of 0] Cons.IH [OF step] show ?case by simp
qed

lemma telegram_token_masked:
  assumes "CHR ''/'' \<notin> set host" "host \<noteq> []" "CHR ''/'' \<notin> set tok" "CHR '':'' \<in> set tok"
  shows "mask_webhook_url (''https://'' @ host @ ''/bot'' @ tok @ ''/'' @ rest) = ''https://'' @ host @ ''/bot***/***''"
proof -
  have 1: "split_once_str ''://'' (''https://'' @ host @ ''/bot'' @ tok @ ''/'' @ rest)
      = Some (''https'', host @ ''/bot'' @ tok @ ''/'' @ rest)" by simp
  have "take 1 (drop k (host @ ''/'' @ ''bot'' @ tok @ ''/'' @ rest)) \<noteq> ''/''" if "k < length host" for k
    using assms(1) that by (auto simp: take_Suc hd_drop_conv_nth nth_append in_set_conv_nth)
  then have 2: "split_once_str ''/'' (host @ ''/'' @ ''bot'' @ tok @ ''/'' @ rest) = Some (host, ''bot'' @ tok @ ''/'' @ rest)"
    by (intro split_once_str_hit) simp_all
  have 3: "split_on (CHR ''/'') ((''bot'' @ tok) @ CHR ''/'' # rest) = (''bot'' @ tok) # split_on (CHR ''/'') rest"
    using assms(3) by (intro split_on_append_sep) simp
  from 1 2 3 assms(2,4) show ?thesis by (simp add: mask_webhook_url_def)
qed

end
