(* ===== verification/Trading_Bot.thy ===== *)
theory Trading_Bot
  imports Gas_Estimate Scorer Pnl Rebalance Alerts Safety "HOL-Library.AList"
begin

text \<open>
  \<open>bin/arb_bot.rs\<close>: the bot around the components: the trading tick, the consumer of finished executions, the
  balance synchronisation and one round of the main loop.  The tasks share their state under locks; each
  of the operations below is one atomic step on it, and what the outside answers during a step (clocks,
  prices, order books, balances) is an argument.  Log lines and metrics are left out; alerts are appended
  to a list.
\<close>

section \<open>Reasons\<close>

text \<open>Formatting of decimals in a message: plain, and with two, one and no decimals.\<close>

record reason_format =
  rf_plain :: "dec \<Rightarrow> string"
  rf_two :: "dec \<Rightarrow> string"
  rf_one :: "dec \<Rightarrow> string"
  rf_whole :: "dec \<Rightarrow> string"

definition block_reason_str :: "dec_ops \<Rightarrow> reason_format \<Rightarrow> block_reason \<Rightarrow> string" where
  "block_reason_str D R r =
     (case r of
        TradeExceedsAbsoluteMax v \<Rightarrow> ''Trade $'' @ rf_two R v @ '' exceeds absolute max $'' @ rf_plain R ABSOLUTE_MAX_TRADE_USD
      | AbsoluteDailyLoss \<Rightarrow> ''Absolute daily loss limit reached''
      | CapitalBelowMinimum c \<Rightarrow> ''Capital $'' @ rf_two R c @ '' below minimum $'' @ rf_plain R ABSOLUTE_MIN_CAPITAL
      | AbsoluteHourlyLimit \<Rightarrow> ''Absolute hourly trade limit reached''
      | TradeExceedsMax v m \<Rightarrow> ''Trade $'' @ rf_two R v @ '' exceeds max $'' @ rf_two R m
      | TradeExceedsCapitalPct v pct \<Rightarrow> ''Trade $'' @ rf_two R v @ '' exceeds '' @ rf_whole R (dmul D pct 100) @ ''% of capital''
      | OpenPositionLimit n \<Rightarrow> ''Open position limit ('' @ show_nat n @ '') reached''
      | DailyLossLimit p \<Rightarrow> ''Daily loss limit reached: $'' @ rf_two R p
      | DrawdownLimit d \<Rightarrow> ''Drawdown '' @ rf_one R (dmul D d 100) @ ''% exceeds limit''
      | ConsecutiveLossLimit n \<Rightarrow> ''Consecutive loss limit ('' @ show_nat n @ '') reached''
      | HourlyTradeLimit \<Rightarrow> ''Hourly trade limit reached''
      | HourlyTradeLimitResumes n m secs \<Rightarrow>
          ''Hourly trade limit reached ('' @ show_nat n @ ''/'' @ show_nat m @ ''); resumes in ~'' @ show_nat (nat secs) @ ''s''
      | InvalidCexPrice \<Rightarrow> ''Invalid CEX price''
      | InvalidDexPrice \<Rightarrow> ''Invalid DEX price''
      | InvalidTradeSize \<Rightarrow> ''Invalid trade size''
      | SpreadTooHigh s \<Rightarrow> ''Spread '' @ rf_plain R s @ ''bps too high''
      | SignalExpired \<Rightarrow> ''Signal expired''
      | SignalTooOld a \<Rightarrow> ''Signal too old: '' @ rf_one R a @ ''s''
      | NetPnlNotPositive \<Rightarrow> ''Expected net PnL must be positive''
      | InventoryCheckFailed \<Rightarrow> ''Inventory check failed''
      | OutsideLimits \<Rightarrow> ''Signal marked outside limits'')"

text \<open>The countdown of the hourly limit must not look like a new reason.\<close>

definition risk_pause_key :: "string \<Rightarrow> string" where
  "risk_pause_key reason =
     (if take 26 reason = ''Hourly trade limit reached'' then ''Hourly trade limit reached'' else reason)"

section \<open>State\<close>

record bot =
  bt_worker :: worker
  bt_executor :: executor
  bt_generator :: signal_generator
  bt_scorer :: signal_scorer
  bt_risk :: risk_manager
  bt_risk_pause :: "string option"
  bt_rebalance_pause :: "string option"
  bt_pnl :: pnl_engine
  bt_pnl_breaker :: pnl_breaker
  bt_halt :: halt_coordinator
  bt_alerts :: "alert_event list"
  bt_chain :: world

type_synonym 'a bot_call = "(bot, bot_error, 'a) call"

record tick_deps =
  td_dec :: dec_ops
  td_f64 :: f64_ops
  td_format :: reason_format
  td_dry_run :: bool
  td_validator :: pre_trade_validator
  td_base_fees :: fee_structure
  td_gas :: gas_fee_estimator
  td_min_profit_usd :: dec
  td_min_score :: dec
  td_queue_config :: queue_config

text \<open>What the outside answers during a tick; the pairs are numbered.\<close>

record bot_tick_env =
  te_pause_now :: date_time
  te_breaker_now :: instant
  te_eth_price :: "(strategy_error, dec) outcome"
  te_gen :: "nat \<Rightarrow> gen_env"
  te_signal_eth_price :: "nat \<Rightarrow> (strategy_error, dec) outcome"
  te_valid_now :: "nat \<Rightarrow> date_time"
  te_risk_now :: "nat \<Rightarrow> date_time"
  te_skew_order :: "nat \<Rightarrow> venue list"
  te_skew_assets :: "nat \<Rightarrow> string list"
  te_book :: "nat \<Rightarrow> (strategy_error, order_book_snapshot) outcome"
  te_start_now :: "nat \<Rightarrow> date_time"
  te_push_now :: "nat \<Rightarrow> instant"

definition bot_chain :: "(bot_error, 'a) chain_call \<Rightarrow> 'a bot_call" where
  "bot_chain m b = (case m (bt_chain b) of None \<Rightarrow> None | Some (w, r) \<Rightarrow> Some (b\<lparr>bt_chain := w\<rparr>, r))"

definition bot_emit :: "alert_event \<Rightarrow> bot \<Rightarrow> bot" where
  "bot_emit ev b = b\<lparr>bt_alerts := bt_alerts b @ [ev]\<rparr>"

section \<open>The tick\<close>

text \<open>A pause is announced when its key is new.\<close>

definition announce_pause :: "string \<Rightarrow> bot \<Rightarrow> bot" where
  "announce_pause reason b =
     (let key = risk_pause_key reason
      in if bt_risk_pause b = Some key then b else bot_emit (RiskPaused reason) (b\<lparr>bt_risk_pause := Some key\<rparr>))"

definition announce_resume :: "bot \<Rightarrow> bot" where
  "announce_resume b =
     (case bt_risk_pause b of
        Some reason \<Rightarrow> bot_emit (RiskResumed reason) (b\<lparr>bt_risk_pause := None\<rparr>)
      | None \<Rightarrow> b)"

text \<open>The skews of the tracker; \<open>te_skew_order\<close> and \<open>te_skew_assets\<close> are the orders in which its maps are read.\<close>

definition generator_inventory_skews :: "tick_deps \<Rightarrow> bot_tick_env \<Rightarrow> nat \<Rightarrow> bot \<Rightarrow> skew_result list" where
  "generator_inventory_skews T E i b =
     (case wk_inventory (bt_worker b) of
        Some t \<Rightarrow> map (\<lambda>r. \<lparr>skew_asset = sk_asset r, needs_rebalance = sk_needs_rebalance r\<rparr>)
                    (get_skews (td_dec T) (td_f64 T) (te_skew_order E i) (te_skew_assets E i) t)
      | None \<Rightarrow> [])"

text \<open>A signal that passed every gate is counted as started and offered to the queue.\<close>

definition enqueue :: "tick_deps \<Rightarrow> bot_tick_env \<Rightarrow> nat \<Rightarrow> signal \<Rightarrow> bot \<Rightarrow> bot" where
  "enqueue T E i s b =
     (let started = record_trade_started (te_start_now E i) (bt_risk b);
          (q, kept) = push (td_queue_config T) (te_push_now E i) s (wk_queue (bt_worker b))
      in b\<lparr>bt_risk := (if kept then started else record_trade_not_started started),
           bt_worker := (bt_worker b)\<lparr>wk_queue := q\<rparr>\<rparr>)"

definition score_and_enqueue :: "tick_deps \<Rightarrow> bot_tick_env \<Rightarrow> nat \<Rightarrow> signal \<Rightarrow> unit bot_call" where
  "score_and_enqueue T E i s b =
     (case te_book E i of
        Panic \<Rightarrow> Some (b, Panic)
      | r \<Rightarrow>
          (case score_signal (td_dec T) (bt_scorer b) s (generator_inventory_skews T E i b) (case r of Ok book \<Rightarrow> Some book | _ \<Rightarrow> None) of
             Ok x \<Rightarrow>
               (let s' = s\<lparr>score := x\<rparr>
                in if score s' < td_min_score T then Some (b, Ok ())
                   else if td_dry_run T then Some (b, Ok ())
                   else Some (enqueue T E i s' b, Ok ()))
           | _ \<Rightarrow> Some (b, Panic)))"

definition vet_signal :: "tick_deps \<Rightarrow> bot_tick_env \<Rightarrow> nat \<Rightarrow> signal \<Rightarrow> unit bot_call" where
  "vet_signal T E i s b =
     (if expected_net_pnl s < td_min_profit_usd T then Some (b, Ok ())
      else if \<not> allowed (validate_signal (td_validator T) s (te_valid_now E i)) then Some (b, Ok ())
      else let (m, d) = check_pre_trade (td_dec T) s (te_risk_now E i) (bt_risk b); b' = b\<lparr>bt_risk := m\<rparr>
           in if \<not> allowed d then Some (b', Ok ()) else score_and_enqueue T E i s b')"

definition charge_gas :: "tick_deps \<Rightarrow> bot_tick_env \<Rightarrow> nat \<Rightarrow> signal \<Rightarrow> signal bot_call" where
  "charge_gas T E i s =
     seq (bot_chain (estimate_signal_gas (td_dec T) (td_gas T) (te_signal_eth_price E i) s)) (\<lambda>exact.
       ret (case exact of Some gas \<Rightarrow> apply_gas_estimate_to_signal (td_dec T) (td_base_fees T) gas s | None \<Rightarrow> s))"

text \<open>Without a signal a dry run still estimates the gas of the previewed swap; the preview is only logged.\<close>

definition preview_pair :: "tick_deps \<Rightarrow> bot_tick_env \<Rightarrow> nat \<Rightarrow> string \<Rightarrow> fee_structure \<Rightarrow> market_state option \<Rightarrow> unit bot_call" where
  "preview_pair T E i pair tick_fees market =
     (case market of
        Some m \<Rightarrow>
          (if td_dry_run T
           then seq (charge_gas T E i (dry_run_preview_signal (td_dec T) (te_valid_now E i) pair m
                  (preview_of (td_dec T) m tick_fees (td_min_profit_usd T)))) (\<lambda>_. ret ())
           else ret ())
      | None \<Rightarrow> ret ())"

definition tick_pair :: "tick_deps \<Rightarrow> bot_tick_env \<Rightarrow> dec \<Rightarrow> fee_structure \<Rightarrow> nat \<Rightarrow> string \<Rightarrow> unit bot_call" where
  "tick_pair T E sz tick_fees i pair b =
     (let (g, r) = generate (td_dec T) (te_gen E i) pair sz (bt_generator b); b' = b\<lparr>bt_generator := g\<rparr>
      in case r of
           Panic \<Rightarrow> Some (b', Panic)
         | Err e \<Rightarrow> Some (b', Ok ())
         | Ok (None, market) \<Rightarrow> preview_pair T E i pair tick_fees market b'
         | Ok (Some s, _) \<Rightarrow> seq (charge_gas T E i s) (vet_signal T E i) b')"

fun tick_pairs :: "tick_deps \<Rightarrow> bot_tick_env \<Rightarrow> dec \<Rightarrow> fee_structure \<Rightarrow> nat \<Rightarrow> string list \<Rightarrow> unit bot_call" where
  "tick_pairs T E sz tick_fees i [] = ret ()"
| "tick_pairs T E sz tick_fees i (pair # pairs) =
     seq (tick_pair T E sz tick_fees i pair) (\<lambda>_. tick_pairs T E sz tick_fees (Suc i) pairs)"

definition trade_tick :: "tick_deps \<Rightarrow> bot_tick_env \<Rightarrow> dec \<Rightarrow> string list \<Rightarrow> unit bot_call" where
  "trade_tick T E sz pairs =
     seq (bot_chain (estimate_tick_fees (td_dec T) (td_base_fees T) (td_gas T) (te_eth_price E))) (\<lambda>(tick_fees, gas).
     seq (update (\<lambda>b. b\<lparr>bt_generator := set_fees tick_fees (bt_generator b)\<rparr>)) (\<lambda>_.
       tick_pairs T E sz tick_fees 0 pairs))"

definition tick :: "tick_deps \<Rightarrow> bot_tick_env \<Rightarrow> dec \<Rightarrow> string list \<Rightarrow> unit bot_call" where
  "tick T E sz pairs b =
     (case bt_rebalance_pause b of
        Some reason \<Rightarrow> Some (announce_pause reason b, Ok ())
      | None \<Rightarrow>
          (let (m, d) = trading_pause (td_dec T) (te_pause_now E) (bt_risk b); b1 = b\<lparr>bt_risk := m\<rparr>
           in case d of
                Blocked why \<Rightarrow> Some (announce_pause (block_reason_str (td_dec T) (td_format T) why) b1, Ok ())
              | Allowed \<Rightarrow>
                  (let b2 = announce_resume b1;
                       (breaker, is_open) = is_open_at (te_breaker_now E) (ex_breaker (bt_executor b2));
                       b3 = b2\<lparr>bt_executor := (bt_executor b2)\<lparr>ex_breaker := breaker\<rparr>\<rparr>
                   in if is_open then Some (b3, Ok ()) else trade_tick T E sz pairs b3)))"

section \<open>The ledger record of an execution\<close>

definition opt_or :: "'a option \<Rightarrow> 'a \<Rightarrow> 'a" where
  "opt_or x d = (case x of Some v \<Rightarrow> v | None \<Rightarrow> d)"

definition buy_is_leg1 :: "execution_context \<Rightarrow> bool" where
  "buy_is_leg1 c \<longleftrightarrow>
     (case sig_direction (ctx_signal c) of BuyCexSellDex \<Rightarrow> leg1_venue c = ''cex'' | BuyDexSellCex \<Rightarrow> leg1_venue c = ''dex'')"

text \<open>\<open>timestamp()\<close> truncates to seconds.\<close>

definition whole_seconds :: "date_time \<Rightarrow> date_time" where
  "whole_seconds t = (t div 1000000000) * 1000000000"

definition quote_usd_of :: "dec_ops \<Rightarrow> signal \<Rightarrow> dec" where
  "quote_usd_of D s =
     (let expected_quote_value = dmul D (sig_size s) (cex_price s)
      in if expected_quote_value > 0 then ddiv D (notional_usd s) expected_quote_value else 1)"

definition leg_of :: "bool \<Rightarrow> execution_context \<Rightarrow> string \<Rightarrow> dec option \<times> dec option \<times> dec \<times> string" where
  "leg_of first c quote =
     (if first then (leg1_fill_size c, leg1_fill_price c, leg1_fee c, opt_or (leg1_fee_asset c) quote)
      else (leg2_fill_size c, leg2_fill_price c, leg2_fee c, opt_or (leg2_fee_asset c) quote))"

definition trade_leg_of ::
  "dec_ops \<Rightarrow> signal \<Rightarrow> date_time \<Rightarrow> venue \<Rightarrow> string \<Rightarrow> dec option \<times> dec option \<times> dec \<times> string \<Rightarrow> trade_leg" where
  "trade_leg_of D s time v side = (\<lambda>(sz, price, fee, fee_asset).
     \<lparr>leg_id = signal_id s @ ''_'' @ side, leg_timestamp = time, leg_venue = v, leg_symbol = sig_pair s, leg_side = side,
      leg_amount = opt_or sz 0, leg_price = dmul D (opt_or price 0) (quote_usd_of D s), leg_fee = fee, leg_fee_asset = fee_asset\<rparr>)"

definition execution_to_arb_record :: "dec_ops \<Rightarrow> date_time \<Rightarrow> execution_context \<Rightarrow> arb_record" where
  "execution_to_arb_record D now c =
     (let s = ctx_signal c;
          quote = (case split_pair (sig_pair s) of Ok (_, q) \<Rightarrow> q | _ \<Rightarrow> []);
          started = whole_seconds (timestamp s);
          finished = (if finished_at c = None then started else now);
          gas = opt_or (actual_onchain_gas_fee_usd c) 0
      in \<lparr>ar_id = signal_id s, ar_timestamp = started,
          buy_leg = trade_leg_of D s started (buy_venue (sig_direction s)) ''buy'' (leg_of (buy_is_leg1 c) c quote),
          sell_leg = trade_leg_of D s finished (sell_venue (sig_direction s)) ''sell'' (leg_of (\<not> buy_is_leg1 c) c quote),
          ar_gas_cost_usd = gas, ar_expected_gross_pnl_usd = expected_gross_pnl s, ar_expected_fees_usd = expected_fees s,
          ar_expected_net_pnl_usd = expected_net_pnl s, ar_actual_gross_pnl_usd = opt_or (actual_gross_pnl_usd c) 0,
          ar_actual_fees_usd = opt_or (actual_fees_usd c) 0, ar_actual_cex_fee_usd = opt_or (actual_cex_fee_usd c) 0,
          ar_actual_onchain_gas_fee_usd = gas, ar_actual_net_pnl_usd = opt_or (actual_net_pnl c) 0,
          ar_onchain_gas_used = map_option show_nat (onchain_gas_used c),
          ar_onchain_gas_fee_wei = map_option show_nat (onchain_gas_fee_wei c)\<rparr>)"

section \<open>The completion consumer\<close>

text \<open>
  What the worker sends when it turns a signal away is a rejected context; its text stays in the message.
\<close>

definition sink_context :: "instant \<Rightarrow> sink_message \<Rightarrow> execution_context" where
  "sink_context now msg =
     (case msg of
        SinkCompleted c \<Rightarrow> c
      | SinkRejected s _ \<Rightarrow> (execution_context_new now s)\<lparr>ctx_state := Rejected, finished_at := Some now\<rparr>)"

text \<open>The consumer gives the inventory back a second time, at the CEX price for both directions.\<close>

definition consumer_release :: "dec_ops \<Rightarrow> signal \<Rightarrow> string \<Rightarrow> string \<Rightarrow> inventory_tracker \<Rightarrow> inventory_tracker" where
  "consumer_release D s base quote t =
     release_all D
       [\<lparr>ir_venue = buy_venue (sig_direction s), ir_asset = quote, ir_amount = dmul D (sig_size s) (cex_price s)\<rparr>,
        \<lparr>ir_venue = sell_venue (sig_direction s), ir_asset = base, ir_amount = sig_size s\<rparr>] t"

definition feed_loss_limits :: "dec_ops \<Rightarrow> (dec \<Rightarrow> string) \<Rightarrow> int \<Rightarrow> execution_context \<Rightarrow> dec \<Rightarrow> bot \<Rightarrow> bot" where
  "feed_loss_limits D two today c net b =
     (let s = ctx_signal c;
          b1 = bot_emit (TradeExecuted (signal_id s) (sig_pair s) (sig_direction s) (expected_net_pnl s) net
                 (opt_or (actual_gross_pnl_usd c) 0) (opt_or (actual_fees_usd c) 0) (opt_or (actual_cex_fee_usd c) 0)
                 (opt_or (actual_onchain_gas_fee_usd c) 0) (onchain_gas_used c)) b;
          pb = record_pnl_at D net today (bt_pnl_breaker b1);
          b2 = b1\<lparr>bt_pnl_breaker := pb\<rparr>;
          b3 = (if is_halted pb \<and> \<not> is_halted (bt_pnl_breaker b1)
                then (bot_emit (DailyLossHalt (cumulative_pnl pb) (max_daily_loss_usd pb)) b2)
                       \<lparr>bt_halt := halt ''daily PnL loss threshold exceeded'' (bt_halt b2)\<rparr>
                else b2);
          b4 = b3\<lparr>bt_risk := record_trade_result D net (bt_risk b3)\<rparr>
      in if is_below_absolute_min_capital (bt_risk b4)
         then (bot_emit (KillSwitchTriggered (''capital $'' @ two (current_capital (bt_risk b4)) @ '' below absolute minimum $50'')) b4)
                \<lparr>bt_halt := halt ''capital below absolute minimum - auto kill switch'' (bt_halt b4)\<rparr>
         else b4)"

definition settle_execution ::
  "dec_ops \<Rightarrow> (dec \<Rightarrow> string) \<Rightarrow> int \<Rightarrow> date_time \<Rightarrow> execution_context \<Rightarrow> bot \<Rightarrow> bot" where
  "settle_execution D two today now c b =
     (if is_filled (ctx_state c)
      then let b1 = (case actual_net_pnl c of Some net \<Rightarrow> feed_loss_limits D two today c net b | None \<Rightarrow> b)
           in b1\<lparr>bt_pnl := record_arb (execution_to_arb_record D now c) (bt_pnl b1)\<rparr>
      else b\<lparr>bt_risk := record_trade_cancelled (bt_risk b)\<rparr>)"

definition consume_context ::
  "dec_ops \<Rightarrow> (dec \<Rightarrow> string) \<Rightarrow> alert_rules \<Rightarrow> int \<Rightarrow> date_time \<Rightarrow> execution_context \<Rightarrow> bot \<Rightarrow> bot" where
  "consume_context D two rules today now c b =
     (case split_pair (sig_pair (ctx_signal c)) of
        Ok (base, quote) \<Rightarrow>
          (let w = bt_worker b;
               b1 = b\<lparr>bt_worker := w\<lparr>wk_inventory := map_option (consumer_release D (ctx_signal c) base quote) (wk_inventory w)\<rparr>,
                      bt_scorer := record_result (sig_pair (ctx_signal c)) (is_filled (ctx_state c)) (bt_scorer b)\<rparr>;
               b2 = settle_execution D two today now c b1
           in fold bot_emit (evaluate_execution c rules) b2)
      | _ \<Rightarrow> b)"

text \<open>One message of the channel.\<close>

definition consume ::
  "dec_ops \<Rightarrow> (dec \<Rightarrow> string) \<Rightarrow> alert_rules \<Rightarrow> int \<Rightarrow> instant \<Rightarrow> date_time \<Rightarrow> bot \<Rightarrow> bot" where
  "consume D two rules today recv_time now b =
     (case wk_sink (bt_worker b) of
        [] \<Rightarrow> b
      | msg # msgs \<Rightarrow>
          consume_context D two rules today now (sink_context recv_time msg) (b\<lparr>bt_worker := (bt_worker b)\<lparr>wk_sink := msgs\<rparr>\<rparr>))"

section \<open>Balances\<close>

definition sync_cex_balance :: "(exchange_error, (string \<times> normalized_balance) list) outcome \<Rightarrow> inventory_tracker \<Rightarrow> inventory_tracker \<times> bool" where
  "sync_cex_balance fetched t =
     (case fetched of Ok bs \<Rightarrow> (update_from_cex venue.Binance bs t, True) | _ \<Rightarrow> (t, False))"

text \<open>A later asset with the same canonical name replaces an earlier one.\<close>

definition canonical_balances :: "(string \<times> normalized_balance) list \<Rightarrow> (string \<times> normalized_balance) list" where
  "canonical_balances bs = AList.clearjunk (rev (map (\<lambda>(a, nb). (canonicalize_asset a, nb)) bs))"

definition verify_cex_balance ::
  "dec_ops \<Rightarrow> (exchange_error, (string \<times> normalized_balance) list) outcome \<Rightarrow> dec \<Rightarrow> inventory_tracker \<Rightarrow> balance_mismatch list option" where
  "verify_cex_balance D fetched tolerance_pct t =
     (case fetched of
        Ok bs \<Rightarrow>
          (let ms = verify_balances D venue.Binance (map (\<lambda>(a, nb). (a, dadd D (nb_free nb) (nb_locked nb))) (canonical_balances bs)) tolerance_pct t
           in if ms = [] then None else Some ms)
      | _ \<Rightarrow> None)"

definition sync_wallet_balance :: "(string, (string \<times> dec) list) outcome \<Rightarrow> inventory_tracker \<Rightarrow> inventory_tracker" where
  "sync_wallet_balance fetched t = (case fetched of Ok bs \<Rightarrow> update_from_wallet Wallet bs t | _ \<Rightarrow> t)"

record sync_env =
  se_balances :: "(exchange_error, (string \<times> normalized_balance) list) outcome"
  se_verify_balances :: "(exchange_error, (string \<times> normalized_balance) list) outcome"
  se_wallet :: "(string, (string \<times> dec) list) outcome option"

definition on_mismatch :: "balance_mismatch \<Rightarrow> alert_event" where
  "on_mismatch m = BalanceMismatch (bm_venue m) (bm_asset m) (bm_tracked m) (bm_actual m) (bm_diff m)"

text \<open>Without a positive tolerance the verification is off.\<close>

definition balance_sync :: "dec_ops \<Rightarrow> dec option \<Rightarrow> sync_env \<Rightarrow> bot \<Rightarrow> bot" where
  "balance_sync D tolerance E b =
     (case wk_inventory (bt_worker b) of
        None \<Rightarrow> b
      | Some t \<Rightarrow>
          (let (t1, ok) = sync_cex_balance (se_balances E) t;
               b1 = (case (tolerance, ok) of
                       (Some tol, True) \<Rightarrow>
                         (case verify_cex_balance D (se_verify_balances E) tol t1 of
                            Some ms \<Rightarrow> (fold bot_emit (map on_mismatch ms) b)
                              \<lparr>bt_halt := halt ''balance mismatch - manual investigation required'' (bt_halt b)\<rparr>
                          | None \<Rightarrow> b)
                     | _ \<Rightarrow> b);
               t2 = (case se_wallet E of Some fetched \<Rightarrow> sync_wallet_balance fetched t1 | None \<Rightarrow> t1)
           in b1\<lparr>bt_worker := (bt_worker b1)\<lparr>wk_inventory := Some t2\<rparr>\<rparr>))"

section \<open>The main loop\<close>

datatype loop_control = ContinueLoop | StopLoop

record loop_env =
  le_watchdog :: "string \<Rightarrow> bool"
  le_halted_meanwhile :: "(string \<times> nat) option"
  le_tick :: bot_tick_env
  le_sync :: "sync_env option"
  le_ctrl_c :: bool

definition finish_round :: "dec_ops \<Rightarrow> dec option \<Rightarrow> loop_env \<Rightarrow> loop_control bot_call" where
  "finish_round D tolerance E b =
     Some (case le_sync E of Some S \<Rightarrow> balance_sync D tolerance S b | None \<Rightarrow> b,
       Ok (if le_ctrl_c E then StopLoop else ContinueLoop))"

text \<open>
  One round.  A halt that another task requests during the tick cancels it and ends the loop:
  \<open>le_halted_meanwhile\<close> is its reason with the number of pairs the tick had done, so the cut falls between two pairs.
  The synchronisation runs when its interval has passed; a tick that fails skips it.
\<close>

definition main_round :: "tick_deps \<Rightarrow> dec option \<Rightarrow> dec \<Rightarrow> string list \<Rightarrow> loop_env \<Rightarrow> loop_control bot_call" where
  "main_round T tolerance sz pairs E b =
     (let b1 = b\<lparr>bt_halt := check_watchdog (le_watchdog E) (bt_halt b)\<rparr>
      in if halted_flag (bt_halt b1)
         then Some (bot_emit (KillSwitchTriggered (opt_or (hc_reason (bt_halt b1)) ''unknown'')) b1, Ok StopLoop)
         else case le_halted_meanwhile E of
                Some (reason, n) \<Rightarrow>
                  seq (attempt (tick T (le_tick E) sz (take n pairs)) ret (\<lambda>_. ret ())) (\<lambda>_ b2.
                    let b3 = b2\<lparr>bt_halt := halt reason (bt_halt b2)\<rparr>
                    in Some (bot_emit (BotStopped (opt_or (hc_reason (bt_halt b3)) ''unknown'')) b3, Ok StopLoop)) b1
              | None \<Rightarrow>
                  attempt (tick T (le_tick E) sz pairs) (\<lambda>_. finish_round (td_dec T) tolerance E) (\<lambda>_. ret ContinueLoop) b1)"

end
