(* ===== verification/Bot_Safety.thy ===== *)
theory Bot_Safety
  imports Trading_Bot
begin

text \<open>
  What the trading loop guarantees: which signals a tick may enqueue, how many of them can be under way at
  once whatever the tasks of the bot do and in whatever order, what a completed execution does to the
  books, and three places where the tasks disagree about who owns a reservation, an open position or the
  name of an asset.
\<close>

section \<open>What a tick changes\<close>

text \<open>The gas estimate rewrites the fees and the net result of a generated signal, the scorer its score.\<close>

definition charged :: "signal \<Rightarrow> signal \<Rightarrow> bool" where
  "charged s0 s \<longleftrightarrow> (\<exists>fees net x. s = s0\<lparr>expected_fees := fees, expected_net_pnl := net, score := x\<rparr>)"

lemma charged_score: "charged s0 s \<Longrightarrow> charged s0 (s\<lparr>score := x\<rparr>)"
  unfolding charged_def by (elim exE) (rule exI, rule exI, rule exI [of _ x], simp)

lemma charged_net: "charged s (s\<lparr>expected_fees := fees, expected_net_pnl := net\<rparr>)"
  unfolding charged_def by (intro exI [of _ fees] exI [of _ net] exI [of _ "score s"]) simp

lemma charged_same: "charged s s"
  unfolding charged_def by (intro exI [of _ "expected_fees s"] exI [of _ "expected_net_pnl s"] exI [of _ "score s"]) simp

text \<open>The gates of the tick.\<close>

definition vetted :: "tick_deps \<Rightarrow> bot_tick_env \<Rightarrow> nat \<Rightarrow> risk_manager \<Rightarrow> signal \<Rightarrow> bool" where
  "vetted T E i m s \<longleftrightarrow>
     \<not> td_dry_run T \<and> td_min_profit_usd T \<le> expected_net_pnl s \<and> td_min_score T \<le> score s
     \<and> allowed (validate_signal (td_validator T) s (te_valid_now E i))
     \<and> allowed (snd (check_pre_trade (td_dec T) s (te_risk_now E i) m))"

lemma validate_signal_score [simp]: "validate_signal v (s\<lparr>score := x\<rparr>) now = validate_signal v s now"
  by (simp add: validate_signal_def age_seconds_def)

lemma check_pre_trade_score [simp]: "check_pre_trade D (s\<lparr>score := x\<rparr>) now m = check_pre_trade D s now m"
  by (simp add: check_pre_trade_def)

lemma charge_gas_charged:
  "charge_gas T E i s b = Some (b', Ok s') \<Longrightarrow> charged s s' \<and> (\<exists>w. b' = b\<lparr>bt_chain := w\<rparr>)"
  by (auto simp: charge_gas_def bot_chain_def seq_Ok_iff ret_def apply_gas_estimate_to_signal_def Let_def charged_net charged_same
      split: option.splits)

lemma charge_gas_state: "charge_gas T E i s b = Some (b', r) \<Longrightarrow> \<exists>w. b' = b\<lparr>bt_chain := w\<rparr>"
  by (auto simp: charge_gas_def bot_chain_def seq_def ret_def split: option.splits outcome.splits)

lemma vet_signal_cases:
  assumes "vet_signal T E i s b = Some (b', r)"
  obtains (same) "b' = b"
    | (checked) "b' = b\<lparr>bt_risk := reset_hour_if_needed (te_risk_now E i) (bt_risk b)\<rparr>"
    | (enqueued) x where "vetted T E i (bt_risk b) (s\<lparr>score := x\<rparr>)"
        "b' = enqueue T E i (s\<lparr>score := x\<rparr>) (b\<lparr>bt_risk := reset_hour_if_needed (te_risk_now E i) (bt_risk b)\<rparr>)"
proof -
  obtain m d where c: "check_pre_trade (td_dec T) s (te_risk_now E i) (bt_risk b) = (m, d)" by fastforce
  moreover have "m = reset_hour_if_needed (te_risk_now E i) (bt_risk b)"
    using check_pre_trade_state [of "td_dec T" s "te_risk_now E i" "bt_risk b"] c by simp
  ultimately show thesis using assms that
    by (auto simp: vet_signal_def score_and_enqueue_def vetted_def not_less Let_def split: if_splits outcome.splits)
qed

text \<open>
  A property of the bot that survives the reads of the chain, the bookkeeping of the generator, the roll-over of
  the hour and the enqueueing of a vetted signal survives a pair, and so a tick.
\<close>

definition pair_stable :: "tick_deps \<Rightarrow> bot_tick_env \<Rightarrow> dec \<Rightarrow> nat \<Rightarrow> string \<Rightarrow> (bot \<Rightarrow> bool) \<Rightarrow> bool" where
  "pair_stable T E sz i pair P \<longleftrightarrow>
     (\<forall>b w. P b \<longrightarrow> P (b\<lparr>bt_chain := w\<rparr>)) \<and> (\<forall>b g. P b \<longrightarrow> P (b\<lparr>bt_generator := g\<rparr>))
     \<and> (\<forall>b. P b \<longrightarrow> P (b\<lparr>bt_risk := reset_hour_if_needed (te_risk_now E i) (bt_risk b)\<rparr>))
     \<and> (\<forall>b g g' s0 mk s. P b \<longrightarrow> generate (td_dec T) (te_gen E i) pair sz g = (g', Ok (Some s0, mk)) \<longrightarrow> charged s0 s
          \<longrightarrow> vetted T E i (bt_risk b) s
          \<longrightarrow> P (enqueue T E i s (b\<lparr>bt_risk := reset_hour_if_needed (te_risk_now E i) (bt_risk b)\<rparr>)))"

lemma tick_pair_stable:
  assumes "pair_stable T E sz i pair P"
  shows "triple P (tick_pair T E sz fees i pair) (\<lambda>b _. P b)"
proof (rule tripleI)
  fix b b' r
  assume p: "P b" and run: "tick_pair T E sz fees i pair b = Some (b', r)"
  obtain g res where gen: "generate (td_dec T) (te_gen E i) pair sz (bt_generator b) = (g, res)" by fastforce
  let ?b = "b\<lparr>bt_generator := g\<rparr>"
  have pg: "P ?b" using assms p by (simp add: pair_stable_def)
  have pw: "P (?b\<lparr>bt_chain := w\<rparr>)" for w using assms pg by (simp add: pair_stable_def)
  show "P b'"
  proof (cases "\<exists>s mk. res = Ok (Some s, mk)")
    case False
    with run gen pg pw show ?thesis
      by (auto simp: tick_pair_def preview_pair_def Let_def ret_def seq_def dest!: charge_gas_state
          split: outcome.splits option.splits if_splits)
  next
    case True
    then obtain s mk where res: "res = Ok (Some s, mk)" by blast
    with run gen have "seq (charge_gas T E i s) (vet_signal T E i) ?b = Some (b', r)"
      by (simp add: tick_pair_def Let_def)
    then consider w where "b' = ?b\<lparr>bt_chain := w\<rparr>"
      | s' w where "charged s s'" "vet_signal T E i s' (?b\<lparr>bt_chain := w\<rparr>) = Some (b', r)"
      by (fastforce simp: seq_def dest: charge_gas_state charge_gas_charged split: option.splits outcome.splits)
    then show ?thesis
    proof cases
      case 1
      with pw show ?thesis by simp
    next
      case 2
      from 2(2) show ?thesis
      proof (cases rule: vet_signal_cases)
        case same
        with pw show ?thesis by simp
      next
        case checked
        with assms pw show ?thesis unfolding pair_stable_def by blast
      next
        case (enqueued x)
        with assms pw [of w] gen res charged_score [OF 2(1)] show ?thesis unfolding pair_stable_def by blast
      qed
    qed
  qed
qed

lemma tick_pairs_stable:
  assumes "\<And>j. j < length pairs \<Longrightarrow> pair_stable T E sz (i + j) (pairs ! j) P"
  shows "triple P (tick_pairs T E sz fees i pairs) (\<lambda>b _. P b)"
  using assms
proof (induction pairs arbitrary: i)
  case Nil
  show ?case by (simp add: triple_ret)
next
  case (Cons pair pairs)
  have "triple P (tick_pair T E sz fees i pair) (\<lambda>b _. P b)"
    using Cons.prems [of 0] by (intro tick_pair_stable) simp
  moreover have "triple P (tick_pairs T E sz fees (Suc i) pairs) (\<lambda>b _. P b)"
    using Cons.prems [of "Suc j" for j] by (intro Cons.IH) fastforce
  ultimately show ?case
    by (auto intro!: triple_seq [where R = "\<lambda>_. P"] elim: triple_weaken split: outcome.split)
qed

lemma trade_tick_stable:
  assumes "\<And>j. j < length pairs \<Longrightarrow> pair_stable T E sz j (pairs ! j) P"
    and "\<And>b w. P b \<Longrightarrow> P (b\<lparr>bt_chain := w\<rparr>)" "\<And>b g. P b \<Longrightarrow> P (b\<lparr>bt_generator := g\<rparr>)"
  shows "triple P (trade_tick T E sz pairs) (\<lambda>b _. P b)"
proof -
  have chain: "triple P (bot_chain m) (\<lambda>b _. P b)" for m :: "(bot_error, 'x) chain_call"
    using assms(2) by (auto simp: triple_def bot_chain_def split: option.splits)
  show ?thesis
    unfolding trade_tick_def case_prod_beta
    using tick_pairs_stable [of pairs T E sz 0 P] assms(1,3)
    by (intro triple_seq [where R = "\<lambda>_. P"] triple_weaken [OF chain])
      (auto intro!: triple_update split: outcome.split)
qed

text \<open>A tick trades only when nothing pauses it; otherwise it leaves the queue alone.\<close>

definition tick_open :: "tick_deps \<Rightarrow> bot_tick_env \<Rightarrow> bot \<Rightarrow> bool" where
  "tick_open T E b \<longleftrightarrow>
     bt_rebalance_pause b = None \<and> allowed (snd (trading_pause (td_dec T) (te_pause_now E) (bt_risk b)))
     \<and> \<not> snd (is_open_at (te_breaker_now E) (ex_breaker (bt_executor b)))"

text \<open>What the preamble of a tick may touch.\<close>

definition preamble_stable :: "bot_tick_env \<Rightarrow> (bot \<Rightarrow> bool) \<Rightarrow> bool" where
  "preamble_stable E P \<longleftrightarrow>
     (\<forall>b. P b \<longrightarrow> P (b\<lparr>bt_risk := reset_hour_if_needed (te_pause_now E) (bt_risk b)\<rparr>))
     \<and> (\<forall>b k. P b \<longrightarrow> P (b\<lparr>bt_risk_pause := k\<rparr>)) \<and> (\<forall>b as. P b \<longrightarrow> P (b\<lparr>bt_alerts := as\<rparr>))
     \<and> (\<forall>b ex. P b \<longrightarrow> P (b\<lparr>bt_executor := ex\<rparr>))"

lemma announce_stable:
  assumes "preamble_stable E P" "P b"
  shows "P (announce_pause reason b)" "P (announce_resume b)"
  using assms by (auto simp: preamble_stable_def announce_pause_def announce_resume_def bot_emit_def Let_def split: option.splits)

lemma announce_frame [simp]:
  "bt_executor (announce_resume b) = bt_executor b"
  by (simp add: announce_resume_def bot_emit_def split: option.splits)

lemma tick_paused:
  assumes "preamble_stable E P" "P b" "\<not> tick_open T E b" "tick T E sz pairs b = Some (b', r)"
  shows "P b'"
proof -
  obtain m d where t: "trading_pause (td_dec T) (te_pause_now E) (bt_risk b) = (m, d)" by fastforce
  have m: "m = reset_hour_if_needed (te_pause_now E) (bt_risk b)"
    using trading_pause_state [of "td_dec T" "te_pause_now E" "bt_risk b"] t by simp
  have 1: "P (b\<lparr>bt_risk := m\<rparr>)" using assms(1,2) m by (simp add: preamble_stable_def)
  note an = announce_stable [OF assms(1)]
  have 2: "P (announce_resume (b\<lparr>bt_risk := m\<rparr>)\<lparr>bt_executor := ex\<rparr>)" for ex
    using an(2) [OF 1] assms(1) by (simp add: preamble_stable_def)
  show ?thesis
    using assms(3,4) t an(1) [OF assms(2)] an(1) [OF 1] 2
    by (auto simp: tick_def tick_open_def allowed_def Let_def split: option.splits safety_decision.splits prod.splits if_splits)
qed

lemma tick_trades:
  assumes "preamble_stable E P" "P b" "tick_open T E b" "tick T E sz pairs b = Some (b', r)"
  shows "\<exists>b1. P b1 \<and> trade_tick T E sz pairs b1 = Some (b', r)"
proof -
  obtain m d where t: "trading_pause (td_dec T) (te_pause_now E) (bt_risk b) = (m, d)" by fastforce
  have m: "m = reset_hour_if_needed (te_pause_now E) (bt_risk b)"
    using trading_pause_state [of "td_dec T" "te_pause_now E" "bt_risk b"] t by simp
  have 1: "P (b\<lparr>bt_risk := m\<rparr>)" using assms(1,2) m by (simp add: preamble_stable_def)
  have 2: "P (announce_resume (b\<lparr>bt_risk := m\<rparr>)\<lparr>bt_executor := ex\<rparr>)" for ex
    using announce_stable(2) [OF assms(1) 1] assms(1) by (simp add: preamble_stable_def)
  show ?thesis
    using assms(3,4) t 2
    by (auto simp: tick_def tick_open_def allowed_def Let_def split: option.splits safety_decision.splits prod.splits if_splits)
qed

lemma tick_stable:
  assumes "preamble_stable E P" "\<And>j. j < length pairs \<Longrightarrow> pair_stable T E sz j (pairs ! j) P"
    and "\<And>b w. P b \<Longrightarrow> P (b\<lparr>bt_chain := w\<rparr>)" "\<And>b g. P b \<Longrightarrow> P (b\<lparr>bt_generator := g\<rparr>)"
    and "P b" "tick T E sz pairs b = Some (b', r)"
  shows "P b'"
proof (cases "tick_open T E b")
  case True
  from tick_trades [OF assms(1,5) this assms(6)] tripleD [OF trade_tick_stable [OF assms(2-4)]]
  show ?thesis by blast
qed (blast intro: tick_paused [OF assms(1,5) _ assms(6)])

section \<open>Which signals reach the queue\<close>

text \<open>The numbers of the risk manager that a tick cannot change.\<close>

definition same_capital :: "risk_manager \<Rightarrow> risk_manager \<Rightarrow> bool" where
  "same_capital m m' \<longleftrightarrow>
     limits m' = limits m \<and> current_capital m' = current_capital m \<and> peak_capital m' = peak_capital m
     \<and> daily_pnl m' = daily_pnl m \<and> consecutive_losses m' = consecutive_losses m"

lemma same_capital_simps [simp]:
  "same_capital m m"
  "same_capital m (reset_hour_if_needed now m') = same_capital m m'"
  "same_capital m (record_trade_started now m') = same_capital m m'"
  "same_capital m (record_trade_not_started m') = same_capital m m'"
  by (simp_all add: same_capital_def risk_ops Let_def)

lemma same_capital_drawdown: "same_capital m m' \<Longrightarrow> drawdown_pct D m' = drawdown_pct D m"
  by (simp add: same_capital_def drawdown_pct_def)

lemma push_set: "push cfg now s q = (q', kept) \<Longrightarrow> set q' \<subseteq> insert (prioritized_signal_new now s) (set q)"
  using set_remove1_subset by (fastforce simp: push_def Let_def split: if_splits option.splits)

lemma push_length: "push cfg now s q = (q', kept) \<Longrightarrow> length q' \<le> length q + of_bool kept"
  by (auto simp: push_def Let_def length_remove1 split: if_splits option.splits)

lemma enqueue_simps [simp]:
  "bt_risk (enqueue T E i s b) =
     (let started = record_trade_started (te_start_now E i) (bt_risk b)
      in if snd (push (td_queue_config T) (te_push_now E i) s (wk_queue (bt_worker b))) then started else record_trade_not_started started)"
  "bt_worker (enqueue T E i s b) = (bt_worker b)\<lparr>wk_queue := fst (push (td_queue_config T) (te_push_now E i) s (wk_queue (bt_worker b)))\<rparr>"
  by (simp_all add: enqueue_def Let_def split: prod.split)

text \<open>An entry of the queue that was there before the tick, or that the tick vetted for one of its pairs.\<close>

definition vetted_entry ::
  "tick_deps \<Rightarrow> bot_tick_env \<Rightarrow> dec \<Rightarrow> string list \<Rightarrow> risk_manager \<Rightarrow> prioritized_signal \<Rightarrow> bool" where
  "vetted_entry T E sz pairs m0 p \<longleftrightarrow>
     (\<exists>i m g g' s0 mk. i < length pairs \<and> same_capital m0 m \<and> vetted T E i m (ps_signal p)
        \<and> generate (td_dec T) (te_gen E i) (pairs ! i) sz g = (g', Ok (Some s0, mk)) \<and> charged s0 (ps_signal p))"

definition only_vetted :: "tick_deps \<Rightarrow> bot_tick_env \<Rightarrow> dec \<Rightarrow> string list \<Rightarrow> bot \<Rightarrow> bot \<Rightarrow> bool" where
  "only_vetted T E sz pairs b0 b \<longleftrightarrow> same_capital (bt_risk b0) (bt_risk b)
     \<and> (\<forall>p \<in> set (wk_queue (bt_worker b)). p \<in> set (wk_queue (bt_worker b0)) \<or> vetted_entry T E sz pairs (bt_risk b0) p)"

lemma only_vetted_preamble: "preamble_stable E (only_vetted T E sz pairs b0)"
  by (simp add: only_vetted_def preamble_stable_def)

lemma only_vetted_enqueue:
  assumes "only_vetted T E sz pairs b0 b" "vetted_entry T E sz pairs (bt_risk b0) (prioritized_signal_new (te_push_now E i) s)"
  shows "only_vetted T E sz pairs b0 (enqueue T E i s (b\<lparr>bt_risk := reset_hour_if_needed now (bt_risk b)\<rparr>))"
proof -
  let ?q = "fst (push (td_queue_config T) (te_push_now E i) s (wk_queue (bt_worker b)))"
  have "set ?q \<subseteq> insert (prioritized_signal_new (te_push_now E i) s) (set (wk_queue (bt_worker b)))"
    using push_set by (metis prod.collapse)
  with assms show ?thesis unfolding only_vetted_def by (simp add: Let_def) blast
qed

lemma only_vetted_pair:
  assumes "i < length pairs"
  shows "pair_stable T E sz i (pairs ! i) (only_vetted T E sz pairs b0)"
proof -
  have "vetted_entry T E sz pairs (bt_risk b0) (prioritized_signal_new (te_push_now E i) s)"
    if "same_capital (bt_risk b0) m" "generate (td_dec T) (te_gen E i) (pairs ! i) sz g = (g', Ok (Some s0, mk))"
      "charged s0 s" "vetted T E i m s" for m g g' s0 mk s
    unfolding vetted_entry_def using assms that by (simp add: prioritized_signal_new_def) blast
  then show ?thesis
    unfolding pair_stable_def
    by (intro conjI allI impI only_vetted_enqueue) (auto simp: only_vetted_def)
qed

lemma vetted_facts:
  assumes "vetted T E i m s" "same_capital m0 m"
  shows "\<not> td_dry_run T" "td_min_profit_usd T \<le> expected_net_pnl s" "td_min_score T \<le> score s"
    "allowed (validate_signal (td_validator T) s (te_valid_now E i))"
    "let l = limits m0
     in notional_usd s \<le> min (max_trade_usd l) ABSOLUTE_MAX_TRADE_USD \<and> notional_usd s \<le> dmul (td_dec T) (current_capital m0) (max_trade_pct l)
        \<and> - max_daily_loss l < daily_pnl m0 \<and> drawdown_pct (td_dec T) m0 < max_drawdown_pct l
        \<and> consecutive_losses m0 < consecutive_loss_limit l \<and> ABSOLUTE_MIN_CAPITAL \<le> current_capital m0"
proof -
  obtain m' where "check_pre_trade (td_dec T) s (te_risk_now E i) m = (m', Allowed)"
    using assms(1) by (auto simp: vetted_def allowed_def prod_eq_iff)
  then have c: "check_pre_trade (td_dec T) s (te_risk_now E i) m = (reset_hour_if_needed (te_risk_now E i) m, Allowed)"
    by (metis check_pre_trade_Allowed_iff)
  have "same_capital m0 (reset_hour_if_needed (te_risk_now E i) m)" using assms(2) by simp
  with c same_capital_drawdown [OF this, of "td_dec T"] show "let l = limits m0
     in notional_usd s \<le> min (max_trade_usd l) ABSOLUTE_MAX_TRADE_USD \<and> notional_usd s \<le> dmul (td_dec T) (current_capital m0) (max_trade_pct l)
        \<and> - max_daily_loss l < daily_pnl m0 \<and> drawdown_pct (td_dec T) m0 < max_drawdown_pct l
        \<and> consecutive_losses m0 < consecutive_loss_limit l \<and> ABSOLUTE_MIN_CAPITAL \<le> current_capital m0"
    by (simp add: check_pre_trade_Allowed_iff same_capital_def Let_def)
qed (use assms(1) in \<open>simp_all add: vetted_def\<close>)

text \<open>
  C16: only vetted signals reach the queue.  A signal that a tick added to the queue was generated in this tick for
  one of the configured pairs, and differs from what the generator emitted only in its fees, net result and
  score; no pause was active, the circuit breaker was closed and the bot is not in a dry run; after the gas
  estimate its net result still reaches the minimum profit, the validator allowed it, its score reaches the minimum,
  and, with the capital and the losses that the risk manager had at the start of the tick, its notional is
  within the configured and the absolute trade limit and the share of capital, and no loss limit had been reached.
\<close>

theorem tick_enqueues_vetted:
  assumes "tick T E sz pairs b = Some (b', r)"
    and "p \<in> set (wk_queue (bt_worker b'))" "p \<notin> set (wk_queue (bt_worker b))"
  shows "tick_open T E b \<and> \<not> td_dry_run T
     \<and> (\<exists>i < length pairs. \<exists>g g' s0 mk. generate (td_dec T) (te_gen E i) (pairs ! i) sz g = (g', Ok (Some s0, mk))
          \<and> charged s0 (ps_signal p) \<and> allowed (validate_signal (td_validator T) (ps_signal p) (te_valid_now E i)))
     \<and> td_min_profit_usd T \<le> expected_net_pnl (ps_signal p) \<and> td_min_score T \<le> score (ps_signal p)
     \<and> (let m = bt_risk b; l = limits m
        in notional_usd (ps_signal p) \<le> min (max_trade_usd l) ABSOLUTE_MAX_TRADE_USD
           \<and> notional_usd (ps_signal p) \<le> dmul (td_dec T) (current_capital m) (max_trade_pct l)
           \<and> - max_daily_loss l < daily_pnl m \<and> drawdown_pct (td_dec T) m < max_drawdown_pct l
           \<and> consecutive_losses m < consecutive_loss_limit l \<and> ABSOLUTE_MIN_CAPITAL \<le> current_capital m)"
proof -
  have "only_vetted T E sz pairs b b'"
    by (rule tick_stable [OF only_vetted_preamble only_vetted_pair _ _ _ assms(1)]) (simp_all add: only_vetted_def)
  with assms(2,3) obtain i m g g' s0 mk where v: "i < length pairs" "same_capital (bt_risk b) m" "vetted T E i m (ps_signal p)"
    "generate (td_dec T) (te_gen E i) (pairs ! i) sz g = (g', Ok (Some s0, mk))" "charged s0 (ps_signal p)"
    unfolding only_vetted_def vetted_entry_def by blast
  have "tick_open T E b"
  proof (rule ccontr)
    assume "\<not> tick_open T E b"
    from tick_paused [OF _ _ this assms(1), where P = "\<lambda>x. wk_queue (bt_worker x) = wk_queue (bt_worker b)"] assms(2,3)
    show False by (simp add: preamble_stable_def)
  qed
  with v vetted_facts [OF v(3,2)] show ?thesis unfolding Let_def by blast
qed

text \<open>A sample bot: the sample market of the generator, a trade of at most 20 dollars, an empty queue.\<close>

definition sample_small_generator :: "(string \<rightharpoonup> instant) \<Rightarrow> signal_generator" where
  "sample_small_generator l =
     \<lparr>sg_fees = fee_structure_default\<lparr>gas_cost_usd := 0\<rparr>,
      sg_config = generator_config_default\<lparr>gc_min_profit_usd := 1 / 10\<rparr>, last_signal_time = l\<rparr>"

definition sample_small_point :: "dec \<Rightarrow> signal" where
  "sample_small_point x = (sample_point x)\<lparr>expected_fees := 2 * x / 5, expected_net_pnl := 98 * x / 5\<rparr>"

lemma sample_small_point_simps [simp]:
  "expected_net_pnl (sample_small_point x) = 98 * x / 5" "inventory_ok (sample_small_point x)" "within_limits (sample_small_point x)"
  by (simp_all add: sample_small_point_def)

lemma sample_small_evaluate:
  assumes "1 / 50 \<le> x" "x \<le> 10"
  shows "evaluate_size exact_ops (sample_gen_env now) (sample_small_generator l) i ''LINK/USDT'' x 1 = Ok (Some (sample_small_point x))"
  using assms
  by (simp add: evaluate_size_def sample_gen_env_def sample_small_generator_def fee_structure_default_def
      generator_config_default_def choose_direction_def spread_of_def BPS_SCALE_def breakdown_def check_inventory_def
      split_pair_def buffer_def get_effective_cex_balance_def get_effective_wallet_balance_def signal_new_def sample_small_point_def
      sample_point_def generate_id_def signal_ttl_or_default_def i64_max_def DEFAULT_SIGNAL_TTL_SECS_def Let_def)

lemma sample_small_generates:
  "\<exists>m. generate exact_ops (sample_gen_env now) ''LINK/USDT'' (1 / 5) (sample_small_generator Map.empty)
       = (sample_small_generator [''LINK/USDT'' \<mapsto> now], Ok (Some (sample_small_point (1 / 5)), Some m))"
proof -
  have f: "fetch_prices (sample_gen_env now) 0 ''LINK/USDT'' probe_size =
      Ok \<lparr>vp_cex_bid = 99, vp_cex_ask = 100, vp_dex_buy = 125, vp_dex_sell = 120\<rparr>" "emit_time (sample_gen_env now) = now"
    by (simp_all add: sample_gen_env_def)
  obtain m where m: "size_market exact_ops (sample_gen_env now) (sample_small_generator Map.empty) ''LINK/USDT'' (1 / 5)
      \<lparr>vp_cex_bid = 99, vp_cex_ask = 100, vp_dex_buy = 125, vp_dex_sell = 120\<rparr> = Ok m"
      "ms_size m = 1 / 5" "ms_quote_usd_price m = 1"
    by (simp add: size_market_def split_pair_def quote_usd_def stable_quotes_def sample_gen_env_def sample_small_generator_def
        generator_config_default_def max_inventory_size_def inventory_bound_def div_or_panic_def buffer_def
        get_effective_cex_balance_def get_effective_wallet_balance_def cap_size_def Let_def)
  have g: "grid_search exact_ops (sample_gen_env now) (sample_small_generator Map.empty) ''LINK/USDT'' (1 / 50) 1 grid_points (None, 0)
      = Ok (Some (sample_small_point (1 / 5)))"
    by (simp add: grid_points_def sample_small_evaluate)
  have "\<not> in_cooldown t ''LINK/USDT'' (sample_small_generator Map.empty)" for t
    by (simp add: in_cooldown_def sample_small_generator_def)
  moreover have "sample_small_generator Map.empty\<lparr>last_signal_time := (last_signal_time (sample_small_generator Map.empty))(pair \<mapsto> now)\<rparr>
      = sample_small_generator [pair \<mapsto> now]" for pair
    by (simp add: sample_small_generator_def)
  ultimately show ?thesis using f m(1) g by (simp add: generate_def m(2,3))
qed

definition sample_deps :: tick_deps where
  "sample_deps =
     \<lparr>td_dec = exact_ops, td_f64 = exact_f64, td_format = \<lparr>rf_plain = \<lambda>_. [], rf_two = \<lambda>_. [], rf_one = \<lambda>_. [], rf_whole = \<lambda>_. []\<rparr>,
      td_dry_run = False, td_validator = \<lparr>max_spread_bps = 3000, max_age_seconds = 5\<rparr>,
      td_base_fees = fee_structure_default\<lparr>gas_cost_usd := 0\<rparr>, td_gas = FixedGas, td_min_profit_usd = 1, td_min_score = 0,
      td_queue_config = \<lparr>max_size = 8, max_age = 5000000000\<rparr>\<rparr>"

definition sample_tick_env :: bot_tick_env where
  "sample_tick_env =
     \<lparr>te_pause_now = 0, te_breaker_now = 0, te_eth_price = Ok 2000, te_gen = \<lambda>_. sample_gen_env 0,
      te_signal_eth_price = \<lambda>_. Ok 2000, te_valid_now = \<lambda>_. 1, te_risk_now = \<lambda>_. 1, te_skew_order = \<lambda>_. [], te_skew_assets = \<lambda>_. [],
      te_book = \<lambda>_. Err (EmptyOrderBook []), te_start_now = \<lambda>_. 1, te_push_now = \<lambda>_. 1\<rparr>"

definition sample_bot :: bot where
  "sample_bot =
     \<lparr>bt_worker = \<lparr>wk_queue = [], wk_inventory = None, wk_in_flight = [], wk_sink = []\<rparr>,
      bt_executor = sample_executor False, bt_generator = sample_small_generator Map.empty,
      bt_scorer = signal_scorer_new scorer_config_default,
      bt_risk = risk_manager_new ((risk_limits_default exact_ops)\<lparr>max_trade_usd := 25\<rparr>) 100 0,
      bt_risk_pause = None, bt_rebalance_pause = None, bt_pnl = pnl_engine_new, bt_pnl_breaker = pnl_breaker_new 10 0,
      bt_halt = halt_coordinator_new None, bt_alerts = [], bt_chain = sample_world\<rparr>"

lemma sample_tick:
  "\<exists>b' p. tick sample_deps sample_tick_env (1 / 5) [''LINK/USDT''] sample_bot = Some (b', Ok ())
     \<and> wk_queue (bt_worker b') = [p] \<and> wk_in_flight (bt_worker b') = [] \<and> wk_sink (bt_worker b') = []
     \<and> wk_inventory (bt_worker b') = None
     \<and> bt_risk b' = (bt_risk sample_bot)\<lparr>trades_this_hour := 1, open_positions := 1\<rparr>
     \<and> ps_enqueued_at p = 1 \<and> expiry (ps_signal p) = 5000000000"
proof -
  obtain m where g: "generate exact_ops (sample_gen_env 0) ''LINK/USDT'' (1 / 5) (sample_small_generator Map.empty)
      = (sample_small_generator [''LINK/USDT'' \<mapsto> 0], Ok (Some (sample_small_point (1 / 5)), Some m))"
    using sample_small_generates by blast
  obtain x where x: "score_signal exact_ops (signal_scorer_new scorer_config_default) (sample_small_point (1 / 5)) [] None = Ok x" "0 \<le> x"
    using score_bounds by blast
  have f: "sample_small_generator Map.empty\<lparr>sg_fees := fee_structure_default\<lparr>gas_cost_usd := 0\<rparr>\<rparr> = sample_small_generator Map.empty"
    by (simp add: sample_small_generator_def)
  show ?thesis
    using x g
    by (simp add: tick_def trade_tick_def tick_pair_def vet_signal_def score_and_enqueue_def charge_gas_def bot_chain_def
        fixed_gas_never_fails seq_def ret_def update_def announce_resume_def generator_inventory_skews_def set_fees_def f
        sample_deps_def sample_tick_env_def sample_bot_def trading_pause_def check_pre_trade_def risk_manager_new_def
        risk_limits_default_def reset_hour_if_needed_def ONE_HOUR_def drawdown_pct_def safety_check_def absolute_limits
        allowed_def validate_signal_def age_seconds_def num_milliseconds_def sample_small_point_def sample_point_def is_open_at_def
        sample_executor_def circuit_breaker_new_def push_def record_trade_started_def enqueue_def prioritized_signal_new_def Let_def)
qed

theorem tick_enqueues_vetted_witness:
  "\<exists>b' p. tick sample_deps sample_tick_env (1 / 5) [''LINK/USDT''] sample_bot = Some (b', Ok ())
     \<and> p \<in> set (wk_queue (bt_worker b')) \<and> 1 \<le> expected_net_pnl (ps_signal p) \<and> notional_usd (ps_signal p) \<le> 25"
proof -
  obtain b' p where t: "tick sample_deps sample_tick_env (1 / 5) [''LINK/USDT''] sample_bot = Some (b', Ok ())"
    "wk_queue (bt_worker b') = [p]" using sample_tick by blast
  then have "p \<in> set (wk_queue (bt_worker b'))" "p \<notin> set (wk_queue (bt_worker sample_bot))" by (simp_all add: sample_bot_def)
  from tick_enqueues_vetted [OF t(1) this] t show ?thesis
    by (auto simp: sample_deps_def Let_def absolute_limits)
qed

section \<open>The bot as a state machine\<close>

text \<open>
  The tasks of the bot in any order: whole ticks and main-loop rounds, single pairs of a tick (so that other
  tasks may run between two pairs), the worker taking and completing signals, the completion consumer, halts from
  anywhere, and the rebalance task, which sets the rebalance pause and changes balances.
\<close>

inductive bot_step :: "tick_deps \<Rightarrow> bot \<Rightarrow> bot \<Rightarrow> bool" for T where
  ticks: "tick T E sz pairs b = Some (b', r) \<Longrightarrow> bot_step T b b'"
| pair: "tick_pair T E sz fees i pair b = Some (b', r) \<Longrightarrow> bot_step T b b'"
| round: "main_round T tolerance sz pairs L b = Some (b', c) \<Longrightarrow> bot_step T b b'"
| takes: "bot_step T b (b\<lparr>bt_worker := worker_take (td_dec T) (td_queue_config T) clk (bt_worker b)\<rparr>)"
| completes: "worker_complete (td_dec T) B io i (bt_worker b, bt_executor b) = (w, ex)
    \<Longrightarrow> bot_step T b (b\<lparr>bt_worker := w, bt_executor := ex\<rparr>)"
| consumes: "bot_step T b (consume (td_dec T) two rules today recv_time now b)"
| halts: "halt_step (bt_halt b) h \<Longrightarrow> bot_step T b (b\<lparr>bt_halt := h\<rparr>)"
| rebalances: "bot_step T b (b\<lparr>bt_rebalance_pause := why, bt_worker := (bt_worker b)\<lparr>wk_inventory := tracked\<rparr>\<rparr>)"

text \<open>Signals that were counted as started and are still somewhere: queued, in execution, or waiting to be settled.\<close>

definition pending :: "bot \<Rightarrow> nat" where
  "pending b = length (wk_queue (bt_worker b)) + length (wk_in_flight (bt_worker b)) + length (wk_sink (bt_worker b))"

definition bot_inv :: "risk_limits \<Rightarrow> bot \<Rightarrow> bool" where
  "bot_inv l b \<longleftrightarrow> risk_inv l (bt_risk b, False) \<and> pending b \<le> open_positions (bt_risk b)"

lemma bot_inv_frame [simp]:
  "bot_inv l (b\<lparr>bt_chain := w\<rparr>) = bot_inv l b" "bot_inv l (b\<lparr>bt_generator := g\<rparr>) = bot_inv l b"
  "bot_inv l (b\<lparr>bt_risk_pause := k\<rparr>) = bot_inv l b" "bot_inv l (b\<lparr>bt_alerts := as\<rparr>) = bot_inv l b"
  "bot_inv l (b\<lparr>bt_executor := ex\<rparr>) = bot_inv l b" "bot_inv l (b\<lparr>bt_halt := h\<rparr>) = bot_inv l b"
  "bot_inv l (b\<lparr>bt_rebalance_pause := k\<rparr>) = bot_inv l b" "bot_inv l (b\<lparr>bt_pnl := e\<rparr>) = bot_inv l b"
  "bot_inv l (b\<lparr>bt_pnl_breaker := pb\<rparr>) = bot_inv l b" "bot_inv l (b\<lparr>bt_scorer := sc\<rparr>) = bot_inv l b"
  "bot_inv l (bot_emit ev b) = bot_inv l b"
  by (simp_all add: bot_inv_def pending_def bot_emit_def)

lemma bot_inv_reset_hour: "bot_inv l b \<Longrightarrow> bot_inv l (b\<lparr>bt_risk := reset_hour_if_needed now (bt_risk b)\<rparr>)"
  unfolding bot_inv_def using reset_hour_inv [of l "bt_risk b" False now]
  by (simp add: pending_def) (simp add: reset_hour_if_needed_def)

lemma bot_inv_enqueue:
  assumes "bot_inv l b" "vetted T E i (bt_risk b) s"
  shows "bot_inv l (enqueue T E i s (b\<lparr>bt_risk := reset_hour_if_needed (te_risk_now E i) (bt_risk b)\<rparr>))"
proof -
  let ?m = "reset_hour_if_needed (te_risk_now E i) (bt_risk b)" let ?started = "record_trade_started (te_start_now E i) ?m"
  obtain q kept where q: "push (td_queue_config T) (te_push_now E i) s (wk_queue (bt_worker b)) = (q, kept)" by fastforce
  have "check_pre_trade (td_dec T) s (te_risk_now E i) (bt_risk b) = (?m, Allowed)"
    using assms(2) check_pre_trade_state [of "td_dec T" s "te_risk_now E i" "bt_risk b"]
    by (simp add: vetted_def allowed_def prod_eq_iff)
  from check_inv [OF _ this, of l False] assms(1) have m: "risk_inv l (?m, True)" by (simp add: bot_inv_def allowed_def)
  then have st: "risk_inv l (?started, False)" by (rule risk_step_inv [OF risk_step.start])
  then have ns: "risk_inv l (record_trade_not_started ?started, False)" by (rule risk_step_inv [OF risk_step.not_started])
  have "open_positions ?started = Suc (open_positions (bt_risk b))" by (simp add: risk_ops Let_def)
  with st ns assms(1) push_length [OF q] show ?thesis
    by (auto simp: bot_inv_def pending_def q Let_def record_trade_not_started_def)
qed

lemma bot_inv_preamble: "preamble_stable E (bot_inv l)"
  by (simp add: preamble_stable_def bot_inv_reset_hour)

lemma bot_inv_pair: "pair_stable T E sz i pair (bot_inv l)"
  by (simp add: pair_stable_def bot_inv_reset_hour bot_inv_enqueue)

lemma bot_inv_tick: "bot_inv l b \<Longrightarrow> tick T E sz pairs b = Some (b', r) \<Longrightarrow> bot_inv l b'"
  by (rule tick_stable [OF bot_inv_preamble bot_inv_pair]) simp_all

lemma pop_valid_length:
  "pop_valid cfg clk i q = (q', r) \<Longrightarrow> length q' + (case r of Some _ \<Rightarrow> 1 | None \<Rightarrow> 0) \<le> length q"
  using pop_valid_correct [where cfg = cfg and clk = clk and i = i and q = q] by (auto simp flip: size_mset split: option.splits)

lemma pending_take: "pending (b\<lparr>bt_worker := worker_take D cfg clk (bt_worker b)\<rparr>) \<le> pending b"
  by (auto simp: pending_def worker_take_def dest!: pop_valid_length split: prod.splits option.splits sum.splits)

lemma pending_complete:
  assumes "worker_complete D B io i (bt_worker b, bt_executor b) = (w, ex)"
  shows "pending (b\<lparr>bt_worker := w, bt_executor := ex\<rparr>) = pending b"
  using assms by (auto simp: worker_complete_def pending_def Let_def split: if_splits prod.splits)

text \<open>What the consumer does to the risk manager, and what it leaves alone.\<close>

lemma feed_loss_limits_frame [simp]:
  "bt_risk (feed_loss_limits D two today c net b) = record_trade_result D net (bt_risk b)"
  "bt_worker (feed_loss_limits D two today c net b) = bt_worker b"
  "bt_pnl (feed_loss_limits D two today c net b) = bt_pnl b"
  by (simp_all add: feed_loss_limits_def bot_emit_def Let_def)

lemma emits_frame [simp]:
  "bt_risk (fold bot_emit es b) = bt_risk b" "bt_worker (fold bot_emit es b) = bt_worker b"
  "bt_pnl (fold bot_emit es b) = bt_pnl b" "bt_halt (fold bot_emit es b) = bt_halt b"
  by (induction es arbitrary: b) (simp_all add: bot_emit_def)

lemma consume_context_frame:
  "wk_queue (bt_worker (consume_context D two rules today now c b)) = wk_queue (bt_worker b)
   \<and> wk_in_flight (bt_worker (consume_context D two rules today now c b)) = wk_in_flight (bt_worker b)
   \<and> wk_sink (bt_worker (consume_context D two rules today now c b)) = wk_sink (bt_worker b)"
  by (simp add: consume_context_def settle_execution_def Let_def split: outcome.split option.split)

lemma consume_context_risk:
  "bt_risk (consume_context D two rules today now c b) \<in>
     {bt_risk b, record_trade_cancelled (bt_risk b)} \<union> range (\<lambda>net. record_trade_result D net (bt_risk b))"
  by (auto simp: consume_context_def settle_execution_def Let_def split: outcome.split option.split)

lemma risk_inv_settled:
  assumes "risk_inv l (m, False)" "m' \<in> {m, record_trade_cancelled m} \<union> range (\<lambda>net. record_trade_result D net m)"
  shows "risk_inv l (m', False) \<and> open_positions m \<le> Suc (open_positions m')"
proof -
  have "risk_inv l (m', False)"
    using assms risk_step_inv [OF risk_step.cancelled] risk_step_inv [OF risk_step.result] by fastforce
  with assms(2) show ?thesis by (auto simp: risk_ops Let_def)
qed

lemma bot_inv_consume: "bot_inv l b \<Longrightarrow> bot_inv l (consume D two rules today recv_time now b)"
proof (cases "wk_sink (bt_worker b)")
  case (Cons msg msgs)
  assume inv: "bot_inv l b"
  let ?b = "b\<lparr>bt_worker := (bt_worker b)\<lparr>wk_sink := msgs\<rparr>\<rparr>" let ?c = "sink_context recv_time msg"
  from risk_inv_settled [OF _ consume_context_risk [of D two rules today now ?c ?b]] inv Cons
    consume_context_frame [of D two rules today now ?c ?b]
  show ?thesis by (fastforce simp: consume_def bot_inv_def pending_def)
qed (simp add: consume_def)

lemma bot_inv_sync: "bot_inv l b \<Longrightarrow> bot_inv l (balance_sync D tolerance S b)"
  by (simp add: balance_sync_def bot_inv_def pending_def Let_def split: option.split prod.split bool.split)

lemma bot_inv_round: "bot_inv l b \<Longrightarrow> main_round T tolerance sz pairs L b = Some (b', c) \<Longrightarrow> bot_inv l b'"
  by (auto simp: main_round_def finish_round_def seq_def attempt_def ret_def Let_def bot_inv_sync
      dest!: bot_inv_tick [rotated] split: if_splits option.splits outcome.splits prod.splits)

lemma bot_inv_step: "bot_step T b b' \<Longrightarrow> bot_inv l b \<Longrightarrow> bot_inv l b'"
proof (induction rule: bot_step.induct)
  case (pair E sz fees i pair b b' r)
  from tripleD [OF tick_pair_stable [OF bot_inv_pair] pair(2) pair(1)] show ?case .
next
  case (takes b clk)
  then show ?case using le_trans [OF pending_take [where b = b and D = "td_dec T" and cfg = "td_queue_config T" and clk = clk]] by (simp add: bot_inv_def)
next
  case (completes B io i b w ex)
  then show ?case using pending_complete [OF completes(1)] by (simp add: bot_inv_def)
next
  case (rebalances b why inv)
  then show ?case by (simp add: bot_inv_def pending_def)
qed (auto intro: bot_inv_tick bot_inv_round bot_inv_consume)

definition bot_start :: "risk_limits \<Rightarrow> dec \<Rightarrow> bot \<Rightarrow> bool" where
  "bot_start l cap b \<longleftrightarrow> (\<exists>now. bt_risk b = risk_manager_new l cap now) \<and> pending b = 0"

text \<open>
  C17: the bot never has more work under way than its limit.  Whatever the tasks do and in whatever order, the signals
  that are queued, in execution or waiting to be settled are at most the open positions that the
  risk manager counts, and those are at most the configured maximum; the trades counted for the hour stay
  within the configured and the absolute hourly limit.  With the default limit of one position at most one
  execution is in flight.
\<close>

theorem pending_within_limits:
  assumes "bot_start l cap b" "(bot_step T)\<^sup>*\<^sup>* b b'"
  shows "length (wk_queue (bt_worker b')) + length (wk_in_flight (bt_worker b')) + length (wk_sink (bt_worker b'))
       \<le> open_positions (bt_risk b')
     \<and> open_positions (bt_risk b') \<le> max_open_positions l
     \<and> trades_this_hour (bt_risk b') \<le> min (max_trades_per_hour l) ABSOLUTE_MAX_TRADES_PER_HOUR"
proof -
  from assms(2) have "bot_inv l b'"
  proof (induction rule: rtranclp_induct)
    case base
    from assms(1) show ?case by (auto simp: bot_inv_def bot_start_def risk_inv_new)
  qed (blast intro: bot_inv_step)
  then show ?thesis by (simp add: bot_inv_def risk_inv_def pending_def)
qed

theorem pending_within_limits_witness:
  "\<exists>b'. (bot_step sample_deps)\<^sup>*\<^sup>* sample_bot b' \<and> length (wk_queue (bt_worker b')) = 1
     \<and> open_positions (bt_risk b') \<le> 1 \<and> trades_this_hour (bt_risk b') \<le> 20"
proof -
  obtain b' p where t: "tick sample_deps sample_tick_env (1 / 5) [''LINK/USDT''] sample_bot = Some (b', Ok ())"
    "wk_queue (bt_worker b') = [p]" using sample_tick by blast
  then have s: "(bot_step sample_deps)\<^sup>*\<^sup>* sample_bot b'" by (blast intro: bot_step.ticks)
  have "bot_start ((risk_limits_default exact_ops)\<lparr>max_trade_usd := 25\<rparr>) 100 sample_bot"
    by (auto simp: bot_start_def sample_bot_def pending_def)
  from pending_within_limits [OF this s] s t(2) show ?thesis by (auto simp: risk_limits_default_def)
qed

section \<open>A lost signal\<close>

text \<open>All positions counted as open, but nothing left that could close one.\<close>

definition wedged :: "bot \<Rightarrow> bool" where
  "wedged b \<longleftrightarrow> pending b = 0 \<and> max_open_positions (limits (bt_risk b)) \<le> open_positions (bt_risk b)"

lemma wedged_frame [simp]:
  "wedged (b\<lparr>bt_chain := w\<rparr>) = wedged b" "wedged (b\<lparr>bt_generator := g\<rparr>) = wedged b"
  "wedged (b\<lparr>bt_risk_pause := k\<rparr>) = wedged b" "wedged (b\<lparr>bt_alerts := as\<rparr>) = wedged b"
  "wedged (b\<lparr>bt_executor := ex\<rparr>) = wedged b" "wedged (b\<lparr>bt_halt := h\<rparr>) = wedged b"
  "wedged (bot_emit ev b) = wedged b"
  "wedged (b\<lparr>bt_risk := reset_hour_if_needed now (bt_risk b)\<rparr>) = wedged b"
  by (simp_all add: wedged_def pending_def bot_emit_def reset_hour_if_needed_def)

lemma wedged_not_vetted: "wedged b \<Longrightarrow> \<not> vetted T E i (bt_risk b) s"
  by (auto simp: vetted_def allowed_def wedged_def check_pre_trade_def reset_hour_if_needed_def Let_def)

lemma wedged_pair: "pair_stable T E sz i pair wedged"
  by (auto simp: pair_stable_def dest: wedged_not_vetted)

lemma wedged_tick: "wedged b \<Longrightarrow> tick T E sz pairs b = Some (b', r) \<Longrightarrow> wedged b'"
  by (rule tick_stable [OF _ wedged_pair]) (simp_all add: preamble_stable_def)

lemma wedged_sync: "wedged b \<Longrightarrow> wedged (balance_sync D tolerance S b)"
  by (simp add: balance_sync_def wedged_def pending_def Let_def split: option.split prod.split bool.split)

lemma wedged_round: "wedged b \<Longrightarrow> main_round T tolerance sz pairs L b = Some (b', c) \<Longrightarrow> wedged b'"
  by (auto simp: main_round_def finish_round_def seq_def attempt_def ret_def Let_def wedged_sync
      dest!: wedged_tick [rotated] split: if_splits option.splits outcome.splits prod.splits)

lemma wedged_consume: "wedged b \<Longrightarrow> consume D two rules today recv_time now b = b"
  by (simp add: wedged_def pending_def consume_def)

lemma wedged_step: "bot_step T b b' \<Longrightarrow> wedged b \<Longrightarrow> wedged b'"
proof (induction rule: bot_step.induct)
  case (pair E sz fees i pair b b' r)
  from tripleD [OF tick_pair_stable [OF wedged_pair] pair(2) pair(1)] show ?case .
next
  case (takes b clk)
  then show ?case using pending_take [where b = b and D = "td_dec T" and cfg = "td_queue_config T" and clk = clk]
    by (simp add: wedged_def)
next
  case (completes B io i b w ex)
  then show ?case using pending_complete [OF completes(1)] by (simp add: wedged_def)
next
  case (rebalances b why tracked)
  then show ?case by (simp add: wedged_def pending_def)
qed (auto intro: wedged_tick wedged_round simp: wedged_consume)

text \<open>
  C28: a lost signal stops the bot for good.  A position is counted as open when its signal is pushed, and only
  the completion of an execution closes it; a signal that \<open>pop_valid\<close> drops because it is stale is never
  completed.  If the last signal under way is dropped while the open positions are at their limit (with
  the default limit of one: any dropped signal), then from there on, whatever the tasks do, nothing is ever
  queued, executed or settled again: every tick is paused by a position that does not exist.
\<close>

theorem stale_signal_wedges_bot:
  assumes "wk_queue (bt_worker b) = [p]" "wk_in_flight (bt_worker b) = []" "wk_sink (bt_worker b) = []"
    and "max_open_positions (limits (bt_risk b)) \<le> open_positions (bt_risk b)"
    and "stale (td_queue_config T) (clk 0) p"
    and "(bot_step T)\<^sup>*\<^sup>* (b\<lparr>bt_worker := worker_take (td_dec T) (td_queue_config T) clk (bt_worker b)\<rparr>) b'"
  shows "wk_queue (bt_worker b') = [] \<and> wk_in_flight (bt_worker b') = [] \<and> wk_sink (bt_worker b') = []
     \<and> \<not> allowed (snd (trading_pause (td_dec T) now (bt_risk b')))"
proof -
  have "pop_valid (td_queue_config T) clk 0 [p] = ([], None)"
    using assms(5) by (simp add: pop_valid.simps [of _ _ _ "[p]"] pop_valid.simps [of _ _ _ "[]"])
  with assms(1-4) have w: "wedged (b\<lparr>bt_worker := worker_take (td_dec T) (td_queue_config T) clk (bt_worker b)\<rparr>)"
    by (simp add: wedged_def pending_def worker_take_def)
  from assms(6) have "wedged b'" by (induction rule: rtranclp_induct) (auto intro: w wedged_step)
  then show ?thesis
    by (auto simp: wedged_def pending_def trading_pause_def allowed_def reset_hour_if_needed_def Let_def)
qed

theorem stale_signal_wedges_bot_witness:
  "\<exists>b p. (bot_step sample_deps)\<^sup>*\<^sup>* sample_bot b \<and> wk_queue (bt_worker b) = [p]
     \<and> (\<forall>b'. (bot_step sample_deps)\<^sup>*\<^sup>* (b\<lparr>bt_worker := worker_take exact_ops (td_queue_config sample_deps)
              (\<lambda>_. (6000000001, 6000000001)) (bt_worker b)\<rparr>) b' \<longrightarrow> wk_in_flight (bt_worker b') = [])"
proof -
  obtain b p where t: "tick sample_deps sample_tick_env (1 / 5) [''LINK/USDT''] sample_bot = Some (b, Ok ())"
    "wk_queue (bt_worker b) = [p]" "wk_in_flight (bt_worker b) = []" "wk_sink (bt_worker b) = []"
    "bt_risk b = (bt_risk sample_bot)\<lparr>trades_this_hour := 1, open_positions := 1\<rparr>"
    "ps_enqueued_at p = 1" using sample_tick by blast
  have m: "max_open_positions (limits (bt_risk b)) \<le> open_positions (bt_risk b)"
    by (simp add: t(5) sample_bot_def risk_manager_new_def risk_limits_default_def)
  have s: "stale (td_queue_config sample_deps) ((\<lambda>_. (6000000001, 6000000001)) 0) p"
    by (simp add: stale_def sample_deps_def t(6) duration_since_def)
  have d: "td_dec sample_deps = exact_ops" by (simp add: sample_deps_def)
  from stale_signal_wedges_bot [OF t(2-4) m s] have
    "wk_in_flight (bt_worker b') = []" if "(bot_step sample_deps)\<^sup>*\<^sup>* (b\<lparr>bt_worker := worker_take exact_ops (td_queue_config sample_deps)
              (\<lambda>_. (6000000001, 6000000001)) (bt_worker b)\<rparr>) b'" for b'
    using that by (simp add: d)
  moreover have "(bot_step sample_deps)\<^sup>*\<^sup>* sample_bot b" using t(1) by (blast intro: bot_step.ticks)
  ultimately show ?thesis using t(2) by blast
qed

section \<open>Settling executions\<close>

text \<open>
  C18: every execution is settled once, and losses stop the bot.  When the consumer receives what
  \<open>execute\<close> returned for a signal with a well-formed pair, it closes exactly one position; a trade that is done enters the ledger
  and its net result, which is always known, is added to the daily result and the capital; a trade that is not done
  changes neither.  If the result pushes the daily breaker over its limit, or the capital below the absolute
  minimum, the bot is halted.
\<close>

theorem completion_settles_once:
  assumes "execute D B io s ex = (ex', c, h)" "wk_sink (bt_worker b) = SinkCompleted c # msgs"
    and "split_pair_symbols (sig_pair s) = Inr (base, quote)" "b' = consume D two rules today recv_time now b"
  shows "wk_sink (bt_worker b') = msgs \<and> open_positions (bt_risk b') = open_positions (bt_risk b) - 1
     \<and> (if ctx_state c = Done
        then \<exists>net. actual_net_pnl c = Some net
           \<and> daily_pnl (bt_risk b') = dadd D (daily_pnl (bt_risk b)) net
           \<and> current_capital (bt_risk b') = dadd D (current_capital (bt_risk b)) net
           \<and> bt_pnl b' = bt_pnl b @ [execution_to_arb_record D now c]
           \<and> (halted (record_pnl_at D net today (bt_pnl_breaker b)) \<and> \<not> halted (bt_pnl_breaker b)
                \<or> current_capital (bt_risk b') < ABSOLUTE_MIN_CAPITAL \<longrightarrow> halted_flag (bt_halt b'))
        else daily_pnl (bt_risk b') = daily_pnl (bt_risk b) \<and> current_capital (bt_risk b') = current_capital (bt_risk b)
           \<and> bt_pnl b' = bt_pnl b \<and> bt_halt b' = bt_halt b)"
proof -
  note fin = execute_finished [OF assms(1)]
  have sp: "split_pair (sig_pair (ctx_signal c)) = Ok (base, quote)"
    using fin assms(3) by (simp add: finished_def split_pair_def)
  have net: "\<exists>net. actual_net_pnl c = Some net" if "ctx_state c = Done" using fin that unfolding done_ok_def by auto
  let ?b = "b\<lparr>bt_worker := (bt_worker b)\<lparr>wk_sink := msgs, wk_inventory := map_option (consumer_release D (ctx_signal c) base quote)
       (wk_inventory (bt_worker b))\<rparr>, bt_scorer := record_result (sig_pair (ctx_signal c)) (is_filled (ctx_state c)) (bt_scorer b)\<rparr>"
  have run: "b' = fold bot_emit (evaluate_execution c rules) (settle_execution D two today now c ?b)"
    using assms(2,4) sp by (simp add: consume_def sink_context_def consume_context_def Let_def)
  show ?thesis
  proof (cases "ctx_state c = Done")
    case True
    with net obtain x where x: "actual_net_pnl c = Some x" by blast
    have "halted (record_pnl_at D x today (bt_pnl_breaker b)) \<and> \<not> halted (bt_pnl_breaker b)
        \<or> current_capital (record_trade_result D x (bt_risk b)) < ABSOLUTE_MIN_CAPITAL
        \<Longrightarrow> halted_flag (bt_halt (feed_loss_limits D two today c x ?b))"
      by (auto simp: feed_loss_limits_def bot_emit_def is_halted_def is_below_absolute_min_capital_def halted_flag_def halt_def Let_def)
    with True x run show ?thesis
      by (auto simp: settle_execution_def is_filled_def record_trade_result_def record_arb_def Let_def)
  next
    case False
    with run show ?thesis by (simp add: settle_execution_def is_filled_def record_trade_cancelled_def)
  qed
qed

theorem completion_settles_once_witness:
  "\<exists>ex' c h. execute exact_ops (sample_legs (Completed (leg_fill_new Accepted 3 2 None None))) sample_io sample_signal (sample_executor False)
       = (ex', c, h)
     \<and> (let b = sample_bot\<lparr>bt_worker := (bt_worker sample_bot)\<lparr>wk_sink := [SinkCompleted c]\<rparr>,
                bt_risk := (bt_risk sample_bot)\<lparr>open_positions := 1\<rparr>\<rparr>
        in open_positions (bt_risk (consume exact_ops (\<lambda>_. []) alert_rules_default 0 40 40 b)) = 0
           \<and> bt_pnl (consume exact_ops (\<lambda>_. []) alert_rules_default 0 40 40 b) \<noteq> [])"
proof -
  let ?B = "sample_legs (Completed (leg_fill_new Accepted 3 2 None None))"
  obtain ex' c h where e: "execute exact_ops ?B sample_io sample_signal (sample_executor False) = (ex', c, h)"
    by (metis surj_pair)
  have "ctx_state (fst (snd (execute exact_ops ?B sample_io sample_signal (sample_executor False)))) = Done"
    by (simp add: sample_run close_def complete_with_actuals_def split: prod.split)
  with e have "ctx_state c = Done" by simp
  let ?b = "sample_bot\<lparr>bt_worker := (bt_worker sample_bot)\<lparr>wk_sink := [SinkCompleted c]\<rparr>,
                bt_risk := (bt_risk sample_bot)\<lparr>open_positions := 1\<rparr>\<rparr>"
  have sp: "split_pair_symbols (sig_pair sample_signal) = Inr (''ETH'', ''USDT'')"
    by (simp add: split_pair_symbols_def sample_signal_def)
  have sink: "wk_sink (bt_worker ?b) = SinkCompleted c # []" by simp
  from completion_settles_once [OF e sink sp refl, of "\<lambda>_. []" alert_rules_default 0 40 40] e \<open>ctx_state c = Done\<close>
  show ?thesis by (auto simp: Let_def)
qed

section \<open>Inventory released twice\<close>

lemma release_all_pair:
  assumes "ir_venue r1 \<noteq> ir_venue r2" "balances t (ir_venue r1, ir_asset r1) = Some e1" "balances t (ir_venue r2, ir_asset r2) = Some e2"
  shows "release_all exact_ops [r1, r2] t = t\<lparr>balances := (balances t)
      ((ir_venue r1, ir_asset r1) \<mapsto> e1\<lparr>vb_reserved := max 0 (vb_reserved e1 - ir_amount r1)\<rparr>,
       (ir_venue r2, ir_asset r2) \<mapsto> e2\<lparr>vb_reserved := max 0 (vb_reserved e2 - ir_amount r2)\<rparr>)\<rparr>"
  using assms by (simp add: release_all_def release_ir_def release_def max_def)


text \<open>Two executions of the same pair, each holding 4 USDT and 2 ETH.\<close>

definition sample_claims :: "inventory_reservation list" where
  "sample_claims =
     [\<lparr>ir_venue = venue.Binance, ir_asset = ''USDT'', ir_amount = 4\<rparr>, \<lparr>ir_venue = Wallet, ir_asset = ''ETH'', ir_amount = 2\<rparr>]"

definition sample_claimed_bot :: bot where
  "sample_claimed_bot = sample_bot\<lparr>bt_worker :=
     \<lparr>wk_queue = [],
      wk_inventory = Some \<lparr>balances = [(venue.Binance, ''USDT'') \<mapsto> \<lparr>vb_free = 1000, vb_locked = 0, vb_reserved = 8\<rparr>,
         (Wallet, ''ETH'') \<mapsto> \<lparr>vb_free = 10, vb_locked = 0, vb_reserved = 4\<rparr>], inv_venues = [venue.Binance, Wallet], chain_id = 1\<rparr>,
      wk_in_flight = [(sample_signal, sample_claims), (sample_signal\<lparr>signal_id := ''other''\<rparr>, sample_claims)], wk_sink = []\<rparr>\<rparr>"


section \<open>Balance verification\<close>

lemma is_dec_minus: "is_dec x \<Longrightarrow> is_dec (- x)"
  unfolding is_dec_iff by (metis abs_minus_cancel minus_divide_left of_int_minus)

text \<open>Upper-case asset codes, none of which is WETH already.\<close>

definition plain_assets :: "(string \<times> normalized_balance) list \<Rightarrow> bool" where
  "plain_assets bs \<longleftrightarrow> distinct (map fst bs) \<and> (\<forall>a \<in> set (map fst bs). to_uppercase a = a \<and> a \<noteq> ''WETH'')"

lemma update_from_cex_untouched:
  assumes "k \<notin> cex_key (chain_id t) ` fst ` set bs"
  shows "balances (update_from_cex v bs t) (v, k) = None"
proof -
  have "fold (\<lambda>(asset, nb) m. m((v, cex_key c asset) \<mapsto> f asset nb)) bs m (v, k) = m (v, k)"
    if "k \<notin> cex_key c ` fst ` set bs" for c m and f :: "string \<Rightarrow> normalized_balance \<Rightarrow> venue_balance"
    using that by (induction bs arbitrary: m) auto
  from this [of "chain_id t"] assms show ?thesis
    by (simp add: update_from_cex_def drop_venue_def)
qed

lemma canonical_balances_hit:
  assumes "plain_assets bs" "(''ETH'', nb) \<in> set bs"
  shows "(''WETH'', nb) \<in> set (canonical_balances bs)"
proof -
  let ?cs = "rev (map (\<lambda>(a, nb). (canonicalize_asset a, nb)) bs)"
  have c: "canonicalize_asset a = ''WETH'' \<longleftrightarrow> a = ''ETH''" if "a \<in> fst ` set bs" for a
    using that assms(1) by (auto simp: plain_assets_def canonicalize_asset_def Let_def)
  have "map_of ?cs ''WETH'' = Some nb"
  proof -
    have "x = nb" if "(''WETH'', x) \<in> set ?cs" for x
    proof -
      from that obtain a where a: "(a, x) \<in> set bs" "canonicalize_asset a = ''WETH''" by auto
      with c have "a = ''ETH''" by force
      with a(1) assms show ?thesis by (auto simp: plain_assets_def dest: eq_key_imp_eq_value)
    qed
    moreover have "(''WETH'', nb) \<in> set ?cs" using assms(2) by (force simp: canonicalize_asset_def to_uppercase_def upper_char_def)
    ultimately show ?thesis using map_of_SomeD [of ?cs "''WETH''"] weak_map_of_SomeI [of "''WETH''" nb ?cs] by blast
  qed
  then show ?thesis unfolding canonical_balances_def by (metis map_of_SomeD map_of_clearjunk)
qed

text \<open>
  An ETH balance stops the bot on every chain but Arbitrum.  The verification renames ETH to WETH on every chain, the
  tracker it compares with does so only on Arbitrum.  With the verification on, the synchronisation of an exchange
  account that holds ETH therefore finds a mismatch with what it has just stored, whatever the tolerance, and halts the bot.
\<close>

lemma eth_balance_halts_bot:
  assumes "wk_inventory (bt_worker b) = Some t" "chain_id t \<noteq> ARBITRUM_CHAIN_ID" "decimal_arith D"
    and "se_balances S = Ok bs" "se_verify_balances S = Ok bs" "plain_assets bs"
    and "(''ETH'', nb) \<in> set bs" "is_dec (dadd D (nb_free nb) (nb_locked nb))" "0 < dadd D (nb_free nb) (nb_locked nb)"
  shows "halted_flag (bt_halt (balance_sync D (Some tol) S b))"
proof -
  let ?t = "update_from_cex venue.Binance bs t" let ?x = "dadd D (nb_free nb) (nb_locked nb)"
  have "''WETH'' \<notin> cex_key (chain_id t) ` fst ` set bs"
    using assms(2,6) by (auto simp: cex_key_def plain_assets_def)
  then have none: "balances ?t (venue.Binance, ''WETH'') = None" by (rule update_from_cex_untouched)
  have sub: "dsub D 0 ?x = - ?x"
    using decimal_arith.sub_exact [OF assms(3), of 0 ?x] assms(8) is_dec_minus by simp
  have "check_balance D venue.Binance tol ?t (''WETH'', ?x) \<noteq> None"
    using none sub assms(9) by (simp add: check_balance_def get_total_def Let_def)
  moreover have "(''WETH'', ?x) \<in> set (map (\<lambda>(a, nb). (a, dadd D (nb_free nb) (nb_locked nb))) (canonical_balances bs))"
    using canonical_balances_hit [OF assms(6,7)] by force
  ultimately have "verify_balances D venue.Binance (map (\<lambda>(a, nb). (a, dadd D (nb_free nb) (nb_locked nb))) (canonical_balances bs)) tol ?t \<noteq> []"
    unfolding verify_balances_def by (force simp: List.map_filter_def filter_empty_conv)
  then show ?thesis
    using assms(1,4,5)
    by (simp add: balance_sync_def sync_cex_balance_def verify_cex_balance_def halted_flag_def halt_def Let_def)
qed

lemma eth_balance_halts_bot_witness:
  "halted_flag (bt_halt (balance_sync exact_ops (Some 5)
     \<lparr>se_balances = Ok [(''ETH'', \<lparr>nb_free = 1, nb_locked = 0, nb_total = 1\<rparr>)],
      se_verify_balances = Ok [(''ETH'', \<lparr>nb_free = 1, nb_locked = 0, nb_total = 1\<rparr>)], se_wallet = None\<rparr>
     sample_claimed_bot))"
  by (rule eth_balance_halts_bot [where t = "the (wk_inventory (bt_worker sample_claimed_bot))"
        and bs = "[(''ETH'', \<lparr>nb_free = 1, nb_locked = 0, nb_total = 1\<rparr>)]" and nb = "\<lparr>nb_free = 1, nb_locked = 0, nb_total = 1\<rparr>"])
    (simp_all add: sample_claimed_bot_def ARBITRUM_CHAIN_ID_def exact_ops.decimal_arith_axioms plain_assets_def
      to_uppercase_def upper_char_def)

end
