(* ===== verification/Address_Book.thy ===== *)
theory Address_Book
  imports Swap_Encoding Rate_Limiter
begin

text \<open>
  \<open>config/address_book.rs\<close>: the DEX address book of the command line, its parsing, and the checks that a live run makes on
  the pairs it is going to trade.  The JSON reader is not modelled: the raw book is its result, in the order of
  its \<open>BTreeMap\<close>.  \<open>H160::from_str\<close> of ethers is the parameter \<open>parse\<close>.
\<close>

datatype config_error = ConfigText string | ConfigCore core_error

record address_book_entry =
  be_base :: string
  be_base_decimals :: nat
  be_quote :: string
  be_quote_decimals :: nat
  be_pool :: "string option"
  be_pool_type :: string
  be_v3_fee :: "nat option"
  be_v3_path :: "string list option"
  be_v3_fees :: "nat list option"
  be_quoter :: "string option"
  be_quoter_type :: string

type_synonym raw_address_book = "(string \<times> address_book_entry) list"

type_synonym address_parser = "string \<Rightarrow> address option"

record parsed_pair =
  pp_pair :: string
  pp_base_symbol :: string
  pp_quote_symbol :: string
  pp_base :: address
  pp_base_decimals :: nat
  pp_quote :: address
  pp_quote_decimals :: nat
  pp_pool :: "address option"
  pp_pool_kind :: dex_pool_kind
  pp_v3_fee :: "nat option"
  pp_v3_path :: "address list option"
  pp_v3_fees :: "nat list option"
  pp_quoter :: "address option"
  pp_quoter_type :: string

record token_config =
  tc_address :: address
  tc_decimals :: nat

section \<open>Parsing\<close>

definition default_pool_type :: string where "default_pool_type = ''v2''"

definition default_quoter_type :: string where "default_quoter_type = ''quoter_v2''"

definition pool_kind_parse :: "string \<Rightarrow> string \<Rightarrow> config_error + dex_pool_kind" where
  "pool_kind_parse pair raw =
     (let k = lower raw
      in if k = ''v2'' then Inr PoolV2 else if k = ''v3'' then Inr PoolV3
         else Inl (ConfigText (''pair '' @ [CHR 0x27] @ pair @ [CHR 0x27] @ '' has unsupported pool_type '' @ [CHR 0x27] @ k @ [CHR 0x27]
            @ '', expected '' @ [CHR 0x27] @ ''v2'' @ [CHR 0x27] @ '' or '' @ [CHR 0x27] @ ''v3'' @ [CHR 0x27])))"

definition pool_kind_str :: "dex_pool_kind \<Rightarrow> string" where
  "pool_kind_str k = (case k of PoolV2 \<Rightarrow> ''v2'' | PoolV3 \<Rightarrow> ''v3'')"

definition config_bind :: "config_error + 'a \<Rightarrow> ('a \<Rightarrow> config_error + 'b) \<Rightarrow> config_error + 'b" where
  "config_bind r f = (case r of Inl e \<Rightarrow> Inl e | Inr a \<Rightarrow> f a)"

definition address_new :: "address_parser \<Rightarrow> string \<Rightarrow> config_error + address" where
  "address_new parse raw =
     (case parse (trim raw) of Some a \<Rightarrow> Inr a | None \<Rightarrow> Inl (ConfigCore (InvalidAddress (trim raw))))"

definition optional_address :: "address_parser \<Rightarrow> string option \<Rightarrow> config_error + address option" where
  "optional_address parse raw =
     (case raw of None \<Rightarrow> Inr None | Some s \<Rightarrow> config_bind (address_new parse s) (\<lambda>a. Inr (Some a)))"

fun parse_path :: "address_parser \<Rightarrow> string list \<Rightarrow> config_error + address list" where
  "parse_path parse [] = Inr []"
| "parse_path parse (s # ss) =
     config_bind (address_new parse s) (\<lambda>a. config_bind (parse_path parse ss) (\<lambda>as. Inr (a # as)))"

definition parse_optional_v3_path :: "address_parser \<Rightarrow> string list option \<Rightarrow> config_error + address list option" where
  "parse_optional_v3_path parse raw =
     (case raw of None \<Rightarrow> Inr None | Some path \<Rightarrow> config_bind (parse_path parse path) (\<lambda>as. Inr (Some as)))"

definition config_symbols :: "string \<Rightarrow> config_error + string \<times> string" where
  "config_symbols pair = (case split_pair_symbols pair of Inl e \<Rightarrow> Inl (ConfigCore e) | Inr bq \<Rightarrow> Inr bq)"

definition parse_entry :: "address_parser \<Rightarrow> string \<times> address_book_entry \<Rightarrow> config_error + parsed_pair" where
  "parse_entry parse = (\<lambda>(pair, e).
     config_bind (config_symbols pair) (\<lambda>(base_symbol, quote_symbol).
     config_bind (address_new parse (be_base e)) (\<lambda>base.
     config_bind (address_new parse (be_quote e)) (\<lambda>quote.
     config_bind (optional_address parse (be_pool e)) (\<lambda>pool.
     config_bind (pool_kind_parse pair (be_pool_type e)) (\<lambda>kind.
     config_bind (parse_optional_v3_path parse (be_v3_path e)) (\<lambda>path.
     config_bind (optional_address parse (be_quoter e)) (\<lambda>quoter.
       Inr \<lparr>pp_pair = pair, pp_base_symbol = to_uppercase base_symbol, pp_quote_symbol = to_uppercase quote_symbol,
            pp_base = base, pp_base_decimals = be_base_decimals e, pp_quote = quote, pp_quote_decimals = be_quote_decimals e,
            pp_pool = pool, pp_pool_kind = kind, pp_v3_fee = be_v3_fee e, pp_v3_path = path, pp_v3_fees = be_v3_fees e,
            pp_quoter = quoter, pp_quoter_type = be_quoter_type e\<rparr>))))))))"

fun parse_address_book :: "address_parser \<Rightarrow> raw_address_book \<Rightarrow> config_error + parsed_pair list" where
  "parse_address_book parse [] = Inr []"
| "parse_address_book parse (x # xs) =
     config_bind (parse_entry parse x) (\<lambda>p. config_bind (parse_address_book parse xs) (\<lambda>ps. Inr (p # ps)))"

section \<open>Checks of a live run\<close>

definition quoted :: "string \<Rightarrow> string" where
  "quoted s = [CHR 0x27] @ s @ [CHR 0x27]"

fun selected_pairs :: "parsed_pair list \<Rightarrow> string list \<Rightarrow> config_error + parsed_pair list" where
  "selected_pairs pairs [] = Inr []"
| "selected_pairs pairs (wanted # rest) =
     (case find (\<lambda>p. pp_pair p = wanted) pairs of
        None \<Rightarrow> Inl (ConfigText (''live execution pair '' @ quoted wanted @ '' missing from --dex-address-book''))
      | Some p \<Rightarrow> config_bind (selected_pairs pairs rest) (\<lambda>ps. Inr (p # ps)))"

definition validate_v3_route :: "parsed_pair \<Rightarrow> config_error + unit" where
  "validate_v3_route p =
     (if pp_pool_kind p \<noteq> PoolV3 then Inr ()
      else case (pp_v3_path p, pp_v3_fees p) of
             (Some path, Some fees) \<Rightarrow>
               (if length path < 2
                then Inl (ConfigText (''live execution pair '' @ quoted (pp_pair p) @ '' has v3_path with fewer than 2 tokens''))
                else if length fees + 1 \<noteq> length path
                then Inl (ConfigText (''live execution pair '' @ quoted (pp_pair p) @ '' has v3_fees length '' @ show_nat (length fees)
                       @ '', expected '' @ show_nat (length path - 1) @ '' for v3_path length '' @ show_nat (length path)))
                else if \<not> route_matches path (pp_base p) (pp_quote p) \<and> \<not> route_matches path (pp_quote p) (pp_base p)
                then Inl (ConfigText (''live execution pair '' @ quoted (pp_pair p)
                       @ '' v3_path endpoints must match pair base/quote token addresses''))
                else Inr ())
           | (None, None) \<Rightarrow> Inr ()
           | _ \<Rightarrow> Inl (ConfigText (''live execution pair '' @ quoted (pp_pair p)
                    @ '' uses V3 route but must provide both v3_path and v3_fees'')))"

fun validate_selected_pool_compatibility :: "parsed_pair list \<Rightarrow> config_error + unit" where
  "validate_selected_pool_compatibility [] = Inr ()"
| "validate_selected_pool_compatibility (p # ps) =
     (if pp_pool p = None
      then Inl (ConfigText (''live execution pair '' @ quoted (pp_pair p) @ '' has no pool in --dex-address-book''))
      else config_bind (validate_v3_route p) (\<lambda>_. validate_selected_pool_compatibility ps))"

definition is_ascii_alphanumeric :: "char \<Rightarrow> bool" where
  "is_ascii_alphanumeric c \<longleftrightarrow>
     (let n = of_char c :: nat in 48 \<le> n \<and> n \<le> 57 \<or> 65 \<le> n \<and> n \<le> 90 \<or> 97 \<le> n \<and> n \<le> 122)"

definition cex_symbol :: "string \<Rightarrow> string \<Rightarrow> config_error + unit" where
  "cex_symbol pair asset =
     (if list_all is_ascii_alphanumeric asset then Inr ()
      else Inl (ConfigText (''live execution pair '' @ quoted pair @ '' contains CEX-incompatible asset symbol '' @ quoted asset
             @ ''; Binance symbol mapping only supports alphanumeric asset symbols'')))"

fun validate_cex_pair_symbols :: "string list \<Rightarrow> config_error + unit" where
  "validate_cex_pair_symbols [] = Inr ()"
| "validate_cex_pair_symbols (pair # pairs) =
     config_bind (config_symbols pair) (\<lambda>(base, quote).
     config_bind (cex_symbol pair base) (\<lambda>_.
     config_bind (cex_symbol pair quote) (\<lambda>_. validate_cex_pair_symbols pairs)))"

text \<open>The tokens of a list of pairs, in the order in which the loops meet them.\<close>

definition pair_symbols :: "parsed_pair \<Rightarrow> (string \<times> address \<times> string) list" where
  "pair_symbols p = [(pp_base_symbol p, pp_base p, pp_pair p), (pp_quote_symbol p, pp_quote p, pp_pair p)]"

fun check_symbols :: "(string \<rightharpoonup> string \<times> string) \<Rightarrow> (string \<times> address \<times> string) list \<Rightarrow> config_error + unit" where
  "check_symbols seen [] = Inr ()"
| "check_symbols seen ((symbol, a, pair) # rest) =
     (let key = to_uppercase symbol; l = addr_lower a
      in case seen key of
           Some (seen_address, seen_pair) \<Rightarrow>
             (if seen_address \<noteq> l
              then Inl (ConfigText (''live execution asset symbol '' @ quoted key @ '' maps to multiple token addresses across selected pairs: ''
                     @ seen_address @ '' in '' @ seen_pair @ '', '' @ l @ '' in '' @ pair
                     @ ''; use distinct symbols such as USDC and USDC_E''))
              else check_symbols seen rest)
         | None \<Rightarrow> check_symbols (seen(key \<mapsto> (l, pair))) rest)"

definition validate_asset_symbol_uniqueness :: "parsed_pair list \<Rightarrow> config_error + unit" where
  "validate_asset_symbol_uniqueness ps = check_symbols Map.empty (concat (map pair_symbols ps))"

text \<open>\<open>show\<close> prints an address with its checksum.\<close>

fun check_usdc :: "(address \<Rightarrow> string) \<Rightarrow> address \<Rightarrow> (string \<times> address \<times> string) list \<Rightarrow> config_error + unit" where
  "check_usdc show native_usdc [] = Inr ()"
| "check_usdc show native_usdc ((symbol, a, pair) # rest) =
     (if lower symbol = ''usdc'' \<and> a \<noteq> native_usdc
      then Inl (ConfigText (''live execution pair '' @ quoted pair @ '' uses symbol USDC for token '' @ show a
             @ ''; on Arbitrum live CEX-DEX accounting requires native USDC '' @ show native_usdc
             @ ''; use a distinct symbol such as USDC_E for bridged USDC.e''))
      else check_usdc show native_usdc rest)"

definition validate_arbitrum_known_token_symbols :: "(address \<Rightarrow> string) \<Rightarrow> address \<Rightarrow> parsed_pair list \<Rightarrow> config_error + unit" where
  "validate_arbitrum_known_token_symbols show native_usdc ps = check_usdc show native_usdc (concat (map pair_symbols ps))"

definition selected_pool_kinds :: "parsed_pair list \<Rightarrow> bool \<times> bool" where
  "selected_pool_kinds ps = (list_ex (\<lambda>p. pp_pool_kind p = PoolV2) ps, list_ex (\<lambda>p. pp_pool_kind p = PoolV3) ps)"

section \<open>Books derived from the pairs\<close>

text \<open>\<open>entry(..).or_insert(..)\<close>: the first entry of a key stays.\<close>

definition or_insert :: "'k \<Rightarrow> 'v \<Rightarrow> ('k \<rightharpoonup> 'v) \<Rightarrow> ('k \<rightharpoonup> 'v)" where
  "or_insert k v m = (case m k of Some _ \<Rightarrow> m | None \<Rightarrow> m(k \<mapsto> v))"

definition token_entries :: "parsed_pair \<Rightarrow> (string \<times> address \<times> nat) list" where
  "token_entries p = [(pp_base_symbol p, pp_base p, pp_base_decimals p), (pp_quote_symbol p, pp_quote p, pp_quote_decimals p)]"

text \<open>A map from lower-case addresses; its values are returned in the order of the keys.\<close>

definition unique_tokens :: "parsed_pair list \<Rightarrow> (string \<rightharpoonup> string \<times> address \<times> nat)" where
  "unique_tokens ps = foldl (\<lambda>m (s, a, d). or_insert (addr_lower a) (s, a, d) m) Map.empty (concat (map token_entries ps))"

definition rebalance_token_book :: "parsed_pair list \<Rightarrow> (string \<rightharpoonup> token_config)" where
  "rebalance_token_book ps =
     foldl (\<lambda>m (s, a, d). or_insert (to_uppercase s) \<lparr>tc_address = a, tc_decimals = d\<rparr> m) Map.empty (concat (map token_entries ps))"

definition pool_fee_bps :: "dec_ops \<Rightarrow> parsed_pair \<Rightarrow> dec option" where
  "pool_fee_bps D p =
     (case pp_pool_kind p of
        PoolV2 \<Rightarrow> Some 30
      | PoolV3 \<Rightarrow>
          map_option (\<lambda>fee. ddiv D fee 100)
            (case pp_v3_fees p of
               Some fees \<Rightarrow> Some (foldl (\<lambda>x f. dadd D x (of_nat f)) 0 fees)
             | None \<Rightarrow> map_option of_nat (pp_v3_fee p)))"

definition dex_pool_fee_bps_map :: "dec_ops \<Rightarrow> parsed_pair list \<Rightarrow> (string \<rightharpoonup> dec)" where
  "dex_pool_fee_bps_map D ps =
     foldl (\<lambda>m p. case pool_fee_bps D p of Some fee \<Rightarrow> m(pp_pair p \<mapsto> fee) | None \<Rightarrow> m) Map.empty ps"

text \<open>\<open>load_address_book\<close> of \<open>bin/arb_bot.rs\<close>: what the swapper is given.\<close>

definition tokens_of :: "parsed_pair \<Rightarrow> nat option \<Rightarrow> pair_tokens" where
  "tokens_of p v3_fee =
     \<lparr>pt_base = pp_base p, pt_base_decimals = pp_base_decimals p, pt_quote = pp_quote p, pt_quote_decimals = pp_quote_decimals p,
      pt_pool_kind = pp_pool_kind p, pt_v3_fee = v3_fee, pt_v3_path = pp_v3_path p, pt_v3_fees = pp_v3_fees p,
      pt_v3_quoter = pp_quoter p\<rparr>"

definition load_address_book :: "parsed_pair list \<Rightarrow> pair_address_book" where
  "load_address_book ps = foldl (\<lambda>book p. address_book_insert (pp_pair p) (tokens_of p (pp_v3_fee p)) book) address_book_new ps"

section \<open>What the checks mean\<close>

lemma encode_hops_ok: "list_all (\<lambda>f. f \<le> 0x00ffffff) fees \<Longrightarrow> \<exists>bs. encode_hops path fees = Inr bs"
  by (induction path fees rule: encode_hops.induct) auto

lemma encode_v3_path_iff:
  assumes "list_all (\<lambda>f. f \<le> 0x00ffffff) fees"
  shows "(\<exists>bs. encode_v3_path path fees = Inr bs) \<longleftrightarrow> 2 \<le> length path \<and> length fees + 1 = length path"
  using encode_hops_ok [OF assms, of path] by (auto simp: encode_v3_path_def)

lemma v3_exact_input_iff:
  assumes "list_all (\<lambda>f. f \<le> 0x00ffffff) fees"
  shows "(\<exists>d. build_v3_exact_input_calldata A path fees recipient deadline amount_in min_out = Inr d)
     \<longleftrightarrow> 2 \<le> length path \<and> length fees + 1 = length path"
  using encode_v3_path_iff [OF assms, of path]
  by (auto simp: build_v3_exact_input_calldata_def split: sum.splits)

definition fees_fit :: "parsed_pair \<Rightarrow> bool" where
  "fees_fit p \<longleftrightarrow> (case pp_v3_fees p of Some fees \<Rightarrow> list_all (\<lambda>f. f \<le> 0x00ffffff) fees | None \<Rightarrow> True)"

definition swappable :: "ethers_abi \<Rightarrow> parsed_pair \<Rightarrow> nat option \<Rightarrow> address \<Rightarrow> address \<Rightarrow> bool" where
  "swappable A p fee token_in token_out \<longleftrightarrow>
     (\<forall>recipient deadline amount_in min_out. \<exists>d.
        v3_swap_calldata_for_pair A (tokens_of p fee) token_in token_out recipient deadline amount_in min_out = Inr d)"

lemma swappable_path:
  assumes "pp_v3_path p = Some path" "pp_v3_fees p = Some fees" "fees_fit p"
  shows "swappable A p fee a b \<longleftrightarrow>
     (route_matches path a b \<or> route_matches path b a) \<and> 2 \<le> length path \<and> length fees + 1 = length path"
proof -
  have fit: "list_all (\<lambda>f. f \<le> 0x00ffffff) fees" "list_all (\<lambda>f. f \<le> 0x00ffffff) (rev fees)"
    using assms(2,3) by (simp_all add: fees_fit_def)
  have err: "(\<exists>d. (case r of Inl e \<Rightarrow> Inl (TxBuild e) | Inr data \<Rightarrow> Inr data) = Inr d) \<longleftrightarrow> (\<exists>d. r = Inr d)" for r :: "string + bytes"
    by (cases r) auto
  have "(\<exists>d. v3_swap_calldata_for_pair A (tokens_of p fee) a b recipient deadline amount_in min_out = Inr d) \<longleftrightarrow>
     (route_matches path a b \<or> route_matches path b a) \<and> 2 \<le> length path \<and> length fees + 1 = length path"
    for recipient deadline amount_in min_out
    using v3_exact_input_iff [OF fit(1), of A path recipient deadline amount_in min_out]
      v3_exact_input_iff [OF fit(2), of A "rev path" recipient deadline amount_in min_out]
    by (simp add: v3_swap_calldata_for_pair_def tokens_of_def assms(1,2) err Let_def)
  then show ?thesis by (simp add: swappable_def)
qed

text \<open>
  C37: the route check is exact.  For a V3 pair whose fees fit into 24 bits and whose fee tier is known, the check that a live
  run makes on the address book accepts the pair exactly when the swapper can build the calldata of a swap in both
  directions, for every amount, recipient and deadline.
\<close>

theorem validate_v3_route_exact:
  assumes "pp_pool_kind p = PoolV3" "fee \<noteq> None" "fees_fit p"
  shows "validate_v3_route p = Inr () \<longleftrightarrow>
     swappable A p fee (pp_base p) (pp_quote p) \<and> swappable A p fee (pp_quote p) (pp_base p)"
proof (cases "pp_v3_path p"; cases "pp_v3_fees p")
  fix path fees
  assume s: "pp_v3_path p = Some path" "pp_v3_fees p = Some fees"
  from swappable_path [OF s assms(3)] s assms(1) show ?thesis
    by (auto simp: validate_v3_route_def)
qed (use assms(1,2) in \<open>auto simp: validate_v3_route_def swappable_def v3_swap_calldata_for_pair_def tokens_of_def\<close>)

definition sample_v3_pair :: parsed_pair where
  "sample_v3_pair =
     \<lparr>pp_pair = ''WETH/USDC'', pp_base_symbol = ''WETH'', pp_quote_symbol = ''USDC'', pp_base = replicate 20 1, pp_base_decimals = 18,
      pp_quote = replicate 20 2, pp_quote_decimals = 6, pp_pool = Some (replicate 20 9), pp_pool_kind = PoolV3, pp_v3_fee = None,
      pp_v3_path = Some [replicate 20 2, replicate 20 3, replicate 20 1], pp_v3_fees = Some [500, 3000], pp_quoter = None,
      pp_quoter_type = ''quoter_v2''\<rparr>"

theorem validate_v3_route_exact_witness:
  "validate_v3_route sample_v3_pair = Inr ()
     \<and> (\<forall>A. swappable A sample_v3_pair (Some 500) (replicate 20 1) (replicate 20 2))"
proof -
  have v: "validate_v3_route sample_v3_pair = Inr ()"
    by (simp add: validate_v3_route_def sample_v3_pair_def route_matches_def)
  have "fees_fit sample_v3_pair" by (simp add: fees_fit_def sample_v3_pair_def)
  with validate_v3_route_exact [of sample_v3_pair "Some 500"] v show ?thesis
    by (simp add: sample_v3_pair_def)
qed

text \<open>A symbol stands for one token: the uniqueness check accepts exactly the functional tables.\<close>

definition symbol_table :: "(string \<times> address \<times> string) list \<Rightarrow> (string \<times> string) set" where
  "symbol_table xs = (\<lambda>(s, a, p). (to_uppercase s, addr_lower a)) ` set xs"

definition seen_table :: "(string \<rightharpoonup> string \<times> string) \<Rightarrow> (string \<times> string) set" where
  "seen_table seen = {(k, l). \<exists>q. seen k = Some (l, q)}"

lemma symbol_table_Cons [simp]:
  "symbol_table [] = {}" "symbol_table ((s, a, p) # xs) = insert (to_uppercase s, addr_lower a) (symbol_table xs)"
  by (simp_all add: symbol_table_def)

lemma seen_table_fresh: "seen k = None \<Longrightarrow> seen_table (seen(k \<mapsto> (l, p))) = insert (k, l) (seen_table seen)"
  by (auto simp: seen_table_def split: if_splits)

lemma single_valued_seen: "single_valued (seen_table seen)"
  by (auto simp: seen_table_def single_valued_def)

lemma check_symbols_iff: "check_symbols seen xs = Inr () \<longleftrightarrow> single_valued (symbol_table xs \<union> seen_table seen)"
proof (induction xs arbitrary: seen)
  case (Cons x xs)
  obtain s a p where x: "x = (s, a, p)" by (cases x)
  let ?k = "to_uppercase s"
  show ?case
  proof (cases "seen ?k")
    case None
    have run: "check_symbols seen ((s, a, p) # xs) = check_symbols (seen(?k \<mapsto> (addr_lower a, p))) xs" using None by (simp add: Let_def)
    have "seen_table (seen(?k \<mapsto> (addr_lower a, p))) = insert (?k, addr_lower a) (seen_table seen)"
      by (rule seen_table_fresh) (rule None)
    with Cons.IH [of "seen(?k \<mapsto> (addr_lower a, p))"] show ?thesis
      by (simp only: run x symbol_table_Cons Un_insert_left Un_insert_right)
  next
    case (Some lq)
    then obtain l q where seen: "seen ?k = Some (l, q)" by (cases lq) auto
    then have mem: "(?k, l) \<in> seen_table seen" by (auto simp: seen_table_def)
    show ?thesis
    proof (cases "l = addr_lower a")
      case True
      then have "symbol_table (x # xs) \<union> seen_table seen = symbol_table xs \<union> seen_table seen" using mem by (auto simp: x)
      moreover have "check_symbols seen (x # xs) = check_symbols seen xs" using True seen by (simp add: x)
      ultimately show ?thesis using Cons.IH by simp
    next
      case False
      then have "\<not> single_valued (symbol_table (x # xs) \<union> seen_table seen)" using mem by (auto simp: x single_valued_def)
      moreover have "check_symbols seen (x # xs) \<noteq> Inr ()" using False seen by (simp add: x Let_def)
      ultimately show ?thesis by simp
    qed
  qed
qed (simp add: single_valued_seen)

lemma asset_symbols_unique:
  "validate_asset_symbol_uniqueness ps = Inr () \<longleftrightarrow> single_valued (symbol_table (concat (map pair_symbols ps)))"
  unfolding validate_asset_symbol_uniqueness_def check_symbols_iff by (simp add: seen_table_def)

end
