(* ===== verification/Rebalance_Live.thy ===== *)
theory Rebalance_Live
  imports Trading_Bot Address_Book "HOL-Library.Char_ord" "HOL-Library.List_Lexorder"
begin

text \<open>
  \<open>bin/arb_bot.rs\<close>, the automatic rebalancer: the check that plans the transfers, guards each step, executes it on
  the exchange and on the chain, waits for its confirmation and verifies the balances, with the pause of the
  trading loop around it.

  The state is the live world, the inventory tracker, the pause shared with the trading tick, the halt
  coordinator, the alerts and the journal.  Other tasks may change the tracker while the check waits:
  \<open>rv_others\<close> is what they do before the check reads or writes it again.  Errors are the texts of the
  source; the texts of a failed float conversion and of a failed booking are shortened.  Log lines are left out.
\<close>

section \<open>Texts\<close>

primrec venue_str :: "venue \<Rightarrow> string" where
  "venue_str venue.Binance = ''binance''"
| "venue_str venue.Bybit = ''bybit''"
| "venue_str Wallet = ''wallet''"

definition show_int :: "int \<Rightarrow> string" where
  "show_int i = (if i < 0 then ''-'' @ show_nat (nat (- i)) else show_nat (nat i))"

primrec exchange_error_str :: "exchange_error \<Rightarrow> string" where
  "exchange_error_str (Network e) = ''network error: '' @ e"
| "exchange_error_str (Auth e) = ''authentication error: '' @ e"
| "exchange_error_str (RateLimit e) = ''rate limit exceeded: '' @ e"
| "exchange_error_str (OrderRejected e) = ''order rejected: '' @ e"
| "exchange_error_str (InsufficientFunds e) = ''insufficient funds: '' @ e"
| "exchange_error_str (InvalidSymbol e) = ''invalid symbol: '' @ e"
| "exchange_error_str (Api code e) = ''api error '' @ show_int code @ '': '' @ e"
| "exchange_error_str (ConfigError e) = ''configuration error: '' @ e"
| "exchange_error_str (JsonParse e) = ''json parse error: '' @ e"
| "exchange_error_str (HttpError e) = ''http error: '' @ e"
| "exchange_error_str (DecimalParse e) = ''decimal parse error: '' @ e"
| "exchange_error_str (ConnectionCheck e) = ''connection check failed: '' @ e"

fun join_with :: "string \<Rightarrow> string list \<Rightarrow> string" where
  "join_with sep [] = []"
| "join_with sep [s] = s"
| "join_with sep (s # ss) = s @ sep @ join_with sep ss"

section \<open>Configuration\<close>

record rebalance_loop_config =
  rl_dry_run :: bool
  rl_interval_secs :: nat
  rl_threshold_pct :: rat
  rl_quote_asset :: string
  rl_max_slippage_bps :: dec
  rl_allowed_assets :: "string list"
  rl_allowed_venues :: "string list"
  rl_max_step_usd :: dec
  rl_min_fill_pct :: rat
  rl_pause_trading :: bool
  rl_verify_tolerance_pct :: dec
  rl_journal_path :: string

text \<open>
  \<open>rt_wallet_text\<close> is the wallet's address as the wallet prints it, \<open>rt_clock\<close> the clock of the waiting loops in
  seconds.  The nonce manager is part of the chain's world.
\<close>

record rebalance_transfer =
  rt_exchange :: exchange_client
  rt_chain :: chain_client
  rt_wallet :: wallet
  rt_wallet_text :: string
  rt_withdraw_address :: string
  rt_withdraw_network :: string
  rt_deposit_address :: address
  rt_token_book :: "string \<rightharpoonup> token_config"
  rt_chain_id :: nat
  rt_max_gas_gwei :: "nat option"
  rt_timeout_secs :: nat
  rt_poll_secs :: nat
  rt_clock :: "http_history \<Rightarrow> rat"

datatype rebalance_event =
    PlanGenerated string nat nat bool string
  | TradingPaused string string
  | TradingResumed string "string option"
  | StepRejected string string string string
  | StepStarted string string string
  | StepCompleted string string string string
  | StepFailed string string string string
  | PostStepVerified string "string option" string
  | PostStepVerifyFailed string string string string
  | MismatchNoted venue string dec dec dec

record rebalance_state =
  rb_live :: live_world
  rb_inventory :: inventory_tracker
  rb_pause :: "string option"
  rb_halt :: halt_coordinator
  rb_alerts :: "alert_event list"
  rb_journal :: "rebalance_event list"
  rb_active_key :: "string option"

type_synonym 'a rebalance_call = "(rebalance_state, string, 'a) call"

text \<open>
  What the check depends on from outside: number formatting and arithmetic, the price source (at the validation of the \<open>n\<close>-th step), the other tasks,
  the iteration orders of the hash maps, and whether the journal file can be written.
\<close>

record rebalance_env =
  rv_lib :: exchange_lib
  rv_price :: "nat \<Rightarrow> string \<Rightarrow> string + dec"
  rv_others :: "live_world \<Rightarrow> inventory_tracker \<Rightarrow> inventory_tracker"
  rv_listing :: "(string \<rightharpoonup> normalized_balance) \<Rightarrow> (string \<times> normalized_balance) list"
  rv_venue_order :: "venue list"
  rv_assets :: "inventory_tracker \<Rightarrow> string list"
  rv_plan_order :: "(string \<times> rebalance_step list) list \<Rightarrow> (string \<times> rebalance_step list) list"
  rv_journal_ok :: "rebalance_state \<Rightarrow> bool"

definition on_live :: "(string, 'a) live_call \<Rightarrow> 'a rebalance_call" where
  "on_live m b = (case m (rb_live b) of None \<Rightarrow> None | Some (w, r) \<Rightarrow> Some (b\<lparr>rb_live := w\<rparr>, r))"

definition at_exchange :: "(exchange_error \<Rightarrow> string) \<Rightarrow> 'a binance_call \<Rightarrow> (string, 'a) live_call" where
  "at_exchange h m = map_err h (\<lambda>w. case m (lw_exchange w) of
     None \<Rightarrow> None | Some (x, r) \<Rightarrow> Some (w\<lparr>lw_exchange := x\<rparr>, r))"

definition at_chain :: "(chain_error \<Rightarrow> string) \<Rightarrow> (chain_error, 'a) chain_call \<Rightarrow> (string, 'a) live_call" where
  "at_chain h m = on_chain (map_err h m)"

definition or_core_error :: "(core_error, 'a) outcome \<Rightarrow> ('w, string, 'a) call" where
  "or_core_error r = map_err core_error_str (lift_out r)"

section \<open>Journal, alerts and pause\<close>

definition append_rebalance_journal :: "rebalance_env \<Rightarrow> string \<Rightarrow> rebalance_event \<Rightarrow> rebalance_state \<Rightarrow> rebalance_state" where
  "append_rebalance_journal E path ev b =
     (if trim path = [] then b else if rv_journal_ok E b then b\<lparr>rb_journal := rb_journal b @ [ev]\<rparr> else b)"

definition emit_best_effort :: "alert_event \<Rightarrow> rebalance_state \<Rightarrow> rebalance_state" where
  "emit_best_effort ev b = b\<lparr>rb_alerts := rb_alerts b @ [ev]\<rparr>"

definition clear_rebalance_pause :: "rebalance_env \<Rightarrow> string \<Rightarrow> string \<Rightarrow> rebalance_state \<Rightarrow> rebalance_state" where
  "clear_rebalance_pause E path plan_key b =
     append_rebalance_journal E path (TradingResumed plan_key (rb_pause b)) (b\<lparr>rb_pause := None\<rparr>)"

definition rebalance_step_label :: "exchange_lib \<Rightarrow> rebalance_step \<Rightarrow> string" where
  "rebalance_step_label L step =
     (case step of
        Trade t \<Rightarrow> ''trade:'' @ venue_str (ts_venue t) @ '':'' @ ts_symbol t @ '':'' @ ts_side t @ '':'' @ xl_show_dec L (ts_amount t)
      | Withdraw w \<Rightarrow> ''withdraw:'' @ venue_str (ws_from w) @ ''->'' @ venue_str (ws_to w) @ '':'' @ ws_asset w @ '':''
                        @ xl_show_dec L (ws_amount w))"

text \<open>The key does not depend on the iteration order: assets and labels are sorted.\<close>

definition rebalance_plan_key :: "exchange_lib \<Rightarrow> (string \<times> rebalance_step list) list \<Rightarrow> string" where
  "rebalance_plan_key L plans =
     join_with ''|'' (map (\<lambda>asset. case map_of plans asset of
         Some steps \<Rightarrow> asset @ '':'' @ join_with '','' (sort (map (rebalance_step_label L) steps))
       | None \<Rightarrow> []) (sort (map fst plans)))"

section \<open>Guards of a step\<close>

definition contains_ignore_ascii_case :: "string list \<Rightarrow> string \<Rightarrow> bool" where
  "contains_ignore_ascii_case vals needle \<longleftrightarrow> list_ex (\<lambda>v. eq_ignore_ascii_case v needle) vals"

definition parse_rebalance_csv_upper :: "string \<Rightarrow> string list" where
  "parse_rebalance_csv_upper raw = map to_uppercase (filter (\<lambda>v. v \<noteq> []) (map trim (split_on (CHR '','') raw)))"

definition parse_rebalance_csv_lower :: "string \<Rightarrow> string list" where
  "parse_rebalance_csv_lower raw = map lower (filter (\<lambda>v. v \<noteq> []) (map trim (split_on (CHR '','') raw)))"

fun all_allowed :: "(string \<Rightarrow> string) \<Rightarrow> string list \<Rightarrow> string list \<Rightarrow> (string, unit) outcome" where
  "all_allowed msg allowed_names [] = Ok ()"
| "all_allowed msg allowed_names (x # xs) =
     (if \<not> contains_ignore_ascii_case allowed_names x then Err (msg x) else all_allowed msg allowed_names xs)"

definition step_assets :: "rebalance_step \<Rightarrow> string list" where
  "step_assets step = (case step of Trade t \<Rightarrow> [ts_base t, ts_quote t] | Withdraw w \<Rightarrow> [ws_asset w])"

definition step_venues :: "rebalance_step \<Rightarrow> venue list" where
  "step_venues step = (case step of Trade t \<Rightarrow> [ts_venue t] | Withdraw w \<Rightarrow> [ws_from w, ws_to w])"

definition validate_rebalance_assets :: "rebalance_step \<Rightarrow> string list \<Rightarrow> (string, unit) outcome" where
  "validate_rebalance_assets step allowed_names =
     all_allowed (\<lambda>a. ''rebalance asset '' @ a @ '' is not allowlisted'') allowed_names (step_assets step)"

definition validate_rebalance_venues :: "rebalance_step \<Rightarrow> string list \<Rightarrow> (string, unit) outcome" where
  "validate_rebalance_venues step allowed_names =
     all_allowed (\<lambda>v. ''rebalance venue '' @ v @ '' is not allowlisted'') allowed_names (map venue_str (step_venues step))"

definition rebalance_pricing_asset :: "string \<Rightarrow> string" where
  "rebalance_pricing_asset asset = (if eq_ignore_ascii_case asset ''WETH'' then ''ETH'' else to_uppercase asset)"

definition asset_usd_price :: "dec_ops \<Rightarrow> (string \<Rightarrow> string + dec) \<Rightarrow> string \<Rightarrow> (string, dec) outcome" where
  "asset_usd_price D price asset =
     (if eq_ignore_ascii_case asset ''USDC'' \<or> eq_ignore_ascii_case asset ''USDT'' \<or> eq_ignore_ascii_case asset ''USD'' then Ok 1
      else let priced_asset = rebalance_pricing_asset asset
           in case price (priced_asset @ ''/'' @ ''USDC'') of
                Inr p \<Rightarrow> Ok p
              | Inl _ \<Rightarrow>
                  (if priced_asset = ''ETH'' then Err ''failed to price ETH via ETH/USDC for rebalance max-step guard''
                   else let eth_pair = priced_asset @ ''/ETH''
                        in case price eth_pair of
                             Inl e \<Rightarrow> Err (''failed to price '' @ asset @ '' via '' @ eth_pair @ '': '' @ e)
                           | Inr asset_eth \<Rightarrow>
                               (case price ''ETH/USDC'' of
                                  Inl e \<Rightarrow> Err (''failed to price ETH via ETH/USDC: '' @ e)
                                | Inr eth_usd \<Rightarrow> Ok (dmul D asset_eth eth_usd))))"

definition rebalance_step_notional_usd :: "dec_ops \<Rightarrow> (string \<Rightarrow> string + dec) \<Rightarrow> rebalance_step \<Rightarrow> (string, dec) outcome" where
  "rebalance_step_notional_usd D price step =
     (case step of
        Trade t \<Rightarrow> bind_out (asset_usd_price D price (ts_base t)) (\<lambda>p. Ok (dmul D (ts_amount t) p))
      | Withdraw w \<Rightarrow> bind_out (asset_usd_price D price (ws_asset w)) (\<lambda>p. Ok (dmul D (ws_amount w) p)))"

definition validate_rebalance_step ::
  "exchange_lib \<Rightarrow> rebalance_loop_config \<Rightarrow> (string \<Rightarrow> string + dec) \<Rightarrow> rebalance_step \<Rightarrow> (string, unit) outcome" where
  "validate_rebalance_step L cfg price step =
     (if \<not> (0 \<le> rl_min_fill_pct cfg \<and> rl_min_fill_pct cfg \<le> 1)
      then Err (''REBALANCE_MIN_FILL_PCT must be between 0 and 1, got '' @ xl_show_f64 L (rl_min_fill_pct cfg))
      else bind_out (validate_rebalance_assets step (rl_allowed_assets cfg)) (\<lambda>_.
           bind_out (validate_rebalance_venues step (rl_allowed_venues cfg)) (\<lambda>_.
             if rl_max_step_usd cfg > 0
             then bind_out (rebalance_step_notional_usd (xl_dec L) price step) (\<lambda>notional_usd.
                    if notional_usd > rl_max_step_usd cfg
                    then Err (''rebalance step notional $'' @ xl_show_dec L notional_usd @ '' exceeds max $''
                                @ xl_show_dec L (rl_max_step_usd cfg))
                    else Ok ())
             else Ok ())))"

section \<open>Trades\<close>

definition booked_fee_asset :: "trade_step \<Rightarrow> order_result \<Rightarrow> string" where
  "booked_fee_asset t ord = (if or_fee_asset ord = [] then ts_quote t else or_fee_asset ord)"

definition book_rebalance_trade :: "rebalance_env \<Rightarrow> trade_step \<Rightarrow> order_result \<Rightarrow> unit rebalance_call" where
  "book_rebalance_trade E t ord b =
     (let D = xl_dec (rv_lib E); inv0 = rv_others E (rb_live b) (rb_inventory b);
          (inv1, r) = record_trade_at D (ts_venue t) (lower (ts_side t)) (ts_base t) (ts_quote t) (or_amount_filled ord)
            (dmul D (or_amount_filled ord) (or_avg_fill_price ord)) (or_fee ord) (booked_fee_asset t ord) inv0
      in Some (b\<lparr>rb_inventory := inv1\<rparr>,
               case r of Ok u \<Rightarrow> Ok u | Err e \<Rightarrow> Err ''failed to record rebalance trade in inventory'' | Panic \<Rightarrow> Panic))"

definition settle_rebalance_order :: "rebalance_env \<Rightarrow> rat \<Rightarrow> trade_step \<Rightarrow> order_result \<Rightarrow> string rebalance_call" where
  "settle_rebalance_order E min_fill_pct t ord =
     (let L = rv_lib E; shw = xl_show_dec L
      in if or_amount_filled ord \<le> 0
         then throw (''rebalance order did not fill: status='' @ or_status ord @ '', order_id='' @ or_id ord)
         else case dec_of_f64 (xl_f64 L) min_fill_pct of
                None \<Rightarrow> throw (''invalid rebalance min fill pct: '' @ xl_show_f64 L min_fill_pct)
              | Some fill_ratio \<Rightarrow>
                  (let min_fill = dmul (xl_dec L) (ts_amount t) fill_ratio
                   in if or_amount_filled ord < min_fill
                      then throw (''rebalance order underfilled: filled='' @ shw (or_amount_filled ord) @ '', required=''
                                    @ shw min_fill @ '', order_id='' @ or_id ord)
                      else seq (book_rebalance_trade E t ord) (\<lambda>_.
                             ret (''binance_order:'' @ or_id ord @ '' status='' @ or_status ord @ '' filled=''
                                    @ shw (or_amount_filled ord) @ '' avg_price='' @ shw (or_avg_fill_price ord)))))"

text \<open>The limit price is the best price of the book's side, not a price of the walk.\<close>

definition rebalance_limit_price :: "order_book_snapshot \<Rightarrow> walk_result \<Rightarrow> string \<Rightarrow> (string, dec) outcome" where
  "rebalance_limit_price ob walk side =
     (if side = ''BUY'' then Ok (case best_ask ob of Some (p, _) \<Rightarrow> p | None \<Rightarrow> avg_price walk)
      else if side = ''SELL'' then Ok (case best_bid ob of Some (p, _) \<Rightarrow> p | None \<Rightarrow> avg_price walk)
      else Err (''unsupported rebalance trade side: '' @ side))"

definition rebalance_f64 :: "exchange_lib \<Rightarrow> string \<Rightarrow> dec \<Rightarrow> (string, rat) outcome" where
  "rebalance_f64 L what d =
     (case f64_of_dec (xl_f64 L) d of
        Some x \<Rightarrow> Ok x
      | None \<Rightarrow> Err (''rebalance '' @ what @ '' '' @ xl_show_dec L d @ '' cannot be represented as f64''))"

definition checked_limit :: "exchange_lib \<Rightarrow> trade_step \<Rightarrow> order_book_snapshot \<Rightarrow> (string, rat \<times> rat) outcome" where
  "checked_limit L t ob =
     (case walk_the_book (xl_dec L) ob (lower (ts_side t)) (ts_amount t) of
        Err e \<Rightarrow> Err (''rebalance book walk failed: '' @ exchange_error_str e)
      | Panic \<Rightarrow> Panic
      | Ok walk \<Rightarrow>
          (if slippage_bps walk > ts_max_slippage_bps t
           then Err (''rebalance slippage '' @ xl_show_dec L (slippage_bps walk) @ '' bps exceeds limit ''
                       @ xl_show_dec L (ts_max_slippage_bps t) @ '' bps'')
           else bind_out (rebalance_limit_price ob walk (ts_side t)) (\<lambda>price.
                bind_out (rebalance_f64 L ''amount'' (ts_amount t)) (\<lambda>amount_f.
                bind_out (rebalance_f64 L ''price'' price) (\<lambda>price_f. Ok (amount_f, price_f))))))"

definition place_rebalance_order :: "exchange_lib \<Rightarrow> rebalance_transfer \<Rightarrow> trade_step \<Rightarrow> (string, order_result) live_call" where
  "place_rebalance_order L X t =
     seq (at_exchange (\<lambda>e. ''failed to fetch rebalance order book: '' @ exchange_error_str e)
            (fetch_book (rt_exchange X) (ts_symbol t) DEFAULT_ORDERBOOK_DEPTH)) (\<lambda>ob.
     seq (lift_out (checked_limit L t ob)) (\<lambda>(amount_f, price_f).
       at_exchange exchange_error_str (limit_ioc_order (rt_exchange X) (ts_symbol t) (ts_side t) amount_f price_f)))"

definition execute_rebalance_trade :: "rebalance_env \<Rightarrow> rebalance_transfer \<Rightarrow> rat \<Rightarrow> trade_step \<Rightarrow> string rebalance_call" where
  "execute_rebalance_trade E X min_fill_pct t =
     (if ts_venue t \<noteq> venue.Binance
      then throw (''real CEX rebalance trade only supports Binance, got '' @ venue_str (ts_venue t))
      else seq (on_live (place_rebalance_order (rv_lib E) X t)) (settle_rebalance_order E min_fill_pct t))"

section \<open>Waiting for the exchange\<close>

definition exchange_sleep :: "nat \<Rightarrow> live_world \<Rightarrow> live_world" where
  "exchange_sleep secs w = w\<lparr>lw_exchange := http_emit (HttpSlept secs) (lw_exchange w)\<rparr>"

definition exchange_clock :: "rebalance_transfer \<Rightarrow> live_world \<Rightarrow> rat" where
  "exchange_clock X w = rt_clock X (hw_log (lw_exchange w))"

text \<open>The shape of both polling loops: \<open>decide\<close> gives the verdict on the records of the history, if there is one.\<close>

partial_function (option) poll_transfer ::
  "rebalance_transfer \<Rightarrow> (string, transfer_record list) live_call \<Rightarrow> (transfer_record list \<Rightarrow> (string, transfer_record) outcome option)
     \<Rightarrow> string \<Rightarrow> rat \<Rightarrow> (string, transfer_record) live_call" where
  "poll_transfer X fetch decide timeout_text deadline w =
     (case fetch w of
        None \<Rightarrow> None
      | Some (w1, r) \<Rightarrow>
          (case r of
             Err e \<Rightarrow> Some (w1, Err e)
           | Panic \<Rightarrow> Some (w1, Panic)
           | Ok rs \<Rightarrow>
               (case decide rs of
                  Some verdict \<Rightarrow> Some (w1, verdict)
                | None \<Rightarrow>
                    (if exchange_clock X w1 \<ge> deadline then Some (w1, Err timeout_text)
                     else poll_transfer X fetch decide timeout_text deadline (exchange_sleep (rt_poll_secs X) w1)))))"

declare poll_transfer.simps [code]

definition withdrawal_verdict :: "string \<Rightarrow> transfer_record list \<Rightarrow> (string, transfer_record) outcome option" where
  "withdrawal_verdict withdraw_id rs =
     (case find (\<lambda>r. tf_id r = withdraw_id) rs of
        None \<Rightarrow> None
      | Some r \<Rightarrow>
          (if withdrawal_completed r then Some (Ok r)
           else if withdrawal_failed r
           then Some (Err (''Binance withdrawal '' @ withdraw_id @ '' failed with status '' @ show_int (tf_status r)))
           else None))"

definition wait_for_binance_withdrawal :: "rebalance_transfer \<Rightarrow> string \<Rightarrow> string \<Rightarrow> (string, transfer_record) live_call" where
  "wait_for_binance_withdrawal X asset withdraw_id w =
     poll_transfer X
       (at_exchange (\<lambda>e. ''failed to fetch Binance withdrawal history: '' @ exchange_error_str e) (fetch_withdrawal_history (rt_exchange X) asset))
       (withdrawal_verdict withdraw_id) (''timeout waiting for Binance withdrawal '' @ withdraw_id @ '' completion'')
       (exchange_clock X w + of_nat (rt_timeout_secs X)) w"

definition deposit_of :: "string \<Rightarrow> transfer_record \<Rightarrow> bool" where
  "deposit_of tx_hash r \<longleftrightarrow> (case tf_tx_id r of Some tx_id \<Rightarrow> eq_ignore_ascii_case tx_id tx_hash | None \<Rightarrow> False)"

definition deposit_verdict :: "string \<Rightarrow> transfer_record list \<Rightarrow> (string, transfer_record) outcome option" where
  "deposit_verdict tx_hash rs =
     (case find (deposit_of tx_hash) rs of
        None \<Rightarrow> None
      | Some r \<Rightarrow>
          (if deposit_credited r then Some (Ok r)
           else if deposit_failed r
           then Some (Err (''Binance deposit for tx '' @ tx_hash @ '' failed with status '' @ show_int (tf_status r)))
           else None))"

definition wait_for_binance_deposit :: "rebalance_transfer \<Rightarrow> string \<Rightarrow> string \<Rightarrow> (string, transfer_record) live_call" where
  "wait_for_binance_deposit X asset tx_hash w =
     poll_transfer X
       (at_exchange (\<lambda>e. ''failed to fetch Binance deposit history: '' @ exchange_error_str e)
          (fetch_deposit_history (rt_exchange X) asset (Some tx_hash)))
       (deposit_verdict tx_hash) (''timeout waiting for Binance deposit credit for tx '' @ tx_hash)
       (exchange_clock X w + of_nat (rt_timeout_secs X)) w"

section \<open>From the exchange to the wallet\<close>

definition rebalance_cex_asset :: "string \<Rightarrow> string" where
  "rebalance_cex_asset asset = (if eq_ignore_ascii_case asset ''WETH'' then ''ETH'' else to_uppercase asset)"

definition validate_binance_withdrawal_capability ::
  "exchange_lib \<Rightarrow> capital_coin_config list \<Rightarrow> withdraw_step \<Rightarrow> dec \<Rightarrow> string \<Rightarrow> (string, unit) outcome" where
  "validate_binance_withdrawal_capability L configs wd send_amount expected_network =
     (let cex_asset = rebalance_cex_asset (ws_asset wd); shw = xl_show_dec L
      in case find (\<lambda>c. eq_ignore_ascii_case (cp_coin c) cex_asset) configs of
           None \<Rightarrow> Err (''Binance capital config missing coin '' @ cex_asset)
         | Some coin \<Rightarrow>
             (case find (\<lambda>n. eq_ignore_ascii_case (cn_network n) expected_network) (cp_networks coin) of
                None \<Rightarrow> Err (''Binance coin '' @ cex_asset @ '' does not support withdrawal network '' @ expected_network
                            @ ''; available networks: '' @ join_with '','' (map cn_network (cp_networks coin)))
              | Some network \<Rightarrow>
                  (if \<not> cn_withdraw_enable network
                   then Err (''Binance withdrawal disabled for '' @ cex_asset @ '' on network '' @ cn_network network)
                   else if send_amount < cn_withdraw_min network
                   then Err (''Binance withdrawal amount '' @ shw send_amount @ '' below minimum '' @ shw (cn_withdraw_min network)
                               @ '' for '' @ cex_asset @ '' on '' @ cn_network network)
                   else if ws_fee wd < cn_withdraw_fee network
                   then Err (''rebalance configured withdrawal fee '' @ shw (ws_fee wd) @ '' below Binance fee ''
                               @ shw (cn_withdraw_fee network) @ '' for '' @ cex_asset @ '' on '' @ cn_network network)
                   else Ok ())))"

definition verify_binance_withdrawal_capability ::
  "exchange_lib \<Rightarrow> rebalance_transfer \<Rightarrow> withdraw_step \<Rightarrow> dec \<Rightarrow> (string, unit) live_call" where
  "verify_binance_withdrawal_capability L X wd send_amount =
     seq (at_exchange (\<lambda>e. ''failed to fetch Binance capital config: '' @ exchange_error_str e)
            (fetch_capital_config (rt_exchange X))) (\<lambda>configs.
       lift_out (validate_binance_withdrawal_capability L configs wd send_amount (rt_withdraw_network X)))"

definition rebalance_weth_token :: "(string \<rightharpoonup> token_config) \<Rightarrow> (string, token_config) outcome" where
  "rebalance_weth_token token_book =
     (case token_book ''WETH'' of
        Some t \<Rightarrow> Ok t
      | None \<Rightarrow> (case token_book ''ETH'' of
                   Some t \<Rightarrow> Ok t
                 | None \<Rightarrow> Err ''asset WETH missing from rebalance token book''))"

definition WETH_NEEDS_SIGNER :: string where
  "WETH_NEEDS_SIGNER = ''WETH rebalance requires Binance withdrawal address to be the signer wallet so native ETH can be wrapped after receipt''"

definition ARBITRUM_WETH_ADDRESS :: address where
  "ARBITRUM_WETH_ADDRESS = [0x82, 0xaF, 0x49, 0x44, 0x7D, 0x8a, 0x07, 0xe3, 0xbd, 0x95, 0xBD, 0x0d, 0x56, 0xf3, 0x52, 0x41, 0x52, 0x3f, 0xBa, 0xb1]"

text \<open>The check at start-up.  \<open>show_addr\<close> prints an address.\<close>

definition validate_rebalance_weth_transfer_config ::
  "(address \<Rightarrow> string) \<Rightarrow> string list \<Rightarrow> (string \<rightharpoonup> token_config) \<Rightarrow> nat \<Rightarrow> string \<Rightarrow> string \<Rightarrow> (string, unit) outcome" where
  "validate_rebalance_weth_transfer_config show_addr allowed_assets token_book chain withdraw_address wallet_address =
     (if \<not> list_ex (\<lambda>a. eq_ignore_ascii_case a ''WETH'') allowed_assets then Ok ()
      else if chain \<noteq> ARBITRUM_CHAIN_ID
      then Err (''WETH rebalance auto-wrap is currently supported only on Arbitrum chain '' @ show_nat ARBITRUM_CHAIN_ID
                  @ '', got '' @ show_nat chain)
      else if \<not> eq_ignore_ascii_case withdraw_address wallet_address then Err WETH_NEEDS_SIGNER
      else bind_out (rebalance_weth_token token_book) (\<lambda>token.
           if tc_decimals token \<noteq> ETH_DECIMALS
           then Err (''rebalance WETH token decimals '' @ show_nat (tc_decimals token) @ '' do not match expected '' @ show_nat ETH_DECIMALS)
           else if tc_address token \<noteq> ARBITRUM_WETH_ADDRESS
           then Err (''rebalance WETH token address '' @ show_addr (tc_address token) @ '' does not match Arbitrum WETH ''
                       @ show_addr ARBITRUM_WETH_ADDRESS)
           else Ok ()))"

definition native_balance_required_for_value_and_gas :: "nat \<Rightarrow> nat \<Rightarrow> nat \<Rightarrow> nat" where
  "native_balance_required_for_value_and_gas v max_fee gas_limit = min U256_MAX (v + min U256_MAX (max_fee * gas_limit))"

definition native_timeout :: "exchange_lib \<Rightarrow> string \<Rightarrow> token_amount \<Rightarrow> nat \<Rightarrow> (string, unit) outcome" where
  "native_timeout L what bal required =
     (case human (xl_dec L) bal of
        Err e \<Rightarrow> Err (core_error_str e)
      | Panic \<Rightarrow> Panic
      | Ok current \<Rightarrow>
          (case human (xl_dec L) (token_amount_eth required) of
             Err e \<Rightarrow> Err (core_error_str e)
           | Panic \<Rightarrow> Panic
           | Ok required_human \<Rightarrow> Err (what @ '' timed out waiting for native ETH balance: current '' @ xl_show_dec L current
                 @ '', required '' @ xl_show_dec L required_human)))"

partial_function (option) native_balance_loop ::
  "exchange_lib \<Rightarrow> rebalance_transfer \<Rightarrow> address \<Rightarrow> nat \<Rightarrow> string \<Rightarrow> rat \<Rightarrow> (string, unit) chain_call" where
  "native_balance_loop L X a required what start w =
     (case get_balance (rt_chain X) a w of
        None \<Rightarrow> None
      | Some (w1, r) \<Rightarrow>
          (case r of
             Err e \<Rightarrow> Some (w1, Err (what @ '' failed to fetch native ETH balance: '' @ chain_error_str e))
           | Panic \<Rightarrow> Some (w1, Panic)
           | Ok bal \<Rightarrow>
               (if ta_raw bal \<ge> required then Some (w1, Ok ())
                else if n_clock (cc_node (rt_chain X)) (w_log w1) - start \<ge> of_nat (rt_timeout_secs X)
                then Some (w1, native_timeout L what bal required)
                else native_balance_loop L X a required what start (emit (Slept (of_nat (rt_poll_secs X))) w1))))"

declare native_balance_loop.simps [code]

definition wait_for_native_balance_for_rebalance ::
  "exchange_lib \<Rightarrow> rebalance_transfer \<Rightarrow> address \<Rightarrow> nat \<Rightarrow> nat \<Rightarrow> nat \<Rightarrow> string \<Rightarrow> (string, unit) chain_call" where
  "wait_for_native_balance_for_rebalance L X a v max_fee gas_limit what w =
     native_balance_loop L X a (native_balance_required_for_value_and_gas v max_fee gas_limit) what
       (n_clock (cc_node (rt_chain X)) (w_log w)) w"

definition REBALANCE_NATIVE_TRANSFER_GAS_LIMIT :: nat where "REBALANCE_NATIVE_TRANSFER_GAS_LIMIT = 21000"
definition REBALANCE_TOKEN_TRANSFER_GAS_LIMIT :: nat where "REBALANCE_TOKEN_TRANSFER_GAS_LIMIT = 100000"
definition REBALANCE_WETH_WRAP_GAS_LIMIT :: nat where "REBALANCE_WETH_WRAP_GAS_LIMIT = 100000"
definition REBALANCE_WETH_WRAP_CONTEXT :: string where "REBALANCE_WETH_WRAP_CONTEXT = ''rebalance WETH wrap''"

definition gas_cap_check :: "string \<Rightarrow> nat option \<Rightarrow> nat \<Rightarrow> (string, unit) outcome" where
  "gas_cap_check what max_gas_gwei max_fee =
     (case max_gas_gwei of
        None \<Rightarrow> Ok ()
      | Some gwei \<Rightarrow> (let cap = gwei * WEI_PER_GWEI
                      in if max_fee > cap then Err (what @ '' max_fee_per_gas '' @ show_nat max_fee @ '' exceeds cap '' @ show_nat cap)
                         else Ok ()))"

text \<open>The fees of a rebalance transaction: the priority fee and the capped maximum fee.\<close>

definition rebalance_fees :: "rebalance_transfer \<Rightarrow> string \<Rightarrow> (string, nat \<times> nat) chain_call" where
  "rebalance_fees X what =
     seq (map_err chain_error_str (get_gas_price (rt_chain X))) (\<lambda>gas.
       let max_fee = get_max_fee gas MediumPriority DEFAULT_GAS_BUFFER_BPS
       in seq (lift_out (gas_cap_check what (rt_max_gas_gwei X) max_fee)) (\<lambda>_. ret (priority_fee_medium gas, max_fee)))"

definition buffered_gas_limit :: "nat \<Rightarrow> (string, nat) outcome" where
  "buffered_gas_limit estimated =
     bind_out (as_u64 (min U256_MAX (estimated * DEFAULT_GAS_BUFFER_BPS) div GAS_BPS_SCALE)) (\<lambda>g. Ok (max g MIN_GAS_LIMIT))"

text \<open>A failed estimate keeps the preset limit.\<close>

definition with_estimated_gas :: "rebalance_transfer \<Rightarrow> transaction_request \<Rightarrow> (string, transaction_request) chain_call" where
  "with_estimated_gas X tx =
     attempt (estimate_gas_of (rt_chain X) tx)
       (\<lambda>estimated. seq (lift_out (buffered_gas_limit estimated)) (\<lambda>g. ret (tx\<lparr>tr_gas_limit := Some g\<rparr>)))
       (\<lambda>_. ret tx)"

text \<open>Reserving a nonce, signing and sending; a failure of the last two gives the nonce back.\<close>

definition reserve_sign_send ::
  "rebalance_transfer \<Rightarrow> string \<Rightarrow> string \<Rightarrow> address \<Rightarrow> transaction_request \<Rightarrow> (string, string) chain_call" where
  "reserve_sign_send X sign_text send_text from tx =
     seq (map_err chain_error_str (reserve_nonce (rt_chain X) (rt_chain_id X) from)) (\<lambda>n.
       let undo = update (rollback_reserved_nonce (Some \<lparr>rn_chain_id = rt_chain_id X, rn_address = from, rn_nonce = n\<rparr>))
       in attempt (lift_out (sign_transaction_bytes (rt_wallet X) (tx\<lparr>tr_nonce := Some n\<rparr>)))
            (\<lambda>stx. attempt (send_transaction (rt_chain X) stx) ret
               (\<lambda>e. seq undo (\<lambda>_. throw (send_text @ chain_error_str e))))
            (\<lambda>e. seq undo (\<lambda>_. throw (sign_text @ e))))"

definition confirm_rebalance_tx :: "rebalance_transfer \<Rightarrow> string \<Rightarrow> string \<Rightarrow> (string, transaction_receipt) chain_call" where
  "confirm_rebalance_tx X what tx_hash =
     seq (map_err (\<lambda>e. what @ tx_hash @ '' confirmation failed: '' @ chain_error_str e)
            (wait_for_receipt (rt_chain X) tx_hash (rt_timeout_secs X) 2)) (\<lambda>receipt.
       if \<not> rc_status receipt then throw (what @ tx_hash @ '' reverted on-chain'') else ret receipt)"

definition wallet_sender :: "rebalance_transfer \<Rightarrow> (string, address) chain_call" where
  "wallet_sender X = (case wl_address (rt_wallet X) of Inr a \<Rightarrow> ret a | Inl e \<Rightarrow> throw (core_error_str e))"

definition rebalance_tx :: "rebalance_transfer \<Rightarrow> address \<Rightarrow> token_amount \<Rightarrow> bytes \<Rightarrow> nat \<Rightarrow> nat \<times> nat \<Rightarrow> transaction_request" where
  "rebalance_tx X to v data limit = (\<lambda>(prio, max_fee).
     \<lparr>tr_to = to, tr_value = v, tr_data = data, tr_nonce = None, tr_gas_limit = Some limit, tr_max_fee_per_gas = Some max_fee,
      tr_max_priority_fee = Some prio, tr_chain_id = rt_chain_id X\<rparr>)"

definition human_amount :: "exchange_lib \<Rightarrow> dec \<Rightarrow> nat \<Rightarrow> string \<Rightarrow> (string, token_amount) chain_call" where
  "human_amount L amount decimals symbol =
     or_core_error (from_human (xl_dec L) (\<lambda>s. ok_value (xl_from_str L s)) (xl_show_dec L amount) decimals (Some symbol))"

definition wrap_native_eth_for_rebalance :: "exchange_lib \<Rightarrow> rebalance_transfer \<Rightarrow> dec \<Rightarrow> (string, string) chain_call" where
  "wrap_native_eth_for_rebalance L X amount =
     seq (wallet_sender X) (\<lambda>from.
     seq (lift_out (rebalance_weth_token (rt_token_book X))) (\<lambda>token.
       if tc_decimals token \<noteq> ETH_DECIMALS
       then throw (''rebalance WETH token decimals '' @ show_nat (tc_decimals token) @ '' do not match expected '' @ show_nat ETH_DECIMALS)
       else
     seq (human_amount L amount ETH_DECIMALS ''ETH'') (\<lambda>wrap_value.
     seq (rebalance_fees X ''rebalance WETH wrap'') (\<lambda>fees.
       let tx = rebalance_tx X (tc_address token) wrap_value WETH_DEPOSIT_SELECTOR REBALANCE_WETH_WRAP_GAS_LIMIT fees;
           funded = (\<lambda>tx. wait_for_native_balance_for_rebalance L X from (ta_raw wrap_value) (snd fees)
                       (opt_or (tr_gas_limit tx) REBALANCE_WETH_WRAP_GAS_LIMIT) REBALANCE_WETH_WRAP_CONTEXT)
       in seq (funded tx) (\<lambda>_.
          seq (with_estimated_gas X tx) (\<lambda>tx.
          seq (funded tx) (\<lambda>_.
          seq (reserve_sign_send X ''rebalance WETH wrap sign failed: '' ''rebalance WETH wrap send failed: '' from tx) (\<lambda>tx_hash.
          seq (confirm_rebalance_tx X ''rebalance WETH wrap tx '' tx_hash) (\<lambda>_. ret tx_hash)))))))))"

definition withdraw_and_wait :: "exchange_lib \<Rightarrow> rebalance_transfer \<Rightarrow> withdraw_step \<Rightarrow> dec \<Rightarrow> (string, string) live_call" where
  "withdraw_and_wait L X wd send_amount =
     (let cex_asset = rebalance_cex_asset (ws_asset wd)
      in seq (at_exchange exchange_error_str
                (withdraw_to_address (rt_exchange X) cex_asset (rt_withdraw_address X) send_amount (rt_withdraw_network X))) (\<lambda>withdraw_id.
         seq (wait_for_binance_withdrawal X cex_asset withdraw_id) (\<lambda>rec.
           ret (''binance_withdraw:'' @ withdraw_id @ '' status='' @ show_int (tf_status rec) @ '' tx_id='' @ opt_or (tf_tx_id rec) []))))"

definition execute_cex_to_wallet_withdraw :: "exchange_lib \<Rightarrow> rebalance_transfer \<Rightarrow> withdraw_step \<Rightarrow> (string, string) live_call" where
  "execute_cex_to_wallet_withdraw L X wd =
     (let send_amount = dsub (xl_dec L) (ws_amount wd) (ws_fee wd); weth = eq_ignore_ascii_case (ws_asset wd) ''WETH''
      in if send_amount \<le> 0
         then throw (''withdraw amount '' @ xl_show_dec L (ws_amount wd) @ '' is not greater than fee '' @ xl_show_dec L (ws_fee wd))
         else if weth \<and> \<not> eq_ignore_ascii_case (rt_withdraw_address X) (rt_wallet_text X) then throw WETH_NEEDS_SIGNER
         else seq (verify_binance_withdrawal_capability L X wd send_amount) (\<lambda>_.
              seq (withdraw_and_wait L X wd send_amount) (\<lambda>reference.
                if weth then seq (on_chain (wrap_native_eth_for_rebalance L X send_amount)) (\<lambda>wrap_tx.
                       ret (reference @ '' wrapped_weth_tx='' @ wrap_tx))
                else ret reference)))"

section \<open>From the wallet to the exchange\<close>

text \<open>\<open>to_big_endian\<close> into 32 bytes.\<close>

definition big_endian :: "nat \<Rightarrow> nat \<Rightarrow> bytes" where
  "big_endian k n = map (\<lambda>i. n div 256 ^ (k - 1 - i) mod 256) [0..<k]"

definition erc20_transfer_calldata :: "address \<Rightarrow> nat \<Rightarrow> bytes" where
  "erc20_transfer_calldata to amount = [0xa9, 0x05, 0x9c, 0xbb] @ replicate 12 0 @ to @ big_endian 32 amount"

definition wallet_transfer_tx ::
  "exchange_lib \<Rightarrow> rebalance_transfer \<Rightarrow> withdraw_step \<Rightarrow> nat \<times> nat \<Rightarrow> (string, transaction_request) chain_call" where
  "wallet_transfer_tx L X wd fees =
     (if eq_ignore_ascii_case (ws_asset wd) ''ETH''
      then seq (human_amount L (ws_amount wd) ETH_DECIMALS ''ETH'') (\<lambda>v.
             ret (rebalance_tx X (rt_deposit_address X) v [] REBALANCE_NATIVE_TRANSFER_GAS_LIMIT fees))
      else case rt_token_book X (ws_asset wd) of
             None \<Rightarrow> throw (''asset '' @ ws_asset wd @ '' missing from rebalance token book'')
           | Some token \<Rightarrow>
               seq (human_amount L (ws_amount wd) (tc_decimals token) (ws_asset wd)) (\<lambda>amount.
                 ret (rebalance_tx X (tc_address token) (token_amount_eth 0)
                        (erc20_transfer_calldata (rt_deposit_address X) (ta_raw amount)) REBALANCE_TOKEN_TRANSFER_GAS_LIMIT fees)))"

definition NO_WETH_DEPOSIT :: string where
  "NO_WETH_DEPOSIT = ''Wallet'' @ [CHR 0xE2, CHR 0x86, CHR 0x92]
     @ ''CEX WETH rebalance requires unwrap-to-ETH before Binance deposit; refusing to send ERC-20 WETH to Binance''"

definition send_wallet_transfer :: "exchange_lib \<Rightarrow> rebalance_transfer \<Rightarrow> withdraw_step \<Rightarrow> (string, string \<times> transaction_receipt) chain_call" where
  "send_wallet_transfer L X wd =
     seq (wallet_sender X) (\<lambda>from.
       if eq_ignore_ascii_case (ws_asset wd) ''WETH'' then throw NO_WETH_DEPOSIT
       else seq (rebalance_fees X ''rebalance tx'') (\<lambda>fees.
            seq (wallet_transfer_tx L X wd fees) (\<lambda>tx.
            seq (with_estimated_gas X tx) (\<lambda>tx.
            seq (reserve_sign_send X [] [] from tx) (\<lambda>tx_hash.
            seq (confirm_rebalance_tx X ''wallet tx '' tx_hash) (\<lambda>receipt. ret (tx_hash, receipt)))))))"

definition execute_wallet_to_cex_transfer :: "exchange_lib \<Rightarrow> rebalance_transfer \<Rightarrow> withdraw_step \<Rightarrow> (string, string) live_call" where
  "execute_wallet_to_cex_transfer L X wd =
     seq (on_chain (send_wallet_transfer L X wd)) (\<lambda>(tx_hash, receipt).
     seq (wait_for_binance_deposit X (ws_asset wd) tx_hash) (\<lambda>deposit.
       ret (''wallet_tx:'' @ tx_hash @ '' confirmed_block='' @ show_nat (rc_block_number receipt) @ '' gas_used='' @ show_nat (rc_gas_used receipt)
              @ '' binance_deposit_status='' @ show_int (tf_status deposit))))"

section \<open>A step\<close>

definition execute_rebalance_step ::
  "rebalance_env \<Rightarrow> rebalance_transfer option \<Rightarrow> rat \<Rightarrow> rebalance_step \<Rightarrow> string rebalance_call" where
  "execute_rebalance_step E transfer min_fill_pct step =
     (case transfer of
        None \<Rightarrow> throw ''real rebalance transfer context is not configured''
      | Some X \<Rightarrow>
          (case step of
             Trade t \<Rightarrow> execute_rebalance_trade E X min_fill_pct t
           | Withdraw wd \<Rightarrow>
               (if is_cex (ws_from wd) \<and> ws_to wd = Wallet then on_live (execute_cex_to_wallet_withdraw (rv_lib E) X wd)
                else if ws_from wd = Wallet \<and> is_cex (ws_to wd) then on_live (execute_wallet_to_cex_transfer (rv_lib E) X wd)
                else throw (''unsupported rebalance withdraw route '' @ venue_str (ws_from wd) @ '' -> '' @ venue_str (ws_to wd)))))"

text \<open>The balances of the exchange against the tracker, after a fresh query.\<close>

definition fetch_and_verify :: "rebalance_env \<Rightarrow> rebalance_transfer \<Rightarrow> dec \<Rightarrow> balance_mismatch list option rebalance_call" where
  "fetch_and_verify E X tolerance b =
     (case fetch_balance (rt_exchange X) (lw_exchange (rb_live b)) of
        None \<Rightarrow> None
      | Some (x, r) \<Rightarrow>
          (let w = (rb_live b)\<lparr>lw_exchange := x\<rparr>; t = rv_others E w (rb_inventory b);
               answer = (case r of Ok m \<Rightarrow> Ok (rv_listing E m) | Err e \<Rightarrow> Err e | Panic \<Rightarrow> Panic)
           in if r = Panic then Some (b\<lparr>rb_live := w\<rparr>, Panic)
              else Some (b\<lparr>rb_live := w, rb_inventory := t\<rparr>, Ok (verify_cex_balance (xl_dec (rv_lib E)) answer tolerance t))))"

definition note_mismatch :: "rebalance_env \<Rightarrow> string \<Rightarrow> balance_mismatch \<Rightarrow> rebalance_state \<Rightarrow> rebalance_state" where
  "note_mismatch E path m b =
     emit_best_effort (on_mismatch m)
       (append_rebalance_journal E path (MismatchNoted (bm_venue m) (bm_asset m) (bm_tracked m) (bm_actual m) (bm_diff m)) b)"

definition verify_rebalance_after_step ::
  "rebalance_env \<Rightarrow> rebalance_transfer option \<Rightarrow> string \<Rightarrow> dec \<Rightarrow> rebalance_step \<Rightarrow> unit rebalance_call" where
  "verify_rebalance_after_step E transfer path tolerance step =
     (if tolerance \<le> 0 then ret ()
      else case step of
             Trade _ \<Rightarrow>
               (case transfer of
                  None \<Rightarrow> throw ''rebalance transfer context missing for post-trade verification''
                | Some X \<Rightarrow>
                    seq (fetch_and_verify E X tolerance) (\<lambda>answer.
                      case answer of
                        None \<Rightarrow> throw ''failed to fetch CEX balances for rebalance verification''
                      | Some ms \<Rightarrow>
                          (if ms = []
                           then update (append_rebalance_journal E path
                                  (PostStepVerified (rebalance_step_label (rv_lib E) step) None ''binance''))
                           else seq (update (\<lambda>b. (fold (note_mismatch E path) ms b)
                                  \<lparr>rb_halt := halt ''rebalance post-step balance mismatch'' (rb_halt b)\<rparr>)) (\<lambda>_.
                                throw ''rebalance post-step balance mismatch; bot halted''))))
           | Withdraw wd \<Rightarrow>
               update (append_rebalance_journal E path
                 (PostStepVerified (rebalance_step_label (rv_lib E) step) (Some (ws_asset wd)) ''transfer'')))"

section \<open>The check\<close>

definition resume_if :: "bool \<Rightarrow> rebalance_env \<Rightarrow> string \<Rightarrow> string \<Rightarrow> rebalance_state \<Rightarrow> rebalance_state" where
  "resume_if trading_paused E path key b = (if trading_paused then clear_rebalance_pause E path key b else b)"

text \<open>
  The steps of all plans in turn; \<open>n\<close> counts them.  In a dry run a rejected step is skipped and nothing is
  executed; in a live run the first rejection or failure ends the check.
\<close>

fun run_rebalance_steps ::
  "rebalance_env \<Rightarrow> rebalance_loop_config \<Rightarrow> rebalance_transfer option \<Rightarrow> string \<Rightarrow> bool \<Rightarrow> nat \<Rightarrow> (string \<times> rebalance_step) list
     \<Rightarrow> unit rebalance_call" where
  "run_rebalance_steps E cfg transfer key paused_here n [] = update (resume_if paused_here E (rl_journal_path cfg) key)"
| "run_rebalance_steps E cfg transfer key paused_here n ((asset, step) # rest) =
     (let L = rv_lib E; path = rl_journal_path cfg; jot = append_rebalance_journal E path; label = rebalance_step_label L step;
          finish = resume_if paused_here E path key
      in case validate_rebalance_step L cfg (rv_price E n) step of
           Panic \<Rightarrow> lift_out Panic
         | Err e \<Rightarrow>
             seq (update (\<lambda>b. emit_best_effort (RebalanceStepFailed asset label e) (jot (StepRejected key asset label e) b))) (\<lambda>_.
               if rl_dry_run cfg then run_rebalance_steps E cfg transfer key paused_here (Suc n) rest else update finish)
         | Ok _ \<Rightarrow>
             (if rl_dry_run cfg then run_rebalance_steps E cfg transfer key paused_here (Suc n) rest
              else seq (update (jot (StepStarted key asset label))) (\<lambda>_.
                attempt (execute_rebalance_step E transfer (rl_min_fill_pct cfg) step)
                  (\<lambda>reference.
                     seq (update (\<lambda>b. emit_best_effort (RebalanceStepCompleted asset label reference)
                            (jot (StepCompleted key asset label reference) b))) (\<lambda>_.
                     attempt (verify_rebalance_after_step E transfer path (rl_verify_tolerance_pct cfg) step)
                       (\<lambda>_. run_rebalance_steps E cfg transfer key paused_here (Suc n) rest)
                       (\<lambda>e. update (\<lambda>b. finish (jot (PostStepVerifyFailed key asset label e) b)))))
                  (\<lambda>e. update (\<lambda>b. finish (emit_best_effort (RebalanceStepFailed asset label e)
                         (jot (StepFailed key asset label e) b)))))))"

definition all_steps :: "(string \<times> rebalance_step list) list \<Rightarrow> (string \<times> rebalance_step) list" where
  "all_steps plans = concat (map (\<lambda>(asset, steps). map (Pair asset) steps) plans)"

definition rebalance_plans :: "rebalance_env \<Rightarrow> rebalance_loop_config \<Rightarrow> inventory_tracker \<Rightarrow> (string \<times> rebalance_step list) list" where
  "rebalance_plans E cfg t =
     (let L = rv_lib E
      in rv_plan_order E (plan_executable_all (xl_dec L) (xl_f64 L) (rv_venue_order E) (rv_assets E t)
           (rebalance_planner_new (xl_f64 L) t (rl_threshold_pct cfg)) (rl_quote_asset cfg) (rl_max_slippage_bps cfg)))"

text \<open>A plan is announced when its key is new.\<close>

definition announce_plan ::
  "rebalance_env \<Rightarrow> rebalance_loop_config \<Rightarrow> string \<Rightarrow> (string \<times> rebalance_step list) list \<Rightarrow> rebalance_state \<Rightarrow> rebalance_state" where
  "announce_plan E cfg key plans b =
     (if rb_active_key b = Some key then b
      else let steps = length (all_steps plans)
           in emit_best_effort (RebalanceTriggered (length plans) steps (rl_dry_run cfg) (rl_quote_asset cfg))
                (append_rebalance_journal E (rl_journal_path cfg)
                   (PlanGenerated key (length plans) steps (rl_dry_run cfg) (rl_quote_asset cfg)) (b\<lparr>rb_active_key := Some key\<rparr>)))"

definition pause_trading_for :: "rebalance_env \<Rightarrow> rebalance_loop_config \<Rightarrow> string \<Rightarrow> rebalance_state \<Rightarrow> rebalance_state" where
  "pause_trading_for E cfg key b =
     (let reason = ''rebalance active plan='' @ key
      in append_rebalance_journal E (rl_journal_path cfg) (TradingPaused key reason) (b\<lparr>rb_pause := Some reason\<rparr>))"

definition run_rebalance_check ::
  "rebalance_env \<Rightarrow> rebalance_loop_config \<Rightarrow> rebalance_transfer option \<Rightarrow> unit rebalance_call" where
  "run_rebalance_check E cfg transfer b =
     (let plans = rebalance_plans E cfg (rb_inventory b)
      in if plans = [] then Some (b\<lparr>rb_active_key := None\<rparr>, Ok ())
         else let key = rebalance_plan_key (rv_lib E) plans; b1 = announce_plan E cfg key plans b;
                  pausing = (\<not> rl_dry_run cfg \<and> rl_pause_trading cfg);
                  b2 = (if pausing then pause_trading_for E cfg key b1 else b1)
              in run_rebalance_steps E cfg transfer key pausing 0 (all_steps plans) b2)"

text \<open>One round of the loop: a halted bot ends it; a panic ends the task.\<close>

definition rebalance_round ::
  "rebalance_env \<Rightarrow> rebalance_loop_config \<Rightarrow> rebalance_transfer option \<Rightarrow> loop_control rebalance_call" where
  "rebalance_round E cfg transfer b =
     (if halted_flag (rb_halt b) then ret StopLoop b
      else seq (run_rebalance_check E cfg transfer) (\<lambda>_. ret ContinueLoop) b)"

end
