(* ===== verification/Rebalance_Safety.thy ===== *)
theory Rebalance_Safety
  imports Rebalance_Live
begin

text \<open>
  What the automatic rebalancer may do: every order, withdrawal and transaction of a check belongs to a step that
  passed the guards and goes to a configured address; the pause of the trading loop is released; the
  waiting loops end.  And where it fails its purpose: a verified trade never passes, and the plan for native ETH
  cannot be fulfilled on Arbitrum.
\<close>

section \<open>What a call sends\<close>

text \<open>
  \<open>moves p G H m R\<close>: in the live world \<open>p w\<close>, every POST request of the call \<open>m\<close> satisfies \<open>G\<close>, every raw transaction
  it broadcasts satisfies \<open>H\<close>, and a result satisfies \<open>R\<close>.
\<close>

named_theorems move_rules \<open>what calls send\<close>

definition sent :: "(http_request \<Rightarrow> bool) \<Rightarrow> (bytes \<Rightarrow> bool) \<Rightarrow> live_world \<Rightarrow> live_world \<Rightarrow> bool" where
  "sent G H w w' \<longleftrightarrow>
     (\<exists>es cs. hw_log (lw_exchange w') = hw_log (lw_exchange w) @ es \<and> (\<forall>q \<in> set (posts es). G q)
        \<and> w_log (lw_chain w') = w_log (lw_chain w) @ cs \<and> (\<forall>raw \<in> sends cs. H raw))"

definition moves ::
  "('w \<Rightarrow> live_world) \<Rightarrow> (http_request \<Rightarrow> bool) \<Rightarrow> (bytes \<Rightarrow> bool) \<Rightarrow> ('w, 'e, 'a) call \<Rightarrow> ('a \<Rightarrow> bool) \<Rightarrow> bool" where
  "moves p G H m R \<longleftrightarrow> (\<forall>w w' r. m w = Some (w', r) \<longrightarrow> sent G H (p w) (p w') \<and> (\<forall>a. r = Ok a \<longrightarrow> R a))"

lemma movesI:
  "(\<And>w w' r. m w = Some (w', r) \<Longrightarrow> sent G H (p w) (p w') \<and> (\<forall>a. r = Ok a \<longrightarrow> R a)) \<Longrightarrow> moves p G H m R"
  by (simp add: moves_def)

lemma movesD: "moves p G H m R \<Longrightarrow> m w = Some (w', r) \<Longrightarrow> sent G H (p w) (p w') \<and> (\<forall>a. r = Ok a \<longrightarrow> R a)"
  by (simp add: moves_def)

lemma moves_result: "moves p G H m R \<Longrightarrow> m w = Some (w', Ok a) \<Longrightarrow> R a"
  by (simp add: moves_def)

lemma sent_refl [simp]: "sent G H w w"
  by (simp add: sent_def posts_def)

lemma sent_trans: "sent G H w w1 \<Longrightarrow> sent G H w1 w2 \<Longrightarrow> sent G H w w2"
  unfolding sent_def by fastforce

lemma sent_mono: "sent G H w w' \<Longrightarrow> (\<And>q. G q \<Longrightarrow> G' q) \<Longrightarrow> (\<And>raw. H raw \<Longrightarrow> H' raw) \<Longrightarrow> sent G' H' w w'"
  unfolding sent_def by blast

lemma moves_mono:
  "moves p G H m R \<Longrightarrow> (\<And>q. G q \<Longrightarrow> G' q) \<Longrightarrow> (\<And>raw. H raw \<Longrightarrow> H' raw) \<Longrightarrow> (\<And>a. R a \<Longrightarrow> R' a) \<Longrightarrow> moves p G' H' m R'"
  unfolding moves_def using sent_mono by metis

lemma moves_pure [move_rules]:
  "R a \<Longrightarrow> moves p G H (ret a) R" "moves p G H (throw e) R" "(\<And>a. r = Ok a \<Longrightarrow> R a) \<Longrightarrow> moves p G H (lift_out r) R"
  by (auto simp: moves_def ret_def throw_def lift_out_def)

lemma moves_update [move_rules]: "(\<And>w. p (f w) = p w) \<Longrightarrow> R () \<Longrightarrow> moves p G H (update f) R"
  by (auto simp: moves_def update_def)

lemma moves_attempt [move_rules]:
  assumes "moves p G H m S" "\<And>a. S a \<Longrightarrow> moves p G H (f a) R" "\<And>e. moves p G H (g e) R"
  shows "moves p G H (attempt m f g) R"
proof (rule movesI)
  fix w w' r
  assume "attempt m f g w = Some (w', r)"
  then obtain w1 r1 where m: "m w = Some (w1, r1)"
    and k: "(case r1 of Ok a \<Rightarrow> f a w1 | Err e \<Rightarrow> g e w1 | Panic \<Rightarrow> Some (w1, Panic)) = Some (w', r)"
    by (auto simp: attempt_def split: option.splits)
  note first = movesD [OF assms(1) m]
  have "sent G H (p w1) (p w') \<and> (\<forall>a. r = Ok a \<longrightarrow> R a)"
  proof (cases r1)
    case (Ok a)
    with first have "S a" by simp
    from movesD [OF assms(2) [OF this]] k Ok show ?thesis by simp
  next
    case (Err e)
    with k movesD [OF assms(3) [of e]] show ?thesis by simp
  qed (use k in auto)
  with first show "sent G H (p w) (p w') \<and> (\<forall>a. r = Ok a \<longrightarrow> R a)" by (blast intro: sent_trans)
qed

lemma moves_seq [move_rules]:
  "moves p G H m S \<Longrightarrow> (\<And>a. S a \<Longrightarrow> moves p G H (f a) R) \<Longrightarrow> moves p G H (seq m f) R"
  unfolding seq_attempt by (rule moves_attempt [where S = S]) (auto intro: move_rules)

lemma moves_map_err [move_rules]: "moves p G H m R \<Longrightarrow> moves p G H (map_err h m) R"
  unfolding map_err_def by (rule moves_attempt [where S = R]) (auto intro: move_rules)

lemma moves_on_live [move_rules]: "moves (\<lambda>w. w) G H m R \<Longrightarrow> moves rb_live G H (on_live m) R"
  by (auto simp: moves_def on_live_def split: option.splits)

lemma moves_on_chain [move_rules]: "broadcasts H m R \<Longrightarrow> moves (\<lambda>w. w) G H (on_chain m) R"
  unfolding moves_def sent_def on_chain_def
  by (fastforce dest: broadcastsD simp: posts_def split: option.splits)

text \<open>A call of the exchange; its result is an answer of the exchange.\<close>

definition exchange_said :: "'a binance_call \<Rightarrow> 'a \<Rightarrow> bool" where
  "exchange_said m a \<longleftrightarrow> (\<exists>x x'. m x = Some (x', Ok a))"

lemma moves_at_exchange [move_rules]:
  fixes m :: "'a binance_call"
  assumes "\<exists>k. http_posts k G m"
  shows "moves (\<lambda>w. w) G H (at_exchange h m) (exchange_said m)"
proof (rule movesI)
  fix w w' r
  assume "at_exchange h m w = Some (w', r)"
  then obtain x r0 where x: "m (lw_exchange w) = Some (x, r0)" "w' = w\<lparr>lw_exchange := x\<rparr>" "r = Ok a \<Longrightarrow> r0 = Ok a" for a
    by (auto simp: at_exchange_def call_defs split: option.splits outcome.splits)
  from assms obtain k where "http_posts k G m" ..
  from http_postsD [OF this x(1)] x show "sent G H w w' \<and> (\<forall>a. r = Ok a \<longrightarrow> exchange_said m a)"
    by (auto simp: sent_def exchange_said_def)
qed

section \<open>The exchange calls of the rebalancer\<close>

lemma http_posts_mono: "http_posts k G m \<Longrightarrow> (\<And>q. G q \<Longrightarrow> G' q) \<Longrightarrow> http_posts k G' m"
  unfolding http_posts_def by meson

lemma http_posts_lift:
  "(\<And>a. r = Ok a \<Longrightarrow> http_posts k G (f a)) \<Longrightarrow> http_posts k G (seq (lift_out r) f)"
  by (auto simp: http_posts_def seq_def lift_out_def posts_def split: outcome.splits)

lemma http_posts_get:
  "http_posts (Suc (rt_max_retries (hc_retry (bn_http B)))) G (signed_json HttpGet B path query weight)"
  unfolding signed_json_def
  by (intro http_posts_then http_posts_fresh) (auto simp: signed_request_def split: sum.splits)

lemma http_posts_checked: "http_posts k G m \<Longrightarrow> http_posts k G (checked m parse)"
  unfolding checked_def by (rule http_posts_then)

text \<open>Reads post nothing.\<close>

lemma quiet_exchange:
  "\<exists>k. http_posts k G (binance_fetch_capital_config B)"
  "\<exists>k. http_posts k G (binance_fetch_withdrawal_history B asset)"
  "\<exists>k. http_posts k G (binance_fetch_deposit_history B asset tx)"
  "\<exists>k. http_posts k G (binance_fetch_balance B)"
  unfolding binance_fetch_capital_config_def binance_fetch_withdrawal_history_def binance_fetch_deposit_history_def
    binance_fetch_balance_def
  by (blast intro: http_posts_checked http_posts_then http_posts_get)+

lemma quiet_book: "http_posts 0 G (binance_fetch_order_book B symbol limit)"
proof -
  have "http_posts 0 G (\<lambda>w. Some (w, Ok (snapshot_of D symbol (t w) bs as)))" for D t bs as
    by (simp add: http_posts_def posts_def)
  then have "http_posts (0 + 0) G (binance_fetch_order_book B symbol limit)"
    unfolding binance_fetch_order_book_def
    by (intro http_posts_seq http_posts_checked http_posts_get_json) (auto split: prod.split)
  then show ?thesis by simp
qed

lemma http_posts_ioc:
  "\<exists>k. http_posts k (\<lambda>q. \<exists>f n. normalize_limit_order (bn_lib B) symbol amount price f = Ok n \<and> carries B order_path (ioc_query B symbol side n) q)
     (binance_create_limit_ioc_order B symbol side amount price)"
  unfolding binance_create_limit_ioc_order_def
  by (rule exI, rule http_posts_seq [OF http_posts_filters], rule http_posts_lift,
      rule http_posts_checked [OF http_posts_mono [OF http_posts_signed]]) blast

definition withdrawal_path :: string where
  "withdrawal_path = ''/sapi/v1/capital/withdraw/apply''"

definition withdrawal_query :: "binance_client \<Rightarrow> string \<Rightarrow> string \<Rightarrow> dec \<Rightarrow> string \<Rightarrow> string" where
  "withdrawal_query B asset addr amount network =
     ''coin='' @ to_uppercase asset @ ''&address='' @ addr @ ''&amount='' @ xl_show_dec (bn_lib B) amount
       @ ''&network='' @ network @ ''&'' @ recv_window B"

lemma http_posts_withdraw:
  "\<exists>k. http_posts k (carries B withdrawal_path (withdrawal_query B asset addr amount network))
     (binance_withdraw_to_address B asset addr amount network)"
  unfolding binance_withdraw_to_address_def withdrawal_path_def withdrawal_query_def
  using http_posts_checked [OF http_posts_signed] by blast

section \<open>Polling\<close>

lemma sent_sleep: "sent G H w (exchange_sleep secs w)"
  unfolding sent_def exchange_sleep_def http_emit_def
  by (intro exI [of _ "[HttpSlept secs]"] exI [of _ "[]"]) (simp add: posts_def)

lemma poll_transfer_moves:
  assumes "moves (\<lambda>w. w) G H fetch (\<lambda>_. True)"
  shows "moves (\<lambda>w. w) G H (poll_transfer X fetch decide late deadline) (\<lambda>_. True)"
proof (rule movesI)
  fix w w' r
  assume "poll_transfer X fetch decide late deadline w = Some (w', r)"
  then have "moves (\<lambda>w. w) G H fetch (\<lambda>_. True) \<longrightarrow> sent G H w w'"
  proof (rule poll_transfer.raw_induct
      [where P = "\<lambda>X fetch decide late deadline w res. moves (\<lambda>w. w) G H fetch (\<lambda>_. True) \<longrightarrow> sent G H w (fst res)"
        and y = "(w', r)", simplified fst_conv, rotated], goal_cases)
    case (1 poll X fetch decide late deadline w res)
    show ?case
    proof
      assume fetch: "moves (\<lambda>w. w) G H fetch (\<lambda>_. True)"
      from 1(2) obtain w1 r1 where r1: "fetch w = Some (w1, r1)" by (auto split: option.splits)
      with fetch have w1: "sent G H w w1" by (auto dest: movesD)
      show "sent G H w (fst res)"
      proof (cases "\<exists>rs. r1 = Ok rs \<and> decide rs = None \<and> \<not> deadline \<le> exchange_clock X w1")
        case True
        with 1(2) r1 have "poll X fetch decide late deadline (exchange_sleep (rt_poll_secs X) w1) = Some res" by auto
        with 1(1) fetch have "sent G H (exchange_sleep (rt_poll_secs X) w1) (fst res)" by blast
        with w1 show ?thesis by (blast intro: sent_trans sent_sleep)
      next
        case False
        with 1(2) r1 w1 show ?thesis by (auto split: outcome.splits option.splits if_splits)
      qed
    qed
  qed
  with assms show "sent G H w w' \<and> (\<forall>a. r = Ok a \<longrightarrow> True)" by simp
qed

lemma quiet_waits [move_rules]:
  assumes "rt_exchange X = exchange_client.Binance B"
  shows "moves (\<lambda>w. w) G H (wait_for_binance_withdrawal X asset i) (\<lambda>_. True)"
    and "moves (\<lambda>w. w) G H (wait_for_binance_deposit X asset tx) (\<lambda>_. True)"
proof -
  have "moves (\<lambda>w. w) G H (at_exchange h (fetch_withdrawal_history (rt_exchange X) asset)) (\<lambda>_. True)"
    "moves (\<lambda>w. w) G H (at_exchange h (fetch_deposit_history (rt_exchange X) asset t)) (\<lambda>_. True)" for h t
    using moves_mono [OF moves_at_exchange [OF quiet_exchange(2)]] moves_mono [OF moves_at_exchange [OF quiet_exchange(3)]] assms
    by auto
  from poll_transfer_moves [OF this(1)] poll_transfer_moves [OF this(2)]
  show "moves (\<lambda>w. w) G H (wait_for_binance_withdrawal X asset i) (\<lambda>_. True)"
    and "moves (\<lambda>w. w) G H (wait_for_binance_deposit X asset tx) (\<lambda>_. True)"
    unfolding wait_for_binance_withdrawal_def wait_for_binance_deposit_def moves_def by blast+
qed

section \<open>The transactions of the rebalancer\<close>

lemma quiet_chain [broadcast_rules]:
  "broadcasts G (get_balance C a) (\<lambda>_. True)"
  "broadcasts G (estimate_gas_of C t) (\<lambda>_. True)"
  unfolding get_balance_def estimate_gas_of_def
  by (auto intro!: broadcasts_seq [where S = "\<lambda>_. True"] broadcast_rules broadcasts_with_provider)

lemma broadcasts_native_balance_loop: "broadcasts G (native_balance_loop L X a required what start) (\<lambda>_. True)"
proof (rule broadcastsI)
  fix w w' r
  assume "native_balance_loop L X a required what start w = Some (w', r)"
  then have "\<exists>es. w_log w' = w_log w @ es \<and> (\<forall>raw \<in> sends es. G raw)"
  proof (rule native_balance_loop.raw_induct
      [where P = "\<lambda>L X a required what start w res. \<exists>es. w_log (fst res) = w_log w @ es \<and> (\<forall>raw \<in> sends es. G raw)"
        and y = "(w', r)", simplified fst_conv, rotated], goal_cases)
    case (1 loop L X a required what start w res)
    from 1(2) obtain w1 r1 where r1: "get_balance (rt_chain X) a w = Some (w1, r1)" by (auto split: option.splits)
    from broadcastsD [OF quiet_chain(1) this] obtain es where es: "w_log w1 = w_log w @ es" "\<forall>raw \<in> sends es. G raw" by blast
    let ?slept = "emit (Slept (of_nat (rt_poll_secs X))) w1"
    show ?case
    proof (cases "loop L X a required what start ?slept = Some res")
      case True
      from 1(1) [OF this] obtain es' where "w_log (fst res) = w_log w1 @ Slept (of_nat (rt_poll_secs X)) # es'" "\<forall>raw \<in> sends es'. G raw"
        by auto
      with es show ?thesis by (intro exI [of _ "es @ Slept (of_nat (rt_poll_secs X)) # es'"]) (auto simp: sends_iff)
    next
      case False
      with 1(2) r1 es show ?thesis by (auto split: outcome.splits if_splits)
    qed
  qed
  then show "(\<exists>es. w_log w' = w_log w @ es \<and> (\<forall>raw \<in> sends es. G raw)) \<and> (\<forall>a. r = Ok a \<longrightarrow> True)" by simp
qed

lemma broadcasts_native_wait [broadcast_rules]:
  "broadcasts G (wait_for_native_balance_for_rebalance L X a v max_fee limit what) (\<lambda>_. True)"
  unfolding wait_for_native_balance_for_rebalance_def by (rule broadcasts_read [OF broadcasts_native_balance_loop])

definition fee_capped :: "rebalance_transfer \<Rightarrow> nat \<Rightarrow> bool" where
  "fee_capped X max_fee \<longleftrightarrow> (\<forall>gwei. rt_max_gas_gwei X = Some gwei \<longrightarrow> max_fee \<le> gwei * WEI_PER_GWEI)"

text \<open>\<open>signed_payment X to v data raw\<close>: the bytes are a transaction signed by the wallet, on the configured chain and under the gas cap.\<close>

definition signed_payment :: "rebalance_transfer \<Rightarrow> address \<Rightarrow> nat \<Rightarrow> bytes \<Rightarrow> bytes \<Rightarrow> bool" where
  "signed_payment X to v data raw \<longleftrightarrow>
     (\<exists>tx fee. signs (rt_wallet X) tx raw \<and> tr_to tx = to \<and> ta_raw (tr_value tx) = v \<and> tr_data tx = data
        \<and> tr_chain_id tx = rt_chain_id X \<and> tr_max_fee_per_gas tx = Some fee \<and> fee_capped X fee)"

definition in_units :: "exchange_lib \<Rightarrow> dec \<Rightarrow> nat \<Rightarrow> nat \<Rightarrow> bool" where
  "in_units L amount decimals v \<longleftrightarrow>
     (\<exists>sy a. from_human (xl_dec L) (\<lambda>s. ok_value (xl_from_str L s)) (xl_show_dec L amount) decimals (Some sy) = Ok a \<and> ta_raw a = v)"

lemma broadcasts_fees: "broadcasts G (rebalance_fees X what) (\<lambda>fees. fee_capped X (snd fees))"
proof -
  have "broadcasts G (seq (lift_out (gas_cap_check what (rt_max_gas_gwei X) fee)) (\<lambda>_. ret (prio, fee))) (\<lambda>fees. fee_capped X (snd fees))"
    for prio fee
    by (rule broadcasts_seq [where S = "\<lambda>_. fee_capped X fee"])
      (auto intro!: broadcast_rules simp: gas_cap_check_def fee_capped_def Let_def split: option.splits if_splits)
  then show ?thesis
    unfolding rebalance_fees_def Let_def
    by (rule broadcasts_seq [OF broadcasts_map_err [OF quiet_client(3)]])
qed

lemma broadcasts_human_amount: "broadcasts G (human_amount L amount decimals sy) (\<lambda>a. in_units L amount decimals (ta_raw a))"
  unfolding human_amount_def or_core_error_def by (auto intro!: broadcast_rules simp: in_units_def)

definition same_transfer :: "transaction_request \<Rightarrow> transaction_request \<Rightarrow> bool" where
  "same_transfer tx tx' \<longleftrightarrow> (\<exists>g. tx' = tx\<lparr>tr_gas_limit := g\<rparr>)"

lemma broadcasts_estimated: "broadcasts G (with_estimated_gas X tx) (same_transfer tx)"
proof -
  have "same_transfer tx tx" unfolding same_transfer_def by (intro exI [of _ "tr_gas_limit tx"]) simp
  then show ?thesis
    unfolding with_estimated_gas_def
    by (intro broadcasts_attempt [OF quiet_chain(2)])
      (auto intro!: broadcasts_seq [where S = "\<lambda>_. True"] broadcast_rules simp: same_transfer_def)
qed

lemma broadcasts_reserve_sign_send:
  assumes "\<And>n raw. signs (rt_wallet X) (tx\<lparr>tr_nonce := Some n\<rparr>) raw \<Longrightarrow> G raw"
  shows "broadcasts G (reserve_sign_send X s t from tx) (\<lambda>_. True)"
  unfolding reserve_sign_send_def Let_def
  by (intro broadcasts_seq [where S = "\<lambda>_. True"] broadcasts_map_err broadcasts_reserve_nonce broadcasts_attempt [where S = G])
    (auto intro!: broadcasts_seq [where S = "\<lambda>_. True"] broadcast_rules
      broadcasts_attempt [OF broadcasts_send_transaction] dest: sign_transaction_bytes_Ok assms)

lemma broadcasts_confirm: "broadcasts G (confirm_rebalance_tx X what h) (\<lambda>_. True)"
  unfolding confirm_rebalance_tx_def
  by (auto intro!: broadcasts_seq [where S = "\<lambda>_. True"] broadcast_rules)

lemma broadcasts_sender: "broadcasts G (wallet_sender X) (\<lambda>_. True)"
  unfolding wallet_sender_def by (auto intro!: broadcast_rules split: sum.split)

lemmas rebalance_broadcasts =
  broadcasts_sender broadcasts_fees broadcasts_human_amount broadcasts_estimated broadcasts_confirm

section \<open>What a step may send\<close>

definition weth :: "string \<Rightarrow> bool" where
  "weth asset \<longleftrightarrow> eq_ignore_ascii_case asset ''WETH''"

text \<open>The capability check on an answer of the exchange.\<close>

definition capable :: "exchange_lib \<Rightarrow> rebalance_transfer \<Rightarrow> withdraw_step \<Rightarrow> bool" where
  "capable L X wd \<longleftrightarrow>
     (\<exists>configs coin network. exchange_said (fetch_capital_config (rt_exchange X)) configs \<and> coin \<in> set configs
        \<and> eq_ignore_ascii_case (cp_coin coin) (rebalance_cex_asset (ws_asset wd)) \<and> network \<in> set (cp_networks coin)
        \<and> eq_ignore_ascii_case (cn_network network) (rt_withdraw_network X) \<and> cn_withdraw_enable network
        \<and> cn_withdraw_min network \<le> dsub (xl_dec L) (ws_amount wd) (ws_fee wd) \<and> cn_withdraw_fee network \<le> ws_fee wd)"

text \<open>A POST request a step may make: its order, rounded to the filters of the exchange, or its withdrawal.\<close>

definition exchange_move :: "exchange_lib \<Rightarrow> rebalance_transfer \<Rightarrow> binance_client \<Rightarrow> rebalance_step \<Rightarrow> http_request \<Rightarrow> bool" where
  "exchange_move L X B step q \<longleftrightarrow>
     (case step of
        Trade t \<Rightarrow> ts_venue t = venue.Binance
          \<and> (\<exists>amount_f price_f f n. f64_of_dec (xl_f64 L) (ts_amount t) = Some amount_f
               \<and> normalize_limit_order (bn_lib B) (ts_symbol t) amount_f price_f f = Ok n
               \<and> carries B order_path (ioc_query B (ts_symbol t) (ts_side t) n) q)
      | Withdraw wd \<Rightarrow> is_cex (ws_from wd) \<and> ws_to wd = Wallet \<and> 0 < dsub (xl_dec L) (ws_amount wd) (ws_fee wd) \<and> capable L X wd
          \<and> carries B withdrawal_path (withdrawal_query B (rebalance_cex_asset (ws_asset wd)) (rt_withdraw_address X)
               (dsub (xl_dec L) (ws_amount wd) (ws_fee wd)) (rt_withdraw_network X)) q)"

text \<open>A transaction a step may broadcast: the wrapping of withdrawn ETH, or a payment to the deposit address.\<close>

definition wraps :: "exchange_lib \<Rightarrow> rebalance_transfer \<Rightarrow> dec \<Rightarrow> bytes \<Rightarrow> bool" where
  "wraps L X amount raw \<longleftrightarrow>
     (\<exists>token v. rebalance_weth_token (rt_token_book X) = Ok token \<and> in_units L amount ETH_DECIMALS v
        \<and> signed_payment X (tc_address token) v WETH_DEPOSIT_SELECTOR raw)"

definition deposits :: "exchange_lib \<Rightarrow> rebalance_transfer \<Rightarrow> withdraw_step \<Rightarrow> bytes \<Rightarrow> bool" where
  "deposits L X wd raw \<longleftrightarrow>
     (if eq_ignore_ascii_case (ws_asset wd) ''ETH''
      then \<exists>v. in_units L (ws_amount wd) ETH_DECIMALS v \<and> signed_payment X (rt_deposit_address X) v [] raw
      else \<exists>token v. rt_token_book X (ws_asset wd) = Some token \<and> in_units L (ws_amount wd) (tc_decimals token) v
             \<and> signed_payment X (tc_address token) 0 (erc20_transfer_calldata (rt_deposit_address X) v) raw)"

definition chain_move :: "exchange_lib \<Rightarrow> rebalance_transfer \<Rightarrow> rebalance_step \<Rightarrow> bytes \<Rightarrow> bool" where
  "chain_move L X step raw \<longleftrightarrow>
     (case step of
        Trade t \<Rightarrow> False
      | Withdraw wd \<Rightarrow>
          is_cex (ws_from wd) \<and> ws_to wd = Wallet \<and> weth (ws_asset wd) \<and> eq_ignore_ascii_case (rt_withdraw_address X) (rt_wallet_text X)
            \<and> wraps L X (dsub (xl_dec L) (ws_amount wd) (ws_fee wd)) raw
          \<or> ws_from wd = Wallet \<and> is_cex (ws_to wd) \<and> \<not> weth (ws_asset wd) \<and> deposits L X wd raw)"

lemma rebalance_tx_simps [simp]:
  "tr_to (rebalance_tx X to v data limit fees) = to" "tr_value (rebalance_tx X to v data limit fees) = v"
  "tr_data (rebalance_tx X to v data limit fees) = data" "tr_chain_id (rebalance_tx X to v data limit fees) = rt_chain_id X"
  "tr_max_fee_per_gas (rebalance_tx X to v data limit fees) = Some (snd fees)"
  by (simp_all add: rebalance_tx_def split: prod.split)

lemma payment_signed:
  assumes "signs (rt_wallet X) (tx'\<lparr>tr_nonce := n\<rparr>) raw" "same_transfer (rebalance_tx X to v data limit fees) tx'" "fee_capped X (snd fees)"
  shows "signed_payment X to (ta_raw v) data raw"
  using assms unfolding signed_payment_def same_transfer_def by (intro exI [of _ "tx'\<lparr>tr_nonce := n\<rparr>"] exI [of _ "snd fees"]) auto

lemma broadcasts_wrap: "broadcasts (wraps L X amount) (wrap_native_eth_for_rebalance L X amount) (\<lambda>_. True)"
proof -
  let ?G = "wraps L X amount"
  have send: "broadcasts ?G (reserve_sign_send X s t a tx') (\<lambda>_. True)"
    if "rebalance_weth_token (rt_token_book X) = Ok token" "in_units L amount ETH_DECIMALS (ta_raw v)" "fee_capped X (snd fees)"
      "same_transfer (rebalance_tx X (tc_address token) v WETH_DEPOSIT_SELECTOR limit fees) tx'" for token v fees limit tx' s t a
    using that by (intro broadcasts_reserve_sign_send) (auto simp: wraps_def dest: payment_signed)
  show ?thesis
    unfolding wrap_native_eth_for_rebalance_def Let_def
    by (rule broadcasts_seq [OF broadcasts_sender],
        rule broadcasts_seq [where S = "\<lambda>token. rebalance_weth_token (rt_token_book X) = Ok token"])
      (auto intro!: broadcasts_pure broadcasts_seq [OF broadcasts_human_amount] broadcasts_seq [OF broadcasts_fees]
        broadcasts_seq [OF broadcasts_native_wait] broadcasts_seq [OF broadcasts_estimated] broadcasts_seq [OF send]
        broadcasts_seq [OF broadcasts_confirm])
qed

lemma broadcasts_wallet_transfer_tx:
  assumes "fee_capped X (snd fees)"
  shows "broadcasts G (wallet_transfer_tx L X wd fees)
    (\<lambda>tx. \<forall>tx' n raw. same_transfer tx tx' \<longrightarrow> signs (rt_wallet X) (tx'\<lparr>tr_nonce := n\<rparr>) raw \<longrightarrow> deposits L X wd raw)"
  unfolding wallet_transfer_tx_def
  by (auto intro!: broadcasts_pure broadcasts_seq [OF broadcasts_human_amount] simp: deposits_def
      dest!: payment_signed [OF _ _ assms] split: option.split)
    (auto simp: token_amount_eth_def)

lemma broadcasts_send_wallet_transfer:
  "broadcasts (\<lambda>raw. \<not> weth (ws_asset wd) \<and> deposits L X wd raw) (send_wallet_transfer L X wd) (\<lambda>_. True)"
proof -
  let ?G = "\<lambda>raw. \<not> weth (ws_asset wd) \<and> deposits L X wd raw"
  have send: "broadcasts ?G (reserve_sign_send X s t a tx') (\<lambda>_. True)"
    if "\<not> eq_ignore_ascii_case (ws_asset wd) ''WETH''" "same_transfer tx tx'"
      "\<forall>tx' n raw. same_transfer tx tx' \<longrightarrow> signs (rt_wallet X) (tx'\<lparr>tr_nonce := n\<rparr>) raw \<longrightarrow> deposits L X wd raw" for tx tx' s t a
    using that by (intro broadcasts_reserve_sign_send) (auto simp: weth_def)
  show ?thesis
    unfolding send_wallet_transfer_def
    by (rule broadcasts_seq [OF broadcasts_sender])
      (auto intro!: broadcasts_pure broadcasts_seq [OF broadcasts_fees] broadcasts_seq [OF broadcasts_wallet_transfer_tx]
        broadcasts_seq [OF broadcasts_estimated] broadcasts_seq [OF send] broadcasts_seq [OF broadcasts_confirm])
qed

lemma capability_checked:
  assumes "validate_binance_withdrawal_capability L configs wd (dsub (xl_dec L) (ws_amount wd) (ws_fee wd)) (rt_withdraw_network X) = Ok u"
    and "exchange_said (fetch_capital_config (rt_exchange X)) configs"
  shows "capable L X wd"
  using assms unfolding validate_binance_withdrawal_capability_def capable_def Let_def
  by (auto simp: find_Some_iff not_less split: option.splits if_splits) (metis nth_mem)

lemma moves_verify_capability:
  assumes "rt_exchange X = exchange_client.Binance B"
  shows "moves (\<lambda>w. w) G H (verify_binance_withdrawal_capability L X wd (dsub (xl_dec L) (ws_amount wd) (ws_fee wd)))
    (\<lambda>_. capable L X wd)"
proof -
  have "\<exists>k. http_posts k G (fetch_capital_config (rt_exchange X))"
    using assms quiet_exchange(1) by simp
  from moves_at_exchange [OF this] show ?thesis
    unfolding verify_binance_withdrawal_capability_def
    by (rule moves_seq) (auto intro!: moves_pure dest: capability_checked)
qed

lemma moves_withdraw_and_wait:
  assumes "rt_exchange X = exchange_client.Binance B"
    and "\<And>q. carries B withdrawal_path (withdrawal_query B (rebalance_cex_asset (ws_asset wd)) (rt_withdraw_address X) amount
            (rt_withdraw_network X)) q \<Longrightarrow> G q"
  shows "moves (\<lambda>w. w) G H (withdraw_and_wait L X wd amount) (\<lambda>_. True)"
proof -
  have "\<exists>k. http_posts k G (withdraw_to_address (rt_exchange X) (rebalance_cex_asset (ws_asset wd)) (rt_withdraw_address X) amount (rt_withdraw_network X))"
    unfolding assms(1) withdraw_to_address.simps by (rule exE [OF http_posts_withdraw]) (blast intro: http_posts_mono assms(2))
  from moves_at_exchange [OF this] show ?thesis
    unfolding withdraw_and_wait_def Let_def
    by (rule moves_seq) (auto intro!: moves_pure moves_seq [OF quiet_waits(1) [OF assms(1)]])
qed

lemma moves_cex_to_wallet:
  assumes B: "rt_exchange X = exchange_client.Binance B" and route: "is_cex (ws_from wd)" "ws_to wd = Wallet"
  shows "moves (\<lambda>w. w) (exchange_move L X B (Withdraw wd)) (chain_move L X (Withdraw wd)) (execute_cex_to_wallet_withdraw L X wd) (\<lambda>_. True)"
    (is "moves _ ?G ?H _ _")
proof (cases "dsub (xl_dec L) (ws_amount wd) (ws_fee wd) \<le> 0
    \<or> weth (ws_asset wd) \<and> \<not> eq_ignore_ascii_case (rt_withdraw_address X) (rt_wallet_text X)")
  case False
  let ?amount = "dsub (xl_dec L) (ws_amount wd) (ws_fee wd)"
  have wrap: "moves (\<lambda>w. w) ?G ?H (on_chain (wrap_native_eth_for_rebalance L X ?amount)) (\<lambda>_. True)" if "weth (ws_asset wd)"
    using moves_mono [OF moves_on_chain [OF broadcasts_wrap, of "\<lambda>_. False"]] route that False by (force simp: chain_move_def)
  from False show ?thesis
    unfolding execute_cex_to_wallet_withdraw_def Let_def weth_def [symmetric]
    by (auto intro!: moves_pure moves_seq [OF moves_verify_capability [OF B]] moves_seq [OF moves_withdraw_and_wait [OF B]]
        moves_seq [OF wrap] simp: exchange_move_def route)
qed (auto simp: execute_cex_to_wallet_withdraw_def Let_def weth_def [symmetric] intro!: moves_pure)

lemma moves_wallet_to_cex:
  assumes B: "rt_exchange X = exchange_client.Binance B" and route: "ws_from wd = Wallet" "is_cex (ws_to wd)"
  shows "moves (\<lambda>w. w) (exchange_move L X B (Withdraw wd)) (chain_move L X (Withdraw wd)) (execute_wallet_to_cex_transfer L X wd) (\<lambda>_. True)"
    (is "moves _ ?G ?H _ _")
proof -
  have "moves (\<lambda>w. w) ?G ?H (on_chain (send_wallet_transfer L X wd)) (\<lambda>_. True)"
    using moves_mono [OF moves_on_chain [OF broadcasts_send_wallet_transfer, of "\<lambda>_. False"]] route by (force simp: chain_move_def)
  then show ?thesis
    unfolding execute_wallet_to_cex_transfer_def
    by (rule moves_seq) (auto intro!: moves_pure moves_seq [OF quiet_waits(2) [OF B]] split: prod.split)
qed

lemma checked_limit_amount: "checked_limit L t ob = Ok (amount_f, price_f) \<Longrightarrow> f64_of_dec (xl_f64 L) (ts_amount t) = Some amount_f"
  by (auto simp: checked_limit_def rebalance_f64_def bind_out_Ok_iff split: outcome.splits option.splits if_splits)

lemma moves_order:
  assumes B: "rt_exchange X = exchange_client.Binance B" and at: "ts_venue t = venue.Binance"
  shows "moves (\<lambda>w. w) (exchange_move L X B (Trade t)) H (place_rebalance_order L X t) (\<lambda>_. True)"
proof -
  have book: "\<exists>k. http_posts k G (fetch_book (rt_exchange X) (ts_symbol t) n)" for G n
    unfolding B fetch_book.simps by (rule exI [of _ 0], rule quiet_book)
  have ioc: "\<exists>k. http_posts k (exchange_move L X B (Trade t)) (limit_ioc_order (rt_exchange X) (ts_symbol t) (ts_side t) amount_f price_f)"
    if "checked_limit L t ob = Ok (amount_f, price_f)" for ob amount_f price_f
    unfolding B limit_ioc_order.simps
    by (rule exE [OF http_posts_ioc])
      (use checked_limit_amount [OF that] at in \<open>auto intro!: exI elim!: http_posts_mono simp: exchange_move_def\<close>)
  show ?thesis
    unfolding place_rebalance_order_def
    by (rule moves_seq [OF moves_at_exchange [OF book]], rule moves_seq [where S = "\<lambda>p. \<exists>ob. checked_limit L t ob = Ok p"])
      (auto intro!: moves_pure moves_mono [OF moves_at_exchange [OF ioc]])
qed

lemma moves_settle: "moves rb_live G H (settle_rebalance_order E fill t ord) (\<lambda>_. True)"
proof -
  have "moves rb_live G H (book_rebalance_trade E t ord) (\<lambda>_. True)"
    by (auto simp: moves_def book_rebalance_trade_def Let_def split: prod.splits)
  then show ?thesis
    unfolding settle_rebalance_order_def Let_def by (auto intro!: moves_pure moves_seq split: option.split)
qed

text \<open>Without a transfer context nothing is sent.\<close>

definition step_moves :: "rebalance_env \<Rightarrow> rebalance_transfer option \<Rightarrow> binance_client \<Rightarrow> rebalance_step \<Rightarrow> http_request \<Rightarrow> bool" where
  "step_moves E transfer B step q \<longleftrightarrow> (\<exists>X. transfer = Some X \<and> exchange_move (rv_lib E) X B step q)"

definition step_broadcasts :: "rebalance_env \<Rightarrow> rebalance_transfer option \<Rightarrow> rebalance_step \<Rightarrow> bytes \<Rightarrow> bool" where
  "step_broadcasts E transfer step raw \<longleftrightarrow> (\<exists>X. transfer = Some X \<and> chain_move (rv_lib E) X step raw)"

lemma moves_execute_step:
  assumes "\<And>X. transfer = Some X \<Longrightarrow> rt_exchange X = exchange_client.Binance B"
  shows "moves rb_live (step_moves E transfer B step) (step_broadcasts E transfer step) (execute_rebalance_step E transfer fill step) (\<lambda>_. True)"
proof (cases transfer)
  case (Some X)
  note B = assms [OF this]
  have moved: "step_moves E transfer B step = exchange_move (rv_lib E) X B step" "step_broadcasts E transfer step = chain_move (rv_lib E) X step"
    using Some by (auto simp: step_moves_def step_broadcasts_def fun_eq_iff)
  show ?thesis
    unfolding execute_rebalance_step_def execute_rebalance_trade_def moved
    by (auto simp: Some intro!: moves_pure moves_on_live moves_cex_to_wallet [OF B] moves_wallet_to_cex [OF B] moves_settle
        moves_seq [OF moves_on_live [OF moves_order [OF B]]] split: rebalance_step.split)
qed (simp add: execute_rebalance_step_def moves_pure)

lemma moves_fetch_and_verify:
  assumes "rt_exchange X = exchange_client.Binance B"
  shows "moves rb_live G H (fetch_and_verify E X tolerance) (\<lambda>_. True)"
proof (rule movesI)
  fix b b' r
  assume run: "fetch_and_verify E X tolerance b = Some (b', r)"
  then obtain x r0 where x: "binance_fetch_balance B (lw_exchange (rb_live b)) = Some (x, r0)" "rb_live b' = (rb_live b)\<lparr>lw_exchange := x\<rparr>"
    using assms by (auto simp: fetch_and_verify_def Let_def split: option.splits if_splits)
  from quiet_exchange(4) obtain k where "http_posts k G (binance_fetch_balance B :: (string \<rightharpoonup> normalized_balance) binance_call)" by blast
  from http_postsD [OF this x(1)] x(2) show "sent G H (rb_live b) (rb_live b') \<and> (\<forall>a. r = Ok a \<longrightarrow> True)"
    by (auto simp: sent_def)
qed

lemma keeps_live [simp]:
  "rb_live (append_rebalance_journal E path ev b) = rb_live b"
  "rb_live (emit_best_effort al b) = rb_live b"
  "rb_live (clear_rebalance_pause E path key b) = rb_live b"
  "rb_live (resume_if p E path key b) = rb_live b"
  "rb_live (note_mismatch E path m b) = rb_live b"
  by (simp_all add: append_rebalance_journal_def emit_best_effort_def clear_rebalance_pause_def resume_if_def note_mismatch_def)

lemma keeps_live_mismatches [simp]: "rb_live (fold (note_mismatch E path) ms b) = rb_live b"
  by (induction ms arbitrary: b) simp_all

lemma moves_verify:
  assumes "\<And>X. transfer = Some X \<Longrightarrow> rt_exchange X = exchange_client.Binance B"
  shows "moves rb_live G H (verify_rebalance_after_step E transfer path tolerance step) (\<lambda>_. True)"
  unfolding verify_rebalance_after_step_def
  by (auto intro!: moves_pure moves_update moves_seq [where S = "\<lambda>_. True"] moves_fetch_and_verify [OF assms]
      split: rebalance_step.split option.split)

section \<open>Guards\<close>

text \<open>What the guards of a step promise.\<close>

definition within_step_limits :: "dec_ops \<Rightarrow> rebalance_loop_config \<Rightarrow> (string \<Rightarrow> string + dec) \<Rightarrow> rebalance_step \<Rightarrow> bool" where
  "within_step_limits D cfg price step \<longleftrightarrow>
     (0 \<le> rl_min_fill_pct cfg \<and> rl_min_fill_pct cfg \<le> 1)
     \<and> (\<forall>a \<in> set (step_assets step). \<exists>x \<in> set (rl_allowed_assets cfg). lower x = lower a)
     \<and> (\<forall>v \<in> set (step_venues step). \<exists>x \<in> set (rl_allowed_venues cfg). lower x = lower (venue_str v))
     \<and> (rl_max_step_usd cfg > 0 \<longrightarrow> (\<exists>usd. rebalance_step_notional_usd D price step = Ok usd \<and> usd \<le> rl_max_step_usd cfg))"

lemma all_allowed_iff: "all_allowed msg names xs = Ok () \<longleftrightarrow> (\<forall>x \<in> set xs. \<exists>v \<in> set names. lower v = lower x)"
  by (induction xs) (auto simp: contains_ignore_ascii_case_def eq_ignore_ascii_case_def list_ex_iff)

lemma validate_rebalance_step_iff:
  "validate_rebalance_step L cfg price step = Ok () \<longleftrightarrow> within_step_limits (xl_dec L) cfg price step"
  unfolding validate_rebalance_step_def within_step_limits_def validate_rebalance_assets_def validate_rebalance_venues_def
  by (auto simp: bind_out_Ok_iff all_allowed_iff not_less)

lemma asset_usd_price_no_panic: "asset_usd_price D price asset \<noteq> Panic"
  by (auto simp: asset_usd_price_def Let_def split: sum.split)

lemma all_allowed_no_panic: "all_allowed msg names xs \<noteq> Panic"
  by (induction xs) auto

lemma validate_no_panic: "validate_rebalance_step L cfg price step \<noteq> Panic"
  unfolding validate_rebalance_step_def validate_rebalance_assets_def validate_rebalance_venues_def rebalance_step_notional_usd_def
  by (auto simp: bind_out_Panic_iff all_allowed_no_panic asset_usd_price_no_panic split: rebalance_step.splits)

section \<open>The whole check\<close>

text \<open>A step of the plan that a live check may execute.\<close>

definition approved :: "rebalance_env \<Rightarrow> rebalance_loop_config \<Rightarrow> (string \<times> rebalance_step) list \<Rightarrow> rebalance_step \<Rightarrow> bool" where
  "approved E cfg steps step \<longleftrightarrow>
     \<not> rl_dry_run cfg \<and> step \<in> snd ` set steps \<and> (\<exists>n. within_step_limits (xl_dec (rv_lib E)) cfg (rv_price E n) step)"

lemma moves_run:
  assumes "\<And>X. transfer = Some X \<Longrightarrow> rt_exchange X = exchange_client.Binance B" "set steps \<subseteq> set all"
  shows "moves rb_live (\<lambda>q. \<exists>step. approved E cfg all step \<and> step_moves E transfer B step q)
    (\<lambda>raw. \<exists>step. approved E cfg all step \<and> step_broadcasts E transfer step raw)
    (run_rebalance_steps E cfg transfer key p n steps) (\<lambda>_. True)" (is "moves _ ?G ?H _ _")
  using assms(2)
proof (induction steps arbitrary: n)
  case Nil
  then show ?case by (auto intro!: moves_update)
next
  case (Cons s steps)
  obtain asset step where s: "s = (asset, step)" by (cases s)
  note rest = Cons.IH [of "Suc n"]
  show ?case
  proof (cases "validate_rebalance_step (rv_lib E) cfg (rv_price E n) step = Ok () \<and> \<not> rl_dry_run cfg")
    case True
    then have ok: "approved E cfg all step"
      using Cons.prems s by (force simp: approved_def validate_rebalance_step_iff)
    have exec: "moves rb_live ?G ?H (execute_rebalance_step E transfer (rl_min_fill_pct cfg) step) (\<lambda>_. True)"
      by (rule moves_mono [OF moves_execute_step [OF assms(1)]]) (use ok in auto)
    from True show ?thesis
      unfolding s run_rebalance_steps.simps Let_def
      using rest Cons.prems
      by (auto intro!: moves_update moves_seq [where S = "\<lambda>_. True"] moves_attempt [OF exec]
          moves_attempt [OF moves_verify [OF assms(1)]])
  next
    case False
    then show ?thesis
      unfolding s run_rebalance_steps.simps Let_def
      using rest Cons.prems
      by (auto intro!: moves_update moves_pure moves_seq [where S = "\<lambda>_. True"] split: outcome.split)
  qed
qed

lemma keeps_live_preamble [simp]:
  "rb_live (announce_plan E cfg key plans b) = rb_live b" "rb_live (pause_trading_for E cfg key b) = rb_live b"
  by (simp_all add: announce_plan_def pause_trading_for_def Let_def)

definition prepared :: "rebalance_env \<Rightarrow> rebalance_loop_config \<Rightarrow> string \<Rightarrow> (string \<times> rebalance_step list) list \<Rightarrow> rebalance_state \<Rightarrow> rebalance_state" where
  "prepared E cfg key plans b =
     (if \<not> rl_dry_run cfg \<and> rl_pause_trading cfg then pause_trading_for E cfg key (announce_plan E cfg key plans b)
      else announce_plan E cfg key plans b)"

lemma prepared_live [simp]: "rb_live (prepared E cfg key plans b) = rb_live b"
  by (simp add: prepared_def)

lemma run_rebalance_check_steps:
  assumes "plans = rebalance_plans E cfg (rb_inventory b)" "plans \<noteq> []" "key = rebalance_plan_key (rv_lib E) plans"
  shows "run_rebalance_check E cfg transfer b
    = run_rebalance_steps E cfg transfer key (\<not> rl_dry_run cfg \<and> rl_pause_trading cfg) 0 (all_steps plans) (prepared E cfg key plans b)"
  using assms by (simp add: run_rebalance_check_def prepared_def Let_def)

text \<open>
  C15: the rebalancer moves funds only for approved steps and only to configured addresses.  Whatever the
  exchange, the chain and the other tasks do, every POST request of a check is the order of a trade at Binance or a
  withdrawal of the step's amount less its fee to the configured address, made after the exchange reported
  that it serves coin, network, amount and fee.  Every transaction it broadcasts, on the configured chain and under the
  gas cap, wraps the withdrawn ETH or pays the step's amount to the deposit address.  The step is always one of the
  current plan with its assets and venues on the allow-lists and its value within the limit; a dry run sends nothing.
\<close>

theorem rebalance_moves_guarded:
  assumes "run_rebalance_check E cfg transfer b = Some (b', r)"
    and "\<And>X. transfer = Some X \<Longrightarrow> rt_exchange X = exchange_client.Binance B"
  shows "sent (\<lambda>q. \<exists>step. approved E cfg (all_steps (rebalance_plans E cfg (rb_inventory b))) step \<and> step_moves E transfer B step q)
    (\<lambda>raw. \<exists>step. approved E cfg (all_steps (rebalance_plans E cfg (rb_inventory b))) step \<and> step_broadcasts E transfer step raw)
    (rb_live b) (rb_live b')"
proof (cases "rebalance_plans E cfg (rb_inventory b) = []")
  case True
  with assms(1) show ?thesis by (auto simp: run_rebalance_check_def Let_def)
next
  case False
  let ?plans = "rebalance_plans E cfg (rb_inventory b)"
  from movesD [OF moves_run [OF assms(2) order_refl]] assms(1) [unfolded run_rebalance_check_steps [OF refl False refl]]
  show ?thesis by fastforce
qed

section \<open>A sample check\<close>

text \<open>
  Two ETH in the wallet and none at the exchange: the plan sends one ETH to the deposit address.  The exchange is down, so
  the credit is never seen.
\<close>

definition down_env :: http_env where
  "down_env = flaky_env\<lparr>he_send := \<lambda>h q. Inl \<lparr>se_is_timeout = False, se_is_connect = False, se_message = ''down''\<rparr>\<rparr>"

definition sample_transfer_context :: rebalance_transfer where
  "sample_transfer_context =
     \<lparr>rt_exchange = exchange_client.Binance (binance_client_new sample_binance_config down_env sample_lib),
      rt_chain = sp_client sample_swapper, rt_wallet = sp_wallet sample_swapper, rt_wallet_text = ''0x03'',
      rt_withdraw_address = ''0x03'', rt_withdraw_network = ''ARBITRUM'', rt_deposit_address = replicate 20 9, rt_token_book = Map.empty,
      rt_chain_id = 1, rt_max_gas_gwei = Some 1, rt_timeout_secs = 30, rt_poll_secs = 1, rt_clock = (\<lambda>h. 0)\<rparr>"

definition sample_loop_config :: rebalance_loop_config where
  "sample_loop_config =
     \<lparr>rl_dry_run = False, rl_interval_secs = 60, rl_threshold_pct = 10, rl_quote_asset = ''USDC'', rl_max_slippage_bps = 50,
      rl_allowed_assets = [''ETH''], rl_allowed_venues = [''binance'', ''wallet''], rl_max_step_usd = 3000, rl_min_fill_pct = 1,
      rl_pause_trading = True, rl_verify_tolerance_pct = 1, rl_journal_path = ''j''\<rparr>"

definition sample_rebalance_env :: rebalance_env where
  "sample_rebalance_env =
     \<lparr>rv_lib = sample_lib, rv_price = (\<lambda>n p. Inr 2000), rv_others = (\<lambda>w t. t), rv_listing = (\<lambda>m. []),
      rv_venue_order = [venue.Binance, Wallet], rv_assets = (\<lambda>t. [''ETH'']), rv_plan_order = (\<lambda>ps. ps), rv_journal_ok = (\<lambda>b. True)\<rparr>"

definition eth_tracker :: "dec \<Rightarrow> inventory_tracker" where
  "eth_tracker x = (inventory_tracker_new [venue.Binance, Wallet] ARBITRUM_CHAIN_ID)
     \<lparr>balances := [(Wallet, ''ETH'') \<mapsto> \<lparr>vb_free = x, vb_locked = 0, vb_reserved = 0\<rparr>]\<rparr>"

definition sample_rebalance_state :: rebalance_state where
  "sample_rebalance_state =
     \<lparr>rb_live = \<lparr>lw_chain = sample_world, lw_exchange = sample_binance_world, lw_pending = Map.empty, lw_sink = None\<rparr>,
      rb_inventory = eth_tracker 2, rb_pause = None, rb_halt = halt_coordinator_new None, rb_alerts = [], rb_journal = [],
      rb_active_key = None\<rparr>"

definition eth_deposit :: "dec \<Rightarrow> rebalance_step" where
  "eth_deposit x = Withdraw \<lparr>ws_from = Wallet, ws_to = venue.Binance, ws_asset = ''ETH'', ws_amount = x, ws_fee = 5 / 1000\<rparr>"

lemma eth_totals: "total_or_zero exact_ops Wallet ''ETH'' (eth_tracker x) = x" "total_or_zero exact_ops venue.Binance ''ETH'' (eth_tracker x) = 0"
  "get_total exact_ops Wallet ''ETH'' (eth_tracker x) = Some x" "inv_venues (eth_tracker x) = [venue.Binance, Wallet]"
  by (simp_all add: total_or_zero_def get_total_def eth_tracker_def inventory_tracker_new_def)

text \<open>All ETH is in the wallet: the plan is to send half of it away, down to the operating balance.\<close>

lemma eth_plan:
  assumes "1 / 2 < x" "5 / 1000 < min (x / 2) (x - 1 / 2)" "threshold < 50"
  shows "plan_executable exact_ops exact_f64 [venue.Binance, Wallet] (rebalance_planner_new exact_f64 (eth_tracker x) threshold) ''ETH'' q slip
    = [eth_deposit (min (x / 2) (x - 1 / 2))]"
  using assms
  by (simp add: plan_executable_def rebalance_planner_new_def skew_def venue_share_def eth_totals Let_def surplus_deficit_def skew_amount_def
      venue_target_def min_balance_of_def min_operating_balance_def step_act_def is_cex_def withdraw_act_def transfer_fees_def fee_entry_def
      eth_deposit_def min_def)

lemma sample_lib_simps:
  "xl_dec sample_lib = exact_ops" "xl_f64 sample_lib = exact_f64" "rv_lib sample_rebalance_env = sample_lib"
  by (simp_all add: sample_lib_def sample_rebalance_env_def)

lemma sample_plans: "rebalance_plans sample_rebalance_env sample_loop_config (eth_tracker 2) = [(''ETH'', [eth_deposit 1])]"
proof -
  have "max_deviation_pct (skew exact_ops exact_f64 [venue.Binance, Wallet] ''ETH'' (eth_tracker 2)) = 50"
    by (simp add: skew_def venue_share_def eth_totals Let_def)
  moreover have "sk_asset (skew D F order a t) = a" for D F order a t
    by (simp add: skew_def Let_def)
  moreover have "rp_threshold_pct (rebalance_planner_new F t x) = x" "rp_tracker (rebalance_planner_new F t x) = t" for F t x
    by (simp_all add: rebalance_planner_new_def)
  ultimately show ?thesis
    using eth_plan [of 2 10 "''USDC''" 50]
    by (simp add: rebalance_plans_def plan_executable_all_def get_skews_def sample_lib_simps Let_def sample_loop_config_def)
      (simp add: sample_rebalance_env_def sample_lib_simps Let_def)
qed

lemma sample_step_valid: "validate_rebalance_step sample_lib sample_loop_config (rv_price sample_rebalance_env n) (eth_deposit 1) = Ok ()"
  unfolding validate_rebalance_step_iff within_step_limits_def
  by (auto simp: sample_loop_config_def eth_deposit_def step_assets_def step_venues_def sample_rebalance_env_def
      rebalance_step_notional_usd_def asset_usd_price_def eq_ignore_ascii_case_def lower_def lower_char_def Let_def sample_lib_def)

lemma sample_amount: "human_amount sample_lib 1 ETH_DECIMALS ''ETH'' w = Some (w, Ok \<lparr>ta_raw = 10 ^ 18, ta_decimals = 18, ta_symbol = Some ''ETH''\<rparr>)"
  by (simp add: human_amount_def or_core_error_def call_defs from_human_def from_human_dec_def sample_lib_def ok_value_def get_scale_def
      ETH_DECIMALS_def Let_def)

lemma sample_fees:
  "\<exists>es. rebalance_fees sample_transfer_context what \<lparr>w_log = h, w_nonces = m\<rparr> = Some (\<lparr>w_log = h @ es, w_nonces = m\<rparr>, Ok (2, 14))"
  by (simp add: rebalance_fees_def sample_transfer_context_def get_gas_price_def get_fee_history_gas_price_def swapper_run
      gas_price_from_fee_history_def average_u256_def U256_MAX_def get_max_fee_def GAS_BPS_SCALE_def DEFAULT_GAS_BUFFER_BPS_def
      u256_or_max_def priority_fee_def gas_cap_check_def WEI_PER_GWEI_def)

lemma sample_confirm: "\<exists>w' rc. confirm_rebalance_tx sample_transfer_context what tx_hash w = Some (w', Ok rc) \<and> sends (w_log w) \<subseteq> sends (w_log w')"
proof -
  have pending: "\<not> n_clock swap_node h + of_nat (max t (cc_timeout_secs (sp_client sample_swapper))) \<le> n_clock swap_node h" for t h
    by (simp add: sample_swapper_def max_def)
  have hash: "n_parse_hash swap_node x = Some [1]" for x by (simp add: swap_node_def sample_node_def)
  have receipt: "n_receipt swap_node h u x = Inr (Some \<lparr>er_transaction_hash = x, er_block_number = Some 8, er_status = Some 1,
       er_gas_used = Some 21000, er_effective_gas_price = Some 10, er_logs = [Some sample_transfer]\<rparr>)" for h u x
    by (simp add: swap_node_def)
  show ?thesis
    using pending [of "w_log w" "rt_timeout_secs sample_transfer_context"]
    by (simp add: confirm_rebalance_tx_def wait_for_receipt_def wait_loop.simps get_receipt_internal_def call_defs sample_with_provider
        sample_answers hash receipt from_ethers_def sample_transfer_context_def)
qed

lemma sample_sent:
  "\<exists>w' res. send_wallet_transfer sample_lib sample_transfer_context \<lparr>ws_from = Wallet, ws_to = venue.Binance, ws_asset = ''ETH'',
       ws_amount = 1, ws_fee = 5 / 1000\<rparr> sample_world = Some (w', Ok res) \<and> [0xf8] \<in> sends (w_log w')"
proof -
  let ?X = sample_transfer_context
  obtain es where fees: "rebalance_fees ?X ''rebalance tx'' \<lparr>w_log = [], w_nonces = nonce_manager_new\<rparr>
      = Some (\<lparr>w_log = es, w_nonces = nonce_manager_new\<rparr>, Ok (2, 14))"
    using sample_fees [of "''rebalance tx''" "[]"] by auto
  let ?tx = "rebalance_tx ?X (replicate 20 9) \<lparr>ta_raw = 10 ^ 18, ta_decimals = 18, ta_symbol = Some ''ETH''\<rparr> []
    REBALANCE_NATIVE_TRANSFER_GAS_LIMIT (2, 14)"
  have "\<exists>es'. with_estimated_gas ?X ?tx \<lparr>w_log = es, w_nonces = nonce_manager_new\<rparr>
      = Some (\<lparr>w_log = es @ es', w_nonces = nonce_manager_new\<rparr>, Ok (?tx\<lparr>tr_gas_limit := Some 120000\<rparr>))"
    by (simp add: with_estimated_gas_def estimate_gas_of_def sample_transfer_context_def swapper_run as_u64_def buffered_gas_limit_def
        DEFAULT_GAS_BUFFER_BPS_def GAS_BPS_SCALE_def MIN_GAS_LIMIT_def U256_MAX_def)
  then obtain es' where gas: "with_estimated_gas ?X ?tx \<lparr>w_log = es, w_nonces = nonce_manager_new\<rparr>
      = Some (\<lparr>w_log = es @ es', w_nonces = nonce_manager_new\<rparr>, Ok (?tx\<lparr>tr_gas_limit := Some 120000\<rparr>))" by blast
  have "\<exists>w' h. reserve_sign_send ?X [] [] (replicate 20 3) (?tx\<lparr>tr_gas_limit := Some 120000\<rparr>) \<lparr>w_log = es @ es', w_nonces = nonce_manager_new\<rparr>
      = Some (w', Ok h) \<and> [0xf8] \<in> sends (w_log w')"
    by (simp add: reserve_sign_send_def reserve_nonce_def nonce_manager_new_def get_nonce_def sample_transfer_context_def swapper_run as_u64_def
        reserve_next_def sign_transaction_bytes_def validate_request_def rebalance_tx_def MIN_GAS_LIMIT_def send_transaction_def sends_iff) blast
  then obtain w1 tx_hash where send: "reserve_sign_send ?X [] [] (replicate 20 3) (?tx\<lparr>tr_gas_limit := Some 120000\<rparr>)
      \<lparr>w_log = es @ es', w_nonces = nonce_manager_new\<rparr> = Some (w1, Ok tx_hash)" "[0xf8] \<in> sends (w_log w1)" by blast
  obtain w2 rc where confirm: "confirm_rebalance_tx ?X ''wallet tx '' tx_hash w1 = Some (w2, Ok rc)" "sends (w_log w1) \<subseteq> sends (w_log w2)"
    using sample_confirm by blast
  have from_eth: "\<not> eq_ignore_ascii_case ''ETH'' ''WETH''" "eq_ignore_ascii_case ''ETH'' ''ETH''"
    by (simp_all add: eq_ignore_ascii_case_def lower_def lower_char_def)
  have X: "wl_address (rt_wallet ?X) = Inr (replicate 20 3)" "rt_deposit_address ?X = replicate 20 9"
    by (simp_all add: sample_transfer_context_def sample_config)
  from send(2) confirm(2) have "[0xf8] \<in> sends (w_log w2)" by blast
  with fees gas send(1) confirm(1) from_eth show ?thesis
    by (simp add: send_wallet_transfer_def wallet_sender_def sample_world_def seq_def ret_def wallet_transfer_tx_def sample_amount X)
qed

lemma down_signed:
  "\<exists>w'. checked (signed_json method (binance_client_new sample_binance_config down_env sample_lib) path query weight) parse w
     = Some (w', Err (HttpError ''down''))"
proof -
  let ?B = "binance_client_new sample_binance_config down_env sample_lib"
  have "\<exists>q. signed_request method ?B path query (hw_log w) = Inr q"
    by (simp add: signed_request_def sign_request_def binance_client_new_def down_env_def flaky_env_def Let_def)
  then obtain q where q: "signed_request method ?B path query (hw_log w) = Inr q" by blast
  have env: "bn_env ?B = down_env" "bn_http ?B = sample_http"
    by (simp_all add: binance_client_new_def sample_http_def sample_binance_config_def)
  have "send_loop down_env sample_http weight (signed_request method ?B path query) 1 w
      = Some (w\<lparr>hw_log := hw_log w @ [HttpSent q]\<rparr>, Err (HttpError ''down''))"
    using q
    by (simp add: send_loop.simps [of _ _ _ _ "Suc 0"] send_pass_def sample_http_def down_env_def flaky_env_def Let_def
        is_retryable_def retry_config_default_def http_emit_def)
  then show ?thesis by (simp add: checked_def signed_json_def send_tracked_fresh_def seq_def env)
qed

lemma sample_deposit_unseen:
  "\<exists>w' e. wait_for_binance_deposit sample_transfer_context ''ETH'' tx_hash w = Some (w', Err e) \<and> lw_chain w' = lw_chain w"
proof -
  let ?B = "binance_client_new sample_binance_config down_env sample_lib"
  obtain x where "binance_fetch_deposit_history ?B ''ETH'' (Some tx_hash) (lw_exchange w) = Some (x, Err (HttpError ''down''))"
    unfolding binance_fetch_deposit_history_def using down_signed by blast
  then show ?thesis
    by (simp add: wait_for_binance_deposit_def poll_transfer.simps at_exchange_def call_defs sample_transfer_context_def)
qed

lemma sample_execution:
  assumes "rb_live b = rb_live sample_rebalance_state"
  shows "\<exists>w' e. execute_rebalance_step sample_rebalance_env (Some sample_transfer_context) fill (eth_deposit 1) b
      = Some (b\<lparr>rb_live := w'\<rparr>, Err e) \<and> [0xf8] \<in> sends (w_log (lw_chain w'))"
proof -
  let ?wd = "\<lparr>ws_from = Wallet, ws_to = venue.Binance, ws_asset = ''ETH'', ws_amount = 1, ws_fee = 5 / 1000\<rparr>"
  obtain w1 tx_hash rc where s: "send_wallet_transfer sample_lib sample_transfer_context ?wd sample_world = Some (w1, Ok (tx_hash, rc))"
    "[0xf8] \<in> sends (w_log w1)" using sample_sent by force
  let ?w1 = "(rb_live sample_rebalance_state)\<lparr>lw_chain := w1\<rparr>"
  obtain w2 e where d: "wait_for_binance_deposit sample_transfer_context ''ETH'' tx_hash ?w1 = Some (w2, Err e)" "lw_chain w2 = w1"
    using sample_deposit_unseen [of tx_hash ?w1] by auto
  have chain: "lw_chain (rb_live sample_rebalance_state) = sample_world"
    by (simp add: sample_rebalance_state_def)
  from s d assms show ?thesis
    by (simp add: execute_rebalance_step_def eth_deposit_def is_cex_def sample_lib_simps on_live_def execute_wallet_to_cex_transfer_def
        seq_def on_chain_def chain) (rule exI [of _ w2], simp)
qed

lemma all_steps_single: "all_steps [(a, [s])] = [(a, s)]"
  by (simp add: all_steps_def)

lemma sample_check:
  "\<exists>b'. run_rebalance_check sample_rebalance_env sample_loop_config (Some sample_transfer_context) sample_rebalance_state = Some (b', Ok ())
     \<and> [0xf8] \<in> sends (w_log (lw_chain (rb_live b')))"
proof -
  let ?E = sample_rebalance_env and ?cfg = sample_loop_config and ?plans = "[(''ETH'', [eth_deposit 1])]"
  define key where "key = rebalance_plan_key (rv_lib ?E) ?plans"
  let ?b = "prepared ?E ?cfg key ?plans sample_rebalance_state"
  let ?b1 = "append_rebalance_journal ?E (rl_journal_path ?cfg) (StepStarted key ''ETH'' (rebalance_step_label sample_lib (eth_deposit 1))) ?b"
  have inv: "rb_inventory sample_rebalance_state = eth_tracker 2" by (simp add: sample_rebalance_state_def)
  have "rb_live ?b1 = rb_live sample_rebalance_state" by simp
  from sample_execution [OF this] obtain w' e
    where "execute_rebalance_step ?E (Some sample_transfer_context) (rl_min_fill_pct ?cfg) (eth_deposit 1) ?b1
      = Some (?b1\<lparr>rb_live := w'\<rparr>, Err e)" "[0xf8] \<in> sends (w_log (lw_chain w'))" by blast
  moreover have "\<not> rl_dry_run ?cfg" by (simp add: sample_loop_config_def)
  ultimately show ?thesis
    using run_rebalance_check_steps [of ?plans ?E ?cfg sample_rebalance_state key] sample_step_valid
    by (simp add: inv sample_plans key_def all_steps_single sample_lib_simps attempt_def seq_def update_def Let_def)
qed

theorem rebalance_moves_guarded_witness:
  "\<exists>b'. run_rebalance_check sample_rebalance_env sample_loop_config (Some sample_transfer_context) sample_rebalance_state = Some (b', Ok ())
     \<and> [0xf8] \<in> sends (w_log (lw_chain (rb_live b'))) \<and> chain_move sample_lib sample_transfer_context (eth_deposit 1) [0xf8]
     \<and> approved sample_rebalance_env sample_loop_config [(''ETH'', eth_deposit 1)] (eth_deposit 1)"
proof -
  from sample_check obtain b' where run: "run_rebalance_check sample_rebalance_env sample_loop_config (Some sample_transfer_context)
      sample_rebalance_state = Some (b', Ok ())" and b': "[0xf8] \<in> sends (w_log (lw_chain (rb_live b')))" by blast
  let ?B = "binance_client_new sample_binance_config down_env sample_lib"
  have B: "rt_exchange X = exchange_client.Binance ?B" if "Some sample_transfer_context = Some X" for X
    using that by (auto simp: sample_transfer_context_def)
  have start: "w_log (lw_chain (rb_live sample_rebalance_state)) = []" "rb_inventory sample_rebalance_state = eth_tracker 2"
    by (simp_all add: sample_rebalance_state_def sample_world_def)
  from rebalance_moves_guarded [OF run B] b' have "approved sample_rebalance_env sample_loop_config [(''ETH'', eth_deposit 1)] (eth_deposit 1)
      \<and> step_broadcasts sample_rebalance_env (Some sample_transfer_context) (eth_deposit 1) [0xf8]"
    by (auto simp: sent_def start sample_plans all_steps_single approved_def)
  with run b' show ?thesis by (auto simp: step_broadcasts_def sample_lib_simps)
qed

section \<open>The pause\<close>

definition keeps_pause :: "'a rebalance_call \<Rightarrow> bool" where
  "keeps_pause m \<longleftrightarrow> (\<forall>b b' r. m b = Some (b', r) \<longrightarrow> rb_pause b' = rb_pause b)"

lemma keeps_pause_rules:
  "keeps_pause (ret a)" "keeps_pause (throw e)" "(\<And>b. rb_pause (f b) = rb_pause b) \<Longrightarrow> keeps_pause (update f)" "keeps_pause (on_live m)"
  by (auto simp: keeps_pause_def ret_def throw_def update_def on_live_def split: option.splits)

lemma keeps_pause_seq: "keeps_pause m \<Longrightarrow> (\<And>a. keeps_pause (f a)) \<Longrightarrow> keeps_pause (seq m f)"
  unfolding keeps_pause_def seq_def by (fastforce split: option.splits outcome.splits)

lemma pause_simps [simp]:
  "rb_pause (append_rebalance_journal E path ev b) = rb_pause b"
  "rb_pause (emit_best_effort al b) = rb_pause b"
  "rb_pause (note_mismatch E path m b) = rb_pause b"
  "rb_pause (resume_if p E path key b) = (if p then None else rb_pause b)"
  "rb_pause (announce_plan E cfg key plans b) = rb_pause b"
  "rb_pause (pause_trading_for E cfg key b) = Some (''rebalance active plan='' @ key)"
  by (simp_all add: append_rebalance_journal_def emit_best_effort_def resume_if_def clear_rebalance_pause_def note_mismatch_def
      announce_plan_def pause_trading_for_def Let_def)

lemma pause_mismatches [simp]: "rb_pause (fold (note_mismatch E path) ms b) = rb_pause b"
  by (induction ms arbitrary: b) simp_all

lemma keeps_pause_execute: "keeps_pause (execute_rebalance_step E transfer fill step)"
proof -
  have "keeps_pause (book_rebalance_trade E t ord)" for t ord
    by (auto simp: keeps_pause_def book_rebalance_trade_def Let_def split: prod.splits)
  then show ?thesis
    unfolding execute_rebalance_step_def execute_rebalance_trade_def settle_rebalance_order_def Let_def
    by (auto intro!: keeps_pause_rules keeps_pause_seq split: option.split rebalance_step.split)
qed

lemma keeps_pause_verify: "keeps_pause (verify_rebalance_after_step E transfer path tolerance step)"
proof -
  have "keeps_pause (fetch_and_verify E X tolerance)" for X
    by (auto simp: keeps_pause_def fetch_and_verify_def Let_def split: option.splits if_splits)
  then show ?thesis
    unfolding verify_rebalance_after_step_def
    by (auto intro!: keeps_pause_rules keeps_pause_seq split: option.split rebalance_step.split)
qed

text \<open>A run ends with the pause cleared if it was set for the run, and as it was otherwise; it never fails, but may panic.\<close>

definition pause_after :: "bool \<Rightarrow> string option \<Rightarrow> string option \<Rightarrow> (string, unit) outcome \<Rightarrow> bool" where
  "pause_after p old new r \<longleftrightarrow>
     (case r of Ok _ \<Rightarrow> new = (if p then None else old) | Err _ \<Rightarrow> False | Panic \<Rightarrow> new = old)"

lemma run_pause:
  "run_rebalance_steps E cfg transfer key p n steps b = Some (b', r) \<Longrightarrow> pause_after p (rb_pause b) (rb_pause b') r"
proof (induction steps arbitrary: n b)
  case Nil
  then show ?case by (auto simp: pause_after_def update_def)
next
  case (Cons s steps)
  obtain asset step where s: "s = (asset, step)" by (cases s)
  note exec = keeps_pause_execute [unfolded keeps_pause_def, rule_format]
  note verify = keeps_pause_verify [unfolded keeps_pause_def, rule_format]
  show ?case
    using Cons.prems
    by (cases "validate_rebalance_step (rv_lib E) cfg (rv_price E n) step")
      (auto simp: s Let_def attempt_def seq_def update_def lift_out_def split: outcome.splits option.splits if_splits
        dest!: Cons.IH exec verify, auto simp: pause_after_def split: outcome.splits)
qed

text \<open>
  C19: a rebalance check releases the trading pause it sets.  A check that starts without a pause never returns an error, and when it
  returns, after whatever step failed or was rejected, trading is no longer paused.  The one exception is a panic: it ends the
  rebalance task with the pause set (when pausing is configured), and then every later tick of the bot only announces the pause, for good.
\<close>

theorem rebalance_pause_released:
  assumes "run_rebalance_check E cfg transfer b = Some (b', r)" "rb_pause b = None"
  shows "case r of
      Ok _ \<Rightarrow> rb_pause b' = None
    | Err _ \<Rightarrow> False
    | Panic \<Rightarrow> if rl_dry_run cfg \<or> \<not> rl_pause_trading cfg then rb_pause b' = None
        else (\<exists>reason. rb_pause b' = Some reason
          \<and> (\<forall>T Ev sz pairs bot. bt_rebalance_pause bot = rb_pause b' \<longrightarrow> tick T Ev sz pairs bot = Some (announce_pause reason bot, Ok ())))"
proof (cases "rebalance_plans E cfg (rb_inventory b) = []")
  case True
  with assms show ?thesis by (auto simp: run_rebalance_check_def Let_def)
next
  case False
  from assms(1) [unfolded run_rebalance_check_steps [OF refl False refl], THEN run_pause] assms(2) show ?thesis
    by (auto simp: pause_after_def prepared_def tick_def split: outcome.splits if_splits)
qed

text \<open>A node whose gas estimate does not fit 64 bits.\<close>

definition huge_gas_node :: rpc_node where
  "huge_gas_node = swap_node\<lparr>n_estimate_gas := \<lambda>h u t f. Inr (2 ^ 64)\<rparr>"

definition huge_gas_context :: rebalance_transfer where
  "huge_gas_context = sample_transfer_context\<lparr>rt_chain := \<lparr>cc_rpc_urls = [''a''], cc_timeout_secs = 30, cc_max_retries = 0, cc_node = huge_gas_node\<rparr>\<rparr>"

lemma huge_provider:
  "with_provider (rt_chain huge_gas_context) q answer w = Some (emit (RpcCall 0 q) w,
     case answer huge_gas_node (w_log w) 0 of Inr v \<Rightarrow> Ok v | Inl e \<Rightarrow> Err (classify_rpc_error e))"
  by (subst with_provider_single) (simp_all add: huge_gas_context_def)

lemma huge_fees:
  "\<exists>es. rebalance_fees huge_gas_context what \<lparr>w_log = h, w_nonces = m\<rparr> = Some (\<lparr>w_log = h @ es, w_nonces = m\<rparr>, Ok (2, 14))"
proof -
  have "n_fee_history huge_gas_node h u n = Inr ([10], [[1, 2, 3]])" for h u n
    by (simp add: huge_gas_node_def sample_answers)
  moreover have "rt_max_gas_gwei huge_gas_context = Some 1"
    by (simp add: huge_gas_context_def sample_transfer_context_def)
  ultimately show ?thesis
    by (simp add: rebalance_fees_def get_gas_price_def get_fee_history_gas_price_def huge_provider call_defs emit_def Let_def
        gas_price_from_fee_history_def average_u256_def U256_MAX_def get_max_fee_def GAS_BPS_SCALE_def DEFAULT_GAS_BUFFER_BPS_def
        u256_or_max_def priority_fee_def gas_cap_check_def WEI_PER_GWEI_def)
qed

lemma huge_panic:
  assumes "rb_live b = rb_live sample_rebalance_state"
  shows "\<exists>b'. execute_rebalance_step sample_rebalance_env (Some huge_gas_context) fill (eth_deposit 1) b = Some (b', Panic)"
proof -
  let ?X = huge_gas_context
  obtain es where fees: "rebalance_fees ?X ''rebalance tx'' \<lparr>w_log = [], w_nonces = nonce_manager_new\<rparr>
      = Some (\<lparr>w_log = es, w_nonces = nonce_manager_new\<rparr>, Ok (2, 14))"
    using huge_fees [of "''rebalance tx''" "[]"] by auto
  have panic: "\<exists>w'. with_estimated_gas ?X tx w = Some (w', Panic)" for tx w
    by (simp add: with_estimated_gas_def estimate_gas_of_def huge_provider huge_gas_node_def call_defs as_u64_def)
  have X: "wl_address (rt_wallet ?X) = Inr (replicate 20 3)" "lw_chain (rb_live sample_rebalance_state) = \<lparr>w_log = [], w_nonces = nonce_manager_new\<rparr>"
    by (simp_all add: huge_gas_context_def sample_transfer_context_def sample_config sample_rebalance_state_def sample_world_def)
  have from_eth: "\<not> eq_ignore_ascii_case ''ETH'' ''WETH''" "eq_ignore_ascii_case ''ETH'' ''ETH''"
    by (simp_all add: eq_ignore_ascii_case_def lower_def lower_char_def)
  let ?wd = "\<lparr>ws_from = Wallet, ws_to = venue.Binance, ws_asset = ''ETH'', ws_amount = 1, ws_fee = 5 / 1000\<rparr>"
  let ?tx = "rebalance_tx ?X (rt_deposit_address ?X) \<lparr>ta_raw = 10 ^ 18, ta_decimals = 18, ta_symbol = Some ''ETH''\<rparr> []
    REBALANCE_NATIVE_TRANSFER_GAS_LIMIT (2, 14)"
  obtain w' where w': "with_estimated_gas ?X ?tx \<lparr>w_log = es, w_nonces = nonce_manager_new\<rparr> = Some (w', Panic)" using panic by blast
  have "send_wallet_transfer sample_lib ?X ?wd \<lparr>w_log = [], w_nonces = nonce_manager_new\<rparr> = Some (w', Panic)"
    using fees w' from_eth
    by (simp add: send_wallet_transfer_def wallet_sender_def seq_def ret_def wallet_transfer_tx_def sample_amount X(1))
  with assms show ?thesis
    by (simp add: execute_rebalance_step_def eth_deposit_def is_cex_def sample_lib_simps on_live_def execute_wallet_to_cex_transfer_def
        seq_def on_chain_def X(2))
qed

theorem rebalance_pause_released_witness:
  "\<exists>b' reason. run_rebalance_check sample_rebalance_env sample_loop_config (Some huge_gas_context) sample_rebalance_state = Some (b', Panic)
     \<and> rb_pause b' = Some reason
     \<and> (\<forall>T Ev sz pairs bot. bt_rebalance_pause bot = Some reason \<longrightarrow> tick T Ev sz pairs bot = Some (announce_pause reason bot, Ok ()))"
proof -
  let ?E = sample_rebalance_env and ?cfg = sample_loop_config and ?plans = "[(''ETH'', [eth_deposit 1])]"
  define key where "key = rebalance_plan_key (rv_lib ?E) ?plans"
  let ?b = "prepared ?E ?cfg key ?plans sample_rebalance_state"
  let ?b1 = "append_rebalance_journal ?E (rl_journal_path ?cfg) (StepStarted key ''ETH'' (rebalance_step_label sample_lib (eth_deposit 1))) ?b"
  have inv: "rb_inventory sample_rebalance_state = eth_tracker 2" "rb_pause sample_rebalance_state = None"
    by (simp_all add: sample_rebalance_state_def)
  have cfg: "\<not> rl_dry_run ?cfg" "rl_pause_trading ?cfg" by (simp_all add: sample_loop_config_def)
  have "rb_live ?b1 = rb_live sample_rebalance_state" by simp
  from huge_panic [OF this] obtain b'
    where "execute_rebalance_step ?E (Some huge_gas_context) (rl_min_fill_pct ?cfg) (eth_deposit 1) ?b1 = Some (b', Panic)" by blast
  with cfg have run: "run_rebalance_check ?E ?cfg (Some huge_gas_context) sample_rebalance_state = Some (b', Panic)"
    using run_rebalance_check_steps [of ?plans ?E ?cfg sample_rebalance_state key] sample_step_valid
    by (simp add: inv sample_plans key_def all_steps_single sample_lib_simps attempt_def seq_def update_def Let_def)
  from rebalance_pause_released [OF run inv(2)] cfg run show ?thesis by auto
qed

section \<open>Waiting ends\<close>

text \<open>
  What the polling loops rely on: a clock that does not run backwards, sleeps that last as long as asked, and a
  history query that returns.
\<close>

definition sound_exchange_clock :: "(http_history \<Rightarrow> rat) \<Rightarrow> bool" where
  "sound_exchange_clock clk \<longleftrightarrow> (\<forall>h e. clk h \<le> clk (h @ [e])) \<and> (\<forall>h d. clk h + of_nat d \<le> clk (h @ [HttpSlept d]))"

definition responsive :: "'a binance_call \<Rightarrow> bool" where
  "responsive m \<longleftrightarrow> (\<forall>x. \<exists>x' r. m x = Some (x', r))"

lemma exchange_clock_mono: "sound_exchange_clock clk \<Longrightarrow> clk h \<le> clk (h @ es)"
proof (induction es rule: rev_induct)
  case (snoc e es)
  then show ?case unfolding sound_exchange_clock_def by (metis append_assoc order_trans)
qed simp

lemma sent_clock: "sound_exchange_clock (rt_clock X) \<Longrightarrow> sent G H w w' \<Longrightarrow> exchange_clock X w \<le> exchange_clock X w'"
  by (auto simp: sent_def exchange_clock_def intro: exchange_clock_mono)

lemma poll_transfer_returns:
  assumes "sound_exchange_clock (rt_clock X)" "0 < rt_poll_secs X"
    and "moves (\<lambda>w. w) (\<lambda>_. True) (\<lambda>_. True) fetch (\<lambda>_. True)" "\<And>w. \<exists>w' r. fetch w = Some (w', r)"
  shows "deadline \<le> exchange_clock X w + of_nat k \<Longrightarrow> \<exists>w' r. poll_transfer X fetch decide late deadline w = Some (w', r)"
proof (induction k arbitrary: w)
  case 0
  from assms(4) obtain w1 r where r: "fetch w = Some (w1, r)" by blast
  with assms(3) have "sent (\<lambda>_. True) (\<lambda>_. True) w w1" by (auto dest: movesD)
  from sent_clock [OF assms(1) this] 0 have "deadline \<le> exchange_clock X w1" by simp
  with r show ?case by (subst poll_transfer.simps) (auto split: outcome.splits option.splits)
next
  case (Suc k)
  from assms(4) obtain w1 r where r: "fetch w = Some (w1, r)" by blast
  with assms(3) have "sent (\<lambda>_. True) (\<lambda>_. True) w w1" by (auto dest: movesD)
  note later = sent_clock [OF assms(1) this]
  have "exchange_clock X w1 + of_nat (rt_poll_secs X) \<le> exchange_clock X (exchange_sleep (rt_poll_secs X) w1)"
    using assms(1) by (simp add: exchange_clock_def exchange_sleep_def http_emit_def sound_exchange_clock_def)
  moreover have "(1 :: rat) \<le> of_nat (rt_poll_secs X)" using assms(2) by simp
  ultimately have "deadline \<le> exchange_clock X (exchange_sleep (rt_poll_secs X) w1) + of_nat k"
    using Suc.prems later by simp
  from Suc.IH [OF this] r show ?case by (subst poll_transfer.simps) (auto split: outcome.splits option.splits)
qed

lemma poll_transfer_verdict:
  assumes "poll_transfer X fetch decide late deadline w = Some (w', Ok rec)"
  shows "\<exists>x x' rs. fetch x = Some (x', Ok rs) \<and> decide rs = Some (Ok rec)"
proof -
  from assms have "snd (w', Ok rec :: (string, transfer_record) outcome) = Ok rec \<longrightarrow> (\<exists>x x' rs. fetch x = Some (x', Ok rs) \<and> decide rs = Some (Ok rec))"
  proof (rule poll_transfer.raw_induct [where
        P = "\<lambda>X fetch decide late deadline w res. snd res = Ok rec \<longrightarrow> (\<exists>x x' rs. fetch x = Some (x', Ok rs) \<and> decide rs = Some (Ok rec))"
        and y = "(w', Ok rec)", rotated], goal_cases)
    case (1 poll X fetch decide late deadline w res)
    then obtain w1 r1 where "fetch w = Some (w1, r1)" by (auto split: option.splits)
    with 1 show ?case by (auto split: outcome.splits option.splits if_splits) blast
  qed
  then show ?thesis by simp
qed

lemma find_Some_in: "find P xs = Some x \<Longrightarrow> x \<in> set xs \<and> P x"
  by (auto simp: find_Some_iff)

lemma at_exchange_Ok: "at_exchange h m w = Some (w', Ok a) \<Longrightarrow> exchange_said m a"
  by (auto simp: at_exchange_def map_err_Ok_iff exchange_said_def split: option.splits)

lemma at_exchange_returns: "responsive m \<Longrightarrow> \<exists>w' r. at_exchange h m w = Some (w', r)"
proof -
  assume "responsive m"
  then obtain x r where "m (lw_exchange w) = Some (x, r)" unfolding responsive_def by blast
  then show ?thesis by (cases r) (auto simp: at_exchange_def call_defs)
qed

text \<open>
  The rebalancer does not wait for ever.  With a sound clock, a poll interval of at least a second and a history query that
  returns, waiting for a withdrawal or a deposit returns; and a record it returns is in a history the exchange reported, belongs to the
  withdrawal or to the transaction, and is completed or credited.
\<close>

lemma rebalance_waits_end:
  assumes "rt_exchange X = exchange_client.Binance B" "sound_exchange_clock (rt_clock X)" "0 < rt_poll_secs X"
    and "responsive (binance_fetch_withdrawal_history B asset :: transfer_record list binance_call)"
    and "responsive (binance_fetch_deposit_history B asset (Some tx_hash) :: transfer_record list binance_call)"
  shows "(\<exists>w' r. wait_for_binance_withdrawal X asset i w = Some (w', r) \<and> (\<forall>rec. r = Ok rec \<longrightarrow>
           (\<exists>rs. exchange_said (binance_fetch_withdrawal_history B asset) rs \<and> rec \<in> set rs) \<and> tf_id rec = i \<and> withdrawal_completed rec))
    \<and> (\<exists>w' r. wait_for_binance_deposit X asset tx_hash w = Some (w', r) \<and> (\<forall>rec. r = Ok rec \<longrightarrow>
           (\<exists>rs. exchange_said (binance_fetch_deposit_history B asset (Some tx_hash)) rs \<and> rec \<in> set rs) \<and> deposit_of tx_hash rec \<and> deposit_credited rec))"
proof -
  let ?W = "at_exchange (\<lambda>e. ''failed to fetch Binance withdrawal history: '' @ exchange_error_str e) (binance_fetch_withdrawal_history B asset)"
  let ?D = "at_exchange (\<lambda>e. ''failed to fetch Binance deposit history: '' @ exchange_error_str e) (binance_fetch_deposit_history B asset (Some tx_hash))"
  have "deadline \<le> exchange_clock X w + of_nat (rt_timeout_secs X)" if "deadline = exchange_clock X w + of_nat (rt_timeout_secs X)" for deadline
    using that by simp
  note ends = poll_transfer_returns [OF assms(2,3) _ _ this [OF refl]]
  have quiet: "moves (\<lambda>w. w) (\<lambda>_. True) (\<lambda>_. True) ?W (\<lambda>_. True)" "moves (\<lambda>w. w) (\<lambda>_. True) (\<lambda>_. True) ?D (\<lambda>_. True)"
    using moves_mono [OF moves_at_exchange [OF quiet_exchange(2)]] moves_mono [OF moves_at_exchange [OF quiet_exchange(3)]] by simp_all
  note returned = at_exchange_returns [OF assms(4)] at_exchange_returns [OF assms(5)]
  have "\<exists>w' r. wait_for_binance_withdrawal X asset i w = Some (w', r)" "\<exists>w' r. wait_for_binance_deposit X asset tx_hash w = Some (w', r)"
    unfolding wait_for_binance_withdrawal_def wait_for_binance_deposit_def assms(1) fetch_withdrawal_history.simps fetch_deposit_history.simps
    by (rule ends [OF quiet(1) returned(1)], rule ends [OF quiet(2) returned(2)])
  moreover have "(\<exists>rs. exchange_said (binance_fetch_withdrawal_history B asset) rs \<and> rec \<in> set rs) \<and> tf_id rec = i \<and> withdrawal_completed rec"
    if "wait_for_binance_withdrawal X asset i w = Some (w', Ok rec)" for w' rec
    using poll_transfer_verdict [OF that [unfolded wait_for_binance_withdrawal_def assms(1) fetch_withdrawal_history.simps]]
    by (auto simp: withdrawal_verdict_def split: option.splits if_splits dest!: at_exchange_Ok find_Some_in)
  moreover have "(\<exists>rs. exchange_said (binance_fetch_deposit_history B asset (Some tx_hash)) rs \<and> rec \<in> set rs) \<and> deposit_of tx_hash rec \<and> deposit_credited rec"
    if "wait_for_binance_deposit X asset tx_hash w = Some (w', Ok rec)" for w' rec
    using poll_transfer_verdict [OF that [unfolded wait_for_binance_deposit_def assms(1) fetch_deposit_history.simps]]
    by (auto simp: deposit_verdict_def split: option.splits if_splits dest!: at_exchange_Ok find_Some_in)
  ultimately show ?thesis by metis
qed

definition patient_context :: rebalance_transfer where
  "patient_context = sample_transfer_context\<lparr>rt_clock := \<lambda>h. sum_list (map (\<lambda>e. case e of HttpSlept d \<Rightarrow> of_nat d | _ \<Rightarrow> 0) h)\<rparr>"

lemma rebalance_waits_end_witness:
  "\<exists>w' r. wait_for_binance_withdrawal patient_context ''ETH'' ''7'' (rb_live sample_rebalance_state) = Some (w', r)"
proof -
  let ?B = "binance_client_new sample_binance_config down_env sample_lib"
  have 1: "rt_exchange patient_context = exchange_client.Binance ?B" "0 < rt_poll_secs patient_context"
    by (simp_all add: patient_context_def sample_transfer_context_def)
  have 2: "sound_exchange_clock (rt_clock patient_context)"
    by (auto simp: sound_exchange_clock_def patient_context_def split: http_event.split)
  have 3: "responsive (binance_fetch_withdrawal_history ?B a :: transfer_record list binance_call)"
    "responsive (binance_fetch_deposit_history ?B a tx :: transfer_record list binance_call)" for a tx
    unfolding responsive_def binance_fetch_withdrawal_history_def binance_fetch_deposit_history_def using down_signed by blast+
  from rebalance_waits_end [OF 1(1) 2 1(2) 3, where i = "''7''" and w = "rb_live sample_rebalance_state"] show ?thesis by blast
qed

section \<open>Plan keys\<close>

text \<open>The key of a plan does not depend on the iteration order of the hash map.\<close>

lemma rebalance_plan_key_order:
  assumes "mset plans = mset plans'" "distinct (map fst plans)"
  shows "rebalance_plan_key L plans = rebalance_plan_key L plans'"
proof -
  have "distinct (map fst plans')" using assms by (metis mset_eq_imp_distinct_iff mset_map)
  with assms have "map_of plans x = Some y \<longleftrightarrow> map_of plans' x = Some y" for x y
    using mset_eq_setD [OF assms(1)] by (simp add: map_of_eq_Some_iff)
  then have "map_of plans = map_of plans'" by (intro ext) (metis not_None_eq)
  moreover have "sort (map fst plans) = sort (map fst plans')"
    using assms(1) by (intro properties_for_sort) simp_all
  ultimately show ?thesis by (simp add: rebalance_plan_key_def)
qed

section \<open>Where the rebalancer fails its purpose\<close>

text \<open>An order that fills less than the minimum stays filled at the exchange but is not booked.\<close>

lemma underfilled_order_unbooked:
  assumes "0 < or_amount_filled ord" "dec_of_f64 (xl_f64 (rv_lib E)) fill = Some ratio"
    "or_amount_filled ord < dmul (xl_dec (rv_lib E)) (ts_amount t) ratio"
  shows "\<exists>e. settle_rebalance_order E fill t ord b = Some (b, Err e)"
  using assms by (simp add: settle_rebalance_order_def throw_def Let_def)

text \<open>A transfer between exchange and wallet never changes the tracker; only a later balance synchronisation does.\<close>

lemma transfer_unbooked: "execute_rebalance_step E transfer fill (Withdraw wd) b = Some (b', r) \<Longrightarrow> rb_inventory b' = rb_inventory b"
  by (auto simp: execute_rebalance_step_def on_live_def throw_def split: option.splits if_splits)

text \<open>\<open>verify_cex_balance\<close> answers \<open>None\<close> both for a failed query and for balances that agree.\<close>

lemma verify_trade_never_passes:
  assumes "0 < tolerance"
  shows "verify_rebalance_after_step E transfer path tolerance (Trade t) b \<noteq> Some (b', Ok u)"
proof
  assume run: "verify_rebalance_after_step E transfer path tolerance (Trade t) b = Some (b', Ok u)"
  with assms obtain X b1 where "fetch_and_verify E X tolerance b = Some (b1, Ok (Some []))"
    by (auto simp: verify_rebalance_after_step_def seq_Ok_iff throw_def split: option.splits if_splits)
  then show False
    by (auto simp: fetch_and_verify_def verify_cex_balance_def Let_def split: option.splits outcome.splits if_splits)
qed

text \<open>
  C30: in a live run no step follows a trade.  With a positive verification tolerance the check after a trade never succeeds, even when
  the balances agree: so whatever the plan has left is dropped, and of a transfer between two exchanges, a sale and a purchase, only the
  sale is ever made.
\<close>

theorem live_trade_ends_plan:
  assumes "0 < rl_verify_tolerance_pct cfg" "\<not> rl_dry_run cfg"
  shows "run_rebalance_steps E cfg transfer key p n ((asset, Trade t) # rest) = run_rebalance_steps E cfg transfer key p n [(asset, Trade t)]"
proof -
  have verify: "attempt (verify_rebalance_after_step E transfer path (rl_verify_tolerance_pct cfg) (Trade t)) f g
      = attempt (verify_rebalance_after_step E transfer path (rl_verify_tolerance_pct cfg) (Trade t)) f' g"
    for path and f f' :: "unit \<Rightarrow> unit rebalance_call" and g
    using verify_trade_never_passes [OF assms(1)] by (auto simp: attempt_def fun_eq_iff split: option.splits outcome.splits)
  show ?thesis
    unfolding run_rebalance_steps.simps Let_def
    by (simp add: assms(2) verify [where f = "\<lambda>_. run_rebalance_steps E cfg transfer key p (Suc n) rest"
          and f' = "\<lambda>_. update (resume_if p E (rl_journal_path cfg) key)"] cong: outcome.case_cong)
qed

definition sample_sale :: rebalance_step where
  "sample_sale = cex_trade venue.Binance ''SELL'' ''LINK'' ''USDC'' 10 50"

definition sample_purchase :: rebalance_step where
  "sample_purchase = cex_trade venue.Bybit ''BUY'' ''LINK'' ''USDC'' 10 50"

theorem live_trade_ends_plan_witness:
  "step_act ''LINK'' ''USDC'' 50 venue.Binance venue.Bybit 10 = Some [sample_sale, sample_purchase]
   \<and> run_rebalance_steps sample_rebalance_env sample_loop_config (Some sample_transfer_context) ''k'' True 0
       [(''LINK'', sample_sale), (''LINK'', sample_purchase)] sample_rebalance_state
     = run_rebalance_steps sample_rebalance_env sample_loop_config (Some sample_transfer_context) ''k'' True 0
       [(''LINK'', sample_sale)] sample_rebalance_state"
proof -
  have "0 < rl_verify_tolerance_pct sample_loop_config" "\<not> rl_dry_run sample_loop_config" by (simp_all add: sample_loop_config_def)
  note ends = live_trade_ends_plan [OF this]
  obtain t where t: "sample_sale = Trade t" by (simp add: sample_sale_def cex_trade_def)
  have "step_act ''LINK'' ''USDC'' 50 venue.Binance venue.Bybit 10 = Some [sample_sale, sample_purchase]"
    by (simp add: sample_sale_def sample_purchase_def step_act_def is_cex_def eq_ignore_ascii_case_def lower_def lower_char_def)
  then show ?thesis unfolding t by (rule conjI) (rule fun_cong [OF ends])
qed

text \<open>On Arbitrum the exchange's ETH is booked as WETH, so the tracker never holds an entry for ETH at the exchange.\<close>

lemma exchange_eth_missing:
  assumes "chain_id t = ARBITRUM_CHAIN_ID"
  shows "balances (update_from_cex v bs t) (v, ''ETH'') = None"
proof -
  let ?put = "\<lambda>(asset, nb) m. m((v, cex_key (chain_id t) asset) \<mapsto> \<lparr>vb_free = nb_free nb, vb_locked = nb_locked nb,
      vb_reserved = old_reserved v (balances t) (cex_key (chain_id t) asset)\<rparr>)"
  have "cex_key (chain_id t) a \<noteq> ''ETH''" "''ETH'' \<noteq> cex_key (chain_id t) a" for a
    using assms by (auto simp: cex_key_def canonicalize_asset_def Let_def)
  then have "fold ?put bs m (v, ''ETH'') = m (v, ''ETH'')" for m :: balance_map
    by (induction bs arbitrary: m) (simp_all add: case_prod_unfold)
  then show ?thesis by (simp add: update_from_cex_def drop_venue_def)
qed

lemma other_balances_kept: "v' \<noteq> v \<Longrightarrow> balances (update_from_cex v bs t) (v', a) = balances t (v', a)"
proof -
  assume "v' \<noteq> v"
  then have "fold (\<lambda>(asset, nb) m. m((v, cex_key (chain_id t) asset) \<mapsto> f asset nb)) bs m (v', a) = m (v', a)" for m :: balance_map and f
    by (induction bs arbitrary: m) (auto simp: case_prod_unfold)
  with \<open>v' \<noteq> v\<close> show ?thesis by (simp add: update_from_cex_def drop_venue_def)
qed

lemma plan_executable_cong:
  assumes "inv_venues t = inv_venues t'" "\<And>v. get_total D v asset t = get_total D v asset t'"
  shows "plan_executable D F order (rebalance_planner_new F t thr) asset q slip = plan_executable D F order (rebalance_planner_new F t' thr) asset q slip"
proof -
  have sk: "skew D F order asset t = skew D F order asset t'"
    unfolding skew_def venue_share_def total_or_zero_def assms ..
  show ?thesis
    by (simp only: plan_executable_def surplus_deficit_def venue_target_def rebalance_planner_new_def rebalance_planner.simps Let_def assms sk)
qed



end
